(* ===== verification/Prelude.thy ===== *)
theory Prelude
  imports Main "HOL-Library.Word"
begin

text \<open>
  Shared vocabulary of the development: the widths of the C integers, the faults a
  process of the program can die of, sequencing of steps that may fault, bounds-checked
  array access, C strings in fixed-size buffers, and the linear searches that the
  program writes as \<open>for\<close> loops with a \<open>break\<close>.
\<close>

unbundle bit_operations_syntax

type_synonym u8 = "8 word"
type_synonym u16 = "16 word"
type_synonym u32 = "32 word"
type_synonym u64 = "64 word"

named_theorems fault_simps \<open>rewriting of runs that do or do not fault\<close>

section \<open>Faults\<close>

text \<open>
  \<open>OutOfBounds\<close> is an access past an array or a shared segment, \<open>DivByZero\<close> an integer
  division by zero (SIGFPE), \<open>WildPointer\<close> a use of an uninitialised pointer, and
  \<open>Blocked\<close> a \<open>semop\<close> that the calling process itself keeps from returning.
\<close>

datatype fault = OutOfBounds | DivByZero | WildPointer | Blocked

definition andThen :: "'e + 'a \<Rightarrow> ('a \<Rightarrow> 'e + 'b) \<Rightarrow> 'e + 'b" where
  "andThen r f = (case r of Inl e \<Rightarrow> Inl e | Inr x \<Rightarrow> f x)"

lemma andThen_simps [simp, fault_simps]:
  "andThen (Inl e) f = Inl e"
  "andThen (Inr x) f = f x"
  by (simp_all add: andThen_def)

lemma andThen_eq_Inr_iff: "andThen r f = Inr y \<longleftrightarrow> (\<exists>x. r = Inr x \<and> f x = Inr y)"
  by (cases r) auto

lemma andThen_eq_Inl_iff:
  "andThen r f = Inl e \<longleftrightarrow> r = Inl e \<or> (\<exists>x. r = Inr x \<and> f x = Inl e)"
  by (cases r) auto

lemma andThen_assoc: "andThen (andThen r f) g = andThen r (\<lambda>x. andThen (f x) g)"
  by (cases r) auto

lemma andThen_cong [fundef_cong]:
  "r = r' \<Longrightarrow> (\<And>x. r' = Inr x \<Longrightarrow> f x = f' x) \<Longrightarrow> andThen r f = andThen r' f'"
  by (cases r') auto

definition total :: "'e + 'a \<Rightarrow> bool" where
  "total r \<longleftrightarrow> (\<exists>x. r = Inr x)"

lemma total_simps [simp]: "total (Inr x)" "\<not> total (Inl e)"
  by (simp_all add: total_def)

section \<open>Arrays\<close>

text \<open>\<open>xs[i]\<close> read and written as C does it, with the access outside the array made visible.\<close>

definition rd :: "'a list \<Rightarrow> nat \<Rightarrow> fault + 'a" where
  "rd xs i = (if i < length xs then Inr (xs ! i) else Inl OutOfBounds)"

definition wr :: "'a list \<Rightarrow> nat \<Rightarrow> 'a \<Rightarrow> fault + 'a list" where
  "wr xs i x = (if i < length xs then Inr (xs[i := x]) else Inl OutOfBounds)"

lemma rd_in [simp, fault_simps]: "i < length xs \<Longrightarrow> rd xs i = Inr (xs ! i)"
  by (simp add: rd_def)

lemma rd_out [simp, fault_simps]: "length xs \<le> i \<Longrightarrow> rd xs i = Inl OutOfBounds"
  by (simp add: rd_def)

lemma rd_eq_Inr_iff: "rd xs i = Inr x \<longleftrightarrow> i < length xs \<and> xs ! i = x"
  by (auto simp: rd_def)

lemma rd_eq_Inl_iff: "rd xs i = Inl e \<longleftrightarrow> length xs \<le> i \<and> e = OutOfBounds"
  by (auto simp: rd_def)

lemma wr_in [simp, fault_simps]: "i < length xs \<Longrightarrow> wr xs i x = Inr (xs[i := x])"
  by (simp add: wr_def)

lemma wr_out [simp, fault_simps]: "length xs \<le> i \<Longrightarrow> wr xs i x = Inl OutOfBounds"
  by (simp add: wr_def)

lemma wr_eq_Inr_iff: "wr xs i x = Inr ys \<longleftrightarrow> i < length xs \<and> ys = xs[i := x]"
  by (auto simp: wr_def)

section \<open>Linear search\<close>

text \<open>\<open>for (i = 0; i < n; i++) if (P (xs[i])) { r = i; break; }\<close>\<close>

fun first_idx :: "('a \<Rightarrow> bool) \<Rightarrow> 'a list \<Rightarrow> nat option" where
  "first_idx P [] = None"
| "first_idx P (x # xs) = (if P x then Some 0 else map_option Suc (first_idx P xs))"

lemma first_idx_None_iff: "first_idx P xs = None \<longleftrightarrow> (\<forall>x \<in> set xs. \<not> P x)"
  by (induction xs) auto

lemma first_idx_SomeD:
  "first_idx P xs = Some i \<Longrightarrow> i < length xs \<and> P (xs ! i) \<and> (\<forall>j < i. \<not> P (xs ! j))"
proof (induction xs arbitrary: i)
  case Nil
  then show ?case by simp
next
  case (Cons x xs)
  show ?case
  proof (cases "P x")
    case True
    with Cons.prems show ?thesis by simp
  next
    case False
    with Cons.prems obtain k where "first_idx P xs = Some k" "i = Suc k" by auto
    with Cons.IH [of k] False show ?thesis by (auto simp: nth_Cons split: nat.splits)
  qed
qed

lemma first_idx_SomeI:
  "i < length xs \<Longrightarrow> P (xs ! i) \<Longrightarrow> (\<And>j. j < i \<Longrightarrow> \<not> P (xs ! j)) \<Longrightarrow> first_idx P xs = Some i"
proof (induction xs arbitrary: i)
  case Nil
  then show ?case by simp
next
  case (Cons x xs)
  show ?case
  proof (cases i)
    case 0
    with Cons.prems show ?thesis by simp
  next
    case (Suc k)
    have "\<not> P x" using Cons.prems(3) [of 0] Suc by simp
    moreover have "first_idx P xs = Some k"
    proof (rule Cons.IH)
      show "k < length xs" "P (xs ! k)" using Cons.prems(1,2) Suc by auto
      show "\<And>j. j < k \<Longrightarrow> \<not> P (xs ! j)" using Cons.prems(3) [of "Suc j" for j] Suc by fastforce
    qed
    ultimately show ?thesis using Suc by simp
  qed
qed

lemma first_idx_Some_length: "first_idx P xs = Some i \<Longrightarrow> i < length xs"
  by (drule first_idx_SomeD) simp

lemma first_idx_replicate [simp]:
  "first_idx P (replicate n x) = (if 0 < n \<and> P x then Some 0 else None)"
  by (cases n) (auto simp: first_idx_None_iff)

text \<open>
  The same loop over the first \<open>n\<close> elements of a shared segment, whose length the loop
  does not know.
\<close>

definition scan :: "('a \<Rightarrow> bool) \<Rightarrow> nat \<Rightarrow> 'a list \<Rightarrow> fault + nat option" where
  "scan P n xs =
     (case first_idx P (take n xs) of
        Some i \<Rightarrow> Inr (Some i)
      | None \<Rightarrow> if length xs < n then Inl OutOfBounds else Inr None)"

lemma scan_full [simp]: "n = length xs \<Longrightarrow> scan P n xs = Inr (first_idx P xs)"
  by (simp add: scan_def split: option.splits)

lemma scan_enough: "n \<le> length xs \<Longrightarrow> scan P n xs = Inr (first_idx P (take n xs))"
  by (simp add: scan_def split: option.splits)

text \<open>\<open>memcpy (dst, src, n * sizeof (T))\<close> between two segments.\<close>

definition memcpy :: "'a list \<Rightarrow> 'a list \<Rightarrow> nat \<Rightarrow> fault + 'a list" where
  "memcpy dst src n =
     (if n \<le> length src \<and> n \<le> length dst then Inr (take n src @ drop n dst) else Inl OutOfBounds)"

lemma memcpy_in [simp]:
  "n \<le> length src \<Longrightarrow> n \<le> length dst \<Longrightarrow> memcpy dst src n = Inr (take n src @ drop n dst)"
  by (simp add: memcpy_def)

text \<open>Copying the elements that are not dropped to the front of a segment, one by one.\<close>

definition copy_unless :: "('a \<Rightarrow> bool) \<Rightarrow> 'a list \<Rightarrow> 'a list \<Rightarrow> nat \<Rightarrow> fault + 'a list" where
  "copy_unless P dst src n =
     (let kept = filter (\<lambda>x. \<not> P x) (take n src)
      in if n \<le> length src \<and> length kept \<le> length dst
         then Inr (kept @ drop (length kept) dst) else Inl OutOfBounds)"

section \<open>Counting\<close>

text \<open>\<open>for (...) if (P (xs[i])) n++;\<close>\<close>

definition count_if :: "('a \<Rightarrow> bool) \<Rightarrow> 'a list \<Rightarrow> nat" where
  "count_if P xs = length (filter P xs)"

lemma count_if_simps [simp]:
  "count_if P [] = 0"
  "count_if P (x # xs) = (if P x then Suc (count_if P xs) else count_if P xs)"
  by (simp_all add: count_if_def)

lemma count_if_le: "count_if P xs \<le> length xs"
  by (simp add: count_if_def)

lemma count_if_append [simp]: "count_if P (xs @ ys) = count_if P xs + count_if P ys"
  by (simp add: count_if_def)

lemma count_if_replicate [simp]: "count_if P (replicate n x) = (if P x then n else 0)"
  by (induction n) auto

lemma count_if_update_gain:
  "i < length xs \<Longrightarrow> \<not> P (xs ! i) \<Longrightarrow> P x \<Longrightarrow> count_if P (xs[i := x]) = Suc (count_if P xs)"
proof (induction xs arbitrary: i)
  case Nil
  then show ?case by simp
next
  case (Cons y ys)
  then show ?case by (cases i) auto
qed

lemma count_if_update_lose:
  "i < length xs \<Longrightarrow> P (xs ! i) \<Longrightarrow> \<not> P x \<Longrightarrow> Suc (count_if P (xs[i := x])) = count_if P xs"
proof (induction xs arbitrary: i)
  case Nil
  then show ?case by simp
next
  case (Cons y ys)
  then show ?case by (cases i) auto
qed

lemma count_if_update_same:
  "i < length xs \<Longrightarrow> P (xs ! i) = P x \<Longrightarrow> count_if P (xs[i := x]) = count_if P xs"
proof (induction xs arbitrary: i)
  case Nil
  then show ?case by simp
next
  case (Cons y ys)
  then show ?case by (cases i) auto
qed

section \<open>Lists with distinct keys\<close>

lemma length_filter_key:
  "distinct (map f xs) \<Longrightarrow> k \<in> f ` set xs \<Longrightarrow> length (filter (\<lambda>v. f v \<noteq> k) xs) = length xs - 1"
proof (induction xs)
  case Nil
  then show ?case by simp
next
  case (Cons x xs)
  show ?case
  proof (cases "f x = k")
    case True
    then have "filter (\<lambda>v. f v \<noteq> k) xs = xs"
      using Cons.prems by (simp add: filter_id_conv) (metis imageI)
    with True show ?thesis by simp
  next
    case False
    with Cons.prems have "k \<in> f ` set xs" by auto
    then have "length xs \<noteq> 0" by auto
    with Cons \<open>k \<in> f ` set xs\<close> False show ?thesis by simp
  qed
qed

lemma distinct_map_filter: "distinct (map f xs) \<Longrightarrow> distinct (map f (filter P xs))"
  by (induction xs) auto

section \<open>C strings\<close>

text \<open>
  A \<open>char\<close> array holds the characters before its terminating NUL; \<open>strncpy\<close> and
  \<open>snprintf\<close> into an array of \<open>n + 1\<close> bytes keep at most \<open>n\<close> of them.
\<close>

type_synonym cstring = string

definition strncpy :: "nat \<Rightarrow> cstring \<Rightarrow> cstring" where
  "strncpy n s = take n s"

lemma strncpy_length [simp]: "length (strncpy n s) \<le> n"
  by (simp add: strncpy_def)

lemma strncpy_short [simp]: "length s \<le> n \<Longrightarrow> strncpy n s = s"
  by (simp add: strncpy_def)

lemma strncpy_idem [simp]: "strncpy n (strncpy n s) = strncpy n s"
  by (simp add: strncpy_def)

section \<open>Words\<close>

lemma unat_u32_less [simp]: "unat (w :: u32) < 4294967296"
  using unsigned_less [of w, where 'a = nat] by simp

lemma unat_u16_less [simp]: "unat (w :: u16) < 65536"
  using unsigned_less [of w, where 'a = nat] by simp

lemma unat_ucast_16_32 [simp]: "unat (ucast (w :: u16) :: u32) = unat w"
proof -
  have "unat w < 2 ^ 32" by (rule less_trans [OF unat_u16_less]) simp
  then show ?thesis by (simp add: unsigned_ucast_eq take_bit_nat_eq_self_iff)
qed

lemma word_neq_0_iff_unat: "(w :: 'a::len word) \<noteq> 0 \<longleftrightarrow> 0 < unat w"
  by (simp add: unat_gt_0)

end
