(* ===== verification/Shm.thy ===== *)
theory Shm
  imports Prelude
begin

text \<open>
  The System V shared memory the program keeps its variable-length lists in.  Frame
  information, blocked hosts, pools and environment variables each live in a segment
  named by a \<open>shmid\<close>; the program never reads a segment as anything but the type it
  allocated it for, so each type has a store of its own.  \<open>grant\<close> and \<open>attachable\<close> are
  the environment's answers (resource limits, removed or foreign segments); they are
  arbitrary, so every failing \<open>shmget\<close> and \<open>shmat\<close> is a run of the model.

  The locale \<open>segment_store\<close> is the interface the rest of the development relies on,
  and is interpreted on the store below.
\<close>

record 'a shm =
  segs :: "int \<Rightarrow> 'a list option"
  next_id :: int
  grant :: "int \<Rightarrow> nat \<Rightarrow> bool"
  attachable :: "int \<Rightarrow> bool"

definition shm_empty :: "'a shm" where
  "shm_empty = \<lparr>segs = (\<lambda>_. None), next_id = 0, grant = (\<lambda>_ _. True), attachable = (\<lambda>_. True)\<rparr>"

text \<open>
  \<open>shmget (IPC_PRIVATE, n * sizeof (T), IPC_EXCL|IPC_CREAT|0600)\<close>: a fresh zero-filled
  segment of \<open>n\<close> elements, or \<open>-1\<close>.  A size of 0 is below SHMMIN and always refused.
\<close>

definition shmget :: "'a \<Rightarrow> nat \<Rightarrow> 'a shm \<Rightarrow> int \<times> 'a shm" where
  "shmget z n s =
     (if n = 0 \<or> \<not> grant s (next_id s) n then (-1, s)
      else (next_id s, s\<lparr>segs := (segs s)(next_id s \<mapsto> replicate n z), next_id := next_id s + 1\<rparr>))"

definition shmat :: "int \<Rightarrow> 'a shm \<Rightarrow> 'a list option" where
  "shmat i s = (if attachable s i then segs s i else None)"

text \<open>Writing through an attached pointer, and \<open>shmctl (i, IPC_RMID, NULL)\<close>.\<close>

definition shmput :: "int \<Rightarrow> 'a list \<Rightarrow> 'a shm \<Rightarrow> 'a shm" where
  "shmput i xs s = s\<lparr>segs := (segs s)(i \<mapsto> xs)\<rparr>"

definition shmrm :: "int \<Rightarrow> 'a shm \<Rightarrow> bool \<times> 'a shm" where
  "shmrm i s =
     (case segs s i of None \<Rightarrow> (False, s) | Some _ \<Rightarrow> (True, s\<lparr>segs := (segs s)(i := None)\<rparr>))"

definition shm_ok :: "'a shm \<Rightarrow> bool" where
  "shm_ok s \<longleftrightarrow> 0 \<le> next_id s \<and> (\<forall>i. segs s i \<noteq> None \<longrightarrow> 0 \<le> i \<and> i < next_id s)"

lemma shm_ok_empty [simp]: "shm_ok shm_empty"
  by (simp add: shm_ok_def shm_empty_def)

lemma segs_minus1 [simp]: "shm_ok s \<Longrightarrow> segs s (-1) = None"
  by (auto simp: shm_ok_def)

lemma shmat_minus1 [simp]: "shm_ok s \<Longrightarrow> shmat (-1) s = None"
  by (simp add: shmat_def)

lemma shmget_zero [simp]: "shmget z 0 s = (-1, s)"
  by (simp add: shmget_def)

section \<open>The interface\<close>

locale segment_store =
  fixes valid :: "'s \<Rightarrow> bool"
    and look :: "'s \<Rightarrow> int \<Rightarrow> 'a list option"
    and get :: "'a \<Rightarrow> nat \<Rightarrow> 's \<Rightarrow> int \<times> 's"
    and put :: "int \<Rightarrow> 'a list \<Rightarrow> 's \<Rightarrow> 's"
    and remove :: "int \<Rightarrow> 's \<Rightarrow> bool \<times> 's"
  assumes get_fail: "valid s \<Longrightarrow> get z n s = (-1, s') \<Longrightarrow> s' = s"
    and get_zero: "valid s \<Longrightarrow> get z 0 s = (-1, s)"
    and get_fresh: "valid s \<Longrightarrow> get z n s = (i, s') \<Longrightarrow> i \<noteq> -1 \<Longrightarrow> look s i = None"
    and get_look: "valid s \<Longrightarrow> get z n s = (i, s') \<Longrightarrow> i \<noteq> -1 \<Longrightarrow>
      look s' j = (if j = i then Some (replicate n z) else look s j)"
    and put_look: "valid s \<Longrightarrow> look s i \<noteq> None \<Longrightarrow>
      look (put i xs s) j = (if j = i then Some xs else look s j)"
    and remove_look: "valid s \<Longrightarrow> remove i s = (b, s') \<Longrightarrow>
      look s' j = (if j = i then None else look s j)"
    and remove_ok: "valid s \<Longrightarrow> remove i s = (b, s') \<Longrightarrow> b = (look s i \<noteq> None)"
    and valid_get: "valid s \<Longrightarrow> get z n s = (i, s') \<Longrightarrow> valid s'"
    and valid_put: "valid s \<Longrightarrow> look s i \<noteq> None \<Longrightarrow> valid (put i xs s)"
    and valid_remove: "valid s \<Longrightarrow> remove i s = (b, s') \<Longrightarrow> valid s'"
    and look_minus1: "valid s \<Longrightarrow> look s (-1) = None"
begin

text \<open>
  Every list the program resizes follows one pattern: allocate a segment of the new
  size, fill it, remove the old one and keep the new identifier.
\<close>

lemma fill_look:
  assumes "valid s" "get z n s = (i, s1)" "i \<noteq> -1"
  shows "look (put i xs s1) i = Some xs"
    and "k \<noteq> i \<Longrightarrow> look (put i xs s1) k = look s k"
    and "valid (put i xs s1)"
proof -
  have v: "valid s1" using assms by (blast intro: valid_get)
  have l: "look s1 i \<noteq> None" using get_look [OF assms] by simp
  show "look (put i xs s1) i = Some xs" using put_look [OF v l] by simp
  show "valid (put i xs s1)" by (rule valid_put [OF v l])
  show "k \<noteq> i \<Longrightarrow> look (put i xs s1) k = look s k"
    using put_look [OF v l] get_look [OF assms] by simp
qed

lemma resize_look:
  assumes s: "valid s" and g: "get z n s = (i, s1)" "i \<noteq> -1"
    and r: "remove old (put i xs s1) = (b, s2)" and old: "old \<noteq> i"
  shows "look s2 i = Some xs" "look s2 old = None"
    and "k \<noteq> i \<Longrightarrow> k \<noteq> old \<Longrightarrow> look s2 k = look s k" and "valid s2"
proof -
  note v = fill_look(3) [OF s g, of xs]
  note l = remove_look [OF v r]
  show "look s2 i = Some xs" using l [of i] old fill_look(1) [OF s g] by simp
  show "look s2 old = None" using l [of old] by simp
  show "k \<noteq> i \<Longrightarrow> k \<noteq> old \<Longrightarrow> look s2 k = look s k"
    using l [of k] fill_look(2) [OF s g] by simp
  show "valid s2" by (rule valid_remove [OF v r])
qed

text \<open>Replacing a list of names or variables, which may not have had a segment before.\<close>

lemma replace_segment:
  assumes s: "valid s" and g: "get z n s = (i, s1)" "i \<noteq> -1" and old: "p \<Longrightarrow> look s old \<noteq> None"
    and t: "s2 = (if p then snd (remove old s1) else s1)"
  shows "valid (put i xs s2)" "look (put i xs s2) i = Some xs"
proof -
  have v1: "valid s1" by (rule valid_get [OF s g(1)])
  have l1: "look s1 i \<noteq> None" using get_look [OF s g] by simp
  have ne: "p \<Longrightarrow> old \<noteq> i" using old get_fresh [OF s g] by auto
  obtain b s' where r: "remove old s1 = (b, s')" by fastforce
  have "valid s2" using v1 valid_remove [OF v1 r] t r by simp
  moreover have "look s2 i \<noteq> None" using l1 remove_look [OF v1 r, of i] ne t r by auto
  ultimately show "valid (put i xs s2)" "look (put i xs s2) i = Some xs"
    using valid_put put_look by auto
qed

lemma live_not_minus1: "valid s \<Longrightarrow> look s i \<noteq> None \<Longrightarrow> i \<noteq> -1"
  using look_minus1 by auto

lemma get_other_live:
  "valid s \<Longrightarrow> get z n s = (i, s1) \<Longrightarrow> i \<noteq> -1 \<Longrightarrow> look s old \<noteq> None \<Longrightarrow> old \<noteq> i"
  using get_fresh by auto

end

interpretation shm: segment_store shm_ok segs shmget shmput shmrm
proof (unfold_locales, goal_cases)
  case (1 s z n s') then show ?case by (auto simp: shmget_def shm_ok_def split: if_splits)
next
  case (2 s z) then show ?case by simp
next
  case (3 s z n i s') then show ?case by (auto simp: shmget_def shm_ok_def split: if_splits)
next
  case (4 s z n i s' j) then show ?case by (auto simp: shmget_def split: if_splits)
next
  case (5 s i xs j) then show ?case by (simp add: shmput_def)
next
  case (6 s i b s' j) then show ?case by (auto simp: shmrm_def split: option.splits)
next
  case (7 s i b s') then show ?case by (auto simp: shmrm_def split: option.splits)
next
  case (8 s z n i s') then show ?case by (force simp: shmget_def shm_ok_def split: if_splits)
next
  case (9 s i xs) then show ?case by (auto simp: shmput_def shm_ok_def split: if_splits)
next
  case (10 s i b s') then show ?case by (auto simp: shmrm_def shm_ok_def split: option.splits if_splits)
next
  case (11 s) then show ?case by simp
qed

text \<open>The environment's answers never change, so attachability is a fact of the identifier.\<close>

lemma attachable_frame [simp]:
  "attachable (snd (shmget z n s)) = attachable s"
  "attachable (shmput i xs s) = attachable s"
  "attachable (snd (shmrm i s)) = attachable s"
  by (simp_all add: shmget_def shmput_def shmrm_def split: option.splits)

lemma grant_frame [simp]:
  "grant (snd (shmget z n s)) = grant s"
  "grant (shmput i xs s) = grant s"
  "grant (snd (shmrm i s)) = grant s"
  by (simp_all add: shmget_def shmput_def shmrm_def split: option.splits)

lemma shmget_attachable: "shmget z n s = (i, s') \<Longrightarrow> attachable s' = attachable s"
  by (auto simp: shmget_def split: if_splits)

lemma shmrm_attachable: "shmrm i s = (b, s') \<Longrightarrow> attachable s' = attachable s"
  by (auto simp: shmrm_def split: option.splits)

lemma shmat_eq: "attachable s i \<Longrightarrow> shmat i s = segs s i"
  by (simp add: shmat_def)

lemma shmat_SomeD: "shmat i s = Some xs \<Longrightarrow> segs s i = Some xs"
  by (simp add: shmat_def split: if_splits)

lemma shmat_shmput [simp]:
  "shmat i (shmput i xs s) = (if attachable s i then Some xs else None)"
  "j \<noteq> i \<Longrightarrow> shmat j (shmput i xs s) = shmat j s"
  by (simp_all add: shmat_def shmput_def)

lemma segs_shmput [simp]: "segs (shmput i xs s) = (segs s)(i \<mapsto> xs)"
  by (simp add: shmput_def)

lemma shm_ok_shmput: "shm_ok s \<Longrightarrow> shmat i s = Some ys \<Longrightarrow> shm_ok (shmput i xs s)"
  by (rule shm.valid_put) (auto dest: shmat_SomeD)

section \<open>Semaphores with undo\<close>

text \<open>
  \<open>semid\<close> is a System V semaphore with initial value 1.  Every \<open>semop\<close> of the program
  passes \<open>SEM_UNDO\<close>, so the kernel keeps the adjustment \<open>semadj\<close> of the running process and
  applies it when the process ends.  A \<open>semop\<close> of \<open>-1\<close> on a semaphore at 0 does not return
  while the process itself holds it.
\<close>

record semaphore =
  semval :: int
  semadj :: int

definition sem_lock :: "semaphore \<Rightarrow> fault + semaphore" where
  "sem_lock s =
     (if semval s \<le> 0 then Inl Blocked
      else Inr \<lparr>semval = semval s - 1, semadj = semadj s + 1\<rparr>)"

definition sem_release :: "semaphore \<Rightarrow> semaphore" where
  "sem_release s = \<lparr>semval = semval s + 1, semadj = semadj s - 1\<rparr>"

definition sem_exit :: "semaphore \<Rightarrow> semaphore" where
  "sem_exit s = \<lparr>semval = semval s + semadj s, semadj = 0\<rparr>"

definition sem_free :: semaphore where
  "sem_free = \<lparr>semval = 1, semadj = 0\<rparr>"

definition sem_held :: semaphore where
  "sem_held = \<lparr>semval = 0, semadj = 1\<rparr>"

locale undo_lock =
  fixes lock :: "'s \<Rightarrow> fault + 's"
    and release :: "'s \<Rightarrow> 's"
    and finish :: "'s \<Rightarrow> 's"
    and free held :: 's
  assumes lock_free: "lock free = Inr held"
    and lock_held: "lock held = Inl Blocked"
    and release_held: "release held = free"
    and finish_free: "finish free = free"
    and finish_held: "finish held = free"
begin

lemma critical_section: "andThen (lock free) (\<lambda>s. Inr (release s)) = Inr free"
  by (simp add: lock_free release_held)

lemma nested_lock_blocks: "andThen (lock free) lock = Inl Blocked"
  by (simp add: lock_free lock_held)

text \<open>A process may return without releasing: ending it frees the semaphore all the same.\<close>

lemma finish_restores: "s = free \<or> s = held \<Longrightarrow> finish s = free"
  using finish_free finish_held by auto

end

interpretation sem: undo_lock sem_lock sem_release sem_exit sem_free sem_held
  by unfold_locales
    (simp_all add: sem_lock_def sem_release_def sem_exit_def sem_free_def sem_held_def)

lemmas sem_simps [simp] =
  sem.lock_free sem.lock_held sem.release_held sem.finish_free sem.finish_held

lemma sem_free_neq_held [simp]: "sem_free \<noteq> sem_held" "sem_held \<noteq> sem_free"
  by (simp_all add: sem_free_def sem_held_def)

end
