(* ===== verification/Types.thy ===== *)
theory Types
  imports Shm
begin

text \<open>
  The data model: the constants of \<open>libdrqueue/constants.h\<close> and the structures of
  \<open>job.h\<close>, \<open>task.h\<close>, \<open>computer*.h\<close>, \<open>envvars.h\<close> and \<open>database.h\<close>, field by field at their
  widths.  Status bytes stay words, as in the structures, because they also arrive from
  files and sockets; the enumerations name their values.  The transient pointers
  \<open>frame_info.ptr\<close>, \<open>blocked_host.ptr\<close> and \<open>variables.ptr\<close>, which only hold the address
  of a segment while it is attached, are left out.
\<close>

section \<open>Constants\<close>

definition MAXNAMELEN :: nat where "MAXNAMELEN = 128"
definition MAXCMDLEN :: nat where "MAXCMDLEN = 1024"
definition BUFFERLEN :: nat where "BUFFERLEN = 4096"
definition MAXJOBS :: nat where "MAXJOBS = 100"
definition MAXCOMPUTERS :: nat where "MAXCOMPUTERS = 100"
definition MAXTASKS :: nat where "MAXTASKS = 32"

abbreviation MASTER :: u8 where "MASTER \<equiv> 0"
abbreviation SLAVE :: u8 where "SLAVE \<equiv> 10"
abbreviation SLAVE_LAUNCHER :: u8 where "SLAVE_LAUNCHER \<equiv> 12"
abbreviation CLIENT :: u8 where "CLIENT \<equiv> 20"

abbreviation FS_WAITING :: u8 where "FS_WAITING \<equiv> 0"
abbreviation FS_ASSIGNED :: u8 where "FS_ASSIGNED \<equiv> 1"
abbreviation FS_ERROR :: u8 where "FS_ERROR \<equiv> 2"
abbreviation FS_FINISHED :: u8 where "FS_FINISHED \<equiv> 3"
abbreviation FF_REQUEUE :: u16 where "FF_REQUEUE \<equiv> 1"
abbreviation MAX_REQUEUES :: u16 where "MAX_REQUEUES \<equiv> 3"

abbreviation JOBSTATUS_WAITING :: u16 where "JOBSTATUS_WAITING \<equiv> 0"
abbreviation JOBSTATUS_ACTIVE :: u16 where "JOBSTATUS_ACTIVE \<equiv> 1"
abbreviation JOBSTATUS_STOPPED :: u16 where "JOBSTATUS_STOPPED \<equiv> 2"
abbreviation JOBSTATUS_FINISHED :: u16 where "JOBSTATUS_FINISHED \<equiv> 3"

abbreviation JF_MAILNOTIFY :: u32 where "JF_MAILNOTIFY \<equiv> 1"
abbreviation JF_MNDIFEMAIL :: u32 where "JF_MNDIFEMAIL \<equiv> 2"
abbreviation JF_JOBDEPEND :: u32 where "JF_JOBDEPEND \<equiv> 4"
abbreviation JF_JOBDELETE :: u32 where "JF_JOBDELETE \<equiv> 8"

abbreviation OSF_IRIX :: u16 where "OSF_IRIX \<equiv> 1"
abbreviation OSF_LINUX :: u16 where "OSF_LINUX \<equiv> 2"
abbreviation OSF_OSX :: u16 where "OSF_OSX \<equiv> 4"
abbreviation OSF_FREEBSD :: u16 where "OSF_FREEBSD \<equiv> 8"
abbreviation OSF_CYGWIN :: u16 where "OSF_CYGWIN \<equiv> 16"

abbreviation OS_UNKNOWN :: u8 where "OS_UNKNOWN \<equiv> 0"
abbreviation OS_IRIX :: u8 where "OS_IRIX \<equiv> 1"
abbreviation OS_LINUX :: u8 where "OS_LINUX \<equiv> 2"
abbreviation OS_CYGWIN :: u8 where "OS_CYGWIN \<equiv> 3"
abbreviation OS_WINDOWS :: u8 where "OS_WINDOWS \<equiv> 4"
abbreviation OS_OSX :: u8 where "OS_OSX \<equiv> 5"
abbreviation OS_FREEBSD :: u8 where "OS_FREEBSD \<equiv> 6"

abbreviation TASKSTATUS_LOADING :: u8 where "TASKSTATUS_LOADING \<equiv> 0"
abbreviation TASKSTATUS_RUNNING :: u8 where "TASKSTATUS_RUNNING \<equiv> 1"
abbreviation TASKSTATUS_FINISHED :: u8 where "TASKSTATUS_FINISHED \<equiv> 2"

abbreviation DR_EXITEDFLAG :: u32 where "DR_EXITEDFLAG \<equiv> 256"
abbreviation DR_SIGNALEDFLAG :: u32 where "DR_SIGNALEDFLAG \<equiv> 512"

abbreviation SIGINT :: u32 where "SIGINT \<equiv> 2"
abbreviation SIGKILL :: u32 where "SIGKILL \<equiv> 9"
abbreviation SIGTERM :: u32 where "SIGTERM \<equiv> 15"

abbreviation AEF_ACTIVE :: u8 where "AEF_ACTIVE \<equiv> 1"
abbreviation AE_DELAY :: u32 where "AE_DELAY \<equiv> 120"
abbreviation AE_HOUR :: u8 where "AE_HOUR \<equiv> 21"
abbreviation AE_MIN :: u8 where "AE_MIN \<equiv> 0"
abbreviation MAXLOADAVG :: u16 where "MAXLOADAVG \<equiv> 160"
abbreviation MAXTIMENOCONN :: int where "MAXTIMENOCONN \<equiv> 240"
abbreviation MAXTASKLOADINGTIME :: u64 where "MAXTASKLOADINGTIME \<equiv> 60"
abbreviation DFLTAVGFTIME :: u32 where "DFLTAVGFTIME \<equiv> 120"
abbreviation DEFAULT_POOL :: cstring where "DEFAULT_POOL \<equiv> ''Default''"

lemmas max_defs = MAXJOBS_def MAXCOMPUTERS_def MAXTASKS_def MAXNAMELEN_def MAXCMDLEN_def BUFFERLEN_def

section \<open>Frames and jobs\<close>

record frame_info =
  fi_status :: u8
  fi_start_time :: u32
  fi_end_time :: u32
  fi_exitcode :: u8
  fi_icomp :: u32
  fi_itask :: u16
  fi_requeued :: u16
  fi_flags :: u16

record job_limits =
  jl_nmaxcpus :: u16
  jl_nmaxcpuscomputer :: u16
  jl_os_flags :: u16
  jl_memory :: u32
  jl_pool :: cstring

text \<open>\<open>struct envvars\<close>: how many variables there are and which segment holds them.\<close>

record envvar =
  ev_name :: cstring
  ev_value :: cstring

record envvars =
  nvariables :: u16
  evshmid :: int
  evsemid :: int

text \<open>A kind of job.\<close>

abbreviation KOJ_TURTLE :: u16 where "KOJ_TURTLE \<equiv> 13"

text \<open>\<open>union koj_info\<close>, one constructor for each member.\<close>

datatype koj_info =
    KojiGeneral (ge_scriptdir: cstring)
  | KojiMaya (ma_scene: cstring) (ma_renderdir: cstring) (ma_projectdir: cstring)
      (ma_precommand: cstring) (ma_postcommand: cstring) (ma_image: cstring) (ma_viewcmd: cstring)
  | KojiMentalray (mr_scene: cstring) (mr_renderdir: cstring) (mr_image: cstring) (mr_viewcmd: cstring)
  | KojiBlender (bl_scene: cstring) (bl_viewcmd: cstring)
  | KojiPixie (px_scene: cstring) (px_viewcmd: cstring)
  | Koji3delight (td_scene: cstring) (td_viewcmd: cstring)
  | KojiLightwave (lw_scene: cstring) (lw_projectdir: cstring) (lw_configdir: cstring) (lw_viewcmd: cstring)
  | KojiNuke (nk_scene: cstring) (nk_viewcmd: cstring)
  | KojiTerragen (tg_scriptfile: cstring) (tg_worldfile: cstring) (tg_terrainfile: cstring) (tg_viewcmd: cstring)
  | KojiAqsis (aq_scene: cstring) (aq_viewcmd: cstring)
  | KojiMantra (mn_scene: cstring) (mn_renderdir: cstring) (mn_viewcmd: cstring)
  | KojiAftereffects (ae_project: cstring) (ae_comp: cstring) (ae_viewcmd: cstring)
  | KojiShake (sh_script: cstring) (sh_viewcmd: cstring)
  | KojiTurtle (tu_scene: cstring) (tu_renderdir: cstring) (tu_projectdir: cstring) (tu_camera: cstring)
      (tu_resx: u32) (tu_resy: u32) (tu_image: cstring) (tu_viewcmd: cstring)
  | KojiXsi (xs_scene: cstring) (xs_xsipass: cstring) (xs_renderdir: cstring)
      (xs_image: cstring) (xs_imageExt: cstring) (xs_viewcmd: cstring)
  | KojiLuxrender (lx_scene: cstring) (lx_script: cstring) (lx_viewcmd: cstring)
  | KojiVray (vr_script: cstring) (vr_viewcmd: cstring)
  | KojiThreedsmax (tm_scene: cstring) (tm_script: cstring) (tm_image: cstring) (tm_viewcmd: cstring)

record job =
  j_used :: u8
  j_id :: u32
  j_nprocs :: u16
  j_status :: u16
  j_priority :: u32
  j_name :: cstring
  j_cmd :: cstring
  j_owner :: cstring
  j_email :: cstring
  autoRequeue :: u8
  koj :: u16
  koji :: koj_info
  frame_start :: u32
  frame_end :: u32
  frame_pad :: u8
  frame_step :: u32
  fleft :: u32
  fdone :: u32
  ffailed :: u32
  old_fdone :: u32
  old_nprocs :: u16
  block_size :: u32
  submit_time :: u32
  avg_frame_time :: u32
  est_finish_time :: u32
  fishmid :: int
  bhshmid :: int
  nblocked :: u16
  j_flags :: u32
  dependid :: u32
  limits :: job_limits
  j_envvars :: envvars

text \<open>A job whose bytes are all 0, as \<open>memset (job, 0, sizeof (struct job))\<close> leaves it.\<close>

definition zero_limits :: job_limits where
  "zero_limits = \<lparr>jl_nmaxcpus = 0, jl_nmaxcpuscomputer = 0, jl_os_flags = 0, jl_memory = 0, jl_pool = []\<rparr>"

definition zero_envvars :: envvars where
  "zero_envvars = \<lparr>nvariables = 0, evshmid = 0, evsemid = 0\<rparr>"

definition zero_frame :: frame_info where
  "zero_frame = \<lparr>fi_status = 0, fi_start_time = 0, fi_end_time = 0, fi_exitcode = 0,
     fi_icomp = 0, fi_itask = 0, fi_requeued = 0, fi_flags = 0\<rparr>"

definition zero_job :: job where
  "zero_job =
     \<lparr>j_used = 0, j_id = 0, j_nprocs = 0, j_status = 0, j_priority = 0, j_name = [], j_cmd = [],
      j_owner = [], j_email = [], autoRequeue = 0, koj = 0, koji = KojiGeneral [],
      frame_start = 0, frame_end = 0, frame_pad = 0, frame_step = 0, fleft = 0, fdone = 0,
      ffailed = 0, old_fdone = 0, old_nprocs = 0, block_size = 0, submit_time = 0,
      avg_frame_time = 0, est_finish_time = 0, fishmid = 0, bhshmid = 0, nblocked = 0,
      j_flags = 0, dependid = 0, limits = zero_limits, j_envvars = zero_envvars\<rparr>"

record tpol =
  tp_index :: u32
  tp_pri :: u32
  tp_submit_time :: u64

section \<open>Tasks and computers\<close>

record task =
  t_used :: u8
  t_jobname :: cstring
  t_ijob :: u32
  t_icomp :: u32
  t_itask :: u16
  t_jobcmd :: cstring
  t_owner :: cstring
  t_frame :: u32
  t_frame_start :: u32
  t_frame_end :: u32
  t_frame_pad :: u8
  t_frame_step :: u32
  t_block_size :: u32
  t_pid :: u32
  t_exitstatus :: u32
  t_status :: u8
  t_start_loading_time :: u64

record computer_status =
  loadavg :: "u16 list"
  ntasks :: u16
  nrunning :: u16
  tasks :: "task list"

record computer_hwinfo =
  hw_name :: cstring
  hw_address :: cstring
  hw_id :: u32
  hw_arch :: u8
  hw_os :: u8
  hw_proctype :: u8
  hw_procspeed :: u32
  hw_ncpus :: u16
  hw_speedindex :: u32
  hw_memory :: u32
  hw_nnbits :: u8

record autoenable =
  ae_last :: u32
  ae_h :: u8
  ae_m :: u8
  ae_flags :: u8

record computer_limits =
  cl_enabled :: u8
  cl_nmaxcpus :: u16
  cl_maxfreeloadcpu :: u16
  cl_autoenable :: autoenable
  npools :: u16
  poolshmid :: int
  poolsemid :: int
  npoolsattached :: u32
  pool_ptr :: "int option"
  local_pool :: "cstring list option"

record computer =
  hwinfo :: computer_hwinfo
  c_status :: computer_status
  c_limits :: computer_limits
  lastconn :: u32
  c_used :: u8

section \<open>The master's world\<close>

text \<open>
  \<open>struct database\<close> with the kernel objects it names and the effects a process has outside
  it: the kill requests and job notifications sent to slaves and the mail notifications.
  \<open>clock\<close> is what \<open>time (NULL)\<close> returns; it does not move while one handler runs.  The \<open>env_\<close>
  fields are the environment variables \<open>USER\<close>, \<open>DRQUEUE_ENABLED\<close> and \<open>DRQUEUE_MAX_CPUS\<close> of the
  master, the last two as \<open>atoi\<close> reads them.
\<close>

record load_balancing =
  lb_pol :: "tpol list"
  next_i :: u32
  last_priority :: u32

record master =
  computers :: "computer list"
  jobs :: "job list"
  lb :: load_balancing
  semid :: semaphore
  frame_shm :: "frame_info shm"
  host_shm :: "cstring shm"
  pool_shm :: "cstring shm"
  env_shm :: "envvar shm"
  clock :: u64
  env_user :: cstring
  env_enabled :: "u8 option"
  env_max_cpus :: "u16 option"
  kill_requests :: "(cstring \<times> u16) list"
  notified :: "cstring list"
  mailed :: "cstring list"

definition time32 :: "master \<Rightarrow> u32" where
  "time32 m = ucast (clock m)"

definition upd_job :: "u32 \<Rightarrow> (job \<Rightarrow> job) \<Rightarrow> master \<Rightarrow> master" where
  "upd_job ijob f m = m\<lparr>jobs := (jobs m)[unat ijob := f (jobs m ! unat ijob)]\<rparr>"

definition upd_computer :: "nat \<Rightarrow> (computer \<Rightarrow> computer) \<Rightarrow> master \<Rightarrow> master" where
  "upd_computer i f m = m\<lparr>computers := (computers m)[i := f (computers m ! i)]\<rparr>"

lemma upd_job_simps [simp]:
  "computers (upd_job i f m) = computers m" "lb (upd_job i f m) = lb m"
  "semid (upd_job i f m) = semid m" "frame_shm (upd_job i f m) = frame_shm m"
  "host_shm (upd_job i f m) = host_shm m" "pool_shm (upd_job i f m) = pool_shm m"
  "env_shm (upd_job i f m) = env_shm m" "clock (upd_job i f m) = clock m"
  "env_user (upd_job i f m) = env_user m" "env_enabled (upd_job i f m) = env_enabled m" "env_max_cpus (upd_job i f m) = env_max_cpus m"
  "kill_requests (upd_job i f m) = kill_requests m" "notified (upd_job i f m) = notified m"
  "mailed (upd_job i f m) = mailed m"
  "length (jobs (upd_job i f m)) = length (jobs m)"
  by (simp_all add: upd_job_def)

lemma jobs_upd_job:
  "unat i < length (jobs m) \<Longrightarrow>
   jobs (upd_job i f m) ! k = (if k = unat i then f (jobs m ! unat i) else jobs m ! k)"
  by (simp add: upd_job_def nth_list_update)

lemma upd_computer_simps [simp]:
  "jobs (upd_computer i f m) = jobs m" "lb (upd_computer i f m) = lb m"
  "semid (upd_computer i f m) = semid m" "frame_shm (upd_computer i f m) = frame_shm m"
  "host_shm (upd_computer i f m) = host_shm m" "pool_shm (upd_computer i f m) = pool_shm m"
  "env_shm (upd_computer i f m) = env_shm m" "clock (upd_computer i f m) = clock m"
  "env_user (upd_computer i f m) = env_user m" "env_enabled (upd_computer i f m) = env_enabled m" "env_max_cpus (upd_computer i f m) = env_max_cpus m"
  "kill_requests (upd_computer i f m) = kill_requests m" "notified (upd_computer i f m) = notified m"
  "mailed (upd_computer i f m) = mailed m"
  "length (computers (upd_computer i f m)) = length (computers m)"
  by (simp_all add: upd_computer_def)

section \<open>The master's semaphore\<close>

definition lock_db :: "master \<Rightarrow> fault + master" where
  "lock_db m = andThen (sem_lock (semid m)) (\<lambda>s. Inr (m\<lparr>semid := s\<rparr>))"

definition release_db :: "master \<Rightarrow> master" where
  "release_db m = m\<lparr>semid := sem_release (semid m)\<rparr>"

definition process_exit :: "master \<Rightarrow> master" where
  "process_exit m = m\<lparr>semid := sem_exit (semid m)\<rparr>"

lemma lock_db_free [simp, fault_simps]:
  "semid m = sem_free \<Longrightarrow> lock_db m = Inr (m\<lparr>semid := sem_held\<rparr>)"
  by (simp add: lock_db_def)

lemma lock_db_held [simp, fault_simps]: "semid m = sem_held \<Longrightarrow> lock_db m = Inl Blocked"
  by (simp add: lock_db_def)

lemma release_db_held [simp]: "semid m = sem_held \<Longrightarrow> release_db m = m\<lparr>semid := sem_free\<rparr>"
  by (simp add: release_db_def)

end
