(* ===== verification/Envvars.thy ===== *)
theory Envvars
  imports Types
begin

text \<open>
  \<open>libdrqueue/envvars.c\<close>: the environment variables of a job, an array of name/value
  buffers in a shared segment that every addition and deletion reallocates.  The state is
  the \<open>struct envvars\<close> and the store of segments; a Boolean result is the \<open>int\<close> the C
  function returns.
\<close>

type_synonym env_state = "envvars \<times> envvar shm"

definition zero_envvar :: envvar where
  "zero_envvar = \<lparr>ev_name = [], ev_value = []\<rparr>"

definition envvars_init :: "envvars" where
  "envvars_init = \<lparr>nvariables = 0, evshmid = -1, evsemid = -1\<rparr>"

definition envvars_free :: "env_state \<Rightarrow> bool \<times> env_state" where
  "envvars_free = (\<lambda>(ev, s).
     if evshmid ev \<noteq> -1 then (case shmrm (evshmid ev) s of (rv, s') \<Rightarrow> (rv, envvars_init, s'))
     else (True, envvars_init, s))"

definition envvars_attach :: "env_state \<Rightarrow> envvar list option" where
  "envvars_attach = (\<lambda>(ev, s). if evshmid ev = -1 then None else shmat (evshmid ev) s)"

definition same_name :: "cstring \<Rightarrow> envvar \<Rightarrow> bool" where
  "same_name name v \<longleftrightarrow> take MAXNAMELEN (ev_name v) = take MAXNAMELEN name"

definition envvars_variable_find :: "env_state \<Rightarrow> cstring \<Rightarrow> fault + nat option" where
  "envvars_variable_find es name =
     (case envvars_attach es of
        None \<Rightarrow> Inr None
      | Some vs \<Rightarrow> scan (same_name name) (unat (nvariables (fst es))) vs)"

definition envvars_get_shared_memory :: "int \<Rightarrow> envvar shm \<Rightarrow> int \<times> envvar shm" where
  "envvars_get_shared_memory n s = (if n < 0 then (-1, s) else shmget zero_envvar (nat n) s)"

text \<open>\<open>int16_t new_size\<close>, which turns negative at 32768 variables.\<close>

definition envvars_variable_add :: "cstring \<Rightarrow> cstring \<Rightarrow> env_state \<Rightarrow> fault + (bool \<times> env_state)" where
  "envvars_variable_add name val = (\<lambda>(ev, s).
     andThen (envvars_variable_find (ev, s) name) (\<lambda>var.
     case var of
       Some i \<Rightarrow>
         (let vs = the (segs s (evshmid ev))
          in Inr (True, ev, shmput (evshmid ev) (vs[i := (vs ! i)\<lparr>ev_value := strncpy MAXNAMELEN val\<rparr>]) s))
     | None \<Rightarrow>
         (let new_size = sint (nvariables ev + 1);
              (nshmid, s1) = envvars_get_shared_memory new_size s
          in if nshmid = -1 then Inr (False, snd (envvars_free (ev, s1)))
          else (case shmat nshmid s1 of
              None \<Rightarrow> Inr (False, ev, snd (shmrm nshmid s1))
            | Some new \<Rightarrow>
              andThen
                (if nvariables ev = 0 then Inr (new, s1)
                 else (case envvars_attach (ev, s1) of
                     None \<Rightarrow> Inl WildPointer
                   | Some old \<Rightarrow>
                       andThen (memcpy new old (unat (nvariables ev))) (\<lambda>new'.
                         Inr (new', snd (snd (envvars_free (ev, s1)))))))
                (\<lambda>(new', s2).
                  andThen (wr new' (nat (new_size - 1))
                      \<lparr>ev_name = strncpy MAXNAMELEN name, ev_value = strncpy MAXNAMELEN val\<rparr>) (\<lambda>new''.
                    Inr (True,
                      \<lparr>nvariables = nvariables ev + 1, evshmid = nshmid,
                       evsemid = (if nvariables ev = 0 then evsemid ev else -1)\<rparr>,
                      shmput nshmid new'' s2)))))))"

definition envvars_variable_delete :: "cstring \<Rightarrow> env_state \<Rightarrow> fault + (bool \<times> env_state)" where
  "envvars_variable_delete name = (\<lambda>(ev, s).
     andThen (envvars_variable_find (ev, s) name) (\<lambda>var.
     if var = None then Inr (True, ev, s)
     else if nvariables ev = 0 then Inr (True, ev, s)
     else
       (let new_size = unat (nvariables ev) - 1
        in if new_size = 0 then Inr (envvars_free (ev, s))
        else (case envvars_get_shared_memory (int new_size) s of
          (nshmid, s1) \<Rightarrow>
            if nshmid = -1 then Inr (False, ev, s1)
            else (case shmat nshmid s1 of
                None \<Rightarrow> Inr (False, ev, s1)
              | Some new \<Rightarrow>
                  andThen (copy_unless (same_name name) new (the (segs s (evshmid ev)))
                             (unat (nvariables ev))) (\<lambda>new'.
                  (case envvars_free (ev, s1) of
                    (_, ev', s2) \<Rightarrow>
                      Inr (True, ev'\<lparr>nvariables := of_nat new_size, evshmid := nshmid\<rparr>,
                           shmput nshmid new' s2))))))))"

section \<open>The abstract list and the invariant\<close>

definition env_list :: "env_state \<Rightarrow> envvar list" where
  "env_list = (\<lambda>(ev, s). if evshmid ev = -1 then [] else the (segs s (evshmid ev)))"

definition env_map :: "env_state \<Rightarrow> cstring \<rightharpoonup> cstring" where
  "env_map es = map_of (map (\<lambda>v. (ev_name v, ev_value v)) (env_list es))"

definition env_ok :: "env_state \<Rightarrow> bool" where
  "env_ok = (\<lambda>(ev, s).
     shm_ok s \<and>
     (if evshmid ev = -1 then nvariables ev = 0
      else shmat (evshmid ev) s \<noteq> None \<and> 0 < unat (nvariables ev) \<and>
           length (env_list (ev, s)) = unat (nvariables ev)) \<and>
     distinct (map ev_name (env_list (ev, s))) \<and>
     (\<forall>v \<in> set (env_list (ev, s)). length (ev_name v) \<le> MAXNAMELEN))"

lemma env_list_attached:
  "evshmid ev \<noteq> -1 \<Longrightarrow> shmat (evshmid ev) s = Some vs \<Longrightarrow> env_list (ev, s) = vs"
  by (auto simp: env_list_def dest: shmat_SomeD)

lemma find_eq:
  assumes "env_ok (ev, s)"
  shows "envvars_variable_find (ev, s) name = Inr (first_idx (same_name name) (env_list (ev, s)))"
  using assms
  by (auto simp: env_ok_def envvars_variable_find_def envvars_attach_def
      env_list_def dest: shmat_SomeD split: option.splits if_splits)

lemma same_name_short:
  "length (ev_name v) \<le> MAXNAMELEN \<Longrightarrow> same_name name v \<longleftrightarrow> ev_name v = strncpy MAXNAMELEN name"
  by (simp add: same_name_def strncpy_def)

section \<open>Adding\<close>

text \<open>
  An addition that reports success is an update of the map; one that fails for lack of
  memory leaves an empty map behind, because the old segment is freed.
\<close>

lemma env_find_Some:
  assumes "env_ok es" "first_idx (same_name name) (env_list es) = Some i"
  shows "i < length (env_list es)" "ev_name (env_list es ! i) = strncpy MAXNAMELEN name"
proof -
  from first_idx_SomeD [OF assms(2)] show i: "i < length (env_list es)" by simp
  have "length (ev_name (env_list es ! i)) \<le> MAXNAMELEN"
    using assms(1) i by (cases es) (auto simp: env_ok_def)
  with first_idx_SomeD [OF assms(2)] show "ev_name (env_list es ! i) = strncpy MAXNAMELEN name"
    by (simp add: same_name_short)
qed

lemma env_find_None:
  assumes "env_ok es" "first_idx (same_name name) (env_list es) = None"
  shows "strncpy MAXNAMELEN name \<notin> ev_name ` set (env_list es)"
  using assms by (cases es) (auto simp: env_ok_def first_idx_None_iff same_name_short)

lemma map_of_update_nth:
  "distinct (map f xs) \<Longrightarrow> i < length xs \<Longrightarrow> f (u (xs ! i)) = f (xs ! i) \<Longrightarrow>
   map_of (map (\<lambda>v. (f v, g v)) (xs[i := u (xs ! i)])) =
   (map_of (map (\<lambda>v. (f v, g v)) xs))(f (xs ! i) \<mapsto> g (u (xs ! i)))"
proof (induction xs arbitrary: i)
  case Nil
  then show ?case by simp
next
  case (Cons x xs)
  show ?case
  proof (cases i)
    case 0
    with Cons.prems show ?thesis by (simp add: fun_eq_iff)
  next
    case (Suc k)
    with Cons.prems have "f (xs ! k) \<noteq> f x" by (metis Suc_less_eq distinct.simps(2) imageI length_Cons list.simps(9) nth_mem set_map)
    with Cons Suc show ?thesis by (simp add: fun_eq_iff)
  qed
qed

lemma map_add_new:
  assumes "k \<notin> fst ` set xs"
  shows "[k \<mapsto> v] ++ map_of xs = (map_of xs)(k \<mapsto> v)"
proof -
  have "map_of xs k = None" using assms by (simp add: map_of_eq_None_iff)
  then show ?thesis by (auto simp: fun_eq_iff map_add_def split: option.splits)
qed

definition env_post :: "env_state \<Rightarrow> (cstring \<rightharpoonup> cstring) \<Rightarrow> bool" where
  "env_post es mp \<longleftrightarrow> env_ok es \<and> env_map es = mp"

lemma add_existing:
  assumes ok: "env_ok (ev, s)" and f: "first_idx (same_name name) (env_list (ev, s)) = Some i"
  shows "\<exists>s'. envvars_variable_add name val (ev, s) = Inr (True, ev, s') \<and>
    env_post (ev, s') ((env_map (ev, s))(strncpy MAXNAMELEN name \<mapsto> strncpy MAXNAMELEN val))"
proof -
  define vs where "vs = env_list (ev, s)"
  define u where "u = (\<lambda>v :: envvar. v\<lparr>ev_value := strncpy MAXNAMELEN val\<rparr>)"
  define vs' where "vs' = vs[i := u (vs ! i)]"
  note i = env_find_Some [OF ok f, folded vs_def]
  have id: "evshmid ev \<noteq> -1" using i(1) by (auto simp: vs_def env_list_def)
  have at: "shmat (evshmid ev) s = Some vs"
    using ok id by (auto simp: env_ok_def vs_def env_list_def shmat_def split: if_splits)
  have list': "env_list (ev, shmput (evshmid ev) vs' s) = vs'" using id by (simp add: env_list_def)
  have nm: "map ev_name vs' = map ev_name vs"
    using i(1) by (simp add: vs'_def u_def map_update list_update_same_conv)
  have "env_ok (ev, shmput (evshmid ev) vs' s)"
  proof -
    have "\<forall>v \<in> set vs. length (ev_name v) \<le> MAXNAMELEN" using ok by (simp add: env_ok_def vs_def)
    then have "\<forall>n \<in> set (map ev_name vs). length n \<le> MAXNAMELEN" by simp
    then have "\<forall>v \<in> set vs'. length (ev_name v) \<le> MAXNAMELEN" unfolding nm [symmetric] by simp
    then show ?thesis
      using ok id at nm list' by (auto simp: env_ok_def shm_ok_shmput shmat_def vs_def [symmetric] vs'_def split: if_splits)
  qed
  moreover have "env_map (ev, shmput (evshmid ev) vs' s)
      = (env_map (ev, s))(strncpy MAXNAMELEN name \<mapsto> strncpy MAXNAMELEN val)"
  proof -
    have "distinct (map ev_name vs)" using ok by (simp add: env_ok_def vs_def)
    from map_of_update_nth [OF this i(1), of u ev_value] i(2) show ?thesis
      unfolding env_map_def list' unfolding vs_def [symmetric] vs'_def by (simp add: u_def comp_def)
  qed
  moreover have "envvars_variable_add name val (ev, s) = Inr (True, ev, shmput (evshmid ev) vs' s)"
    using shmat_SomeD [OF at] f
    by (simp add: envvars_variable_add_def find_eq [OF ok] vs'_def u_def vs_def Let_def)
  ultimately show ?thesis by (auto simp: env_post_def)
qed

lemma add_small:
  fixes v :: u16
  assumes small: "unat v < 32767"
  shows "sint (v + 1) = int (Suc (unat v))"
proof -
  define n where "n = unat v"
  have n: "int n < 32767" using small n_def by linarith
  have "unat (v + 1) = Suc n"
    using small by (simp add: n_def unat_word_ariths)
  then have "uint (v + 1) = int (Suc n)" by (simp add: uint_nat)
  moreover have "signed_take_bit 15 (int (Suc n)) = int (Suc n)"
    by (rule signed_take_bit_int_eq_self) (use n in simp_all)
  ultimately show ?thesis by (simp add: sint_uint flip: n_def)
qed

lemma add_new_list:
  assumes ok: "env_ok (ev, s)" and f: "first_idx (same_name name) (env_list (ev, s)) = None"
    and small: "unat (nvariables ev) < 32767"
    and g: "shmget zero_envvar (Suc (unat (nvariables ev))) s = (k, s1)" "k \<noteq> -1"
    and at: "attachable s k"
  shows "\<exists>es'. envvars_variable_add name val (ev, s) = Inr (True, es') \<and> env_ok es' \<and>
    env_list es' = env_list (ev, s) @ [\<lparr>ev_name = strncpy MAXNAMELEN name, ev_value = strncpy MAXNAMELEN val\<rparr>] \<and>
    attachable (snd es') = attachable s \<and> grant (snd es') = grant s \<and> segs s (evshmid (fst es')) = None \<and>
    (\<forall>i. segs s i \<noteq> None \<longrightarrow> i \<noteq> evshmid ev \<longrightarrow> segs (snd es') i = segs s i)"
proof -
  define vs where "vs = env_list (ev, s)"
  define n where "n = unat (nvariables ev)"
  define new where "new = \<lparr>ev_name = strncpy MAXNAMELEN name, ev_value = strncpy MAXNAMELEN val\<rparr>"
  have s: "shm_ok s" and len: "length vs = n" and d: "distinct (map ev_name vs)"
    and nm: "\<forall>v \<in> set vs. length (ev_name v) \<le> MAXNAMELEN"
    using ok by (auto simp: env_ok_def vs_def n_def env_list_def split: if_splits)
  have suc: "unat (nvariables ev + 1) = Suc n"
    using small by (simp add: n_def unat_word_ariths)
  have sz: "sint (nvariables ev + 1) = int (Suc n)"
    using add_small [OF small] by (simp only: n_def)
  have s1: "segs s1 k = Some (replicate (Suc n) zero_envvar)" "attachable s1 = attachable s"
    using shm.get_look [OF s g] attachable_frame(1) [of zero_envvar "Suc n" s] g(1) by (simp_all add: n_def)
  define ev' where "ev' = \<lparr>nvariables = nvariables ev + 1, evshmid = k,
     evsemid = (if nvariables ev = 0 then evsemid ev else -1)\<rparr>"
  define s2 where "s2 = (if nvariables ev = 0 then s1 else snd (shmrm (evshmid ev) s1))"
  have s2: "shm_ok s2" "segs s2 k \<noteq> None" "attachable s2 = attachable s"
  proof -
    have other: "evshmid ev \<noteq> -1 \<Longrightarrow> evshmid ev \<noteq> k"
      using ok shm.get_other_live [OF s g] by (auto simp: env_ok_def shmat_def split: if_splits)
    have z: "nvariables ev \<noteq> 0 \<Longrightarrow> evshmid ev \<noteq> -1" using ok by (auto simp: env_ok_def)
    show "shm_ok s2" "segs s2 k \<noteq> None" "attachable s2 = attachable s"
      using shm.valid_get [OF s g(1)] shm.valid_remove [of s1 "evshmid ev"]
        shm.remove_look [of s1 "evshmid ev" _ _ k] s1 other z
      by (auto simp: s2_def surj_pair split: if_splits)
        (metis surjective_pairing)+
  qed
  have "envvars_variable_add name val (ev, s) = Inr (True, ev', shmput k (vs @ [new]) s2)"
  proof (cases "nvariables ev = 0")
    case True
    then have "n = 0" by (simp add: n_def)
    with True show ?thesis
      using len f g at sz s1
      by (simp add: envvars_variable_add_def find_eq [OF ok] envvars_get_shared_memory_def shmat_def
          ev'_def s2_def n_def [symmetric] new_def nat_add_distrib)
  next
    case False
    then have "0 < n" "evshmid ev \<noteq> -1" using ok by (auto simp: n_def env_ok_def unat_gt_0)
    then have "envvars_attach (ev, s1) = Some vs"
      using ok shm.get_look [OF s g] shm.get_other_live [OF s g] s1(2)
      by (auto simp: env_ok_def envvars_attach_def shmat_def vs_def env_list_def split: if_splits)
    moreover have "drop n (zero_envvar # replicate n zero_envvar) = [zero_envvar]"
      using drop_replicate [of n "Suc n" zero_envvar] by simp
    ultimately show ?thesis
      using False len f g at sz s1 \<open>evshmid ev \<noteq> -1\<close>
      by (simp add: envvars_variable_add_def find_eq [OF ok] envvars_get_shared_memory_def shmat_def
          ev'_def s2_def n_def [symmetric] new_def nat_add_distrib envvars_free_def list_update_append
          split: prod.splits)
  qed
  moreover have "env_list (ev', shmput k (vs @ [new]) s2) = vs @ [new]"
    using g by (simp add: env_list_def ev'_def)
  moreover have "env_ok (ev', shmput k (vs @ [new]) s2)"
    using env_find_None [OF ok f, folded vs_def] g at s2 d nm len suc
    by (auto simp: env_ok_def env_list_def ev'_def new_def shm.valid_put)
  moreover have "grant (shmput k (vs @ [new]) s2) = grant s"
    using grant_frame(1) [of zero_envvar "Suc n" s] g(1) by (simp add: s2_def n_def)
  moreover have "segs s k = None" by (rule shm.get_fresh [OF s g])
  moreover have "segs (shmput k (vs @ [new]) s2) i = segs s i" if "segs s i \<noteq> None" "i \<noteq> evshmid ev" for i
    using that shm.get_look [OF s g, of i] shm.get_fresh [OF s g] shm.put_look [OF s2(1,2), of "vs @ [new]" i]
      shm.remove_look [OF shm.valid_get [OF s g(1)], of "evshmid ev" _ _ i]
    by (auto simp: s2_def split: if_splits) (metis surjective_pairing)+
  ultimately show ?thesis using s2(3) by (fastforce simp: vs_def new_def ev'_def)
qed

lemma add_new:
  assumes ok: "env_ok (ev, s)" and f: "first_idx (same_name name) (env_list (ev, s)) = None"
    and small: "unat (nvariables ev) < 32767"
    and g: "shmget zero_envvar (Suc (unat (nvariables ev))) s = (k, s1)" "k \<noteq> -1"
    and at: "attachable s k"
  shows "\<exists>es'. envvars_variable_add name val (ev, s) = Inr (True, es') \<and>
    env_post es' ((env_map (ev, s))(strncpy MAXNAMELEN name \<mapsto> strncpy MAXNAMELEN val))"
  using add_new_list [OF assms, of val] env_find_None [OF ok f]
  by (auto simp: env_post_def env_map_def image_image map_add_new)

lemma free_empty:
  assumes ok: "env_ok (ev, s)" and e: "envvars_free (ev, s) = (b, es')"
  shows "env_post es' Map.empty"
  using ok e shm.valid_remove [of s "evshmid ev"]
  by (auto simp: envvars_free_def env_post_def env_map_def env_list_def env_ok_def envvars_init_def
      split: if_splits prod.splits)

lemma add_large:
  "\<not> unat (v :: u16) < 32767 \<Longrightarrow> sint (v + 1) \<le> 0"
proof -
  assume a: "\<not> unat v < 32767"
  show ?thesis
  proof (cases "unat v = 65535")
    case True
    then have "of_nat (unat v) = (65535 :: u16)" by simp
    then show ?thesis by simp
  next
    case False
    define n where "n = unat v"
    have "n < 65536" unfolding n_def by (rule unat_u16_less)
    moreover have "32767 \<le> n" "n \<noteq> 65535" using a False by (simp_all add: n_def)
    ultimately have n: "32767 \<le> n" "Suc n < 65536" by linarith+
    then have "uint (v + 1) = int (Suc n)" by (simp add: uint_nat unat_word_ariths flip: n_def)
    moreover have "signed_take_bit 15 (int (Suc n)) = int (Suc n) - 65536"
    proof -
      have "(1 + int n) div 32768 = 1" using n by linarith
      then show ?thesis
        using n by (subst signed_take_bit_eq_take_bit_minus) (simp add: take_bit_eq_mod bit_iff_odd)
    qed
    ultimately show ?thesis using n by (simp add: sint_uint)
  qed
qed

lemma add_total:
  assumes ok: "env_ok (ev, s)"
  shows "\<exists>b es'. envvars_variable_add name val (ev, s) = Inr (b, es') \<and> env_ok es' \<and>
    (if b then env_map es' = (env_map (ev, s))(strncpy MAXNAMELEN name \<mapsto> strncpy MAXNAMELEN val)
     else env_map es' = Map.empty \<or> env_map es' = env_map (ev, s))"
proof (cases "first_idx (same_name name) (env_list (ev, s))")
  case (Some i)
  show ?thesis using add_existing [OF ok Some, of val] unfolding env_post_def by fastforce
next
  case None
  obtain k s1 where g: "envvars_get_shared_memory (sint (nvariables ev + 1)) s = (k, s1)" by fastforce
  have s: "shm_ok s" using ok by (simp add: env_ok_def)
  show ?thesis
  proof (cases "k = -1")
    case True
    then have "s1 = s" using g shm.get_fail [OF s]
      by (auto simp: envvars_get_shared_memory_def split: if_splits)
    with True g have "envvars_variable_add name val (ev, s) = Inr (False, snd (envvars_free (ev, s)))"
      by (simp add: envvars_variable_add_def find_eq [OF ok] None)
    then show ?thesis using free_empty [OF ok] by (cases "envvars_free (ev, s)") (auto simp: env_post_def)
  next
    case False
    then have small: "unat (nvariables ev) < 32767"
      using g add_large [of "nvariables ev"] shm.get_zero [OF s, of zero_envvar]
      by (cases "unat (nvariables ev) < 32767")
        (auto simp: envvars_get_shared_memory_def le_less split: if_splits)
    have sz: "nat (sint (nvariables ev + 1)) = Suc (unat (nvariables ev))"
      unfolding add_small [OF small] by (rule nat_int)
    with g False have g': "shmget zero_envvar (Suc (unat (nvariables ev))) s = (k, s1)"
      by (auto simp: envvars_get_shared_memory_def split: if_splits)
    show ?thesis
    proof (cases "attachable s k")
      case True
      from add_new [OF ok None small g' False True] show ?thesis unfolding env_post_def by fastforce
    next
      case False': False
      with False g g' have e: "envvars_variable_add name val (ev, s) = Inr (False, ev, snd (shmrm k s1))"
        using attachable_frame(1) [of zero_envvar "Suc (unat (nvariables ev))" s]
        by (simp add: envvars_variable_add_def find_eq [OF ok] None shmat_def)
      obtain b s2 where r: "shmrm k s1 = (b, s2)" by fastforce
      have "segs s2 = segs s"
        using shm.remove_look [OF shm.valid_get [OF s g'] r] shm.get_look [OF s g' False]
          shm.get_fresh [OF s g' False] by (auto simp: fun_eq_iff)
      moreover have "shm_ok s2" using shm.valid_remove [OF shm.valid_get [OF s g'] r] .
      moreover have "attachable s2 = attachable s"
        using attachable_frame(1) [of zero_envvar "Suc (unat (nvariables ev))" s]
          attachable_frame(3) [of k s1] g' r by simp
      ultimately have "env_ok (ev, s2)" "env_map (ev, s2) = env_map (ev, s)"
        using ok by (auto simp: env_ok_def env_map_def env_list_def shmat_def split: if_splits)
      with e r show ?thesis by auto
    qed
  qed
qed


section \<open>Deleting\<close>

lemma map_of_filter_key:
  "map_of (map (\<lambda>v. (f v, g v)) (filter (\<lambda>v. f v \<noteq> k) xs)) =
   (map_of (map (\<lambda>v. (f v, g v)) xs))(k := None)"
  by (induction xs) (auto simp: fun_eq_iff)

lemma delete_last:
  assumes ok: "env_ok (ev, s)" and f: "first_idx (same_name name) (env_list (ev, s)) = Some i"
    and one: "unat (nvariables ev) = 1"
  shows "env_map (ev, s) = [strncpy MAXNAMELEN name \<mapsto> ev_value (env_list (ev, s) ! 0)]"
proof -
  obtain v where v: "env_list (ev, s) = [v]"
    using ok one env_find_Some(1) [OF ok f]
    by (cases "env_list (ev, s)") (auto simp: env_ok_def env_list_def split: if_splits)
  then show ?thesis using env_find_Some [OF ok f] by (simp add: env_map_def)
qed

lemma delete_many:
  assumes ok: "env_ok (ev, s)" and f: "first_idx (same_name name) (env_list (ev, s)) = Some i"
    and many: "1 < unat (nvariables ev)"
    and g: "shmget zero_envvar (unat (nvariables ev) - 1) s = (k, s1)" "k \<noteq> -1"
    and at: "attachable s k"
  shows "\<exists>es'. envvars_variable_delete name (ev, s) = Inr (True, es') \<and>
    env_post es' ((env_map (ev, s))(strncpy MAXNAMELEN name := None))"
proof -
  define vs where "vs = env_list (ev, s)"
  define n where "n = unat (nvariables ev)"
  define kept where "kept = filter (\<lambda>v. ev_name v \<noteq> strncpy MAXNAMELEN name) vs"
  have nz: "nvariables ev \<noteq> 0" using many by auto
  have id: "evshmid ev \<noteq> -1" using ok nz by (auto simp: env_ok_def)
  have s: "shm_ok s" and len: "length vs = n" and d: "distinct (map ev_name vs)"
    and nm: "\<forall>v \<in> set vs. length (ev_name v) \<le> MAXNAMELEN" and live: "segs s (evshmid ev) = Some vs"
    using ok id by (auto simp: env_ok_def vs_def n_def env_list_def shmat_def split: if_splits)
  have ni: "nat (int n - 1) = n - 1" by simp
  note i = env_find_Some [OF ok f, folded vs_def]
  have "filter (\<lambda>v. \<not> same_name name v) vs = kept"
    unfolding kept_def using nm by (intro filter_cong) (auto simp: same_name_short)
  moreover have lk: "length kept = n - 1"
    unfolding kept_def len [symmetric] using i nth_mem [OF i(1)]
    by (intro length_filter_key [OF d]) (metis imageI)
  ultimately have copy: "copy_unless (same_name name) (replicate (n - 1) zero_envvar) vs n = Inr kept"
    using len by (simp add: copy_unless_def)
  obtain b s2 where r: "shmrm (evshmid ev) s1 = (b, s2)" by fastforce
  have k: "evshmid ev \<noteq> k" using shm.get_other_live [OF s g] live by simp
  have s1: "segs s1 k = Some (replicate (n - 1) zero_envvar)" "segs s1 (evshmid ev) = Some vs"
    "attachable s1 = attachable s" "shm_ok s1"
    using shm.get_look [OF s g] shmget_attachable [OF g(1)] live k
      shm.valid_get [OF s g(1)] by (simp_all add: n_def)
  have s2: "segs s2 k \<noteq> None" "attachable s2 = attachable s" "shm_ok s2"
    using shm.remove_look [OF s1(4) r, of k] shm.valid_remove [OF s1(4) r] k s1
      shmrm_attachable [OF r] by auto
  define ev' where "ev' = \<lparr>nvariables = of_nat (n - 1), evshmid = k, evsemid = -1\<rparr>"
  have un: "unat (nvariables ev') = n - 1"
    unfolding ev'_def n_def by (simp add: unat_of_nat) (metis less_imp_diff_less mod_less unat_u16_less)
  have "envvars_variable_delete name (ev, s) = Inr (True, ev', shmput k kept s2)"
    using f many nz g at s1 live copy r id
    by (simp add: envvars_variable_delete_def find_eq [OF ok] envvars_get_shared_memory_def shmat_def
        n_def [symmetric] envvars_free_def envvars_init_def ev'_def ni)
  moreover have "env_list (ev', shmput k kept s2) = kept" using g by (simp add: env_list_def ev'_def)
  moreover have "env_ok (ev', shmput k kept s2)"
    using g at s2 un lk many nm d unfolding n_def [symmetric]
    by (auto simp: env_ok_def env_list_def ev'_def shm.valid_put kept_def distinct_map_filter)
  ultimately show ?thesis
    by (auto simp: env_post_def env_map_def vs_def [symmetric] kept_def map_of_filter_key)
qed

text \<open> Deleting a variable from a well-formed list always returns; success removes the
  name from the map (also when it was not there), failure leaves the map as it was.\<close>

theorem envvars_variable_delete_refines:
  assumes ok: "env_ok (ev, s)"
  shows "\<exists>b es'. envvars_variable_delete name (ev, s) = Inr (b, es') \<and> env_ok es' \<and>
    env_map es' = (if b then (env_map (ev, s))(strncpy MAXNAMELEN name := None) else env_map (ev, s))"
proof (cases "first_idx (same_name name) (env_list (ev, s))")
  case None
  have "strncpy MAXNAMELEN name \<notin> dom (env_map (ev, s))"
    using env_find_None [OF ok None] by (auto simp: env_map_def dom_map_of_conv_image_fst image_image)
  with None ok show ?thesis
    by (auto simp: envvars_variable_delete_def find_eq [OF ok] fun_eq_iff dom_def)
next
  case (Some i)
  then have nz: "nvariables ev \<noteq> 0" using env_find_Some(1) [OF ok Some] ok by (auto simp: env_ok_def env_list_def split: if_splits)
  have s: "shm_ok s" using ok by (simp add: env_ok_def)
  show ?thesis
  proof (cases "unat (nvariables ev) = 1")
    case True
    have "evshmid ev \<noteq> -1" using ok nz by (auto simp: env_ok_def)
    then have "fst (envvars_free (ev, s))"
      using ok shm.remove_ok [OF s, of "evshmid ev"]
      by (auto simp: envvars_free_def env_ok_def shmat_def split: prod.splits if_splits)
    then have "envvars_variable_delete name (ev, s) = Inr (True, snd (envvars_free (ev, s)))"
      using True nz Some by (cases "envvars_free (ev, s)") (simp add: envvars_variable_delete_def find_eq [OF ok])
    with free_empty [OF ok] delete_last [OF ok Some True] show ?thesis
      by (cases "envvars_free (ev, s)") (fastforce simp: env_post_def)
  next
    case False
    with nz have many: "1 < unat (nvariables ev)" by (metis less_one nat_neq_iff unat_eq_zero)
    obtain k s1 where g: "shmget zero_envvar (unat (nvariables ev) - 1) s = (k, s1)" by fastforce
    note at = shmget_attachable [OF g]
    have del: "envvars_get_shared_memory (int (unat (nvariables ev) - 1)) s = (k, s1)"
      using g by (simp add: envvars_get_shared_memory_def)
    show ?thesis
    proof (cases "k \<noteq> -1 \<and> attachable s k")
      case True
      with delete_many [OF ok Some many g] show ?thesis unfolding env_post_def by fastforce
    next
      case bad: False
      then have "envvars_variable_delete name (ev, s) = Inr (False, ev, s1)"
        using Some many nz del at
        by (auto simp: envvars_variable_delete_def find_eq [OF ok] shmat_def)
      moreover have "env_ok (ev, s1) \<and> env_map (ev, s1) = env_map (ev, s)"
      proof (cases "k = -1")
        case True
        with shm.get_fail [OF s] g ok show ?thesis by auto
      next
        case False
        have "evshmid ev \<noteq> -1" using ok nz by (auto simp: env_ok_def)
        then have "segs s1 (evshmid ev) = segs s (evshmid ev)"
          using ok shm.get_look [OF s g False] shm.get_other_live [OF s g False]
          by (auto simp: env_ok_def shmat_def split: if_splits)
        then show ?thesis
          using ok at shm.valid_get [OF s g] by (auto simp: env_ok_def env_map_def env_list_def shmat_def split: if_splits)
      qed
      ultimately show ?thesis by (intro exI [of _ False] exI [of _ "(ev, s1)"]) simp
    qed
  qed
qed

section \<open>Witnesses\<close>

lemma env_ok_init: "env_ok (envvars_init, shm_empty)"
  by (simp add: env_ok_def envvars_init_def env_list_def)


definition one_variable :: env_state where
  "one_variable =
     (\<lparr>nvariables = 1, evshmid = 0, evsemid = -1\<rparr>,
      shm_empty\<lparr>segs := [0 \<mapsto> [\<lparr>ev_name = ''A'', ev_value = ''1''\<rparr>]], next_id := 1\<rparr>)"

theorem envvars_variable_delete_refines_witness:
  "\<exists>b es'. envvars_variable_delete ''A'' one_variable = Inr (b, es') \<and> env_ok es' \<and>
    env_map es' = (if b then (env_map one_variable)(strncpy MAXNAMELEN ''A'' := None) else env_map one_variable)"
proof -
  have "env_ok one_variable"
    by (simp add: one_variable_def env_ok_def env_list_def shm_ok_def shm_empty_def shmat_def max_defs)
  then show ?thesis unfolding one_variable_def by (rule envvars_variable_delete_refines)
qed

end
