(* ===== verification/Frames.thy ===== *)
theory Frames
  imports Types
begin

text \<open>
  The frame arithmetic of \<open>job.c\<close>: a job renders the numbers \<open>frame_start, frame_start +
  frame_step, ...\<close> up to \<open>frame_end\<close>, \<open>block_size\<close> of them per task, and keeps one
  \<open>frame_info\<close> per block.  All of it is \<open>uint32_t\<close> arithmetic that wraps around.
\<close>

definition job_nframes :: "job \<Rightarrow> u32" where
  "job_nframes job =
     (if frame_step job \<noteq> 0 then
        let n_step = (frame_end job - frame_start job + frame_step job) div frame_step job
        in if block_size job \<noteq> 0 then (n_step + block_size job - 1) div block_size job else 0
      else 0)"

definition job_frame_index_to_number :: "job \<Rightarrow> u32 \<Rightarrow> u32" where
  "job_frame_index_to_number job index = frame_start job + (index * block_size job * frame_step job)"

definition job_frame_number_to_index :: "job \<Rightarrow> u32 \<Rightarrow> fault + u32" where
  "job_frame_number_to_index job number =
     (if block_size job * frame_step job = 0 then Inl DivByZero
      else Inr ((number - frame_start job) div (block_size job * frame_step job)))"

definition job_frame_number_correct :: "job \<Rightarrow> u32 \<Rightarrow> fault + bool" where
  "job_frame_number_correct job number =
     (if number > frame_end job then Inr False
      else if number < frame_start job then Inr False
      else if frame_step job = 0 then Inl DivByZero
      else if (number - frame_start job) mod frame_step job \<noteq> 0 then Inr False
      else Inr True)"

section \<open>Reading the words as numbers\<close>

abbreviation span :: "job \<Rightarrow> nat" where
  "span j \<equiv> unat (frame_end j - frame_start j)"

lemma span_eq: "frame_start j \<le> frame_end j \<Longrightarrow> span j = unat (frame_end j) - unat (frame_start j)"
  by (simp add: unat_sub)

lemma unat_job_nframes:
  "unat (job_nframes j) =
     (if frame_step j = 0 \<or> block_size j = 0 then 0
      else ((span j + unat (frame_step j)) mod 2 ^ 32 div unat (frame_step j)
            + (unat (block_size j) - 1)) mod 2 ^ 32 div unat (block_size j))"
proof (cases "frame_step j = 0 \<or> block_size j = 0")
  case True
  then show ?thesis by (auto simp: job_nframes_def)
next
  case False
  have e: "x + block_size j - 1 = x + (block_size j - 1)" for x :: u32 by simp
  have b: "unat (block_size j - 1) = unat (block_size j) - 1"
    using False by (simp add: unat_minus_one)
  show ?thesis using False
    by (simp add: job_nframes_def Let_def e unat_div unat_word_ariths b del: add_diff_eq)
qed

lemma mod_wrap: "M \<le> x \<Longrightarrow> x < 2 * M \<Longrightarrow> x mod M = x - (M :: nat)"
  by (simp add: le_mod_geq)

text \<open>Where the additions wrap, the quotients are 0: a non-zero count never comes from an overflow.\<close>

lemma blocks_no_wrap:
  fixes D s b M :: nat
  assumes pos: "0 < s" "0 < b" and lt: "s < M" "b < M" "D < M"
    and nz: "((D + s) mod M div s + (b - 1)) mod M div b \<noteq> 0"
  shows "D + s < M" "D div s + b < M"
    and "((D + s) mod M div s + (b - 1)) mod M div b = D div s div b + 1"
proof -
  define q where "q = (D + s) mod M div s"
  have q0: "q \<noteq> 0"
  proof
    assume "q = 0"
    moreover have "b - 1 < b" "b - 1 < M" using pos lt by auto
    ultimately show False using nz by (simp add: q_def)
  qed
  have q_lt: "q < M"
    unfolding q_def by (rule le_less_trans [OF div_le_dividend]) (use lt in simp)
  show D: "D + s < M"
  proof (rule ccontr)
    assume "\<not> D + s < M"
    then have "(D + s) mod M = D + s - M" using lt by (intro mod_wrap) auto
    moreover have "D + s - M < s" using lt pos by arith
    ultimately have "q = 0" by (simp add: q_def)
    with q0 show False by simp
  qed
  then have q: "q = D div s + 1" using pos by (simp add: q_def div_add_self2)
  show B: "D div s + b < M"
  proof (rule ccontr)
    assume "\<not> D div s + b < M"
    then have "M \<le> q + (b - 1)" using q pos by simp
    then have "(q + (b - 1)) mod M = q + (b - 1) - M" using q_lt lt by (intro mod_wrap) auto
    moreover have "q + (b - 1) - M < b" using q_lt pos by arith
    ultimately have "(q + (b - 1)) mod M div b = 0" by simp
    with nz show False by (simp add: q_def)
  qed
  have "(q + (b - 1)) mod M = D div s + b" using B q pos by simp
  then show "((D + s) mod M div s + (b - 1)) mod M div b = D div s div b + 1"
    using pos by (simp add: q_def div_add_self2)
qed

lemma nframes_no_wrap:
  assumes "job_nframes j \<noteq> 0"
  shows "frame_step j \<noteq> 0" "block_size j \<noteq> 0"
    and "span j + unat (frame_step j) < 2 ^ 32"
    and "span j div unat (frame_step j) + unat (block_size j) < 2 ^ 32"
    and "unat (job_nframes j) = span j div unat (frame_step j) div unat (block_size j) + 1"
proof -
  have nz: "unat (job_nframes j) \<noteq> 0" using assms by (simp add: unat_eq_0)
  show s: "frame_step j \<noteq> 0" and b: "block_size j \<noteq> 0"
    using nz by (auto simp: unat_job_nframes split: if_splits)
  have pos: "0 < unat (frame_step j)" "0 < unat (block_size j)" using s b by (simp_all add: unat_gt_0)
  have lt: "unat x < 2 ^ 32" for x :: u32
    using unsigned_less [of x, where 'a = nat] by simp
  note nz' = nz [unfolded unat_job_nframes, simplified s b simp_thms if_False]
  show "span j + unat (frame_step j) < 2 ^ 32"
    by (rule blocks_no_wrap(1) [OF pos lt lt lt nz'])
  show "span j div unat (frame_step j) + unat (block_size j) < 2 ^ 32"
    by (rule blocks_no_wrap(2) [OF pos lt lt lt nz'])
  show "unat (job_nframes j) = span j div unat (frame_step j) div unat (block_size j) + 1"
    using blocks_no_wrap(3) [OF pos lt lt lt nz'] s b by (simp add: unat_job_nframes)
qed

lemma word_mod_0_iff: "(x :: u32) mod y = 0 \<longleftrightarrow> unat y dvd unat x"
proof -
  have "x mod y = 0 \<longleftrightarrow> unat (x mod y) = 0" by (simp add: unat_eq_0)
  also have "\<dots> \<longleftrightarrow> unat y dvd unat x" by (simp add: unat_mod_distrib mod_eq_0_iff_dvd)
  finally show ?thesis .
qed

lemma number_correct_iff:
  "job_frame_number_correct j n = Inr True \<longleftrightarrow>
     frame_start j \<le> n \<and> n \<le> frame_end j \<and> frame_step j \<noteq> 0 \<and>
     unat (frame_step j) dvd unat n - unat (frame_start j)"
  by (auto simp: job_frame_number_correct_def word_mod_0_iff unat_sub not_less not_le)

text \<open>Indices that the program computes stay below \<open>2 ^ 32\<close>, so they are those of the naturals.\<close>

lemma unat_block_product:
  "unat (b :: u32) * unat (s :: u32) < 2 ^ 32 \<Longrightarrow> unat (b * s) = unat b * unat s"
  by (simp add: unat_word_ariths)

lemma number_to_index_unat:
  assumes "block_size j \<noteq> 0" "frame_step j \<noteq> 0" "frame_start j \<le> n"
    and m: "unat (block_size j) * unat (frame_step j) < 2 ^ 32"
  obtains i where "job_frame_number_to_index j n = Inr i"
    and "unat i = (unat n - unat (frame_start j)) div (unat (block_size j) * unat (frame_step j))"
proof -
  have u: "unat (block_size j * frame_step j) = unat (block_size j) * unat (frame_step j)"
    by (rule unat_block_product [OF m])
  have "block_size j * frame_step j \<noteq> 0"
    using assms(1,2) u by (metis mult_is_0 unat_eq_0)
  then show ?thesis
    using that assms(3) u by (simp add: job_frame_number_to_index_def unat_div unat_sub)
qed

lemma index_to_number_unat:
  assumes le: "frame_start j \<le> frame_end j" and i: "i < job_nframes j"
  shows "unat (job_frame_index_to_number j i)
           = unat (frame_start j) + unat i * unat (block_size j) * unat (frame_step j)"
    and "unat i * unat (block_size j) * unat (frame_step j) \<le> span j"
proof -
  let ?b = "unat (block_size j)" and ?s = "unat (frame_step j)"
  have nz: "job_nframes j \<noteq> 0" using i by auto
  note w = nframes_no_wrap [OF nz]
  have "unat i \<le> span j div ?s div ?b" using i w(5) by (simp add: word_less_nat_alt)
  then have "unat i * ?b \<le> span j div ?s div ?b * ?b" by simp
  also have "\<dots> \<le> span j div ?s" by simp
  finally have ib: "unat i * ?b \<le> span j div ?s" .
  then have "unat i * ?b * ?s \<le> span j div ?s * ?s" by simp
  also have "\<dots> \<le> span j" by simp
  finally show ibs: "unat i * ?b * ?s \<le> span j" .
  have D: "unat (frame_start j) + span j = unat (frame_end j)"
    using le by (simp add: span_eq word_le_nat_alt)
  have lt: "unat x < 2 ^ 32" for x :: u32
    using unsigned_less [of x, where 'a = nat] by simp
  have "unat i * ?b \<le> unat i * ?b * ?s" using w(1) by (simp add: Suc_leI unat_gt_0)
  then have ib32: "unat i * ?b < 2 ^ 32" by (rule le_less_trans [OF order_trans [OF _ ibs] lt])
  have ibs32: "unat i * ?b * ?s < 2 ^ 32" by (rule le_less_trans [OF ibs lt])
  have sum: "unat (frame_start j) + unat i * ?b * ?s < 2 ^ 32"
    using ibs D lt [of "frame_end j"] by linarith
  have u1: "unat (i * block_size j) = unat i * ?b" by (rule unat_block_product [OF ib32])
  have u2: "unat (i * block_size j * frame_step j) = unat i * ?b * ?s"
    using unat_block_product [of "i * block_size j" "frame_step j"] u1 ibs32 by simp
  show "unat (job_frame_index_to_number j i) = unat (frame_start j) + unat i * ?b * ?s"
    unfolding job_frame_index_to_number_def using u2 sum by (simp add: unat_word_ariths)
qed

section \<open>The frames of a job\<close>

definition frame_numbers :: "job \<Rightarrow> u32 set" where
  "frame_numbers j = {n. job_frame_number_correct j n = Inr True}"

lemma frame_numbers_image:
  assumes le: "frame_start j \<le> frame_end j" and s: "frame_step j \<noteq> 0"
  shows "unat ` frame_numbers j =
    (\<lambda>k. unat (frame_start j) + k * unat (frame_step j)) ` {0 .. span j div unat (frame_step j)}"
    (is "_ = ?g ` ?K")
proof (rule set_eqI, rule iffI)
  have pos: "0 < unat (frame_step j)" using s by (simp add: unat_gt_0)
  fix x
  {
    assume "x \<in> unat ` frame_numbers j"
    then obtain n where n: "x = unat n" "frame_start j \<le> n" "n \<le> frame_end j"
      "unat (frame_step j) dvd unat n - unat (frame_start j)"
      by (auto simp: frame_numbers_def number_correct_iff)
    then obtain k where k: "unat n - unat (frame_start j) = k * unat (frame_step j)"
      by (metis dvd_def mult.commute)
    have "k * unat (frame_step j) \<le> span j"
      using k n(3) le by (simp add: span_eq word_le_nat_alt)
    then have "k \<in> ?K" using pos by (simp add: less_eq_div_iff_mult_less_eq)
    moreover have "x = ?g k" using k n(1,2) by (simp add: word_le_nat_alt)
    ultimately show "x \<in> ?g ` ?K" by blast
  next
    assume "x \<in> ?g ` ?K"
    then obtain k where "k \<in> ?K" and xk: "x = ?g k" by blast
    then have k: "x = ?g k" "k \<le> span j div unat (frame_step j)" by simp_all
    have m: "k * unat (frame_step j) \<le> span j"
      using k(2) pos by (simp add: less_eq_div_iff_mult_less_eq)
    then have x: "x \<le> unat (frame_end j)" using k(1) le by (simp add: span_eq word_le_nat_alt)
    then have "x < 2 ^ 32" by (rule le_less_trans) simp
    then have u: "unat (of_nat x :: u32) = x" by (simp add: unat_of_nat)
    have "(of_nat x :: u32) \<in> frame_numbers j"
      using u k(1) x s by (simp add: frame_numbers_def number_correct_iff word_le_nat_alt)
    then show "x \<in> unat ` frame_numbers j" using u by (metis imageI)
  }
qed

lemma card_frame_numbers:
  assumes "frame_start j \<le> frame_end j" "frame_step j \<noteq> 0"
  shows "card (frame_numbers j) = span j div unat (frame_step j) + 1"
proof -
  have "card (frame_numbers j) = card (unat ` frame_numbers j)"
    by (rule card_image [symmetric], rule inj_onI) (rule unsigned_word_eqI)
  also have "\<dots> = card {0 .. span j div unat (frame_step j)}"
    unfolding frame_numbers_image [OF assms] using assms(2)
    by (intro card_image) (simp add: inj_on_def unat_eq_0)
  finally show ?thesis by simp
qed

section \<open>Properties\<close>

text \<open>The number of \<open>frame_info\<close> records a job gets is the number of blocks: the frame
  numbers the job accepts, divided by the block size and rounded up, whenever the two
  additions of the code do not wrap around.
\<close>

theorem job_nframes_is_block_count:
  assumes "frame_start j \<le> frame_end j" "frame_step j \<noteq> 0" "block_size j \<noteq> 0"
    and "span j + unat (frame_step j) < 2 ^ 32"
    and "span j div unat (frame_step j) + unat (block_size j) < 2 ^ 32"
  shows "unat (job_nframes j)
           = (card (frame_numbers j) + unat (block_size j) - 1) div unat (block_size j)"
proof -
  let ?s = "unat (frame_step j)" and ?b = "unat (block_size j)"
  have pos: "0 < ?s" "0 < ?b" using assms(2,3) by (simp_all add: unat_gt_0)
  have "(span j + ?s) mod 2 ^ 32 div ?s = span j div ?s + 1"
    using assms(4) pos by (simp add: div_add_self2)
  moreover have "(span j div ?s + 1 + (?b - 1)) mod 2 ^ 32 = span j div ?s + ?b"
    using assms(5) pos by simp
  ultimately have "unat (job_nframes j) = (span j div ?s + ?b) div ?b"
    using assms(2,3) by (simp add: unat_job_nframes)
  then show ?thesis using card_frame_numbers [OF assms(1,2)] by simp
qed

text \<open>Every frame number the job accepts is turned into an index inside its array of
  \<open>frame_info\<close> records, so \<open>fi[iframe]\<close> stays in bounds, provided \<open>block_size * frame_step\<close>
  does not wrap around.
\<close>

theorem frame_index_in_bounds:
  assumes "job_frame_number_correct j n = Inr True" "job_nframes j \<noteq> 0"
    and "unat (block_size j) * unat (frame_step j) < 2 ^ 32"
  shows "\<exists>i. job_frame_number_to_index j n = Inr i \<and> i < job_nframes j"
proof -
  note w = nframes_no_wrap [OF assms(2)]
  have n: "frame_start j \<le> n" "n \<le> frame_end j"
    using assms(1) by (auto simp: number_correct_iff)
  then have le: "frame_start j \<le> frame_end j" by simp
  obtain i where i: "job_frame_number_to_index j n = Inr i"
    "unat i = (unat n - unat (frame_start j)) div (unat (block_size j) * unat (frame_step j))"
    by (rule number_to_index_unat [OF w(2,1) n(1) assms(3)])
  have "unat n - unat (frame_start j) \<le> span j"
    using n le by (simp add: span_eq word_le_nat_alt)
  then have "unat i \<le> span j div unat (frame_step j) div unat (block_size j)"
    by (simp add: i(2) div_le_mono mult.commute flip: div_mult2_eq)
  then have "i < job_nframes j" using w(5) by (simp add: word_less_nat_alt)
  with i(1) show ?thesis by blast
qed

lemma index_roundtrip:
  assumes "frame_start j \<le> frame_end j" "i < job_nframes j"
    and "unat (block_size j) * unat (frame_step j) < 2 ^ 32"
  shows "job_frame_number_correct j (job_frame_index_to_number j i) = Inr True \<and>
    job_frame_number_to_index j (job_frame_index_to_number j i) = Inr i"
proof
  let ?s = "unat (frame_step j)" and ?b = "unat (block_size j)"
  let ?n = "job_frame_index_to_number j i"
  have nz: "job_nframes j \<noteq> 0" using assms(2) by auto
  note w = nframes_no_wrap [OF nz]
  note u = index_to_number_unat [OF assms(1,2)]
  have ge: "frame_start j \<le> ?n" using u(1) by (simp add: word_le_nat_alt)
  have "?n \<le> frame_end j"
    using u assms(1) by (simp add: word_le_nat_alt span_eq)
  then show "job_frame_number_correct j ?n = Inr True"
    using ge u(1) w(1) by (simp add: number_correct_iff)
  obtain k where k: "job_frame_number_to_index j ?n = Inr k"
    "unat k = (unat ?n - unat (frame_start j)) div (?b * ?s)"
    by (rule number_to_index_unat [OF w(2,1) ge assms(3)])
  have "0 < ?b * ?s" using w(1,2) by (simp add: unat_gt_0)
  then have "unat k = unat i" using k(2) u(1) by (simp add: mult.assoc)
  then show "job_frame_number_to_index j ?n = Inr i"
    using k(1) by (simp add: unsigned_word_eqI)
qed

text \<open>C14. Index and number are inverse on the indices of the array: the number of an index is
  one the job accepts, and it is mapped back to that index.
\<close>

theorem frame_index_number_roundtrip:
  assumes "frame_start j \<le> frame_end j" "i < job_nframes j"
    and "unat (block_size j) * unat (frame_step j) < 2 ^ 32"
  shows "job_frame_number_correct j (job_frame_index_to_number j i) = Inr True \<and>
    job_frame_number_to_index j (job_frame_index_to_number j i) = Inr i"
  using assms by (rule index_roundtrip)

text \<open>Without the bound on \<open>block_size * frame_step\<close> the index escapes: the job below has one
  \<open>frame_info\<close> record, accepts the frame number 199 and maps it to index 99, because the
  product wraps around to 2.
\<close>

theorem frame_index_escapes:
  "let j = zero_job\<lparr>frame_start := 1, frame_end := 199, frame_step := 2, block_size := 0x80000001\<rparr>
   in job_nframes j = 1 \<and> job_frame_number_correct j 199 = Inr True \<and>
      job_frame_number_to_index j 199 = Inr 99"
  by (simp add: zero_job_def job_nframes_def job_frame_number_correct_def
      job_frame_number_to_index_def)

section \<open>Witnesses\<close>

text \<open>Frames 1, 4, 7, 10 in blocks of two.\<close>

definition example_job :: job where
  "example_job = zero_job\<lparr>frame_start := 1, frame_end := 10, frame_step := 3, block_size := 2\<rparr>"

lemmas example_simps = example_job_def zero_job_def job_nframes_def job_frame_number_correct_def
  job_frame_number_to_index_def job_frame_index_to_number_def

theorem job_nframes_is_block_count_witness:
  "unat (job_nframes example_job) = (card (frame_numbers example_job) + unat (block_size example_job) - 1)
     div unat (block_size example_job)"
  by (rule job_nframes_is_block_count) (simp_all add: example_simps)

theorem frame_index_in_bounds_witness:
  "\<exists>i. job_frame_number_to_index example_job 7 = Inr i \<and> i < job_nframes example_job"
  by (rule frame_index_in_bounds) (simp_all add: example_simps)

theorem frame_index_number_roundtrip_witness:
  "job_frame_number_correct example_job (job_frame_index_to_number example_job 1) = Inr True \<and>
   job_frame_number_to_index example_job (job_frame_index_to_number example_job 1) = Inr 1"
  by (rule frame_index_number_roundtrip) (simp_all add: example_simps)

end
