(* ===== verification/Names.thy ===== *)
theory Names
  imports Shm
begin

text \<open>
  Lists of names in shared segments.  A job's blocked hosts and a computer's pools are both
  a count and a segment identifier; the segment may be longer than the count.  The locale
  \<open>name_set\<close> is the contract the two share: what membership is after an addition or a
  removal that reports success, and that a failure changes nothing.
\<close>

definition names_in :: "nat \<Rightarrow> int \<Rightarrow> 'a shm \<Rightarrow> 'a list" where
  "names_in n i s = (if n = 0 then [] else take n (the (segs s i)))"

definition names_ok :: "nat \<Rightarrow> int \<Rightarrow> 'a shm \<Rightarrow> bool" where
  "names_ok n i s \<longleftrightarrow>
     shm_ok s \<and> (n \<noteq> 0 \<longrightarrow> (\<exists>xs. shmat i s = Some xs \<and> n \<le> length xs))"

lemma names_okD:
  assumes "names_ok n i s" "n \<noteq> 0"
  obtains xs where "shmat i s = Some xs" "segs s i = Some xs" "attachable s i" "n \<le> length xs"
    "names_in n i s = take n xs"
  using assms unfolding names_ok_def names_in_def
  by (auto simp: shmat_def split: if_splits)

lemma names_ok_shm: "names_ok n i s \<Longrightarrow> shm_ok s"
  by (simp add: names_ok_def)

lemma names_ok_live: "names_ok n i s \<Longrightarrow> n \<noteq> 0 \<Longrightarrow> segs s i \<noteq> None"
  by (auto elim: names_okD)

lemma names_scan:
  assumes "names_ok n i s" "n \<noteq> 0" "shmat i s = Some xs"
  shows "scan P n xs = Inr (first_idx P (names_in n i s))"
  using assms by (auto elim: names_okD simp: scan_enough)

text \<open>A failed \<open>shmget\<close>, or one whose segment cannot be attached, leaves the old list in place.\<close>

lemma names_after_shmget:
  assumes ok: "names_ok n i s" and g: "shmget z m s = (k, s1)"
  shows "names_ok n i s1" "names_in n i s1 = names_in n i s"
proof -
  have s: "shm_ok s" by (rule names_ok_shm [OF ok])
  have "names_ok n i s1 \<and> names_in n i s1 = names_in n i s"
  proof (cases "k = -1")
    case True
    with shm.get_fail [OF s] g ok show ?thesis by auto
  next
    case False
    show ?thesis
    proof (cases "n = 0")
      case True
      with shm.valid_get [OF s g] show ?thesis by (simp add: names_ok_def names_in_def)
    next
      case n: False
      have "segs s1 i = segs s i"
        using shm.get_look [OF s g False] shm.get_other_live [OF s g False names_ok_live [OF ok n]] by simp
      then show ?thesis
        using ok shm.valid_get [OF s g] shmget_attachable [OF g]
        by (auto simp: names_ok_def names_in_def shmat_def split: if_splits)
    qed
  qed
  then show "names_ok n i s1" "names_in n i s1 = names_in n i s" by simp_all
qed

lemma names_after_shmrm:
  assumes ok: "names_ok n i s" and r: "shmrm k s = (b, s')" and ne: "n \<noteq> 0 \<Longrightarrow> k \<noteq> i"
  shows "names_ok n i s'" "names_in n i s' = names_in n i s"
  using assms shm.remove_look [OF names_ok_shm [OF ok] r, of i] shm.valid_remove [OF names_ok_shm [OF ok] r]
    shmrm_attachable [OF r]
  by (auto simp: names_ok_def names_in_def shmat_def split: if_splits)

lemma names_replace:
  assumes ok: "names_ok n i s" and g: "shmget z m s = (k, s1)" "k \<noteq> -1" and at: "attachable s k"
    and p: "p \<Longrightarrow> segs s i \<noteq> None"
    and t: "s2 = (if p then snd (shmrm i s1) else s1)" and l: "n' \<le> length xs"
  shows "names_ok n' k (shmput k xs s2)" "names_in n' k (shmput k xs s2) = take n' xs"
proof -
  note r = shm.replace_segment [OF names_ok_shm [OF ok] g p t, of xs]
  have "attachable s2 = attachable s"
    using shmget_attachable [OF g(1)] t by simp
  with r at l show "names_ok n' k (shmput k xs s2)" "names_in n' k (shmput k xs s2) = take n' xs"
    by (auto simp: names_ok_def names_in_def)
qed

section \<open>The contract\<close>

locale name_set =
  fixes ok :: "'s \<Rightarrow> bool"
    and members :: "'s \<Rightarrow> cstring set"
    and known :: "cstring \<Rightarrow> 's \<Rightarrow> fault + bool"
    and add :: "cstring \<Rightarrow> 's \<Rightarrow> fault + bool \<times> 's"
    and remove :: "cstring \<Rightarrow> 's \<Rightarrow> fault + bool \<times> 's"
    and fits :: "cstring \<Rightarrow> bool"
    and room :: "'s \<Rightarrow> bool"
  assumes known_iff: "ok s \<Longrightarrow> fits n \<Longrightarrow> known n s = Inr (n \<in> members s)"
    and add_law: "ok s \<Longrightarrow> fits n \<Longrightarrow> room s \<Longrightarrow> \<exists>b s'. add n s = Inr (b, s') \<and> ok s' \<and>
      members s' = (if b then insert n (members s) else members s)"
    and remove_law: "ok s \<Longrightarrow> fits n \<Longrightarrow> \<exists>b s'. remove n s = Inr (b, s') \<and> ok s' \<and>
      members s' = (if b then members s - {n} else members s)"
begin

lemma addD:
  assumes "ok s" "fits n" "room s" and e: "add n s = Inr (b, s')"
  shows "ok s'" "members s' = (if b then insert n (members s) else members s)"
proof -
  obtain b' t where "add n s = Inr (b', t)" "ok t"
    "members t = (if b' then insert n (members s) else members s)"
    using add_law [OF assms(1-3)] by blast
  moreover from this(1) e have "b' = b" "t = s'" by simp_all
  ultimately show "ok s'" "members s' = (if b then insert n (members s) else members s)" by simp_all
qed

lemma removeD:
  assumes "ok s" "fits n" and e: "remove n s = Inr (b, s')"
  shows "ok s'" "members s' = (if b then members s - {n} else members s)"
proof -
  obtain b' t where "remove n s = Inr (b', t)" "ok t"
    "members t = (if b' then members s - {n} else members s)"
    using remove_law [OF assms(1,2)] by blast
  moreover from this(1) e have "b' = b" "t = s'" by simp_all
  ultimately show "ok s'" "members s' = (if b then members s - {n} else members s)" by simp_all
qed

lemma add_known:
  assumes "ok s" "fits n" "room s" "add n s = Inr (True, s')"
  shows "known n s' = Inr True"
  using known_iff [OF addD(1) [OF assms] assms(2)] addD(2) [OF assms] by simp

lemma remove_known:
  assumes "ok s" "fits n" "remove n s = Inr (True, s')"
  shows "known n s' = Inr False"
  using known_iff [OF removeD(1) [OF assms] assms(2)] removeD(2) [OF assms] by simp

lemma add_other:
  assumes "ok s" "fits n" "room s" "add n s = Inr (b, s')" and m: "fits m" "m \<noteq> n"
  shows "known m s' = known m s"
  using known_iff [OF addD(1) [OF assms(1-4)] m(1)] known_iff [OF assms(1) m(1)]
    addD(2) [OF assms(1-4)] m(2) by simp

lemma remove_other:
  assumes "ok s" "fits n" "remove n s = Inr (b, s')" and m: "fits m" "m \<noteq> n"
  shows "known m s' = known m s"
  using known_iff [OF removeD(1) [OF assms(1-3)] m(1)] known_iff [OF assms(1) m(1)]
    removeD(2) [OF assms(1-3)] m(2) by simp

lemma add_remove:
  assumes "ok s" "fits n" "room s" "n \<notin> members s"
    and a: "add n s = Inr (True, s')" and r: "remove n s' = Inr (True, s'')"
  shows "members s'' = members s"
  using removeD(2) [OF addD(1) [OF assms(1-3) a] assms(2) r] addD(2) [OF assms(1-3) a] assms(4)
  by simp

end

end
