(* ===== verification/Hosts.thy ===== *)
theory Hosts
  imports Types Names
begin

text \<open>
  The blocked hosts of a job (\<open>job.c\<close>): \<open>nblocked\<close> names in the segment \<open>bhshmid\<close>.  The state
  of an operation is the job and the store of segments; a Boolean result is the \<open>int\<close> the C
  function returns.  The \<open>shmdt\<close> of an attached segment has no effect on the model's state.
\<close>

type_synonym host_state = "job \<times> cstring shm"

definition get_blocked_host_shared_memory :: "u32 \<Rightarrow> cstring shm \<Rightarrow> int \<times> cstring shm" where
  "get_blocked_host_shared_memory nhosts s = shmget [] (unat nhosts) s"

definition attach_blocked_host_shared_memory :: "int \<Rightarrow> cstring shm \<Rightarrow> cstring list option" where
  "attach_blocked_host_shared_memory i s = shmat i s"

definition job_block_host_shared_memory_remove :: "int \<Rightarrow> cstring shm \<Rightarrow> bool \<times> cstring shm" where
  "job_block_host_shared_memory_remove i s = shmrm i s"

definition job_shared_blocked_hosts_init :: "job \<Rightarrow> job" where
  "job_shared_blocked_hosts_init j = j\<lparr>bhshmid := -1, nblocked := 0\<rparr>"

definition job_block_host_free :: "host_state \<Rightarrow> bool \<times> host_state" where
  "job_block_host_free = (\<lambda>(j, s).
     if bhshmid j \<noteq> -1 then
       (case shmrm (bhshmid j) s of (rv, s') \<Rightarrow> (rv, job_shared_blocked_hosts_init j, s'))
     else (True, job_shared_blocked_hosts_init j, s))"

definition job_block_host_exists_by_name :: "cstring \<Rightarrow> host_state \<Rightarrow> fault + bool" where
  "job_block_host_exists_by_name name = (\<lambda>(j, s).
     if nblocked j = 0 then Inr False
     else (case attach_blocked_host_shared_memory (bhshmid j) s of
         None \<Rightarrow> Inr False
       | Some obh \<Rightarrow>
           andThen (scan (\<lambda>h. h = name) (unat (nblocked j)) obh) (\<lambda>r. Inr (r \<noteq> None))))"

text \<open>The part of \<open>job_block_host_add_by_name\<close> after the search.\<close>

definition block_host_append :: "cstring \<Rightarrow> cstring list \<Rightarrow> host_state \<Rightarrow> fault + bool \<times> host_state" where
  "block_host_append name obh = (\<lambda>(j, s).
     (case get_blocked_host_shared_memory (ucast (nblocked j) + 1) s of (nbhshmid, s1) \<Rightarrow>
        if nbhshmid = -1 then Inr (False, j, s1)
        else (case attach_blocked_host_shared_memory nbhshmid s1 of
            None \<Rightarrow> Inr (False, j, s1)
          | Some nbh \<Rightarrow>
              andThen (if nblocked j \<noteq> 0 then memcpy nbh obh (unat (nblocked j)) else Inr nbh) (\<lambda>nbh'.
              andThen (wr nbh' (unat (nblocked j)) (strncpy (MAXNAMELEN - 1) name)) (\<lambda>nbh''.
                Inr (True, j\<lparr>bhshmid := nbhshmid, nblocked := nblocked j + 1\<rparr>,
                     shmput nbhshmid nbh''
                       (if nblocked j \<noteq> 0 then snd (shmrm (bhshmid j) s1) else s1)))))))"

definition job_block_host_add_by_name :: "cstring \<Rightarrow> host_state \<Rightarrow> fault + bool \<times> host_state" where
  "job_block_host_add_by_name name = (\<lambda>(j, s).
     if nblocked j \<noteq> 0 then
       (case attach_blocked_host_shared_memory (bhshmid j) s of
          None \<Rightarrow> Inr (False, j, s)
        | Some obh \<Rightarrow>
            andThen (scan (\<lambda>h. h = name) (unat (nblocked j)) obh) (\<lambda>r.
              if r \<noteq> None then Inr (True, j, s) else block_host_append name obh (j, s)))
     else block_host_append name [] (j, s))"

text \<open>\<open>sizeof (struct blocked_host)\<close> is \<open>MAXNAMELEN\<close>, and is multiplied in twice.\<close>

definition job_block_host_remove_by_name :: "cstring \<Rightarrow> host_state \<Rightarrow> fault + bool \<times> host_state" where
  "job_block_host_remove_by_name name = (\<lambda>(j, s).
     andThen (job_block_host_exists_by_name name (j, s)) (\<lambda>e.
     if \<not> e then Inr (True, j, s)
     else if nblocked j = 0 then Inr (True, j, s)
     else (case attach_blocked_host_shared_memory (bhshmid j) s of
         None \<Rightarrow> Inr (False, j, s)
       | Some obh \<Rightarrow>
           (case get_blocked_host_shared_memory (of_nat MAXNAMELEN * (ucast (nblocked j) - 1)) s of
              (nbhshmid, s1) \<Rightarrow>
                if nbhshmid = -1 then Inr (False, j, s1)
                else (case attach_blocked_host_shared_memory nbhshmid s1 of
                    None \<Rightarrow> Inr (False, j, snd (job_block_host_shared_memory_remove nbhshmid s1))
                  | Some nbh \<Rightarrow>
                      andThen (copy_unless (\<lambda>h. h = name) nbh obh (unat (nblocked j))) (\<lambda>nbh'.
                        let s2 = snd (job_block_host_shared_memory_remove (bhshmid j) (shmput nbhshmid nbh' s1));
                            j' = j\<lparr>bhshmid := nbhshmid, nblocked := nblocked j - 1\<rparr>
                        in if nblocked j' = 0
                           then Inr (True, j'\<lparr>bhshmid := -1\<rparr>,
                                     snd (job_block_host_shared_memory_remove nbhshmid s2))
                           else Inr (True, j', s2)))))))"

section \<open>The set of blocked hosts\<close>

definition blocked_hosts :: "host_state \<Rightarrow> cstring list" where
  "blocked_hosts = (\<lambda>(j, s). names_in (unat (nblocked j)) (bhshmid j) s)"

definition hosts_ok :: "host_state \<Rightarrow> bool" where
  "hosts_ok = (\<lambda>(j, s). names_ok (unat (nblocked j)) (bhshmid j) s \<and> distinct (blocked_hosts (j, s)))"

definition host_fits :: "cstring \<Rightarrow> bool" where
  "host_fits name \<longleftrightarrow> length name < MAXNAMELEN"

definition host_room :: "host_state \<Rightarrow> bool" where
  "host_room st \<longleftrightarrow> unat (nblocked (fst st)) < 65535"

lemmas host_shm_defs = get_blocked_host_shared_memory_def attach_blocked_host_shared_memory_def
  job_block_host_shared_memory_remove_def

lemma hosts_none [simp]: "nblocked j = 0 \<Longrightarrow> blocked_hosts (j, s) = []"
  by (simp add: blocked_hosts_def names_in_def)

lemma hosts_scan:
  assumes "hosts_ok (j, s)" "nblocked j \<noteq> 0" "shmat (bhshmid j) s = Some obh"
  shows "scan P (unat (nblocked j)) obh = Inr (first_idx P (blocked_hosts (j, s)))"
  using assms names_scan [of "unat (nblocked j)" "bhshmid j" s obh P]
  by (simp add: hosts_ok_def blocked_hosts_def unat_eq_0)

lemma hosts_okD:
  assumes "hosts_ok (j, s)" "nblocked j \<noteq> 0"
  obtains obh where "shmat (bhshmid j) s = Some obh" "segs s (bhshmid j) = Some obh"
    "unat (nblocked j) \<le> length obh" "blocked_hosts (j, s) = take (unat (nblocked j)) obh"
  using assms names_okD [of "unat (nblocked j)" "bhshmid j" s]
  by (auto simp: hosts_ok_def blocked_hosts_def unat_eq_0)

lemma first_idx_eq_None: "first_idx (\<lambda>h. h = n) xs = None \<longleftrightarrow> n \<notin> set xs"
  by (auto simp: first_idx_None_iff)

lemma hosts_known:
  assumes "hosts_ok (j, s)"
  shows "job_block_host_exists_by_name name (j, s) = Inr (name \<in> set (blocked_hosts (j, s)))"
proof (cases "nblocked j = 0")
  case True
  then show ?thesis by (simp add: job_block_host_exists_by_name_def)
next
  case False
  then obtain obh where "shmat (bhshmid j) s = Some obh" by (rule hosts_okD [OF assms])
  with False hosts_scan [OF assms False] show ?thesis
    by (simp add: job_block_host_exists_by_name_def host_shm_defs)
      (metis first_idx_eq_None not_None_eq)
qed

lemma hosts_append:
  assumes ok: "hosts_ok (j, s)" and room: "host_room (j, s)" and fits: "host_fits name"
    and new: "name \<notin> set (blocked_hosts (j, s))"
    and obh: "nblocked j \<noteq> 0 \<Longrightarrow> shmat (bhshmid j) s = Some obh"
  shows "\<exists>b st. block_host_append name obh (j, s) = Inr (b, st) \<and> hosts_ok st \<and>
    blocked_hosts st = (if b then blocked_hosts (j, s) @ [name] else blocked_hosts (j, s))"
proof -
  define n where "n = unat (nblocked j)"
  have room': "n < 65535" using room by (simp add: host_room_def n_def)
  have sz: "unat (ucast (nblocked j) + 1 :: u32) = Suc n"
    using room' by (simp add: n_def unat_word_ariths)
  have nok: "names_ok n (bhshmid j) s" using ok by (simp add: hosts_ok_def n_def)
  obtain k s1 where g: "shmget [] (Suc n) s = (k, s1)" by fastforce
  note after = names_after_shmget [OF nok g]
  have stay: "hosts_ok (j, s1)" "blocked_hosts (j, s1) = blocked_hosts (j, s)"
    using after ok by (simp_all add: hosts_ok_def blocked_hosts_def n_def)
  show ?thesis
  proof (cases "k \<noteq> -1 \<and> attachable s k")
    case False
    then have "block_host_append name obh (j, s) = Inr (False, j, s1)"
      using g shmget_attachable [OF g]
      by (auto simp: block_host_append_def host_shm_defs sz shmat_def)
    with stay show ?thesis by (intro exI [of _ False] exI [of _ "(j, s1)"]) simp
  next
    case True
    then have k: "k \<noteq> -1" "attachable s k" by simp_all
    have s1: "shmat k s1 = Some (replicate (Suc n) [])"
      using shm.get_look [OF names_ok_shm [OF nok] g k(1)] shmget_attachable [OF g] k(2)
      by (simp add: shmat_def)
    define s2 where "s2 = (if nblocked j \<noteq> 0 then snd (shmrm (bhshmid j) s1) else s1)"
    define xs where "xs = blocked_hosts (j, s) @ [name]"
    define j' where "j' = j\<lparr>bhshmid := k, nblocked := nblocked j + 1\<rparr>"
    have len: "length (blocked_hosts (j, s)) = n"
      using nok by (cases "n = 0") (auto simp: blocked_hosts_def names_in_def n_def elim!: names_okD)
    have short: "strncpy (MAXNAMELEN - 1) name = name" using fits by (simp add: host_fits_def max_defs)
    have n': "unat (nblocked j') = Suc n"
      using room' by (simp add: j'_def n_def unat_word_ariths)
    have "block_host_append name obh (j, s) = Inr (True, j', shmput k xs s2)"
    proof (cases "nblocked j = 0")
      case True
      then show ?thesis
        using g k s1 short by (simp add: block_host_append_def host_shm_defs sz j'_def s2_def xs_def n_def)
    next
      case False
      obtain o' where o': "shmat (bhshmid j) s = Some o'" "n \<le> length o'"
        "blocked_hosts (j, s) = take n o'"
        using hosts_okD [OF ok False] unfolding n_def by metis
      have "drop n (replicate (Suc n) ([] :: cstring)) = [[]]" using drop_replicate [of n "Suc n"] by simp
      with False g k s1 short o' obh [OF False] show ?thesis
        by (simp add: block_host_append_def host_shm_defs sz j'_def s2_def xs_def list_update_append
            flip: n_def del: replicate_Suc)
    qed
    moreover have "hosts_ok (j', shmput k xs s2) \<and> blocked_hosts (j', shmput k xs s2) = xs"
    proof -
      have p: "nblocked j \<noteq> 0 \<Longrightarrow> segs s (bhshmid j) \<noteq> None"
        using names_ok_live [OF nok] by (simp add: n_def unat_eq_0)
      have le: "Suc n \<le> length xs" using len by (simp add: xs_def)
      have r: "names_ok (Suc n) k (shmput k xs s2)" "names_in (Suc n) k (shmput k xs s2) = take (Suc n) xs"
        by (rule names_replace [OF nok g k _ s2_def le], rule p, assumption)+
      have "blocked_hosts (j', shmput k xs s2) = xs"
      proof -
        have "bhshmid j' = k" by (simp add: j'_def)
        moreover have "take (Suc n) xs = xs" using len by (simp add: xs_def)
        ultimately show ?thesis using r(2) n' by (simp only: blocked_hosts_def case_prod_conv)
      qed
      moreover have "distinct xs" using ok new by (simp add: hosts_ok_def xs_def)
      ultimately show ?thesis using r(1) n' by (simp add: hosts_ok_def j'_def)
    qed
    ultimately show ?thesis by (intro exI [of _ True] exI [of _ "(j', shmput k xs s2)"]) (simp add: xs_def)
  qed
qed

lemma hosts_add:
  assumes ok: "hosts_ok (j, s)" and room: "host_room (j, s)" and fits: "host_fits name"
  shows "\<exists>b st. job_block_host_add_by_name name (j, s) = Inr (b, st) \<and> hosts_ok st \<and>
    set (blocked_hosts st) =
      (if b then insert name (set (blocked_hosts (j, s))) else set (blocked_hosts (j, s)))"
proof (cases "nblocked j = 0")
  case True
  then have new: "name \<notin> set (blocked_hosts (j, s))" by simp
  have "job_block_host_add_by_name name (j, s) = block_host_append name [] (j, s)"
    using True by (simp add: job_block_host_add_by_name_def)
  with hosts_append [OF ok room fits new, of "[]"] True show ?thesis by fastforce
next
  case False
  obtain obh where at: "shmat (bhshmid j) s = Some obh" by (rule hosts_okD [OF ok False])
  show ?thesis
  proof (cases "name \<in> set (blocked_hosts (j, s))")
    case True
    then obtain i where "first_idx (\<lambda>h. h = name) (blocked_hosts (j, s)) = Some i"
      by (metis first_idx_eq_None not_None_eq)
    with False at have "job_block_host_add_by_name name (j, s) = Inr (True, j, s)"
      using hosts_scan [OF ok False at] by (simp add: job_block_host_add_by_name_def host_shm_defs)
    with ok True show ?thesis by (intro exI [of _ True] exI [of _ "(j, s)"]) (simp add: insert_absorb)
  next
    case new: False
    then have "first_idx (\<lambda>h. h = name) (blocked_hosts (j, s)) = None"
      by (simp add: first_idx_eq_None)
    with False at have "job_block_host_add_by_name name (j, s) = block_host_append name obh (j, s)"
      using hosts_scan [OF ok False at] by (simp add: job_block_host_add_by_name_def host_shm_defs)
    with hosts_append [OF ok room fits new, of obh] at show ?thesis by fastforce
  qed
qed

lemma length_remove_name:
  "distinct xs \<Longrightarrow> x \<in> set xs \<Longrightarrow> length (filter (\<lambda>y. y \<noteq> x) xs) = length xs - 1"
  using length_filter_key [of id xs x] by simp

lemma remove_size:
  "unat (v :: u16) \<noteq> 0 \<Longrightarrow> unat (of_nat MAXNAMELEN * (ucast v - 1) :: u32) = 128 * (unat v - 1)"
proof -
  assume nz: "unat v \<noteq> 0"
  have v: "unat v < 65536" by (rule unat_u16_less)
  have "unat (ucast v - 1 :: u32) = unat v - 1"
    using nz by (subst unat_minus_one) (auto simp flip: unat_eq_0)
  moreover have "128 * (unat v - 1) < 4294967296" using v by linarith
  ultimately show ?thesis
    unfolding max_defs by (subst unat_word_ariths) (simp del: diff_Suc_eq_diff_pred right_diff_distrib right_diff_distrib_numeral)
qed

lemma hosts_remove:
  assumes ok: "hosts_ok (j, s)"
  shows "\<exists>b st. job_block_host_remove_by_name name (j, s) = Inr (b, st) \<and> hosts_ok st \<and>
    set (blocked_hosts st) =
      (if b then set (blocked_hosts (j, s)) - {name} else set (blocked_hosts (j, s)))"
proof (cases "name \<in> set (blocked_hosts (j, s))")
  case False
  with hosts_known [OF ok] ok show ?thesis
    by (intro exI [of _ True] exI [of _ "(j, s)"]) (simp add: job_block_host_remove_by_name_def)
next
  case mem: True
  then have nz: "nblocked j \<noteq> 0" by auto
  define n where "n = unat (nblocked j)"
  have n0: "n \<noteq> 0" using nz by (simp add: n_def unat_eq_0)
  have nok: "names_ok n (bhshmid j) s" using ok by (simp add: hosts_ok_def n_def)
  obtain obh where o': "shmat (bhshmid j) s = Some obh" "segs s (bhshmid j) = Some obh"
    "n \<le> length obh" "blocked_hosts (j, s) = take n obh"
    using hosts_okD [OF ok nz] unfolding n_def by metis
  obtain k s1 where g: "shmget [] (128 * (n - 1)) s = (k, s1)" by fastforce
  have sz: "unat (of_nat MAXNAMELEN * (ucast (nblocked j) - 1) :: u32) = 128 * (n - 1)"
    using remove_size n0 by (simp add: n_def)
  note after = names_after_shmget [OF nok g]
  have known: "job_block_host_exists_by_name name (j, s) = Inr True" using hosts_known [OF ok] mem by simp
  show ?thesis
  proof (cases "k \<noteq> -1 \<and> attachable s k")
    case False
    define s' where "s' = (if k = -1 then s1 else snd (shmrm k s1))"
    have "job_block_host_remove_by_name name (j, s) = Inr (False, j, s')"
      using False g shmget_attachable [OF g] known nz o'(1) sz
      by (auto simp: job_block_host_remove_by_name_def host_shm_defs shmat_def s'_def)
    moreover have "hosts_ok (j, s') \<and> blocked_hosts (j, s') = blocked_hosts (j, s)"
    proof (cases "k = -1")
      case True
      then show ?thesis using after ok by (simp add: s'_def hosts_ok_def blocked_hosts_def n_def)
    next
      case F: False
      obtain b t where r: "shmrm k s1 = (b, t)" by fastforce
      have "bhshmid j \<noteq> k"
        using shm.get_other_live [OF names_ok_shm [OF nok] g F] o'(2) by simp
      then have "names_ok n (bhshmid j) t" "names_in n (bhshmid j) t = names_in n (bhshmid j) s"
        using names_after_shmrm [OF after(1) r] after(2) by auto
      with F r ok show ?thesis by (simp add: s'_def hosts_ok_def blocked_hosts_def n_def)
    qed
    ultimately show ?thesis by (intro exI [of _ False] exI [of _ "(j, s')"]) simp
  next
    case True
    then have k: "k \<noteq> -1" "attachable s k" by simp_all
    have n1: "n - 1 \<noteq> 0" using g k(1) by (cases "n - 1 = 0") auto
    define kept where "kept = filter (\<lambda>h. h \<noteq> name) (take n obh)"
    have lk: "length kept = n - 1"
      using length_remove_name [of "take n obh" name] ok mem o'(3,4) by (simp add: kept_def hosts_ok_def)
    define nbh where "nbh = kept @ drop (length kept) (replicate (128 * (n - 1)) [])"
    define j' where "j' = j\<lparr>bhshmid := k, nblocked := nblocked j - 1\<rparr>"
    have n': "unat (nblocked j') = n - 1" using nz by (simp add: j'_def n_def unat_minus_one)
    have nz': "nblocked j' \<noteq> 0" using n' n1 by auto
    define s2 where "s2 = snd (shmrm (bhshmid j) (shmput k nbh s1))"
    have s1: "shmat k s1 = Some (replicate (128 * (n - 1)) [])"
      using shm.get_look [OF names_ok_shm [OF nok] g k(1)] shmget_attachable [OF g] k(2)
      by (simp add: shmat_def)
    have copy: "copy_unless (\<lambda>h. h = name) (replicate (128 * (n - 1)) []) obh n = Inr nbh"
      using o'(3) lk by (simp add: copy_unless_def nbh_def kept_def [symmetric])
    have "job_block_host_remove_by_name name (j, s) = Inr (True, j', s2)"
      using g known nz o'(1) sz k s1 copy nz'
      by (simp add: job_block_host_remove_by_name_def host_shm_defs Let_def j'_def s2_def n_def)
    moreover have "hosts_ok (j', s2) \<and> blocked_hosts (j', s2) = kept"
    proof -
      have v1: "shm_ok (shmput k nbh s1)"
        using shm.fill_look(3) [OF names_ok_shm [OF nok] g k(1)] .
      have at1: "attachable (shmput k nbh s1) = attachable s" using shmget_attachable [OF g] by simp
      have "names_ok (n - 1) k (shmput k nbh s1)" "names_in (n - 1) k (shmput k nbh s1) = kept"
        using v1 at1 k(2) lk n1 by (auto simp: names_ok_def names_in_def nbh_def shmat_def)
      moreover have "bhshmid j \<noteq> k"
        using shm.get_other_live [OF names_ok_shm [OF nok] g k(1)] o'(2) by simp
      moreover obtain b t where r: "shmrm (bhshmid j) (shmput k nbh s1) = (b, t)" by fastforce
      ultimately have "names_ok (n - 1) k s2" "names_in (n - 1) k s2 = kept"
        using names_after_shmrm [OF _ r] by (auto simp: s2_def)
      moreover have "distinct kept" using ok o'(4) by (simp add: kept_def hosts_ok_def)
      ultimately show ?thesis using n' by (simp add: hosts_ok_def blocked_hosts_def j'_def)
    qed
    moreover have "set kept = set (blocked_hosts (j, s)) - {name}"
      using o'(4) by (auto simp: kept_def)
    ultimately show ?thesis by (intro exI [of _ True] exI [of _ "(j', s2)"]) simp
  qed
qed

interpretation hosts: name_set hosts_ok "\<lambda>st. set (blocked_hosts st)"
  job_block_host_exists_by_name job_block_host_add_by_name job_block_host_remove_by_name
  host_fits host_room
proof (unfold_locales, goal_cases)
  case (1 s n)
  then show ?case by (cases s) (simp only: hosts_known)
next
  case (2 s n)
  then show ?case by (cases s) (simp only: hosts_add)
next
  case (3 s n)
  then show ?case by (cases s) (simp only: hosts_remove)
qed

section \<open>Properties\<close>


text \<open>Unblocking a host by name always returns.  If it reports success the name is gone
  from the set of blocked hosts and no other name is, otherwise the set is as it was.\<close>

theorem unblock_host_removes_name:
  assumes "hosts_ok st" "length name < MAXNAMELEN"
  shows "\<exists>b st'. job_block_host_remove_by_name name st = Inr (b, st') \<and> hosts_ok st' \<and>
    set (blocked_hosts st') = (if b then set (blocked_hosts st) - {name} else set (blocked_hosts st)) \<and>
    (b \<longrightarrow> job_block_host_exists_by_name name st' = Inr False)"
proof -
  have p: "hosts_ok st" "host_fits name" using assms by (simp_all add: host_fits_def)
  obtain b st' where r: "job_block_host_remove_by_name name st = Inr (b, st')" "hosts_ok st'"
    "set (blocked_hosts st') = (if b then set (blocked_hosts st) - {name} else set (blocked_hosts st))"
    using hosts.remove_law [OF p] by blast
  then show ?thesis using hosts.remove_known [OF p, of st'] by (cases b) auto
qed

text \<open>The last blocked host cannot be unblocked by name: the new list would have no
  elements, \<open>shmget\<close> refuses a segment of size 0, and the code that would handle an emptied
  list is never reached.\<close>

theorem last_host_cannot_be_unblocked:
  assumes "hosts_ok (j, s)" "nblocked j = 1" "blocked_hosts (j, s) = [name]"
  shows "job_block_host_remove_by_name name (j, s) = Inr (False, j, s)"
proof -
  have nz: "nblocked j \<noteq> 0" using assms(2) by simp
  obtain obh where "shmat (bhshmid j) s = Some obh" by (rule hosts_okD [OF assms(1) nz])
  then show ?thesis
    using hosts_known [OF assms(1), of name] assms(2,3)
    by (simp add: job_block_host_remove_by_name_def host_shm_defs)
qed

section \<open>Witnesses\<close>

definition blocked_pair :: host_state where
  "blocked_pair =
     (zero_job\<lparr>nblocked := 2, bhshmid := 0\<rparr>,
      shm_empty\<lparr>segs := [0 \<mapsto> [''render1'', ''render2'']], next_id := 1\<rparr>)"

definition blocked_single :: host_state where
  "blocked_single =
     (zero_job\<lparr>nblocked := 1, bhshmid := 0\<rparr>,
      shm_empty\<lparr>segs := [0 \<mapsto> [''render1'']], next_id := 1\<rparr>)"

lemma blocked_examples:
  "hosts_ok blocked_pair" "hosts_ok blocked_single" "blocked_hosts blocked_single = [''render1'']"
  "unat (nblocked (fst blocked_pair)) < 65535"
  by (simp_all add: blocked_pair_def blocked_single_def hosts_ok_def blocked_hosts_def names_in_def
      names_ok_def shm_ok_def shm_empty_def shmat_def zero_job_def)


theorem unblock_host_removes_name_witness:
  "\<exists>b st'. job_block_host_remove_by_name ''render2'' blocked_pair = Inr (b, st') \<and> hosts_ok st' \<and>
    set (blocked_hosts st') = (if b then set (blocked_hosts blocked_pair) - {''render2''}
      else set (blocked_hosts blocked_pair)) \<and>
    (b \<longrightarrow> job_block_host_exists_by_name ''render2'' st' = Inr False)"
  by (rule unblock_host_removes_name) (simp_all add: blocked_examples max_defs)

theorem last_host_cannot_be_unblocked_witness:
  "job_block_host_remove_by_name ''render1'' blocked_single = Inr (False, blocked_single)"
  using last_host_cannot_be_unblocked [of "fst blocked_single" "snd blocked_single" "''render1''"]
    blocked_examples by (simp add: blocked_single_def)

end
