(* ===== verification/Jobs.thy ===== *)
theory Jobs
  imports Frames Hosts Envvars
begin

text \<open>
  The life of a job record (\<open>job.c\<close>): initialisation, registration of its frames, stopping,
  continuing and deletion, the lookup of free and valid indices, and the order in which
  jobs are offered.
\<close>

section \<open>Initialisation and deletion\<close>

definition job_limits_init :: "job_limits \<Rightarrow> job_limits" where
  "job_limits_init l =
     l\<lparr>jl_nmaxcpus := -1, jl_nmaxcpuscomputer := -1, jl_os_flags := -1, jl_memory := 0,
       jl_pool := strncpy (MAXNAMELEN - 1) DEFAULT_POOL\<rparr>"

definition job_shared_frame_info_init :: "job \<Rightarrow> job" where
  "job_shared_frame_info_init j = j\<lparr>fishmid := -1\<rparr>"

text \<open>\<open>user\<close> is \<open>getenv ("USER")\<close>.\<close>

definition job_init :: "cstring \<Rightarrow> job \<Rightarrow> job" where
  "job_init user j =
     (let j = zero_job;
          j = j\<lparr>j_used := 0\<rparr>;
          j = job_shared_frame_info_init j;
          j = job_shared_blocked_hosts_init j;
          j = j\<lparr>j_envvars := envvars_init\<rparr>;
          j = j\<lparr>frame_start := 1, frame_end := 1, frame_pad := 4, frame_step := 1, block_size := 1,
                autoRequeue := 1, j_status := JOBSTATUS_WAITING, j_priority := 500, j_flags := 0,
                koj := 0, j_owner := strncpy (MAXNAMELEN - 1) user\<rparr>
      in j\<lparr>limits := job_limits_init (limits j)\<rparr>)"

definition job_frame_info_init :: "frame_info \<Rightarrow> frame_info" where
  "job_frame_info_init fi =
     fi\<lparr>fi_status := FS_WAITING, fi_start_time := 0, fi_end_time := 0, fi_exitcode := 0, fi_icomp := 0,
        fi_itask := 0, fi_requeued := 0, fi_flags := 0\<rparr>"

definition job_fix_received_invalid :: "job \<Rightarrow> job" where
  "job_fix_received_invalid j =
     j\<lparr>j_envvars := (j_envvars j)\<lparr>evshmid := -1, nvariables := 0\<rparr>, bhshmid := -1, nblocked := 0,
       fishmid := -1\<rparr>"

definition job_copy :: "job \<Rightarrow> job" where
  "job_copy src = job_fix_received_invalid src"

definition get_frame_shared_memory :: "u32 \<Rightarrow> frame_info shm \<Rightarrow> int \<times> frame_info shm" where
  "get_frame_shared_memory nframes s = shmget zero_frame (unat nframes) s"

definition attach_frame_shared_memory :: "int \<Rightarrow> frame_info shm \<Rightarrow> frame_info list option" where
  "attach_frame_shared_memory i s = shmat i s"

definition job_frame_info_free :: "job \<times> frame_info shm \<Rightarrow> bool \<times> job \<times> frame_info shm" where
  "job_frame_info_free = (\<lambda>(j, s).
     if fishmid j \<noteq> -1 then (case shmrm (fishmid j) s of (rv, s') \<Rightarrow> (rv, job_shared_frame_info_init j, s'))
     else (True, job_shared_frame_info_init j, s))"

definition job_delete :: "job \<Rightarrow> master \<Rightarrow> job \<times> master" where
  "job_delete j m =
     (let (_, j1, fs) = job_frame_info_free (j, frame_shm m);
          (_, j2, hs) = job_block_host_free (j1, host_shm m);
          (_, ev, es) = envvars_free (j_envvars j2, env_shm m)
      in (job_init (env_user m) (j2\<lparr>j_envvars := ev\<rparr>), m\<lparr>frame_shm := fs, host_shm := hs, env_shm := es\<rparr>))"

text \<open>\<open>job_delete (&wdb->job[ijob])\<close>.\<close>

definition delete_job :: "u32 \<Rightarrow> master \<Rightarrow> master" where
  "delete_job ijob m = (case job_delete (jobs m ! unat ijob) m of (j, m) \<Rightarrow> upd_job ijob (\<lambda>_. j) m)"

definition job_stop :: "job \<Rightarrow> job" where
  "job_stop j =
     (if j_status j = JOBSTATUS_WAITING \<or> j_status j = JOBSTATUS_ACTIVE
      then j\<lparr>j_status := JOBSTATUS_STOPPED\<rparr> else j)"

definition job_continue :: "job \<Rightarrow> job" where
  "job_continue j =
     (if j_status j = JOBSTATUS_WAITING \<or> j_status j = JOBSTATUS_ACTIVE then j
      else if j_status j = JOBSTATUS_STOPPED \<or> j_status j = JOBSTATUS_FINISHED
      then j\<lparr>j_status := JOBSTATUS_WAITING\<rparr> else j)"

definition job_status_string :: "u16 \<Rightarrow> cstring" where
  "job_status_string st =
     (if st = JOBSTATUS_WAITING then ''Waiting''
      else if st = JOBSTATUS_ACTIVE then ''Active''
      else if st = JOBSTATUS_STOPPED then ''Stopped''
      else if st = JOBSTATUS_FINISHED then ''Finished''
      else ''DEFAULT (ERROR)'')"

definition job_frame_status_string :: "u8 \<Rightarrow> cstring" where
  "job_frame_status_string st =
     (if st = FS_WAITING then ''Waiting''
      else if st = FS_ASSIGNED then ''Running''
      else if st = FS_ERROR then ''Error''
      else if st = FS_FINISHED then ''Finished''
      else ''DEFAULT (ERROR)'')"

definition job_koj_string :: "job \<Rightarrow> cstring" where
  "job_koj_string j =
     (let k = koj j
      in if k = 0 then ''General'' else if k = 1 then ''Maya'' else if k = 6 then ''Mental Ray''
         else if k = 2 then ''Blender'' else if k = 5 then ''Pixie'' else if k = 4 then ''3delight''
         else if k = 7 then ''Lightwave'' else if k = 12 then ''Nuke'' else if k = 11 then ''Terragen''
         else if k = 8 then ''After Effects'' else if k = 9 then ''Shake'' else if k = 13 then ''Turtle''
         else if k = 14 then ''Mantra/Houdini'' else if k = 15 then ''XSI'' else if k = 16 then ''Luxrender''
         else ''DEFAULT (ERROR)'')"

section \<open>Indices\<close>

definition job_index_free :: "master \<Rightarrow> fault + u32" where
  "job_index_free m =
     andThen (scan (\<lambda>j. j_used j = 0) MAXJOBS (jobs m)) (\<lambda>r.
       case r of None \<Rightarrow> Inr (-1) | Some i \<Rightarrow> Inr (of_nat i))"

definition job_njobs_masterdb :: "master \<Rightarrow> u32" where
  "job_njobs_masterdb m = of_nat (count_if (\<lambda>j. j_used j \<noteq> 0) (take MAXJOBS (jobs m)))"

definition job_index_correct_master :: "master \<Rightarrow> u32 \<Rightarrow> fault + bool" where
  "job_index_correct_master m ijob =
     (if ijob > of_nat MAXJOBS then Inr False
      else andThen (rd (jobs m) (unat ijob)) (\<lambda>j. Inr (j_used j \<noteq> 0)))"

definition computer_index_correct_master :: "master \<Rightarrow> u32 \<Rightarrow> fault + bool" where
  "computer_index_correct_master m icomp =
     (if icomp > of_nat MAXCOMPUTERS then Inr False
      else andThen (rd (computers m) (unat icomp)) (\<lambda>c. Inr (c_used c \<noteq> 0)))"

definition computer_index_free :: "master \<Rightarrow> fault + int" where
  "computer_index_free m =
     andThen (scan (\<lambda>c. c_used c = 0) MAXCOMPUTERS (computers m)) (\<lambda>r.
       case r of None \<Rightarrow> Inr (-1) | Some i \<Rightarrow> Inr (int i))"

text \<open>\<open>addr\<close> is the dotted form \<open>inet_ntoa\<close> gives.\<close>

definition computer_index_addr :: "master \<Rightarrow> cstring \<Rightarrow> fault + int \<times> master" where
  "computer_index_addr m addr =
     andThen (lock_db m) (\<lambda>m.
     andThen (scan (\<lambda>c. addr = hw_address (hwinfo c) \<and> c_used c = 1) MAXCOMPUTERS (computers m)) (\<lambda>r.
       Inr (case r of None \<Rightarrow> -1 | Some i \<Rightarrow> int i, release_db m)))"

definition computer_index_name :: "master \<Rightarrow> cstring \<Rightarrow> fault + int \<times> master" where
  "computer_index_name m name =
     andThen (lock_db m) (\<lambda>m.
     andThen (scan (\<lambda>c. name = hw_name (hwinfo c) \<and> c_used c \<noteq> 0) MAXCOMPUTERS (computers m)) (\<lambda>r.
       Inr (case r of None \<Rightarrow> -1 | Some i \<Rightarrow> int i, release_db m)))"

definition computer_ncomputers_masterdb :: "master \<Rightarrow> int" where
  "computer_ncomputers_masterdb m = int (count_if (\<lambda>c. c_used c \<noteq> 0) (take MAXCOMPUTERS (computers m)))"

section \<open>Registration\<close>

text \<open>
  \<open>job_init_registered\<close>: the early return on a wrong index leaves the semaphore locked.  The
  count \<open>nframes\<close> is an \<open>int\<close>, so the loop that initialises the frames does nothing for a
  count of \<open>2 ^ 31\<close> or more.
\<close>

definition job_init_registered :: "u32 \<Rightarrow> job \<Rightarrow> master \<Rightarrow> fault + master" where
  "job_init_registered ijob j m =
     andThen (lock_db m) (\<lambda>m.
     andThen (job_index_correct_master m ijob) (\<lambda>ok.
     if \<not> ok then Inr m
     else
       let m = upd_job ijob (\<lambda>_. j\<lparr>j_used := 1, j_id := ijob, j_status := JOBSTATUS_WAITING\<rparr>) m;
           nframes = job_nframes (jobs m ! unat ijob);
           finish = (\<lambda>m. release_db (upd_job ijob (\<lambda>j. j\<lparr>fleft := nframes, fdone := 0, ffailed := 0,
               j_nprocs := 0, submit_time := time32 m, avg_frame_time := DFLTAVGFTIME,
               est_finish_time := time32 m + DFLTAVGFTIME * nframes\<rparr>) m))
       in if nframes \<noteq> 0 then
            (case get_frame_shared_memory nframes (frame_shm m) of (k, fs) \<Rightarrow>
              let m = upd_job ijob (\<lambda>j. j\<lparr>fishmid := k\<rparr>) (m\<lparr>frame_shm := fs\<rparr>)
              in if k = -1 then Inr (release_db (upd_job ijob (job_init (env_user m)) m))
                 else (case attach_frame_shared_memory k (frame_shm m) of
                     None \<Rightarrow> Inr (release_db (upd_job ijob (job_init (env_user m)) m))
                   | Some fi \<Rightarrow>
                       let n = nat (sint nframes)
                       in andThen (if n \<le> length fi then Inr (map job_frame_info_init (take n fi) @ drop n fi)
                                   else Inl OutOfBounds) (\<lambda>fi'.
                         Inr (finish (m\<lparr>frame_shm := shmput k fi' (frame_shm m)\<rparr>)))))
          else Inr (finish m)))"

end
