(* ===== verification/Tasks.thy ===== *)
theory Tasks
  imports Types Frames
begin

text \<open>
  Tasks and computers (\<open>task.c\<close>, \<open>computer.c\<close>, \<open>computer_status.c\<close>): the \<open>MAXTASKS\<close> task
  slots of a computer, how many of them are running, and whether the computer may be given
  another one.
\<close>

section \<open>Tasks\<close>

definition task_init :: "task \<Rightarrow> task" where
  "task_init t =
     \<lparr>t_used = 0, t_jobname = ''EMPTY'', t_ijob = 0, t_icomp = 0, t_itask = 0, t_jobcmd = ''NONE'',
      t_owner = ''NOBODY'', t_frame = 0, t_frame_start = 0, t_frame_end = 0, t_frame_pad = 4,
      t_frame_step = 0, t_block_size = 0, t_pid = 0, t_exitstatus = 0, t_status = 0,
      t_start_loading_time = 0\<rparr>"

definition task_init_all :: "task list \<Rightarrow> task list" where
  "task_init_all ts = map task_init ts"

definition task_status_string :: "u8 \<Rightarrow> cstring" where
  "task_status_string st =
     (if st = TASKSTATUS_LOADING then ''Loading''
      else if st = TASKSTATUS_RUNNING then ''Running''
      else if st = TASKSTATUS_FINISHED then ''Finished''
      else ''UNKNOWN'')"

definition task_is_running :: "task \<Rightarrow> bool" where
  "task_is_running t =
     (if t_used t = 0 then False
      else if t_status t = TASKSTATUS_FINISHED then False
      else True)"

text \<open>
  \<open>strncpy (dst, src, n)\<close> writes exactly \<open>n\<close> bytes, NULs after the end of \<open>src\<close>, so it leaves an
  array of \<open>room\<close> bytes when \<open>n\<close> is larger.
\<close>

definition strncpy_into :: "nat \<Rightarrow> nat \<Rightarrow> cstring \<Rightarrow> fault + cstring" where
  "strncpy_into room n s = (if n \<le> room then Inr (strncpy n s) else Inl OutOfBounds)"

definition task_set_to_job_frame :: "task \<Rightarrow> job \<Rightarrow> u32 \<Rightarrow> fault + task" where
  "task_set_to_job_frame t j frame =
     (let t = task_init t
      in andThen (strncpy_into MAXNAMELEN (MAXNAMELEN - 1) (j_name j)) (\<lambda>jobname.
         andThen (strncpy_into MAXCMDLEN (MAXCMDLEN - 1) (j_cmd j)) (\<lambda>jobcmd.
         andThen (strncpy_into MAXNAMELEN (MAXCMDLEN - 1) (j_owner j)) (\<lambda>owner.
           Inr (t\<lparr>t_jobname := jobname, t_ijob := j_id j, t_jobcmd := jobcmd, t_owner := owner,
                  t_frame := frame, t_frame_start := frame_start j, t_frame_end := frame_end j,
                  t_frame_step := frame_step j, t_frame_pad := frame_pad j,
                  t_block_size := block_size j\<rparr>)))))"

section \<open>The computer's own record, as the slave keeps it\<close>

text \<open>\<open>struct slave_database\<close>: the computer, the semaphore that guards it and the clock.\<close>

record slave_database =
  comp :: computer
  sdb_semid :: semaphore
  sdb_now :: u64

definition lock_sdb :: "slave_database \<Rightarrow> fault + slave_database" where
  "lock_sdb d = andThen (sem_lock (sdb_semid d)) (\<lambda>s. Inr (d\<lparr>sdb_semid := s\<rparr>))"

definition release_sdb :: "slave_database \<Rightarrow> slave_database" where
  "release_sdb d = d\<lparr>sdb_semid := sem_release (sdb_semid d)\<rparr>"

lemma lock_sdb_free [simp]: "sdb_semid d = sem_free \<Longrightarrow> lock_sdb d = Inr (d\<lparr>sdb_semid := sem_held\<rparr>)"
  by (simp add: lock_sdb_def)

lemma release_sdb_held [simp]: "sdb_semid d = sem_held \<Longrightarrow> release_sdb d = d\<lparr>sdb_semid := sem_free\<rparr>"
  by (simp add: release_sdb_def)

definition upd_status :: "(computer_status \<Rightarrow> computer_status) \<Rightarrow> slave_database \<Rightarrow> slave_database" where
  "upd_status f d = d\<lparr>comp := (comp d)\<lparr>c_status := f (c_status (comp d))\<rparr>\<rparr>"

definition take_slot :: "nat \<Rightarrow> u64 \<Rightarrow> task list \<Rightarrow> task list" where
  "take_slot i now ts =
     ts[i := (ts ! i)\<lparr>t_used := 1, t_itask := of_nat i, t_status := TASKSTATUS_LOADING,
                      t_start_loading_time := now\<rparr>]"

definition task_available :: "slave_database \<Rightarrow> fault + u16 \<times> slave_database" where
  "task_available sdb =
     andThen (lock_sdb sdb) (\<lambda>d.
     andThen (scan (\<lambda>t. t_used t = 0) MAXTASKS (tasks (c_status (comp d)))) (\<lambda>r.
       case r of
         None \<Rightarrow> Inr (-1, release_sdb d)
       | Some i \<Rightarrow>
           Inr (of_nat i,
                release_sdb (upd_status (\<lambda>st. st\<lparr>tasks := take_slot i (sdb_now d) (tasks st)\<rparr>) d))))"

text \<open>\<open>check_tasks\<close>; \<open>alive pid\<close> is whether \<open>kill (pid, 0)\<close> finds the process.\<close>

fun check_each :: "(u32 \<Rightarrow> bool) \<Rightarrow> task list \<Rightarrow> u16 \<times> task list" where
  "check_each alive [] = (0, [])"
| "check_each alive (t # ts) =
     (let (n, ts') = check_each alive ts
      in if t_used t \<noteq> 0 then
           if t_status t = TASKSTATUS_RUNNING then
             if alive (t_pid t) then (n + 1, t # ts') else (n, t\<lparr>t_used := 0\<rparr> # ts')
           else (n + 1, t # ts')
         else (n, t # ts'))"

definition check_tasks :: "(u32 \<Rightarrow> bool) \<Rightarrow> slave_database \<Rightarrow> fault + slave_database" where
  "check_tasks alive sdb =
     andThen (lock_sdb sdb) (\<lambda>d.
       let (n, ts) = check_each alive (tasks (c_status (comp d)))
       in Inr (release_sdb (upd_status (\<lambda>st. st\<lparr>ntasks := n, tasks := ts\<rparr>) d)))"

definition get_computer_status :: "u16 list \<Rightarrow> (u32 \<Rightarrow> bool) \<Rightarrow> slave_database \<Rightarrow> fault + slave_database" where
  "get_computer_status load alive sdb = check_tasks alive (upd_status (\<lambda>st. st\<lparr>loadavg := load\<rparr>) sdb)"

section \<open>Computers\<close>

definition computer_status_init :: "computer_status \<Rightarrow> computer_status" where
  "computer_status_init st = \<lparr>loadavg = [0, 0, 0], ntasks = 0, nrunning = 0, tasks = task_init_all (tasks st)\<rparr>"

definition computer_ntasks :: "computer \<Rightarrow> u16" where
  "computer_ntasks c = of_nat (count_if (\<lambda>t. t_used t \<noteq> 0) (take MAXTASKS (tasks (c_status c))))"

definition computer_nrunning :: "computer \<Rightarrow> u16" where
  "computer_nrunning c = of_nat (count_if task_is_running (take MAXTASKS (tasks (c_status c))))"

definition computer_nrunning_job :: "computer \<Rightarrow> u32 \<Rightarrow> u16" where
  "computer_nrunning_job c ijob =
     of_nat (count_if (\<lambda>t. t_used t \<noteq> 0 \<and> t_ijob t = ijob \<and> t_status t \<noteq> TASKSTATUS_FINISHED)
               (take MAXTASKS (tasks (c_status c))))"

text \<open>
  \<open>computer_available\<close>, in \<open>int\<close> arithmetic as C promotes it.  With more than \<open>MAXTASKS\<close> running
  tasks the function also signals its process group; the answer is then \<open>False\<close> all the same.
\<close>

definition computer_available :: "computer \<Rightarrow> bool" where
  "computer_available c =
     (if c_used c = 0 then False
      else if cl_enabled (c_limits c) = 0 then False
      else
        let nmaxcpus = uint (cl_nmaxcpus (c_limits c));
            ncpus = uint (hw_ncpus (hwinfo c));
            nrun = uint (nrunning (c_status c));
            maxfreeload = uint (cl_maxfreeloadcpu (c_limits c));
            npt = (if nmaxcpus < ncpus then nmaxcpus else ncpus);
            npt = (if npt < int MAXTASKS then npt else int MAXTASKS);
            t = (if maxfreeload > 0 then
                   (let t = uint (loadavg (c_status c) ! 0) div maxfreeload - nrun
                    in if t < 0 then 0 else t)
                 else npt);
            npt = npt - t;
            npt = npt - nrun
        in \<not> npt \<le> 0)"

definition computer_limits_cleanup_received :: "computer_limits \<Rightarrow> computer_limits" where
  "computer_limits_cleanup_received cl =
     cl\<lparr>pool_ptr := None, local_pool := None, poolshmid := -1, poolsemid := -1, npoolsattached := 0\<rparr>"

definition computer_limits_cleanup_to_send :: "computer_limits \<Rightarrow> computer_limits" where
  "computer_limits_cleanup_to_send cl = computer_limits_cleanup_received cl"

definition computer_limits_cpu_init :: "computer \<Rightarrow> computer" where
  "computer_limits_cpu_init c =
     c\<lparr>c_limits := (c_limits c)\<lparr>cl_nmaxcpus := hw_ncpus (hwinfo c),
                                cl_maxfreeloadcpu := MAXLOADAVG * hw_ncpus (hwinfo c)\<rparr>\<rparr>"

text \<open>\<open>computer_autoenable_check\<close> at the local time \<open>hour:minute\<close>; the result tells whether the new
  limits are sent to the master.\<close>

definition computer_autoenable_check :: "int \<Rightarrow> int \<Rightarrow> slave_database \<Rightarrow> fault + bool \<times> slave_database" where
  "computer_autoenable_check hour minute sdb =
     (let cl = c_limits (comp sdb); ae = cl_autoenable cl; now = sdb_now sdb
      in if cl_enabled cl \<noteq> 0 then Inr (False, sdb)
         else if ae_flags ae AND AEF_ACTIVE \<noteq> 0 \<and> sint now - uint (ae_last ae) > uint AE_DELAY
              \<and> uint (ae_h ae) = hour \<and> uint (ae_m ae) = minute \<and> cl_enabled cl = 0
         then andThen (lock_sdb sdb) (\<lambda>d.
           Inr (True, release_sdb (d\<lparr>comp := (comp d)\<lparr>c_limits :=
             cl\<lparr>cl_autoenable := ae\<lparr>ae_last := ucast now\<rparr>, cl_enabled := 1\<rparr>\<rparr>\<rparr>)))
         else Inr (False, sdb))"

section \<open>Properties\<close>

lemma task_available_eq:
  assumes "sdb_semid d = sem_free" "length (tasks (c_status (comp d))) = MAXTASKS"
  shows "task_available d =
    (case first_idx (\<lambda>t. t_used t = 0) (tasks (c_status (comp d))) of
       None \<Rightarrow> Inr (-1, d)
     | Some i \<Rightarrow> Inr (of_nat i, upd_status (\<lambda>st. st\<lparr>tasks := take_slot i (sdb_now d) (tasks st)\<rparr>) d))"
  using assms by (simp add: task_available_def upd_status_def split: option.splits)

text \<open>Reserving a task slot on a computer always returns and releases the computer's
  semaphore.  The answer is \<open>-1\<close> exactly when all \<open>MAXTASKS\<close> slots are used, and then nothing
  changes; otherwise it is the lowest free slot, which becomes used and loading, and no
  other slot is touched, so two reservations never get the same slot.\<close>

theorem task_available_lowest_free:
  assumes "sdb_semid d = sem_free" "length (tasks (c_status (comp d))) = MAXTASKS"
  shows "\<exists>r d'. task_available d = Inr (r, d') \<and> sdb_semid d' = sem_free \<and>
    (if \<forall>t \<in> set (tasks (c_status (comp d))). t_used t \<noteq> 0 then r = -1 \<and> d' = d
     else unat r < MAXTASKS \<and> t_used (tasks (c_status (comp d)) ! unat r) = 0 \<and>
       (\<forall>k < unat r. t_used (tasks (c_status (comp d)) ! k) \<noteq> 0) \<and>
       (\<forall>k < MAXTASKS. tasks (c_status (comp d')) ! k =
          (if k = unat r
           then (tasks (c_status (comp d)) ! k)\<lparr>t_used := 1, t_itask := r,
                  t_status := TASKSTATUS_LOADING, t_start_loading_time := sdb_now d\<rparr>
           else tasks (c_status (comp d)) ! k)))"
proof (cases "first_idx (\<lambda>t. t_used t = 0) (tasks (c_status (comp d)))")
  case None
  then have "\<forall>t \<in> set (tasks (c_status (comp d))). t_used t \<noteq> 0" by (simp add: first_idx_None_iff)
  moreover have "task_available d = Inr (-1, d)" using task_available_eq [OF assms] None by simp
  ultimately show ?thesis using assms(1) by simp
next
  case (Some i)
  note i = first_idx_SomeD [OF Some]
  then have r: "unat (of_nat i :: u16) = i"
    using assms(2) by (simp add: unat_of_nat max_defs)
  have busy: "(\<forall>t \<in> set (tasks (c_status (comp d))). t_used t \<noteq> 0) = False" using i by (metis nth_mem)
  show ?thesis
    unfolding task_available_eq [OF assms] Some busy
    using i r assms by (simp add: upd_status_def take_slot_def nth_list_update)
qed

lemma check_each_eq:
  "snd (check_each alive ts) =
     map (\<lambda>t. if t_used t \<noteq> 0 \<and> t_status t = TASKSTATUS_RUNNING \<and> \<not> alive (t_pid t)
              then t\<lparr>t_used := 0\<rparr> else t) ts"
  by (induction ts) (auto simp: Let_def split: prod.splits)

lemma check_each_count:
  "fst (check_each alive ts) = of_nat (count_if (\<lambda>t. t_used t \<noteq> 0) (snd (check_each alive ts)))"
  by (induction ts) (auto simp: Let_def split: prod.splits)

text \<open>C15. After a consistency check of the running tasks no slot in use claims a running process
  that is gone, every other slot is as it was, and \<open>ntasks\<close> is the number of used slots.\<close>

theorem check_tasks_consistent:
  assumes "sdb_semid d = sem_free" "length (tasks (c_status (comp d))) = MAXTASKS"
  shows "\<exists>d'. check_tasks alive d = Inr d' \<and> sdb_semid d' = sem_free \<and>
    length (tasks (c_status (comp d'))) = MAXTASKS \<and>
    (\<forall>k < MAXTASKS. let t = tasks (c_status (comp d)) ! k; t' = tasks (c_status (comp d')) ! k
       in (t_used t' \<noteq> 0 \<longrightarrow> t_status t' = TASKSTATUS_RUNNING \<longrightarrow> alive (t_pid t')) \<and>
          (t' = t \<or> t' = t\<lparr>t_used := 0\<rparr> \<and> t_status t = TASKSTATUS_RUNNING \<and> \<not> alive (t_pid t))) \<and>
    ntasks (c_status (comp d')) = computer_ntasks (comp d')"
proof -
  obtain n ts where c: "check_each alive (tasks (c_status (comp d))) = (n, ts)" by fastforce
  have ts: "ts = map (\<lambda>t. if t_used t \<noteq> 0 \<and> t_status t = TASKSTATUS_RUNNING \<and> \<not> alive (t_pid t)
      then t\<lparr>t_used := 0\<rparr> else t) (tasks (c_status (comp d)))"
    using check_each_eq [of alive "tasks (c_status (comp d))"] c by simp
  have n: "n = of_nat (count_if (\<lambda>t. t_used t \<noteq> 0) ts)"
    using check_each_count [of alive "tasks (c_status (comp d))"] c by simp
  define d' where "d' = upd_status (\<lambda>st. st\<lparr>ntasks := n, tasks := ts\<rparr>) d"
  have e: "check_tasks alive d = Inr d'"
    using assms(1) c by (simp add: check_tasks_def upd_status_def d'_def)
  have f: "tasks (c_status (comp d')) = ts" "ntasks (c_status (comp d')) = n" "sdb_semid d' = sem_free"
    using assms(1) by (simp_all add: d'_def upd_status_def)
  have l: "length ts = MAXTASKS" using assms(2) ts by simp
  show ?thesis
    unfolding e
    by (rule exI [of _ d'], intro conjI)
      (use assms(2) in \<open>auto simp: f n l computer_ntasks_def ts Let_def\<close>)
qed

lemma computer_room:
  assumes "computer_available c"
  shows "c_used c \<noteq> 0 \<and> cl_enabled (c_limits c) \<noteq> 0 \<and> cl_maxfreeloadcpu (c_limits c) \<noteq> 0 \<and>
    Suc (unat (nrunning (c_status c)))
      \<le> Min {unat (cl_nmaxcpus (c_limits c)), unat (hw_ncpus (hwinfo c)), MAXTASKS}"
proof -
  define m n r l where "m = uint (cl_nmaxcpus (c_limits c))" and "n = uint (hw_ncpus (hwinfo c))"
    and "r = uint (nrunning (c_status c))" and "l = uint (cl_maxfreeloadcpu (c_limits c))"
  define npt where "npt = (if m < n then m else n)"
  define npt' where "npt' = (if npt < int MAXTASKS then npt else int MAXTASKS)"
  define q where "q = uint (loadavg (c_status c) ! 0) div l - r"
  note defs = m_def n_def r_def l_def npt_def npt'_def q_def
  have e: "computer_available c = (if c_used c = 0 then False else if cl_enabled (c_limits c) = 0 then False
      else \<not> npt' - (if l > 0 then if q < 0 then 0 else q else npt') - r \<le> 0)"
    by (simp only: computer_available_def Let_def defs)
  then have a: "c_used c \<noteq> 0" "cl_enabled (c_limits c) \<noteq> 0"
    "0 < npt' - (if l > 0 then if q < 0 then 0 else q else npt') - r"
    using assms by (simp_all split: if_split_asm)
  have r0: "0 \<le> r" by (simp add: r_def)
  have l: "l > 0" using a(3) r0 by (cases "l > 0") auto
  have "r < npt'" using a(3) l by (auto split: if_splits)
  then have "r < m" "r < n" "r < int MAXTASKS" by (auto simp: npt'_def npt_def split: if_splits)
  then have "unat (nrunning (c_status c)) < unat (cl_nmaxcpus (c_limits c))"
    "unat (nrunning (c_status c)) < unat (hw_ncpus (hwinfo c))"
    "unat (nrunning (c_status c)) < MAXTASKS"
    by (simp_all only: m_def n_def r_def uint_nat of_nat_less_iff)
  moreover have "cl_maxfreeloadcpu (c_limits c) \<noteq> 0" using l by (auto simp: l_def)
  ultimately show ?thesis using a(1,2) by simp
qed

text \<open>A computer declared available is in use and enabled and runs fewer tasks than its CPU
  limit, its processors and its task slots allow, so one more task never oversubscribes it.
  A computer whose \<open>maxfreeloadcpu\<close> is 0 is never available.\<close>

theorem computer_available_has_room:
  assumes "computer_available c"
  shows "c_used c \<noteq> 0 \<and> cl_enabled (c_limits c) \<noteq> 0 \<and> cl_maxfreeloadcpu (c_limits c) \<noteq> 0 \<and>
    Suc (unat (nrunning (c_status c)))
      \<le> Min {unat (cl_nmaxcpus (c_limits c)), unat (hw_ncpus (hwinfo c)), MAXTASKS}"
  using assms by (rule computer_room)


text \<open>\<open>task_set_to_job_frame\<close> copies the owner with the length of a command into the owner's
  name, and always writes past the end of the task.\<close>

theorem task_set_to_job_frame_overflows:
  "task_set_to_job_frame t j frame = Inl OutOfBounds"
  by (simp add: task_set_to_job_frame_def strncpy_into_def max_defs)

section \<open>Witnesses\<close>

definition free_task :: task where
  "free_task = \<lparr>t_used = 0, t_jobname = ''EMPTY'', t_ijob = 0, t_icomp = 0, t_itask = 0, t_jobcmd = ''NONE'',
      t_owner = ''NOBODY'', t_frame = 0, t_frame_start = 0, t_frame_end = 0, t_frame_pad = 4,
      t_frame_step = 0, t_block_size = 0, t_pid = 0, t_exitstatus = 0, t_status = 0,
      t_start_loading_time = 0\<rparr>"

text \<open>An enabled computer with four processors, one running task and 31 free slots.\<close>

definition example_computer :: computer where
  "example_computer =
     \<lparr>hwinfo = \<lparr>hw_name = ''render1'', hw_address = ''10.0.0.1'', hw_id = 0, hw_arch = 1, hw_os = OS_LINUX,
        hw_proctype = 0, hw_procspeed = 0, hw_ncpus = 4, hw_speedindex = 0, hw_memory = 1024, hw_nnbits = 64\<rparr>,
      c_status = \<lparr>loadavg = [100, 100, 100], ntasks = 1, nrunning = 1,
        tasks = free_task\<lparr>t_used := 1, t_status := TASKSTATUS_RUNNING, t_pid := 77\<rparr> # replicate 31 free_task\<rparr>,
      c_limits = \<lparr>cl_enabled = 1, cl_nmaxcpus = 2, cl_maxfreeloadcpu = MAXLOADAVG,
        cl_autoenable = \<lparr>ae_last = 0, ae_h = AE_HOUR, ae_m = AE_MIN, ae_flags = 0\<rparr>, npools = 0, poolshmid = -1,
        poolsemid = -1, npoolsattached = 0, pool_ptr = None, local_pool = None\<rparr>,
      lastconn = 0, c_used = 1\<rparr>"

definition example_sdb :: slave_database where
  "example_sdb = \<lparr>comp = example_computer, sdb_semid = sem_free, sdb_now = 1000\<rparr>"

lemma example_sdb_ok:
  "sdb_semid example_sdb = sem_free" "length (tasks (c_status (comp example_sdb))) = MAXTASKS"
  by (simp_all add: example_sdb_def example_computer_def max_defs)

theorem task_available_lowest_free_witness:
  "\<exists>r d'. task_available example_sdb = Inr (r, d') \<and> sdb_semid d' = sem_free"
  using task_available_lowest_free [OF example_sdb_ok] by blast

theorem check_tasks_consistent_witness:
  "\<exists>d'. check_tasks (\<lambda>_. False) example_sdb = Inr d' \<and> ntasks (c_status (comp d')) = computer_ntasks (comp d')"
  using check_tasks_consistent [OF example_sdb_ok, of "\<lambda>_. False"] by blast

theorem computer_available_has_room_witness:
  "Suc (unat (nrunning (c_status example_computer))) \<le> 2"
proof -
  have "computer_available example_computer"
    by (simp add: computer_available_def example_computer_def max_defs Let_def)
  from computer_available_has_room [OF this] show ?thesis by (simp add: example_computer_def)
qed

end
