(* ===== verification/Pools.thy ===== *)
theory Pools
  imports Types Names
begin

text \<open>
  The pools a computer belongs to (\<open>computer_pool.c\<close>): \<open>npools\<close> names in the segment
  \<open>poolshmid\<close>.  The program is built with \<open>_NO_COMPUTER_POOL_SEMAPHORES\<close>, so locking a pool
  list does nothing.  \<open>pool_ptr\<close> is the segment \<open>cl->pool.ptr\<close> points into, \<open>None\<close> for NULL.
  A failed \<open>shmat\<close> empties the list: \<open>computer_pool_attach_shared_memory\<close> initialises it.
\<close>

type_synonym pool_state = "computer_limits \<times> cstring shm"

definition computer_pool_init :: "computer_limits \<Rightarrow> computer_limits" where
  "computer_pool_init cl =
     cl\<lparr>pool_ptr := None, local_pool := None, poolshmid := -1, poolsemid := -1,
        npools := 0, npoolsattached := 0\<rparr>"

definition computer_pool_get_shared_memory :: "u16 \<Rightarrow> cstring shm \<Rightarrow> int \<times> cstring shm" where
  "computer_pool_get_shared_memory n s = shmget [] (unat n) s"

definition computer_pool_attach_shared_memory :: "pool_state \<Rightarrow> cstring list option \<times> computer_limits" where
  "computer_pool_attach_shared_memory = (\<lambda>(cl, s).
     (case shmat (poolshmid cl) s of
        None \<Rightarrow> (None, computer_pool_init cl)
      | Some pool \<Rightarrow> (Some pool, cl\<lparr>pool_ptr := Some (poolshmid cl)\<rparr>)))"

definition computer_pool_detach_shared_memory :: "computer_limits \<Rightarrow> computer_limits" where
  "computer_pool_detach_shared_memory cl = cl\<lparr>pool_ptr := None\<rparr>"

definition computer_pool_free :: "pool_state \<Rightarrow> bool \<times> pool_state" where
  "computer_pool_free = (\<lambda>(cl, s).
     let cl1 = computer_pool_detach_shared_memory cl
     in if poolshmid cl1 \<noteq> -1
        then (case shmrm (poolshmid cl1) s of (rv, s') \<Rightarrow> (rv, computer_pool_init cl1, s'))
        else (True, computer_pool_init cl1, s))"

definition computer_pool_copy :: "computer_limits \<Rightarrow> computer_limits \<Rightarrow> computer_limits" where
  "computer_pool_copy cl_src cl_dst =
     cl_dst\<lparr>npoolsattached := npoolsattached cl_src, poolshmid := poolshmid cl_src,
            poolsemid := poolsemid cl_src, local_pool := local_pool cl_src,
            pool_ptr := pool_ptr cl_src, npools := npools cl_src\<rparr>"

definition computer_pool_exists :: "cstring \<Rightarrow> pool_state \<Rightarrow> fault + bool \<times> pool_state" where
  "computer_pool_exists poolname = (\<lambda>(cl, s).
     if npools cl = 0 \<or> poolshmid cl = -1 then Inr (False, cl, s)
     else (case computer_pool_attach_shared_memory (cl, s) of
         (None, cl1) \<Rightarrow> Inr (False, cl1, s)
       | (Some npool, cl1) \<Rightarrow>
           andThen (scan (\<lambda>p. p = poolname) (unat (npools cl1)) npool) (\<lambda>r.
             Inr (r \<noteq> None, computer_pool_detach_shared_memory cl1, s))))"

text \<open>
  \<open>computer_pool_add\<close> after the old list has been attached as \<open>opool\<close>, which is \<open>None\<close> where
  the C variable still holds \<open>-1\<close>.
\<close>

definition pool_append :: "cstring \<Rightarrow> cstring list option \<Rightarrow> pool_state \<Rightarrow> fault + bool \<times> pool_state" where
  "pool_append poolname opool = (\<lambda>(cl, s).
     let n = npools cl + 1
     in (case computer_pool_get_shared_memory n s of (npoolshmid, s1) \<Rightarrow>
       if npoolshmid = -1 then Inr (False, computer_pool_detach_shared_memory cl, s1)
       else
         let new_cl = (computer_pool_init cl)\<lparr>npools := n, poolshmid := npoolshmid\<rparr>
         in (case computer_pool_attach_shared_memory (new_cl, s1) of
             (None, new_cl) \<Rightarrow>
               Inr (False, computer_pool_detach_shared_memory cl, snd (snd (computer_pool_free (new_cl, s1))))
           | (Some npool, new_cl) \<Rightarrow>
               andThen
                 (if npools cl \<noteq> 0 then
                    (case opool of None \<Rightarrow> Inl WildPointer | Some old \<Rightarrow> memcpy npool old (unat (npools cl)))
                  else Inr npool) (\<lambda>npool1.
               andThen (wr npool1 (unat (npools cl)) (strncpy MAXNAMELEN poolname)) (\<lambda>npool2.
                 let old_cl = cl;
                     cl1 = computer_pool_detach_shared_memory (computer_pool_copy new_cl cl)
                 in Inr (True, cl1, snd (snd (computer_pool_free (old_cl, shmput npoolshmid npool2 s1)))))))))"

definition computer_pool_add :: "cstring \<Rightarrow> pool_state \<Rightarrow> fault + bool \<times> pool_state" where
  "computer_pool_add poolname st =
     andThen (computer_pool_exists poolname st) (\<lambda>(found, cl, s).
     if found then Inr (True, cl, s)
     else if poolshmid cl \<noteq> -1 \<and> npools cl \<noteq> 0 then
       (case computer_pool_attach_shared_memory (cl, s) of
          (None, cl1) \<Rightarrow> Inr (False, cl1, s)
        | (Some opool, cl1) \<Rightarrow> pool_append poolname (Some opool) (cl1, s))
     else pool_append poolname None (cl, s))"

definition computer_pool_remove :: "cstring \<Rightarrow> pool_state \<Rightarrow> fault + bool \<times> pool_state" where
  "computer_pool_remove poolname st =
     andThen (computer_pool_exists poolname st) (\<lambda>(found, cl, s).
     if \<not> found then Inr (False, cl, s)
     else if npools cl = 0 then Inr (False, cl, s)
     else (case computer_pool_attach_shared_memory (cl, s) of
         (None, cl1) \<Rightarrow> Inr (False, cl1, s)
       | (Some opool, cl1) \<Rightarrow>
           let n = npools cl1 - 1
           in (case computer_pool_get_shared_memory n s of (npoolshmid, s1) \<Rightarrow>
             if npoolshmid = -1 then Inr (False, computer_pool_detach_shared_memory cl1, s1)
             else
               let new_cl = (computer_pool_init cl1)\<lparr>npools := n, poolshmid := npoolshmid\<rparr>
               in (case computer_pool_attach_shared_memory (new_cl, s1) of
                   (None, new_cl) \<Rightarrow>
                     Inr (False, computer_pool_detach_shared_memory cl1,
                          snd (snd (computer_pool_free (new_cl, s1))))
                 | (Some npool, new_cl) \<Rightarrow>
                     andThen (copy_unless (\<lambda>p. p = poolname) npool opool (unat (npools cl1))) (\<lambda>npool1.
                       let s2 = shmput npoolshmid npool1 s1;
                           (_, cl2, s3) = computer_pool_free (computer_pool_detach_shared_memory cl1, s2);
                           cl3 = cl2\<lparr>poolshmid := poolshmid new_cl, npools := npools new_cl,
                                     pool_ptr := pool_ptr new_cl\<rparr>
                       in Inr (True, computer_pool_detach_shared_memory cl3, s3))))))"

text \<open>
  \<open>computer_pool_set_from_environment\<close>: \<open>env\<close> is \<open>getenv ("DRQUEUE_POOL")\<close>.  \<open>strtok\<close> never returns
  an empty token, so the branch for one is dead.  The result tells whether the process goes on
  (\<open>kill (0, SIGINT)\<close> otherwise).
\<close>

fun strtok_all :: "char set \<Rightarrow> cstring \<Rightarrow> cstring \<Rightarrow> cstring list" where
  "strtok_all seps tok [] = (if tok = [] then [] else [rev tok])"
| "strtok_all seps tok (c # cs) =
     (if c \<in> seps then (if tok = [] then strtok_all seps [] cs else rev tok # strtok_all seps [] cs)
      else strtok_all seps (c # tok) cs)"

fun pools_join :: "cstring list \<Rightarrow> pool_state \<Rightarrow> fault + pool_state" where
  "pools_join [] st = Inr st"
| "pools_join (p # ps) st = andThen (computer_pool_add p st) (\<lambda>(_, st'). pools_join ps st')"

definition computer_pool_set_from_environment ::
    "cstring option \<Rightarrow> pool_state \<Rightarrow> fault + bool \<times> pool_state" where
  "computer_pool_set_from_environment env st =
     andThen
       (case env of
          None \<Rightarrow> pools_join [DEFAULT_POOL] st
        | Some buf \<Rightarrow> pools_join (strtok_all {CHR '':'', CHR '' '', CHR '','', CHR ''='', CHR 0x0A} [] buf) st)
       (\<lambda>(cl, s).
         if npools cl = 0 then
           andThen (computer_pool_add DEFAULT_POOL (cl, s)) (\<lambda>(_, cl', s'). Inr (npools cl' = 1, cl', s'))
         else Inr (True, cl, s))"

section \<open>The set of pools\<close>

definition pool_names :: "pool_state \<Rightarrow> cstring list" where
  "pool_names = (\<lambda>(cl, s). names_in (unat (npools cl)) (poolshmid cl) s)"

definition pools_ok :: "pool_state \<Rightarrow> bool" where
  "pools_ok = (\<lambda>(cl, s). names_ok (unat (npools cl)) (poolshmid cl) s \<and> distinct (pool_names (cl, s)) \<and>
     (npools cl = 0 \<longrightarrow> poolshmid cl = -1))"

definition pool_fits :: "cstring \<Rightarrow> bool" where
  "pool_fits name \<longleftrightarrow> length name < MAXNAMELEN"

definition computer_pool_known :: "cstring \<Rightarrow> pool_state \<Rightarrow> fault + bool" where
  "computer_pool_known name st = andThen (computer_pool_exists name st) (\<lambda>(found, _). Inr found)"

lemma pools_none [simp]: "npools cl = 0 \<Longrightarrow> pool_names (cl, s) = []"
  by (simp add: pool_names_def names_in_def)

lemma pools_okD:
  assumes "pools_ok (cl, s)" "npools cl \<noteq> 0"
  obtains xs where "shmat (poolshmid cl) s = Some xs" "segs s (poolshmid cl) = Some xs"
    "unat (npools cl) \<le> length xs" "pool_names (cl, s) = take (unat (npools cl)) xs" "poolshmid cl \<noteq> -1"
proof -
  have ok: "names_ok (unat (npools cl)) (poolshmid cl) s" "unat (npools cl) \<noteq> 0"
    using assms by (simp_all add: pools_ok_def unat_eq_0)
  obtain xs where xs: "shmat (poolshmid cl) s = Some xs" "segs s (poolshmid cl) = Some xs"
    "unat (npools cl) \<le> length xs" "names_in (unat (npools cl)) (poolshmid cl) s = take (unat (npools cl)) xs"
    by (rule names_okD [OF ok])
  moreover have "poolshmid cl \<noteq> -1"
    using shm.live_not_minus1 [OF names_ok_shm [OF ok(1)]] xs(2) by simp
  ultimately show ?thesis using that by (simp add: pool_names_def)
qed

lemma pools_detach:
  "pools_ok (computer_pool_detach_shared_memory cl, s) = pools_ok (cl, s)"
  "pool_names (computer_pool_detach_shared_memory cl, s) = pool_names (cl, s)"
  "pools_ok (cl\<lparr>pool_ptr := q\<rparr>, s) = pools_ok (cl, s)"
  "pool_names (cl\<lparr>pool_ptr := q\<rparr>, s) = pool_names (cl, s)"
  by (simp_all add: computer_pool_detach_shared_memory_def pools_ok_def pool_names_def)

lemma pools_exists:
  assumes ok: "pools_ok (cl, s)"
  shows "\<exists>cl'. computer_pool_exists name (cl, s) = Inr (name \<in> set (pool_names (cl, s)), cl', s) \<and>
    npools cl' = npools cl \<and> poolshmid cl' = poolshmid cl"
proof (cases "npools cl = 0")
  case True
  then show ?thesis by (simp add: computer_pool_exists_def)
next
  case False
  then obtain xs where xs: "shmat (poolshmid cl) s = Some xs" "poolshmid cl \<noteq> -1"
    using pools_okD [OF ok] by metis
  have "scan (\<lambda>p. p = name) (unat (npools cl)) xs = Inr (first_idx (\<lambda>p. p = name) (pool_names (cl, s)))"
    using names_scan [of "unat (npools cl)", OF _ _ xs(1)] ok False
    by (simp add: pools_ok_def pool_names_def unat_gt_0)
  with False xs show ?thesis
    by (cases "first_idx (\<lambda>p. p = name) (pool_names (cl, s))")
      (auto simp: computer_pool_exists_def computer_pool_attach_shared_memory_def
        computer_pool_detach_shared_memory_def first_idx_None_iff dest!: first_idx_SomeD)
qed

lemma pools_cong:
  assumes "npools cl' = npools cl" "poolshmid cl' = poolshmid cl"
  shows "pools_ok (cl', s) = pools_ok (cl, s)" "pool_names (cl', s) = pool_names (cl, s)"
  using assms by (simp_all add: pools_ok_def pool_names_def)

lemma pools_known:
  "pools_ok st \<Longrightarrow> computer_pool_known name st = Inr (name \<in> set (pool_names st))"
  using pools_exists [of "fst st" "snd st" name] by (auto simp: computer_pool_known_def)

lemma pools_append:
  assumes ok: "pools_ok (cl, s)" and fits: "pool_fits name" and new: "name \<notin> set (pool_names (cl, s))"
    and opool: "npools cl \<noteq> 0 \<Longrightarrow> opool = shmat (poolshmid cl) s"
  shows "\<exists>b st. pool_append name opool (cl, s) = Inr (b, st) \<and> pools_ok st \<and>
    pool_names st = (if b then pool_names (cl, s) @ [name] else pool_names (cl, s))"
proof -
  define n where "n = unat (npools cl)"
  have nok: "names_ok n (poolshmid cl) s" using ok by (simp add: pools_ok_def n_def)
  obtain k s1 where g: "computer_pool_get_shared_memory (npools cl + 1) s = (k, s1)" by fastforce
  then have g0: "shmget [] (unat (npools cl + 1)) s = (k, s1)" by (simp add: computer_pool_get_shared_memory_def)
  note after = names_after_shmget [OF nok g0]
  have stay: "pools_ok (cl, s1)" "pool_names (cl, s1) = pool_names (cl, s)"
    using after ok by (simp_all add: pools_ok_def pool_names_def n_def)
  show ?thesis
  proof (cases "k \<noteq> -1 \<and> attachable s k")
    case False
    then have "pool_append name opool (cl, s) = Inr (False, computer_pool_detach_shared_memory cl, s1)"
      using g shmget_attachable [OF g0]
      by (auto simp: pool_append_def Let_def computer_pool_attach_shared_memory_def shmat_def
          computer_pool_free_def computer_pool_init_def computer_pool_detach_shared_memory_def)
    with stay show ?thesis
      by (intro exI [of _ False] exI [of _ "(computer_pool_detach_shared_memory cl, s1)"])
        (simp add: pools_detach)
  next
    case True
    then have k: "k \<noteq> -1" "attachable s k" by simp_all
    have "unat (npools cl + 1) \<noteq> 0" using g0 k(1) by (metis prod.inject shmget_zero)
    then have sz: "unat (npools cl + 1) = Suc n"
      by (metis n_def unatSuc unat_eq_0 add.commute)
    note g1 = g0 [unfolded sz]
    have s1: "shmat k s1 = Some (replicate (Suc n) [])"
      using shm.get_look [OF names_ok_shm [OF nok] g1 k(1)] shmget_attachable [OF g1] k(2)
      by (simp add: shmat_def)
    define xs where "xs = pool_names (cl, s) @ [name]"
    have short: "strncpy MAXNAMELEN name = name" using fits by (simp add: pool_fits_def)
    have len: "length (pool_names (cl, s)) = n"
      using nok by (cases "n = 0") (auto simp: pool_names_def names_in_def n_def elim!: names_okD)
    define s2 where "s2 = snd (snd (computer_pool_free (cl, shmput k xs s1)))"
    define cl' where "cl' = computer_pool_detach_shared_memory (computer_pool_copy
       ((computer_pool_init cl)\<lparr>npools := npools cl + 1, poolshmid := k, pool_ptr := Some k\<rparr>) cl)"
    have f: "npools cl' = npools cl + 1" "poolshmid cl' = k"
      by (simp_all add: cl'_def computer_pool_copy_def computer_pool_detach_shared_memory_def)
    have "pool_append name opool (cl, s) = Inr (True, cl', s2)"
    proof (cases "npools cl = 0")
      case True
      then show ?thesis
        using g k s1 short by (simp add: pool_append_def computer_pool_attach_shared_memory_def
            Let_def cl'_def s2_def xs_def n_def)
    next
      case False
      obtain o' where o': "shmat (poolshmid cl) s = Some o'" "n \<le> length o'" "pool_names (cl, s) = take n o'"
        using pools_okD [OF ok False] unfolding n_def by metis
      have "drop n (replicate (Suc n) ([] :: cstring)) = [[]]" using drop_replicate [of n "Suc n"] by simp
      with False g k s1 short o' opool [OF False] show ?thesis
        by (simp add: pool_append_def computer_pool_attach_shared_memory_def Let_def cl'_def s2_def
            xs_def list_update_append flip: n_def del: replicate_Suc)
    qed
    moreover have "pools_ok (cl', s2) \<and> pool_names (cl', s2) = xs"
    proof -
      have v1: "shm_ok (shmput k xs s1)"
        using shm.fill_look(3) [OF names_ok_shm [OF nok] g1 k(1)] .
      have at1: "attachable (shmput k xs s1) = attachable s" using shmget_attachable [OF g1] by simp
      have lx: "length xs = Suc n" using len by (simp add: xs_def)
      have base: "names_ok (Suc n) k (shmput k xs s1)" "names_in (Suc n) k (shmput k xs s1) = xs"
        using v1 at1 k(2) lx by (auto simp: names_ok_def names_in_def shmat_def)
      have other: "poolshmid cl \<noteq> k"
      proof (cases "npools cl = 0")
        case True
        with ok k show ?thesis by (simp add: pools_ok_def)
      next
        case False
        with names_ok_live [OF nok] show ?thesis
          using shm.get_other_live [OF names_ok_shm [OF nok] g1 k(1)] by (simp add: n_def unat_eq_0)
      qed
      obtain b t where r: "shmrm (poolshmid cl) (shmput k xs s1) = (b, t)" by fastforce
      have "s2 = (if poolshmid cl = -1 then shmput k xs s1 else t)"
        using r by (simp add: s2_def computer_pool_free_def computer_pool_detach_shared_memory_def)
      then have "names_ok (Suc n) k s2 \<and> names_in (Suc n) k s2 = xs"
        using base names_after_shmrm [OF base(1) r] other by simp
      moreover have "distinct xs" using ok new by (simp add: pools_ok_def xs_def)
      moreover have "npools cl' \<noteq> 0" using f(1) sz by (metis nat.distinct(1) unat_0)
      ultimately show ?thesis by (simp add: pools_ok_def pool_names_def f sz)
    qed
    ultimately show ?thesis by (intro exI [of _ True] exI [of _ "(cl', s2)"]) (simp add: xs_def)
  qed
qed

lemma pools_add:
  assumes ok: "pools_ok (cl, s)" and fits: "pool_fits name"
  shows "\<exists>b st. computer_pool_add name (cl, s) = Inr (b, st) \<and> pools_ok st \<and>
    set (pool_names st) = (if b then insert name (set (pool_names (cl, s))) else set (pool_names (cl, s)))"
proof -
  obtain cl' where e: "computer_pool_exists name (cl, s) = Inr (name \<in> set (pool_names (cl, s)), cl', s)"
    and f: "npools cl' = npools cl" "poolshmid cl' = poolshmid cl"
    using pools_exists [OF ok] by blast
  note c = pools_cong [OF f]
  show ?thesis
  proof (cases "name \<in> set (pool_names (cl, s))")
    case True
    with e have "computer_pool_add name (cl, s) = Inr (True, cl', s)" by (simp add: computer_pool_add_def)
    with ok c True show ?thesis by (intro exI [of _ True] exI [of _ "(cl', s)"]) (simp add: insert_absorb)
  next
    case new: False
    define opool where "opool = (if npools cl = 0 then None else shmat (poolshmid cl) s)"
    define cl2 where "cl2 = (if npools cl = 0 then cl' else cl'\<lparr>pool_ptr := Some (poolshmid cl)\<rparr>)"
    have "computer_pool_add name (cl, s) = pool_append name opool (cl2, s)"
    proof (cases "npools cl = 0")
      case True
      with e new f show ?thesis by (simp add: computer_pool_add_def opool_def cl2_def)
    next
      case False
      obtain xs where "shmat (poolshmid cl) s = Some xs" "poolshmid cl \<noteq> -1"
        using pools_okD [OF ok False] by metis
      with e new f False show ?thesis
        by (simp add: computer_pool_add_def opool_def cl2_def computer_pool_attach_shared_memory_def)
    qed
    moreover have c2: "pools_ok (cl2, s) = pools_ok (cl, s)" "pool_names (cl2, s) = pool_names (cl, s)"
      using c by (simp_all add: cl2_def pools_detach)
    moreover have "npools cl2 \<noteq> 0 \<Longrightarrow> opool = shmat (poolshmid cl2) s"
      using f by (auto simp: cl2_def opool_def split: if_splits)
    ultimately show ?thesis
      using pools_append [of cl2 s name opool] ok fits new by fastforce
  qed
qed

lemma pools_remove:
  assumes ok: "pools_ok (cl, s)"
  shows "\<exists>b st. computer_pool_remove name (cl, s) = Inr (b, st) \<and> pools_ok st \<and>
    set (pool_names st) = (if b then set (pool_names (cl, s)) - {name} else set (pool_names (cl, s)))"
proof -
  obtain cl' where e: "computer_pool_exists name (cl, s) = Inr (name \<in> set (pool_names (cl, s)), cl', s)"
    and f: "npools cl' = npools cl" "poolshmid cl' = poolshmid cl"
    using pools_exists [OF ok] by blast
  note c = pools_cong [OF f]
  show ?thesis
  proof (cases "name \<in> set (pool_names (cl, s))")
    case False
    with e have "computer_pool_remove name (cl, s) = Inr (False, cl', s)" by (simp add: computer_pool_remove_def)
    with ok c show ?thesis by (intro exI [of _ False] exI [of _ "(cl', s)"]) simp
  next
    case mem: True
    then have nz: "npools cl \<noteq> 0" by auto
    define n where "n = unat (npools cl)"
    have nok: "names_ok n (poolshmid cl) s" using ok by (simp add: pools_ok_def n_def)
    obtain xs where o': "shmat (poolshmid cl) s = Some xs" "segs s (poolshmid cl) = Some xs"
      "n \<le> length xs" "pool_names (cl, s) = take n xs" "poolshmid cl \<noteq> -1"
      using pools_okD [OF ok nz] unfolding n_def by metis
    have sz: "unat (npools cl - 1) = n - 1" using nz by (simp add: n_def unat_minus_one)
    define cl1 where "cl1 = cl'\<lparr>pool_ptr := Some (poolshmid cl)\<rparr>"
    have f1: "npools cl1 = npools cl" "poolshmid cl1 = poolshmid cl" using f by (simp_all add: cl1_def)
    have at: "computer_pool_attach_shared_memory (cl', s) = (Some xs, cl1)"
      using o'(1) f by (simp add: computer_pool_attach_shared_memory_def cl1_def)
    obtain k s1 where g: "shmget [] (n - 1) s = (k, s1)" by fastforce
    have g': "computer_pool_get_shared_memory (npools cl - 1) s = (k, s1)"
      using g sz by (simp add: computer_pool_get_shared_memory_def)
    note after = names_after_shmget [OF nok g]
    show ?thesis
    proof (cases "k \<noteq> -1 \<and> attachable s k")
      case False
      then have "computer_pool_remove name (cl, s) = Inr (False, computer_pool_detach_shared_memory cl1, s1)"
        using shmget_attachable [OF g] e mem nz f at g' f1
        by (auto simp: computer_pool_remove_def Let_def computer_pool_attach_shared_memory_def shmat_def
            computer_pool_free_def computer_pool_init_def computer_pool_detach_shared_memory_def)
      moreover have "pools_ok (cl1, s1)" "pool_names (cl1, s1) = pool_names (cl, s)"
        using after ok f1 nz by (simp_all add: pools_ok_def pool_names_def n_def)
      ultimately show ?thesis
        by (intro exI [of _ False] exI [of _ "(computer_pool_detach_shared_memory cl1, s1)"])
          (simp add: pools_detach)
    next
      case True
      then have k: "k \<noteq> -1" "attachable s k" by simp_all
      have n1: "n - 1 \<noteq> 0" using g k(1) by (cases "n - 1 = 0") auto
      define kept where "kept = filter (\<lambda>h. h \<noteq> name) (take n xs)"
      have lk: "length kept = n - 1"
        using length_filter_key [of id "take n xs" name] ok mem o'(3,4) by (simp add: kept_def pools_ok_def)
      have s1: "shmat k s1 = Some (replicate (n - 1) [])"
        using shm.get_look [OF names_ok_shm [OF nok] g k(1)] shmget_attachable [OF g] k(2)
        by (simp add: shmat_def)
      have copy: "copy_unless (\<lambda>p. p = name) (replicate (n - 1) []) xs n = Inr kept"
        using o'(3) lk by (simp add: copy_unless_def kept_def [symmetric])
      obtain b t where r: "shmrm (poolshmid cl) (shmput k kept s1) = (b, t)" by fastforce
      define cl3 where "cl3 = computer_pool_detach_shared_memory ((computer_pool_init
         (computer_pool_detach_shared_memory (computer_pool_detach_shared_memory cl1)))
         \<lparr>poolshmid := k, npools := npools cl - 1, pool_ptr := Some k\<rparr>)"
      have "computer_pool_remove name (cl, s) = Inr (True, cl3, t)"
        using e mem nz f at g' f1 k s1 copy r o'(5)
        by (simp add: computer_pool_remove_def Let_def computer_pool_attach_shared_memory_def cl3_def
            computer_pool_free_def computer_pool_detach_shared_memory_def n_def)
      moreover have "pools_ok (cl3, t) \<and> pool_names (cl3, t) = kept"
      proof -
        have v1: "shm_ok (shmput k kept s1)"
          using shm.fill_look(3) [OF names_ok_shm [OF nok] g k(1)] .
        have at1: "attachable (shmput k kept s1) = attachable s" using shmget_attachable [OF g] by simp
        have base: "names_ok (n - 1) k (shmput k kept s1)" "names_in (n - 1) k (shmput k kept s1) = kept"
          using v1 at1 k(2) lk n1 by (auto simp: names_ok_def names_in_def shmat_def)
        have ne: "poolshmid cl \<noteq> k"
          using shm.get_other_live [OF names_ok_shm [OF nok] g k(1)] o'(2) by simp
        have f3: "npools cl3 = npools cl - 1" "poolshmid cl3 = k"
          by (simp_all add: cl3_def computer_pool_detach_shared_memory_def)
        have "npools cl3 \<noteq> 0" using f3(1) sz n1 by (metis unat_0)
        moreover have "distinct kept" using ok o'(4) by (simp add: kept_def pools_ok_def)
        ultimately show ?thesis
          using names_after_shmrm [OF base(1) r] base(2) ne f3 sz by (simp add: pools_ok_def pool_names_def)
      qed
      moreover have "set kept = set (pool_names (cl, s)) - {name}"
        using o'(4) by (auto simp: kept_def)
      ultimately show ?thesis by (intro exI [of _ True] exI [of _ "(cl3, t)"]) simp
    qed
  qed
qed

interpretation pools: name_set pools_ok "\<lambda>st. set (pool_names st)"
  computer_pool_known computer_pool_add computer_pool_remove pool_fits "\<lambda>_. True"
proof (unfold_locales, goal_cases)
  case (1 s n)
  then show ?case by (simp only: pools_known)
next
  case (2 s n)
  then show ?case by (cases s) (simp only: pools_add)
next
  case (3 s n)
  then show ?case by (cases s) (simp only: pools_remove)
qed

section \<open>Properties\<close>

text \<open>Joining a pool always returns, whatever memory the system grants.  Reporting success,
  it has added the name to the set of pools; reporting failure, it has changed nothing.\<close>

theorem computer_pool_add_refines:
  assumes "pools_ok st" "length name < MAXNAMELEN"
  shows "\<exists>b st'. computer_pool_add name st = Inr (b, st') \<and> pools_ok st' \<and>
    set (pool_names st') = (if b then insert name (set (pool_names st)) else set (pool_names st))"
  using pools.add_law [of st name] assms by (simp add: pool_fits_def)

text \<open>Leaving a pool always returns.  Reporting success, it has removed exactly that name;
  reporting failure, it has changed nothing.  Leaving a pool just joined restores the set.\<close>

theorem computer_pool_remove_refines:
  assumes "pools_ok st" "length name < MAXNAMELEN"
  shows "\<exists>b st'. computer_pool_remove name st = Inr (b, st') \<and> pools_ok st' \<and>
    set (pool_names st') = (if b then set (pool_names st) - {name} else set (pool_names st)) \<and>
    (\<forall>st0. b \<longrightarrow> pools_ok st0 \<longrightarrow> name \<notin> set (pool_names st0) \<longrightarrow>
       computer_pool_add name st0 = Inr (True, st) \<longrightarrow> set (pool_names st') = set (pool_names st0))"
proof -
  have fits: "pool_fits name" using assms(2) by (simp add: pool_fits_def)
  obtain b st' where r: "computer_pool_remove name st = Inr (b, st')" "pools_ok st'"
    "set (pool_names st') = (if b then set (pool_names st) - {name} else set (pool_names st))"
    using pools.remove_law [OF assms(1) fits] by blast
  show ?thesis
    by (intro exI [of _ b] exI [of _ st'] conjI r allI impI)
      (use pools.add_remove [OF _ fits TrueI, of _ st st'] r(1) in auto)
qed

text \<open>A list that cannot be attached is lost: the failing \<open>shmat\<close> inside
  \<open>computer_pool_exists\<close> empties it, and the addition goes on to report success with the new
  pool as the only one.\<close>

definition unattachable_pools :: pool_state where
  "unattachable_pools =
     (\<lparr>cl_enabled = 1, cl_nmaxcpus = 1, cl_maxfreeloadcpu = 1,
       cl_autoenable = \<lparr>ae_last = 0, ae_h = 21, ae_m = 0, ae_flags = 1\<rparr>, npools = 2, poolshmid = 0,
       poolsemid = -1, npoolsattached = 0, pool_ptr = None, local_pool = None\<rparr>,
      shm_empty\<lparr>segs := [0 \<mapsto> [''Default'', ''gpu'']], next_id := 1, attachable := (\<lambda>i. i \<noteq> 0)\<rparr>)"

theorem unattachable_pools_are_forgotten:
  "pool_names unattachable_pools = [''Default'', ''gpu''] \<and>
   (\<exists>st'. computer_pool_add ''fx'' unattachable_pools = Inr (True, st') \<and> pool_names st' = [''fx''])"
  by (simp add: unattachable_pools_def pool_names_def names_in_def computer_pool_add_def
      computer_pool_exists_def computer_pool_attach_shared_memory_def shmat_def computer_pool_init_def
      pool_append_def computer_pool_get_shared_memory_def shmget_def shm_empty_def Let_def wr_def
      strncpy_def max_defs computer_pool_copy_def computer_pool_detach_shared_memory_def
      computer_pool_free_def shmput_def)

section \<open>Witnesses\<close>

definition two_pools :: pool_state where
  "two_pools = (fst unattachable_pools, (snd unattachable_pools)\<lparr>attachable := (\<lambda>_. True)\<rparr>)"

lemma two_pools_ok: "pools_ok two_pools"
  by (simp add: two_pools_def unattachable_pools_def pools_ok_def pool_names_def names_in_def
      names_ok_def shm_ok_def shm_empty_def shmat_def)

theorem computer_pool_add_refines_witness:
  "\<exists>b st'. computer_pool_add ''fx'' two_pools = Inr (b, st') \<and> pools_ok st' \<and>
    set (pool_names st') = (if b then insert ''fx'' (set (pool_names two_pools)) else set (pool_names two_pools))"
  by (rule computer_pool_add_refines) (simp_all add: two_pools_ok max_defs)

theorem computer_pool_remove_refines_witness:
  "\<exists>b st'. computer_pool_remove ''gpu'' two_pools = Inr (b, st') \<and> pools_ok st' \<and>
    set (pool_names st') = (if b then set (pool_names two_pools) - {''gpu''} else set (pool_names two_pools)) \<and>
    (\<forall>st0. b \<longrightarrow> pools_ok st0 \<longrightarrow> ''gpu'' \<notin> set (pool_names st0) \<longrightarrow>
       computer_pool_add ''gpu'' st0 = Inr (True, two_pools) \<longrightarrow> set (pool_names st') = set (pool_names st0))"
  by (rule computer_pool_remove_refines) (simp_all add: two_pools_ok max_defs)

end
