(* ===== verification/Dispatch.thy ===== *)
theory Dispatch
  imports Jobs Tasks Pools
begin

text \<open>
  Handing out frames (\<open>job.c\<close>, \<open>computer.c\<close>): whether a job may be given to a computer, which
  of its frames is next, the bookkeeping on both sides of an assignment, and the periodic
  check that brings a job's counters and status in line with its frames.
\<close>

section \<open>Limits\<close>

definition os_allowed :: "u8 \<Rightarrow> u16 \<Rightarrow> bool" where
  "os_allowed os flags =
     (if os = OS_LINUX \<and> \<not> (flags AND OSF_LINUX \<noteq> 0) then False
      else if os = OS_IRIX \<and> \<not> (flags AND OSF_IRIX \<noteq> 0) then False
      else if os = OS_OSX \<and> \<not> (flags AND OSF_OSX \<noteq> 0) then False
      else if os = OS_FREEBSD \<and> \<not> (flags AND OSF_FREEBSD \<noteq> 0) then False
      else if os = OS_CYGWIN \<and> \<not> (flags AND OSF_CYGWIN \<noteq> 0) then False
      else True)"

definition job_limits_passed :: "u32 \<Rightarrow> u32 \<Rightarrow> master \<Rightarrow> fault + bool \<times> master" where
  "job_limits_passed ijob icomp m =
     andThen (rd (jobs m) (unat ijob)) (\<lambda>j.
     andThen (rd (computers m) (unat icomp)) (\<lambda>c.
     if j_nprocs j \<ge> jl_nmaxcpus (limits j) then Inr (False, m)
     else if computer_nrunning_job c ijob \<ge> jl_nmaxcpuscomputer (limits j) then Inr (False, m)
     else if \<not> os_allowed (hw_os (hwinfo c)) (jl_os_flags (limits j)) then Inr (False, m)
     else if hw_memory (hwinfo c) < jl_memory (limits j) then Inr (False, m)
     else
       let pools_test =
             andThen (computer_pool_exists (jl_pool (limits j)) (c_limits c, pool_shm m)) (\<lambda>(found, cl, ps).
               Inr (found, upd_computer (unat icomp) (\<lambda>c. c\<lparr>c_limits := cl\<rparr>) (m\<lparr>pool_shm := ps\<rparr>)))
       in if nblocked j \<noteq> 0 then
            (case attach_blocked_host_shared_memory (bhshmid j) (host_shm m) of
               None \<Rightarrow> Inr (False, m)
             | Some bh \<Rightarrow>
                 andThen (scan (\<lambda>h. hw_name (hwinfo c) = h) (unat (nblocked j)) bh) (\<lambda>r.
                   if r \<noteq> None then Inr (False, m) else pools_test))
          else pools_test))"

section \<open>The next frame\<close>

definition assign_frame :: "u32 \<Rightarrow> frame_info \<Rightarrow> frame_info" where
  "assign_frame icomp fi = fi\<lparr>fi_status := FS_ASSIGNED, fi_icomp := icomp, fi_itask := -1\<rparr>"

definition job_first_frame_available :: "u32 \<Rightarrow> u32 \<Rightarrow> master \<Rightarrow> fault + u32 \<times> master" where
  "job_first_frame_available ijob icomp m =
     andThen (rd (jobs m) (unat ijob)) (\<lambda>j.
       let nframes = job_nframes j
       in if nframes \<noteq> 0 then
            (case attach_frame_shared_memory (fishmid j) (frame_shm m) of
               None \<Rightarrow> Inr (-1, m)
             | Some fi \<Rightarrow>
                 andThen (scan (\<lambda>f. fi_status f = FS_WAITING) (unat nframes) fi) (\<lambda>r.
                   case r of
                     None \<Rightarrow> Inr (-1, m)
                   | Some i \<Rightarrow>
                       Inr (of_nat i,
                            upd_job ijob (\<lambda>j. j\<lparr>j_nprocs := j_nprocs j + 1, fleft := fleft j - 1\<rparr>)
                              (m\<lparr>frame_shm := shmput (fishmid j) (fi[i := assign_frame icomp (fi ! i)])
                                               (frame_shm m)\<rparr>))))
          else Inr (-1, m))"

definition job_first_frame_available_no_icomp :: "u32 \<Rightarrow> master \<Rightarrow> fault + u32" where
  "job_first_frame_available_no_icomp ijob m =
     andThen (rd (jobs m) (unat ijob)) (\<lambda>j.
       let nframes = job_nframes j
       in if nframes \<noteq> 0 then
            (case attach_frame_shared_memory (fishmid j) (frame_shm m) of
               None \<Rightarrow> Inr (-1)
             | Some fi \<Rightarrow>
                 andThen (scan (\<lambda>f. fi_status f = FS_WAITING) (unat nframes) fi) (\<lambda>r.
                   case r of None \<Rightarrow> Inr (-1) | Some i \<Rightarrow> Inr (of_nat i)))
          else Inr (-1))"

text \<open>
  The tests \<open>job_available\<close> and \<open>job_available_no_icomp\<close> share: a valid job that is waiting or
  active and whose dependency, if any, has finished.
\<close>

definition job_may_run :: "u32 \<Rightarrow> master \<Rightarrow> fault + bool" where
  "job_may_run ijob m =
     andThen (job_index_correct_master m ijob) (\<lambda>ok.
     if \<not> ok then Inr False
     else andThen (rd (jobs m) (unat ijob)) (\<lambda>j.
       if \<not> (j_status j = JOBSTATUS_WAITING \<or> j_status j = JOBSTATUS_ACTIVE) then Inr False
       else if j_flags j AND JF_JOBDEPEND \<noteq> 0 then
         andThen (rd (jobs m) (unat (dependid j))) (\<lambda>d. Inr (j_status d = JOBSTATUS_FINISHED))
       else Inr True))"

text \<open>The frame index is \<open>Some\<close> where the C function returns 1.\<close>

definition job_available :: "u32 \<Rightarrow> u32 \<Rightarrow> master \<Rightarrow> fault + u32 option \<times> master" where
  "job_available ijob icomp m =
     andThen (lock_db m) (\<lambda>m.
     andThen (job_may_run ijob m) (\<lambda>may.
     if \<not> may then Inr (None, release_db m)
     else andThen (job_limits_passed ijob icomp m) (\<lambda>(ok, m).
       if \<not> ok then Inr (None, release_db m)
       else andThen (job_first_frame_available ijob icomp m) (\<lambda>(iframe, m).
         if iframe = -1 then Inr (None, release_db m) else Inr (Some iframe, release_db m)))))"

definition job_available_no_icomp :: "u32 \<Rightarrow> master \<Rightarrow> fault + u32 option \<times> master" where
  "job_available_no_icomp ijob m =
     andThen (lock_db m) (\<lambda>m.
     andThen (job_may_run ijob m) (\<lambda>may.
     if \<not> may then Inr (None, release_db m)
     else andThen (job_first_frame_available_no_icomp ijob m) (\<lambda>iframe.
       if iframe = -1 then Inr (None, release_db m) else Inr (Some iframe, release_db m))))"

section \<open>Recording an assignment\<close>

definition job_update_assigned :: "u32 \<Rightarrow> u32 \<Rightarrow> u32 \<Rightarrow> u16 \<Rightarrow> master \<Rightarrow> fault + master" where
  "job_update_assigned ijob iframe icomp itask m =
     andThen (job_index_correct_master m ijob) (\<lambda>ok.
     if \<not> ok then Inr m
     else andThen (rd (jobs m) (unat ijob)) (\<lambda>j.
     andThen (job_frame_number_correct j (job_frame_index_to_number j iframe)) (\<lambda>ok.
     if \<not> ok then Inr m
     else (case attach_frame_shared_memory (fishmid j) (frame_shm m) of
         None \<Rightarrow> Inr m
       | Some fi \<Rightarrow>
           andThen (rd fi (unat iframe)) (\<lambda>f.
             let f' = f\<lparr>fi_status := FS_ASSIGNED, fi_icomp := icomp, fi_itask := itask,
                       fi_start_time := time32 m, fi_end_time := time32 m + avg_frame_time j,
                       fi_exitcode := 0\<rparr>;
                 m' = m\<lparr>frame_shm := shmput (fishmid j) (fi[unat iframe := f']) (frame_shm m)\<rparr>
             in Inr (if j_nprocs j \<noteq> 0 then upd_job ijob (\<lambda>j. j\<lparr>j_status := JOBSTATUS_ACTIVE\<rparr>) m'
                     else m'))))))"

definition assigned_task :: "job \<Rightarrow> u32 \<Rightarrow> u32 \<Rightarrow> u32 \<Rightarrow> u16 \<Rightarrow> task \<Rightarrow> task" where
  "assigned_task j ijob iframe icomp itask t =
     t\<lparr>t_used := 1, t_status := TASKSTATUS_LOADING, t_jobname := strncpy (MAXNAMELEN - 1) (j_name j),
       t_ijob := ijob, t_icomp := icomp, t_jobcmd := strncpy (MAXCMDLEN - 1) (j_cmd j),
       t_owner := strncpy (MAXNAMELEN - 1) (j_owner j), t_frame := job_frame_index_to_number j iframe,
       t_frame_start := frame_start j, t_frame_end := frame_end j, t_frame_step := frame_step j,
       t_block_size := block_size j, t_frame_pad := frame_pad j, t_pid := 0, t_exitstatus := 0,
       t_itask := itask\<rparr>"

definition computer_update_assigned :: "u32 \<Rightarrow> u32 \<Rightarrow> u32 \<Rightarrow> u16 \<Rightarrow> master \<Rightarrow> fault + master" where
  "computer_update_assigned ijob iframe icomp itask m =
     andThen (job_index_correct_master m ijob) (\<lambda>ok.
     if \<not> ok then Inr m
     else andThen (computer_index_correct_master m icomp) (\<lambda>ok.
     if \<not> ok then Inr m
     else if unat itask \<ge> MAXTASKS then Inr m
     else andThen (rd (jobs m) (unat ijob)) (\<lambda>j.
     andThen (rd (computers m) (unat icomp)) (\<lambda>c.
     andThen (rd (tasks (c_status c)) (unat itask)) (\<lambda>t.
       Inr (upd_computer (unat icomp) (\<lambda>c. c\<lparr>c_status := (c_status c)
              \<lparr>tasks := (tasks (c_status c))[unat itask := assigned_task j ijob iframe icomp itask t],
               ntasks := ntasks (c_status c) + 1, nrunning := nrunning (c_status c) + 1\<rparr>\<rparr>) m))))))"

section \<open>Checking the frames of a job\<close>

definition job_frame_waiting :: "u32 \<Rightarrow> u32 \<Rightarrow> master \<Rightarrow> fault + master" where
  "job_frame_waiting ijob iframe m =
     andThen (lock_db m) (\<lambda>m.
     andThen (job_index_correct_master m ijob) (\<lambda>ok.
     if \<not> ok then Inr m
     else andThen (rd (jobs m) (unat ijob)) (\<lambda>j.
     andThen (job_frame_number_correct j (job_frame_index_to_number j iframe)) (\<lambda>ok.
     if \<not> ok then Inr m
     else (case attach_frame_shared_memory (fishmid j) (frame_shm m) of
         None \<Rightarrow> Inr (release_db m)
       | Some fi \<Rightarrow>
           andThen (rd fi (unat iframe)) (\<lambda>f.
             let f' = f\<lparr>fi_status := FS_WAITING, fi_start_time := 0, fi_requeued := fi_requeued f + 1\<rparr>;
                 m' = m\<lparr>frame_shm := shmput (fishmid j) (fi[unat iframe := f']) (frame_shm m)\<rparr>
             in Inr (release_db
                  (if j_nprocs j \<noteq> 0 then upd_job ijob (\<lambda>j. j\<lparr>j_nprocs := j_nprocs j - 1\<rparr>) m' else m')))))))) "

text \<open>
  \<open>frame_runs\<close> is the part of \<open>job_check_frame_status\<close> that decides whether an assigned frame
  is still running.  The computer index is cut to 16 bits on the way.
\<close>

definition frame_runs :: "u32 \<Rightarrow> job \<Rightarrow> frame_info \<Rightarrow> master \<Rightarrow> fault + bool" where
  "frame_runs ijob j f m =
     (let icomp = (ucast (fi_icomp f) :: u16); itask = fi_itask f
      in if fi_status f \<noteq> FS_ASSIGNED then Inr True
         else andThen (computer_index_correct_master m (ucast icomp)) (\<lambda>ok.
           if \<not> ok then Inr False
           else if itask \<noteq> -1 then
             andThen (rd (computers m) (unat icomp)) (\<lambda>c.
             andThen (rd (tasks (c_status c)) (unat itask)) (\<lambda>t.
               if t_used t = 0 then Inr False
               else
                 let running = \<not> (t_status t \<noteq> TASKSTATUS_RUNNING \<and> t_status t \<noteq> TASKSTATUS_LOADING);
                     running = (if t_ijob t \<noteq> ijob then False else running)
                 in andThen (job_index_correct_master m ijob) (\<lambda>ok.
                      if \<not> ok then Inr False
                      else if t_jobname t \<noteq> j_name j then Inr False
                      else Inr running)))
           else Inr True))"

definition job_check_frame_status :: "u32 \<Rightarrow> u32 \<Rightarrow> frame_info list \<Rightarrow> master \<Rightarrow> fault + bool \<times> master" where
  "job_check_frame_status ijob iframe fi m =
     andThen (lock_db m) (\<lambda>m.
     andThen (job_index_correct_master m ijob) (\<lambda>ok.
     if \<not> ok then Inr (False, release_db m)
     else andThen (rd (jobs m) (unat ijob)) (\<lambda>j.
     andThen (job_frame_number_correct j (job_frame_index_to_number j iframe)) (\<lambda>ok.
     if \<not> ok then Inr (False, release_db m)
     else andThen (rd fi (unat iframe)) (\<lambda>f.
     andThen (frame_runs ijob j f m) (\<lambda>running.
     if running then Inr (True, release_db m)
     else (case attach_frame_shared_memory (fishmid j) (frame_shm m) of
         None \<Rightarrow> Inr (False, release_db m)
       | Some fitmp \<Rightarrow>
           andThen (rd fitmp (unat iframe)) (\<lambda>g.
             let g' = g\<lparr>fi_status := FS_WAITING, fi_start_time := 0, fi_requeued := fi_requeued g + 1\<rparr>
             in Inr (True, release_db
                  (m\<lparr>frame_shm := shmput (fishmid j) (fitmp[unat iframe := g']) (frame_shm m)\<rparr>)))))))))) "

fun job_check_frames :: "u32 \<Rightarrow> frame_info list \<Rightarrow> nat list \<Rightarrow> master \<Rightarrow> fault + bool \<times> master" where
  "job_check_frames ijob fi [] m = Inr (True, m)"
| "job_check_frames ijob fi (i # is) m =
     andThen (job_check_frame_status ijob (of_nat i) fi m) (\<lambda>(ok, m).
       if \<not> ok then Inr (False, m) else job_check_frames ijob fi is m)"

definition count_status :: "u8 \<Rightarrow> frame_info list \<Rightarrow> nat" where
  "count_status st fi = count_if (\<lambda>f. fi_status f = st) fi"

definition frame_times :: "frame_info list \<Rightarrow> u64" where
  "frame_times fi =
     sum_list (map (\<lambda>f. ucast (fi_end_time f - fi_start_time f)) (filter (\<lambda>f. fi_status f = FS_FINISHED) fi))"

text \<open>The second half of \<open>job_update_info\<close>: the new counters, the estimate and the new status.\<close>

definition new_counts :: "frame_info list \<Rightarrow> u64 \<Rightarrow> job \<Rightarrow> job" where
  "new_counts fi now j =
     (let nprocs = of_nat (count_status FS_ASSIGNED fi) :: u16;
          nleft = of_nat (count_status FS_WAITING fi) :: u32;
          ndone = of_nat (count_status FS_FINISHED fi) :: u32;
          nfailed = of_nat (count_status FS_ERROR fi) :: u32;
          avg = (if ndone \<noteq> 0 then frame_times fi div ucast ndone else frame_times fi);
          j = j\<lparr>j_nprocs := nprocs, fleft := nleft, fdone := ndone, ffailed := nfailed\<rparr>;
          j = (if ndone \<noteq> 0 then j\<lparr>avg_frame_time := ucast avg\<rparr> else j)
      in if nprocs \<noteq> 0 \<and> (ndone \<noteq> old_fdone j \<or> nprocs \<noteq> old_nprocs j)
         then j\<lparr>est_finish_time := ucast (now + avg * ucast (nleft + ucast nprocs) div ucast nprocs),
                old_fdone := ndone, old_nprocs := nprocs\<rparr>
         else j)"

definition job_new_status :: "u32 \<Rightarrow> master \<Rightarrow> master" where
  "job_new_status ijob m =
     (let j = jobs m ! unat ijob
      in if j_status j = JOBSTATUS_WAITING \<or> j_status j = JOBSTATUS_ACTIVE then
           if j_nprocs j > 0 then upd_job ijob (\<lambda>j. j\<lparr>j_status := JOBSTATUS_ACTIVE\<rparr>) m
           else if fleft j = 0 then
             let m = upd_job ijob (\<lambda>j. j\<lparr>j_status := JOBSTATUS_FINISHED, est_finish_time := time32 m\<rparr>) m;
                 m = (if j_flags j AND JF_MAILNOTIFY \<noteq> 0 then m\<lparr>mailed := mailed m @ [j_name j]\<rparr> else m)
             in if j_flags j AND JF_JOBDELETE \<noteq> 0 then delete_job ijob m else m
           else upd_job ijob (\<lambda>j. j\<lparr>j_status := JOBSTATUS_WAITING\<rparr>) m
         else if j_status j = JOBSTATUS_STOPPED then m
         else if j_status j = JOBSTATUS_FINISHED then
           if fleft j > 0 then upd_job ijob (\<lambda>j. j\<lparr>j_status := JOBSTATUS_WAITING\<rparr>) m else m
         else m)"

text \<open>
  \<open>job_update_info\<close>.  The frames are copied under the lock and counted from the copy, also
  those that \<open>job_check_frame_status\<close> has just requeued.
\<close>

definition job_update_info :: "u32 \<Rightarrow> master \<Rightarrow> fault + master" where
  "job_update_info ijob m =
     andThen (lock_db m) (\<lambda>m.
     andThen (job_index_correct_master m ijob) (\<lambda>ok.
     if \<not> ok then Inr (release_db m)
     else andThen (rd (jobs m) (unat ijob)) (\<lambda>j.
       let total = unat (job_nframes (job_copy j))
       in andThen
         (if total = 0 then Inr (Some [])
          else (case attach_frame_shared_memory (fishmid j) (frame_shm m) of
              None \<Rightarrow> Inr None
            | Some fi \<Rightarrow> if total \<le> length fi then Inr (Some (take total fi)) else Inl OutOfBounds))
         (\<lambda>copy. case copy of
            None \<Rightarrow> Inr (release_db m)
          | Some fi \<Rightarrow>
              andThen (job_check_frames ijob fi [0..<total] (release_db m)) (\<lambda>(ok, m).
              if \<not> ok then Inr m
              else andThen (lock_db m) (\<lambda>m.
              andThen (job_index_correct_master m ijob) (\<lambda>ok.
              if \<not> ok then Inr (release_db m)
              else Inr (release_db (job_new_status ijob (upd_job ijob (new_counts fi (clock m)) m))))))))))"

end
