(* ===== verification/World.thy ===== *)
theory World
  imports Dispatch
begin

text \<open>
  What is true of the master's database between two requests: the arrays have their C
  lengths, every job that has frames has a segment of exactly as many records, and no two
  jobs share one.  The lemmas say how the pieces of the database change under the updates the
  program makes.
\<close>

definition shape_ok :: "master \<Rightarrow> bool" where
  "shape_ok m \<longleftrightarrow>
     length (jobs m) = MAXJOBS \<and> length (computers m) = MAXCOMPUTERS \<and>
     (\<forall>c \<in> set (computers m). length (tasks (c_status c)) = MAXTASKS)"

definition frame_count :: "master \<Rightarrow> nat \<Rightarrow> nat" where
  "frame_count m i = unat (job_nframes (jobs m ! i))"

definition has_frames :: "master \<Rightarrow> nat \<Rightarrow> bool" where
  "has_frames m i \<longleftrightarrow> j_used (jobs m ! i) \<noteq> 0 \<and> job_nframes (jobs m ! i) \<noteq> 0"

definition frames_of :: "master \<Rightarrow> nat \<Rightarrow> frame_info list" where
  "frames_of m i =
     (if job_nframes (jobs m ! i) = 0 then [] else the (segs (frame_shm m) (fishmid (jobs m ! i))))"

definition frames_ok :: "master \<Rightarrow> bool" where
  "frames_ok m \<longleftrightarrow>
     shm_ok (frame_shm m) \<and>
     (\<forall>i < MAXJOBS. has_frames m i \<longrightarrow>
        segs (frame_shm m) (fishmid (jobs m ! i)) = Some (frames_of m i) \<and>
        length (frames_of m i) = frame_count m i) \<and>
     (\<forall>i < MAXJOBS. \<forall>k < MAXJOBS. has_frames m i \<longrightarrow> has_frames m k \<longrightarrow>
        fishmid (jobs m ! i) = fishmid (jobs m ! k) \<longrightarrow> i = k)"

definition world_ok :: "master \<Rightarrow> bool" where
  "world_ok m \<longleftrightarrow> shape_ok m \<and> frames_ok m \<and> semid m = sem_free"

definition lists_ok :: "master \<Rightarrow> bool" where
  "lists_ok m \<longleftrightarrow>
     (\<forall>j \<in> set (jobs m). hosts_ok (j, host_shm m)) \<and>
     (\<forall>c \<in> set (computers m). pools_ok (c_limits c, pool_shm m))"

lemma world_okD:
  assumes "world_ok m"
  shows "length (jobs m) = MAXJOBS" "length (computers m) = MAXCOMPUTERS" "frames_ok m"
    "semid m = sem_free" "shape_ok m"
  using assms by (simp_all add: world_ok_def shape_ok_def)

lemma frames_okD:
  assumes "frames_ok m" "has_frames m i" "i < MAXJOBS"
  shows "segs (frame_shm m) (fishmid (jobs m ! i)) = Some (frames_of m i)"
    "length (frames_of m i) = frame_count m i"
  using assms by (auto simp: frames_ok_def)

text \<open>Updates that leave frames and jobs alone, or change a job outside the fields that matter here.\<close>

lemma frames_ok_cong:
  assumes "jobs m' = jobs m" "frame_shm m' = frame_shm m"
  shows "frames_ok m' = frames_ok m" "frames_of m' = frames_of m" "frame_count m' = frame_count m"
    "has_frames m' = has_frames m"
  using assms
  by (simp_all add: frames_ok_def has_frames_def frames_of_def frame_count_def fun_eq_iff)

definition same_frames :: "job \<Rightarrow> job \<Rightarrow> bool" where
  "same_frames j j' \<longleftrightarrow> j_used j' = j_used j \<and> job_nframes j' = job_nframes j \<and> fishmid j' = fishmid j"

lemma job_nframes_cong:
  "frame_start j' = frame_start j \<Longrightarrow> frame_end j' = frame_end j \<Longrightarrow> frame_step j' = frame_step j \<Longrightarrow>
   block_size j' = block_size j \<Longrightarrow> job_nframes j' = job_nframes j"
  by (simp add: job_nframes_def)

lemma jobs_upd_nth:
  "jobs (upd_job i f m) ! k =
     (if k = unat i \<and> unat i < length (jobs m) then f (jobs m ! k) else jobs m ! k)"
  by (cases "unat i < length (jobs m)") (auto simp: upd_job_def list_update_beyond)

lemma frames_upd_job_at:
  assumes "same_frames (jobs m ! unat i) (f (jobs m ! unat i))"
  shows "frames_of (upd_job i f m) = frames_of m" "frame_count (upd_job i f m) = frame_count m"
    "has_frames (upd_job i f m) = has_frames m" "frames_ok (upd_job i f m) = frames_ok m"
proof -
  have s: "j_used (jobs (upd_job i f m) ! k) = j_used (jobs m ! k)"
    "job_nframes (jobs (upd_job i f m) ! k) = job_nframes (jobs m ! k)"
    "fishmid (jobs (upd_job i f m) ! k) = fishmid (jobs m ! k)" for k
    using assms by (simp_all add: jobs_upd_nth same_frames_def)
  show "frames_of (upd_job i f m) = frames_of m" "frame_count (upd_job i f m) = frame_count m"
    "has_frames (upd_job i f m) = has_frames m"
    by (simp_all add: fun_eq_iff frames_of_def frame_count_def has_frames_def s)
  then show "frames_ok (upd_job i f m) = frames_ok m"
    by (simp add: frames_ok_def s)
qed

lemma frames_upd_job:
  assumes "\<And>j. same_frames j (f j)"
  shows "frames_of (upd_job i f m) = frames_of m" "frame_count (upd_job i f m) = frame_count m"
    "has_frames (upd_job i f m) = has_frames m" "frames_ok (upd_job i f m) = frames_ok m"
  by (rule frames_upd_job_at, rule assms)+

text \<open>Writing one frame record of one job.\<close>

definition put_frame :: "nat \<Rightarrow> nat \<Rightarrow> frame_info \<Rightarrow> master \<Rightarrow> master" where
  "put_frame i k f m =
     m\<lparr>frame_shm := shmput (fishmid (jobs m ! i)) ((frames_of m i)[k := f]) (frame_shm m)\<rparr>"

lemma put_frame_simps [simp]:
  "jobs (put_frame i k f m) = jobs m" "computers (put_frame i k f m) = computers m"
  "semid (put_frame i k f m) = semid m" "host_shm (put_frame i k f m) = host_shm m"
  "pool_shm (put_frame i k f m) = pool_shm m" "env_shm (put_frame i k f m) = env_shm m"
  "lb (put_frame i k f m) = lb m" "clock (put_frame i k f m) = clock m"
  "has_frames (put_frame i k f m) = has_frames m" "frame_count (put_frame i k f m) = frame_count m"
  "attachable (frame_shm (put_frame i k f m)) = attachable (frame_shm m)"
  by (simp_all add: put_frame_def has_frames_def frame_count_def fun_eq_iff)

lemma frames_put_frame:
  assumes ok: "frames_ok m" and h: "has_frames m i" "i < MAXJOBS"
  shows "frames_of (put_frame i k f m) i = (frames_of m i)[k := f]"
    and "n < MAXJOBS \<Longrightarrow> n \<noteq> i \<Longrightarrow> has_frames m n \<Longrightarrow> frames_of (put_frame i k f m) n = frames_of m n"
    and "frames_ok (put_frame i k f m)"
proof -
  note live = frames_okD [OF ok h]
  have nz: "job_nframes (jobs m ! i) \<noteq> 0" using h(1) by (simp add: has_frames_def)
  show own: "frames_of (put_frame i k f m) i = (frames_of m i)[k := f]"
    using nz by (simp add: frames_of_def put_frame_def)
  have other: "frames_of (put_frame i k f m) n = frames_of m n"
    "segs (frame_shm (put_frame i k f m)) (fishmid (jobs m ! n)) = segs (frame_shm m) (fishmid (jobs m ! n))"
    if "n < MAXJOBS" "n \<noteq> i" "has_frames m n" for n
  proof -
    have "fishmid (jobs m ! n) \<noteq> fishmid (jobs m ! i)"
      using ok h that unfolding frames_ok_def by blast
    then show "frames_of (put_frame i k f m) n = frames_of m n"
      "segs (frame_shm (put_frame i k f m)) (fishmid (jobs m ! n)) = segs (frame_shm m) (fishmid (jobs m ! n))"
      by (simp_all add: frames_of_def put_frame_def)
  qed
  then show "n < MAXJOBS \<Longrightarrow> n \<noteq> i \<Longrightarrow> has_frames m n \<Longrightarrow> frames_of (put_frame i k f m) n = frames_of m n"
    by blast
  have s: "shm_ok (frame_shm (put_frame i k f m))"
    using ok live by (simp add: put_frame_def shm.valid_put frames_ok_def)
  have e: "segs (frame_shm (put_frame i k f m)) (fishmid (jobs m ! n)) = Some (frames_of (put_frame i k f m) n) \<and>
      length (frames_of (put_frame i k f m) n) = frame_count m n"
    if "n < MAXJOBS" "has_frames m n" for n
  proof (cases "n = i")
    case True
    with own live show ?thesis by (simp add: put_frame_def)
  next
    case False
    with other that frames_okD [OF ok that(2,1)] show ?thesis by simp
  qed
  show "frames_ok (put_frame i k f m)"
    unfolding frames_ok_def put_frame_simps
    using s e ok unfolding frames_ok_def by blast
qed

lemma put_frame_eq:
  assumes "frames_ok m" "has_frames m i" "i < MAXJOBS" "shmat (fishmid (jobs m ! i)) (frame_shm m) = Some fi"
  shows "fi = frames_of m i"
    and "m\<lparr>frame_shm := shmput (fishmid (jobs m ! i)) (fi[k := f]) (frame_shm m)\<rparr> = put_frame i k f m"
  using frames_okD(1) [OF assms(1-3)] shmat_SomeD [OF assms(4)] by (simp_all add: put_frame_def)

lemma frames_attach:
  assumes "frames_ok m" "has_frames m i" "i < MAXJOBS" "attachable (frame_shm m) (fishmid (jobs m ! i))"
  shows "shmat (fishmid (jobs m ! i)) (frame_shm m) = Some (frames_of m i)"
  using frames_okD(1) [OF assms(1-3)] assms(4) by (simp add: shmat_def)

lemma index_correct:
  assumes "length (jobs m) = MAXJOBS" "unat ijob < MAXJOBS"
  shows "job_index_correct_master m ijob = Inr (j_used (jobs m ! unat ijob) \<noteq> 0)"
  using assms by (simp add: job_index_correct_master_def word_less_nat_alt max_defs)

lemma index_incorrect:
  assumes "unat ijob > MAXJOBS"
  shows "job_index_correct_master m ijob = Inr False"
  using assms by (simp add: job_index_correct_master_def word_less_nat_alt max_defs)

lemma computer_index_correct:
  assumes "length (computers m) = MAXCOMPUTERS" "unat icomp < MAXCOMPUTERS"
  shows "computer_index_correct_master m icomp = Inr (c_used (computers m ! unat icomp) \<noteq> 0)"
  using assms by (simp add: computer_index_correct_master_def word_less_nat_alt max_defs)

section \<open>An example database\<close>

text \<open>
  One job of three waiting frames on index 0, one computer of the pool \<open>Default\<close> on index 0,
  and everything else unused.  The witnesses of the properties run on it.
\<close>

definition render_job :: job where
  "render_job = zero_job\<lparr>j_used := 1, j_name := ''shot'', j_cmd := ''render.sh'', j_owner := ''ada'',
     j_priority := 500, autoRequeue := 1, frame_start := 1, frame_end := 3, frame_step := 1, block_size := 1,
     fleft := 3, fishmid := 0, bhshmid := -1, j_envvars := envvars_init,
     limits := \<lparr>jl_nmaxcpus = 65535, jl_nmaxcpuscomputer = 65535, jl_os_flags = 65535, jl_memory = 0,
                jl_pool = ''Default''\<rparr>\<rparr>"

definition pool_computer :: computer where
  "pool_computer = example_computer\<lparr>c_limits := (c_limits example_computer)\<lparr>npools := 1, poolshmid := 0\<rparr>\<rparr>"

definition example_master :: master where
  "example_master =
     \<lparr>computers = pool_computer # replicate 99 (example_computer\<lparr>c_used := 0\<rparr>),
      jobs = render_job # replicate 99 (zero_job\<lparr>fishmid := -1, bhshmid := -1, j_envvars := envvars_init\<rparr>),
      lb = \<lparr>lb_pol = replicate 100 \<lparr>tp_index = 0, tp_pri = 0, tp_submit_time = 0\<rparr>, next_i = 0, last_priority = 0\<rparr>,
      semid = sem_free,
      frame_shm = shm_empty\<lparr>segs := [0 \<mapsto> [zero_frame, zero_frame, zero_frame]], next_id := 1\<rparr>,
      host_shm = shm_empty,
      pool_shm = shm_empty\<lparr>segs := [0 \<mapsto> [''Default'']], next_id := 1\<rparr>,
      env_shm = shm_empty, clock = 1000, env_user = ''drqueue'', env_enabled = None, env_max_cpus = None,
      kill_requests = [], notified = [], mailed = []\<rparr>"

lemmas example_master_defs = example_master_def render_job_def pool_computer_def example_computer_def
  zero_job_def zero_limits_def zero_envvars_def envvars_init_def shm_empty_def

lemma render_job_nframes: "job_nframes render_job = 3"
  by (simp add: render_job_def zero_job_def job_nframes_def)

lemma example_has_frames: "has_frames example_master i \<Longrightarrow> i < MAXJOBS \<Longrightarrow> i = 0"
  by (cases i) (simp_all add: has_frames_def example_master_def zero_job_def max_defs)

lemma example_frames: "frames_of example_master 0 = [zero_frame, zero_frame, zero_frame]"
  using render_job_nframes by (simp add: frames_of_def example_master_def) (simp add: render_job_def)

lemma example_world_ok: "world_ok example_master"
proof -
  have "shape_ok example_master"
    by (simp add: shape_ok_def example_master_def pool_computer_def example_computer_def max_defs)
  moreover have "frames_ok example_master"
    unfolding frames_ok_def
  proof (intro conjI allI impI)
    show "shm_ok (frame_shm example_master)" by (simp add: example_master_def shm_ok_def shm_empty_def)
  next
    fix i assume "i < MAXJOBS" "has_frames example_master i"
    then have "i = 0" using example_has_frames by simp
    then show "segs (frame_shm example_master) (fishmid (jobs example_master ! i)) = Some (frames_of example_master i)"
      by (simp add: example_frames) (simp add: example_master_def render_job_def)
  next
    fix i assume "i < MAXJOBS" "has_frames example_master i"
    then have "i = 0" using example_has_frames by simp
    then show "length (frames_of example_master i) = frame_count example_master i"
      by (simp add: example_frames) (simp add: frame_count_def example_master_def render_job_nframes)
  next
    fix i k assume "i < MAXJOBS" "k < MAXJOBS" "has_frames example_master i" "has_frames example_master k"
    then show "i = k" using example_has_frames [of i] example_has_frames [of k] by simp
  qed
  ultimately show ?thesis by (simp add: world_ok_def) (simp add: example_master_def)
qed

end
