(* ===== verification/Available.thy ===== *)
theory Available
  imports World
begin

text \<open>
  What \<open>job_available\<close> promises: an abstract condition on the database that says when a job
  has a frame for a computer, and the proof that the code answers with the first waiting
  frame exactly then, reserves that frame and nothing else.
\<close>

definition within_limits :: "master \<Rightarrow> u32 \<Rightarrow> u32 \<Rightarrow> bool" where
  "within_limits m ijob icomp =
     (let j = jobs m ! unat ijob; c = computers m ! unat icomp
      in j_nprocs j < jl_nmaxcpus (limits j) \<and>
         computer_nrunning_job c ijob < jl_nmaxcpuscomputer (limits j) \<and>
         os_allowed (hw_os (hwinfo c)) (jl_os_flags (limits j)) \<and>
         jl_memory (limits j) \<le> hw_memory (hwinfo c) \<and>
         hw_name (hwinfo c) \<notin> set (blocked_hosts (j, host_shm m)) \<and>
         jl_pool (limits j) \<in> set (pool_names (c_limits c, pool_shm m)))"

definition may_run :: "master \<Rightarrow> u32 \<Rightarrow> bool" where
  "may_run m ijob =
     (let j = jobs m ! unat ijob
      in j_used j \<noteq> 0 \<and> (j_status j = JOBSTATUS_WAITING \<or> j_status j = JOBSTATUS_ACTIVE) \<and>
         (j_flags j AND JF_JOBDEPEND \<noteq> 0 \<longrightarrow> j_status (jobs m ! unat (dependid j)) = JOBSTATUS_FINISHED))"

definition first_waiting :: "master \<Rightarrow> u32 \<Rightarrow> nat option" where
  "first_waiting m ijob = first_idx (\<lambda>f. fi_status f = FS_WAITING) (frames_of m (unat ijob))"

text \<open>The part of the database an answer depends on is all there.\<close>

definition lookup_ok :: "master \<Rightarrow> u32 \<Rightarrow> u32 \<Rightarrow> bool" where
  "lookup_ok m ijob icomp \<longleftrightarrow>
     world_ok m \<and> unat ijob < MAXJOBS \<and> unat icomp < MAXCOMPUTERS \<and>
     unat (dependid (jobs m ! unat ijob)) < MAXJOBS \<and>
     attachable (frame_shm m) (fishmid (jobs m ! unat ijob)) \<and>
     hosts_ok (jobs m ! unat ijob, host_shm m) \<and>
     pools_ok (c_limits (computers m ! unat icomp), pool_shm m)"

lemma job_may_run_eq:
  assumes "length (jobs m) = MAXJOBS" "unat ijob < MAXJOBS" "unat (dependid (jobs m ! unat ijob)) < MAXJOBS"
  shows "job_may_run ijob m = Inr (may_run m ijob)"
  using assms by (simp add: job_may_run_def may_run_def index_correct Let_def)

lemma hosts_scan_iff:
  assumes ok: "hosts_ok (j, s)" and nz: "nblocked j \<noteq> 0" and at: "shmat (bhshmid j) s = Some bh"
  shows "\<exists>r. scan (\<lambda>h. x = h) (unat (nblocked j)) bh = Inr r \<and> (r \<noteq> None \<longleftrightarrow> x \<in> set (blocked_hosts (j, s)))"
  using hosts_scan [OF assms, of "\<lambda>h. x = h"] first_idx_None_iff [of "\<lambda>h. x = h" "blocked_hosts (j, s)"]
  by auto

definition set_limits :: "u32 \<Rightarrow> computer_limits \<Rightarrow> master \<Rightarrow> master" where
  "set_limits icomp cl m = upd_computer (unat icomp) (\<lambda>c. c\<lparr>c_limits := cl\<rparr>) m"

lemma set_limits_id: "set_limits icomp (c_limits (computers m ! unat icomp)) m = m"
  by (cases "unat icomp < length (computers m)")
    (simp_all add: set_limits_def upd_computer_def list_update_beyond)

lemma job_limits_passed_eq:
  assumes len: "length (jobs m) = MAXJOBS" "length (computers m) = MAXCOMPUTERS"
    and i: "unat ijob < MAXJOBS" "unat icomp < MAXCOMPUTERS"
    and h: "hosts_ok (jobs m ! unat ijob, host_shm m)"
    and p: "pools_ok (c_limits (computers m ! unat icomp), pool_shm m)"
  shows "\<exists>cl. job_limits_passed ijob icomp m = Inr (within_limits m ijob icomp, set_limits icomp cl m) \<and>
    npools cl = npools (c_limits (computers m ! unat icomp)) \<and>
    poolshmid cl = poolshmid (c_limits (computers m ! unat icomp))"
proof -
  define j where "j = jobs m ! unat ijob"
  define c where "c = computers m ! unat icomp"
  have rd: "rd (jobs m) (unat ijob) = Inr j" "rd (computers m) (unat icomp) = Inr c"
    using len i by (simp_all add: j_def c_def)
  obtain cl where cl: "computer_pool_exists (jl_pool (limits j)) (c_limits c, pool_shm m)
      = Inr (jl_pool (limits j) \<in> set (pool_names (c_limits c, pool_shm m)), cl, pool_shm m)"
    "npools cl = npools (c_limits c)" "poolshmid cl = poolshmid (c_limits c)"
    using pools_exists [OF p [folded c_def]] by blast
  have pools: "andThen (computer_pool_exists (jl_pool (limits j)) (c_limits c, pool_shm m)) (\<lambda>(found, cl, ps).
      Inr (found, upd_computer (unat icomp) (\<lambda>c. c\<lparr>c_limits := cl\<rparr>) (m\<lparr>pool_shm := ps\<rparr>)))
    = Inr (jl_pool (limits j) \<in> set (pool_names (c_limits c, pool_shm m)), set_limits icomp cl m)"
    by (simp add: cl(1) set_limits_def)
  note keep = set_limits_id [of icomp m, folded c_def]
  let ?early = "j_nprocs j \<ge> jl_nmaxcpus (limits j) \<or> computer_nrunning_job c ijob \<ge> jl_nmaxcpuscomputer (limits j)
    \<or> \<not> os_allowed (hw_os (hwinfo c)) (jl_os_flags (limits j)) \<or> hw_memory (hwinfo c) < jl_memory (limits j)"
  show ?thesis
  proof (cases ?early)
    case True
    then have "\<not> within_limits m ijob icomp" by (auto simp: within_limits_def Let_def j_def c_def)
    moreover have "job_limits_passed ijob icomp m = Inr (False, m)"
      using True by (auto simp: job_limits_passed_def rd)
    ultimately show ?thesis using keep by (intro exI [of _ "c_limits c"]) (simp add: c_def)
  next
    case early: False
    then have w: "within_limits m ijob icomp \<longleftrightarrow> hw_name (hwinfo c) \<notin> set (blocked_hosts (j, host_shm m)) \<and>
        jl_pool (limits j) \<in> set (pool_names (c_limits c, pool_shm m))"
      by (auto simp: within_limits_def Let_def j_def c_def)
    show ?thesis
    proof (cases "nblocked j = 0")
      case True
      with early pools w cl show ?thesis
        by (intro exI [of _ cl]) (simp add: job_limits_passed_def rd c_def)
    next
      case False
      obtain bh where bh: "shmat (bhshmid j) (host_shm m) = Some bh"
        using hosts_okD [OF h [folded j_def] False] by metis
      obtain r where r: "scan (\<lambda>h. hw_name (hwinfo c) = h) (unat (nblocked j)) bh = Inr r"
        "r \<noteq> None \<longleftrightarrow> hw_name (hwinfo c) \<in> set (blocked_hosts (j, host_shm m))"
        using hosts_scan_iff [OF h [folded j_def] False bh] by blast
      show ?thesis
      proof (cases "r = None")
        case True
        with early pools w cl False bh r show ?thesis
          by (intro exI [of _ cl]) (simp add: job_limits_passed_def rd c_def attach_blocked_host_shared_memory_def)
      next
        case hit: False
        with early w False bh r keep show ?thesis
          by (intro exI [of _ "c_limits c"])
            (simp add: job_limits_passed_def rd attach_blocked_host_shared_memory_def c_def)
      qed
    qed
  qed
qed

lemma set_limits_simps [simp]:
  "jobs (set_limits icomp cl m) = jobs m" "semid (set_limits icomp cl m) = semid m"
  "frame_shm (set_limits icomp cl m) = frame_shm m" "host_shm (set_limits icomp cl m) = host_shm m"
  "pool_shm (set_limits icomp cl m) = pool_shm m" "env_shm (set_limits icomp cl m) = env_shm m"
  "length (computers (set_limits icomp cl m)) = length (computers m)"
  by (simp_all add: set_limits_def)

lemma first_frame_eq:
  assumes w: "frames_ok m" "length (jobs m) = MAXJOBS" and i: "unat ijob < MAXJOBS"
    and u: "j_used (jobs m ! unat ijob) \<noteq> 0"
    and at: "attachable (frame_shm m) (fishmid (jobs m ! unat ijob))"
  shows "job_first_frame_available ijob icomp m =
    (case first_waiting m ijob of
       None \<Rightarrow> Inr (-1, m)
     | Some k \<Rightarrow> Inr (of_nat k,
         upd_job ijob (\<lambda>j. j\<lparr>j_nprocs := j_nprocs j + 1, fleft := fleft j - 1\<rparr>)
           (put_frame (unat ijob) k (assign_frame icomp (frames_of m (unat ijob) ! k)) m)))"
proof (cases "job_nframes (jobs m ! unat ijob) = 0")
  case True
  then show ?thesis
    using w i by (simp add: job_first_frame_available_def first_waiting_def frames_of_def Let_def)
next
  case False
  then have h: "has_frames m (unat ijob)" using u by (simp add: has_frames_def)
  note att = frames_attach [OF w(1) h i at]
  note len = frames_okD(2) [OF w(1) h i]
  show ?thesis
    using False w i att len put_frame_eq(2) [OF w(1) h i att]
    by (auto simp: job_first_frame_available_def first_waiting_def Let_def frame_count_def
        attach_frame_shared_memory_def split: option.splits)
qed

lemma first_waiting_bound:
  assumes "frames_ok m" "unat ijob < MAXJOBS" "j_used (jobs m ! unat ijob) \<noteq> 0" "first_waiting m ijob = Some k"
  shows "k < frame_count m (unat ijob)" "unat (of_nat k :: u32) = k" "(of_nat k :: u32) \<noteq> -1"
    "has_frames m (unat ijob)" "fi_status (frames_of m (unat ijob) ! k) = FS_WAITING"
    "\<And>i. i < k \<Longrightarrow> fi_status (frames_of m (unat ijob) ! i) \<noteq> FS_WAITING" "k < length (frames_of m (unat ijob))"
proof -
  note f = first_idx_SomeD [OF assms(4) [unfolded first_waiting_def]]
  show "k < length (frames_of m (unat ijob))" "fi_status (frames_of m (unat ijob) ! k) = FS_WAITING"
    "\<And>i. i < k \<Longrightarrow> fi_status (frames_of m (unat ijob) ! i) \<noteq> FS_WAITING" using f by auto
  show h: "has_frames m (unat ijob)"
    using f assms(3) by (auto simp: has_frames_def frames_of_def split: if_splits)
  then show k: "k < frame_count m (unat ijob)" using frames_okD(2) [OF assms(1) h assms(2)] f by simp
  have "frame_count m (unat ijob) < 2 ^ 32" by (simp add: frame_count_def)
  with k show u: "unat (of_nat k :: u32) = k" by (simp add: unat_of_nat)
  show "(of_nat k :: u32) \<noteq> -1"
  proof
    assume "(of_nat k :: u32) = -1"
    with u have "unat (-1 :: u32) = k" by simp
    then have "k = 4294967295" by (simp add: unsigned_minus_1_eq_mask mask_eq_exp_minus_1)
    moreover have "frame_count m (unat ijob) \<le> 4294967295"
      using unat_u32_less [of "job_nframes (jobs m ! unat ijob)"] unfolding frame_count_def by linarith
    ultimately show False using k by simp
  qed
qed

section \<open>The specification\<close>

text \<open>The answer \<open>job_available\<close> ought to give, and the database it ought to leave.\<close>

definition offer :: "master \<Rightarrow> u32 \<Rightarrow> u32 \<Rightarrow> nat option" where
  "offer m ijob icomp =
     (if may_run m ijob \<and> within_limits m ijob icomp then first_waiting m ijob else None)"

lemma job_available_eq:
  assumes ok: "lookup_ok m ijob icomp"
  shows "\<exists>cl m0. m0 = set_limits icomp cl m \<and> job_available ijob icomp m =
    (case offer m ijob icomp of
       None \<Rightarrow> Inr (None, m0)
     | Some k \<Rightarrow> Inr (Some (of_nat k),
         upd_job ijob (\<lambda>j. j\<lparr>j_nprocs := j_nprocs j + 1, fleft := fleft j - 1\<rparr>)
           (put_frame (unat ijob) k (assign_frame icomp (frames_of m (unat ijob) ! k)) m0))) \<and>
    npools cl = npools (c_limits (computers m ! unat icomp)) \<and>
    poolshmid cl = poolshmid (c_limits (computers m ! unat icomp))"
proof -
  have w: "world_ok m" and i: "unat ijob < MAXJOBS" "unat icomp < MAXCOMPUTERS"
    and d: "unat (dependid (jobs m ! unat ijob)) < MAXJOBS"
    and at: "attachable (frame_shm m) (fishmid (jobs m ! unat ijob))"
    and h: "hosts_ok (jobs m ! unat ijob, host_shm m)"
    and p: "pools_ok (c_limits (computers m ! unat icomp), pool_shm m)"
    using ok by (simp_all add: lookup_ok_def)
  note w' = world_okD [OF w]
  define lm where "lm = m\<lparr>semid := sem_held\<rparr>"
  have lm: "jobs lm = jobs m" "computers lm = computers m" "frame_shm lm = frame_shm m"
    "host_shm lm = host_shm m" "pool_shm lm = pool_shm m" "semid lm = sem_held"
    by (simp_all add: lm_def)
  note fr = frames_ok_cong [OF lm(1,3)]
  have lock: "lock_db m = Inr lm" using w'(4) by (simp add: lm_def)
  have unlock: "release_db (set_limits icomp cl lm) = set_limits icomp cl m" for cl
    using w'(4) by (simp add: lm_def set_limits_def upd_computer_def)
  have eqs: "may_run lm ijob = may_run m ijob" "within_limits lm ijob icomp = within_limits m ijob icomp"
    "first_waiting lm ijob = first_waiting m ijob"
    by (simp_all add: may_run_def within_limits_def first_waiting_def lm fr)
  have keep: "set_limits icomp (c_limits (computers m ! unat icomp)) lm = lm"
    using set_limits_id [of icomp lm] lm(2) by simp
  have may: "job_may_run ijob lm = Inr (may_run m ijob)"
    using job_may_run_eq [of lm ijob] w' i d eqs lm by simp
  show ?thesis
  proof (cases "may_run m ijob")
    case False
    then have "job_available ijob icomp m = Inr (None, m)"
      using unlock [of "c_limits (computers m ! unat icomp)"] keep
      by (simp add: job_available_def lock may set_limits_id)
    with False show ?thesis
      by (intro exI [of _ "c_limits (computers m ! unat icomp)"] exI [of _ m])
        (simp add: offer_def set_limits_id)
  next
    case True
    obtain cl where cl: "job_limits_passed ijob icomp lm = Inr (within_limits m ijob icomp, set_limits icomp cl lm)"
      "npools cl = npools (c_limits (computers m ! unat icomp))"
      "poolshmid cl = poolshmid (c_limits (computers m ! unat icomp))"
      using job_limits_passed_eq [of lm ijob icomp] w' i h p lm eqs by auto
    define sm where "sm = set_limits icomp cl lm"
    have u: "j_used (jobs m ! unat ijob) \<noteq> 0" using True by (simp add: may_run_def Let_def)
    have sm: "jobs sm = jobs m" "frame_shm sm = frame_shm m" by (simp_all add: sm_def lm)
    note fs = frames_ok_cong [OF sm]
    have first: "job_first_frame_available ijob icomp sm =
      (case first_waiting m ijob of
         None \<Rightarrow> Inr (-1, sm)
       | Some k \<Rightarrow> Inr (of_nat k,
           upd_job ijob (\<lambda>j. j\<lparr>j_nprocs := j_nprocs j + 1, fleft := fleft j - 1\<rparr>)
             (put_frame (unat ijob) k (assign_frame icomp (frames_of m (unat ijob) ! k)) sm)))"
      using first_frame_eq [of sm ijob icomp] w' i u at sm fs by (simp add: first_waiting_def split: option.splits)
    have rel: "release_db (upd_job ijob f (put_frame (unat ijob) k g sm))
        = upd_job ijob f (put_frame (unat ijob) k g (set_limits icomp cl m))" for f k g
      using w'(4)
      by (simp add: sm_def lm_def set_limits_def upd_computer_def upd_job_def put_frame_def frames_of_def)
    show ?thesis
    proof (cases "within_limits m ijob icomp")
      case False
      then show ?thesis
        using True cl unlock [of cl]
        by (intro exI [of _ cl] exI [of _ "set_limits icomp cl m"])
          (simp add: job_available_def lock may offer_def)
    next
      case within: True
      have "job_available ijob icomp m = andThen (job_first_frame_available ijob icomp sm) (\<lambda>(iframe, m).
          if iframe = -1 then Inr (None, release_db m) else Inr (Some iframe, release_db m))"
        using True within cl(1) by (simp add: job_available_def lock may sm_def)
      then show ?thesis
        using True within cl unlock [of cl] first_waiting_bound(3) [OF w'(3) i(1) u] rel
        by (intro exI [of _ cl] exI [of _ "set_limits icomp cl m"])
          (auto simp: first offer_def sm_def [symmetric] split: option.splits)
    qed
  qed
qed

lemma job_available_full:
  assumes ok: "lookup_ok m ijob icomp"
  shows "\<exists>m'. job_available ijob icomp m = Inr (map_option of_nat (offer m ijob icomp), m') \<and>
    world_ok m' \<and>
    frames_of m' (unat ijob) = (case offer m ijob icomp of None \<Rightarrow> frames_of m (unat ijob)
      | Some k \<Rightarrow> (frames_of m (unat ijob))[k := assign_frame icomp (frames_of m (unat ijob) ! k)]) \<and>
    (\<forall>i < MAXJOBS. i \<noteq> unat ijob \<longrightarrow> jobs m' ! i = jobs m ! i \<and>
       (has_frames m i \<longrightarrow> frames_of m' i = frames_of m i))"
proof -
  have w: "world_ok m" and i: "unat ijob < MAXJOBS" using ok by (simp_all add: lookup_ok_def)
  note w' = world_okD [OF w]
  obtain cl m0 where m0: "m0 = set_limits icomp cl m" and e: "job_available ijob icomp m =
    (case offer m ijob icomp of
       None \<Rightarrow> Inr (None, m0)
     | Some k \<Rightarrow> Inr (Some (of_nat k),
         upd_job ijob (\<lambda>j. j\<lparr>j_nprocs := j_nprocs j + 1, fleft := fleft j - 1\<rparr>)
           (put_frame (unat ijob) k (assign_frame icomp (frames_of m (unat ijob) ! k)) m0)))"
    using job_available_eq [OF ok] by blast
  have j0: "jobs m0 = jobs m" "frame_shm m0 = frame_shm m" by (simp_all add: m0)
  note f0 = frames_ok_cong [OF j0]
  have shape0: "shape_ok m0"
  proof -
    have "\<forall>c \<in> set (computers m0). length (tasks (c_status c)) = MAXTASKS"
    proof
      fix c assume "c \<in> set (computers m0)"
      then obtain n where n: "n < length (computers m)" "c = computers m0 ! n"
        by (auto simp: m0 in_set_conv_nth)
      then have "c_status c = c_status (computers m ! n)"
        by (cases "n = unat icomp") (simp_all add: m0 set_limits_def upd_computer_def)
      with n(1) w'(5) show "length (tasks (c_status c)) = MAXTASKS" by (simp add: shape_ok_def)
    qed
    with w'(5) show ?thesis by (simp add: shape_ok_def m0)
  qed
  show ?thesis
  proof (cases "offer m ijob icomp")
    case None
    with e shape0 w' f0 j0 show ?thesis by (simp add: world_ok_def m0)
  next
    case (Some k)
    then have u: "j_used (jobs m ! unat ijob) \<noteq> 0" and fw: "first_waiting m ijob = Some k"
      by (auto simp: offer_def may_run_def Let_def split: if_splits)
    note b = first_waiting_bound [OF w'(3) i u fw]
    let ?f = "\<lambda>j. j\<lparr>j_nprocs := j_nprocs j + 1, fleft := fleft j - 1\<rparr>"
    define m1 where "m1 = put_frame (unat ijob) k (assign_frame icomp (frames_of m (unat ijob) ! k)) m0"
    have same: "same_frames j (?f j)" for j by (simp add: same_frames_def job_nframes_def)
    note up = frames_upd_job [of ?f, OF same, of ijob m1]
    have h0: "has_frames m0 (unat ijob)" "frames_ok m0" using b(4) w'(3) f0 by simp_all
    note pf = frames_put_frame [OF h0(2,1) i, where k = k and f = "assign_frame icomp (frames_of m (unat ijob) ! k)",
      folded m1_def]
    have "world_ok (upd_job ijob ?f m1)"
      using shape0 up(4) pf(3) w'(4) by (simp add: world_ok_def shape_ok_def m1_def m0)
    moreover have "\<forall>n < MAXJOBS. n \<noteq> unat ijob \<longrightarrow> jobs (upd_job ijob ?f m1) ! n = jobs m ! n \<and>
       (has_frames m n \<longrightarrow> frames_of (upd_job ijob ?f m1) n = frames_of m n)"
      using pf(2) f0 up(1) by (auto simp: jobs_upd_nth m1_def j0)
    moreover have "frames_of (upd_job ijob ?f m1) (unat ijob) =
        (frames_of m (unat ijob))[k := assign_frame icomp (frames_of m (unat ijob) ! k)]"
      using pf(1) up(1) f0 by simp
    ultimately show ?thesis
      using e Some by (intro exI [of _ "upd_job ijob ?f m1"]) (simp add: m1_def)
  qed
qed


text \<open>C9. \<open>job_available\<close> finds a frame for a computer exactly when the job is valid, waiting or
  active, its dependency has finished, the computer is within the job's limits, not blocked
  and in the job's pool, and some frame waits.  It answers with the first waiting frame and
  releases the semaphore; that frame becomes assigned to the computer, and no other frame of
  this or of any other job changes.\<close>

theorem job_available_iff_offer:
  assumes ok: "lookup_ok m ijob icomp"
  shows "\<exists>m'. job_available ijob icomp m = Inr (map_option of_nat (offer m ijob icomp), m') \<and>
    world_ok m' \<and>
    frames_of m' (unat ijob) = (case offer m ijob icomp of None \<Rightarrow> frames_of m (unat ijob)
      | Some k \<Rightarrow> (frames_of m (unat ijob))[k := assign_frame icomp (frames_of m (unat ijob) ! k)]) \<and>
    (\<forall>i < MAXJOBS. i \<noteq> unat ijob \<longrightarrow> jobs m' ! i = jobs m ! i \<and>
       (has_frames m i \<longrightarrow> frames_of m' i = frames_of m i))"
  by (rule job_available_full [OF ok])

text \<open>C10. No frame is handed out twice: when two computers ask for the same job one after the
  other and both are answered, the second gets a later frame, and both frames are assigned.\<close>

theorem job_available_never_twice:
  assumes "lookup_ok m ijob c1" "job_available ijob c1 m = Inr (Some f1, m1)"
    and "lookup_ok m1 ijob c2" "job_available ijob c2 m1 = Inr (Some f2, m2)"
  shows "f1 < f2 \<and> fi_status (frames_of m2 (unat ijob) ! unat f1) = FS_ASSIGNED \<and>
    fi_icomp (frames_of m2 (unat ijob) ! unat f1) = c1 \<and>
    fi_status (frames_of m2 (unat ijob) ! unat f2) = FS_ASSIGNED \<and>
    fi_icomp (frames_of m2 (unat ijob) ! unat f2) = c2"
proof -
  have spec: "\<exists>k. offer m ijob c = Some k \<and> f = of_nat k \<and> unat f = k \<and> k < length (frames_of m (unat ijob)) \<and>
      frames_of m' (unat ijob) = (frames_of m (unat ijob))[k := assign_frame c (frames_of m (unat ijob) ! k)] \<and>
      fi_status (frames_of m (unat ijob) ! k) = FS_WAITING \<and>
      (\<forall>i < k. fi_status (frames_of m (unat ijob) ! i) \<noteq> FS_WAITING)"
    if l: "lookup_ok m ijob c" and a: "job_available ijob c m = Inr (Some f, m')" for m c f m'
  proof -
    have w: "frames_ok m" "unat ijob < MAXJOBS" using l world_okD [of m] by (simp_all add: lookup_ok_def)
    obtain k where k: "offer m ijob c = Some k" "f = of_nat k"
      and fr: "frames_of m' (unat ijob) = (frames_of m (unat ijob))[k := assign_frame c (frames_of m (unat ijob) ! k)]"
      using job_available_full [OF l] a by (cases "offer m ijob c") auto
    then have u: "j_used (jobs m ! unat ijob) \<noteq> 0" and fw: "first_waiting m ijob = Some k"
      by (auto simp: offer_def may_run_def Let_def split: if_splits)
    note b = first_waiting_bound [OF w u fw]
    show ?thesis using k fr b by auto
  qed
  from spec [OF assms(1,2)] obtain k1 where k1: "f1 = of_nat k1" "unat f1 = k1" "k1 < length (frames_of m (unat ijob))"
    "frames_of m1 (unat ijob) = (frames_of m (unat ijob))[k1 := assign_frame c1 (frames_of m (unat ijob) ! k1)]"
    "\<forall>i < k1. fi_status (frames_of m (unat ijob) ! i) \<noteq> FS_WAITING" by blast
  from spec [OF assms(3,4)] obtain k2 where k2: "f2 = of_nat k2" "unat f2 = k2" "k2 < length (frames_of m1 (unat ijob))"
    "frames_of m2 (unat ijob) = (frames_of m1 (unat ijob))[k2 := assign_frame c2 (frames_of m1 (unat ijob) ! k2)]"
    "fi_status (frames_of m1 (unat ijob) ! k2) = FS_WAITING" by blast
  have a1: "frames_of m1 (unat ijob) ! k1 = assign_frame c1 (frames_of m (unat ijob) ! k1)" using k1 by simp
  have "k2 \<noteq> k1" using a1 k2(5) by (auto simp: assign_frame_def)
  moreover have "\<not> k2 < k1" using k1 k2(5) by auto
  ultimately have lt: "k1 < k2" by simp
  then have "frames_of m2 (unat ijob) ! k1 = assign_frame c1 (frames_of m (unat ijob) ! k1)" using k2(4) a1 by simp
  moreover have "frames_of m2 (unat ijob) ! k2 = assign_frame c2 (frames_of m1 (unat ijob) ! k2)"
    using k2(3,4) by simp
  ultimately show ?thesis using lt k1(2) k2(2) by (simp add: assign_frame_def word_less_nat_alt)
qed

section \<open>Witnesses\<close>

lemma example_lookup_ok: "lookup_ok example_master 0 0"
proof -
  have "hosts_ok (jobs example_master ! 0, host_shm example_master)"
    by (simp add: example_master_def render_job_def zero_job_def hosts_ok_def names_ok_def)
  moreover have "pools_ok (c_limits (computers example_master ! 0), pool_shm example_master)"
    by (simp add: example_master_def pool_computer_def example_computer_def pools_ok_def pool_names_def
        names_in_def names_ok_def shm_ok_def shm_empty_def shmat_def)
  ultimately show ?thesis
    using example_world_ok
    by (simp add: lookup_ok_def max_defs) (simp add: example_master_def render_job_def zero_job_def shm_empty_def)
qed

theorem job_available_iff_offer_witness:
  "\<exists>m'. job_available 0 0 example_master = Inr (map_option of_nat (offer example_master 0 0), m') \<and> world_ok m'"
  using job_available_iff_offer [OF example_lookup_ok] by blast

lemma example_offer: "offer example_master 0 0 = Some 0"
proof -
  have "may_run example_master 0" by (simp add: may_run_def example_master_def render_job_def zero_job_def)
  moreover have "within_limits example_master 0 0"
    by (simp add: within_limits_def Let_def example_master_def render_job_def zero_job_def pool_computer_def
        example_computer_def free_task_def computer_nrunning_job_def os_allowed_def blocked_hosts_def names_in_def
        pool_names_def max_defs)
  moreover have "first_waiting example_master 0 = Some 0"
    by (simp add: first_waiting_def example_frames zero_frame_def)
  ultimately show ?thesis by (simp add: offer_def)
qed

lemma job_available_lookup:
  assumes ok: "lookup_ok m ijob icomp" and a: "job_available ijob icomp m = Inr (r, m')"
  shows "lookup_ok m' ijob icomp"
proof -
  obtain cl m0 where m0: "m0 = set_limits icomp cl m" and e: "job_available ijob icomp m =
    (case offer m ijob icomp of
       None \<Rightarrow> Inr (None, m0)
     | Some k \<Rightarrow> Inr (Some (of_nat k),
         upd_job ijob (\<lambda>j. j\<lparr>j_nprocs := j_nprocs j + 1, fleft := fleft j - 1\<rparr>)
           (put_frame (unat ijob) k (assign_frame icomp (frames_of m (unat ijob) ! k)) m0)))"
    and cl: "npools cl = npools (c_limits (computers m ! unat icomp))"
      "poolshmid cl = poolshmid (c_limits (computers m ! unat icomp))"
    using job_available_eq [OF ok] by blast
  have w: "world_ok m'" using job_available_full [OF ok] a by auto
  have len: "length (jobs m) = MAXJOBS" "unat ijob < MAXJOBS" "length (computers m) = MAXCOMPUTERS"
    "unat icomp < MAXCOMPUTERS" using ok world_okD [of m] by (simp_all add: lookup_ok_def)
  have c: "c_limits (computers m' ! unat icomp) = cl" "pool_shm m' = pool_shm m" "host_shm m' = host_shm m"
    "attachable (frame_shm m') = attachable (frame_shm m)"
    using e a len by (auto simp: m0 set_limits_def upd_computer_def split: option.splits)
  have "dependid (jobs m' ! unat ijob) = dependid (jobs m ! unat ijob)"
    "fishmid (jobs m' ! unat ijob) = fishmid (jobs m ! unat ijob)"
    "nblocked (jobs m' ! unat ijob) = nblocked (jobs m ! unat ijob)"
    "bhshmid (jobs m' ! unat ijob) = bhshmid (jobs m ! unat ijob)"
    using e a len by (auto simp: m0 jobs_upd_nth split: option.splits)
  with ok w c pools_cong(1) [OF cl] show ?thesis
    by (simp add: lookup_ok_def hosts_ok_def blocked_hosts_def)
qed

lemma example_second:
  "\<exists>m1 m2. job_available 0 0 example_master = Inr (Some 0, m1) \<and> lookup_ok m1 0 0 \<and>
     job_available 0 0 m1 = Inr (Some 1, m2)"
proof -
  obtain cl m0 where m0: "m0 = set_limits 0 cl example_master"
    and e: "job_available 0 0 example_master = Inr (Some 0,
         upd_job 0 (\<lambda>j. j\<lparr>j_nprocs := j_nprocs j + 1, fleft := fleft j - 1\<rparr>)
           (put_frame 0 0 (assign_frame 0 (frames_of example_master 0 ! 0)) m0))"
    and cl: "npools cl = 1" "poolshmid cl = 0"
    using job_available_eq [OF example_lookup_ok] example_offer
    by (auto simp: example_master_def pool_computer_def)
  define m1 where "m1 = upd_job 0 (\<lambda>j. j\<lparr>j_nprocs := j_nprocs j + 1, fleft := fleft j - 1\<rparr>)
           (put_frame 0 0 (assign_frame 0 (frames_of example_master 0 ! 0)) m0)"
  have l: "lookup_ok m1 0 0" by (rule job_available_lookup [OF example_lookup_ok e [folded m1_def]])
  have fr: "frames_of m1 0 = [assign_frame 0 zero_frame, zero_frame, zero_frame]"
    using job_available_full [OF example_lookup_ok] example_offer e by (auto simp: m1_def example_frames)
  have j: "jobs m1 ! 0 = render_job\<lparr>j_nprocs := 1, fleft := 2\<rparr>"
    by (simp add: m1_def m0 jobs_upd_nth example_master_def) (simp add: render_job_def zero_job_def)
  have c: "computers m1 ! 0 = pool_computer\<lparr>c_limits := cl\<rparr>" "pool_shm m1 = pool_shm example_master"
    by (simp_all add: m1_def m0 set_limits_def upd_computer_def example_master_def)
  have "may_run m1 0" by (simp add: may_run_def j) (simp add: render_job_def zero_job_def)
  moreover have "within_limits m1 0 0"
    using cl by (simp add: within_limits_def Let_def j c render_job_def zero_job_def pool_computer_def
        example_computer_def free_task_def computer_nrunning_job_def os_allowed_def blocked_hosts_def names_in_def
        pool_names_def max_defs example_master_def)
  moreover have "first_waiting m1 0 = Some 1"
    by (simp add: first_waiting_def fr zero_frame_def assign_frame_def)
  ultimately have "offer m1 0 0 = Some 1" by (simp add: offer_def)
  then obtain m2 where "job_available 0 0 m1 = Inr (Some 1, m2)"
    using job_available_full [OF l] by auto
  with e l show ?thesis by (auto simp: m1_def)
qed

theorem job_available_never_twice_witness:
  "\<exists>m1 m2. job_available 0 0 example_master = Inr (Some 0, m1) \<and> job_available 0 0 m1 = Inr (Some 1, m2) \<and>
    fi_status (frames_of m2 0 ! 0) = FS_ASSIGNED"
proof -
  obtain m1 m2 where m: "job_available 0 0 example_master = Inr (Some 0, m1)" "lookup_ok m1 0 0"
     "job_available 0 0 m1 = Inr (Some 1, m2)"
    using example_second by blast
  from job_available_never_twice [OF example_lookup_ok m(1) m(2,3)] m show ?thesis by auto
qed

end
