(* ===== verification/Order.thy ===== *)
theory Order
  imports Types "HOL-Library.Multiset"
begin

text \<open>
  The order in which the master offers jobs: \<open>priority_job_compare\<close> (\<open>job.c\<close>) and the \<open>qsort\<close>
  it is passed to.  \<open>qsort\<close> only promises a sorted permutation; the locale \<open>comparator\<close> states
  what makes that promise determine the result, and the comparison of the program meets it.
\<close>

definition priority_job_compare :: "tpol \<Rightarrow> tpol \<Rightarrow> int" where
  "priority_job_compare a b =
     (if tp_pri a > tp_pri b then -1
      else if tp_pri a < tp_pri b then 1
      else if tp_submit_time a < tp_submit_time b then -1
      else if tp_submit_time a > tp_submit_time b then 1
      else if tp_index a > tp_index b then 1
      else if tp_index a < tp_index b then -1
      else 0)"

fun insert_by :: "('a \<Rightarrow> 'a \<Rightarrow> int) \<Rightarrow> 'a \<Rightarrow> 'a list \<Rightarrow> 'a list" where
  "insert_by cmp x [] = [x]"
| "insert_by cmp x (y # ys) = (if cmp x y \<le> 0 then x # y # ys else y # insert_by cmp x ys)"

fun qsort :: "('a \<Rightarrow> 'a \<Rightarrow> int) \<Rightarrow> 'a list \<Rightarrow> 'a list" where
  "qsort cmp [] = []"
| "qsort cmp (x # xs) = insert_by cmp x (qsort cmp xs)"

lemma mset_insert_by [simp]: "mset (insert_by cmp x xs) = add_mset x (mset xs)"
  by (induction xs) auto

lemma mset_qsort [simp]: "mset (qsort cmp xs) = mset xs"
  by (induction xs) auto

lemma set_qsort [simp]: "set (qsort cmp xs) = set xs"
  using mset_qsort by (metis set_mset_mset)

lemma length_qsort [simp]: "length (qsort cmp xs) = length xs"
  using mset_qsort by (metis size_mset)

abbreviation sorted_by :: "('a \<Rightarrow> 'a \<Rightarrow> int) \<Rightarrow> 'a list \<Rightarrow> bool" where
  "sorted_by cmp \<equiv> sorted_wrt (\<lambda>a b. cmp a b \<le> 0)"

locale comparator =
  fixes cmp :: "'a \<Rightarrow> 'a \<Rightarrow> int"
  assumes cmp_total: "cmp a b \<le> 0 \<or> cmp b a \<le> 0"
    and cmp_trans: "cmp a b \<le> 0 \<Longrightarrow> cmp b c \<le> 0 \<Longrightarrow> cmp a c \<le> 0"
    and cmp_antisym: "cmp a b \<le> 0 \<Longrightarrow> cmp b a \<le> 0 \<Longrightarrow> a = b"
begin

lemma insert_by_sorted: "sorted_by cmp xs \<Longrightarrow> sorted_by cmp (insert_by cmp x xs)"
proof (induction xs)
  case Nil
  then show ?case by simp
next
  case (Cons y ys)
  have s: "set (insert_by cmp x ys) = insert x (set ys)"
    using mset_insert_by by (metis set_mset_add_mset_insert set_mset_mset)
  show ?case
  proof (cases "cmp x y \<le> 0")
    case True
    with Cons.prems show ?thesis by (auto intro: cmp_trans)
  next
    case False
    with cmp_total have "cmp y x \<le> 0" by blast
    with False Cons s show ?thesis by auto
  qed
qed

lemma qsort_sorted: "sorted_by cmp (qsort cmp xs)"
  by (induction xs) (auto intro: insert_by_sorted)

lemma sorted_unique:
  "sorted_by cmp xs \<Longrightarrow> sorted_by cmp ys \<Longrightarrow> mset xs = mset ys \<Longrightarrow> xs = ys"
proof (induction xs arbitrary: ys)
  case Nil
  then show ?case by simp
next
  case (Cons x xs)
  then obtain y ys' where ys: "ys = y # ys'" by (cases ys) auto
  have "x = y"
  proof (rule ccontr)
    assume ne: "x \<noteq> y"
    have "set (x # xs) = set (y # ys')" using Cons.prems(3) ys by (metis set_mset_mset)
    with ne have "x \<in> set ys'" "y \<in> set xs" by auto
    with Cons.prems(1,2) ys have "cmp y x \<le> 0" "cmp x y \<le> 0" by auto
    with cmp_antisym ne show False by blast
  qed
  with Cons ys show ?case by auto
qed

lemma qsort_determined:
  "sorted_by cmp ys \<Longrightarrow> mset ys = mset xs \<Longrightarrow> ys = qsort cmp xs"
  by (rule sorted_unique) (auto intro: qsort_sorted)

end

lemma compare_le_iff:
  "priority_job_compare a b \<le> 0 \<longleftrightarrow>
     tp_pri a > tp_pri b \<or>
     tp_pri a = tp_pri b \<and>
       (tp_submit_time a < tp_submit_time b \<or>
        tp_submit_time a = tp_submit_time b \<and> tp_index a \<le> tp_index b)"
  by (auto simp: priority_job_compare_def)

interpretation by_priority: comparator priority_job_compare
proof (unfold_locales, goal_cases)
  case (1 a b)
  show ?case by (auto simp: compare_le_iff)
next
  case (2 a b c)
  then show ?case by (auto simp: compare_le_iff)
next
  case (3 a b)
  then show ?case by (auto simp: compare_le_iff intro: tpol.equality)
qed

text \<open>Sorting with the program's comparison puts jobs of higher priority first, earlier
  submissions first among equals, then lower indices; and the outcome depends only on which
  entries there are: every sorted permutation of the array is the same list.\<close>

theorem priority_order_determined:
  "sorted_wrt (\<lambda>a b. tp_pri a > tp_pri b \<or> tp_pri a = tp_pri b \<and>
      (tp_submit_time a < tp_submit_time b \<or>
       tp_submit_time a = tp_submit_time b \<and> tp_index a \<le> tp_index b))
     (qsort priority_job_compare xs) \<and>
   mset (qsort priority_job_compare xs) = mset xs \<and>
   {ys. mset ys = mset xs \<and> sorted_by priority_job_compare ys} = {qsort priority_job_compare xs}"
proof (intro conjI)
  note sorted = by_priority.qsort_sorted [of xs]
  then show "sorted_wrt (\<lambda>a b. tp_pri a > tp_pri b \<or> tp_pri a = tp_pri b \<and>
      (tp_submit_time a < tp_submit_time b \<or>
       tp_submit_time a = tp_submit_time b \<and> tp_index a \<le> tp_index b))
     (qsort priority_job_compare xs)"
    by (simp only: compare_le_iff)
  show "mset (qsort priority_job_compare xs) = mset xs" by simp
  show "{ys. mset ys = mset xs \<and> sorted_by priority_job_compare ys} = {qsort priority_job_compare xs}"
  proof (intro equalityI subsetI)
    fix ys assume "ys \<in> {ys. mset ys = mset xs \<and> sorted_by priority_job_compare ys}"
    then show "ys \<in> {qsort priority_job_compare xs}"
      using by_priority.qsort_determined [of ys xs] by simp
  next
    fix ys assume "ys \<in> {qsort priority_job_compare xs}"
    with sorted show "ys \<in> {ys. mset ys = mset xs \<and> sorted_by priority_job_compare ys}" by simp
  qed
qed

end
