(* ===== verification/Conn.thy ===== *)
theory Conn
  imports Types
begin

text \<open>
  A connection between two processes of the program, at the level of the structures and
  numbers that one \<open>dr_read\<close> or \<open>dr_write\<close> of \<open>communications.c\<close> moves.  \<open>rx\<close> is what the other
  side is going to send, \<open>tx\<close> what has been sent to it, and \<open>tx_left\<close> how many writes succeed
  before the connection breaks.  A read fails when the other side has closed or sends something
  of another size, and so do all reads after it.  The announcement of a size before most
  structures belongs to the item it announces.
\<close>

record request =
  rq_type :: u8
  rq_who :: u8
  rq_data :: u32

datatype msg =
    MRequest request
  | MTask task
  | MJob job
  | MHwinfo computer_hwinfo
  | MLoadavg "u16 list"
  | MLimits computer_limits
  | MPool cstring
  | MEnvvar envvar
  | MFrame frame_info
  | MString cstring
  | MHost cstring
  | MAutoenable autoenable
  | MWord16 u16
  | MWord32 u32

record conn =
  rx :: "msg list"
  tx :: "msg list"
  tx_left :: nat

definition send_msg :: "msg \<Rightarrow> conn \<Rightarrow> bool \<times> conn" where
  "send_msg x c = (if tx_left c = 0 then (False, c) else (True, c\<lparr>tx := tx c @ [x], tx_left := tx_left c - 1\<rparr>))"

fun send_all :: "msg list \<Rightarrow> conn \<Rightarrow> bool \<times> conn" where
  "send_all [] c = (True, c)"
| "send_all (x # xs) c = (case send_msg x c of (sent, c) \<Rightarrow> if sent then send_all xs c else (False, c))"

definition send_request :: "u8 \<Rightarrow> u32 \<Rightarrow> u8 \<Rightarrow> conn \<Rightarrow> bool \<times> conn" where
  "send_request ty dat who = send_msg (MRequest \<lparr>rq_type = ty, rq_who = who, rq_data = dat\<rparr>)"

definition recv_as :: "(msg \<Rightarrow> 'a option) \<Rightarrow> conn \<Rightarrow> 'a option \<times> conn" where
  "recv_as f c =
     (case rx c of
        [] \<Rightarrow> (None, c)
      | x # xs \<Rightarrow> (case f x of None \<Rightarrow> (None, c\<lparr>rx := []\<rparr>) | Some v \<Rightarrow> (Some v, c\<lparr>rx := xs\<rparr>)))"

definition recv_request :: "conn \<Rightarrow> request option \<times> conn" where
  "recv_request = recv_as (\<lambda>x. case x of MRequest r \<Rightarrow> Some r | _ \<Rightarrow> None)"

definition recv_task :: "conn \<Rightarrow> task option \<times> conn" where
  "recv_task = recv_as (\<lambda>x. case x of MTask t \<Rightarrow> Some t | _ \<Rightarrow> None)"

definition recv_computer_hwinfo :: "conn \<Rightarrow> computer_hwinfo option \<times> conn" where
  "recv_computer_hwinfo = recv_as (\<lambda>x. case x of MHwinfo t \<Rightarrow> Some t | _ \<Rightarrow> None)"

definition recv_computer_loadavg :: "conn \<Rightarrow> u16 list option \<times> conn" where
  "recv_computer_loadavg = recv_as (\<lambda>x. case x of MLoadavg t \<Rightarrow> Some t | _ \<Rightarrow> None)"

definition recv_limits_struct :: "conn \<Rightarrow> computer_limits option \<times> conn" where
  "recv_limits_struct = recv_as (\<lambda>x. case x of MLimits t \<Rightarrow> Some t | _ \<Rightarrow> None)"

definition recv_pool :: "conn \<Rightarrow> cstring option \<times> conn" where
  "recv_pool = recv_as (\<lambda>x. case x of MPool t \<Rightarrow> Some t | _ \<Rightarrow> None)"

definition recv_envvar :: "conn \<Rightarrow> envvar option \<times> conn" where
  "recv_envvar = recv_as (\<lambda>x. case x of MEnvvar t \<Rightarrow> Some t | _ \<Rightarrow> None)"

definition recv_string :: "conn \<Rightarrow> cstring option \<times> conn" where
  "recv_string = recv_as (\<lambda>x. case x of MString t \<Rightarrow> Some t | _ \<Rightarrow> None)"

definition recv_job_struct :: "conn \<Rightarrow> job option \<times> conn" where
  "recv_job_struct = recv_as (\<lambda>x. case x of MJob j \<Rightarrow> Some j | _ \<Rightarrow> None)"

definition recv_autoenable :: "conn \<Rightarrow> autoenable option \<times> conn" where
  "recv_autoenable = recv_as (\<lambda>x. case x of MAutoenable t \<Rightarrow> Some t | _ \<Rightarrow> None)"

definition read_16b :: "conn \<Rightarrow> u16 option \<times> conn" where
  "read_16b = recv_as (\<lambda>x. case x of MWord16 t \<Rightarrow> Some t | _ \<Rightarrow> None)"

definition read_32b :: "conn \<Rightarrow> u32 option \<times> conn" where
  "read_32b = recv_as (\<lambda>x. case x of MWord32 t \<Rightarrow> Some t | _ \<Rightarrow> None)"

text \<open>
  Going on with what a read gave, or with what a failed one left; and the same for a write.
\<close>

definition expect :: "'a option \<times> conn \<Rightarrow> (conn \<Rightarrow> 'b) \<Rightarrow> ('a \<Rightarrow> conn \<Rightarrow> 'b) \<Rightarrow> 'b" where
  "expect r bad good = (case r of (None, c) \<Rightarrow> bad c | (Some x, c) \<Rightarrow> good x c)"

definition sending :: "bool \<times> conn \<Rightarrow> (conn \<Rightarrow> 'b) \<Rightarrow> (conn \<Rightarrow> 'b) \<Rightarrow> 'b" where
  "sending r bad good = (case r of (sent, c) \<Rightarrow> if sent then good c else bad c)"

lemma expect_simps [simp]:
  "expect (None, c) bad good = bad c"
  "expect (Some x, c) bad good = good x c"
  by (simp_all add: expect_def)

lemma sending_simps [simp]:
  "sending (True, c) bad good = good c"
  "sending (False, c) bad good = bad c"
  by (simp_all add: sending_def)

lemma expect_split:
  "P (expect r bad good) \<longleftrightarrow> (\<forall>c. r = (None, c) \<longrightarrow> P (bad c)) \<and> (\<forall>x c. r = (Some x, c) \<longrightarrow> P (good x c))"
  by (cases r; cases "fst r") auto

lemma sending_split:
  "P (sending r bad good) \<longleftrightarrow> (\<forall>c. r = (False, c) \<longrightarrow> P (bad c)) \<and> (\<forall>c. r = (True, c) \<longrightarrow> P (good c))"
  by (cases r; cases "fst r") auto

section \<open>Codes\<close>

abbreviation R_R_REGISTER :: u8 where "R_R_REGISTER \<equiv> 1"
abbreviation R_R_UCSTATUS :: u8 where "R_R_UCSTATUS \<equiv> 2"
abbreviation R_R_REGISJOB :: u8 where "R_R_REGISJOB \<equiv> 3"
abbreviation R_R_AVAILJOB :: u8 where "R_R_AVAILJOB \<equiv> 4"
abbreviation R_R_TASKFINI :: u8 where "R_R_TASKFINI \<equiv> 5"
abbreviation R_R_LISTJOBS :: u8 where "R_R_LISTJOBS \<equiv> 6"
abbreviation R_R_LISTCOMP :: u8 where "R_R_LISTCOMP \<equiv> 7"
abbreviation R_R_DELETJOB :: u8 where "R_R_DELETJOB \<equiv> 8"
abbreviation R_R_STOPJOB :: u8 where "R_R_STOPJOB \<equiv> 9"
abbreviation R_R_CONTJOB :: u8 where "R_R_CONTJOB \<equiv> 10"
abbreviation R_R_HSTOPJOB :: u8 where "R_R_HSTOPJOB \<equiv> 11"
abbreviation R_R_JOBXFER :: u8 where "R_R_JOBXFER \<equiv> 12"
abbreviation R_R_JOBXFERFI :: u8 where "R_R_JOBXFERFI \<equiv> 13"
abbreviation R_R_COMPXFER :: u8 where "R_R_COMPXFER \<equiv> 14"
abbreviation R_R_JOBFWAIT :: u8 where "R_R_JOBFWAIT \<equiv> 15"
abbreviation R_R_JOBFKILL :: u8 where "R_R_JOBFKILL \<equiv> 16"
abbreviation R_R_JOBFFINI :: u8 where "R_R_JOBFFINI \<equiv> 17"
abbreviation R_R_JOBFKFIN :: u8 where "R_R_JOBFKFIN \<equiv> 18"
abbreviation R_R_UCLIMITS :: u8 where "R_R_UCLIMITS \<equiv> 19"
abbreviation R_R_SLAVEXIT :: u8 where "R_R_SLAVEXIT \<equiv> 20"
abbreviation R_R_JOBSESUP :: u8 where "R_R_JOBSESUP \<equiv> 21"
abbreviation R_R_JOBLNMCS :: u8 where "R_R_JOBLNMCS \<equiv> 22"
abbreviation R_R_JOBLNMCCS :: u8 where "R_R_JOBLNMCCS \<equiv> 23"
abbreviation R_R_JOBPRIUP :: u8 where "R_R_JOBPRIUP \<equiv> 24"
abbreviation R_R_JOBFINFO :: u8 where "R_R_JOBFINFO \<equiv> 25"
abbreviation R_R_JOBFRSTRQD :: u8 where "R_R_JOBFRSTRQD \<equiv> 26"
abbreviation R_R_JOBBLKHOST :: u8 where "R_R_JOBBLKHOST \<equiv> 27"
abbreviation R_R_JOBDELBLKHOST :: u8 where "R_R_JOBDELBLKHOST \<equiv> 28"
abbreviation R_R_JOBLSTBLKHOST :: u8 where "R_R_JOBLSTBLKHOST \<equiv> 29"
abbreviation R_R_JOBLMS :: u8 where "R_R_JOBLMS \<equiv> 30"
abbreviation R_R_JOBLPS :: u8 where "R_R_JOBLPS \<equiv> 31"
abbreviation R_R_RERUNJOB :: u8 where "R_R_RERUNJOB \<equiv> 32"
abbreviation R_R_JOBENVVARS :: u8 where "R_R_JOBENVVARS \<equiv> 33"
abbreviation R_R_JOBBLKHOSTNAME :: u8 where "R_R_JOBBLKHOSTNAME \<equiv> 34"
abbreviation R_R_JOBUNBLKHOSTNAME :: u8 where "R_R_JOBUNBLKHOSTNAME \<equiv> 35"
abbreviation R_R_JOBNAME :: u8 where "R_R_JOBNAME \<equiv> 36"

abbreviation RS_R_KILLTASK :: u8 where "RS_R_KILLTASK \<equiv> 1"
abbreviation RS_R_SETNMAXCPUS :: u8 where "RS_R_SETNMAXCPUS \<equiv> 2"
abbreviation RS_R_SETMAXFREELOADCPU :: u8 where "RS_R_SETMAXFREELOADCPU \<equiv> 3"
abbreviation RS_R_SETAUTOENABLE :: u8 where "RS_R_SETAUTOENABLE \<equiv> 4"
abbreviation RS_R_JOBAVAILABLE :: u8 where "RS_R_JOBAVAILABLE \<equiv> 5"
abbreviation RS_R_LIMITSPOOLADD :: u8 where "RS_R_LIMITSPOOLADD \<equiv> 6"
abbreviation RS_R_LIMITSPOOLREMOVE :: u8 where "RS_R_LIMITSPOOLREMOVE \<equiv> 7"
abbreviation RS_R_SETENABLED :: u8 where "RS_R_SETENABLED \<equiv> 8"

abbreviation RERR_NOERROR :: u32 where "RERR_NOERROR \<equiv> 0"
abbreviation RERR_ALREADY :: u32 where "RERR_ALREADY \<equiv> 1"
abbreviation RERR_NOSPACE :: u32 where "RERR_NOSPACE \<equiv> 2"
abbreviation RERR_NOREGIS :: u32 where "RERR_NOREGIS \<equiv> 3"
abbreviation RERR_NOAVJOB :: u32 where "RERR_NOAVJOB \<equiv> 4"
abbreviation RERR_NOTINRA :: u32 where "RERR_NOTINRA \<equiv> 5"

end
