(* ===== verification/Scheduler.thy ===== *)
theory Scheduler
  imports Available Order Conn
begin

text \<open>
  The scheduler of the master (\<open>handle_r_r_availjob\<close> and \<open>request_all_slaves_job_available\<close> of
  \<open>request.c\<close>): a slave asks for a frame, the jobs are sorted by priority, and a search that
  starts where the previous one ended finds the first job with a frame for it.
\<close>

section \<open>The search\<close>

text \<open>The \<open>for\<close> loops over positions of the ordered list, stopping at the first available job.\<close>

fun try_jobs :: "u32 \<Rightarrow> tpol list \<Rightarrow> nat list \<Rightarrow> master \<Rightarrow> fault + (nat \<times> u32) option \<times> master" where
  "try_jobs icomp pol [] m = Inr (None, m)"
| "try_jobs icomp pol (i # is) m =
     andThen (rd pol i) (\<lambda>p.
     andThen (job_available (tp_index p) icomp m) (\<lambda>(r, m).
       case r of Some iframe \<Rightarrow> Inr (Some (i, iframe), m) | None \<Rightarrow> try_jobs icomp pol is m))"

text \<open>The loop taken when the list has changed since the last search.\<close>

fun pick_changed :: "u32 \<Rightarrow> tpol list \<Rightarrow> nat list \<Rightarrow> master \<Rightarrow> fault + (nat \<times> u32) option \<times> master" where
  "pick_changed icomp pol [] m = Inr (None, m)"
| "pick_changed icomp pol (i # is) m =
     andThen (rd pol i) (\<lambda>p.
       if tp_pri p \<ge> last_priority (lb m) then try_jobs icomp pol [unat (next_i (lb m))..<MAXJOBS] m
       else andThen (job_available (tp_index p) icomp m) (\<lambda>(r, m).
         case r of Some iframe \<Rightarrow> Inr (Some (i, iframe), m) | None \<Rightarrow> pick_changed icomp pol is m))"

text \<open>The loop taken when it has not, started at \<open>next_i\<close>.\<close>

fun pick_same :: "u32 \<Rightarrow> tpol list \<Rightarrow> nat list \<Rightarrow> master \<Rightarrow> fault + (nat \<times> u32) option \<times> master" where
  "pick_same icomp pol [] m = Inr (None, m)"
| "pick_same icomp pol (i # is) m =
     (if i + 1 \<ge> MAXJOBS then try_jobs icomp pol [0..<MAXJOBS] m
      else andThen (rd pol i) (\<lambda>p.
        if tp_pri p \<ge> last_priority (lb m) then
          andThen (job_available (tp_index p) icomp m) (\<lambda>(r, m).
            case r of Some iframe \<Rightarrow> Inr (Some (i, iframe), m) | None \<Rightarrow> pick_same icomp pol is m)
        else try_jobs icomp pol [0..<MAXJOBS] m))"

definition build_pol :: "master \<Rightarrow> tpol list" where
  "build_pol m =
     map (\<lambda>i. \<lparr>tp_index = of_nat i, tp_pri = j_priority (jobs m ! i),
               tp_submit_time = ucast (submit_time (jobs m ! i))\<rparr>) [0..<MAXJOBS]"

definition equal_pols :: "tpol list \<Rightarrow> tpol list \<Rightarrow> bool" where
  "equal_pols p q \<longleftrightarrow>
     (\<forall>i \<in> set [0..<MAXJOBS]. tp_index (p ! i) = tp_index (q ! i) \<and> tp_pri (p ! i) = tp_pri (q ! i))"

definition upd_lb :: "(load_balancing \<Rightarrow> load_balancing) \<Rightarrow> master \<Rightarrow> master" where
  "upd_lb f m = m\<lparr>lb := f (lb m)\<rparr>"

text \<open>
  The first half of \<open>handle_r_r_availjob\<close>: the position in the list and the frame it settled
  on, with the new load-balancing state.
\<close>

definition pick_job :: "u32 \<Rightarrow> master \<Rightarrow> fault + (u32 \<times> u32) option \<times> master" where
  "pick_job icomp m =
     (let pol = qsort priority_job_compare (build_pol m);
          same = equal_pols pol (lb_pol (lb m));
          m = (if same then m else upd_lb (\<lambda>l. l\<lparr>lb_pol := pol\<rparr>) m)
      in andThen (if same then pick_same icomp pol [unat (next_i (lb m))..<MAXJOBS] m
                  else pick_changed icomp pol [0..<MAXJOBS] m) (\<lambda>(r, m).
         andThen (case r of Some x \<Rightarrow> Inr (r, m) | None \<Rightarrow> try_jobs icomp pol [0..<MAXJOBS] m) (\<lambda>(r, m).
           case r of
             None \<Rightarrow> Inr (None, upd_lb (\<lambda>l. l\<lparr>next_i := 0\<rparr>) m)
           | Some (i, iframe) \<Rightarrow>
               Inr (Some (tp_index (pol ! i), iframe),
                    upd_lb (\<lambda>l. l\<lparr>next_i := of_nat (i + 1), last_priority := tp_pri (pol ! i)\<rparr>) m))))"

section \<open>The handler\<close>

text \<open>
  The second half of \<open>handle_r_r_availjob\<close>: the reserved frame is offered to the slave, which
  answers with the index of one of its tasks.  Every failure sets the frame back to waiting;
  the handler process ends there, which is the same as returning.
\<close>

definition hand_over_frame :: "u32 \<Rightarrow> u32 \<Rightarrow> u32 \<Rightarrow> conn \<Rightarrow> master \<Rightarrow> fault + conn \<times> master" where
  "hand_over_frame ic ijob iframe c m =
     (let give_back = (\<lambda>m c. andThen (job_frame_waiting ijob iframe m) (\<lambda>m. Inr (c, m)))
      in sending (send_request R_R_AVAILJOB RERR_NOERROR MASTER c) (give_back m) (\<lambda>c.
         expect (recv_request c) (give_back m) (\<lambda>answer c.
           if rq_type answer \<noteq> R_R_AVAILJOB \<or> rq_data answer \<noteq> RERR_NOERROR then give_back m c
           else expect (recv_request c) (give_back m) (\<lambda>answer c.
             if rq_type answer \<noteq> R_R_AVAILJOB then give_back m c
             else
               let itask = ucast (rq_data answer) :: u16
               in andThen (lock_db m) (\<lambda>m.
                  andThen (job_update_assigned ijob iframe ic itask m) (\<lambda>m.
                  andThen (computer_update_assigned ijob iframe ic itask m) (\<lambda>m.
                  andThen (rd (computers m) (unat ic)) (\<lambda>k.
                  andThen (rd (tasks (c_status k)) (unat itask)) (\<lambda>t.
                    let m = release_db m
                    in sending (send_msg (MTask t) c) (give_back m) (\<lambda>c. Inr (c, m))))))))))) "

definition handle_r_r_availjob :: "int \<Rightarrow> conn \<Rightarrow> master \<Rightarrow> fault + conn \<times> master" where
  "handle_r_r_availjob icomp c m =
     (if icomp = -1 then
        Inr (snd (send_request R_R_AVAILJOB RERR_NOREGIS MASTER c), m)
      else
        let ic = of_int icomp :: u32
        in andThen (pick_job ic m) (\<lambda>(r, m).
          case r of
            None \<Rightarrow> Inr (snd (send_request R_R_AVAILJOB RERR_NOAVJOB MASTER c), m)
          | Some (ijob, iframe) \<Rightarrow> hand_over_frame ic ijob iframe c m))"

text \<open>
  \<open>request_all_slaves_job_available\<close>.  The array it sorts has no submission times: \<open>stale\<close> is
  what the uninitialised fields happen to hold.  The slaves notified are recorded by address.
\<close>

fun find_no_icomp :: "tpol list \<Rightarrow> master \<Rightarrow> fault + bool \<times> master" where
  "find_no_icomp [] m = Inr (False, m)"
| "find_no_icomp (p # ps) m =
     andThen (job_available_no_icomp (tp_index p) m) (\<lambda>(r, m).
       if r \<noteq> None then Inr (True, m) else find_no_icomp ps m)"

definition request_all_slaves_job_available :: "(nat \<Rightarrow> u64) \<Rightarrow> master \<Rightarrow> fault + master" where
  "request_all_slaves_job_available stale m =
     (let pol = qsort priority_job_compare
            (map (\<lambda>i. \<lparr>tp_index = of_nat i, tp_pri = j_priority (jobs m ! i), tp_submit_time = stale i\<rparr>)
              [0..<MAXJOBS])
      in andThen (find_no_icomp pol m) (\<lambda>(found, m).
         if \<not> found then Inr m
         else Inr (m\<lparr>notified := notified m @
                map (\<lambda>c. hw_address (hwinfo c)) (filter (\<lambda>c. c_used c \<noteq> 0) (take MAXCOMPUTERS (computers m)))\<rparr>)))"

end
