(* ===== verification/Exchange.thy ===== *)
theory Exchange
  imports Conn Jobs Pools Envvars Tasks
begin

text \<open>
  The transfers of \<open>communications.c\<close> that touch more than the connection: jobs with their
  environment variables, computers with their pools, the status of a slave.  Receiving one
  of these frees and allocates shared segments on the way.  Also the life of a computer record
  (\<open>computer_init\<close>, \<open>computer_free\<close>, \<open>computer_attach\<close>, \<open>computer_detach\<close> of \<open>computer.c\<close>).
\<close>

section \<open>Computers\<close>

definition computer_limits_init :: "u8 option \<Rightarrow> u16 option \<Rightarrow> computer_limits" where
  "computer_limits_init enabled max_cpus = computer_pool_init
     \<lparr>cl_enabled = (case enabled of None \<Rightarrow> 1 | Some e \<Rightarrow> e),
      cl_nmaxcpus = (case max_cpus of None \<Rightarrow> of_nat MAXTASKS | Some n \<Rightarrow> n),
      cl_maxfreeloadcpu = MAXLOADAVG,
      cl_autoenable = \<lparr>ae_last = 0, ae_h = AE_HOUR, ae_m = AE_MIN, ae_flags = 0\<rparr>,
      npools = 0, poolshmid = 0, poolsemid = 0, npoolsattached = 0, pool_ptr = None, local_pool = None\<rparr>"

definition computer_init :: "u8 option \<Rightarrow> u16 option \<Rightarrow> computer \<Rightarrow> computer" where
  "computer_init enabled max_cpus c =
     c\<lparr>c_used := 0, c_limits := computer_limits_init enabled max_cpus, c_status := computer_status_init (c_status c)\<rparr>"

text \<open>\<open>computer_init\<close> and \<open>computer_free\<close> of \<open>wdb->computer[i]\<close>.\<close>

definition init_computer :: "nat \<Rightarrow> master \<Rightarrow> master" where
  "init_computer i m = upd_computer i (computer_init (env_enabled m) (env_max_cpus m)) m"

definition computer_free :: "nat \<Rightarrow> master \<Rightarrow> master" where
  "computer_free i m =
     (case computer_pool_free (c_limits (computers m ! i), pool_shm m) of (_, cl, s) \<Rightarrow>
        init_computer i (upd_computer i (\<lambda>c. c\<lparr>c_limits := cl\<rparr>) (m\<lparr>pool_shm := s\<rparr>)))"

text \<open>Copies the pools to local memory.\<close>

definition computer_attach :: "cstring shm \<Rightarrow> computer \<Rightarrow> fault + bool \<times> computer" where
  "computer_attach s c =
     (if npools (c_limits c) \<noteq> 0 then
        (case computer_pool_attach_shared_memory (c_limits c, s) of
           (None, cl) \<Rightarrow> Inr (False, c\<lparr>c_limits := cl\<rparr>)
         | (Some pool, cl) \<Rightarrow>
             if unat (npools cl) \<le> length pool
             then Inr (True, c\<lparr>c_limits := computer_pool_detach_shared_memory
                               (cl\<lparr>local_pool := Some (take (unat (npools cl)) pool)\<rparr>)\<rparr>)
             else Inl OutOfBounds)
      else Inr (True, c))"

definition computer_detach :: "computer \<Rightarrow> computer" where
  "computer_detach c = c\<lparr>c_limits := (c_limits c)\<lparr>local_pool := None\<rparr>\<rparr>"

section \<open>Environment variables and jobs\<close>

text \<open>
  When the segment cannot be attached, \<open>send_envvars\<close> only logs that and goes on to read
  through the bad pointer.
\<close>

definition send_envvars :: "env_state \<Rightarrow> conn \<Rightarrow> fault + bool \<times> conn" where
  "send_envvars = (\<lambda>(ev, s) c.
     sending (send_msg (MWord16 (nvariables ev)) c) (\<lambda>c. Inr (False, c)) (\<lambda>c.
       if nvariables ev \<noteq> 0 then
         (case envvars_attach (ev, s) of
            None \<Rightarrow> Inl WildPointer
          | Some vs \<Rightarrow>
              if unat (nvariables ev) \<le> length vs
              then Inr (send_all (map MEnvvar (take (unat (nvariables ev)) vs)) c)
              else Inl OutOfBounds)
       else Inr (True, c)))"

fun recv_each_envvar :: "nat \<Rightarrow> env_state \<Rightarrow> conn \<Rightarrow> fault + bool \<times> env_state \<times> conn" where
  "recv_each_envvar 0 es c = Inr (True, es, c)"
| "recv_each_envvar (Suc n) es c =
     expect (recv_envvar c) (\<lambda>c. Inr (False, es, c)) (\<lambda>v c.
       andThen (envvars_variable_add (ev_name v) (ev_value v) es) (\<lambda>(_, es). recv_each_envvar n es c))"

definition recv_envvars :: "env_state \<Rightarrow> conn \<Rightarrow> fault + bool \<times> env_state \<times> conn" where
  "recv_envvars es c =
     (case envvars_free es of (rv, es) \<Rightarrow>
        if \<not> rv then Inr (False, es, c)
        else expect (read_16b c) (\<lambda>c. Inr (False, es, c)) (\<lambda>n c. recv_each_envvar (unat n) es c))"

text \<open>
  A job travels without its segments: \<open>job_bswap_to_network\<close> fills the environment with neutral
  values and \<open>job_fix_received_invalid\<close> drops the other identifiers on arrival.  A step of 0
  becomes 1 then; a block size of 0 does not.
\<close>

definition job_on_the_wire :: "job \<Rightarrow> job" where
  "job_on_the_wire j = j\<lparr>j_envvars := envvars_init\<lparr>nvariables := nvariables (j_envvars j)\<rparr>\<rparr>"

definition send_job :: "job \<Rightarrow> envvar shm \<Rightarrow> conn \<Rightarrow> fault + bool \<times> conn" where
  "send_job j s c =
     sending (send_msg (MJob (job_on_the_wire j)) c) (\<lambda>c. Inr (False, c)) (\<lambda>c. send_envvars (j_envvars j, s) c)"

definition step_not_zero :: "job \<Rightarrow> job" where
  "step_not_zero j = j\<lparr>frame_step := (if frame_step j = 0 then 1 else frame_step j)\<rparr>"

definition recv_job :: "job \<Rightarrow> conn \<Rightarrow> master \<Rightarrow> fault + bool \<times> job \<times> conn \<times> master" where
  "recv_job job0 c m =
     (case job_delete job0 m of (j, m) \<Rightarrow>
        expect (recv_job_struct c) (\<lambda>c. Inr (False, j, c, m)) (\<lambda>j c.
          let j = job_fix_received_invalid j
          in andThen (recv_envvars (j_envvars j, env_shm m) c) (\<lambda>(ok, (ev, s), c).
             let j = j\<lparr>j_envvars := ev\<rparr>; m = m\<lparr>env_shm := s\<rparr>
             in if ok then Inr (True, step_not_zero j, c, m) else Inr (False, j, c, m))))"

section \<open>Status, limits and pools of a computer\<close>

definition used_tasks :: "computer_status \<Rightarrow> task list" where
  "used_tasks st = filter (\<lambda>t. t_used t \<noteq> 0) (take MAXTASKS (tasks st))"

definition send_computer_status :: "computer_status \<Rightarrow> conn \<Rightarrow> bool \<times> conn" where
  "send_computer_status st c =
     (let n = of_nat (length (used_tasks st)) :: u16;
          r = of_nat (count_if (\<lambda>t. t_status t \<noteq> TASKSTATUS_FINISHED) (used_tasks st)) :: u16
      in send_all ([MLoadavg (loadavg st), MWord16 n, MWord16 r] @ map MTask (used_tasks st)) c)"

text \<open>
  \<open>recv_computer_status\<close> only prints a message when the load or the counts do not arrive.  The
  index each task brings along is not checked.
\<close>

fun recv_each_task :: "nat \<Rightarrow> computer_status \<Rightarrow> conn \<Rightarrow> fault + bool \<times> computer_status \<times> conn" where
  "recv_each_task 0 st c = Inr (True, st, c)"
| "recv_each_task (Suc n) st c =
     expect (recv_task c) (\<lambda>c. Inr (False, st, c)) (\<lambda>t c.
       andThen (wr (tasks st) (unat (t_itask t)) t) (\<lambda>ts. recv_each_task n (st\<lparr>tasks := ts\<rparr>) c))"

definition recv_computer_ntasks :: "computer_status \<Rightarrow> conn \<Rightarrow> computer_status \<times> conn" where
  "recv_computer_ntasks st c =
     expect (read_16b c) (\<lambda>c. (st, c)) (\<lambda>n c.
     expect (read_16b c) (\<lambda>c. (st, c)) (\<lambda>r c. (st\<lparr>ntasks := n, nrunning := r\<rparr>, c)))"

definition recv_computer_status :: "computer_status \<Rightarrow> conn \<Rightarrow> fault + bool \<times> computer_status \<times> conn" where
  "recv_computer_status st c =
     (let st = computer_status_init st;
          (st, c) = expect (recv_computer_loadavg c) (\<lambda>c. (st, c)) (\<lambda>l c. (st\<lparr>loadavg := l\<rparr>, c));
          (st, c) = recv_computer_ntasks st c;
          st = (if unat (ntasks st) > MAXTASKS then st\<lparr>ntasks := 0\<rparr> else st)
      in recv_each_task (unat (ntasks st)) st c)"

definition send_computer_pools :: "bool \<Rightarrow> pool_state \<Rightarrow> conn \<Rightarrow> fault + bool \<times> conn \<times> computer_limits" where
  "send_computer_pools use_local_pools = (\<lambda>(cl, s) c.
     sending (send_msg (MWord16 (npools cl)) c) (\<lambda>c. Inr (False, c, cl)) (\<lambda>c.
       if npools cl = 0 then Inr (True, c, cl)
       else if use_local_pools then
         (case local_pool cl of
            None \<Rightarrow> Inl WildPointer
          | Some pool \<Rightarrow>
              if unat (npools cl) \<le> length pool
              then (case send_all (map MPool (take (unat (npools cl)) pool)) c of (sent, c) \<Rightarrow> Inr (sent, c, cl))
              else Inl OutOfBounds)
       else
         (case computer_pool_attach_shared_memory (cl, s) of
            (None, cl) \<Rightarrow> Inr (False, c, cl)
          | (Some pool, cl) \<Rightarrow>
              if unat (npools cl) \<le> length pool
              then (case send_all (map MPool (take (unat (npools cl)) pool)) c of (sent, c) \<Rightarrow>
                      Inr (sent, c, computer_pool_detach_shared_memory cl))
              else Inl OutOfBounds)))"

fun recv_each_pool :: "nat \<Rightarrow> pool_state \<Rightarrow> conn \<Rightarrow> fault + bool \<times> pool_state \<times> conn" where
  "recv_each_pool 0 ps c = Inr (True, ps, c)"
| "recv_each_pool (Suc n) ps c =
     expect (recv_pool c) (\<lambda>c. Inr (False, ps, c)) (\<lambda>p c.
       andThen (computer_pool_add p ps) (\<lambda>(_, ps). recv_each_pool n ps c))"

text \<open>The list is built in a record of its own; when the transfer breaks off, that one is not freed.\<close>

definition recv_computer_pools :: "pool_state \<Rightarrow> conn \<Rightarrow> fault + bool \<times> pool_state \<times> conn" where
  "recv_computer_pools = (\<lambda>(cl, s) c.
     expect (read_16b c) (\<lambda>c. Inr (False, (cl, s), c)) (\<lambda>n c.
       let zero = \<lparr>cl_enabled = 0, cl_nmaxcpus = 0, cl_maxfreeloadcpu = 0,
             cl_autoenable = \<lparr>ae_last = 0, ae_h = 0, ae_m = 0, ae_flags = 0\<rparr>, npools = 0, poolshmid = 0,
             poolsemid = 0, npoolsattached = 0, pool_ptr = None, local_pool = None\<rparr>
       in andThen (recv_each_pool (unat n) (computer_pool_init zero, s) c) (\<lambda>(ok, (new, s), c).
          if \<not> ok then Inr (False, (cl, s), c)
          else
            let old_cl = cl; cl = computer_pool_copy new cl
            in (case computer_pool_free (old_cl, s) of (_, _, s) \<Rightarrow> Inr (True, (cl, s), c)))))"

definition send_computer_limits :: "bool \<Rightarrow> pool_state \<Rightarrow> conn \<Rightarrow> fault + bool \<times> conn \<times> computer_limits" where
  "send_computer_limits use_local_pools = (\<lambda>(cl, s) c.
     sending (send_msg (MLimits (computer_limits_cleanup_to_send cl)) c) (\<lambda>c. Inr (False, c, cl)) (\<lambda>c.
       send_computer_pools use_local_pools (cl, s) c))"

definition recv_computer_limits :: "pool_state \<Rightarrow> conn \<Rightarrow> fault + bool \<times> pool_state \<times> conn" where
  "recv_computer_limits = (\<lambda>(cl, s) c.
     expect (recv_limits_struct c) (\<lambda>c. Inr (False, (cl, s), c)) (\<lambda>new c.
       andThen (recv_computer_pools (computer_limits_cleanup_received new, s) c) (\<lambda>(ok, (new, s), c).
         if \<not> ok then Inr (False, (cl, s), c)
         else (case computer_pool_free (cl, s) of (_, _, s) \<Rightarrow> Inr (True, (new, s), c)))))"

definition send_computer :: "bool \<Rightarrow> computer \<Rightarrow> cstring shm \<Rightarrow> conn \<Rightarrow> fault + bool \<times> conn \<times> computer" where
  "send_computer use_local_pools k s c =
     sending (send_computer_status (c_status k) c) (\<lambda>c. Inr (False, c, k)) (\<lambda>c.
     sending (send_msg (MHwinfo (hwinfo k)) c) (\<lambda>c. Inr (False, c, k)) (\<lambda>c.
     andThen (send_computer_limits use_local_pools (c_limits k, s) c) (\<lambda>(sent, c, cl).
       Inr (sent, c, k\<lparr>c_limits := cl\<rparr>))))"

definition send_blocked_host_list :: "cstring list \<Rightarrow> u32 \<Rightarrow> conn \<Rightarrow> fault + bool \<times> conn" where
  "send_blocked_host_list bh n c =
     sending (send_msg (MWord32 n) c) (\<lambda>c. Inr (False, c)) (\<lambda>c.
       if unat n \<le> length bh then Inr (send_all (map MHost (take (unat n) bh)) c) else Inl OutOfBounds)"

end
