(* ===== verification/Handlers.thy ===== *)
theory Handlers
  imports Scheduler Exchange
begin

text \<open>
  The handlers of the master (\<open>request.c\<close>), first part: computers, registration of jobs, what a
  finished task does to its frame, and the requests about whole jobs.  A handler runs in a
  process of its own, forked for the connection.  It gets the index of the computer that
  connected, \<open>-1\<close> when that is not registered, the connection and the database, and returns both;
  a handler that returns with the semaphore still locked leaves it to the end of the process
  (\<open>process_exit\<close>) to undo the lock.
\<close>

type_synonym handler_result = "fault + conn \<times> master"

section \<open>Computers\<close>

text \<open>\<open>addr\<close> is the dotted address of the peer and \<open>host\<close> the name it resolves to, if it does.\<close>

definition handle_r_r_register ::
    "cstring \<Rightarrow> cstring option \<Rightarrow> int \<Rightarrow> conn \<Rightarrow> master \<Rightarrow> fault + int \<times> conn \<times> master" where
  "handle_r_r_register addr host icomp c m =
     (let name = (case host of None \<Rightarrow> addr | Some h \<Rightarrow> takeWhile (\<lambda>x. x \<noteq> CHR ''.'') h)
      in andThen (lock_db m) (\<lambda>m.
         andThen (if icomp \<noteq> -1 then Inr icomp else computer_index_free m) (\<lambda>index.
         if index = -1 then
           Inr (-1, snd (send_request R_R_REGISTER RERR_NOSPACE MASTER c), release_db m)
         else andThen (rd (computers m) (nat index)) (\<lambda>_.
           let i = nat index;
               m = upd_computer i (\<lambda>k. k\<lparr>c_used := 1, lastconn := time32 m\<rparr>) (init_computer i m);
               fail = (\<lambda>c. Inr (-1, c, release_db (computer_free i m)))
           in sending (send_request R_R_REGISTER RERR_NOERROR MASTER c) fail (\<lambda>c.
              sending (send_request R_R_REGISTER (of_int index) MASTER c) fail (\<lambda>c.
              expect (recv_computer_hwinfo c) fail (\<lambda>hw c.
                Inr (index, c, release_db (upd_computer i (\<lambda>k. k\<lparr>hwinfo :=
                  hw\<lparr>hw_address := strncpy MAXNAMELEN addr, hw_name := strncpy MAXNAMELEN name\<rparr>\<rparr>) m)))))))))"

definition handle_r_r_ucstatus :: "int \<Rightarrow> conn \<Rightarrow> master \<Rightarrow> handler_result" where
  "handle_r_r_ucstatus icomp c m =
     (if icomp = -1 then Inr (snd (send_request R_R_UCSTATUS RERR_NOREGIS MASTER c), m)
      else
        let c = snd (send_request R_R_UCSTATUS RERR_NOERROR MASTER c);
            fresh = \<lparr>loadavg = [0, 0, 0], ntasks = 0, nrunning = 0, tasks = replicate MAXTASKS free_task\<rparr>
        in andThen (recv_computer_status (computer_status_init fresh) c) (\<lambda>(ok, st, c).
           if \<not> ok then Inr (c, m)
           else andThen (lock_db m) (\<lambda>m.
             andThen (rd (computers m) (nat icomp)) (\<lambda>_.
               Inr (c, release_db (upd_computer (nat icomp) (\<lambda>k. k\<lparr>c_status := st\<rparr>) m))))))"

section \<open>Registration of a job\<close>

definition handle_r_r_regisjob :: "conn \<Rightarrow> master \<Rightarrow> handler_result" where
  "handle_r_r_regisjob c m =
     (let job = job_init (env_user m) zero_job
      in andThen (lock_db m) (\<lambda>m.
         andThen (job_index_free m) (\<lambda>index.
         if index = -1 then
           Inr (snd (send_request R_R_REGISJOB RERR_NOSPACE MASTER c), release_db m)
         else
           let m = release_db (upd_job index (\<lambda>j. j\<lparr>j_used := 1\<rparr>) m);
               c = snd (send_request R_R_REGISJOB RERR_NOERROR MASTER c)
           in andThen (recv_job job c m) (\<lambda>(ok, job, c, m).
              if \<not> ok then
                andThen (lock_db m) (\<lambda>m. Inr (c, release_db (upd_job index (job_init (env_user m)) m)))
              else
                andThen (job_init_registered index job m) (\<lambda>m.
                  Inr (snd (send_request R_R_REGISJOB index MASTER c), m))))))"

section \<open>A finished task\<close>

text \<open>\<open>task.h\<close>: how the slave packs the exit status of a task.\<close>

definition DR_WIFEXITED :: "u32 \<Rightarrow> bool" where "DR_WIFEXITED stat \<longleftrightarrow> stat AND DR_EXITEDFLAG \<noteq> 0"
definition DR_WEXITSTATUS :: "u32 \<Rightarrow> u32" where "DR_WEXITSTATUS stat = stat AND 0xFF"
definition DR_WIFSIGNALED :: "u32 \<Rightarrow> bool" where "DR_WIFSIGNALED stat \<longleftrightarrow> stat AND DR_SIGNALEDFLAG \<noteq> 0"
definition DR_WTERMSIG :: "u32 \<Rightarrow> u32" where "DR_WTERMSIG stat = stat AND 0xFF"

text \<open>What the exit status of a task does to its frame and to the counters of the job.\<close>

definition frame_failed :: "u32 \<Rightarrow> job \<times> frame_info \<Rightarrow> job \<times> frame_info" where
  "frame_failed now = (\<lambda>(j, f). (j\<lparr>ffailed := ffailed j + 1\<rparr>, f\<lparr>fi_status := FS_ERROR, fi_end_time := now\<rparr>))"

definition frame_again :: "job \<times> frame_info \<Rightarrow> job \<times> frame_info" where
  "frame_again = (\<lambda>(j, f).
     (j\<lparr>fleft := fleft j + 1\<rparr>,
      f\<lparr>fi_status := FS_WAITING, fi_start_time := 0, fi_requeued := fi_requeued f + 1\<rparr>))"

definition frame_killed :: "u32 \<Rightarrow> job \<times> frame_info \<Rightarrow> job \<times> frame_info" where
  "frame_killed now = (\<lambda>(j, f).
     (case (if fi_status f = FS_ASSIGNED then
              if autoRequeue j \<noteq> 0 \<and> fi_requeued f < MAX_REQUEUES then frame_again (j, f)
              else frame_failed now (j, f)
            else (j, f)) of
        (j, f) \<Rightarrow> (j, f\<lparr>fi_start_time := 0, fi_end_time := 0\<rparr>)))"

definition frame_ended :: "u32 \<Rightarrow> u32 \<Rightarrow> job \<times> frame_info \<Rightarrow> job \<times> frame_info" where
  "frame_ended now stat = (\<lambda>(j, f).
     if DR_WIFEXITED stat then
       if fi_flags f AND FF_REQUEUE \<noteq> 0 \<and> fi_requeued f < MAX_REQUEUES then frame_again (j, f)
       else (j\<lparr>fdone := fdone j + 1\<rparr>,
             f\<lparr>fi_status := FS_FINISHED, fi_exitcode := ucast (DR_WEXITSTATUS stat), fi_end_time := now\<rparr>)
     else if DR_WIFSIGNALED stat then
       let sig = DR_WTERMSIG stat
       in if sig = SIGTERM \<or> sig = SIGINT \<or> sig = SIGKILL then frame_killed now (j, f)
          else frame_failed now (j, f)
     else if fi_status f = FS_ASSIGNED then frame_failed now (j, f)
     else (j, f))"

definition handle_r_r_taskfini :: "int \<Rightarrow> conn \<Rightarrow> master \<Rightarrow> handler_result" where
  "handle_r_r_taskfini icomp c m =
     sending (send_request R_R_TASKFINI RERR_NOERROR MASTER c) (\<lambda>c. Inr (c, m)) (\<lambda>c.
     expect (recv_task c) (\<lambda>c. Inr (c, m)) (\<lambda>task c.
     andThen (lock_db m) (\<lambda>m.
     andThen (job_index_correct_master m (t_ijob task)) (\<lambda>ok.
     if \<not> ok then Inr (c, release_db m)
     else
       let ijob = t_ijob task; j = jobs m ! unat ijob
       in if t_jobname task \<noteq> j_name j then Inr (c, release_db m)
          else (case attach_frame_shared_memory (fishmid j) (frame_shm m) of
              None \<Rightarrow> Inr (c, release_db (delete_job ijob m))
            | Some fi \<Rightarrow>
                let j = (if j_nprocs j \<noteq> 0 then j\<lparr>j_nprocs := j_nprocs j - 1\<rparr> else j)
                in andThen (job_frame_number_correct j (t_frame task)) (\<lambda>ok.
                   if \<not> ok then Inr (c, release_db (upd_job ijob (\<lambda>_. j) m))
                   else
                     andThen (job_frame_number_to_index j (t_frame task)) (\<lambda>iframe.
                     andThen (rd fi (unat iframe)) (\<lambda>f.
                       case frame_ended (time32 m) (t_exitstatus task) (j, f) of (j, f) \<Rightarrow>
                         Inr (c, release_db (upd_job ijob (\<lambda>_. j)
                           (m\<lparr>frame_shm := shmput (fishmid j) (fi[unat iframe := f]) (frame_shm m)\<rparr>))))))))))) "

section \<open>Lists of jobs and computers\<close>

fun send_jobs :: "job list \<Rightarrow> envvar shm \<Rightarrow> conn \<Rightarrow> fault + conn" where
  "send_jobs [] s c = Inr c"
| "send_jobs (j # js) s c =
     (if j_used j \<noteq> 0 then andThen (send_job j s c) (\<lambda>(sent, c). if sent then send_jobs js s c else Inr c)
      else send_jobs js s c)"

definition handle_r_r_listjobs :: "conn \<Rightarrow> master \<Rightarrow> handler_result" where
  "handle_r_r_listjobs c m =
     sending (send_request R_R_LISTJOBS (job_njobs_masterdb m) MASTER c) (\<lambda>c. Inr (c, m)) (\<lambda>c.
       andThen (send_jobs (take MAXJOBS (jobs m)) (env_shm m) c) (\<lambda>c. Inr (c, m)))"

fun attach_used :: "cstring shm \<Rightarrow> computer list \<Rightarrow> fault + computer list" where
  "attach_used s [] = Inr []"
| "attach_used s (k # ks) =
     andThen (if c_used k \<noteq> 0 then computer_attach s k else Inr (True, k)) (\<lambda>(_, k).
     andThen (attach_used s ks) (\<lambda>ks. Inr (k # ks)))"

fun send_computers :: "computer list \<Rightarrow> cstring shm \<Rightarrow> conn \<Rightarrow> fault + conn" where
  "send_computers [] s c = Inr c"
| "send_computers (k # ks) s c =
     (if c_used k \<noteq> 0 then
        andThen (send_computer True k s c) (\<lambda>(sent, c, _). if sent then send_computers ks s c else Inr c)
      else send_computers ks s c)"

definition handle_r_r_listcomp :: "conn \<Rightarrow> master \<Rightarrow> handler_result" where
  "handle_r_r_listcomp c m =
     andThen (lock_db m) (\<lambda>m.
     andThen (attach_used (pool_shm m) (take MAXCOMPUTERS (computers m))) (\<lambda>ks.
       let n = of_int (computer_ncomputers_masterdb m); m = release_db m
       in sending (send_request R_R_LISTCOMP n MASTER c) (\<lambda>c. Inr (c, m)) (\<lambda>c.
          andThen (send_computers ks (pool_shm m) c) (\<lambda>c. Inr (c, m)))))"

section \<open>Requests about whole jobs\<close>

text \<open>\<open>request_slave_killtask\<close> for every assigned frame; the computer index in the frame is not checked.\<close>

definition request_slave_killtask :: "cstring \<Rightarrow> u16 \<Rightarrow> master \<Rightarrow> master" where
  "request_slave_killtask slave itask m = m\<lparr>kill_requests := kill_requests m @ [(slave, itask)]\<rparr>"

definition kill_frame :: "frame_info \<Rightarrow> master \<Rightarrow> fault + master" where
  "kill_frame f m =
     andThen (rd (computers m) (unat (fi_icomp f))) (\<lambda>k.
       Inr (request_slave_killtask (hw_address (hwinfo k)) (fi_itask f) m))"

fun kill_assigned :: "frame_info list \<Rightarrow> master \<Rightarrow> fault + master" where
  "kill_assigned [] m = Inr m"
| "kill_assigned (f # fs) m =
     andThen (if fi_status f = FS_ASSIGNED then kill_frame f m else Inr m) (kill_assigned fs)"

text \<open>The first \<open>n\<close> frames of an attached segment, where \<open>n\<close> is an \<open>int\<close>.\<close>

definition frames_upto :: "u32 \<Rightarrow> frame_info list \<Rightarrow> fault + frame_info list" where
  "frames_upto nframes fi =
     (let n = nat (sint nframes) in if n \<le> length fi then Inr (take n fi) else Inl OutOfBounds)"

definition handle_r_r_deletjob :: "u32 \<Rightarrow> master \<Rightarrow> fault + master" where
  "handle_r_r_deletjob ijob m =
     andThen (lock_db m) (\<lambda>m.
     andThen (job_index_correct_master m ijob) (\<lambda>ok.
     if \<not> ok then Inr m
     else
       let j = jobs m ! unat ijob
       in andThen
            (case attach_frame_shared_memory (fishmid j) (frame_shm m) of
               None \<Rightarrow> Inr m
             | Some fi \<Rightarrow> andThen (frames_upto (job_nframes j) fi) (\<lambda>fi. kill_assigned fi m))
            (\<lambda>m. Inr (release_db (delete_job ijob m)))))"

definition handle_r_r_jobenvvars :: "u32 \<Rightarrow> conn \<Rightarrow> master \<Rightarrow> handler_result" where
  "handle_r_r_jobenvvars ijob c m =
     andThen (job_index_correct_master m ijob) (\<lambda>ok.
     if \<not> ok then Inr (c, m)
     else andThen (lock_db m) (\<lambda>m.
       let j = jobs m ! unat ijob
       in if j_used j \<noteq> 0 then
            andThen (send_envvars (j_envvars j, env_shm m) c) (\<lambda>(_, c). Inr (c, release_db m))
          else Inr (c, release_db m)))"

definition handle_r_r_stopjob :: "u32 \<Rightarrow> master \<Rightarrow> fault + master" where
  "handle_r_r_stopjob ijob m =
     (if ijob \<ge> of_nat MAXJOBS then Inr m
      else andThen (lock_db m) (\<lambda>m.
        andThen (rd (jobs m) (unat ijob)) (\<lambda>j.
          Inr (release_db (if j_used j \<noteq> 0 then upd_job ijob job_stop m else m)))))"

definition handle_r_r_contjob :: "u32 \<Rightarrow> master \<Rightarrow> fault + master" where
  "handle_r_r_contjob ijob m =
     (if ijob \<ge> of_nat MAXJOBS then Inr m
      else andThen (lock_db m) (\<lambda>m.
        andThen (rd (jobs m) (unat ijob)) (\<lambda>j.
          Inr (release_db (if j_used j \<noteq> 0 then upd_job ijob job_continue m else m)))))"

definition handle_r_r_hstopjob :: "u32 \<Rightarrow> master \<Rightarrow> fault + master" where
  "handle_r_r_hstopjob ijob m =
     andThen (lock_db m) (\<lambda>m.
     andThen (job_index_correct_master m ijob) (\<lambda>ok.
     if \<not> ok then Inr m
     else
       let j = jobs m ! unat ijob
       in (case attach_frame_shared_memory (fishmid j) (frame_shm m) of
             None \<Rightarrow> Inr (release_db (delete_job ijob m))
           | Some fi \<Rightarrow>
               andThen (frames_upto (job_nframes j) fi) (\<lambda>fi.
               andThen (kill_assigned fi m) (\<lambda>m. Inr (release_db (upd_job ijob job_stop m)))))))"

definition rerun_frame :: "frame_info \<Rightarrow> frame_info" where
  "rerun_frame f =
     (if fi_status f = FS_ASSIGNED then f
      else f\<lparr>fi_status := FS_WAITING, fi_start_time := 0, fi_requeued := fi_requeued f + 1\<rparr>)"

definition handle_r_r_rerunjob :: "u32 \<Rightarrow> master \<Rightarrow> fault + master" where
  "handle_r_r_rerunjob ijob m =
     andThen (lock_db m) (\<lambda>m.
     andThen (job_index_correct_master m ijob) (\<lambda>ok.
     if \<not> ok then Inr m
     else
       let j = jobs m ! unat ijob
       in (case attach_frame_shared_memory (fishmid j) (frame_shm m) of
             None \<Rightarrow> Inr (release_db (delete_job ijob m))
           | Some fi \<Rightarrow>
               andThen (frames_upto (job_nframes j) fi) (\<lambda>run.
               andThen (kill_assigned run m) (\<lambda>m.
                 Inr (release_db (m\<lparr>frame_shm :=
                   shmput (fishmid j) (map rerun_frame run @ drop (length run) fi) (frame_shm m)\<rparr>)))))))"

end
