(* ===== verification/Requests.thy ===== *)
theory Requests
  imports Handlers
begin

text \<open>
  The handlers of the master (\<open>request.c\<close>), second part: transfers, single frames, limits,
  blocked hosts, the change of the frame range, and \<open>handle_request_master\<close>, which reads a
  request and calls the handler it asks for.
\<close>

section \<open>Transfers\<close>

definition handle_r_r_jobxfer :: "u32 \<Rightarrow> conn \<Rightarrow> master \<Rightarrow> handler_result" where
  "handle_r_r_jobxfer ijob c m =
     andThen (lock_db m) (\<lambda>m.
     andThen (job_index_correct_master m ijob) (\<lambda>ok.
     if \<not> ok then Inr (snd (send_request R_R_JOBXFER RERR_NOREGIS MASTER c), release_db m)
     else
       let j = jobs m ! unat ijob; m = release_db m
       in sending (send_request R_R_JOBXFER RERR_NOERROR MASTER c) (\<lambda>c. Inr (c, m)) (\<lambda>c.
          andThen (send_job j (env_shm m) c) (\<lambda>(_, c). Inr (c, m)))))"

text \<open>
  The count of frames is an \<open>int\<close>: when it is negative, \<open>malloc\<close> is asked for an impossible size
  and the peer gets no answer, and neither does it when the job has no frames.
\<close>

definition handle_r_r_jobxferfi :: "u32 \<Rightarrow> conn \<Rightarrow> master \<Rightarrow> handler_result" where
  "handle_r_r_jobxferfi ijob c m =
     andThen (lock_db m) (\<lambda>m.
     andThen (job_index_correct_master m ijob) (\<lambda>ok.
     if \<not> ok then Inr (snd (send_request R_R_JOBXFERFI RERR_NOREGIS MASTER c), release_db m)
     else
       let j = jobs m ! unat ijob; nframes = sint (job_nframes j)
       in if nframes \<noteq> 0 then
            (case attach_frame_shared_memory (fishmid j) (frame_shm m) of
               None \<Rightarrow>
                 Inr (snd (send_request R_R_JOBXFERFI RERR_NOREGIS MASTER c), release_db (delete_job ijob m))
             | Some fi \<Rightarrow>
                 if nframes < 0 then Inr (c, release_db m)
                 else if nat nframes > length fi then Inl OutOfBounds
                 else
                   let m = release_db m
                   in sending (send_request R_R_JOBXFERFI RERR_NOERROR MASTER c) (\<lambda>c. Inr (c, m)) (\<lambda>c.
                        Inr (snd (send_all (map MFrame (take (nat nframes) fi)) c), m)))
          else Inr (c, release_db m)))"

definition handle_r_r_jobfinfo :: "u32 \<Rightarrow> conn \<Rightarrow> master \<Rightarrow> handler_result" where
  "handle_r_r_jobfinfo ijob c m =
     andThen (lock_db m) (\<lambda>m.
     andThen (job_index_correct_master m ijob) (\<lambda>ok.
     if \<not> ok then Inr (c, release_db m)
     else expect (recv_request c) (\<lambda>c. Inr (c, m)) (\<lambda>req c.
       let j = jobs m ! unat ijob; frame = rq_data req
       in andThen (job_frame_number_correct j frame) (\<lambda>ok.
          if \<not> ok then Inr (c, release_db m)
          else (case attach_frame_shared_memory (fishmid j) (frame_shm m) of
              None \<Rightarrow> Inr (c, release_db (delete_job ijob m))
            | Some fi \<Rightarrow>
                andThen (job_frame_number_to_index j frame) (\<lambda>iframe.
                andThen (rd fi (unat iframe)) (\<lambda>f.
                  Inr (snd (send_msg (MFrame f) c), release_db m))))))))"

definition handle_r_r_compxfer :: "u32 \<Rightarrow> conn \<Rightarrow> master \<Rightarrow> handler_result" where
  "handle_r_r_compxfer icomp2 c m =
     andThen (lock_db m) (\<lambda>m.
     andThen (computer_index_correct_master m icomp2) (\<lambda>ok.
     if \<not> ok then Inr (snd (send_request R_R_COMPXFER RERR_NOREGIS MASTER c), release_db m)
     else andThen (computer_attach (pool_shm m) (computers m ! unat icomp2)) (\<lambda>(ok, k).
       if \<not> ok then Inr (c, m)
       else
         let m = release_db m
         in sending (send_request R_R_COMPXFER RERR_NOERROR MASTER c) (\<lambda>c. Inr (c, m)) (\<lambda>c.
            andThen (send_computer True k (pool_shm m) c) (\<lambda>(_, c, _). Inr (c, m))))))"

definition handle_r_r_jobname :: "u32 \<Rightarrow> conn \<Rightarrow> master \<Rightarrow> handler_result" where
  "handle_r_r_jobname ijob c m =
     andThen (job_index_correct_master m ijob) (\<lambda>ok.
     if \<not> ok then Inr (c, m)
     else Inr (snd (send_msg (MString (j_name (jobs m ! unat ijob))) c), m))"

section \<open>Single frames\<close>

text \<open>
  The five handlers of one frame differ in what they do to the frame and the job (\<open>act\<close>), and
  in whether they release the semaphore before they give up (\<open>refuse\<close>).
\<close>

definition with_frame :: "(master \<Rightarrow> master) \<Rightarrow> (frame_info \<Rightarrow> master \<Rightarrow> fault + frame_info \<times> master) \<Rightarrow>
    u32 \<Rightarrow> conn \<Rightarrow> master \<Rightarrow> handler_result" where
  "with_frame refuse act ijob c m =
     expect (recv_request c) (\<lambda>c. Inr (c, m)) (\<lambda>req c.
       let frame = rq_data req
       in andThen (lock_db m) (\<lambda>m.
          andThen (job_index_correct_master m ijob) (\<lambda>ok.
          if \<not> ok then Inr (c, refuse m)
          else
            let j = jobs m ! unat ijob
            in andThen (job_frame_number_correct j frame) (\<lambda>ok.
               if \<not> ok then Inr (c, refuse m)
               else andThen (job_frame_number_to_index j frame) (\<lambda>iframe.
                 case attach_frame_shared_memory (fishmid j) (frame_shm m) of
                   None \<Rightarrow> Inr (c, release_db (delete_job ijob m))
                 | Some fi \<Rightarrow>
                     andThen (rd fi (unat iframe)) (\<lambda>f.
                     andThen (act f m) (\<lambda>(f, m).
                       Inr (c, release_db (m\<lparr>frame_shm :=
                         shmput (fishmid j) (fi[unat iframe := f]) (frame_shm m)\<rparr>)))))))))"

definition wait_frame :: "frame_info \<Rightarrow> frame_info" where
  "wait_frame f =
     (if fi_status f = FS_ASSIGNED then f\<lparr>fi_flags := fi_flags f OR FF_REQUEUE\<rparr>
      else if fi_status f = FS_ERROR \<or> fi_status f = FS_FINISHED
      then f\<lparr>fi_status := FS_WAITING, fi_start_time := 0, fi_requeued := fi_requeued f + 1\<rparr>
      else f)"

definition handle_r_r_jobfwait :: "u32 \<Rightarrow> conn \<Rightarrow> master \<Rightarrow> handler_result" where
  "handle_r_r_jobfwait = with_frame release_db (\<lambda>f m. Inr (wait_frame f, m))"

definition handle_r_r_jobfkill :: "u32 \<Rightarrow> conn \<Rightarrow> master \<Rightarrow> handler_result" where
  "handle_r_r_jobfkill = with_frame (\<lambda>m. m) (\<lambda>f m.
     if fi_status f = FS_ASSIGNED then andThen (kill_frame f m) (\<lambda>m. Inr (f, m)) else Inr (f, m))"

definition finish_frame :: "u32 \<Rightarrow> job \<times> frame_info \<Rightarrow> job \<times> frame_info" where
  "finish_frame now = (\<lambda>(j, f).
     if fi_status f = FS_WAITING then
       (j\<lparr>fdone := fdone j + 1 - 1\<rparr>, f\<lparr>fi_exitcode := 0, fi_end_time := now, fi_status := FS_FINISHED\<rparr>)
     else if fi_status f = FS_ASSIGNED then
       (j\<lparr>fdone := fdone j + 1, fleft := fleft j - 1\<rparr>,
        f\<lparr>fi_exitcode := 0, fi_end_time := now, fi_status := FS_FINISHED\<rparr>)
     else (j, f))"

definition handle_r_r_jobffini :: "u32 \<Rightarrow> conn \<Rightarrow> master \<Rightarrow> handler_result" where
  "handle_r_r_jobffini ijob = with_frame (\<lambda>m. m) (\<lambda>f m.
     case finish_frame (time32 m) (jobs m ! unat ijob, f) of (j, f) \<Rightarrow> Inr (f, upd_job ijob (\<lambda>_. j) m)) ijob"

definition handle_r_r_jobfrstrqd :: "u32 \<Rightarrow> conn \<Rightarrow> master \<Rightarrow> handler_result" where
  "handle_r_r_jobfrstrqd = with_frame (\<lambda>m. m) (\<lambda>f m. Inr (f\<lparr>fi_requeued := 0\<rparr>, m))"

definition handle_r_r_jobfkfin :: "u32 \<Rightarrow> conn \<Rightarrow> master \<Rightarrow> handler_result" where
  "handle_r_r_jobfkfin = with_frame (\<lambda>m. m) (\<lambda>f m.
     if fi_status f = FS_ASSIGNED
     then andThen (kill_frame f m) (\<lambda>m. Inr (f\<lparr>fi_status := FS_FINISHED\<rparr>, m)) else Inr (f, m))"

section \<open>Limits and priority\<close>

text \<open>Handlers that read one number and store it in a job; a wrong index leaves the lock.\<close>

definition set_in_job :: "(u32 \<Rightarrow> job \<Rightarrow> job) \<Rightarrow> u32 \<Rightarrow> conn \<Rightarrow> master \<Rightarrow> handler_result" where
  "set_in_job f ijob c m =
     expect (recv_request c) (\<lambda>c. Inr (c, m)) (\<lambda>req c.
       andThen (lock_db m) (\<lambda>m.
       andThen (job_index_correct_master m ijob) (\<lambda>ok.
         if \<not> ok then Inr (c, m) else Inr (c, release_db (upd_job ijob (f (rq_data req)) m)))))"

definition handle_r_r_joblms :: "u32 \<Rightarrow> conn \<Rightarrow> master \<Rightarrow> handler_result" where
  "handle_r_r_joblms = set_in_job (\<lambda>memory j. j\<lparr>limits := (limits j)\<lparr>jl_memory := memory\<rparr>\<rparr>)"

definition handle_r_r_joblnmcs :: "u32 \<Rightarrow> conn \<Rightarrow> master \<Rightarrow> handler_result" where
  "handle_r_r_joblnmcs = set_in_job (\<lambda>n j. j\<lparr>limits := (limits j)\<lparr>jl_nmaxcpus := ucast n\<rparr>\<rparr>)"

definition handle_r_r_joblnmccs :: "u32 \<Rightarrow> conn \<Rightarrow> master \<Rightarrow> handler_result" where
  "handle_r_r_joblnmccs = set_in_job (\<lambda>n j. j\<lparr>limits := (limits j)\<lparr>jl_nmaxcpuscomputer := ucast n\<rparr>\<rparr>)"

definition handle_r_r_jobpriup :: "u32 \<Rightarrow> conn \<Rightarrow> master \<Rightarrow> handler_result" where
  "handle_r_r_jobpriup = set_in_job (\<lambda>priority j. j\<lparr>j_priority := priority\<rparr>)"

definition handle_r_r_joblps :: "u32 \<Rightarrow> conn \<Rightarrow> master \<Rightarrow> handler_result" where
  "handle_r_r_joblps ijob c m =
     expect (recv_string c) (\<lambda>c. Inr (c, m)) (\<lambda>pool c.
       andThen (lock_db m) (\<lambda>m.
       andThen (job_index_correct_master m ijob) (\<lambda>ok.
         if \<not> ok then Inr (c, m)
         else Inr (c, release_db (upd_job ijob
                (\<lambda>j. j\<lparr>limits := (limits j)\<lparr>jl_pool := strncpy (MAXNAMELEN - 1) pool\<rparr>\<rparr>) m)))))"

text \<open>
  The limits of a computer.  Where the handler calls \<open>exit\<close>, the flag is \<open>False\<close> and the caller
  does not go on.
\<close>

definition handle_r_r_uclimits :: "int \<Rightarrow> conn \<Rightarrow> master \<Rightarrow> fault + bool \<times> conn \<times> master" where
  "handle_r_r_uclimits icomp c m =
     (if icomp = -1 then Inr (False, snd (send_request R_R_UCLIMITS RERR_NOREGIS MASTER c), m)
      else sending (send_request R_R_UCLIMITS RERR_NOERROR MASTER c) (\<lambda>c. Inr (False, c, m)) (\<lambda>c.
        andThen (recv_computer_limits (computer_limits_init (env_enabled m) (env_max_cpus m), pool_shm m) c)
          (\<lambda>(ok, (new, s), c).
            let m = m\<lparr>pool_shm := s\<rparr>
            in if \<not> ok then Inr (False, c, m)
               else andThen (lock_db m) (\<lambda>m.
                 andThen (rd (computers m) (nat icomp)) (\<lambda>k.
                   case computer_pool_free (c_limits k, pool_shm m) of (_, _, s) \<Rightarrow>
                     Inr (True, c, release_db (upd_computer (nat icomp)
                       (\<lambda>k. k\<lparr>c_limits := computer_pool_detach_shared_memory new\<rparr>) (m\<lparr>pool_shm := s\<rparr>)))))))) "

definition handle_r_r_slavexit :: "int \<Rightarrow> u32 \<Rightarrow> master \<Rightarrow> fault + master" where
  "handle_r_r_slavexit icomp icomp2 m =
     andThen (lock_db m) (\<lambda>m.
     andThen (computer_index_correct_master m icomp2) (\<lambda>ok.
     if \<not> ok then Inr (release_db m)
     else if hw_id (hwinfo (computers m ! unat icomp2)) = of_int icomp
     then Inr (release_db (computer_free (unat icomp2) m))
     else Inr (release_db m)))"

end
