(* ===== verification/Blocking.thy ===== *)
theory Blocking
  imports Requests
begin

text \<open>
  The handlers of \<open>request.c\<close> for the blocked hosts of a job.  Two of them work on the shared
  list themselves, two call the functions of \<open>job.c\<close> that the theory \<open>Hosts\<close> models.
\<close>

definition block_computer_append :: "cstring \<Rightarrow> cstring list \<Rightarrow> host_state \<Rightarrow> fault + host_state" where
  "block_computer_append name obh = (\<lambda>(j, s).
     (case get_blocked_host_shared_memory (ucast (nblocked j) + 1) s of (nbhshmid, s1) \<Rightarrow>
        if nbhshmid = -1 then Inr (j, s1)
        else (case attach_blocked_host_shared_memory nbhshmid s1 of
            None \<Rightarrow> Inr (j, s1)
          | Some nbh \<Rightarrow>
              andThen (if nblocked j \<noteq> 0 then memcpy nbh obh (unat (nblocked j)) else Inr nbh) (\<lambda>nbh.
              andThen (wr nbh (unat (nblocked j)) (strncpy MAXNAMELEN name)) (\<lambda>nbh.
                Inr (j\<lparr>bhshmid := nbhshmid, nblocked := nblocked j + 1\<rparr>,
                     shmput nbhshmid nbh (if nblocked j \<noteq> 0 then snd (shmrm (bhshmid j) s1) else s1)))))))"

definition block_computer :: "cstring \<Rightarrow> host_state \<Rightarrow> fault + host_state" where
  "block_computer name = (\<lambda>(j, s).
     if nblocked j \<noteq> 0 then
       (case attach_blocked_host_shared_memory (bhshmid j) s of
          None \<Rightarrow> Inr (j, s)
        | Some obh \<Rightarrow>
            andThen (scan (\<lambda>h. h = name) (unat (nblocked j)) obh) (\<lambda>r.
              if r \<noteq> None then Inr (j, s) else block_computer_append name obh (j, s)))
     else block_computer_append name [] (j, s))"

text \<open>The index of the computer is not checked.\<close>

definition handle_r_r_jobblkhost :: "u32 \<Rightarrow> conn \<Rightarrow> master \<Rightarrow> handler_result" where
  "handle_r_r_jobblkhost ijob c m =
     expect (recv_request c) (\<lambda>c. Inr (c, m)) (\<lambda>req c.
       let ihost = rq_data req
       in andThen (lock_db m) (\<lambda>m.
          andThen (job_index_correct_master m ijob) (\<lambda>ok.
          if \<not> ok then Inr (c, release_db m)
          else andThen (rd (computers m) (unat ihost)) (\<lambda>k.
            if c_used k = 0 then Inr (c, release_db m)
            else andThen (block_computer (hw_name (hwinfo k)) (jobs m ! unat ijob, host_shm m)) (\<lambda>(j, s).
              Inr (c, release_db (upd_job ijob (\<lambda>_. j) (m\<lparr>host_shm := s\<rparr>))))))))"

text \<open>
  The host on position \<open>ihost\<close> of the list, which is below \<open>nblocked\<close>.  The first component tells
  whether the semaphore gets released: the early returns keep it.
\<close>

definition unblock_at :: "nat \<Rightarrow> host_state \<Rightarrow> fault + bool \<times> host_state" where
  "unblock_at ihost = (\<lambda>(j, s).
     let n = unat (nblocked j)
     in (case attach_blocked_host_shared_memory (bhshmid j) s of
           None \<Rightarrow> Inr (False, j, s)
         | Some obh \<Rightarrow>
             if nblocked j > 1 then
               (case get_blocked_host_shared_memory (of_nat MAXNAMELEN * (ucast (nblocked j) - 1)) s of
                  (nbhshmid, s1) \<Rightarrow>
                    if nbhshmid = -1 then Inr (False, j, s1)
                    else (case attach_blocked_host_shared_memory nbhshmid s1 of
                        None \<Rightarrow> Inr (False, j, s1)
                      | Some nbh \<Rightarrow>
                          if length obh < n then Inl OutOfBounds
                          else andThen (memcpy nbh (take ihost obh @ drop (Suc ihost) (take n obh)) (n - 1)) (\<lambda>nbh.
                            Inr (True, j\<lparr>bhshmid := nbhshmid, nblocked := nblocked j - 1\<rparr>,
                                 snd (shmrm (bhshmid j) (shmput nbhshmid nbh s1))))))
             else Inr (True, j\<lparr>bhshmid := -1, nblocked := 0\<rparr>, snd (shmrm (bhshmid j) s))))"

definition handle_r_r_jobdelblkhost :: "u32 \<Rightarrow> conn \<Rightarrow> master \<Rightarrow> handler_result" where
  "handle_r_r_jobdelblkhost ijob c m =
     andThen (job_index_correct_master m ijob) (\<lambda>ok.
     if \<not> ok then Inr (c, m)
     else expect (recv_request c) (\<lambda>c. Inr (c, m)) (\<lambda>req c.
       let ihost = rq_data req
       in andThen (lock_db m) (\<lambda>m.
          let j = jobs m ! unat ijob
          in if ihost \<ge> ucast (nblocked j) then Inr (c, release_db m)
             else andThen (unblock_at (unat ihost) (j, host_shm m)) (\<lambda>(done, j, s).
               let m = upd_job ijob (\<lambda>_. j) (m\<lparr>host_shm := s\<rparr>)
               in Inr (c, if done then release_db m else m)))))"

text \<open>This one never locks, and releases the semaphore when the list cannot be attached.\<close>

definition handle_r_r_joblstblkhost :: "u32 \<Rightarrow> conn \<Rightarrow> master \<Rightarrow> handler_result" where
  "handle_r_r_joblstblkhost ijob c m =
     andThen (job_index_correct_master m ijob) (\<lambda>ok.
     if \<not> ok then Inr (c, m)
     else
       let j = jobs m ! unat ijob
       in sending (send_request R_R_JOBLSTBLKHOST (ucast (nblocked j)) MASTER c) (\<lambda>c. Inr (c, m)) (\<lambda>c.
          if nblocked j = 0 then Inr (c, m)
          else (case attach_blocked_host_shared_memory (bhshmid j) (host_shm m) of
              None \<Rightarrow> Inr (c, release_db m)
            | Some nbh \<Rightarrow>
                if length nbh < unat (nblocked j) then Inl OutOfBounds
                else Inr (snd (send_all (map MHost (take (unat (nblocked j)) nbh)) c), m))))"

text \<open>\<open>computer_index_name\<close> locks the semaphore that the handler already holds.\<close>

definition handle_r_r_jobblkhostname :: "u32 \<Rightarrow> conn \<Rightarrow> master \<Rightarrow> handler_result" where
  "handle_r_r_jobblkhostname ijob c m =
     expect (recv_string c) (\<lambda>c. Inr (c, m)) (\<lambda>name c.
       andThen (lock_db m) (\<lambda>m.
       andThen (computer_index_name m name) (\<lambda>(ihost, m).
       if (of_int ihost :: u32) = -1 then Inr (c, m)
       else andThen (job_index_correct_master m ijob) (\<lambda>ok.
         if \<not> ok then Inr (c, release_db m)
         else andThen (job_block_host_add_by_name name (jobs m ! unat ijob, host_shm m)) (\<lambda>(_, j, s).
           Inr (c, release_db (upd_job ijob (\<lambda>_. j) (m\<lparr>host_shm := s\<rparr>))))))))"

definition handle_r_r_jobunblkhostname :: "u32 \<Rightarrow> conn \<Rightarrow> master \<Rightarrow> handler_result" where
  "handle_r_r_jobunblkhostname ijob c m =
     expect (recv_string c) (\<lambda>c. Inr (c, m)) (\<lambda>name c.
       andThen (lock_db m) (\<lambda>m.
       andThen (job_index_correct_master m ijob) (\<lambda>ok.
       if \<not> ok then Inr (c, release_db m)
       else andThen (job_block_host_remove_by_name name (jobs m ! unat ijob, host_shm m)) (\<lambda>(_, j, s).
         Inr (c, release_db (upd_job ijob (\<lambda>_. j) (m\<lparr>host_shm := s\<rparr>)))))))"

end
