(* ===== verification/Resize.thy ===== *)
theory Resize
  imports Handlers
begin

text \<open>
  \<open>handle_r_r_jobsesup\<close>: a new start, end, step and block size for a job.  The frames whose
  numbers the old job has keep their state, in a new segment; those that fall out of the range
  while they run are to be killed.
\<close>

definition ses_job :: "u32 \<Rightarrow> u32 \<Rightarrow> u32 \<Rightarrow> u32 \<Rightarrow> job" where
  "ses_job s e st b = zero_job\<lparr>frame_start := s, frame_end := e, frame_step := st, block_size := b\<rparr>"

definition carry_frame :: "job \<Rightarrow> job \<Rightarrow> frame_info list \<Rightarrow> nat \<Rightarrow> frame_info \<Rightarrow> fault + frame_info" where
  "carry_frame new old ofi i f =
     (let number = job_frame_index_to_number new (of_nat i)
      in andThen (job_frame_number_correct old number) (\<lambda>ok.
         if ok then andThen (job_frame_number_to_index old number) (\<lambda>k. rd ofi (unat k)) else Inr f))"

fun carry_frames :: "job \<Rightarrow> job \<Rightarrow> frame_info list \<Rightarrow> nat list \<Rightarrow> frame_info list \<Rightarrow> fault + frame_info list" where
  "carry_frames new old ofi [] nfi = Inr nfi"
| "carry_frames new old ofi (i # is) nfi =
     andThen (rd nfi i) (\<lambda>f.
     andThen (carry_frame new old ofi i f) (\<lambda>f. carry_frames new old ofi is (nfi[i := f])))"

text \<open>
  \<open>caddress\<close> has no memory behind it: copying the address of the computer into it, or asking
  for the kill without having done so, both use a wild pointer.
\<close>

fun kill_outside :: "job \<Rightarrow> job \<Rightarrow> frame_info list \<Rightarrow> nat list \<Rightarrow> master \<Rightarrow> fault + master" where
  "kill_outside new old ofi [] m = Inr m"
| "kill_outside new old ofi (i # is) m =
     andThen (job_frame_number_correct new (job_frame_index_to_number old (of_nat i))) (\<lambda>ok.
     if ok then kill_outside new old ofi is m
     else andThen (rd ofi i) (\<lambda>f.
       if fi_status f = FS_ASSIGNED then
         andThen (lock_db m) (\<lambda>m.
         andThen (computer_index_correct_master m (fi_icomp f)) (\<lambda>_. Inl WildPointer))
       else kill_outside new old ofi is m))"

definition job_sesupdate :: "u32 \<Rightarrow> job \<Rightarrow> master \<Rightarrow> fault + master" where
  "job_sesupdate ijob new m =
     andThen (lock_db m) (\<lambda>m.
     andThen (rd (jobs m) (unat ijob)) (\<lambda>old.
     andThen (job_index_correct_master m ijob) (\<lambda>ok.
     if \<not> ok then Inr (release_db m)
     else (case get_frame_shared_memory (job_nframes new) (frame_shm m) of (nfishmid, s) \<Rightarrow>
       let m = m\<lparr>frame_shm := s\<rparr>; nn = unat (job_nframes new)
       in if nfishmid = -1 then Inr (release_db m)
          else (case attach_frame_shared_memory nfishmid s of
              None \<Rightarrow> Inr (release_db m)
            | Some nfi \<Rightarrow>
              (case attach_frame_shared_memory (fishmid old) s of
                 None \<Rightarrow> Inr (release_db m)
               | Some ofi \<Rightarrow>
                   if length nfi < nn then Inl OutOfBounds
                   else andThen (carry_frames new old ofi [0..<nn]
                                   (map job_frame_info_init (take nn nfi) @ drop nn nfi)) (\<lambda>nfi.
                     let m = release_db (upd_job ijob (\<lambda>j. j\<lparr>frame_start := frame_start new,
                                frame_end := frame_end new, frame_step := frame_step new,
                                block_size := block_size new, fishmid := nfishmid\<rparr>)
                               (m\<lparr>frame_shm := shmput nfishmid nfi s\<rparr>))
                     in andThen (kill_outside new old ofi [0..<unat (job_nframes old)] m) (\<lambda>m.
                          Inr (m\<lparr>frame_shm := snd (shmrm (fishmid old) (frame_shm m))\<rparr>)))))))))"

definition handle_r_r_jobsesup :: "u32 \<Rightarrow> conn \<Rightarrow> master \<Rightarrow> handler_result" where
  "handle_r_r_jobsesup ijob c m =
     expect (recv_request c) (\<lambda>c. Inr (c, m)) (\<lambda>s c.
     expect (recv_request c) (\<lambda>c. Inr (c, m)) (\<lambda>e c.
     expect (recv_request c) (\<lambda>c. Inr (c, m)) (\<lambda>st c.
     expect (recv_request c) (\<lambda>c. Inr (c, m)) (\<lambda>b c.
       andThen (job_sesupdate ijob (ses_job (rq_data s) (rq_data e) (rq_data st) (rq_data b)) m) (\<lambda>m.
         Inr (c, m))))))"

end
