(* ===== verification/Service.thy ===== *)
theory Service
  imports Requests Blocking Resize
begin

text \<open>
  \<open>handle_request_master\<close> of \<open>request.c\<close>: the process forked for a connection reads one request,
  calls the handler for it and exits.
\<close>

section \<open>Dispatch\<close>

text \<open>Wrappers for handlers that leave the connection alone, and for the notification that follows some.\<close>

definition on_master :: "(master \<Rightarrow> fault + master) \<Rightarrow> conn \<Rightarrow> master \<Rightarrow> handler_result" where
  "on_master h c m = andThen (h m) (\<lambda>m. Inr (c, m))"

definition then_notify :: "(nat \<Rightarrow> u64) \<Rightarrow> handler_result \<Rightarrow> handler_result" where
  "then_notify stale r = andThen r (\<lambda>(c, m).
     andThen (request_all_slaves_job_available stale m) (\<lambda>m. Inr (c, m)))"

definition serve :: "(nat \<Rightarrow> u64) \<Rightarrow> cstring \<Rightarrow> cstring option \<Rightarrow> int \<Rightarrow> u8 \<Rightarrow> u32 \<Rightarrow> conn \<Rightarrow> master \<Rightarrow> handler_result" where
  "serve stale addr host icomp ty data c m =
     (if ty = R_R_REGISTER then
        andThen (handle_r_r_register addr host icomp c m) (\<lambda>(_, c, m). Inr (c, m))
      else if ty = R_R_UCSTATUS then handle_r_r_ucstatus icomp c m
      else if ty = R_R_REGISJOB then then_notify stale (handle_r_r_regisjob c m)
      else if ty = R_R_AVAILJOB then handle_r_r_availjob icomp c m
      else if ty = R_R_TASKFINI then then_notify stale (handle_r_r_taskfini icomp c m)
      else if ty = R_R_LISTJOBS then handle_r_r_listjobs c m
      else if ty = R_R_LISTCOMP then handle_r_r_listcomp c m
      else if ty = R_R_DELETJOB then on_master (handle_r_r_deletjob data) c m
      else if ty = R_R_STOPJOB then on_master (handle_r_r_stopjob data) c m
      else if ty = R_R_CONTJOB then then_notify stale (on_master (handle_r_r_contjob data) c m)
      else if ty = R_R_HSTOPJOB then on_master (handle_r_r_hstopjob data) c m
      else if ty = R_R_RERUNJOB then on_master (handle_r_r_rerunjob data) c m
      else if ty = R_R_JOBXFER then handle_r_r_jobxfer data c m
      else if ty = R_R_JOBXFERFI then handle_r_r_jobxferfi data c m
      else if ty = R_R_COMPXFER then handle_r_r_compxfer data c m
      else if ty = R_R_JOBFWAIT then handle_r_r_jobfwait data c m
      else if ty = R_R_JOBFKILL then handle_r_r_jobfkill data c m
      else if ty = R_R_JOBFFINI then handle_r_r_jobffini data c m
      else if ty = R_R_JOBFKFIN then handle_r_r_jobfkfin data c m
      else if ty = R_R_UCLIMITS then
        andThen (handle_r_r_uclimits icomp c m) (\<lambda>(returned, c, m).
          if returned then then_notify stale (Inr (c, m)) else Inr (c, m))
      else if ty = R_R_SLAVEXIT then on_master (handle_r_r_slavexit icomp data) c m
      else if ty = R_R_JOBSESUP then then_notify stale (handle_r_r_jobsesup data c m)
      else if ty = R_R_JOBLNMCS then then_notify stale (handle_r_r_joblnmcs data c m)
      else if ty = R_R_JOBLNMCCS then then_notify stale (handle_r_r_joblnmccs data c m)
      else if ty = R_R_JOBPRIUP then then_notify stale (handle_r_r_jobpriup data c m)
      else if ty = R_R_JOBFINFO then handle_r_r_jobfinfo data c m
      else if ty = R_R_JOBFRSTRQD then handle_r_r_jobfrstrqd data c m
      else if ty = R_R_JOBBLKHOST then handle_r_r_jobblkhost data c m
      else if ty = R_R_JOBDELBLKHOST then handle_r_r_jobdelblkhost data c m
      else if ty = R_R_JOBLSTBLKHOST then handle_r_r_joblstblkhost data c m
      else if ty = R_R_JOBLMS then handle_r_r_joblms data c m
      else if ty = R_R_JOBLPS then handle_r_r_joblps data c m
      else if ty = R_R_JOBENVVARS then handle_r_r_jobenvvars data c m
      else if ty = R_R_JOBBLKHOSTNAME then handle_r_r_jobblkhostname data c m
      else if ty = R_R_JOBUNBLKHOSTNAME then handle_r_r_jobunblkhostname data c m
      else if ty = R_R_JOBNAME then handle_r_r_jobname data c m
      else Inr (c, m))"

definition touch_computer :: "int \<Rightarrow> u8 \<Rightarrow> master \<Rightarrow> fault + master" where
  "touch_computer icomp who m =
     (if icomp \<noteq> -1 \<and> who = SLAVE then
        andThen (lock_db m) (\<lambda>m.
        andThen (rd (computers m) (nat icomp)) (\<lambda>_.
          Inr (release_db (upd_computer (nat icomp) (\<lambda>k. k\<lparr>lastconn := time32 m\<rparr>) m))))
      else Inr m)"

definition handle_request_master ::
    "(nat \<Rightarrow> u64) \<Rightarrow> cstring \<Rightarrow> cstring option \<Rightarrow> int \<Rightarrow> conn \<Rightarrow> master \<Rightarrow> handler_result" where
  "handle_request_master stale addr host icomp c m =
     expect (recv_request c) (\<lambda>c. Inr (c, process_exit m)) (\<lambda>req c.
       andThen (touch_computer icomp (rq_who req) m) (\<lambda>m.
       andThen (serve stale addr host icomp (rq_type req) (rq_data req) c m) (\<lambda>(c, m).
         Inr (c, process_exit m))))"

end
