(* ===== verification/Yields.thy ===== *)
theory Yields
  imports Conn
begin

text \<open>
  A small calculus for operations that may fault: \<open>yields r P\<close> says that whatever \<open>r\<close> returns
  satisfies \<open>P\<close>.  The rules push it through the ways the model composes operations, so that a
  fact about a handler needs one rule for each operation it calls and the collection
  \<open>yields_rules\<close> for the rest.
\<close>

definition yields :: "fault + 'a \<Rightarrow> ('a \<Rightarrow> bool) \<Rightarrow> bool" where
  "yields r P = (case r of Inl _ \<Rightarrow> True | Inr x \<Rightarrow> P x)"

lemma yields_simps [simp]:
  "yields (Inl e) P"
  "yields (Inr x) P = P x"
  by (simp_all add: yields_def)

lemma yieldsD: "yields r P \<Longrightarrow> r = Inr x \<Longrightarrow> P x"
  by (simp add: yields_def)

lemma yieldsI: "(\<And>x. r = Inr x \<Longrightarrow> P x) \<Longrightarrow> yields r P"
  by (simp add: yields_def split: sum.splits)

lemma yields_mono: "yields r P \<Longrightarrow> (\<And>x. P x \<Longrightarrow> Q x) \<Longrightarrow> yields r Q"
  by (simp add: yields_def split: sum.splits)

named_theorems yields_rules

lemma yields_return [yields_rules]: "P x \<Longrightarrow> yields (Inr x) P"
  by simp

lemma yields_fault [yields_rules]: "yields (Inl e) P"
  by simp

lemma yields_andThen [yields_rules]: "yields r (\<lambda>x. yields (f x) P) \<Longrightarrow> yields (andThen r f) P"
  by (simp add: yields_def andThen_def split: sum.splits)

lemma yields_if [yields_rules]:
  "(b \<Longrightarrow> yields r P) \<Longrightarrow> (\<not> b \<Longrightarrow> yields s P) \<Longrightarrow> yields (if b then r else s) P"
  by simp

lemma yields_option [yields_rules]:
  "(a = None \<Longrightarrow> yields r P) \<Longrightarrow> (\<And>x. a = Some x \<Longrightarrow> yields (f x) P) \<Longrightarrow>
   yields (case a of None \<Rightarrow> r | Some x \<Rightarrow> f x) P"
  by (cases a) simp_all

lemma yields_rd [yields_rules]: "(i < length xs \<Longrightarrow> P (xs ! i)) \<Longrightarrow> yields (rd xs i) P"
  by (simp add: rd_def)

lemma yields_wr [yields_rules]: "(i < length xs \<Longrightarrow> P (xs[i := x])) \<Longrightarrow> yields (wr xs i x) P"
  by (simp add: wr_def)

lemma yields_prod [yields_rules]:
  "(\<And>x y. a = (x, y) \<Longrightarrow> yields (f x y) P) \<Longrightarrow> yields (case a of (x, y) \<Rightarrow> f x y) P"
  by (cases a) simp

lemma yields_prod_app [yields_rules]:
  "(\<And>x y. a = (x, y) \<Longrightarrow> yields (f x y z) P) \<Longrightarrow> yields ((case a of (x, y) \<Rightarrow> f x y) z) P"
  by (cases a) simp

lemma yields_let [yields_rules]: "yields (f x) P \<Longrightarrow> yields (let y = x in f y) P"
  by simp

lemma yields_expect [yields_rules]:
  "(\<And>c. yields (bad c) P) \<Longrightarrow> (\<And>x c. yields (good x c) P) \<Longrightarrow> yields (expect r bad good) P"
  by (cases r; cases "fst r") (auto simp: expect_def)

lemma yields_sending [yields_rules]:
  "(\<And>c. yields (bad c) P) \<Longrightarrow> (\<And>c. yields (good c) P) \<Longrightarrow> yields (sending r bad good) P"
  by (cases r; cases "fst r") (auto simp: sending_def)

text \<open>An operation that leaves the state alone, of which nothing is needed.\<close>

lemma yields_any: "(\<And>x. P x) \<Longrightarrow> yields r P"
  by (simp add: yields_def split: sum.splits)

end
