(* ===== verification/Calls.thy ===== *)
theory Calls
  imports Service Yields
begin

text \<open>
  The operations that the handlers call and that do not return a new database: nothing about
  their result is needed to follow the database through a request.
\<close>

lemmas pure_rules =
  yields_any [where r = "scan Q n xs" for Q n xs]
  yields_any [where r = "memcpy xs ys n" for xs ys n]
  yields_any [where r = "computer_index_correct_master m i" for m i]
  yields_any [where r = "job_frame_number_correct j n" for j n]
  yields_any [where r = "job_frame_number_to_index j n" for j n]
  yields_any [where r = "computer_pool_exists n st" for n st]
  yields_any [where r = "frame_runs i j f m" for i j f m]
  yields_any [where r = "job_may_run i m" for i m]
  yields_any [where r = "job_first_frame_available_no_icomp i m" for i m]
  yields_any [where r = "computer_index_free m" for m]
  yields_any [where r = "job_index_free m" for m]
  yields_any [where r = "send_jobs js s c" for js s c]
  yields_any [where r = "send_job j s c" for j s c]
  yields_any [where r = "send_envvars es c" for es c]
  yields_any [where r = "send_computers ks s c" for ks s c]
  yields_any [where r = "send_computer l k s c" for l k s c]
  yields_any [where r = "attach_used s ks" for s ks]
  yields_any [where r = "computer_attach s k" for s k]
  yields_any [where r = "recv_envvars es c" for es c]
  yields_any [where r = "recv_computer_limits ps c" for ps c]

text \<open>A job index that passes the test is inside the array.\<close>

lemma index_rule [yields_rules]:
  "(\<And>ok. (ok \<Longrightarrow> unat ijob < length (jobs m) \<and> j_used (jobs m ! unat ijob) \<noteq> 0) \<Longrightarrow> P ok) \<Longrightarrow>
   yields (job_index_correct_master m ijob) P"
  unfolding job_index_correct_master_def by (intro yields_rules) simp_all

declare pure_rules [yields_rules]

lemma on_master_rule [yields_rules]: "yields (h m) (\<lambda>m'. P (c, m')) \<Longrightarrow> yields (on_master h c m) P"
  unfolding on_master_def by (intro yields_rules) simp

end
