(* ===== verification/Invariant.thy ===== *)
theory Invariant
  imports Calls
begin

text \<open>
  What every request keeps of the database: the arrays have their C lengths, a job without
  frames has no segment, a job with frames has one of exactly as many records, and no two jobs
  share a segment.  \<open>reserved\<close> holds the index of a job that \<open>handle_r_r_regisjob\<close> has marked as
  used and whose record has not arrived yet.
\<close>

section \<open>The invariant\<close>

definition segment_of :: "master \<Rightarrow> nat \<Rightarrow> frame_info list option" where
  "segment_of m i = segs (frame_shm m) (fishmid (jobs m ! i))"

definition db_inv :: "nat set \<Rightarrow> master \<Rightarrow> bool" where
  "db_inv reserved m \<longleftrightarrow>
     shape_ok m \<and> shm_ok (frame_shm m) \<and>
     (\<forall>i < MAXJOBS. fishmid (jobs m ! i) \<noteq> -1 \<longrightarrow>
        (\<exists>fi. segment_of m i = Some fi \<and> length fi = frame_count m i)) \<and>
     (\<forall>i < MAXJOBS. \<forall>k < MAXJOBS. fishmid (jobs m ! i) = fishmid (jobs m ! k) \<longrightarrow>
        fishmid (jobs m ! i) \<noteq> -1 \<longrightarrow> i = k) \<and>
     (\<forall>i < MAXJOBS. has_frames m i \<longrightarrow> i \<in> reserved \<or> fishmid (jobs m ! i) \<noteq> -1)"

lemma db_invD:
  assumes "db_inv R m"
  shows "length (jobs m) = MAXJOBS" "length (computers m) = MAXCOMPUTERS" "shm_ok (frame_shm m)"
  using assms by (simp_all add: db_inv_def shape_ok_def)

lemma db_inv_world: "db_inv {} m \<Longrightarrow> semid m = sem_free \<Longrightarrow> world_ok m"
  unfolding db_inv_def world_ok_def frames_ok_def segment_of_def frames_of_def frame_count_def has_frames_def
  by (auto; force)

text \<open>The invariant looks at the jobs, the computers and the frame segments only.\<close>

lemma db_inv_cong:
  assumes "jobs m' = jobs m" "frame_shm m' = frame_shm m" "computers m' = computers m"
  shows "db_inv R m' = db_inv R m"
  using assms by (simp add: db_inv_def segment_of_def shape_ok_def frame_count_def has_frames_def)

lemma db_inv_other [simp]:
  "db_inv R (m\<lparr>semid := s\<rparr>) = db_inv R m"
  "db_inv R (m\<lparr>host_shm := hs\<rparr>) = db_inv R m"
  "db_inv R (m\<lparr>pool_shm := ps\<rparr>) = db_inv R m"
  "db_inv R (m\<lparr>env_shm := es\<rparr>) = db_inv R m"
  "db_inv R (m\<lparr>kill_requests := ks\<rparr>) = db_inv R m"
  "db_inv R (m\<lparr>notified := ns\<rparr>) = db_inv R m"
  "db_inv R (m\<lparr>mailed := ms\<rparr>) = db_inv R m"
  "db_inv R (release_db m) = db_inv R m"
  "db_inv R (process_exit m) = db_inv R m"
  "db_inv R (upd_lb h m) = db_inv R m"
  by (rule db_inv_cong; simp add: release_db_def process_exit_def upd_lb_def)+

lemma lock_inv [yields_rules]:
  "db_inv R m \<Longrightarrow> (\<And>m' s. m' = m\<lparr>semid := s\<rparr> \<Longrightarrow> db_inv R m' \<Longrightarrow> P m') \<Longrightarrow> yields (lock_db m) P"
  by (simp add: lock_db_def sem_lock_def)

section \<open>Updates\<close>

lemma db_inv_upd_computer:
  assumes "db_inv R m"
    and "i < length (computers m) \<Longrightarrow>
      length (tasks (c_status (f (computers m ! i)))) = length (tasks (c_status (computers m ! i)))"
  shows "db_inv R (upd_computer i f m)"
proof (cases "i < length (computers m)")
  case True
  then have "length (tasks (c_status (f (computers m ! i)))) = MAXTASKS"
    using assms by (simp add: db_inv_def shape_ok_def)
  then have "shape_ok (upd_computer i f m)"
    using assms(1) by (auto simp: db_inv_def shape_ok_def upd_computer_def dest!: set_update_subset_insert [THEN subsetD])
  then show ?thesis
    using assms(1) by (simp add: db_inv_def segment_of_def frame_count_def has_frames_def upd_computer_def)
next
  case False
  then have "upd_computer i f m = m" by (simp add: upd_computer_def list_update_beyond)
  with assms(1) show ?thesis by simp
qed

text \<open>A job may lose its segment, or keep it together with the number of its frames.\<close>

lemma db_inv_upd_job:
  assumes inv: "db_inv R m" and R: "R - {unat ijob} \<subseteq> R'"
    and seg: "fishmid j' = -1 \<or> fishmid j' = fishmid (jobs m ! unat ijob) \<and>
      job_nframes j' = job_nframes (jobs m ! unat ijob)"
    and live: "j_used j' \<noteq> 0 \<Longrightarrow> job_nframes j' \<noteq> 0 \<Longrightarrow> unat ijob \<in> R' \<or> fishmid j' \<noteq> -1"
    and i: "unat ijob < MAXJOBS"
  shows "db_inv R' (upd_job ijob (\<lambda>_. j') m)"
proof -
  have n: "jobs (upd_job ijob (\<lambda>_. j') m) ! k = (if k = unat ijob then j' else jobs m ! k)" for k
    using i db_invD(1) [OF inv] by (simp add: jobs_upd_nth)
  define m' where "m' = upd_job ijob (\<lambda>_. j') m"
  note old = inv [unfolded db_inv_def]
  have fs: "frame_shm m' = frame_shm m" by (simp add: m'_def)
  show ?thesis
    unfolding db_inv_def m'_def [symmetric]
  proof (intro conjI allI impI)
    show "shape_ok m'" using old by (simp add: m'_def shape_ok_def)
    show "shm_ok (frame_shm m')" using old by (simp add: fs)
  next
    fix k assume "k < MAXJOBS" "fishmid (jobs m' ! k) \<noteq> -1"
    then show "\<exists>fi. segment_of m' k = Some fi \<and> length fi = frame_count m' k"
      using old seg i by (cases "k = unat ijob") (auto simp: m'_def n segment_of_def frame_count_def)
  next
    fix k l assume "k < MAXJOBS" "l < MAXJOBS" "fishmid (jobs m' ! k) = fishmid (jobs m' ! l)"
      "fishmid (jobs m' ! k) \<noteq> -1"
    then show "k = l"
      using old seg i by (cases "k = unat ijob"; cases "l = unat ijob") (auto simp: m'_def n)
  next
    fix k assume "k < MAXJOBS" "has_frames m' k"
    then show "k \<in> R' \<or> fishmid (jobs m' ! k) \<noteq> -1"
      using old live R by (cases "k = unat ijob") (auto simp: m'_def n has_frames_def)
  qed
qed

text \<open>Overwriting a segment that is attached, with as many records.\<close>

lemma db_inv_put:
  assumes inv: "db_inv R m" and fi: "shmat k (frame_shm m) = Some fi" "length fi' = length fi"
  shows "db_inv R (m\<lparr>frame_shm := shmput k fi' (frame_shm m)\<rparr>)"
proof -
  have "segs (frame_shm m) k = Some fi" using fi(1) by (rule shmat_SomeD)
  moreover have "shm_ok (shmput k fi' (frame_shm m))"
    using inv fi(1) by (simp add: shm_ok_shmput db_inv_def)
  ultimately show ?thesis
    using inv fi(2) unfolding db_inv_def segment_of_def frame_count_def has_frames_def shape_ok_def
    by (auto split: if_splits; force)
qed

text \<open>Removing a segment that no job names, and adding one.\<close>

lemma db_inv_remove:
  assumes inv: "db_inv R m" and k: "\<And>i. i < MAXJOBS \<Longrightarrow> fishmid (jobs m ! i) = k \<Longrightarrow> k = -1"
  shows "db_inv R (m\<lparr>frame_shm := snd (shmrm k (frame_shm m))\<rparr>)"
proof -
  obtain b s where r: "shmrm k (frame_shm m) = (b, s)" by fastforce
  have v: "shm_ok (frame_shm m)" using inv by (rule db_invD)
  have "segs s i = (if i = k then None else segs (frame_shm m) i)" for i by (rule shm.remove_look [OF v r])
  moreover have "shm_ok s" by (rule shm.valid_remove [OF v r])
  ultimately show ?thesis
    using inv k unfolding db_inv_def segment_of_def frame_count_def has_frames_def shape_ok_def r
    by auto
qed

lemma db_inv_get:
  assumes inv: "db_inv R m" and g: "shmget z n (frame_shm m) = (k, s)"
  shows "db_inv R (m\<lparr>frame_shm := s\<rparr>)"
    and "k \<noteq> -1 \<Longrightarrow> segs s k = Some (replicate n z)"
    and "k \<noteq> -1 \<Longrightarrow> i < MAXJOBS \<Longrightarrow> fishmid (jobs m ! i) \<noteq> k"
proof -
  have v: "shm_ok (frame_shm m)" using inv by (rule db_invD)
  note look = shm.get_look [OF v g]
  show fresh: "fishmid (jobs m ! i) \<noteq> k" if "k \<noteq> -1" "i < MAXJOBS" for i
    using inv that shm.get_fresh [OF v g] unfolding db_inv_def segment_of_def by fastforce
  show "k \<noteq> -1 \<Longrightarrow> segs s k = Some (replicate n z)" using look by simp
  show "db_inv R (m\<lparr>frame_shm := s\<rparr>)"
  proof (cases "k = -1")
    case True
    then have "s = frame_shm m" using shm.get_fail [OF v] g by simp
    with inv show ?thesis by simp
  next
    case False
    have "shm_ok s" by (rule shm.valid_get [OF v g])
    then show ?thesis
      using inv fresh False look [OF False]
      unfolding db_inv_def segment_of_def frame_count_def has_frames_def shape_ok_def by auto
  qed
qed

lemma upd_job_const: "upd_job i f m = upd_job i (\<lambda>_. f (jobs m ! unat i)) m"
  by (simp add: upd_job_def)

lemma upd_job_beyond: "\<not> unat i < length (jobs m) \<Longrightarrow> upd_job i f m = m"
  by (simp add: upd_job_def list_update_beyond)

lemma db_inv_same_frames:
  assumes "db_inv R m" "same_frames (jobs m ! unat i) (f (jobs m ! unat i))"
  shows "db_inv R (upd_job i f m)"
proof (cases "unat i < MAXJOBS")
  case True
  have "j_used (jobs m ! unat i) \<noteq> 0 \<Longrightarrow> job_nframes (jobs m ! unat i) \<noteq> 0 \<Longrightarrow>
      unat i \<in> R \<or> fishmid (jobs m ! unat i) \<noteq> -1"
    using assms(1) True unfolding db_inv_def has_frames_def by blast
  then show ?thesis
    using assms True unfolding upd_job_const [of i f]
    by (intro db_inv_upd_job [OF assms(1)]) (auto simp: same_frames_def)
next
  case False
  with assms(1) show ?thesis using db_invD(1) [OF assms(1)] by (simp add: upd_job_beyond)
qed

lemma db_inv_drop:
  assumes "db_inv R m" "R - {unat i} \<subseteq> R'" "fishmid j = -1" "j_used j = 0" "unat i < MAXJOBS"
  shows "db_inv R' (upd_job i (\<lambda>_. j) m)"
  using assms by (intro db_inv_upd_job [OF assms(1,2)]) simp_all

lemma job_init_none [simp]: "fishmid (job_init u j) = -1" "j_used (job_init u j) = 0"
  by (simp_all add: job_init_def Let_def job_shared_frame_info_init_def job_shared_blocked_hosts_init_def zero_job_def)

lemma frame_info_free_eq:
  "job_frame_info_free (j, s) = (b, j', s') \<Longrightarrow> s' = (if fishmid j = -1 then s else snd (shmrm (fishmid j) s))"
  by (auto simp: job_frame_info_free_def split: prod.splits if_splits)

lemma job_delete_eq:
  assumes "job_delete j m = (j', m')"
  shows "\<exists>hs es. m' = m\<lparr>frame_shm := (if fishmid j = -1 then frame_shm m else snd (shmrm (fishmid j) (frame_shm m))),
      host_shm := hs, env_shm := es\<rparr>" "fishmid j' = -1" "j_used j' = 0"
proof -
  obtain b1 j1 fs where f: "job_frame_info_free (j, frame_shm m) = (b1, j1, fs)" by (metis surj_pair)
  obtain b2 j2 hs where h: "job_block_host_free (j1, host_shm m) = (b2, j2, hs)" by (metis surj_pair)
  obtain b3 ev es where v: "envvars_free (j_envvars j2, env_shm m) = (b3, ev, es)" by (metis surj_pair)
  have "j' = job_init (env_user m) (j2\<lparr>j_envvars := ev\<rparr>)"
    and m': "m' = m\<lparr>frame_shm := fs, host_shm := hs, env_shm := es\<rparr>"
    using assms by (simp_all add: job_delete_def f h v)
  then show "fishmid j' = -1" "j_used j' = 0" by simp_all
  show "\<exists>hs es. m' = m\<lparr>frame_shm := (if fishmid j = -1 then frame_shm m else snd (shmrm (fishmid j) (frame_shm m))),
      host_shm := hs, env_shm := es\<rparr>"
    unfolding m' frame_info_free_eq [OF f] by blast
qed

lemma upd_job_frame_shm: "upd_job i f (m\<lparr>frame_shm := fs\<rparr>) = (upd_job i f m)\<lparr>frame_shm := fs\<rparr>"
  "upd_job i f (m\<lparr>host_shm := hs\<rparr>) = (upd_job i f m)\<lparr>host_shm := hs\<rparr>"
  "upd_job i f (m\<lparr>env_shm := es\<rparr>) = (upd_job i f m)\<lparr>env_shm := es\<rparr>"
  by (simp_all add: upd_job_def)

lemma db_inv_delete:
  assumes inv: "db_inv R m" and i: "unat i < MAXJOBS"
  shows "db_inv R (delete_job i m)"
proof -
  define old where "old = fishmid (jobs m ! unat i)"
  obtain j m' where d: "job_delete (jobs m ! unat i) m = (j, m')" by fastforce
  note e = job_delete_eq [OF d]
  obtain hs es where m': "m' = m\<lparr>frame_shm := (if old = -1 then frame_shm m else snd (shmrm old (frame_shm m))),
      host_shm := hs, env_shm := es\<rparr>" using e(1) unfolding old_def by blast
  define m1 where "m1 = upd_job i (\<lambda>_. j) m"
  have m1: "db_inv R m1" unfolding m1_def by (rule db_inv_drop [OF inv]) (auto simp: e i)
  have n: "jobs m1 ! k = (if k = unat i then j else jobs m ! k)" for k
    using i db_invD(1) [OF inv] by (simp add: m1_def jobs_upd_nth)
  have "fishmid (jobs m1 ! k) = old \<Longrightarrow> old = -1" if "k < MAXJOBS" for k
    using inv i e(2) that unfolding db_inv_def n old_def by (cases "k = unat i") auto
  then have "db_inv R (m1\<lparr>frame_shm := snd (shmrm old (frame_shm m1))\<rparr>)"
    by (intro db_inv_remove [OF m1]) blast
  then have r: "db_inv R (m1\<lparr>frame_shm := snd (shmrm old (frame_shm m))\<rparr>)" by (simp add: m1_def)
  have "delete_job i m = upd_job i (\<lambda>_. j) m'" by (simp add: delete_job_def d)
  also have "\<dots> = m1\<lparr>frame_shm := (if old = -1 then frame_shm m else snd (shmrm old (frame_shm m))),
      host_shm := hs, env_shm := es\<rparr>"
    by (simp add: m' m1_def upd_job_frame_shm)
  finally have eq: "delete_job i m = \<dots>" .
  have "db_inv R (m1\<lparr>frame_shm := frame_shm m\<rparr>)"
    by (rule db_inv_cong [THEN iffD2, OF _ _ _ m1]) (simp_all add: m1_def)
  then show ?thesis using r unfolding eq by (cases "old = -1") simp_all
qed

text \<open>A job gets a new segment, with one record for each of its frames.\<close>

lemma db_inv_new_segment:
  assumes inv: "db_inv R m" and g: "shmget z (unat (job_nframes j')) (frame_shm m) = (k, s)" "k \<noteq> -1"
    and j: "fishmid j' = k" and i: "unat ijob < MAXJOBS"
  shows "db_inv (R - {unat ijob}) (upd_job ijob (\<lambda>_. j') (m\<lparr>frame_shm := s\<rparr>))"
proof -
  define m' where "m' = upd_job ijob (\<lambda>_. j') (m\<lparr>frame_shm := s\<rparr>)"
  note got = db_inv_get [OF inv g(1)]
  have n: "jobs m' ! l = (if l = unat ijob then j' else jobs m ! l)" for l
    using i db_invD(1) [OF inv] by (simp add: m'_def jobs_upd_nth)
  have fs: "frame_shm m' = s" by (simp add: m'_def)
  note old = got(1) [unfolded db_inv_def]
  show ?thesis
    unfolding db_inv_def m'_def [symmetric]
  proof (intro conjI allI impI)
    show "shape_ok m'" using old by (simp add: m'_def shape_ok_def)
    show "shm_ok (frame_shm m')" using old by (simp add: fs)
  next
    fix l assume "l < MAXJOBS" "fishmid (jobs m' ! l) \<noteq> -1"
    then show "\<exists>fi. segment_of m' l = Some fi \<and> length fi = frame_count m' l"
      using old got(2) [OF g(2)] j i
      by (cases "l = unat ijob") (auto simp: n fs segment_of_def frame_count_def)
  next
    fix l l' assume "l < MAXJOBS" "l' < MAXJOBS" "fishmid (jobs m' ! l) = fishmid (jobs m' ! l')"
      "fishmid (jobs m' ! l) \<noteq> -1"
    then show "l = l'"
      using old got(3) [OF g(2)] j i by (cases "l = unat ijob"; cases "l' = unat ijob") (auto simp: n)
  next
    fix l assume "l < MAXJOBS" "has_frames m' l"
    then show "l \<in> R - {unat ijob} \<or> fishmid (jobs m' ! l) \<noteq> -1"
      using old g(2) j by (cases "l = unat ijob") (auto simp: n has_frames_def)
  qed
qed

end
