(* ===== verification/Keeping.thy ===== *)
theory Keeping
  imports Invariant
begin

text \<open>
  The operations of the master keep the invariant of the database, one rule for each, and so
  does every request.
\<close>

lemma keep_put:
  assumes "db_inv R m" "fs = frame_shm m" "shmat k fs \<noteq> None" "length fi' = length (the (shmat k fs))"
  shows "db_inv R (m\<lparr>frame_shm := shmput k fi' fs\<rparr>)"
  using assms by (auto intro: db_inv_put)

lemma keep_delete: "db_inv R m \<Longrightarrow> unat i < length (jobs m) \<Longrightarrow> db_inv R (delete_job i m)"
  using db_inv_delete db_invD(1) by metis

lemmas keep_intros = db_inv_same_frames keep_put db_inv_upd_computer keep_delete
  db_inv_other [THEN iffD2]

lemmas keep_simps = same_frames_def job_nframes_def attach_frame_shared_memory_def

section \<open>Handing out frames\<close>

lemma job_limits_passed_inv [yields_rules]:
  assumes inv: "db_inv R m" and P: "\<And>b m'. db_inv R m' \<Longrightarrow> P (b, m')"
  shows "yields (job_limits_passed ijob icomp m) P"
  unfolding job_limits_passed_def Let_def
  by (intro yields_rules) (use inv in \<open>auto intro!: P keep_intros simp: keep_simps\<close>)

lemma job_first_frame_available_inv [yields_rules]:
  assumes inv: "db_inv R m" and P: "\<And>f m'. db_inv R m' \<Longrightarrow> P (f, m')"
  shows "yields (job_first_frame_available ijob icomp m) P"
  unfolding job_first_frame_available_def Let_def
  by (intro yields_rules) (use inv in \<open>auto intro!: P keep_intros simp: keep_simps\<close>)

lemma job_available_inv [yields_rules]:
  assumes inv: "db_inv R m" and P: "\<And>f m'. db_inv R m' \<Longrightarrow> P (f, m')"
  shows "yields (job_available ijob icomp m) P"
  unfolding job_available_def
  by (intro yields_rules) (use inv in \<open>auto intro!: P keep_intros simp: keep_simps\<close>)

lemma job_available_no_icomp_inv [yields_rules]:
  assumes inv: "db_inv R m" and P: "\<And>f m'. db_inv R m' \<Longrightarrow> P (f, m')"
  shows "yields (job_available_no_icomp ijob m) P"
  unfolding job_available_no_icomp_def
  by (intro yields_rules) (use inv in \<open>auto intro!: P keep_intros simp: keep_simps\<close>)

lemma job_update_assigned_inv [yields_rules]:
  assumes inv: "db_inv R m" and P: "\<And>m'. db_inv R m' \<Longrightarrow> P m'"
  shows "yields (job_update_assigned ijob f icomp t m) P"
  unfolding job_update_assigned_def Let_def
  by (intro yields_rules) (use inv in \<open>auto intro!: P keep_intros simp: keep_simps\<close>)

lemma computer_update_assigned_inv [yields_rules]:
  assumes inv: "db_inv R m" and P: "\<And>m'. db_inv R m' \<Longrightarrow> P m'"
  shows "yields (computer_update_assigned ijob f icomp t m) P"
  unfolding computer_update_assigned_def
  by (intro yields_rules) (use inv in \<open>auto intro!: P keep_intros simp: keep_simps\<close>)

lemma job_frame_waiting_inv [yields_rules]:
  assumes inv: "db_inv R m" and P: "\<And>m'. db_inv R m' \<Longrightarrow> P m'"
  shows "yields (job_frame_waiting ijob f m) P"
  unfolding job_frame_waiting_def Let_def
  by (intro yields_rules) (use inv in \<open>auto intro!: P keep_intros simp: keep_simps\<close>)

lemma try_jobs_inv [yields_rules]:
  assumes inv: "db_inv R m" and P: "\<And>r m'. db_inv R m' \<Longrightarrow> P (r, m')"
  shows "yields (try_jobs icomp pol ks m) P"
  using inv P by (induction ks arbitrary: m) (auto intro!: yields_rules)

lemma pick_changed_inv [yields_rules]:
  assumes inv: "db_inv R m" and P: "\<And>r m'. db_inv R m' \<Longrightarrow> P (r, m')"
  shows "yields (pick_changed icomp pol ks m) P"
  using inv P by (induction ks arbitrary: m) (auto intro!: yields_rules)

lemma pick_same_inv [yields_rules]:
  assumes inv: "db_inv R m" and P: "\<And>r m'. db_inv R m' \<Longrightarrow> P (r, m')"
  shows "yields (pick_same icomp pol ks m) P"
  using inv P by (induction ks arbitrary: m) (auto intro!: yields_rules)

lemma pick_job_inv [yields_rules]:
  assumes inv: "db_inv R m" and P: "\<And>r m'. db_inv R m' \<Longrightarrow> P (r, m')"
  shows "yields (pick_job icomp m) P"
  unfolding pick_job_def Let_def
  by (intro yields_rules) (use inv in \<open>auto intro!: yields_rules P\<close>)

lemma hand_over_frame_inv [yields_rules]:
  assumes inv: "db_inv R m" and P: "\<And>c m'. db_inv R m' \<Longrightarrow> P (c, m')"
  shows "yields (hand_over_frame ic ijob f c m) P"
  unfolding hand_over_frame_def Let_def
  by (intro yields_rules) (use inv in \<open>auto intro!: P keep_intros simp: keep_simps\<close>)

lemma handle_r_r_availjob_inv [yields_rules]:
  assumes inv: "db_inv R m" and P: "\<And>c m'. db_inv R m' \<Longrightarrow> P (c, m')"
  shows "yields (handle_r_r_availjob icomp c m) P"
  unfolding handle_r_r_availjob_def Let_def
  by (intro yields_rules) (use inv in \<open>auto intro!: P keep_intros simp: keep_simps\<close>)

lemma find_no_icomp_inv [yields_rules]:
  assumes inv: "db_inv R m" and P: "\<And>r m'. db_inv R m' \<Longrightarrow> P (r, m')"
  shows "yields (find_no_icomp pol m) P"
  using inv P by (induction pol arbitrary: m) (auto intro!: yields_rules)

lemma request_all_slaves_job_available_inv [yields_rules]:
  assumes inv: "db_inv R m" and P: "\<And>m'. db_inv R m' \<Longrightarrow> P m'"
  shows "yields (request_all_slaves_job_available stale m) P"
  unfolding request_all_slaves_job_available_def Let_def
  by (intro yields_rules) (use inv in \<open>auto intro!: P keep_intros simp: keep_simps\<close>)

section \<open>Handlers of jobs\<close>

lemma kill_frame_inv [yields_rules]:
  assumes inv: "db_inv R m"
    and P: "\<And>m'. jobs m' = jobs m \<Longrightarrow> frame_shm m' = frame_shm m \<Longrightarrow> db_inv R m' \<Longrightarrow> P m'"
  shows "yields (kill_frame f m) P"
  unfolding kill_frame_def request_slave_killtask_def by (intro yields_rules) (use inv P in auto)

lemma kill_assigned_inv [yields_rules]:
  assumes inv: "db_inv R m"
    and P: "\<And>m'. jobs m' = jobs m \<Longrightarrow> frame_shm m' = frame_shm m \<Longrightarrow> db_inv R m' \<Longrightarrow> P m'"
  shows "yields (kill_assigned fs m) P"
  using inv P
proof (induction fs arbitrary: m)
  case (Cons f fs)
  show ?case
    unfolding kill_assigned.simps
    by (intro yields_rules Cons.prems(1)) (auto intro!: Cons.IH Cons.prems)
qed simp

lemma frames_upto_rule [yields_rules]:
  "(\<And>fs. fs = take (length fs) fi \<Longrightarrow> length fs \<le> length fi \<Longrightarrow> P fs) \<Longrightarrow> yields (frames_upto n fi) P"
  unfolding frames_upto_def Let_def by (intro yields_rules) (simp_all add: min_def)

lemma frame_ended_same:
  "frame_ended now stat (j, f) = (j', f') \<Longrightarrow> same_frames j j'"
  by (auto simp: frame_ended_def frame_killed_def frame_again_def frame_failed_def same_frames_def job_nframes_def
      Let_def split: if_splits prod.splits)

lemma handle_r_r_deletjob_inv [yields_rules]:
  assumes inv: "db_inv R m" and P: "\<And>m'. db_inv R m' \<Longrightarrow> P m'"
  shows "yields (handle_r_r_deletjob ijob m) P"
  unfolding handle_r_r_deletjob_def Let_def
  by (intro yields_rules) (use inv in \<open>auto intro!: P keep_intros simp: keep_simps job_stop_def job_continue_def\<close>)

lemma handle_r_r_stopjob_inv [yields_rules]:
  assumes inv: "db_inv R m" and P: "\<And>m'. db_inv R m' \<Longrightarrow> P m'"
  shows "yields (handle_r_r_stopjob ijob m) P"
  unfolding handle_r_r_stopjob_def Let_def
  by (intro yields_rules) (use inv in \<open>auto intro!: P keep_intros simp: keep_simps job_stop_def job_continue_def\<close>)

lemma handle_r_r_contjob_inv [yields_rules]:
  assumes inv: "db_inv R m" and P: "\<And>m'. db_inv R m' \<Longrightarrow> P m'"
  shows "yields (handle_r_r_contjob ijob m) P"
  unfolding handle_r_r_contjob_def Let_def
  by (intro yields_rules) (use inv in \<open>auto intro!: P keep_intros simp: keep_simps job_stop_def job_continue_def\<close>)

lemma handle_r_r_hstopjob_inv [yields_rules]:
  assumes inv: "db_inv R m" and P: "\<And>m'. db_inv R m' \<Longrightarrow> P m'"
  shows "yields (handle_r_r_hstopjob ijob m) P"
  unfolding handle_r_r_hstopjob_def Let_def
  by (intro yields_rules) (use inv in \<open>auto intro!: P keep_intros simp: keep_simps job_stop_def job_continue_def\<close>)

lemma handle_r_r_rerunjob_inv [yields_rules]:
  assumes inv: "db_inv R m" and P: "\<And>m'. db_inv R m' \<Longrightarrow> P m'"
  shows "yields (handle_r_r_rerunjob ijob m) P"
  unfolding handle_r_r_rerunjob_def Let_def
  by (intro yields_rules) (use inv in \<open>auto intro!: P keep_intros simp: keep_simps job_stop_def job_continue_def\<close>)

lemma same_frames_trans: "same_frames j j' \<Longrightarrow> same_frames j' j'' \<Longrightarrow> same_frames j j''"
  by (simp add: same_frames_def)

lemma handle_r_r_taskfini_inv [yields_rules]:
  assumes inv: "db_inv R m" and P: "\<And>c m'. db_inv R m' \<Longrightarrow> P (c, m')"
  shows "yields (handle_r_r_taskfini icomp c m) P"
proof -
  have e: "same_frames j j' \<and> fishmid j' = fishmid j"
    if "frame_ended now stat (if b then j\<lparr>j_nprocs := n\<rparr> else j, f) = (j', f')" for now stat b j n f j' f'
    using frame_ended_same [OF that] by (auto simp: same_frames_def job_nframes_def split: if_splits)
  have b: "same_frames j (if b then j\<lparr>j_nprocs := n\<rparr> else j)" for j b n by (simp add: keep_simps)
  show ?thesis
    unfolding handle_r_r_taskfini_def Let_def
    by (intro yields_rules, use inv in \<open>auto intro!: P keep_delete db_inv_same_frames b
          simp: attach_frame_shared_memory_def simp del: if_split split del: if_split\<close>)
      (auto dest!: e intro!: db_inv_same_frames keep_put)
qed

section \<open>Single frames\<close>

lemma with_frame_inv:
  assumes act: "\<And>f m Q. db_inv R m \<Longrightarrow> (\<And>f' m'. frame_shm m' = frame_shm m \<Longrightarrow> db_inv R m' \<Longrightarrow> Q (f', m')) \<Longrightarrow>
      yields (act f m) Q"
    and refuse: "\<And>m. db_inv R m \<Longrightarrow> db_inv R (refuse m)"
    and inv: "db_inv R m" and P: "\<And>c m'. db_inv R m' \<Longrightarrow> P (c, m')"
  shows "yields (with_frame refuse act ijob c m) P"
  unfolding with_frame_def Let_def
  by (intro yields_rules act) (use inv in \<open>auto intro!: P keep_intros refuse simp: keep_simps\<close>)

lemma set_in_job_inv:
  assumes inv: "db_inv R m" and P: "\<And>c m'. db_inv R m' \<Longrightarrow> P (c, m')" and f: "\<And>x j. same_frames j (f x j)"
  shows "yields (set_in_job f ijob c m) P"
  unfolding set_in_job_def by (intro yields_rules) (use inv in \<open>auto intro!: P keep_intros f\<close>)

lemma handle_r_r_jobfwait_inv [yields_rules]:
  assumes inv: "db_inv R m" and P: "\<And>c m'. db_inv R m' \<Longrightarrow> P (c, m')"
  shows "yields (handle_r_r_jobfwait ijob c m) P"
  unfolding handle_r_r_jobfwait_def by (rule with_frame_inv [where R = R]) (auto intro!: yields_rules inv P)

lemma handle_r_r_jobfkill_inv [yields_rules]:
  assumes inv: "db_inv R m" and P: "\<And>c m'. db_inv R m' \<Longrightarrow> P (c, m')"
  shows "yields (handle_r_r_jobfkill ijob c m) P"
  unfolding handle_r_r_jobfkill_def by (rule with_frame_inv [where R = R]) (auto intro!: yields_rules inv P)

lemma handle_r_r_jobfrstrqd_inv [yields_rules]:
  assumes inv: "db_inv R m" and P: "\<And>c m'. db_inv R m' \<Longrightarrow> P (c, m')"
  shows "yields (handle_r_r_jobfrstrqd ijob c m) P"
  unfolding handle_r_r_jobfrstrqd_def by (rule with_frame_inv [where R = R]) (auto intro!: yields_rules inv P)

lemma handle_r_r_jobfkfin_inv [yields_rules]:
  assumes inv: "db_inv R m" and P: "\<And>c m'. db_inv R m' \<Longrightarrow> P (c, m')"
  shows "yields (handle_r_r_jobfkfin ijob c m) P"
  unfolding handle_r_r_jobfkfin_def by (rule with_frame_inv [where R = R]) (auto intro!: yields_rules inv P)

lemma handle_r_r_jobffini_inv [yields_rules]:
  assumes inv: "db_inv R m" and P: "\<And>c m'. db_inv R m' \<Longrightarrow> P (c, m')"
  shows "yields (handle_r_r_jobffini ijob c m) P"
proof -
  have "same_frames j j'" if "finish_frame now (j, f) = (j', f')" for now j f j' f'
    using that by (auto simp: finish_frame_def keep_simps split: if_splits)
  then have "yields (case finish_frame (time32 m) (jobs m ! unat ijob, f) of (j, f) \<Rightarrow> Inr (f, upd_job ijob (\<lambda>_. j) m)) Q"
    if "db_inv R m" "\<And>f' m'. frame_shm m' = frame_shm m \<Longrightarrow> db_inv R m' \<Longrightarrow> Q (f', m')" for f m Q
    by (intro yields_rules that(2)) (use that(1) in \<open>auto intro!: db_inv_same_frames\<close>)
  then show ?thesis
    unfolding handle_r_r_jobffini_def by (intro with_frame_inv [where R = R]) (use inv P in auto)
qed

section \<open>Limits and priority\<close>

lemma handle_r_r_joblms_inv [yields_rules]:
  assumes inv: "db_inv R m" and P: "\<And>c m'. db_inv R m' \<Longrightarrow> P (c, m')"
  shows "yields (handle_r_r_joblms ijob c m) P"
  unfolding handle_r_r_joblms_def by (rule set_in_job_inv [where R = R]) (simp_all add: keep_simps inv P)

lemma handle_r_r_joblnmcs_inv [yields_rules]:
  assumes inv: "db_inv R m" and P: "\<And>c m'. db_inv R m' \<Longrightarrow> P (c, m')"
  shows "yields (handle_r_r_joblnmcs ijob c m) P"
  unfolding handle_r_r_joblnmcs_def by (rule set_in_job_inv [where R = R]) (simp_all add: keep_simps inv P)

lemma handle_r_r_joblnmccs_inv [yields_rules]:
  assumes inv: "db_inv R m" and P: "\<And>c m'. db_inv R m' \<Longrightarrow> P (c, m')"
  shows "yields (handle_r_r_joblnmccs ijob c m) P"
  unfolding handle_r_r_joblnmccs_def by (rule set_in_job_inv [where R = R]) (simp_all add: keep_simps inv P)

lemma handle_r_r_jobpriup_inv [yields_rules]:
  assumes inv: "db_inv R m" and P: "\<And>c m'. db_inv R m' \<Longrightarrow> P (c, m')"
  shows "yields (handle_r_r_jobpriup ijob c m) P"
  unfolding handle_r_r_jobpriup_def by (rule set_in_job_inv [where R = R]) (simp_all add: keep_simps inv P)

lemma handle_r_r_joblps_inv [yields_rules]:
  assumes inv: "db_inv R m" and P: "\<And>c m'. db_inv R m' \<Longrightarrow> P (c, m')"
  shows "yields (handle_r_r_joblps ijob c m) P"
  unfolding handle_r_r_joblps_def Let_def
  by (intro yields_rules) (use inv in \<open>auto intro!: P keep_intros simp: keep_simps\<close>)

section \<open>Computers\<close>

lemma init_computer_inv:
  "db_inv R m \<Longrightarrow> db_inv R (init_computer i m)"
  unfolding init_computer_def
  by (rule db_inv_upd_computer) (auto simp: computer_init_def computer_status_init_def task_init_all_def)

lemma computer_free_inv: "db_inv R m \<Longrightarrow> db_inv R (computer_free i m)"
  by (auto simp: computer_free_def split: prod.splits intro!: init_computer_inv db_inv_upd_computer)

lemma handle_r_r_register_inv [yields_rules]:
  assumes inv: "db_inv R m" and P: "\<And>i c m'. db_inv R m' \<Longrightarrow> P (i, c, m')"
  shows "yields (handle_r_r_register addr host icomp c m) P"
  unfolding handle_r_r_register_def Let_def
  by (intro yields_rules)
    (use inv in \<open>auto intro!: P computer_free_inv init_computer_inv db_inv_upd_computer\<close>)

lemma recv_each_task_length [yields_rules]:
  assumes "\<And>ok st' c'. length (tasks st') = length (tasks st) \<Longrightarrow> P (ok, st', c')"
  shows "yields (recv_each_task n st c) P"
  using assms by (induction n arbitrary: st c) (auto intro!: yields_rules)

lemma recv_computer_status_length [yields_rules]:
  assumes "\<And>ok st' c'. length (tasks st') = length (tasks st) \<Longrightarrow> P (ok, st', c')"
  shows "yields (recv_computer_status st c) P"
proof -
  have n: "tasks st' = tasks st" if "recv_computer_ntasks st c = (st', c')" for st c st' c'
    using that by (auto simp: recv_computer_ntasks_def expect_def split: prod.splits option.splits)
  have l: "tasks st' = tasks st"
    if "expect (recv_computer_loadavg c) (\<lambda>c. (st, c)) (\<lambda>l c. (st\<lparr>loadavg := l\<rparr>, c)) = (st', c')" for st c st' c'
    using that by (auto simp: expect_def split: prod.splits option.splits)
  have i: "length (tasks (computer_status_init st)) = length (tasks st)"
    by (simp add: computer_status_init_def task_init_all_def)
  show ?thesis
    unfolding recv_computer_status_def Let_def
    by (intro yields_rules assms; drule l; drule n; simp add: i split: if_splits)
qed

lemma handle_r_r_ucstatus_inv [yields_rules]:
  assumes inv: "db_inv R m" and P: "\<And>c m'. db_inv R m' \<Longrightarrow> P (c, m')"
  shows "yields (handle_r_r_ucstatus icomp c m) P"
proof -
  have "length (tasks (c_status (computers m ! i))) = MAXTASKS" if "i < length (computers m)" for i
    using inv that by (simp add: db_inv_def shape_ok_def)
  then show ?thesis
    unfolding handle_r_r_ucstatus_def Let_def
    by (intro yields_rules)
      (use inv in \<open>auto intro!: P db_inv_upd_computer simp: computer_status_init_def task_init_all_def\<close>)
qed

lemma handle_r_r_uclimits_inv [yields_rules]:
  assumes inv: "db_inv R m" and P: "\<And>b c m'. db_inv R m' \<Longrightarrow> P (b, c, m')"
  shows "yields (handle_r_r_uclimits icomp c m) P"
  unfolding handle_r_r_uclimits_def Let_def
  by (intro yields_rules) (use inv in \<open>auto intro!: P keep_intros simp: keep_simps\<close>)

lemma handle_r_r_slavexit_inv [yields_rules]:
  assumes inv: "db_inv R m" and P: "\<And>m'. db_inv R m' \<Longrightarrow> P m'"
  shows "yields (handle_r_r_slavexit icomp icomp2 m) P"
  unfolding handle_r_r_slavexit_def Let_def
  by (intro yields_rules) (use inv in \<open>auto intro!: P computer_free_inv\<close>)

lemma touch_computer_inv [yields_rules]:
  assumes inv: "db_inv R m" and P: "\<And>m'. db_inv R m' \<Longrightarrow> P m'"
  shows "yields (touch_computer icomp who m) P"
  unfolding touch_computer_def Let_def
  by (intro yields_rules) (use inv in \<open>auto intro!: P keep_intros simp: keep_simps\<close>)

lemma nframes_update [simp]:
  "job_nframes (j\<lparr>fishmid := x0\<rparr>) = job_nframes j"
  "job_nframes (j\<lparr>j_status := x1\<rparr>) = job_nframes j"
  "job_nframes (j\<lparr>fleft := x2\<rparr>) = job_nframes j"
  "job_nframes (j\<lparr>fdone := x3\<rparr>) = job_nframes j"
  "job_nframes (j\<lparr>ffailed := x4\<rparr>) = job_nframes j"
  "job_nframes (j\<lparr>j_nprocs := x5\<rparr>) = job_nframes j"
  "job_nframes (j\<lparr>submit_time := x6\<rparr>) = job_nframes j"
  "job_nframes (j\<lparr>avg_frame_time := x7\<rparr>) = job_nframes j"
  "job_nframes (j\<lparr>est_finish_time := x8\<rparr>) = job_nframes j"
  "job_nframes (j\<lparr>bhshmid := x9\<rparr>) = job_nframes j"
  "job_nframes (j\<lparr>nblocked := x10\<rparr>) = job_nframes j"
  by (simp_all add: job_nframes_def)

section \<open>Registration of a job\<close>

lemma recv_job_inv [yields_rules]:
  assumes inv: "db_inv R m" and none: "fishmid j0 = -1"
    and P: "\<And>ok j c m'. db_inv R m' \<Longrightarrow> jobs m' = jobs m \<Longrightarrow> (ok \<Longrightarrow> fishmid j = -1) \<Longrightarrow> P (ok, j, c, m')"
  shows "yields (recv_job j0 c m) P"
proof -
  have d: "db_inv R m' \<and> jobs m' = jobs m" if d: "job_delete j0 m = (j, m')" for j m'
    using job_delete_eq(1) [OF d] none inv
    by (auto intro: db_inv_cong [THEN iffD2, OF _ _ _ inv])
  show ?thesis
    unfolding recv_job_def Let_def
    by (intro yields_rules P)
      (auto dest!: d simp: job_fix_received_invalid_def step_not_zero_def)
qed

lemma upd_job_twice: "upd_job i f (upd_job i g m) = upd_job i (\<lambda>j. f (g j)) m"
  by (cases "unat i < length (jobs m)") (simp_all add: upd_job_def list_update_beyond)

lemma job_init_registered_inv [yields_rules]:
  assumes inv: "db_inv R m" and R: "R \<subseteq> {unat ijob}" and i: "unat ijob < MAXJOBS"
    and used: "j_used (jobs m ! unat ijob) \<noteq> 0" and none: "fishmid j = -1" and P: "\<And>m'. db_inv {} m' \<Longrightarrow> P m'"
  shows "yields (job_init_registered ijob j m) P"
proof -
  define j1 where "j1 = j\<lparr>j_used := 1, j_id := ijob, j_status := JOBSTATUS_WAITING\<rparr>"
  have stored: "db_inv {unat ijob} (upd_job ijob (\<lambda>_. j1) m)" if "db_inv R m" for m
    using R none i by (intro db_inv_upd_job [OF that]) (auto simp: j1_def)
  have plain: "db_inv {} (upd_job ijob (\<lambda>_. j1) m)" if "db_inv R m" "job_nframes j1 = 0" for m
    using R none i that(2) by (intro db_inv_upd_job [OF that(1)]) (auto simp: j1_def)
  have fresh: "db_inv {} (upd_job ijob (\<lambda>j. j\<lparr>fishmid := k\<rparr>) (upd_job ijob (\<lambda>_. j1) m\<lparr>frame_shm := s\<rparr>))"
    if "db_inv R m" "shmget z (unat (job_nframes j1)) (frame_shm m) = (k, s)" "k \<noteq> -1" for m z k s
  proof -
    have "shmget z (unat (job_nframes (j1\<lparr>fishmid := k\<rparr>))) (frame_shm (upd_job ijob (\<lambda>_. j1) m)) = (k, s)"
      using that(2) by simp
    from db_inv_new_segment [OF stored [OF that(1)] this that(3) _ i] db_invD(1) [OF that(1)] i
    show ?thesis by (simp add: upd_job_def)
  qed
  have keep: "db_inv {} (upd_job ijob f m)" if "db_inv {} m" "\<And>j. same_frames j (f j)" for f m
    using that by (rule db_inv_same_frames)
  have drop: "db_inv {} (upd_job ijob f m)" if "db_inv Q m" "Q \<subseteq> {unat ijob}" "\<And>j. fishmid (f j) = -1 \<and> j_used (f j) = 0" for Q f m
    unfolding upd_job_const [of ijob f]
    by (rule db_inv_drop [OF that(1)]) (use that i in auto)
  define m1 where "m1 = m\<lparr>semid := \<lparr>semval = semval (semid m) - 1, semadj = semadj (semid m) + 1\<rparr>\<rparr>"
  have lock: "lock_db m = Inl Blocked \<or> lock_db m = Inr m1"
    by (simp add: lock_db_def sem_lock_def m1_def)
  have inv1: "db_inv R m1" using inv by (simp add: m1_def)
  have "jobs m1 = jobs m" by (simp add: m1_def)
  then have idx: "job_index_correct_master m1 ijob = Inr True"
    using used i db_invD(1) [OF inv] index_correct [of m1 ijob] by simp
  have at: "jobs (upd_job ijob (\<lambda>_. j1) m1) ! unat ijob = j1"
    using i db_invD(1) [OF inv1] by (simp add: jobs_upd_nth)
  define X where "X = upd_job ijob (\<lambda>_. j1) m1"
  have X: "jobs X ! unat ijob = j1" "frame_shm X = frame_shm m1" "db_inv {unat ijob} X"
    using at stored [OF inv1] by (simp_all add: X_def)
  have none: "db_inv {} (upd_job ijob (job_init u) (upd_job ijob (\<lambda>j. j\<lparr>fishmid := k\<rparr>) (X\<lparr>frame_shm := s\<rparr>)))"
    if "shmget zero_frame (unat (job_nframes j1)) (frame_shm m1) = (k, s)" for u k s
    unfolding upd_job_twice
    by (rule drop [OF db_inv_get(1) [OF X(3)]]) (use that X(2) in simp_all)
  have held: "yields (job_init_registered ijob j m) (db_inv {})" if l: "lock_db m = Inr m1"
    unfolding job_init_registered_def j1_def [symmetric] get_frame_shared_memory_def attach_frame_shared_memory_def
      Let_def l andThen_simps idx if_False not_True_eq_False X_def [symmetric] X
  proof (intro yields_rules, goal_cases)
    case (1 k fs) then show ?case by (simp add: none)
  next
    case (2 k fs) then show ?case by (simp add: none)
  next
    case (3 k fs fi)
    then show ?case
      using fresh [OF inv1, of zero_frame k fs] unfolding X_def [symmetric]
      by (simp add: same_frames_def keep keep_put)
  next
    case 4
    then show ?case using plain [OF inv1] unfolding X_def [symmetric] by (simp add: same_frames_def keep)
  qed
  have "yields (job_init_registered ijob j m) (db_inv {})"
    using lock held by (auto simp: job_init_registered_def)
  then show ?thesis by (rule yields_mono) (rule P)
qed

end
