(* ===== verification/Preserved.thy ===== *)
theory Preserved
  imports Keeping
begin

text \<open>
  The requests that give a job a frame segment or take one away, the remaining handlers, and with
  them every request that a process of the master serves.
\<close>

section \<open>Registering a job\<close>

lemma job_index_free_rule [yields_rules]:
  "P (-1) \<Longrightarrow> (\<And>i. unat i < MAXJOBS \<Longrightarrow> P i) \<Longrightarrow> yields (job_index_free m) P"
  unfolding job_index_free_def scan_def
  by (auto split: option.splits dest!: first_idx_Some_length simp: max_defs unsigned_of_nat take_bit_nat_eq_self)

lemma handle_r_r_regisjob_inv [yields_rules]:
  assumes inv: "db_inv {} m" and P: "\<And>c m'. db_inv {} m' \<Longrightarrow> P (c, m')"
  shows "yields (handle_r_r_regisjob c m) P"
proof -
  have claim: "db_inv {unat i} (upd_job i (\<lambda>j. j\<lparr>j_used := 1\<rparr>) m) \<and>
      j_used (jobs (upd_job i (\<lambda>j. j\<lparr>j_used := 1\<rparr>) m) ! unat i) \<noteq> 0"
    if "db_inv {} m" "unat i < MAXJOBS" for i m
    unfolding upd_job_const [of i "\<lambda>j. j\<lparr>j_used := 1\<rparr>"]
    using that db_invD(1) [OF that(1)]
    by (auto intro!: db_inv_upd_job simp: jobs_upd_nth job_nframes_def)
  have init: "db_inv {} (upd_job i (job_init u) m)" if "db_inv {unat i} m" "unat i < MAXJOBS" for i u m
    unfolding upd_job_const [of i "job_init u"] by (rule db_inv_drop [OF that(1)]) (use that(2) in auto)
  have used: "j_used (jobs (release_db (upd_job i (\<lambda>j. j\<lparr>j_used := 1\<rparr>) m)) ! unat i) =
      j_used (jobs (upd_job i (\<lambda>j. j\<lparr>j_used := 1\<rparr>) m) ! unat i)" for i m by (simp add: release_db_def)
  have locked: "jobs m' = jobs m" if "m' = m\<lparr>semid := s\<rparr>" for m m' s using that by simp
  show ?thesis
    unfolding handle_r_r_regisjob_def Let_def
  proof (rule yields_andThen, rule lock_inv [OF inv])
    fix m1 s assume m1: "m1 = m\<lparr>semid := s\<rparr>" "db_inv {} m1"
    show "yields (andThen (job_index_free m1) (\<lambda>index.
        if index = -1 then Inr (snd (send_request R_R_REGISJOB RERR_NOSPACE MASTER c), release_db m1)
        else andThen (recv_job (job_init (env_user m) zero_job) (snd (send_request R_R_REGISJOB RERR_NOERROR MASTER c))
               (release_db (upd_job index (\<lambda>j. j\<lparr>j_used := 1\<rparr>) m1))) (\<lambda>(ok, job, c, m).
               if \<not> ok then andThen (lock_db m) (\<lambda>m. Inr (c, release_db (upd_job index (job_init (env_user m)) m)))
               else andThen (job_init_registered index job m) (\<lambda>m.
                      Inr (snd (send_request R_R_REGISJOB index MASTER c), m))))) P"
    proof (rule yields_andThen, rule job_index_free_rule, goal_cases)
      case 1 then show ?case using m1 P by simp
    next
      case (2 i)
      note c1 = claim [OF m1(2) 2, THEN conjunct1] and c2 = claim [OF m1(2) 2, THEN conjunct2]
      have r: "db_inv {unat i} (release_db (upd_job i (\<lambda>j. j\<lparr>j_used := 1\<rparr>) m1))" using c1 by simp
      show ?case
      proof (intro yields_if yields_return, use m1 P in simp, rule yields_andThen, rule recv_job_inv [OF r], simp,
          rule yields_prod, rule yields_prod, rule yields_prod, goal_cases)
        case (1 ok j c m' x y j' y' c'' m'')
        then have *: "db_inv {unat i} m''" "jobs m'' = jobs (release_db (upd_job i (\<lambda>j. j\<lparr>j_used := 1\<rparr>) m1))"
          "x \<Longrightarrow> fishmid j' = -1" by auto
        then have u: "j_used (jobs m'' ! unat i) \<noteq> 0" using c2 by (simp add: used)
        show ?case
          by (intro yields_if yields_andThen yields_return lock_inv [OF *(1)]
              job_init_registered_inv [OF *(1) _ 2 u])
            (use * 2 in \<open>auto intro!: init P\<close>)
      qed
    qed
  qed
qed

section \<open>Blocked hosts\<close>

lemma same_frames_hosts [simp]:
  "same_frames j (j\<lparr>bhshmid := k, nblocked := n\<rparr>)" "same_frames j j"
  "same_frames j (j\<lparr>nblocked := n, bhshmid := k\<rparr>)"
  by (simp_all add: same_frames_def job_nframes_def)

lemma block_computer_frames [yields_rules]:
  assumes P: "\<And>j' s'. same_frames j j' \<Longrightarrow> P (j', s')"
  shows "yields (block_computer name (j, s)) P"
  unfolding block_computer_def block_computer_append_def prod.case Let_def
  by (intro yields_rules) (auto intro: P)

lemma unblock_at_frames [yields_rules]:
  assumes P: "\<And>b j' s'. same_frames j j' \<Longrightarrow> P (b, j', s')"
  shows "yields (unblock_at n (j, s)) P"
  unfolding unblock_at_def prod.case Let_def
  by (intro yields_rules) (auto intro: P)

lemma job_block_host_exists_any [yields_rules]: "(\<And>b. P b) \<Longrightarrow> yields (job_block_host_exists_by_name n st) P"
  by (rule yields_any)

lemma copy_unless_any [yields_rules]: "(\<And>xs. P xs) \<Longrightarrow> yields (copy_unless p ys xs n) P"
  by (rule yields_any)

lemma block_host_add_frames [yields_rules]:
  assumes P: "\<And>b j' s'. same_frames j j' \<Longrightarrow> P (b, j', s')"
  shows "yields (job_block_host_add_by_name name (j, s)) P"
  unfolding job_block_host_add_by_name_def block_host_append_def prod.case Let_def
  by (intro yields_rules) (auto intro: P)

lemma block_host_remove_frames [yields_rules]:
  assumes P: "\<And>b j' s'. same_frames j j' \<Longrightarrow> P (b, j', s')"
  shows "yields (job_block_host_remove_by_name name (j, s)) P"
  unfolding job_block_host_remove_by_name_def prod.case Let_def
  by (intro yields_rules) (auto intro: P)

lemma computer_index_name_inv [yields_rules]:
  "db_inv R m \<Longrightarrow> (\<And>i m'. db_inv R m' \<Longrightarrow> P (i, m')) \<Longrightarrow> yields (computer_index_name m name) P"
  unfolding computer_index_name_def by (intro yields_rules) (auto intro: yields_any)

lemma keep_job:
  "db_inv R m \<Longrightarrow> same_frames (jobs m ! unat i) j \<Longrightarrow> db_inv R (upd_job i (\<lambda>_. j) m)"
  by (rule db_inv_same_frames)

lemma handle_r_r_jobblkhost_inv [yields_rules]:
  assumes inv: "db_inv R m" and P: "\<And>c m'. db_inv R m' \<Longrightarrow> P (c, m')"
  shows "yields (handle_r_r_jobblkhost ijob c m) P"
  unfolding handle_r_r_jobblkhost_def Let_def
  by (intro yields_rules) (use inv in \<open>auto intro!: P keep_job\<close>)

lemma handle_r_r_jobdelblkhost_inv [yields_rules]:
  assumes inv: "db_inv R m" and P: "\<And>c m'. db_inv R m' \<Longrightarrow> P (c, m')"
  shows "yields (handle_r_r_jobdelblkhost ijob c m) P"
  unfolding handle_r_r_jobdelblkhost_def Let_def
  by (intro yields_rules) (use inv in \<open>auto intro!: P keep_job\<close>)

lemma handle_r_r_joblstblkhost_inv [yields_rules]:
  assumes inv: "db_inv R m" and P: "\<And>c m'. db_inv R m' \<Longrightarrow> P (c, m')"
  shows "yields (handle_r_r_joblstblkhost ijob c m) P"
  unfolding handle_r_r_joblstblkhost_def Let_def
  by (intro yields_rules) (use inv in \<open>auto intro!: P\<close>)

lemma handle_r_r_jobblkhostname_inv [yields_rules]:
  assumes inv: "db_inv R m" and P: "\<And>c m'. db_inv R m' \<Longrightarrow> P (c, m')"
  shows "yields (handle_r_r_jobblkhostname ijob c m) P"
  unfolding handle_r_r_jobblkhostname_def
  by (intro yields_rules) (use inv in \<open>auto intro!: P keep_job yields_rules\<close>)

lemma handle_r_r_jobunblkhostname_inv [yields_rules]:
  assumes inv: "db_inv R m" and P: "\<And>c m'. db_inv R m' \<Longrightarrow> P (c, m')"
  shows "yields (handle_r_r_jobunblkhostname ijob c m) P"
  unfolding handle_r_r_jobunblkhostname_def
  by (intro yields_rules) (use inv in \<open>auto intro!: P keep_job\<close>)

section \<open>Transfers\<close>

lemma handle_r_r_listjobs_inv [yields_rules]:
  assumes inv: "db_inv R m" and P: "\<And>c m'. db_inv R m' \<Longrightarrow> P (c, m')"
  shows "yields (handle_r_r_listjobs c m) P"
  unfolding handle_r_r_listjobs_def
  by (intro yields_rules) (use inv in \<open>auto intro!: P\<close>)

lemma handle_r_r_listcomp_inv [yields_rules]:
  assumes inv: "db_inv R m" and P: "\<And>c m'. db_inv R m' \<Longrightarrow> P (c, m')"
  shows "yields (handle_r_r_listcomp c m) P"
  unfolding handle_r_r_listcomp_def Let_def
  by (intro yields_rules) (use inv in \<open>auto intro!: P\<close>)

lemma handle_r_r_jobenvvars_inv [yields_rules]:
  assumes inv: "db_inv R m" and P: "\<And>c m'. db_inv R m' \<Longrightarrow> P (c, m')"
  shows "yields (handle_r_r_jobenvvars ijob c m) P"
  unfolding handle_r_r_jobenvvars_def Let_def
  by (intro yields_rules) (use inv in \<open>auto intro!: P\<close>)

lemma handle_r_r_jobxfer_inv [yields_rules]:
  assumes inv: "db_inv R m" and P: "\<And>c m'. db_inv R m' \<Longrightarrow> P (c, m')"
  shows "yields (handle_r_r_jobxfer ijob c m) P"
  unfolding handle_r_r_jobxfer_def Let_def
  by (intro yields_rules) (use inv in \<open>auto intro!: P\<close>)

lemma handle_r_r_jobxferfi_inv [yields_rules]:
  assumes inv: "db_inv R m" and P: "\<And>c m'. db_inv R m' \<Longrightarrow> P (c, m')"
  shows "yields (handle_r_r_jobxferfi ijob c m) P"
  unfolding handle_r_r_jobxferfi_def Let_def
  by (intro yields_rules) (use inv in \<open>auto intro!: P keep_intros\<close>)

lemma handle_r_r_jobfinfo_inv [yields_rules]:
  assumes inv: "db_inv R m" and P: "\<And>c m'. db_inv R m' \<Longrightarrow> P (c, m')"
  shows "yields (handle_r_r_jobfinfo ijob c m) P"
  unfolding handle_r_r_jobfinfo_def Let_def
  by (intro yields_rules) (use inv in \<open>auto intro!: P keep_intros\<close>)

lemma handle_r_r_compxfer_inv [yields_rules]:
  assumes inv: "db_inv R m" and P: "\<And>c m'. db_inv R m' \<Longrightarrow> P (c, m')"
  shows "yields (handle_r_r_compxfer icomp c m) P"
  unfolding handle_r_r_compxfer_def Let_def
  by (intro yields_rules) (use inv in \<open>auto intro!: P keep_intros\<close>)

lemma handle_r_r_jobname_inv [yields_rules]:
  assumes inv: "db_inv R m" and P: "\<And>c m'. db_inv R m' \<Longrightarrow> P (c, m')"
  shows "yields (handle_r_r_jobname ijob c m) P"
  unfolding handle_r_r_jobname_def Let_def
  by (intro yields_rules) (use inv in \<open>auto intro!: P keep_intros\<close>)

end
