(* ===== verification/Requested.thy ===== *)
theory Requested
  imports Preserved
begin

text \<open>
  The change of a job's frame range replaces its frame segment; with it the invariant holds
  after every request.
\<close>

section \<open>The change of the frame range\<close>

lemma carry_frame_any [yields_rules]: "(\<And>f. P f) \<Longrightarrow> yields (carry_frame new old ofi i f) P"
  by (rule yields_any)

lemma carry_frames_length [yields_rules]:
  "(\<And>fs. length fs = length nfi \<Longrightarrow> P fs) \<Longrightarrow> yields (carry_frames new old ofi xs nfi) P"
proof (induction xs arbitrary: nfi)
  case (Cons i xs)
  show ?case unfolding carry_frames.simps by (intro yields_rules Cons.IH) (simp add: Cons.prems)
qed simp

lemma kill_outside_same [yields_rules]: "P m \<Longrightarrow> yields (kill_outside new old ofi xs m) P"
proof (induction xs)
  case (Cons i xs)
  show ?case using Cons by (auto simp: yields_def andThen_def split: sum.splits)
qed simp

lemma resized_inv:
  fixes new :: job
  defines "f \<equiv> \<lambda>k j. j\<lparr>frame_start := frame_start new, frame_end := frame_end new,
    frame_step := frame_step new, block_size := block_size new, fishmid := k\<rparr>"
  assumes inv: "db_inv {} m" and g: "shmget z (unat (job_nframes new)) (frame_shm m) = (k, s)" "k \<noteq> -1"
    and nfi: "shmat k s = Some nfi" "length nfi' = length nfi" and i: "unat ijob < length (jobs m)"
    and old: "o' = fishmid (jobs m ! unat ijob)"
  defines "m2 \<equiv> upd_job ijob (f k) (m\<lparr>frame_shm := shmput k nfi' s\<rparr>)"
  shows "db_inv {} (m2\<lparr>frame_shm := snd (shmrm o' (frame_shm m2))\<rparr>)"
proof -
  let ?j = "f k (jobs m ! unat ijob)"
  have len: "length (jobs m) = MAXJOBS" by (rule db_invD(1) [OF inv])
  define m1 where "m1 = upd_job ijob (\<lambda>_. ?j) (m\<lparr>frame_shm := s\<rparr>)"
  have "job_nframes ?j = job_nframes new" by (simp add: f_def job_nframes_def)
  then have m1: "db_inv {} m1"
    using db_inv_new_segment [OF inv, of z ?j k s ijob] g i len by (simp add: m1_def f_def)
  have fs: "frame_shm m1 = s" by (simp add: m1_def)
  have "m2 = m1\<lparr>frame_shm := shmput k nfi' (frame_shm m1)\<rparr>"
    by (simp add: m2_def m1_def upd_job_const [of ijob "f k"] upd_job_frame_shm)
  then have m2: "db_inv {} m2" using db_inv_put [OF m1, of k nfi nfi'] nfi by (simp add: fs)
  have n: "jobs m2 ! l = (if l = unat ijob then ?j else jobs m ! l)" for l
    using i by (simp add: m2_def jobs_upd_nth)
  have "fishmid (jobs m2 ! l) = o' \<Longrightarrow> o' = -1" if "l < MAXJOBS" for l
    using db_inv_get(3) [OF inv g that] db_inv_get(3) [OF inv g, of "unat ijob"] inv i len that old g(2)
    unfolding db_inv_def n by (cases "l = unat ijob") (auto simp: f_def)
  then show ?thesis by (intro db_inv_remove [OF m2]) blast
qed

lemma job_sesupdate_inv [yields_rules]:
  assumes inv: "db_inv {} m" and P: "\<And>m'. db_inv {} m' \<Longrightarrow> P m'"
  shows "yields (job_sesupdate ijob new m) P"
proof -
  have rel: "(release_db m)\<lparr>frame_shm := s\<rparr> = release_db (m\<lparr>frame_shm := s\<rparr>)"
    "frame_shm (release_db m) = frame_shm m" for m s by (simp_all add: release_db_def)
  have "yields (job_sesupdate ijob new m) (db_inv {})"
    unfolding job_sesupdate_def Let_def get_frame_shared_memory_def attach_frame_shared_memory_def
  proof (rule yields_andThen, rule lock_inv [OF inv], intro yields_rules, goal_cases)
    case (1 m1) then show ?case by simp
  next
    case 2 then show ?case by (simp add: db_inv_get(1))
  next
    case 3 then show ?case by (simp add: db_inv_get(1))
  next
    case 4 then show ?case by (simp add: db_inv_get(1))
  next
    case (5 m1 s1 ok k s nfi ofi fs)
    have "length fs = length nfi" using 5(10, 11) by simp
    from resized_inv [OF 5(2) 5(6,7,8) this 5(3) refl] show ?case by (simp add: rel)
  qed
  then show ?thesis by (rule yields_mono) (rule P)
qed

lemma handle_r_r_jobsesup_inv [yields_rules]:
  assumes inv: "db_inv {} m" and P: "\<And>c m'. db_inv {} m' \<Longrightarrow> P (c, m')"
  shows "yields (handle_r_r_jobsesup ijob c m) P"
  unfolding handle_r_r_jobsesup_def
  by (intro yields_rules inv) (auto intro: P inv)

section \<open>Every request\<close>

lemma then_notify_inv [yields_rules]:
  assumes "yields r (\<lambda>(c, m). db_inv {} m)" and "\<And>c m'. db_inv {} m' \<Longrightarrow> P (c, m')"
  shows "yields (then_notify stale r) P"
  unfolding then_notify_def
  by (rule yields_andThen, rule yields_mono [OF assms(1)]) (auto intro!: yields_rules assms(2))

lemma serve_inv [yields_rules]:
  assumes inv: "db_inv {} m" and P: "\<And>c m'. db_inv {} m' \<Longrightarrow> P (c, m')"
  shows "yields (serve stale addr host icomp ty data c m) P"
  unfolding serve_def by (intro yields_rules inv) (auto intro: P inv)

lemma handle_request_master_inv:
  assumes inv: "db_inv {} m"
  shows "yields (handle_request_master stale addr host icomp c m) (\<lambda>(c', m'). db_inv {} m')"
  unfolding handle_request_master_def
  by (intro yields_rules inv) (auto intro: inv)

end
