(* ===== verification/Locking.thy ===== *)
theory Locking
  imports Calls
begin

text \<open>
  The semaphore over a whole request.  A process that locks or unlocks with \<open>SEM_UNDO\<close> moves the
  value of the semaphore and its own adjustment in opposite directions, so their sum never
  changes, and the end of the process restores it, whichever way the handler came back.
\<close>

definition sem_sum :: "master \<Rightarrow> int" where
  "sem_sum m = semval (semid m) + semadj (semid m)"

lemma sem_sum_simps [simp]:
  "sem_sum (upd_job i f m) = sem_sum m"
  "sem_sum (upd_computer k g m) = sem_sum m"
  "sem_sum (release_db m) = sem_sum m"
  "sem_sum (m\<lparr>frame_shm := fs\<rparr>) = sem_sum m"
  "sem_sum (m\<lparr>host_shm := hs\<rparr>) = sem_sum m"
  "sem_sum (m\<lparr>pool_shm := ps\<rparr>) = sem_sum m"
  "sem_sum (m\<lparr>env_shm := es\<rparr>) = sem_sum m"
  "sem_sum (m\<lparr>kill_requests := ks\<rparr>) = sem_sum m"
  "sem_sum (m\<lparr>notified := ns\<rparr>) = sem_sum m"
  "sem_sum (m\<lparr>mailed := ms\<rparr>) = sem_sum m"
  "sem_sum (upd_lb h m) = sem_sum m"
  by (simp_all add: sem_sum_def release_db_def sem_release_def upd_lb_def)

lemma lock_sum [yields_rules]: "(\<And>m'. sem_sum m' = sem_sum m \<Longrightarrow> P m') \<Longrightarrow> yields (lock_db m) P"
  by (simp add: lock_db_def sem_lock_def sem_sum_def)

lemma job_delete_sum: "job_delete j m = (j', m') \<Longrightarrow> sem_sum m' = sem_sum m"
  by (auto simp: job_delete_def Let_def split: prod.splits)

lemma delete_job_sum [simp]: "sem_sum (delete_job i m) = sem_sum m"
  by (auto simp: delete_job_def job_delete_sum split: prod.splits)

lemma computer_free_sum [simp]: "sem_sum (computer_free i m) = sem_sum m" "sem_sum (init_computer i m) = sem_sum m"
  by (auto simp: computer_free_def init_computer_def split: prod.splits)

lemma locking_pure [yields_rules]:
  "(\<And>x. P x) \<Longrightarrow> yields (frames_upto n fi) P"
  "(\<And>x. Q x) \<Longrightarrow> yields (recv_computer_status st c) Q"
  "(\<And>x. R x) \<Longrightarrow> yields (block_computer nm hs) R"
  "(\<And>x. S x) \<Longrightarrow> yields (unblock_at pos hs) S"
  "(\<And>x. S x) \<Longrightarrow> yields (job_block_host_add_by_name nm hs) S"
  "(\<And>x. S x) \<Longrightarrow> yields (job_block_host_remove_by_name nm hs) S"
  by (rule yields_any, assumption)+

lemma carry_frames_any [yields_rules]: "(\<And>x. P x) \<Longrightarrow> yields (carry_frames new old fi ks nfi) P"
  by (rule yields_any)

lemma if_sum [simp]: "sem_sum (if b then m else m') = (if b then sem_sum m else sem_sum m')"
  by simp

section \<open>One rule for each operation that returns a database\<close>

lemma job_limits_passed_sum [yields_rules]:
  "(\<And>b m'. sem_sum m' = sem_sum m \<Longrightarrow> P (b, m')) \<Longrightarrow> yields (job_limits_passed ijob icomp m) P"
  unfolding job_limits_passed_def Let_def by (intro yields_rules) simp_all

lemma job_first_frame_available_sum [yields_rules]:
  "(\<And>f m'. sem_sum m' = sem_sum m \<Longrightarrow> P (f, m')) \<Longrightarrow> yields (job_first_frame_available ijob icomp m) P"
  unfolding job_first_frame_available_def Let_def by (intro yields_rules) simp_all

lemma job_available_sum [yields_rules]:
  "(\<And>f m'. sem_sum m' = sem_sum m \<Longrightarrow> P (f, m')) \<Longrightarrow> yields (job_available ijob icomp m) P"
  unfolding job_available_def by (intro yields_rules) simp_all

lemma job_available_no_icomp_sum [yields_rules]:
  "(\<And>f m'. sem_sum m' = sem_sum m \<Longrightarrow> P (f, m')) \<Longrightarrow> yields (job_available_no_icomp ijob m) P"
  unfolding job_available_no_icomp_def by (intro yields_rules) simp_all

lemma job_update_assigned_sum [yields_rules]:
  "(\<And>m'. sem_sum m' = sem_sum m \<Longrightarrow> P m') \<Longrightarrow> yields (job_update_assigned ijob f icomp t m) P"
  unfolding job_update_assigned_def Let_def by (intro yields_rules) simp_all

lemma computer_update_assigned_sum [yields_rules]:
  "(\<And>m'. sem_sum m' = sem_sum m \<Longrightarrow> P m') \<Longrightarrow> yields (computer_update_assigned ijob f icomp t m) P"
  unfolding computer_update_assigned_def by (intro yields_rules) simp_all

lemma job_frame_waiting_sum [yields_rules]:
  "(\<And>m'. sem_sum m' = sem_sum m \<Longrightarrow> P m') \<Longrightarrow> yields (job_frame_waiting ijob f m) P"
  unfolding job_frame_waiting_def Let_def by (intro yields_rules) simp_all

lemma try_jobs_sum [yields_rules]:
  assumes "\<And>r m'. sem_sum m' = sem_sum m \<Longrightarrow> P (r, m')"
  shows "yields (try_jobs icomp pol ks m) P"
  using assms
  by (induction ks arbitrary: m) (auto intro!: yields_rules)

lemma pick_changed_sum [yields_rules]:
  assumes "\<And>r m'. sem_sum m' = sem_sum m \<Longrightarrow> P (r, m')"
  shows "yields (pick_changed icomp pol ks m) P"
  using assms by (induction ks arbitrary: m) (auto intro!: yields_rules)

lemma pick_same_sum [yields_rules]:
  assumes "\<And>r m'. sem_sum m' = sem_sum m \<Longrightarrow> P (r, m')"
  shows "yields (pick_same icomp pol ks m) P"
  using assms by (induction ks arbitrary: m) (auto intro!: yields_rules)

lemma pick_job_sum [yields_rules]:
  "(\<And>r m'. sem_sum m' = sem_sum m \<Longrightarrow> P (r, m')) \<Longrightarrow> yields (pick_job icomp m) P"
  unfolding pick_job_def Let_def by (intro yields_rules) (auto intro!: yields_rules split: if_splits)

lemma hand_over_frame_sum [yields_rules]:
  "(\<And>c' m'. sem_sum m' = sem_sum m \<Longrightarrow> P (c', m')) \<Longrightarrow> yields (hand_over_frame ic ijob f c m) P"
  unfolding hand_over_frame_def Let_def by (intro yields_rules) simp_all

lemma handle_r_r_availjob_sum [yields_rules]:
  "(\<And>c' m'. sem_sum m' = sem_sum m \<Longrightarrow> P (c', m')) \<Longrightarrow> yields (handle_r_r_availjob icomp c m) P"
  unfolding handle_r_r_availjob_def Let_def by (intro yields_rules) simp_all

lemma find_no_icomp_sum [yields_rules]:
  assumes "\<And>r m'. sem_sum m' = sem_sum m \<Longrightarrow> P (r, m')"
  shows "yields (find_no_icomp pol m) P"
  using assms by (induction pol arbitrary: m) (auto intro!: yields_rules)

lemma notify_sum [yields_rules]:
  "(\<And>m'. sem_sum m' = sem_sum m \<Longrightarrow> P m') \<Longrightarrow> yields (request_all_slaves_job_available stale m) P"
  unfolding request_all_slaves_job_available_def Let_def by (intro yields_rules) simp_all

lemma kill_assigned_sum [yields_rules]:
  assumes "\<And>m'. sem_sum m' = sem_sum m \<Longrightarrow> P m'"
  shows "yields (kill_assigned fs m) P"
  using assms
  by (induction fs arbitrary: m) (auto intro!: yields_rules simp: kill_frame_def request_slave_killtask_def)

lemma kill_frame_sum [yields_rules]:
  "(\<And>m'. sem_sum m' = sem_sum m \<Longrightarrow> P m') \<Longrightarrow> yields (kill_frame f m) P"
  unfolding kill_frame_def request_slave_killtask_def by (intro yields_rules) simp_all

lemma recv_job_sum [yields_rules]:
  "(\<And>ok j c' m'. sem_sum m' = sem_sum m \<Longrightarrow> P (ok, j, c', m')) \<Longrightarrow> yields (recv_job j0 c m) P"
  unfolding recv_job_def Let_def by (intro yields_rules) (auto dest: job_delete_sum)

lemma job_init_registered_sum [yields_rules]:
  "(\<And>m'. sem_sum m' = sem_sum m \<Longrightarrow> P m') \<Longrightarrow> yields (job_init_registered ijob j m) P"
  unfolding job_init_registered_def Let_def by (intro yields_rules) simp_all

section \<open>The handlers\<close>

lemma with_frame_sum:
  assumes act: "\<And>f m Q. (\<And>f' m'. sem_sum m' = sem_sum m \<Longrightarrow> Q (f', m')) \<Longrightarrow> yields (act f m) Q"
    and refuse: "\<And>m. sem_sum (refuse m) = sem_sum m"
    and P: "\<And>c' m'. sem_sum m' = sem_sum m \<Longrightarrow> P (c', m')"
  shows "yields (with_frame refuse act ijob c m) P"
  unfolding with_frame_def Let_def by (intro yields_rules act P) (simp_all add: refuse)

lemma set_in_job_sum:
  "(\<And>c' m'. sem_sum m' = sem_sum m \<Longrightarrow> P (c', m')) \<Longrightarrow> yields (set_in_job f ijob c m) P"
  unfolding set_in_job_def by (intro yields_rules) simp_all

lemma handle_r_r_jobfwait_sum [yields_rules]:
  "(\<And>c' m'. sem_sum m' = sem_sum m \<Longrightarrow> P (c', m')) \<Longrightarrow> yields (handle_r_r_jobfwait ijob c m) P"
  unfolding handle_r_r_jobfwait_def by (rule with_frame_sum) (auto intro!: yields_rules)

lemma handle_r_r_jobfkill_sum [yields_rules]:
  "(\<And>c' m'. sem_sum m' = sem_sum m \<Longrightarrow> P (c', m')) \<Longrightarrow> yields (handle_r_r_jobfkill ijob c m) P"
  unfolding handle_r_r_jobfkill_def by (rule with_frame_sum) (auto intro!: yields_rules)

lemma handle_r_r_jobffini_sum [yields_rules]:
  "(\<And>c' m'. sem_sum m' = sem_sum m \<Longrightarrow> P (c', m')) \<Longrightarrow> yields (handle_r_r_jobffini ijob c m) P"
  unfolding handle_r_r_jobffini_def by (rule with_frame_sum) (auto intro!: yields_rules)

lemma handle_r_r_jobfrstrqd_sum [yields_rules]:
  "(\<And>c' m'. sem_sum m' = sem_sum m \<Longrightarrow> P (c', m')) \<Longrightarrow> yields (handle_r_r_jobfrstrqd ijob c m) P"
  unfolding handle_r_r_jobfrstrqd_def by (rule with_frame_sum) (auto intro!: yields_rules)

lemma handle_r_r_jobfkfin_sum [yields_rules]:
  "(\<And>c' m'. sem_sum m' = sem_sum m \<Longrightarrow> P (c', m')) \<Longrightarrow> yields (handle_r_r_jobfkfin ijob c m) P"
  unfolding handle_r_r_jobfkfin_def by (rule with_frame_sum) (auto intro!: yields_rules)

lemma handle_r_r_joblms_sum [yields_rules]:
  "(\<And>c' m'. sem_sum m' = sem_sum m \<Longrightarrow> P (c', m')) \<Longrightarrow> yields (handle_r_r_joblms ijob c m) P"
  unfolding handle_r_r_joblms_def by (rule set_in_job_sum)

lemma handle_r_r_joblnmcs_sum [yields_rules]:
  "(\<And>c' m'. sem_sum m' = sem_sum m \<Longrightarrow> P (c', m')) \<Longrightarrow> yields (handle_r_r_joblnmcs ijob c m) P"
  unfolding handle_r_r_joblnmcs_def by (rule set_in_job_sum)

lemma handle_r_r_joblnmccs_sum [yields_rules]:
  "(\<And>c' m'. sem_sum m' = sem_sum m \<Longrightarrow> P (c', m')) \<Longrightarrow> yields (handle_r_r_joblnmccs ijob c m) P"
  unfolding handle_r_r_joblnmccs_def by (rule set_in_job_sum)

lemma handle_r_r_jobpriup_sum [yields_rules]:
  "(\<And>c' m'. sem_sum m' = sem_sum m \<Longrightarrow> P (c', m')) \<Longrightarrow> yields (handle_r_r_jobpriup ijob c m) P"
  unfolding handle_r_r_jobpriup_def by (rule set_in_job_sum)

lemma handle_r_r_ucstatus_sum [yields_rules]:
  "(\<And>c' m'. sem_sum m' = sem_sum m \<Longrightarrow> P (c', m')) \<Longrightarrow> yields (handle_r_r_ucstatus icomp c m) P"
  unfolding handle_r_r_ucstatus_def Let_def by (intro yields_rules) simp_all

lemma handle_r_r_regisjob_sum [yields_rules]:
  "(\<And>c' m'. sem_sum m' = sem_sum m \<Longrightarrow> P (c', m')) \<Longrightarrow> yields (handle_r_r_regisjob c m) P"
  unfolding handle_r_r_regisjob_def Let_def by (intro yields_rules) simp_all

lemma handle_r_r_taskfini_sum [yields_rules]:
  "(\<And>c' m'. sem_sum m' = sem_sum m \<Longrightarrow> P (c', m')) \<Longrightarrow> yields (handle_r_r_taskfini icomp c m) P"
  unfolding handle_r_r_taskfini_def Let_def by (intro yields_rules) simp_all

lemma handle_r_r_listjobs_sum [yields_rules]:
  "(\<And>c' m'. sem_sum m' = sem_sum m \<Longrightarrow> P (c', m')) \<Longrightarrow> yields (handle_r_r_listjobs c m) P"
  unfolding handle_r_r_listjobs_def Let_def by (intro yields_rules) simp_all

lemma handle_r_r_listcomp_sum [yields_rules]:
  "(\<And>c' m'. sem_sum m' = sem_sum m \<Longrightarrow> P (c', m')) \<Longrightarrow> yields (handle_r_r_listcomp c m) P"
  unfolding handle_r_r_listcomp_def Let_def by (intro yields_rules) simp_all

lemma handle_r_r_jobenvvars_sum [yields_rules]:
  "(\<And>c' m'. sem_sum m' = sem_sum m \<Longrightarrow> P (c', m')) \<Longrightarrow> yields (handle_r_r_jobenvvars ijob c m) P"
  unfolding handle_r_r_jobenvvars_def Let_def by (intro yields_rules) simp_all

lemma handle_r_r_jobxfer_sum [yields_rules]:
  "(\<And>c' m'. sem_sum m' = sem_sum m \<Longrightarrow> P (c', m')) \<Longrightarrow> yields (handle_r_r_jobxfer ijob c m) P"
  unfolding handle_r_r_jobxfer_def Let_def by (intro yields_rules) simp_all

lemma handle_r_r_jobxferfi_sum [yields_rules]:
  "(\<And>c' m'. sem_sum m' = sem_sum m \<Longrightarrow> P (c', m')) \<Longrightarrow> yields (handle_r_r_jobxferfi ijob c m) P"
  unfolding handle_r_r_jobxferfi_def Let_def by (intro yields_rules) simp_all

lemma handle_r_r_jobfinfo_sum [yields_rules]:
  "(\<And>c' m'. sem_sum m' = sem_sum m \<Longrightarrow> P (c', m')) \<Longrightarrow> yields (handle_r_r_jobfinfo ijob c m) P"
  unfolding handle_r_r_jobfinfo_def Let_def by (intro yields_rules) simp_all

lemma handle_r_r_compxfer_sum [yields_rules]:
  "(\<And>c' m'. sem_sum m' = sem_sum m \<Longrightarrow> P (c', m')) \<Longrightarrow> yields (handle_r_r_compxfer ijob c m) P"
  unfolding handle_r_r_compxfer_def Let_def by (intro yields_rules) simp_all

lemma handle_r_r_jobname_sum [yields_rules]:
  "(\<And>c' m'. sem_sum m' = sem_sum m \<Longrightarrow> P (c', m')) \<Longrightarrow> yields (handle_r_r_jobname ijob c m) P"
  unfolding handle_r_r_jobname_def Let_def by (intro yields_rules) simp_all

lemma handle_r_r_joblps_sum [yields_rules]:
  "(\<And>c' m'. sem_sum m' = sem_sum m \<Longrightarrow> P (c', m')) \<Longrightarrow> yields (handle_r_r_joblps ijob c m) P"
  unfolding handle_r_r_joblps_def Let_def by (intro yields_rules) simp_all

lemma handle_r_r_jobblkhost_sum [yields_rules]:
  "(\<And>c' m'. sem_sum m' = sem_sum m \<Longrightarrow> P (c', m')) \<Longrightarrow> yields (handle_r_r_jobblkhost ijob c m) P"
  unfolding handle_r_r_jobblkhost_def Let_def by (intro yields_rules) simp_all

lemma handle_r_r_jobdelblkhost_sum [yields_rules]:
  "(\<And>c' m'. sem_sum m' = sem_sum m \<Longrightarrow> P (c', m')) \<Longrightarrow> yields (handle_r_r_jobdelblkhost ijob c m) P"
  unfolding handle_r_r_jobdelblkhost_def Let_def by (intro yields_rules) simp_all

lemma handle_r_r_joblstblkhost_sum [yields_rules]:
  "(\<And>c' m'. sem_sum m' = sem_sum m \<Longrightarrow> P (c', m')) \<Longrightarrow> yields (handle_r_r_joblstblkhost ijob c m) P"
  unfolding handle_r_r_joblstblkhost_def Let_def by (intro yields_rules) simp_all

lemma handle_r_r_jobunblkhostname_sum [yields_rules]:
  "(\<And>c' m'. sem_sum m' = sem_sum m \<Longrightarrow> P (c', m')) \<Longrightarrow> yields (handle_r_r_jobunblkhostname ijob c m) P"
  unfolding handle_r_r_jobunblkhostname_def Let_def by (intro yields_rules) simp_all

lemma handle_r_r_deletjob_sum [yields_rules]:
  "(\<And>m'. sem_sum m' = sem_sum m \<Longrightarrow> P m') \<Longrightarrow> yields (handle_r_r_deletjob ijob m) P"
  unfolding handle_r_r_deletjob_def Let_def by (intro yields_rules) simp_all

lemma handle_r_r_stopjob_sum [yields_rules]:
  "(\<And>m'. sem_sum m' = sem_sum m \<Longrightarrow> P m') \<Longrightarrow> yields (handle_r_r_stopjob ijob m) P"
  unfolding handle_r_r_stopjob_def Let_def by (intro yields_rules) simp_all

lemma handle_r_r_contjob_sum [yields_rules]:
  "(\<And>m'. sem_sum m' = sem_sum m \<Longrightarrow> P m') \<Longrightarrow> yields (handle_r_r_contjob ijob m) P"
  unfolding handle_r_r_contjob_def Let_def by (intro yields_rules) simp_all

lemma handle_r_r_hstopjob_sum [yields_rules]:
  "(\<And>m'. sem_sum m' = sem_sum m \<Longrightarrow> P m') \<Longrightarrow> yields (handle_r_r_hstopjob ijob m) P"
  unfolding handle_r_r_hstopjob_def Let_def by (intro yields_rules) simp_all

lemma handle_r_r_rerunjob_sum [yields_rules]:
  "(\<And>m'. sem_sum m' = sem_sum m \<Longrightarrow> P m') \<Longrightarrow> yields (handle_r_r_rerunjob ijob m) P"
  unfolding handle_r_r_rerunjob_def Let_def by (intro yields_rules) simp_all

lemma handle_r_r_slavexit_sum [yields_rules]:
  "(\<And>m'. sem_sum m' = sem_sum m \<Longrightarrow> P m') \<Longrightarrow> yields (handle_r_r_slavexit icomp ijob m) P"
  unfolding handle_r_r_slavexit_def Let_def by (intro yields_rules) simp_all

lemma handle_r_r_register_sum [yields_rules]:
  "(\<And>i c' m'. sem_sum m' = sem_sum m \<Longrightarrow> P (i, c', m')) \<Longrightarrow> yields (handle_r_r_register addr host icomp c m) P"
  unfolding handle_r_r_register_def Let_def by (intro yields_rules) simp_all

lemma handle_r_r_uclimits_sum [yields_rules]:
  "(\<And>b c' m'. sem_sum m' = sem_sum m \<Longrightarrow> P (b, c', m')) \<Longrightarrow> yields (handle_r_r_uclimits icomp c m) P"
  unfolding handle_r_r_uclimits_def Let_def by (intro yields_rules) simp_all

lemma computer_index_name_sum [yields_rules]:
  "(\<And>i m'. sem_sum m' = sem_sum m \<Longrightarrow> P (i, m')) \<Longrightarrow> yields (computer_index_name m name) P"
  unfolding computer_index_name_def by (intro yields_rules) simp_all

lemma handle_r_r_jobblkhostname_sum [yields_rules]:
  "(\<And>c' m'. sem_sum m' = sem_sum m \<Longrightarrow> P (c', m')) \<Longrightarrow> yields (handle_r_r_jobblkhostname ijob c m) P"
  unfolding handle_r_r_jobblkhostname_def by (intro yields_rules) simp_all

lemma kill_outside_sum [yields_rules]:
  assumes "\<And>m'. sem_sum m' = sem_sum m \<Longrightarrow> P m'"
  shows "yields (kill_outside new old ofi ks m) P"
  using assms by (induction ks arbitrary: m) (auto intro!: yields_rules)

lemma handle_r_r_jobsesup_sum [yields_rules]:
  "(\<And>c' m'. sem_sum m' = sem_sum m \<Longrightarrow> P (c', m')) \<Longrightarrow> yields (handle_r_r_jobsesup ijob c m) P"
  unfolding handle_r_r_jobsesup_def job_sesupdate_def Let_def by (intro yields_rules) simp_all

lemma then_notify_sum [yields_rules]:
  "yields r (\<lambda>(c, m). \<forall>m'. sem_sum m' = sem_sum m \<longrightarrow> P (c, m')) \<Longrightarrow> yields (then_notify stale r) P"
  unfolding then_notify_def
  by (rule yields_andThen) (erule yields_mono, auto intro!: yields_rules)

lemma serve_sum [yields_rules]:
  assumes "\<And>c' m'. sem_sum m' = sem_sum m \<Longrightarrow> P (c', m')"
  shows "yields (serve stale addr host icomp ty data c m) P"
  unfolding serve_def by (intro yields_rules) (auto intro: assms)

lemma touch_computer_sum [yields_rules]:
  "(\<And>m'. sem_sum m' = sem_sum m \<Longrightarrow> P m') \<Longrightarrow> yields (touch_computer icomp who m) P"
  unfolding touch_computer_def by (intro yields_rules) simp_all

section \<open>The semaphore is free after every request\<close>

lemma exit_frees: "sem_sum m = 1 \<Longrightarrow> semid (process_exit m) = sem_free"
  by (simp add: sem_sum_def process_exit_def sem_exit_def sem_free_def)

lemma handle_request_master_frees:
  "sem_sum m = 1 \<Longrightarrow> yields (handle_request_master stale addr host icomp c m) (\<lambda>(c', m'). semid m' = sem_free)"
  unfolding handle_request_master_def by (intro yields_rules) (auto intro: exit_frees)

text \<open>C2. Whatever request a client sends and however the handler comes back, the semaphore of
  the database is free again once the handler process has ended: the early returns that
  forget \<open>semaphore_release\<close>, and the release without a lock in \<open>handle_r_r_joblstblkhost\<close>, are made
  up for by the adjustment that \<open>SEM_UNDO\<close> keeps.\<close>

theorem request_leaves_semaphore_free:
  assumes "semid m = sem_free" "handle_request_master stale addr host icomp c m = Inr (c', m')"
  shows "semid m' = sem_free"
proof -
  have "sem_sum m = 1" using assms(1) by (simp add: sem_sum_def sem_free_def)
  from yieldsD [OF handle_request_master_frees [OF this] assms(2)] show ?thesis by simp
qed

section \<open>The semaphore is not always free in between\<close>

lemma locked_notify_blocks:
  assumes "semid m = sem_held" "length (jobs m) = MAXJOBS"
  shows "request_all_slaves_job_available stale m = Inl Blocked"
proof -
  define ps where "ps = qsort priority_job_compare
     (map (\<lambda>i. \<lparr>tp_index = of_nat i, tp_pri = j_priority (jobs m ! i), tp_submit_time = stale i\<rparr>) [0..<MAXJOBS])"
  have "length ps = MAXJOBS" by (simp add: ps_def length_qsort)
  then obtain p qs where "ps = p # qs" by (cases ps) (auto simp: max_defs)
  then have "find_no_icomp ps m = Inl Blocked" using assms(1) by (simp add: job_available_no_icomp_def)
  then show ?thesis by (simp add: request_all_slaves_job_available_def ps_def [symmetric])
qed

lemma unused_index:
  assumes "length (jobs m) = MAXJOBS" "ijob > of_nat MAXJOBS \<or> unat ijob < MAXJOBS \<and> j_used (jobs m ! unat ijob) = 0"
  shows "job_index_correct_master m ijob = Inr False"
  using assms by (auto simp: job_index_correct_master_def max_defs word_less_nat_alt rd_def)

lemma set_in_job_locked:
  assumes "semid m = sem_free" "job_index_correct_master (m\<lparr>semid := sem_held\<rparr>) ijob = Inr False"
    "rx c = MRequest req # xs"
  shows "set_in_job f ijob c m = Inr (c\<lparr>rx := xs\<rparr>, m\<lparr>semid := sem_held\<rparr>)"
  using assms by (simp add: set_in_job_def recv_request_def recv_as_def)

text \<open>C3. A client that changes the priority or a processor limit of a job that does not exist stalls
  the master: the handler returns with the semaphore locked, and the notification of the
  slaves that follows waits for that semaphore for ever, or until the alarm of the connection
  ends the process.  Meanwhile nobody else gets the database.\<close>

theorem update_of_unused_job_blocks:
  assumes "semid m = sem_free" "length (jobs m) = MAXJOBS"
    and ijob: "ijob > of_nat MAXJOBS \<or> unat ijob < MAXJOBS \<and> j_used (jobs m ! unat ijob) = 0"
    and ty: "ty = R_R_JOBPRIUP \<or> ty = R_R_JOBLNMCS \<or> ty = R_R_JOBLNMCCS"
    and rx: "rx c = MRequest \<lparr>rq_type = ty, rq_who = CLIENT, rq_data = ijob\<rparr> # MRequest req # xs"
  shows "handle_request_master stale addr host icomp c m = Inl Blocked"
proof -
  define c1 where "c1 = c\<lparr>rx := MRequest req # xs\<rparr>"
  have r: "recv_request c = (Some \<lparr>rq_type = ty, rq_who = CLIENT, rq_data = ijob\<rparr>, c1)"
    using rx by (simp add: recv_request_def recv_as_def c1_def)
  have "job_index_correct_master (m\<lparr>semid := sem_held\<rparr>) ijob = Inr False"
    using unused_index [of "m\<lparr>semid := sem_held\<rparr>"] assms(2) ijob by simp
  then have h: "set_in_job f ijob c1 m = Inr (c1\<lparr>rx := xs\<rparr>, m\<lparr>semid := sem_held\<rparr>)" for f
    using assms(1) by (intro set_in_job_locked) (simp_all add: c1_def)
  have n: "request_all_slaves_job_available stale (m\<lparr>semid := sem_held\<rparr>) = Inl Blocked"
    using assms(2) by (intro locked_notify_blocks) simp_all
  have "serve stale addr host icomp ty ijob c1 m = Inl Blocked"
    using ty by (auto simp: serve_def handle_r_r_jobpriup_def handle_r_r_joblnmcs_def
        handle_r_r_joblnmccs_def h n then_notify_def)
  then show ?thesis by (simp add: handle_request_master_def r touch_computer_def)
qed

text \<open>C4. Blocking a host by name never works: once the name has arrived, the handler locks the
  semaphore and then calls \<open>computer_index_name\<close>, which locks it again.\<close>

theorem block_by_name_blocks:
  assumes "semid m = sem_free"
    and "rx c = MRequest \<lparr>rq_type = R_R_JOBBLKHOSTNAME, rq_who = CLIENT, rq_data = ijob\<rparr> # MString name # xs"
  shows "handle_request_master stale addr host icomp c m = Inl Blocked"
  using assms
  by (simp add: handle_request_master_def recv_request_def recv_as_def touch_computer_def serve_def
      handle_r_r_jobblkhostname_def recv_string_def computer_index_name_def)

section \<open>Witnesses\<close>

definition quiet_client :: "msg list \<Rightarrow> conn" where
  "quiet_client xs = \<lparr>rx = xs, tx = [], tx_left = 10\<rparr>"

theorem request_leaves_semaphore_free_witness:
  "\<exists>m'. handle_request_master (\<lambda>_. 0) [] None (-1)
     (quiet_client [MRequest \<lparr>rq_type = R_R_JOBLMS, rq_who = CLIENT, rq_data = 7\<rparr>,
                    MRequest \<lparr>rq_type = R_R_JOBLMS, rq_who = CLIENT, rq_data = 512\<rparr>]) example_master =
       Inr (quiet_client [], m') \<and> semid m' = sem_free"
proof -
  have sem: "semid example_master = sem_free" by (simp add: example_master_def)
  have "job_index_correct_master (example_master\<lparr>semid := sem_held\<rparr>) 7 = Inr False"
    using unused_index [of "example_master\<lparr>semid := sem_held\<rparr>" 7] example_world_ok
    by (simp add: world_ok_def shape_ok_def) (simp add: example_master_def zero_job_def max_defs)
  then have "handle_request_master (\<lambda>_. 0) [] None (-1)
     (quiet_client [MRequest \<lparr>rq_type = R_R_JOBLMS, rq_who = CLIENT, rq_data = 7\<rparr>,
                    MRequest \<lparr>rq_type = R_R_JOBLMS, rq_who = CLIENT, rq_data = 512\<rparr>]) example_master =
     Inr (quiet_client [], process_exit (example_master\<lparr>semid := sem_held\<rparr>))"
    using sem by (simp add: handle_request_master_def recv_request_def recv_as_def touch_computer_def serve_def
        handle_r_r_joblms_def set_in_job_def quiet_client_def)
  from this request_leaves_semaphore_free [OF sem this] show ?thesis by blast
qed

theorem update_of_unused_job_blocks_witness:
  "handle_request_master (\<lambda>_. 0) [] None (-1)
     (quiet_client [MRequest \<lparr>rq_type = R_R_JOBPRIUP, rq_who = CLIENT, rq_data = 7\<rparr>,
                    MRequest \<lparr>rq_type = R_R_JOBPRIUP, rq_who = CLIENT, rq_data = 900\<rparr>]) example_master = Inl Blocked"
  using example_world_ok
  by (intro update_of_unused_job_blocks [where ijob = 7])
    (auto simp: quiet_client_def world_ok_def shape_ok_def, auto simp: example_master_def zero_job_def max_defs)

theorem block_by_name_blocks_witness:
  "handle_request_master (\<lambda>_. 0) [] None (-1)
     (quiet_client [MRequest \<lparr>rq_type = R_R_JOBBLKHOSTNAME, rq_who = CLIENT, rq_data = 0\<rparr>, MString ''node1''])
     example_master = Inl Blocked"
  by (rule block_by_name_blocks) (simp_all add: quiet_client_def example_master_def)

end
