(* ===== verification/Master.thy ===== *)
theory Master
  imports Requested Locking
begin

text \<open>
  The processes of \<open>master.c\<close>: the start-up of the database, the process forked for each
  connection, the consistency checks that run beside it and the clean-up at the end.  The
  relation \<open>master_step\<close> puts them together, one whole process after the other, and the
  invariant of the database holds in every state they reach.
\<close>

section \<open>Start-up\<close>

definition zero_computer :: computer where
  "zero_computer =
     \<lparr>hwinfo = \<lparr>hw_name = [], hw_address = [], hw_id = 0, hw_arch = 0, hw_os = 0, hw_proctype = 0,
        hw_procspeed = 0, hw_ncpus = 0, hw_speedindex = 0, hw_memory = 0, hw_nnbits = 0\<rparr>,
      c_status = \<lparr>loadavg = [0, 0, 0], ntasks = 0, nrunning = 0,
        tasks = replicate MAXTASKS
          \<lparr>t_used = 0, t_jobname = [], t_ijob = 0, t_icomp = 0, t_itask = 0, t_jobcmd = [], t_owner = [],
           t_frame = 0, t_frame_start = 0, t_frame_end = 0, t_frame_pad = 0, t_frame_step = 0,
           t_block_size = 0, t_pid = 0, t_exitstatus = 0, t_status = 0, t_start_loading_time = 0\<rparr>\<rparr>,
      c_limits = \<lparr>cl_enabled = 0, cl_nmaxcpus = 0, cl_maxfreeloadcpu = 0,
        cl_autoenable = \<lparr>ae_last = 0, ae_h = 0, ae_m = 0, ae_flags = 0\<rparr>, npools = 0, poolshmid = 0,
        poolsemid = 0, npoolsattached = 0, pool_ptr = None, local_pool = None\<rparr>,
      lastconn = 0, c_used = 0\<rparr>"

text \<open>
  What \<open>shmget\<close> hands to a new master: memory full of zeroes, and a semaphore that
  \<open>get_semaphores\<close> has set to one.  The arguments are the answers of the environment.
\<close>

definition blank_master :: "u64 \<Rightarrow> cstring \<Rightarrow> u8 option \<Rightarrow> u16 option \<Rightarrow> (int \<Rightarrow> nat \<Rightarrow> bool) \<Rightarrow> (int \<Rightarrow> bool) \<Rightarrow> master" where
  "blank_master now user enabled max_cpus g a =
     \<lparr>computers = replicate MAXCOMPUTERS zero_computer, jobs = replicate MAXJOBS zero_job,
      lb = \<lparr>lb_pol = replicate MAXJOBS \<lparr>tp_index = 0, tp_pri = 0, tp_submit_time = 0\<rparr>, next_i = 0, last_priority = 0\<rparr>,
      semid = sem_free,
      frame_shm = shm_empty\<lparr>grant := g, attachable := a\<rparr>, host_shm = shm_empty\<lparr>grant := g, attachable := a\<rparr>,
      pool_shm = shm_empty\<lparr>grant := g, attachable := a\<rparr>, env_shm = shm_empty\<lparr>grant := g, attachable := a\<rparr>,
      clock = now, env_user = user, env_enabled = enabled, env_max_cpus = max_cpus,
      kill_requests = [], notified = [], mailed = []\<rparr>"

definition init_job :: "nat \<Rightarrow> master \<Rightarrow> master" where
  "init_job i m = upd_job (of_nat i) (\<lambda>j. job_init (env_user m) (j\<lparr>j_envvars := envvars_init\<rparr>)) m"

definition init_computers :: "master \<Rightarrow> master" where
  "init_computers m = fold init_computer [0..<MAXCOMPUTERS] m"

definition database_init :: "master \<Rightarrow> master" where
  "database_init m =
     (let m = init_computers (fold init_job [0..<MAXJOBS] m)
      in m\<lparr>lb := (lb m)\<lparr>last_priority := 0, next_i := 0\<rparr>\<rparr>)"

section \<open>Consistency checks\<close>

fun drop_silent :: "nat list \<Rightarrow> master \<Rightarrow> fault + master" where
  "drop_silent [] m = Inr m"
| "drop_silent (i # is) m =
     andThen (lock_db m) (\<lambda>m.
     andThen (rd (computers m) i) (\<lambda>k.
       let late = sint (clock m) - uint (lastconn k) > MAXTIMENOCONN;
           m = (if c_used k \<noteq> 0 \<and> late then computer_free i m else m)
       in drop_silent is (release_db m)))"

definition check_lastconn_times :: "master \<Rightarrow> fault + master" where
  "check_lastconn_times m = drop_silent [0..<MAXCOMPUTERS] m"

fun update_jobs :: "nat list \<Rightarrow> master \<Rightarrow> fault + master" where
  "update_jobs [] m = Inr m"
| "update_jobs (i # is) m =
     andThen (rd (jobs m) i) (\<lambda>j.
     andThen (if j_used j \<noteq> 0 then job_update_info (of_nat i) m else Inr m) (\<lambda>m. update_jobs is m))"

text \<open>One pass of the loop of \<open>master_consistency_checks\<close>.\<close>

definition master_consistency_checks :: "master \<Rightarrow> fault + master" where
  "master_consistency_checks m = andThen (check_lastconn_times m) (update_jobs [0..<MAXJOBS])"

section \<open>Connections and the end\<close>

text \<open>The process forked for a connection, from the accepted socket on.\<close>

definition handle_connection ::
    "(nat \<Rightarrow> u64) \<Rightarrow> cstring \<Rightarrow> cstring option \<Rightarrow> conn \<Rightarrow> master \<Rightarrow> handler_result" where
  "handle_connection stale addr host c m =
     andThen (computer_index_addr m addr) (\<lambda>(icomp, m). handle_request_master stale addr host icomp c m)"

text \<open>\<open>clean_out\<close> after the database is saved: no locks any more.\<close>

definition clean_out_database :: "master \<Rightarrow> master" where
  "clean_out_database m =
     fold computer_free [0..<MAXCOMPUTERS] (fold (\<lambda>i. delete_job (of_nat i)) [0..<MAXJOBS] m)"

section \<open>The invariant at start-up\<close>

lemma unat_index: "i < MAXJOBS \<Longrightarrow> unat (of_nat i :: u32) = i"
  by (simp add: unsigned_of_nat take_bit_nat_eq_self max_defs)

lemma init_job_simps [simp]:
  "computers (init_job i m) = computers m" "frame_shm (init_job i m) = frame_shm m" "semid (init_job i m) = semid m"
  "env_user (init_job i m) = env_user m" "length (jobs (init_job i m)) = length (jobs m)"
  by (simp_all add: init_job_def)

lemma init_jobs_same [simp]:
  "computers (fold init_job xs m) = computers m" "frame_shm (fold init_job xs m) = frame_shm m"
  "semid (fold init_job xs m) = semid m" "length (jobs (fold init_job xs m)) = length (jobs m)"
  by (induction xs arbitrary: m) simp_all

lemma init_job_nth:
  "length (jobs m) = MAXJOBS \<Longrightarrow> n < MAXJOBS \<Longrightarrow>
   jobs (init_job n m) ! i = (if i = n then job_init (env_user m) ((jobs m ! n)\<lparr>j_envvars := envvars_init\<rparr>) else jobs m ! i)"
  by (simp add: init_job_def jobs_upd_nth unat_index)

lemma init_jobs_idle:
  "length (jobs m) = MAXJOBS \<Longrightarrow> n \<le> MAXJOBS \<Longrightarrow> i < n \<Longrightarrow>
   fishmid (jobs (fold init_job [0..<n] m) ! i) = -1 \<and> j_used (jobs (fold init_job [0..<n] m) ! i) = 0"
proof (induction n)
  case (Suc n)
  then show ?case by (auto simp: init_job_nth less_Suc_eq)
qed simp

lemma init_computers_inv: "db_inv R m \<Longrightarrow> db_inv R (fold init_computer xs m)"
  by (induction xs arbitrary: m) (simp_all add: init_computer_inv)

lemma init_computers_sem [simp]: "semid (fold init_computer xs m) = semid m"
  by (induction xs arbitrary: m) (simp_all add: init_computer_def)

lemma db_inv_idle:
  assumes "shape_ok m" "shm_ok (frame_shm m)"
    and "\<And>i. i < MAXJOBS \<Longrightarrow> fishmid (jobs m ! i) = -1 \<and> j_used (jobs m ! i) = 0"
  shows "db_inv {} m"
  using assms by (simp add: db_inv_def has_frames_def)

lemma blank_shape: "shape_ok (blank_master now user enabled max_cpus g a)"
  by (simp add: shape_ok_def blank_master_def zero_computer_def)

lemma database_init_inv: "db_inv {} (database_init (blank_master now user enabled max_cpus g a))"
proof -
  let ?b = "blank_master now user enabled max_cpus g a"
  let ?j = "fold init_job [0..<MAXJOBS] ?b"
  have len: "length (jobs ?b) = MAXJOBS" by (simp add: blank_master_def)
  have "shape_ok ?j" using blank_shape [of now user enabled max_cpus g a] by (simp add: shape_ok_def)
  moreover have "shm_ok (frame_shm ?j)" by (simp add: blank_master_def shm_ok_def shm_empty_def)
  ultimately have "db_inv {} ?j"
    by (rule db_inv_idle) (use init_jobs_idle [OF len order_refl] in blast)
  then have "db_inv {} (init_computers ?j)" unfolding init_computers_def by (rule init_computers_inv)
  then show ?thesis unfolding database_init_def Let_def by (rule db_inv_cong [THEN iffD2, rotated 3]) simp_all
qed

section \<open>The invariant of the running master\<close>

definition database_ok :: "master \<Rightarrow> bool" where
  "database_ok m \<longleftrightarrow> db_inv {} m \<and> semid m = sem_free"

lemma lock_free_rule: "semid m = sem_free \<Longrightarrow> P (m\<lparr>semid := sem_held\<rparr>) \<Longrightarrow> yields (lock_db m) P"
  by simp

lemma job_check_frame_status_ok [yields_rules]:
  assumes ok: "database_ok m" and P: "\<And>b m'. database_ok m' \<Longrightarrow> P (b, m')"
  shows "yields (job_check_frame_status ijob i fi m) P"
  unfolding job_check_frame_status_def Let_def
  by (rule yields_andThen, rule lock_free_rule, use ok in \<open>simp add: database_ok_def\<close>, intro yields_rules)
    (use ok in \<open>auto intro!: P keep_intros simp: keep_simps database_ok_def\<close>)

lemma job_check_frames_ok [yields_rules]:
  "database_ok m \<Longrightarrow> (\<And>b m'. database_ok m' \<Longrightarrow> P (b, m')) \<Longrightarrow> yields (job_check_frames ijob fi is m) P"
  by (induction "is" arbitrary: m) (auto intro!: yields_rules)

lemma job_delete_semid: "semid (delete_job i m) = semid m"
  by (auto simp: delete_job_def job_delete_def split: prod.splits)

lemma new_status_simps [simp]: "semid (job_new_status ijob m) = semid m"
  by (auto simp: job_new_status_def job_delete_semid Let_def)

lemma job_new_status_inv: "db_inv R m \<Longrightarrow> unat ijob < length (jobs m) \<Longrightarrow> db_inv R (job_new_status ijob m)"
  unfolding job_new_status_def Let_def
  by (auto intro!: keep_intros simp: keep_simps)

lemma new_counts_same: "same_frames j (new_counts fi now j)"
  by (simp add: new_counts_def Let_def same_frames_def job_nframes_def)

lemma job_update_info_ok [yields_rules]:
  assumes ok: "database_ok m" and P: "\<And>m'. database_ok m' \<Longrightarrow> P m'"
  shows "yields (job_update_info ijob m) P"
proof -
  have fin: "database_ok (release_db (job_new_status ijob (upd_job ijob (new_counts fi now) (m\<lparr>semid := sem_held\<rparr>))))"
    if "database_ok m" "unat ijob < length (jobs m)" for m fi now
    using that by (auto simp: database_ok_def intro!: job_new_status_inv db_inv_same_frames new_counts_same)
  have free: "database_ok (release_db (m\<lparr>semid := sem_held\<rparr>))" if "database_ok m" for m
    using that by (simp add: database_ok_def)
  have sem: "semid m = sem_free" if "database_ok m" for m using that by (simp add: database_ok_def)
  show ?thesis
    unfolding job_update_info_def Let_def
    by (intro lock_free_rule yields_rules) (use ok free fin sem in \<open>auto intro!: P simp: job_nframes_def\<close>)
qed

lemma computer_free_semid: "semid (computer_free i m) = semid m"
  by (auto simp: computer_free_def init_computer_def split: prod.splits)

lemma drop_silent_ok [yields_rules]:
  "database_ok m \<Longrightarrow> (\<And>m'. database_ok m' \<Longrightarrow> P m') \<Longrightarrow> yields (drop_silent is m) P"
proof (induction "is" arbitrary: m)
  case (Cons i "is")
  have "database_ok (release_db (m\<lparr>semid := sem_held\<rparr>))" "semid m = sem_free"
    "database_ok (release_db (computer_free i (m\<lparr>semid := sem_held\<rparr>)))"
    using Cons.prems(1) by (auto simp: database_ok_def computer_free_semid intro: computer_free_inv)
  then show ?case
    by (auto simp: Let_def intro!: lock_free_rule yields_rules Cons.IH Cons.prems(2))
qed simp

lemma computer_index_addr_ok [yields_rules]:
  assumes "database_ok m" "\<And>i m'. database_ok m' \<Longrightarrow> P (i, m')"
  shows "yields (computer_index_addr m addr) P"
  unfolding computer_index_addr_def
  by (intro lock_free_rule yields_rules) (use assms in \<open>auto simp: database_ok_def intro: yields_any\<close>)

lemma handle_request_master_ok:
  assumes "database_ok m" "handle_request_master stale addr host icomp c m = Inr (c', m')"
  shows "database_ok m'"
proof -
  have "db_inv {} m" and sum: "sem_sum m = 1" using assms(1) by (simp_all add: database_ok_def sem_sum_def sem_free_def)
  then have "db_inv {} m'" using yieldsD [OF handle_request_master_inv assms(2)] by simp
  moreover have "semid m' = sem_free"
    using yieldsD [OF handle_request_master_frees [OF sum] assms(2)] by simp
  ultimately show ?thesis by (simp add: database_ok_def)
qed

lemma handle_connection_ok:
  assumes "database_ok m" "handle_connection stale addr host c m = Inr (c', m')"
  shows "database_ok m'"
proof -
  have "yields (handle_connection stale addr host c m) (\<lambda>(c', m'). database_ok m')"
    unfolding handle_connection_def using assms(1)
    by (intro yields_rules) (auto intro!: yieldsI dest: handle_request_master_ok)
  from yieldsD [OF this assms(2)] show ?thesis by simp
qed

section \<open>The master as a state machine\<close>

text \<open>
  \<open>Kernel\<close> lets the answers of \<open>shmget\<close> and \<open>shmat\<close> change at any time, and \<open>Time\<close> the clock.
\<close>

definition set_answers :: "(int \<Rightarrow> nat \<Rightarrow> bool) \<Rightarrow> (int \<Rightarrow> bool) \<Rightarrow> 'a shm \<Rightarrow> 'a shm" where
  "set_answers g a s = s\<lparr>grant := g, attachable := a\<rparr>"

inductive master_step :: "master \<Rightarrow> master \<Rightarrow> bool" where
  Connection: "handle_connection stale addr host c m = Inr (c', m') \<Longrightarrow> master_step m m'"
| Silent: "drop_silent [i] m = Inr m' \<Longrightarrow> master_step m m'"
| Update: "i < MAXJOBS \<Longrightarrow> j_used (jobs m ! i) \<noteq> 0 \<Longrightarrow> job_update_info (of_nat i) m = Inr m' \<Longrightarrow> master_step m m'"
| Time: "master_step m (m\<lparr>clock := now\<rparr>)"
| Kernel: "master_step m (m\<lparr>frame_shm := set_answers g a (frame_shm m), host_shm := set_answers g1 a1 (host_shm m),
    pool_shm := set_answers g2 a2 (pool_shm m), env_shm := set_answers g3 a3 (env_shm m)\<rparr>)"

inductive master_reachable :: "master \<Rightarrow> bool" where
  Start: "master_reachable (init_computers (database_init (blank_master now user enabled max_cpus g a)))"
| Step: "master_reachable m \<Longrightarrow> master_step m m' \<Longrightarrow> master_reachable m'"

inductive_cases master_stepE: "master_step m m'"

lemma set_answers_simps [simp]:
  "segs (set_answers g a s) = segs s" "shm_ok (set_answers g a s) = shm_ok s"
  by (simp_all add: set_answers_def shm_ok_def)

lemma master_step_ok: "master_step m m' \<Longrightarrow> database_ok m \<Longrightarrow> database_ok m'"
proof (induction rule: master_step.induct)
  case (Silent i m m')
  have "yields (drop_silent [i] m) database_ok" by (rule drop_silent_ok [OF Silent(2)])
  from yieldsD [OF this Silent(1)] show ?case .
next
  case (Update i m m')
  have "yields (job_update_info (of_nat i) m) database_ok" by (rule job_update_info_ok [OF Update(4)])
  from yieldsD [OF this Update(3)] show ?case .
next
  case (Kernel m g a g1 a1 g2 a2 g3 a3)
  then show ?case
    by (simp add: database_ok_def db_inv_def segment_of_def shape_ok_def frame_count_def has_frames_def)
next
  case (Time m now)
  then show ?case
    by (simp add: database_ok_def db_inv_def segment_of_def shape_ok_def frame_count_def has_frames_def)
qed (rule handle_connection_ok)

lemma started_ok: "database_ok (init_computers (database_init (blank_master now user enabled max_cpus g a)))"
  unfolding database_ok_def init_computers_def
  by (simp add: init_computers_inv database_init_inv)
    (simp add: database_init_def init_computers_def blank_master_def Let_def)

text \<open>C1. The invariant of the master: from a fresh start and through any connections, consistency
  checks, moves of the clock and failures of the kernel to provide segments, every job that is in
  use and has frames owns a shared segment with exactly one record per frame, no two jobs share one, the
  arrays keep their sizes and the semaphore is free whenever no process is at work.\<close>

theorem master_invariant:
  assumes "master_reachable m"
  shows "world_ok m \<and> database_ok m"
proof -
  have "database_ok m" using assms
    by (induction rule: master_reachable.induct) (auto intro: started_ok master_step_ok)
  then show ?thesis by (auto simp: database_ok_def intro: db_inv_world)
qed

theorem master_invariant_witness:
  "\<exists>m. master_reachable m \<and> clock m = 7 \<and> world_ok m \<and> database_ok m"
proof -
  let ?m = "init_computers (database_init (blank_master 0 ''drqueue'' None None (\<lambda>_ _. True) (\<lambda>_. True)))"
  have "master_reachable (?m\<lparr>clock := 7\<rparr>)"
    by (rule master_reachable.Step [OF master_reachable.Start master_step.Time])
  from this master_invariant [OF this] show ?thesis by (intro exI [of _ "?m\<lparr>clock := 7\<rparr>"]) simp
qed

text \<open>A pass of the consistency checks is a run of such steps.\<close>

lemma drop_silent_steps: "drop_silent is m = Inr m' \<Longrightarrow> master_step\<^sup>*\<^sup>* m m'"
proof (induction "is" arbitrary: m)
  case (Cons i "is")
  from Cons.prems obtain m1 where m1: "drop_silent [i] m = Inr m1" "drop_silent is m1 = Inr m'"
    by (auto simp: andThen_def Let_def split: sum.splits)
  show ?case by (rule converse_rtranclp_into_rtranclp [OF master_step.Silent [OF m1(1)] Cons.IH [OF m1(2)]])
qed simp

lemma update_jobs_steps:
  "set is \<subseteq> {..<MAXJOBS} \<Longrightarrow> update_jobs is m = Inr m' \<Longrightarrow> master_step\<^sup>*\<^sup>* m m'"
proof (induction "is" arbitrary: m)
  case (Cons i "is")
  show ?case
  proof (cases "j_used (jobs m ! i) = 0")
    case True
    with Cons.prems Cons.IH show ?thesis by (auto simp: andThen_def rd_def split: if_splits)
  next
    case False
    with Cons.prems obtain m1 where m1: "job_update_info (of_nat i) m = Inr m1" "update_jobs is m1 = Inr m'"
      by (auto simp: andThen_def rd_def split: sum.splits if_splits)
    have "master_step m m1" by (rule master_step.Update [OF _ False m1(1)]) (use Cons.prems in simp)
    then show ?thesis by (rule converse_rtranclp_into_rtranclp [OF _ Cons.IH [OF _ m1(2)]]) (use Cons.prems in simp)
  qed
qed simp

lemma master_consistency_checks_steps: "master_consistency_checks m = Inr m' \<Longrightarrow> master_step\<^sup>*\<^sup>* m m'"
  unfolding master_consistency_checks_def check_lastconn_times_def
  by (auto simp: andThen_def split: sum.splits dest!: drop_silent_steps update_jobs_steps [rotated])

section \<open>The end\<close>

lemma delete_job_effect:
  assumes "length (jobs m) = MAXJOBS" "unat i < MAXJOBS" "shm_ok (frame_shm m)"
  shows "fishmid (jobs (delete_job i m) ! k) = (if k = unat i then -1 else fishmid (jobs m ! k))"
    and "j_used (jobs (delete_job i m) ! k) = (if k = unat i then 0 else j_used (jobs m ! k))"
    and "segs (frame_shm (delete_job i m)) x = (if x = fishmid (jobs m ! unat i) then None else segs (frame_shm m) x)"
    and "shm_ok (frame_shm (delete_job i m))" "length (jobs (delete_job i m)) = MAXJOBS"
    and "computers (delete_job i m) = computers m"
proof -
  obtain j m' where d: "job_delete (jobs m ! unat i) m = (j, m')" by fastforce
  note e = job_delete_eq [OF d]
  obtain b s where r: "shmrm (fishmid (jobs m ! unat i)) (frame_shm m) = (b, s)" by fastforce
  have same: "jobs m' = jobs m" "computers m' = computers m" using e(1) by auto
  have eq: "delete_job i m = upd_job i (\<lambda>_. j) m'" by (simp add: delete_job_def d)
  show "fishmid (jobs (delete_job i m) ! k) = (if k = unat i then -1 else fishmid (jobs m ! k))"
    "j_used (jobs (delete_job i m) ! k) = (if k = unat i then 0 else j_used (jobs m ! k))"
    "length (jobs (delete_job i m)) = MAXJOBS" "computers (delete_job i m) = computers m"
    using assms e same by (auto simp: eq jobs_upd_nth)
  show "segs (frame_shm (delete_job i m)) x = (if x = fishmid (jobs m ! unat i) then None else segs (frame_shm m) x)"
    "shm_ok (frame_shm (delete_job i m))"
    using e(1) assms(3) shm.remove_look [OF assms(3) r] shm.valid_remove [OF assms(3) r] by (auto simp: eq r)
qed

lemma delete_jobs_effect:
  assumes "length (jobs m) = MAXJOBS" "shm_ok (frame_shm m)"
  defines "d n \<equiv> fold (\<lambda>i. delete_job (of_nat i)) [0..<n] m"
  shows "n \<le> MAXJOBS \<Longrightarrow> length (jobs (d n)) = MAXJOBS \<and> shm_ok (frame_shm (d n)) \<and> computers (d n) = computers m \<and>
     (\<forall>k. fishmid (jobs (d n) ! k) = (if k < n then -1 else fishmid (jobs m ! k))) \<and>
     (\<forall>k. j_used (jobs (d n) ! k) = (if k < n then 0 else j_used (jobs m ! k))) \<and>
     (\<forall>x. segs (frame_shm (d n)) x = (if x \<in> (\<lambda>k. fishmid (jobs m ! k)) ` {..<n} then None else segs (frame_shm m) x))"
proof (induction n)
  case (Suc n)
  then have n: "unat (of_nat n :: u32) = n" by (simp add: unat_index)
  note IH = Suc.IH [OF Suc_leD [OF Suc.prems]]
  have "d (Suc n) = delete_job (of_nat n) (d n)" by (simp add: d_def)
  with IH Suc.prems delete_job_effect [of "d n" "of_nat n"] show ?case
    by (auto simp: n lessThan_Suc less_Suc_eq)
qed (simp add: d_def assms)

lemma computer_free_same [simp]:
  "jobs (computer_free i m) = jobs m" "frame_shm (computer_free i m) = frame_shm m"
  "length (computers (computer_free i m)) = length (computers m)"
  by (auto simp: computer_free_def init_computer_def split: prod.splits)

lemma computer_free_used:
  "i < length (computers m) \<Longrightarrow> c_used (computers (computer_free i m) ! k) = (if k = i then 0 else c_used (computers m ! k))"
  by (auto simp: computer_free_def init_computer_def upd_computer_def computer_init_def nth_list_update split: prod.splits)

lemma free_computers_effect:
  "length (computers m) = MAXCOMPUTERS \<Longrightarrow> n \<le> MAXCOMPUTERS \<Longrightarrow>
   jobs (fold computer_free [0..<n] m) = jobs m \<and> frame_shm (fold computer_free [0..<n] m) = frame_shm m \<and>
   length (computers (fold computer_free [0..<n] m)) = MAXCOMPUTERS \<and>
   (\<forall>k < n. c_used (computers (fold computer_free [0..<n] m) ! k) = 0)"
  by (induction n) (auto simp: computer_free_used less_Suc_eq)

text \<open>When the master ends it leaves no job and no computer in use, and every frame segment
  that a job owned is gone from the kernel; segments that no job names are left behind.\<close>

theorem clean_out_removes_segments:
  assumes "database_ok m"
  shows "(\<forall>i < MAXJOBS. j_used (jobs (clean_out_database m) ! i) = 0) \<and>
    (\<forall>i < MAXCOMPUTERS. c_used (computers (clean_out_database m) ! i) = 0) \<and>
    (\<forall>k. segs (frame_shm (clean_out_database m)) k =
       (if \<exists>i < MAXJOBS. fishmid (jobs m ! i) = k then None else segs (frame_shm m) k))"
proof -
  have "db_inv {} m" using assms by (simp add: database_ok_def)
  note inv = db_invD [OF this]
  define d where "d = fold (\<lambda>i. delete_job (of_nat i)) [0..<MAXJOBS] m"
  have d: "(\<forall>k. j_used (jobs d ! k) = (if k < MAXJOBS then 0 else j_used (jobs m ! k)))"
    "(\<forall>x. segs (frame_shm d) x = (if x \<in> (\<lambda>k. fishmid (jobs m ! k)) ` {..<MAXJOBS} then None else segs (frame_shm m) x))"
    "computers d = computers m"
    using delete_jobs_effect [OF inv(1,3) order_refl] by (simp_all add: d_def)
  have "length (computers d) = MAXCOMPUTERS" using inv(2) d(3) by simp
  note c = free_computers_effect [OF this order_refl]
  have m: "clean_out_database m = fold computer_free [0..<MAXCOMPUTERS] d" by (simp add: clean_out_database_def d_def)
  have img: "x \<in> (\<lambda>k. fishmid (jobs m ! k)) ` {..<MAXJOBS} \<longleftrightarrow> (\<exists>i < MAXJOBS. fishmid (jobs m ! i) = x)" for x by auto
  show ?thesis unfolding m using c d(1,2) by (simp add: img)
qed

lemma example_fishmid: "i < MAXJOBS \<Longrightarrow> fishmid (jobs example_master ! i) = (if i = 0 then 0 else -1)"
  by (cases i) (simp_all add: example_master_def render_job_def max_defs)

lemma example_database_ok: "database_ok example_master"
proof -
  have f: "segs (frame_shm example_master) 0 = Some [zero_frame, zero_frame, zero_frame]"
    by (simp add: example_master_def)
  have c: "frame_count example_master 0 = 3" by (simp add: frame_count_def example_master_def render_job_nframes)
  have w: "shape_ok example_master" "shm_ok (frame_shm example_master)" "semid example_master = sem_free"
    using example_world_ok by (simp_all add: world_ok_def frames_ok_def)
  show ?thesis
    unfolding database_ok_def db_inv_def segment_of_def
    using w f c example_fishmid example_has_frames by (auto split: if_splits)
qed

theorem clean_out_removes_segments_witness:
  "segs (frame_shm example_master) 0 \<noteq> None \<and> segs (frame_shm (clean_out_database example_master)) 0 = None"
proof -
  have "\<exists>i < MAXJOBS. fishmid (jobs example_master ! i) = 0" by (rule exI [of _ 0]) (simp add: example_fishmid max_defs)
  then show ?thesis
    using clean_out_removes_segments [OF example_database_ok] by (simp add: example_master_def)
qed

end
