(* ===== verification/Fairness.thy ===== *)
theory Fairness
  imports Scheduler
begin

text \<open>
  What the scheduler's search guarantees: whatever its starting point and whichever of its
  loops runs, it finds a job exactly when there is one, and the frame it returns is one that
  \<open>job_available\<close> offers.
\<close>

text \<open>Asking in vain only touches the transient pool pointer of the computer that asks.\<close>

definition probed :: "u32 \<Rightarrow> master \<Rightarrow> master \<Rightarrow> bool" where
  "probed icomp m m' \<longleftrightarrow> (\<exists>cl. m' = set_limits icomp cl m \<and>
     npools cl = npools (c_limits (computers m ! unat icomp)) \<and>
     poolshmid cl = poolshmid (c_limits (computers m ! unat icomp)))"

definition askable :: "master \<Rightarrow> u32 \<Rightarrow> bool" where
  "askable m icomp \<longleftrightarrow> (\<forall>k < MAXJOBS. lookup_ok m (of_nat k) icomp)"

lemma set_limits_limits:
  "c_limits (computers (set_limits icomp cl m) ! unat icomp) =
     (if unat icomp < length (computers m) then cl else c_limits (computers m ! unat icomp))"
  by (cases "unat icomp < length (computers m)")
    (simp_all add: set_limits_def upd_computer_def list_update_beyond)

lemma set_limits_twice: "set_limits icomp cl (set_limits icomp cl' m) = set_limits icomp cl m"
  by (cases "unat icomp < length (computers m)")
    (simp_all add: set_limits_def upd_computer_def list_update_beyond)

lemma probed_refl: "probed icomp m m"
  unfolding probed_def by (rule exI [of _ "c_limits (computers m ! unat icomp)"]) (simp add: set_limits_id)

lemma probed_trans:
  assumes "probed icomp m1 m2" "probed icomp m2 m3" "unat icomp < length (computers m1)"
  shows "probed icomp m1 m3"
proof -
  obtain cl where cl: "m2 = set_limits icomp cl m1" "npools cl = npools (c_limits (computers m1 ! unat icomp))"
    "poolshmid cl = poolshmid (c_limits (computers m1 ! unat icomp))"
    using assms(1) unfolding probed_def by blast
  obtain cl' where cl': "m3 = set_limits icomp cl' m2" "npools cl' = npools (c_limits (computers m2 ! unat icomp))"
    "poolshmid cl' = poolshmid (c_limits (computers m2 ! unat icomp))"
    using assms(2) unfolding probed_def by blast
  show ?thesis unfolding probed_def
    by (rule exI [of _ cl']) (use cl cl' assms(3) in \<open>simp add: set_limits_twice set_limits_limits\<close>)
qed

lemma probed_same:
  assumes p: "probed icomp m m'" and c: "unat icomp < length (computers m)"
  shows "jobs m' = jobs m" "frame_shm m' = frame_shm m" "lb m' = lb m" "frames_of m' = frames_of m"
    "length (computers m') = length (computers m)"
    "offer m' k icomp = offer m k icomp" "lookup_ok m' k icomp = lookup_ok m k icomp"
proof -
  obtain cl where m': "m' = set_limits icomp cl m" and cl: "npools cl = npools (c_limits (computers m ! unat icomp))"
    "poolshmid cl = poolshmid (c_limits (computers m ! unat icomp))"
    using p unfolding probed_def by blast
  show j: "jobs m' = jobs m" "frame_shm m' = frame_shm m" by (simp_all add: m')
  show "lb m' = lb m" "length (computers m') = length (computers m)" by (simp_all add: m' set_limits_def)
  note fr = frames_ok_cong [OF j]
  show "frames_of m' = frames_of m" by (rule fr(2))
  have d: "computers m' ! unat icomp = (computers m ! unat icomp)\<lparr>c_limits := cl\<rparr>"
    using c by (simp add: m' set_limits_def upd_computer_def)
  have e: "host_shm m' = host_shm m" "pool_shm m' = pool_shm m" "semid m' = semid m" by (simp_all add: m')
  have "within_limits m' k icomp = within_limits m k icomp"
    by (simp add: within_limits_def j d e pools_cong(2) [OF cl] computer_nrunning_job_def Let_def)
  then show "offer m' k icomp = offer m k icomp"
    by (simp add: offer_def may_run_def first_waiting_def j fr)
  have "shape_ok m' = shape_ok m"
  proof -
    have n: "c_status (computers m' ! i) = c_status (computers m ! i)" for i
      by (cases "i = unat icomp") (use c in \<open>simp_all add: m' set_limits_def upd_computer_def\<close>)
    have "(\<forall>c \<in> set (computers x). length (tasks (c_status c)) = MAXTASKS) \<longleftrightarrow>
        (\<forall>i < length (computers x). length (tasks (c_status (computers x ! i))) = MAXTASKS)" for x
      by (auto simp: all_set_conv_all_nth)
    from this [of m] this [of m'] show ?thesis
      by (simp only: shape_ok_def j n) (simp add: m')
  qed
  then have "world_ok m' = world_ok m" by (simp add: world_ok_def fr e)
  then show "lookup_ok m' k icomp = lookup_ok m k icomp"
    by (simp add: lookup_ok_def j d e pools_cong(1) [OF cl])
qed

lemma askable_probed:
  "probed icomp m m' \<Longrightarrow> unat icomp < length (computers m) \<Longrightarrow> askable m' icomp = askable m icomp"
  by (simp add: askable_def probed_same)

lemma askableD:
  assumes "askable m icomp" "unat k < MAXJOBS"
  shows "lookup_ok m k icomp"
  using assms(1) [unfolded askable_def, rule_format, of "unat k"] assms(2) by simp

lemma askable_computer: "askable m icomp \<Longrightarrow> unat icomp < length (computers m)"
  using askableD [of m icomp 0] world_okD(2) [of m] by (simp add: lookup_ok_def max_defs)

text \<open>One question, and its answer.\<close>

lemma ask:
  assumes a: "askable m icomp" and k: "unat k < MAXJOBS"
  shows "offer m k icomp = None \<Longrightarrow> \<exists>m'. job_available k icomp m = Inr (None, m') \<and> probed icomp m m'"
    and "offer m k icomp = Some f \<Longrightarrow> \<exists>m'. job_available k icomp m = Inr (Some (of_nat f), m')"
  using job_available_eq [OF askableD [OF a k]] by (auto simp: probed_def)

definition settled :: "u32 \<Rightarrow> tpol list \<Rightarrow> master \<Rightarrow> nat \<Rightarrow> u32 \<Rightarrow> master \<Rightarrow> bool" where
  "settled icomp pol m i f m' \<longleftrightarrow>
     (\<exists>m0 k. probed icomp m m0 \<and> job_available (tp_index (pol ! i)) icomp m0 = Inr (Some f, m') \<and>
        offer m (tp_index (pol ! i)) icomp = Some k \<and> f = of_nat k)"

lemma settled_probed:
  assumes "probed icomp m m0" "settled icomp pol m0 i f m'" "unat icomp < length (computers m)"
  shows "settled icomp pol m i f m'"
  using assms probed_trans probed_same(6) [OF assms(1,3)] unfolding settled_def by metis

definition valid_pol :: "tpol list \<Rightarrow> bool" where
  "valid_pol pol \<longleftrightarrow> length pol = MAXJOBS \<and> (\<forall>p \<in> set pol. unat (tp_index p) < MAXJOBS) \<and>
     (\<forall>k < MAXJOBS. \<exists>i < MAXJOBS. unat (tp_index (pol ! i)) = k)"

lemma valid_polD: "valid_pol pol \<Longrightarrow> i < MAXJOBS \<Longrightarrow> i < length pol \<and> unat (tp_index (pol ! i)) < MAXJOBS"
  by (simp add: valid_pol_def)

text \<open>Any of the loops, started at any of the positions \<open>is\<close>.\<close>

lemma try_jobs_spec:
  assumes "askable m icomp" "valid_pol pol" "\<forall>i \<in> set ks. i < MAXJOBS"
  shows "if \<forall>i \<in> set ks. offer m (tp_index (pol ! i)) icomp = None
    then \<exists>m'. try_jobs icomp pol ks m = Inr (None, m') \<and> probed icomp m m'
    else \<exists>i f m'. try_jobs icomp pol ks m = Inr (Some (i, f), m') \<and> i < MAXJOBS \<and> settled icomp pol m i f m'"
  using assms
proof (induction ks arbitrary: m)
  case Nil
  then show ?case by (simp add: probed_refl)
next
  case (Cons i ks)
  have i: "i < MAXJOBS" using Cons.prems(3) by simp
  note p = valid_polD [OF Cons.prems(2) i]
  note c = askable_computer [OF Cons.prems(1)]
  show ?case
  proof (cases "offer m (tp_index (pol ! i)) icomp")
    case (Some f)
    obtain m' where m': "job_available (tp_index (pol ! i)) icomp m = Inr (Some (of_nat f), m')"
      using ask(2) [OF Cons.prems(1) _ Some] p by blast
    then have "settled icomp pol m i (of_nat f) m'"
      using Some probed_refl unfolding settled_def by blast
    with Some m' p i show ?thesis by auto
  next
    case None
    obtain m' where m': "job_available (tp_index (pol ! i)) icomp m = Inr (None, m')" "probed icomp m m'"
      using ask(1) [OF Cons.prems(1) _ None] p by blast
    have a: "askable m' icomp" using askable_probed [OF m'(2) c] Cons.prems(1) by simp
    have e: "try_jobs icomp pol (i # ks) m = try_jobs icomp pol ks m'" using p m'(1) by simp
    have o: "offer m' k icomp = offer m k icomp" for k by (rule probed_same(6) [OF m'(2) c])
    have ih: "if \<forall>i \<in> set ks. offer m' (tp_index (pol ! i)) icomp = None
      then \<exists>m2. try_jobs icomp pol ks m' = Inr (None, m2) \<and> probed icomp m' m2
      else \<exists>i f m2. try_jobs icomp pol ks m' = Inr (Some (i, f), m2) \<and> i < MAXJOBS \<and> settled icomp pol m' i f m2"
      by (rule Cons.IH) (use a Cons.prems in auto)
    show ?thesis
    proof (cases "\<forall>i \<in> set ks. offer m (tp_index (pol ! i)) icomp = None")
      case True
      with ih o obtain m2 where "try_jobs icomp pol ks m' = Inr (None, m2)" "probed icomp m' m2" by auto
      with True None e probed_trans [OF m'(2) _ c] show ?thesis by auto
    next
      case False
      with ih o obtain n f m2 where "try_jobs icomp pol ks m' = Inr (Some (n, f), m2)" "n < MAXJOBS"
        "settled icomp pol m' n f m2" by auto
      with False e settled_probed [OF m'(2) _ c] show ?thesis by auto
    qed
  qed
qed

text \<open>
  A search that either settles on a job or leaves everything as it was, in which case the
  final loop from the start of the list decides.
\<close>

definition honest :: "u32 \<Rightarrow> tpol list \<Rightarrow> master \<Rightarrow> fault + (nat \<times> u32) option \<times> master \<Rightarrow> bool" where
  "honest icomp pol m r \<longleftrightarrow>
     (\<exists>m'. r = Inr (None, m') \<and> probed icomp m m') \<or>
     (\<exists>i f m'. r = Inr (Some (i, f), m') \<and> i < MAXJOBS \<and> settled icomp pol m i f m')"

lemma try_jobs_honest:
  assumes "askable m icomp" "valid_pol pol" "\<forall>i \<in> set ks. i < MAXJOBS"
  shows "honest icomp pol m (try_jobs icomp pol ks m)"
  using try_jobs_spec [OF assms] unfolding honest_def by (simp split: if_splits)

lemma honest_probed:
  "probed icomp m m' \<Longrightarrow> honest icomp pol m' r \<Longrightarrow> unat icomp < length (computers m) \<Longrightarrow> honest icomp pol m r"
  unfolding honest_def using probed_trans settled_probed by blast

lemma honest_ask:
  assumes a: "askable m icomp" and v: "valid_pol pol" and i: "i < MAXJOBS"
    and rest: "\<And>m'. probed icomp m m' \<Longrightarrow> askable m' icomp \<Longrightarrow> honest icomp pol m' (g m')"
  shows "honest icomp pol m (andThen (job_available (tp_index (pol ! i)) icomp m) (\<lambda>(r, m).
    case r of Some iframe \<Rightarrow> Inr (Some (i, iframe), m) | None \<Rightarrow> g m))"
proof (cases "offer m (tp_index (pol ! i)) icomp")
  case (Some f)
  note p = valid_polD [OF v i]
  obtain m' where m': "job_available (tp_index (pol ! i)) icomp m = Inr (Some (of_nat f), m')"
    using ask(2) [OF a _ Some] p by blast
  then have "settled icomp pol m i (of_nat f) m'"
    using Some probed_refl unfolding settled_def by blast
  with m' i show ?thesis by (simp add: honest_def)
next
  case None
  note p = valid_polD [OF v i]
  note c = askable_computer [OF a]
  obtain m' where m': "job_available (tp_index (pol ! i)) icomp m = Inr (None, m')" "probed icomp m m'"
    using ask(1) [OF a _ None] p by blast
  have "askable m' icomp" using askable_probed [OF m'(2) c] a by simp
  then have "honest icomp pol m' (g m')" by (rule rest [OF m'(2)])
  with m' show ?thesis using honest_probed [OF m'(2) _ c] by simp
qed

lemma pick_changed_honest:
  assumes "askable m icomp" "valid_pol pol" "\<forall>i \<in> set ks. i < MAXJOBS"
  shows "honest icomp pol m (pick_changed icomp pol ks m)"
  using assms
proof (induction ks arbitrary: m)
  case Nil
  then show ?case by (simp add: honest_def probed_refl)
next
  case (Cons i ks)
  have i: "i < MAXJOBS" using Cons.prems(3) by simp
  have "honest icomp pol m (try_jobs icomp pol [unat (next_i (lb m))..<MAXJOBS] m)"
    by (rule try_jobs_honest [OF Cons.prems(1,2)]) simp
  moreover have "honest icomp pol m (andThen (job_available (tp_index (pol ! i)) icomp m) (\<lambda>(r, m).
    case r of Some iframe \<Rightarrow> Inr (Some (i, iframe), m) | None \<Rightarrow> pick_changed icomp pol ks m))"
    by (rule honest_ask [OF Cons.prems(1,2) i]) (use Cons in auto)
  ultimately show ?case using valid_polD [OF Cons.prems(2) i] by simp
qed

lemma pick_same_honest:
  assumes "askable m icomp" "valid_pol pol" "\<forall>i \<in> set ks. i < MAXJOBS"
  shows "honest icomp pol m (pick_same icomp pol ks m)"
  using assms
proof (induction ks arbitrary: m)
  case Nil
  then show ?case by (simp add: honest_def probed_refl)
next
  case (Cons i ks)
  have i: "i < MAXJOBS" using Cons.prems(3) by simp
  have "honest icomp pol m (try_jobs icomp pol [0..<MAXJOBS] m)"
    by (rule try_jobs_honest [OF Cons.prems(1,2)]) simp
  moreover have "honest icomp pol m (andThen (job_available (tp_index (pol ! i)) icomp m) (\<lambda>(r, m).
    case r of Some iframe \<Rightarrow> Inr (Some (i, iframe), m) | None \<Rightarrow> pick_same icomp pol ks m))"
    by (rule honest_ask [OF Cons.prems(1,2) i]) (use Cons in auto)
  ultimately show ?case using valid_polD [OF Cons.prems(2) i] by simp
qed

section \<open>The scheduler\<close>

lemma upd_lb_same [simp]:
  "jobs (upd_lb f m) = jobs m" "computers (upd_lb f m) = computers m" "frame_shm (upd_lb f m) = frame_shm m"
  "host_shm (upd_lb f m) = host_shm m" "pool_shm (upd_lb f m) = pool_shm m" "semid (upd_lb f m) = semid m"
  "lb (upd_lb f m) = f (lb m)"
  by (simp_all add: upd_lb_def)

lemma upd_lb_world [simp]:
  "frames_of (upd_lb f m) = frames_of m" "world_ok (upd_lb f m) = world_ok m"
  "offer (upd_lb f m) k icomp = offer m k icomp" "lookup_ok (upd_lb f m) k icomp = lookup_ok m k icomp"
  "askable (upd_lb f m) icomp = askable m icomp"
proof -
  have j: "jobs (upd_lb f m) = jobs m" "frame_shm (upd_lb f m) = frame_shm m" by simp_all
  note fr = frames_ok_cong [OF j]
  show "frames_of (upd_lb f m) = frames_of m" by (rule fr(2))
  show w: "world_ok (upd_lb f m) = world_ok m" by (simp add: world_ok_def shape_ok_def fr)
  show "offer (upd_lb f m) k icomp = offer m k icomp" for k
    by (simp add: offer_def may_run_def within_limits_def first_waiting_def fr)
  show l: "lookup_ok (upd_lb f m) k icomp = lookup_ok m k icomp" for k by (simp add: lookup_ok_def w)
  show "askable (upd_lb f m) icomp = askable m icomp" by (simp add: askable_def l)
qed

lemma valid_pol_build: "valid_pol (qsort priority_job_compare (build_pol m))"
proof -
  let ?q = "qsort priority_job_compare (build_pol m)"
  have l: "length ?q = MAXJOBS" by (simp add: build_pol_def)
  have u: "unat (of_nat i :: u32) = i" if "i < MAXJOBS" for i
    using that by (simp add: unat_of_nat max_defs)
  have s: "\<forall>p \<in> set ?q. unat (tp_index p) < MAXJOBS" by (auto simp: build_pol_def u)
  have "\<exists>i < MAXJOBS. unat (tp_index (?q ! i)) = k" if k: "k < MAXJOBS" for k
  proof -
    have "\<exists>p \<in> set ?q. unat (tp_index p) = k" using k u by (auto simp: build_pol_def)
    then show ?thesis using l by (metis in_set_conv_nth)
  qed
  with l s show ?thesis by (simp add: valid_pol_def)
qed

lemma settledD:
  assumes "settled icomp pol m i f m'" and a: "askable m icomp" and v: "valid_pol pol" "i < MAXJOBS"
  shows "\<exists>n. offer m (tp_index (pol ! i)) icomp = Some n \<and> f = of_nat n \<and> world_ok m' \<and>
    frames_of m' (unat (tp_index (pol ! i))) =
      (frames_of m (unat (tp_index (pol ! i))))[n := assign_frame icomp (frames_of m (unat (tp_index (pol ! i))) ! n)]"
proof -
  note c = askable_computer [OF a]
  obtain m0 n where m0: "probed icomp m m0" "job_available (tp_index (pol ! i)) icomp m0 = Inr (Some f, m')"
    "offer m (tp_index (pol ! i)) icomp = Some n" "f = of_nat n"
    using assms(1) unfolding settled_def by blast
  note s = probed_same [OF m0(1) c]
  have "lookup_ok m0 (tp_index (pol ! i)) icomp"
    using askableD [OF a] valid_polD [OF v] s(7) by simp
  from job_available_full [OF this] m0 s show ?thesis by auto
qed

lemma pick_job_spec:
  assumes a: "askable m icomp"
  shows "\<exists>r m'. pick_job icomp m = Inr (r, m') \<and> world_ok m' \<and>
    (r = None \<longleftrightarrow> (\<forall>k < MAXJOBS. offer m (of_nat k) icomp = None)) \<and>
    (case r of
       None \<Rightarrow> frames_of m' = frames_of m
     | Some (ijob, f) \<Rightarrow> unat ijob < MAXJOBS \<and> (\<exists>n. offer m ijob icomp = Some n \<and> f = of_nat n \<and>
         frames_of m' (unat ijob) = (frames_of m (unat ijob))[n := assign_frame icomp (frames_of m (unat ijob) ! n)]))"
proof -
  define pol where "pol = qsort priority_job_compare (build_pol m)"
  define same where "same = equal_pols pol (lb_pol (lb m))"
  define m1 where "m1 = (if same then m else upd_lb (\<lambda>l. l\<lparr>lb_pol := pol\<rparr>) m)"
  define first where "first = (if same then pick_same icomp pol [unat (next_i (lb m1))..<MAXJOBS] m1
     else pick_changed icomp pol [0..<MAXJOBS] m1)"
  define last :: "(nat \<times> u32) option \<Rightarrow> master \<Rightarrow> fault + (nat \<times> u32) option \<times> master"
    where "last = (\<lambda>r m. case r of Some x \<Rightarrow> Inr (r, m) | None \<Rightarrow> try_jobs icomp pol [0..<MAXJOBS] m)"
  define end' :: "(nat \<times> u32) option \<Rightarrow> master \<Rightarrow> fault + (u32 \<times> u32) option \<times> master"
    where "end' = (\<lambda>r m. case r of
       None \<Rightarrow> Inr (None, upd_lb (\<lambda>l. l\<lparr>next_i := 0\<rparr>) m)
     | Some (i, iframe) \<Rightarrow> Inr (Some (tp_index (pol ! i), iframe),
         upd_lb (\<lambda>l. l\<lparr>next_i := of_nat (i + 1), last_priority := tp_pri (pol ! i)\<rparr>) m))"
  have pj: "pick_job icomp m = andThen first (\<lambda>(r, m). andThen (last r m) (\<lambda>(r, m). end' r m))"
    by (cases same) (simp_all add: pick_job_def pol_def [symmetric] same_def [symmetric] m1_def Let_def first_def
        last_def end'_def)
  have v: "valid_pol pol" unfolding pol_def by (rule valid_pol_build)
  have a1: "askable m1 icomp" using a by (simp add: m1_def)
  have o1: "offer m1 k icomp = offer m k icomp" "frames_of m1 = frames_of m" for k by (simp_all add: m1_def)
  note c1 = askable_computer [OF a1]
  have "honest icomp pol m1 first"
    unfolding first_def
    using pick_same_honest [OF a1 v] pick_changed_honest [OF a1 v] by simp
  then have two: "honest icomp pol m1 (andThen first (\<lambda>(r, m). last r m)) \<and>
      (\<forall>m'. andThen first (\<lambda>(r, m). last r m) = Inr (None, m') \<longrightarrow>
         (\<forall>i < MAXJOBS. offer m1 (tp_index (pol ! i)) icomp = None))"
    unfolding honest_def
  proof (elim disjE exE conjE)
    fix m' assume f: "first = Inr (None, m')" and p: "probed icomp m1 m'"
    have a': "askable m' icomp" using askable_probed [OF p c1] a1 by simp
    note t = try_jobs_spec [OF a' v, of "[0..<MAXJOBS]"]
    note h = honest_probed [OF p try_jobs_honest [OF a' v] c1, of "[0..<MAXJOBS]"]
    have "\<forall>i < MAXJOBS. offer m1 (tp_index (pol ! i)) icomp = None"
      if "try_jobs icomp pol [0..<MAXJOBS] m' = Inr (None, m2)" for m2
      using t that probed_same(6) [OF p c1] by (auto split: if_splits)
    with h show "((\<exists>m'. andThen first (\<lambda>(r, m). last r m) = Inr (None, m') \<and> probed icomp m1 m') \<or>
        (\<exists>i f m'. andThen first (\<lambda>(r, m). last r m) = Inr (Some (i, f), m') \<and> i < MAXJOBS \<and> settled icomp pol m1 i f m')) \<and>
      (\<forall>m'. andThen first (\<lambda>(r, m). last r m) = Inr (None, m') \<longrightarrow>
         (\<forall>i < MAXJOBS. offer m1 (tp_index (pol ! i)) icomp = None))"
      by (simp add: f last_def honest_def)
  next
    fix i f m' assume "first = Inr (Some (i, f), m')" "i < MAXJOBS" "settled icomp pol m1 i f m'"
    then show "((\<exists>m'. andThen first (\<lambda>(r, m). last r m) = Inr (None, m') \<and> probed icomp m1 m') \<or>
        (\<exists>i f m'. andThen first (\<lambda>(r, m). last r m) = Inr (Some (i, f), m') \<and> i < MAXJOBS \<and> settled icomp pol m1 i f m')) \<and>
      (\<forall>m'. andThen first (\<lambda>(r, m). last r m) = Inr (None, m') \<longrightarrow>
         (\<forall>i < MAXJOBS. offer m1 (tp_index (pol ! i)) icomp = None))"
      by (simp add: last_def)
  qed
  have all: "(\<forall>i < MAXJOBS. offer m1 (tp_index (pol ! i)) icomp = None) \<longleftrightarrow>
      (\<forall>k < MAXJOBS. offer m (of_nat k) icomp = None)"
  proof
    assume l: "\<forall>i < MAXJOBS. offer m1 (tp_index (pol ! i)) icomp = None"
    show "\<forall>k < MAXJOBS. offer m (of_nat k) icomp = None"
    proof (intro allI impI)
      fix k :: nat assume "k < MAXJOBS"
      then obtain i where i: "i < MAXJOBS" "unat (tp_index (pol ! i)) = k"
        using v unfolding valid_pol_def by blast
      then have "of_nat k = tp_index (pol ! i)" by auto
      with l i(1) o1(1) show "offer m (of_nat k) icomp = None" by simp
    qed
  next
    assume r: "\<forall>k < MAXJOBS. offer m (of_nat k) icomp = None"
    show "\<forall>i < MAXJOBS. offer m1 (tp_index (pol ! i)) icomp = None"
    proof (intro allI impI)
      fix i assume i: "i < MAXJOBS"
      then have "unat (tp_index (pol ! i)) < MAXJOBS" using valid_polD [OF v] by blast
      with r have "offer m (of_nat (unat (tp_index (pol ! i)))) icomp = None" by blast
      then show "offer m1 (tp_index (pol ! i)) icomp = None" by (simp add: o1)
    qed
  qed
  have e: "pick_job icomp m = andThen (andThen first (\<lambda>(r, m). last r m)) (\<lambda>(r, m). end' r m)"
    unfolding pj by (simp add: andThen_assoc case_prod_unfold)
  from two show ?thesis
    unfolding honest_def
  proof (elim conjE disjE exE)
    fix m' assume n: "andThen first (\<lambda>(r, m). last r m) = Inr (None, m')" "probed icomp m1 m'"
      and none: "\<forall>m'. andThen first (\<lambda>(r, m). last r m) = Inr (None, m') \<longrightarrow>
         (\<forall>i < MAXJOBS. offer m1 (tp_index (pol ! i)) icomp = None)"
    note s = probed_same [OF n(2) c1]
    have "world_ok m'" using askableD [of m' icomp 0] askable_probed [OF n(2) c1] a1
      by (simp add: lookup_ok_def max_defs)
    then show ?thesis
      using n none all s o1 e by (auto simp: end'_def)
  next
    fix i f m' assume n: "andThen first (\<lambda>(r, m). last r m) = Inr (Some (i, f), m')" "i < MAXJOBS"
      "settled icomp pol m1 i f m'"
    obtain k where k: "offer m1 (tp_index (pol ! i)) icomp = Some k" "f = of_nat k" "world_ok m'"
      "frames_of m' (unat (tp_index (pol ! i))) =
        (frames_of m1 (unat (tp_index (pol ! i))))[k := assign_frame icomp (frames_of m1 (unat (tp_index (pol ! i))) ! k)]"
      using settledD [OF n(3) a1 v n(2)] by blast
    have "\<not> (\<forall>k < MAXJOBS. offer m (of_nat k) icomp = None)"
      using all k(1) n(2) by auto
    moreover have "unat (tp_index (pol ! i)) < MAXJOBS" using valid_polD [OF v n(2)] by blast
    ultimately show ?thesis using n k o1 e by (auto simp: end'_def)
  qed
qed

text \<open>C5. The scheduler finds work exactly when there is some: for a computer that asks, the
  search of \<open>handle_r_r_availjob\<close> comes back empty if and only if no job at all has a frame for
  it, wherever the round-robin position stood and whether or not the list of jobs changed
  since.  The job and frame it returns are one such offer, now assigned to the computer.\<close>

theorem scheduler_finds_job_iff_any:
  assumes "askable m icomp"
  shows "\<exists>r m'. pick_job icomp m = Inr (r, m') \<and> world_ok m' \<and>
    (r = None \<longleftrightarrow> (\<forall>k < MAXJOBS. offer m (of_nat k) icomp = None)) \<and>
    (case r of
       None \<Rightarrow> frames_of m' = frames_of m
     | Some (ijob, f) \<Rightarrow> unat ijob < MAXJOBS \<and> (\<exists>n. offer m ijob icomp = Some n \<and> f = of_nat n \<and>
         frames_of m' (unat ijob) = (frames_of m (unat ijob))[n := assign_frame icomp (frames_of m (unat ijob) ! n)]))"
  by (rule pick_job_spec [OF assms])

lemma example_askable: "askable example_master 0"
  unfolding askable_def
proof (intro allI impI)
  fix k :: nat assume k: "k < MAXJOBS"
  show "lookup_ok example_master (of_nat k) 0"
  proof (cases k)
    case 0
    then show ?thesis using example_lookup_ok by simp
  next
    case (Suc n)
    have u: "unat (of_nat k :: u32) = k" using k by (simp add: max_defs unsigned_of_nat take_bit_nat_eq_self)
    have j: "jobs example_master ! k = zero_job\<lparr>fishmid := -1, bhshmid := -1, j_envvars := envvars_init\<rparr>"
      using Suc k by (simp add: example_master_def max_defs)
    have "pools_ok (c_limits (computers example_master ! 0), pool_shm example_master)"
      using example_lookup_ok by (simp add: lookup_ok_def)
    moreover have "attachable (frame_shm example_master) x" for x by (simp add: example_master_def shm_empty_def)
    moreover have "hosts_ok (zero_job\<lparr>fishmid := -1, bhshmid := -1, j_envvars := envvars_init\<rparr>, host_shm example_master)"
      by (simp add: example_master_defs hosts_ok_def names_ok_def shm_ok_def)
    ultimately show ?thesis
      using k example_world_ok by (simp add: lookup_ok_def u j max_defs zero_job_def)
  qed
qed

theorem scheduler_finds_job_iff_any_witness:
  "\<exists>m' ijob f n. pick_job 0 example_master = Inr (Some (ijob, f), m') \<and> unat ijob < MAXJOBS \<and>
     offer example_master ijob 0 = Some n \<and> f = of_nat n"
proof -
  have "offer example_master (of_nat 0) 0 \<noteq> None" using example_offer by simp
  then have "\<not> (\<forall>k < MAXJOBS. offer example_master (of_nat k) 0 = None)" by (metis zero_less_numeral MAXJOBS_def)
  with scheduler_finds_job_iff_any [OF example_askable] show ?thesis
    by (auto split: option.splits)
qed

end
