(* ===== verification/Progress.thy ===== *)
theory Progress
  imports World
begin

text \<open>
  The periodic update of a job, \<open>job_update_info\<close>: which frames it takes back from computers
  that no longer run them, and that the counters and the status it stores are those of the
  frames.
\<close>

section \<open>Counters\<close>

lemma count_le: "count_status st fi \<le> length fi"
  by (simp add: count_status_def count_if_le)

lemma counts_partition:
  "\<forall>f \<in> set fi. fi_status f \<in> {FS_WAITING, FS_ASSIGNED, FS_ERROR, FS_FINISHED} \<Longrightarrow>
   count_status FS_ASSIGNED fi + count_status FS_WAITING fi + count_status FS_FINISHED fi
     + count_status FS_ERROR fi = length fi"
  by (induction fi) (auto simp: count_status_def)

lemma unat_count16:
  "length fi < 65536 \<Longrightarrow> unat (of_nat (count_status st fi) :: u16) = count_status st fi"
  using count_le [of st fi] by (simp add: unat_of_nat)

lemma unat_count32:
  "length fi < 65536 \<Longrightarrow> unat (of_nat (count_status st fi) :: u32) = count_status st fi"
  using count_le [of st fi] by (simp add: unat_of_nat)

lemma new_counts_fields [simp]:
  "j_nprocs (new_counts fi now j) = of_nat (count_status FS_ASSIGNED fi)"
  "fleft (new_counts fi now j) = of_nat (count_status FS_WAITING fi)"
  "fdone (new_counts fi now j) = of_nat (count_status FS_FINISHED fi)"
  "ffailed (new_counts fi now j) = of_nat (count_status FS_ERROR fi)"
  "j_used (new_counts fi now j) = j_used j" "j_status (new_counts fi now j) = j_status j"
  "j_flags (new_counts fi now j) = j_flags j" "fishmid (new_counts fi now j) = fishmid j"
  "frame_start (new_counts fi now j) = frame_start j" "frame_end (new_counts fi now j) = frame_end j"
  "frame_step (new_counts fi now j) = frame_step j" "block_size (new_counts fi now j) = block_size j"
  by (simp_all add: new_counts_def Let_def)

section \<open>Taking frames back\<close>

definition requeue :: "frame_info \<Rightarrow> frame_info" where
  "requeue f = f\<lparr>fi_status := FS_WAITING, fi_start_time := 0, fi_requeued := fi_requeued f + 1\<rparr>"

text \<open>The indices of an assigned frame are inside the arrays they index.\<close>

definition slot_ok :: "frame_info \<Rightarrow> bool" where
  "slot_ok f \<longleftrightarrow> fi_status f = FS_ASSIGNED \<longrightarrow>
     unat (ucast (fi_icomp f) :: u16) \<noteq> MAXCOMPUTERS \<and> (fi_itask f = -1 \<or> unat (fi_itask f) < MAXTASKS)"

text \<open>The frame is assigned, but the task it names does not run it any more.\<close>

definition lost :: "master \<Rightarrow> u32 \<Rightarrow> frame_info \<Rightarrow> bool" where
  "lost m ijob f \<longleftrightarrow>
     fi_status f = FS_ASSIGNED \<and>
     (let i = unat (ucast (fi_icomp f) :: u16)
      in \<not> i < MAXCOMPUTERS \<or> c_used (computers m ! i) = 0 \<or>
         fi_itask f \<noteq> -1 \<and>
           (let t = tasks (c_status (computers m ! i)) ! unat (fi_itask f)
            in t_used t = 0 \<or> t_status t \<noteq> TASKSTATUS_RUNNING \<and> t_status t \<noteq> TASKSTATUS_LOADING \<or>
               t_ijob t \<noteq> ijob \<or> t_jobname t \<noteq> j_name (jobs m ! unat ijob)))"

lemma computer_index_cases:
  assumes "length (computers m) = MAXCOMPUTERS" "unat (i :: u16) \<noteq> MAXCOMPUTERS"
  shows "computer_index_correct_master m (ucast i) =
    Inr (unat i < MAXCOMPUTERS \<and> c_used (computers m ! unat i) \<noteq> 0)"
  using assms
  by (cases "unat i < MAXCOMPUTERS")
    (auto simp: computer_index_correct_master_def word_less_nat_alt max_defs)

lemma frame_runs_eq:
  assumes s: "shape_ok m" and i: "unat ijob < MAXJOBS" "j_used (jobs m ! unat ijob) \<noteq> 0" and f: "slot_ok f"
  shows "frame_runs ijob (jobs m ! unat ijob) f m = Inr (\<not> lost m ijob f)"
proof (cases "fi_status f = FS_ASSIGNED")
  case False
  then show ?thesis by (simp add: frame_runs_def lost_def)
next
  case True
  define ic where "ic = (ucast (fi_icomp f) :: u16)"
  have len: "length (jobs m) = MAXJOBS" "length (computers m) = MAXCOMPUTERS"
    using s by (simp_all add: shape_ok_def)
  have ok: "unat ic \<noteq> MAXCOMPUTERS" "fi_itask f = -1 \<or> unat (fi_itask f) < MAXTASKS"
    using f True by (simp_all add: slot_ok_def ic_def)
  note c = computer_index_cases [OF len(2) ok(1)]
  show ?thesis
  proof (cases "unat ic < MAXCOMPUTERS \<and> c_used (computers m ! unat ic) \<noteq> 0")
    case False
    then show ?thesis
      using True c by (auto simp: frame_runs_def lost_def Let_def ic_def [symmetric])
  next
    case in_use: True
    then have "length (tasks (c_status (computers m ! unat ic))) = MAXTASKS"
      using s len by (simp add: shape_ok_def)
    then show ?thesis
      using True c in_use ok(2) len index_correct [OF len(1) i(1)] i(2)
      by (auto simp: frame_runs_def lost_def Let_def ic_def [symmetric])
  qed
qed

lemma index_number_correct:
  assumes "frame_start j \<le> frame_end j" "i < job_nframes j"
  shows "job_frame_number_correct j (job_frame_index_to_number j i) = Inr True"
proof -
  let ?n = "job_frame_index_to_number j i"
  have "job_nframes j \<noteq> 0" using assms(2) by auto
  note w = nframes_no_wrap [OF this]
  note u = index_to_number_unat [OF assms]
  have "frame_start j \<le> ?n" "?n \<le> frame_end j"
    using u assms(1) by (simp_all add: word_le_nat_alt span_eq)
  then show ?thesis using u(1) w(1) by (simp add: number_correct_iff)
qed

lemma frame_count_word: "i < frame_count m k \<Longrightarrow> unat (of_nat i :: u32) = i"
  "i < frame_count m k \<Longrightarrow> (of_nat i :: u32) < job_nframes (jobs m ! k)"
proof -
  assume "i < frame_count m k"
  then have i: "i < unat (job_nframes (jobs m ! k))" by (simp add: frame_count_def)
  then have "i < 2 ^ 32" by (rule less_trans) simp
  then show u: "unat (of_nat i :: u32) = i" by (simp add: unat_of_nat)
  show "(of_nat i :: u32) < job_nframes (jobs m ! k)" using i u by (simp add: word_less_nat_alt)
qed

lemma check_frame_status_eq:
  assumes w: "world_ok m" and i: "unat ijob < MAXJOBS" "has_frames m (unat ijob)"
    and le: "frame_start (jobs m ! unat ijob) \<le> frame_end (jobs m ! unat ijob)"
    and at: "attachable (frame_shm m) (fishmid (jobs m ! unat ijob))"
    and k: "k < frame_count m (unat ijob)" and fi: "k < length fi" "slot_ok (fi ! k)"
  shows "job_check_frame_status ijob (of_nat k) fi m = Inr (True,
    if lost m ijob (fi ! k) then put_frame (unat ijob) k (requeue (frames_of m (unat ijob) ! k)) m else m)"
proof -
  define lm where "lm = m\<lparr>semid := sem_held\<rparr>"
  have lm: "jobs lm = jobs m" "frame_shm lm = frame_shm m" "computers lm = computers m" "semid lm = sem_held"
    by (simp_all add: lm_def)
  note w' = world_okD [OF w]
  note fr = frames_ok_cong [OF lm(1,2)]
  have lock: "lock_db m = Inr lm" "release_db lm = m" using w'(4) by (simp_all add: lm_def)
  have rel: "release_db (put_frame (unat ijob) k g lm) = put_frame (unat ijob) k g m" for g
    using w'(4) by (simp add: lm_def put_frame_def frames_of_def)
  have u: "j_used (jobs m ! unat ijob) \<noteq> 0" using i(2) by (simp add: has_frames_def)
  have idx: "job_index_correct_master lm ijob = Inr True"
    using index_correct [of lm ijob] lm w' i(1) u by simp
  note kw = frame_count_word [OF k]
  note num = index_number_correct [OF le kw(2)]
  have sh: "shape_ok lm" using w'(5) by (simp add: shape_ok_def lm)
  have runs: "frame_runs ijob (jobs m ! unat ijob) (fi ! k) lm = Inr (\<not> lost m ijob (fi ! k))"
    using frame_runs_eq [OF sh i(1) _ fi(2)] u lm by (simp add: lost_def)
  note att = frames_attach [OF w'(3) i(2,1) at]
  have len: "k < length (frames_of m (unat ijob))" using frames_okD(2) [OF w'(3) i(2,1)] k by simp
  have put: "lm\<lparr>frame_shm := shmput (fishmid (jobs m ! unat ijob)) ((frames_of m (unat ijob))[k := g]) (frame_shm m)\<rparr>
      = put_frame (unat ijob) k g lm" for g
    by (simp add: put_frame_def lm fr)
  show ?thesis
    using w' i(1) kw(1) num runs att len fi(1)
    by (simp add: job_check_frame_status_def lock idx lm attach_frame_shared_memory_def requeue_def [symmetric]
        put rel Let_def)
qed

text \<open>All frames of a job, one after the other, judged on the copy taken before.\<close>

lemma check_frames_eq:
  assumes "world_ok m" "unat ijob < MAXJOBS" "has_frames m (unat ijob)"
    "frame_start (jobs m ! unat ijob) \<le> frame_end (jobs m ! unat ijob)"
    "attachable (frame_shm m) (fishmid (jobs m ! unat ijob))"
    "\<forall>k \<in> set ks. k < frame_count m (unat ijob)" "frame_count m (unat ijob) \<le> length fi"
    "\<forall>f \<in> set fi. slot_ok f" "distinct ks"
  shows "\<exists>m1. job_check_frames ijob fi ks m = Inr (True, m1) \<and> world_ok m1 \<and> jobs m1 = jobs m \<and>
    computers m1 = computers m \<and> clock m1 = clock m \<and> attachable (frame_shm m1) = attachable (frame_shm m) \<and>
    (\<forall>k < frame_count m (unat ijob). frames_of m1 (unat ijob) ! k =
       (if k \<in> set ks \<and> lost m ijob (fi ! k) then requeue (frames_of m (unat ijob) ! k)
        else frames_of m (unat ijob) ! k)) \<and>
    (\<forall>n < MAXJOBS. n \<noteq> unat ijob \<longrightarrow> has_frames m n \<longrightarrow> frames_of m1 n = frames_of m n)"
  using assms
proof (induction ks arbitrary: m)
  case Nil
  then show ?case by simp
next
  case (Cons i ks)
  have k: "i < frame_count m (unat ijob)" "i < length fi" using Cons.prems(6,7) by auto
  have so: "slot_ok (fi ! i)" using Cons.prems(8) k(2) by simp
  define m1 where "m1 = (if lost m ijob (fi ! i)
     then put_frame (unat ijob) i (requeue (frames_of m (unat ijob) ! i)) m else m)"
  have step: "job_check_frame_status ijob (of_nat i) fi m = Inr (True, m1)"
    unfolding m1_def by (rule check_frame_status_eq [OF Cons.prems(1-5) k so])
  note ok = world_okD [OF Cons.prems(1)]
  note pf = frames_put_frame [OF ok(3) Cons.prems(3,2)]
  have len: "length (frames_of m (unat ijob)) = frame_count m (unat ijob)"
    by (rule frames_okD(2) [OF ok(3) Cons.prems(3,2)])
  have j: "jobs m1 = jobs m" "computers m1 = computers m" "clock m1 = clock m"
    "attachable (frame_shm m1) = attachable (frame_shm m)" "frame_count m1 = frame_count m" "has_frames m1 = has_frames m"
    by (simp_all add: m1_def)
  have w1: "world_ok m1"
    using Cons.prems(1) pf(3) by (simp add: m1_def world_ok_def shape_ok_def)
  have fr: "frames_of m1 (unat ijob) = (if lost m ijob (fi ! i)
      then (frames_of m (unat ijob))[i := requeue (frames_of m (unat ijob) ! i)] else frames_of m (unat ijob))"
    by (simp add: m1_def pf(1))
  have other: "\<forall>n < MAXJOBS. n \<noteq> unat ijob \<longrightarrow> has_frames m n \<longrightarrow> frames_of m1 n = frames_of m n"
    by (simp add: m1_def pf(2))
  have l: "lost m1 ijob f = lost m ijob f" for f by (simp add: lost_def j)
  have "\<exists>m2. job_check_frames ijob fi ks m1 = Inr (True, m2) \<and> world_ok m2 \<and> jobs m2 = jobs m1 \<and>
    computers m2 = computers m1 \<and> clock m2 = clock m1 \<and> attachable (frame_shm m2) = attachable (frame_shm m1) \<and>
    (\<forall>k < frame_count m1 (unat ijob). frames_of m2 (unat ijob) ! k =
       (if k \<in> set ks \<and> lost m1 ijob (fi ! k) then requeue (frames_of m1 (unat ijob) ! k)
        else frames_of m1 (unat ijob) ! k)) \<and>
    (\<forall>n < MAXJOBS. n \<noteq> unat ijob \<longrightarrow> has_frames m1 n \<longrightarrow> frames_of m2 n = frames_of m1 n)"
    by (rule Cons.IH [OF w1]) (use Cons.prems j in auto)
  then obtain m2 where m2: "job_check_frames ijob fi ks m1 = Inr (True, m2)" "world_ok m2" "jobs m2 = jobs m1"
    "computers m2 = computers m1" "clock m2 = clock m1" "attachable (frame_shm m2) = attachable (frame_shm m1)"
    "\<forall>k < frame_count m1 (unat ijob). frames_of m2 (unat ijob) ! k =
       (if k \<in> set ks \<and> lost m1 ijob (fi ! k) then requeue (frames_of m1 (unat ijob) ! k)
        else frames_of m1 (unat ijob) ! k)"
    "\<forall>n < MAXJOBS. n \<noteq> unat ijob \<longrightarrow> has_frames m1 n \<longrightarrow> frames_of m2 n = frames_of m1 n"
    by blast
  have "\<forall>k < frame_count m (unat ijob). frames_of m2 (unat ijob) ! k =
       (if k \<in> set (i # ks) \<and> lost m ijob (fi ! k) then requeue (frames_of m (unat ijob) ! k)
        else frames_of m (unat ijob) ! k)"
    using m2(7) Cons.prems(9) k len by (auto simp: j fr l nth_list_update)
  moreover have "\<forall>n < MAXJOBS. n \<noteq> unat ijob \<longrightarrow> has_frames m n \<longrightarrow> frames_of m2 n = frames_of m n"
    using m2(8) other j by simp
  ultimately show ?case
    using step m2 j by (intro exI [of _ m2]) simp
qed

section \<open>The whole update\<close>

text \<open>The status a job should have, from the one it has and its frames.\<close>

definition next_status :: "u16 \<Rightarrow> frame_info list \<Rightarrow> u16" where
  "next_status st fi =
     (if st = JOBSTATUS_WAITING \<or> st = JOBSTATUS_ACTIVE then
        if 0 < count_status FS_ASSIGNED fi then JOBSTATUS_ACTIVE
        else if count_status FS_WAITING fi = 0 then JOBSTATUS_FINISHED
        else JOBSTATUS_WAITING
      else if st = JOBSTATUS_FINISHED \<and> 0 < count_status FS_WAITING fi then JOBSTATUS_WAITING
      else st)"

lemma of_nat_count_0:
  "length fi < 65536 \<Longrightarrow> (of_nat (count_status st fi) :: u16) = 0 \<longleftrightarrow> count_status st fi = 0"
  "length fi < 65536 \<Longrightarrow> (of_nat (count_status st fi) :: u32) = 0 \<longleftrightarrow> count_status st fi = 0"
  by (metis unat_count16 unat_eq_0 of_nat_0, metis unat_count32 unat_eq_0 of_nat_0)

lemma job_new_status_eq:
  assumes l: "unat ijob < length (jobs m)" and keep: "j_flags (jobs m ! unat ijob) AND JF_JOBDELETE = 0"
    and small: "length fi < 65536"
    and c: "j_nprocs (jobs m ! unat ijob) = of_nat (count_status FS_ASSIGNED fi)"
      "fleft (jobs m ! unat ijob) = of_nat (count_status FS_WAITING fi)"
  shows "\<exists>est mail. job_new_status ijob m =
    (upd_job ijob (\<lambda>j. j\<lparr>j_status := next_status (j_status j) fi, est_finish_time := est\<rparr>) m)\<lparr>mailed := mail\<rparr>"
proof -
  let ?j = "jobs m ! unat ijob"
  note z = of_nat_count_0 [OF small]
  have id: "upd_job ijob (\<lambda>j. j\<lparr>j_status := j_status ?j, est_finish_time := est_finish_time ?j\<rparr>) m = m"
    by (simp add: upd_job_def)
  have e: "upd_job ijob (\<lambda>j. j\<lparr>j_status := next_status (j_status j) fi, est_finish_time := est\<rparr>) m
      = upd_job ijob (\<lambda>j. j\<lparr>j_status := next_status (j_status ?j) fi, est_finish_time := est\<rparr>) m" for est
    by (simp add: upd_job_def)
  have s: "upd_job ijob (\<lambda>j. j\<lparr>j_status := st\<rparr>) m
      = upd_job ijob (\<lambda>j. j\<lparr>j_status := st, est_finish_time := est_finish_time ?j\<rparr>) m" for st
    by (simp add: upd_job_def)
  have pos: "(of_nat (count_status FS_ASSIGNED fi) :: u16) > 0 \<longleftrightarrow> 0 < count_status FS_ASSIGNED fi"
    "(of_nat (count_status FS_WAITING fi) :: u32) > 0 \<longleftrightarrow> 0 < count_status FS_WAITING fi"
    using z by (simp_all add: word_gt_0)
  show ?thesis
  proof (cases "(j_status ?j = JOBSTATUS_WAITING \<or> j_status ?j = JOBSTATUS_ACTIVE) \<and>
      count_status FS_ASSIGNED fi = 0 \<and> count_status FS_WAITING fi = 0")
    case True
    then have n: "next_status (j_status ?j) fi = JOBSTATUS_FINISHED" by (simp add: next_status_def)
    show ?thesis
      unfolding e n using True keep c
      by (intro exI [of _ "time32 m"] exI [of _ "if j_flags ?j AND JF_MAILNOTIFY \<noteq> 0 then mailed m @ [j_name ?j] else mailed m"])
        (auto simp: job_new_status_def Let_def l jobs_upd_nth)
  next
    case False
    have "job_new_status ijob m =
        upd_job ijob (\<lambda>j. j\<lparr>j_status := next_status (j_status ?j) fi, est_finish_time := est_finish_time ?j\<rparr>) m"
      using False c pos z id
      by (auto simp: job_new_status_def Let_def next_status_def s)
    then show ?thesis
      unfolding e by (intro exI [of _ "est_finish_time ?j"] exI [of _ "mailed m"]) (simp add: upd_job_def)
  qed
qed

lemma job_copy_nframes: "job_nframes (job_copy j) = job_nframes j"
  by (simp add: job_copy_def job_fix_received_invalid_def job_nframes_def)

lemma job_updated:
  assumes w: "world_ok m" and i: "unat ijob < MAXJOBS" "has_frames m (unat ijob)"
    and le: "frame_start (jobs m ! unat ijob) \<le> frame_end (jobs m ! unat ijob)"
    and at: "attachable (frame_shm m) (fishmid (jobs m ! unat ijob))"
    and small: "frame_count m (unat ijob) < 65536"
    and st: "\<forall>f \<in> set (frames_of m (unat ijob)). fi_status f \<in> {FS_WAITING, FS_ASSIGNED, FS_ERROR, FS_FINISHED}"
    and slots: "\<forall>f \<in> set (frames_of m (unat ijob)). slot_ok f"
    and keep: "j_flags (jobs m ! unat ijob) AND JF_JOBDELETE = 0"
  shows "\<exists>m'. job_update_info ijob m = Inr m' \<and> world_ok m' \<and>
    (let j = jobs m' ! unat ijob; fi = frames_of m (unat ijob)
     in unat (j_nprocs j) + unat (fleft j) + unat (fdone j) + unat (ffailed j) = frame_count m (unat ijob) \<and>
        unat (j_nprocs j) = count_status FS_ASSIGNED fi \<and> unat (fleft j) = count_status FS_WAITING fi \<and>
        unat (fdone j) = count_status FS_FINISHED fi \<and> unat (ffailed j) = count_status FS_ERROR fi \<and>
        j_status j = next_status (j_status (jobs m ! unat ijob)) fi \<and>
        (\<forall>k < frame_count m (unat ijob). frames_of m' (unat ijob) ! k =
           (if lost m ijob (fi ! k) then requeue (fi ! k) else fi ! k)))"
proof -
  let ?i = "unat ijob"
  define fi where "fi = frames_of m ?i"
  define lm where "lm = m\<lparr>semid := sem_held\<rparr>"
  have lm: "jobs lm = jobs m" "frame_shm lm = frame_shm m" by (simp_all add: lm_def)
  note w' = world_okD [OF w]
  have lock: "lock_db m = Inr lm" "release_db lm = m" using w'(4) by (simp_all add: lm_def)
  have u: "j_used (jobs m ! ?i) \<noteq> 0" "job_nframes (jobs m ! ?i) \<noteq> 0" using i(2) by (simp_all add: has_frames_def)
  have idx: "job_index_correct_master lm ijob = Inr True" using index_correct [of lm ijob] lm w' i(1) u by simp
  have len: "length fi = frame_count m ?i" unfolding fi_def by (rule frames_okD(2) [OF w'(3) i(2,1)])
  note att = frames_attach [OF w'(3) i(2,1) at]
  have nz: "frame_count m ?i \<noteq> 0" using u(2) by (simp add: frame_count_def unat_eq_0)
  obtain m1 where m1: "job_check_frames ijob fi [0..<frame_count m ?i] m = Inr (True, m1)" "world_ok m1"
    "jobs m1 = jobs m" "clock m1 = clock m" and fr: "\<forall>k < frame_count m ?i. frames_of m1 ?i ! k =
       (if k \<in> set [0..<frame_count m ?i] \<and> lost m ijob (fi ! k) then requeue (frames_of m ?i ! k) else frames_of m ?i ! k)"
    using check_frames_eq [OF w i le at, of "[0..<frame_count m ?i]" fi] len slots fi_def by auto
  note w1 = world_okD [OF m1(2)]
  define lm1 where "lm1 = m1\<lparr>semid := sem_held\<rparr>"
  have lock1: "lock_db m1 = Inr lm1" using w1(4) by (simp add: lm1_def)
  have jl: "jobs lm1 = jobs m" "clock lm1 = clock m" by (simp_all add: lm1_def m1)
  have idx1: "job_index_correct_master lm1 ijob = Inr True"
    using index_correct [of lm1 ijob] jl w' i(1) u by simp
  define n where "n = upd_job ijob (new_counts fi (clock m)) lm1"
  have nj: "jobs n ! ?i = new_counts fi (clock m) (jobs m ! ?i)" "length (jobs n) = MAXJOBS"
    using w' i(1) by (simp_all add: n_def jobs_upd_nth jl)
  obtain est mail where ns: "job_new_status ijob n =
      (upd_job ijob (\<lambda>j. j\<lparr>j_status := next_status (j_status j) fi, est_finish_time := est\<rparr>) n)\<lparr>mailed := mail\<rparr>"
    using job_new_status_eq [of ijob n fi] nj i(1) keep small len by auto
  define m' where "m' = release_db (job_new_status ijob n)"
  have run: "job_update_info ijob m = Inr m'"
    using w' i(1) nz att len m1(1)
    by (simp add: job_update_info_def lock idx lm job_copy_nframes attach_frame_shared_memory_def lock1 idx1 jl
        frame_count_def [symmetric] fi_def [symmetric] n_def [symmetric] m'_def)
  let ?g = "\<lambda>j. (new_counts fi (clock m) j)\<lparr>j_status := next_status (j_status j) fi, est_finish_time := est\<rparr>"
  have m'_eq: "m' = (upd_job ijob ?g m1)\<lparr>mailed := mail\<rparr>"
    unfolding m'_def ns using w1(4) i(1) w' by (simp add: n_def lm1_def upd_job_def m1(3))
  have same: "same_frames j (?g j)" for j by (simp add: same_frames_def job_nframes_def)
  note up = frames_upd_job [of ?g, OF same, of ijob m1]
  have mc: "jobs m' = jobs (upd_job ijob ?g m1)" "frame_shm m' = frame_shm (upd_job ijob ?g m1)" by (simp_all add: m'_eq)
  note fc = frames_ok_cong [OF mc]
  have j': "jobs m' ! ?i = ?g (jobs m ! ?i)" using i(1) w' by (simp add: m'_eq jobs_upd_nth m1(3))
  have "world_ok m'" using m1(2) fc(1) up(4) by (simp add: world_ok_def shape_ok_def m'_eq)
  moreover have "frames_of m' ?i = frames_of m1 ?i" using fc(2) up(1) by simp
  moreover have "count_status FS_ASSIGNED fi + count_status FS_WAITING fi + count_status FS_FINISHED fi
     + count_status FS_ERROR fi = length fi"
    by (rule counts_partition) (use st in \<open>simp add: fi_def\<close>)
  ultimately show ?thesis
    using run fr small len
    by (intro exI [of _ m']) (simp add: j' unat_count16 unat_count32 Let_def fi_def [symmetric])
qed

text \<open>C11. Updating a job always returns and releases the semaphore.  Its counters of running,
  waiting, finished and failed frames become those of its frames, and add up to their number;
  its status follows from them (active while frames run, finished when none runs or waits,
  waiting otherwise; a stopped job stays stopped and a finished job with a waiting frame waits
  again); and exactly the assigned frames whose task no longer runs them go back to waiting.\<close>

theorem job_update_info_accounts:
  assumes w: "world_ok m" and i: "unat ijob < MAXJOBS" "has_frames m (unat ijob)"
    and le: "frame_start (jobs m ! unat ijob) \<le> frame_end (jobs m ! unat ijob)"
    and at: "attachable (frame_shm m) (fishmid (jobs m ! unat ijob))"
    and small: "frame_count m (unat ijob) < 65536"
    and st: "\<forall>f \<in> set (frames_of m (unat ijob)). fi_status f \<in> {FS_WAITING, FS_ASSIGNED, FS_ERROR, FS_FINISHED}"
    and slots: "\<forall>f \<in> set (frames_of m (unat ijob)). slot_ok f"
    and keep: "j_flags (jobs m ! unat ijob) AND JF_JOBDELETE = 0"
  shows "\<exists>m'. job_update_info ijob m = Inr m' \<and> world_ok m' \<and>
    (let j = jobs m' ! unat ijob; fi = frames_of m (unat ijob)
     in unat (j_nprocs j) + unat (fleft j) + unat (fdone j) + unat (ffailed j) = frame_count m (unat ijob) \<and>
        unat (j_nprocs j) = count_status FS_ASSIGNED fi \<and> unat (fleft j) = count_status FS_WAITING fi \<and>
        unat (fdone j) = count_status FS_FINISHED fi \<and> unat (ffailed j) = count_status FS_ERROR fi \<and>
        j_status j = next_status (j_status (jobs m ! unat ijob)) fi \<and>
        (\<forall>k < frame_count m (unat ijob). frames_of m' (unat ijob) ! k =
           (if lost m ijob (fi ! k) then requeue (fi ! k) else fi ! k)))"
  using assms by (rule job_updated)

theorem job_update_info_accounts_witness:
  "\<exists>m'. job_update_info 0 example_master = Inr m' \<and> world_ok m' \<and> unat (fleft (jobs m' ! 0)) = 3 \<and>
    j_status (jobs m' ! 0) = JOBSTATUS_WAITING"
proof -
  have j: "jobs example_master ! 0 = render_job" by (simp add: example_master_def)
  have h: "has_frames example_master 0"
    by (simp add: has_frames_def j render_job_nframes) (simp add: render_job_def zero_job_def)
  have fc: "frame_count example_master 0 = 3" by (simp add: frame_count_def j render_job_nframes)
  have "\<exists>m'. job_update_info 0 example_master = Inr m' \<and> world_ok m' \<and>
    (let j = jobs m' ! unat (0 :: u32); fi = frames_of example_master (unat (0 :: u32))
     in unat (j_nprocs j) + unat (fleft j) + unat (fdone j) + unat (ffailed j) = frame_count example_master (unat (0 :: u32)) \<and>
        unat (j_nprocs j) = count_status FS_ASSIGNED fi \<and> unat (fleft j) = count_status FS_WAITING fi \<and>
        unat (fdone j) = count_status FS_FINISHED fi \<and> unat (ffailed j) = count_status FS_ERROR fi \<and>
        j_status j = next_status (j_status (jobs example_master ! unat (0 :: u32))) fi \<and>
        (\<forall>k < frame_count example_master (unat (0 :: u32)). frames_of m' (unat (0 :: u32)) ! k =
           (if lost example_master 0 (fi ! k) then requeue (fi ! k) else fi ! k)))"
    by (rule job_update_info_accounts)
      (simp_all add: example_world_ok h j fc example_frames max_defs slot_ok_def,
       simp_all add: render_job_def zero_job_def zero_frame_def example_master_def shm_empty_def)
  then show ?thesis
    by (auto simp: Let_def example_frames j count_status_def zero_frame_def next_status_def)
      (simp_all add: render_job_def zero_job_def)
qed

end
