(* ===== verification/Outcomes.thy ===== *)
theory Outcomes
  imports Master Fairness Progress
begin

text \<open>
  What single requests achieve: registration of a computer, the end of a task, stopping and
  continuing a job.
\<close>

section \<open>Registration of a computer\<close>

lemma computer_free_sem_jobs [simp]: "semid (computer_free i m) = semid m"
  by (rule computer_free_semid)

lemma release_db_computers [simp]: "computers (release_db m) = computers m" "clock (release_db m) = clock m"
  by (simp_all add: release_db_def)

lemma register_stores:
  assumes ok: "database_ok m" and i: "i \<noteq> -1"
    and run: "handle_r_r_register addr host icomp c m = Inr (i, c', m')"
  shows "\<exists>k. computers m' = (computers m)[nat i := k] \<and> nat i < MAXCOMPUTERS \<and> hw_address (hwinfo k) = strncpy MAXNAMELEN addr \<and>
    c_used k = 1 \<and> lastconn k = time32 m \<and> semid m' = sem_free \<and>
    (icomp = -1 \<longrightarrow> computer_index_free m = Inr i) \<and> (icomp \<noteq> -1 \<longrightarrow> i = icomp)"
proof -
  have sem: "semid m = sem_free" and len: "length (computers m) = MAXCOMPUTERS"
    using ok db_invD by (auto simp: database_ok_def)
  have "yields (handle_r_r_register addr host icomp c m) (\<lambda>(i, c', m'). i \<noteq> -1 \<longrightarrow>
     (\<exists>k. computers m' = (computers m)[nat i := k] \<and> nat i < MAXCOMPUTERS \<and> hw_address (hwinfo k) = strncpy MAXNAMELEN addr \<and>
       c_used k = 1 \<and> lastconn k = time32 m \<and> semid m' = sem_free \<and>
       (icomp = -1 \<longrightarrow> computer_index_free m = Inr i) \<and> (icomp \<noteq> -1 \<longrightarrow> i = icomp)))"
    unfolding handle_r_r_register_def Let_def
    by (rule yields_andThen, rule lock_free_rule [OF sem], rule yields_andThen, rule yieldsI, intro yields_rules)
      (auto simp: upd_computer_def init_computer_def len sem computer_init_def computer_index_free_def time32_def)
  from yieldsD [OF this run] show ?thesis using i by blast
qed

text \<open>A computer that registers is known from then on: the next connection from its address
  is given the index that the registration answered, whose record is in use and carries the
  time of the registration, and no other record has changed.\<close>

theorem registered_computer_is_known:
  assumes ok: "database_ok m" and i: "i \<noteq> -1" and addr: "length addr < MAXNAMELEN"
    and icomp: "computer_index_addr m addr = Inr (icomp, m1)"
    and run: "handle_r_r_register addr host icomp c m1 = Inr (i, c', m')"
  shows "computer_index_addr m' addr = Inr (i, m') \<and> nat i < MAXCOMPUTERS \<and>
    lastconn (computers m' ! nat i) = time32 m \<and> (\<forall>k \<noteq> nat i. computers m' ! k = computers m ! k)"
proof -
  let ?Q = "\<lambda>k. addr = hw_address (hwinfo k) \<and> c_used k = 1"
  have sem: "semid m = sem_free" and len: "length (computers m) = MAXCOMPUTERS"
    using ok db_invD by (auto simp: database_ok_def)
  define r where "r = first_idx ?Q (computers m)"
  have "m1 = m" and ic: "icomp = (case r of None \<Rightarrow> -1 | Some i \<Rightarrow> int i)"
    using icomp sem len by (auto simp: computer_index_addr_def r_def)
  with register_stores [OF ok i] run obtain k where k: "computers m' = (computers m)[nat i := k]" "nat i < MAXCOMPUTERS"
    "hw_address (hwinfo k) = addr" "c_used k = 1" "lastconn k = time32 m" "semid m' = sem_free"
    "icomp = -1 \<longrightarrow> computer_index_free m = Inr i" "icomp \<noteq> -1 \<longrightarrow> i = icomp"
    using addr by force
  have at: "computers m' ! l = (if l = nat i then k else computers m ! l)" for l using k(1,2) len by auto
  have pos: "0 \<le> i" using k(7,8) ic len i
    by (auto simp: computer_index_free_def split: option.splits if_splits)
  have "first_idx ?Q (computers m') = Some (nat i)"
  proof (rule first_idx_SomeI)
    show "nat i < length (computers m')" using k(1,2) len by simp
    show "?Q (computers m' ! nat i)" using at k(3,4) by simp
    fix l assume l: "l < nat i"
    show "\<not> ?Q (computers m' ! l)"
    proof (cases r)
      case None
      then have "\<forall>x \<in> set (computers m). \<not> ?Q x" by (simp add: r_def first_idx_None_iff)
      moreover have "computers m ! l \<in> set (computers m)" using l k(2) len by simp
      ultimately show ?thesis using l by (simp add: at)
    next
      case (Some n)
      then have "nat i = n" using ic k(8) by auto
      with first_idx_SomeD [OF Some [unfolded r_def]] l show ?thesis by (simp add: at)
    qed
  qed
  then have "computer_index_addr m' addr = Inr (i, m')"
    using k(1,6) len pos by (simp add: computer_index_addr_def)
  then show ?thesis using k(2,5) at by simp
qed

theorem registered_computer_is_known_witness:
  "\<exists>c' m'. handle_r_r_register ''10.0.0.2'' None (-1) (quiet_client [MHwinfo (hwinfo example_computer)]) example_master =
      Inr (1, c', m') \<and> computer_index_addr m' ''10.0.0.2'' = Inr (1, m')"
proof -
  let ?c = "quiet_client [MHwinfo (hwinfo example_computer)]"
  have sem: "semid example_master = sem_free"
    and ks: "computers example_master = pool_computer # replicate 99 (example_computer\<lparr>c_used := 0\<rparr>)"
    by (simp_all add: example_master_def)
  have a: "computer_index_addr example_master ''10.0.0.2'' = Inr (-1, example_master)"
    using sem ks by (simp add: computer_index_addr_def max_defs pool_computer_def example_computer_def)
  have f: "computer_index_free (example_master\<lparr>semid := sem_held\<rparr>) = Inr 1"
    using ks by (simp add: computer_index_free_def max_defs pool_computer_def example_computer_def)
  obtain c' m' where r: "handle_r_r_register ''10.0.0.2'' None (-1) ?c example_master = Inr (1, c', m')"
    using sem ks f by (simp add: handle_r_r_register_def Let_def quiet_client_def send_request_def send_msg_def recv_computer_hwinfo_def recv_as_def)
  from registered_computer_is_known [OF example_database_ok _ _ a r] r show ?thesis by (auto simp: max_defs)
qed

section \<open>The end of a task\<close>

text \<open>What the master makes of the exit status of a task.\<close>

datatype verdict = Again | Done | Failed | Unchanged

definition verdict :: "u32 \<Rightarrow> job \<Rightarrow> frame_info \<Rightarrow> verdict" where
  "verdict stat j f =
     (if DR_WIFEXITED stat
      then if fi_flags f AND FF_REQUEUE \<noteq> 0 \<and> fi_requeued f < MAX_REQUEUES then Again else Done
      else if DR_WIFSIGNALED stat then
        if DR_WTERMSIG stat \<in> {SIGTERM, SIGINT, SIGKILL} then
          if fi_status f \<noteq> FS_ASSIGNED then Unchanged
          else if autoRequeue j \<noteq> 0 \<and> fi_requeued f < MAX_REQUEUES then Again else Failed
        else Failed
      else if fi_status f = FS_ASSIGNED then Failed else Unchanged)"

lemmas frame_ended_defs = frame_ended_def frame_killed_def frame_again_def frame_failed_def verdict_def Let_def

lemma frame_ended_job:
  "fst (frame_ended now stat (j, f)) = (case verdict stat j f of
      Again \<Rightarrow> j\<lparr>fleft := fleft j + 1\<rparr> | Done \<Rightarrow> j\<lparr>fdone := fdone j + 1\<rparr>
    | Failed \<Rightarrow> j\<lparr>ffailed := ffailed j + 1\<rparr> | Unchanged \<Rightarrow> j)"
  by (simp add: frame_ended_defs)

lemma frame_ended_frame:
  "fi_status (snd (frame_ended now stat (j, f))) = (case verdict stat j f of
      Again \<Rightarrow> FS_WAITING | Done \<Rightarrow> FS_FINISHED | Failed \<Rightarrow> FS_ERROR | Unchanged \<Rightarrow> fi_status f)"
  "fi_requeued (snd (frame_ended now stat (j, f))) = (if verdict stat j f = Again then fi_requeued f + 1 else fi_requeued f)"
  by (simp_all add: frame_ended_defs)

lemma frame_done:
  "verdict stat j f = Done \<Longrightarrow> fi_exitcode (snd (frame_ended now stat (j, f))) = ucast (DR_WEXITSTATUS stat) \<and>
    fi_end_time (snd (frame_ended now stat (j, f))) = now"
  by (auto simp: frame_ended_defs split: if_splits)

lemma verdict_bounds:
  "verdict stat j f = Unchanged \<Longrightarrow> fi_status f \<noteq> FS_ASSIGNED"
  "verdict stat j f = Again \<Longrightarrow> fi_requeued f < MAX_REQUEUES"
  by (auto simp: verdict_def split: if_splits)

text \<open>The job, and the master, after a task has ended.\<close>

definition task_ended :: "u32 \<Rightarrow> nat \<Rightarrow> u32 \<Rightarrow> master \<Rightarrow> master" where
  "task_ended ijob k stat m =
     (let i = unat ijob; j = jobs m ! i; j1 = (if j_nprocs j \<noteq> 0 then j\<lparr>j_nprocs := j_nprocs j - 1\<rparr> else j);
          r = frame_ended (time32 m) stat (j1, frames_of m i ! k)
      in upd_job ijob (\<lambda>_. fst r) (put_frame i k (snd r) m))"

lemma taskfini_eq:
  assumes w: "world_ok m" and i: "unat ijob < MAXJOBS" "has_frames m (unat ijob)"
    and c: "rx c = MTask task # xs" "0 < tx_left c"
    and t: "t_ijob task = ijob" "t_jobname task = j_name (jobs m ! unat ijob)"
    and at: "attachable (frame_shm m) (fishmid (jobs m ! unat ijob))"
    and n: "job_frame_number_correct (jobs m ! unat ijob) (t_frame task) = Inr True"
      "job_frame_number_to_index (jobs m ! unat ijob) (t_frame task) = Inr k" "unat k < frame_count m (unat ijob)"
  shows "\<exists>c'. handle_r_r_taskfini icomp c m = Inr (c', task_ended ijob (unat k) (t_exitstatus task) m)"
proof -
  note w' = world_okD [OF w]
  define j where "j = jobs m ! unat ijob"
  define j1 where "j1 = (if j_nprocs j \<noteq> 0 then j\<lparr>j_nprocs := j_nprocs j - 1\<rparr> else j)"
  have fi: "shmat (fishmid j) (frame_shm m) = Some (frames_of m (unat ijob))"
    unfolding j_def by (rule frames_attach [OF w'(3) i(2,1) at])
  have len: "unat k < length (frames_of m (unat ijob))" using frames_okD(2) [OF w'(3) i(2,1)] n(3) by simp
  have idx: "job_index_correct_master (m\<lparr>semid := sem_held\<rparr>) ijob = Inr True"
    using index_correct [of "m\<lparr>semid := sem_held\<rparr>" ijob] w'(1) i by (simp add: has_frames_def)
  have j1: "job_frame_number_correct j1 (t_frame task) = Inr True" "job_frame_number_to_index j1 (t_frame task) = Inr k"
    using n(1,2) unfolding j1_def j_def [symmetric]
    by (auto simp: job_frame_number_correct_def job_frame_number_to_index_def split: if_splits)
  obtain j2 f2 where e: "frame_ended (time32 m) (t_exitstatus task) (j1, frames_of m (unat ijob) ! unat k) = (j2, f2)" by fastforce
  have "fishmid j2 = fishmid j1" using frame_ended_same [OF e] by (simp add: same_frames_def)
  then have fm: "fishmid j2 = fishmid j" by (simp add: j1_def)
  have put: "m\<lparr>frame_shm := shmput (fishmid j) ((frames_of m (unat ijob))[unat k := f2]) (frame_shm m)\<rparr> = put_frame (unat ijob) (unat k) f2 m"
    by (simp add: put_frame_def j_def)
  have clock: "time32 (m\<lparr>semid := s\<rparr>) = time32 m" for s by (simp add: time32_def)
  have "task_ended ijob (unat k) (t_exitstatus task) m = upd_job ijob (\<lambda>_. j2) (put_frame (unat ijob) (unat k) f2 m)"
    by (simp only: task_ended_def Let_def e [unfolded j1_def j_def] fst_conv snd_conv)
  moreover have "release_db (upd_job ijob (\<lambda>_. j2) (m\<lparr>semid := sem_held, frame_shm := s\<rparr>)) = upd_job ijob (\<lambda>_. j2) (m\<lparr>frame_shm := s\<rparr>)" for s
    using w'(4) by (simp add: upd_job_def)
  ultimately have fin: "task_ended ijob (unat k) (t_exitstatus task) m =
      release_db (upd_job ijob (\<lambda>_. j2) (m\<lparr>semid := sem_held, frame_shm := shmput (fishmid j2) ((frames_of m (unat ijob))[unat k := f2]) (frame_shm m)\<rparr>))"
    by (simp add: fm put)
  note steps = handle_r_r_taskfini_def send_request_def send_msg_def recv_task_def recv_as_def t(1) Let_def j_def [symmetric]
    attach_frame_shared_memory_def fi clock
  show ?thesis
  proof (cases "j_nprocs j = 0")
    case True
    then have "j1 = j" by (simp add: j1_def)
    then show ?thesis using True w'(4) c idx t(2) len j1 e by (simp add: steps fin)
  next
    case False
    then have "j1 = j\<lparr>j_nprocs := j_nprocs j - 1\<rparr>" by (simp add: j1_def)
    then show ?thesis using False w'(4) c idx t(2) len j1 e by (simp add: steps fin)
  qed
qed

lemma task_ended_world:
  assumes w: "world_ok m" and i: "unat ijob < MAXJOBS" "has_frames m (unat ijob)"
  shows "world_ok (task_ended ijob k stat m)"
    and "frames_of (task_ended ijob k stat m) (unat ijob) = (frames_of m (unat ijob))[k :=
      snd (frame_ended (time32 m) stat (jobs m ! unat ijob, frames_of m (unat ijob) ! k))]"
    and "n < MAXJOBS \<Longrightarrow> n \<noteq> unat ijob \<Longrightarrow> has_frames m n \<Longrightarrow> frames_of (task_ended ijob k stat m) n = frames_of m n"
    and "n \<noteq> unat ijob \<Longrightarrow> jobs (task_ended ijob k stat m) ! n = jobs m ! n"
proof -
  note w' = world_okD [OF w]
  let ?i = "unat ijob"
  define j1 where "j1 = (if j_nprocs (jobs m ! ?i) \<noteq> 0 then (jobs m ! ?i)\<lparr>j_nprocs := j_nprocs (jobs m ! ?i) - 1\<rparr> else jobs m ! ?i)"
  obtain j2 f2 where e: "frame_ended (time32 m) stat (j1, frames_of m ?i ! k) = (j2, f2)" by fastforce
  have f2: "f2 = snd (frame_ended (time32 m) stat (jobs m ! ?i, frames_of m ?i ! k))"
    using e by (auto simp: frame_ended_defs j1_def split: if_splits)
  have t: "task_ended ijob k stat m = upd_job ijob (\<lambda>_. j2) (put_frame ?i k f2 m)"
    by (simp only: task_ended_def Let_def e [unfolded j1_def] fst_conv snd_conv)
  let ?p = "put_frame ?i k f2 m"
  note put = frames_put_frame [OF w'(3) i(2,1), where k = k and f = f2]
  have "same_frames j1 j2" by (rule frame_ended_same [OF e])
  then have same: "same_frames (jobs ?p ! ?i) j2"
    by (simp add: j1_def same_frames_def job_nframes_def split: if_splits)
  note up = frames_upd_job_at [where m = ?p and i = ijob and f = "\<lambda>_. j2", OF same]
  show "frames_of (task_ended ijob k stat m) ?i = (frames_of m ?i)[k :=
      snd (frame_ended (time32 m) stat (jobs m ! ?i, frames_of m ?i ! k))]"
    unfolding t up(1) f2 [symmetric] by (rule put(1))
  show "n < MAXJOBS \<Longrightarrow> n \<noteq> ?i \<Longrightarrow> has_frames m n \<Longrightarrow> frames_of (task_ended ijob k stat m) n = frames_of m n"
    unfolding t up(1) by (rule put(2))
  show "n \<noteq> ?i \<Longrightarrow> jobs (task_ended ijob k stat m) ! n = jobs m ! n"
    unfolding t by (simp add: upd_job_def)
  show "world_ok (task_ended ijob k stat m)"
    using w' put(3) unfolding t world_ok_def up(4) by (simp add: shape_ok_def)
qed

lemma task_ended_job:
  fixes ijob :: u32 and k :: nat and stat :: u32 and m :: master
  assumes "unat ijob < length (jobs m)"
  defines "j \<equiv> jobs m ! unat ijob" and "v \<equiv> verdict stat (jobs m ! unat ijob) (frames_of m (unat ijob) ! k)"
    and "j' \<equiv> jobs (task_ended ijob k stat m) ! unat ijob"
  shows "j_nprocs j' = (if j_nprocs j = 0 then 0 else j_nprocs j - 1)"
    and "fleft j' = fleft j + (if v = Again then 1 else 0)" "fdone j' = fdone j + (if v = Done then 1 else 0)"
    and "ffailed j' = ffailed j + (if v = Failed then 1 else 0)"
proof -
  have v: "verdict stat (j\<lparr>j_nprocs := n\<rparr>) f = verdict stat j f" for n f by (simp add: verdict_def)
  have "j' = fst (frame_ended (time32 m) stat (if j_nprocs j \<noteq> 0 then j\<lparr>j_nprocs := j_nprocs j - 1\<rparr> else j, frames_of m (unat ijob) ! k))"
    using assms(1) by (simp add: j'_def j_def task_ended_def Let_def jobs_upd_nth)
  then show "j_nprocs j' = (if j_nprocs j = 0 then 0 else j_nprocs j - 1)"
    "fleft j' = fleft j + (if v = Again then 1 else 0)" "fdone j' = fdone j + (if v = Done then 1 else 0)"
    "ffailed j' = ffailed j + (if v = Failed then 1 else 0)"
    by (auto simp: frame_ended_job v j_def [symmetric] v_def split: verdict.splits)
qed

text \<open>The frame and the job as they are left, every field of them.\<close>

definition kill_status :: "u32 \<Rightarrow> bool" where
  "kill_status stat \<longleftrightarrow> \<not> DR_WIFEXITED stat \<and> DR_WIFSIGNALED stat \<and> DR_WTERMSIG stat \<in> {SIGTERM, SIGINT, SIGKILL}"

definition settled_frame :: "u32 \<Rightarrow> u32 \<Rightarrow> verdict \<Rightarrow> frame_info \<Rightarrow> frame_info" where
  "settled_frame now stat v f =
     f\<lparr>fi_status := (case v of Again \<Rightarrow> FS_WAITING | Done \<Rightarrow> FS_FINISHED | Failed \<Rightarrow> FS_ERROR | Unchanged \<Rightarrow> fi_status f),
       fi_start_time := (if v = Again \<or> kill_status stat then 0 else fi_start_time f),
       fi_end_time := (if kill_status stat then 0 else if v = Done \<or> v = Failed then now else fi_end_time f),
       fi_exitcode := (if v = Done then ucast (DR_WEXITSTATUS stat) else fi_exitcode f),
       fi_requeued := (if v = Again then fi_requeued f + 1 else fi_requeued f)\<rparr>"

definition settled_job :: "verdict \<Rightarrow> job \<Rightarrow> job" where
  "settled_job v j =
     j\<lparr>j_nprocs := (if j_nprocs j = 0 then 0 else j_nprocs j - 1), fleft := (if v = Again then fleft j + 1 else fleft j),
       fdone := (if v = Done then fdone j + 1 else fdone j), ffailed := (if v = Failed then ffailed j + 1 else ffailed j)\<rparr>"

lemma frame_ended_settles:
  "snd (frame_ended now stat (j, f)) = settled_frame now stat (verdict stat j f) f"
  by (auto simp: frame_ended_defs settled_frame_def kill_status_def)

lemma job_ended_settles:
  "fst (frame_ended now stat (if j_nprocs j \<noteq> 0 then j\<lparr>j_nprocs := j_nprocs j - 1\<rparr> else j, f)) = settled_job (verdict stat j f) j"
proof -
  have v: "verdict stat (j\<lparr>j_nprocs := n\<rparr>) f = verdict stat j f" for n by (simp add: verdict_def)
  show ?thesis by (cases "verdict stat j f") (simp_all add: frame_ended_job v settled_job_def)
qed

lemma task_ended_exact:
  fixes ijob :: u32 and k :: nat and stat :: u32 and m :: master
  defines "i \<equiv> unat ijob" and "v \<equiv> verdict stat (jobs m ! unat ijob) (frames_of m (unat ijob) ! k)"
  shows "task_ended ijob k stat m =
    m\<lparr>jobs := (jobs m)[i := settled_job v (jobs m ! i)],
      frame_shm := shmput (fishmid (jobs m ! i)) ((frames_of m i)[k := settled_frame (time32 m) stat v (frames_of m i ! k)]) (frame_shm m)\<rparr>"
proof -
  have v: "verdict stat (if j_nprocs (jobs m ! i) \<noteq> 0 then (jobs m ! i)\<lparr>j_nprocs := j_nprocs (jobs m ! i) - 1\<rparr> else jobs m ! i)
      (frames_of m i ! k) = v" by (simp add: v_def i_def verdict_def)
  show ?thesis
    unfolding task_ended_def Let_def i_def [symmetric] job_ended_settles frame_ended_settles v
    by (simp add: upd_job_def put_frame_def i_def v_def)
qed

text \<open>C12. A finished task settles its frame.  When a slave reports the end of a task of a job in the
  database, the frame is never left assigned: it is finished with the exit code of the task, failed,
  or put back to wait, and is put back at most \<open>MAX_REQUEUES\<close> times.  The counters of the job move
  with it.  Every field of the frame and of the job is given (\<open>settled_frame\<close>, \<open>settled_job\<close>), and nothing else of the master
  changes: the other frames, jobs and segments, the computers and their limits stay as they were.\<close>

theorem task_end_settles_frame:
  assumes w: "world_ok m" and i: "unat ijob < MAXJOBS" "has_frames m (unat ijob)"
    and c: "rx c = MTask task # xs" "0 < tx_left c"
    and t: "t_ijob task = ijob" "t_jobname task = j_name (jobs m ! unat ijob)"
    and at: "attachable (frame_shm m) (fishmid (jobs m ! unat ijob))"
    and n: "job_frame_number_correct (jobs m ! unat ijob) (t_frame task) = Inr True"
      "job_frame_number_to_index (jobs m ! unat ijob) (t_frame task) = Inr k" "unat k < frame_count m (unat ijob)"
  shows "\<exists>c' m'. handle_r_r_taskfini icomp c m = Inr (c', m') \<and> world_ok m' \<and>
    (let j = jobs m ! unat ijob; j' = jobs m' ! unat ijob; fi = frames_of m (unat ijob);
         f' = frames_of m' (unat ijob) ! unat k; v = verdict (t_exitstatus task) j (fi ! unat k)
     in fi_status f' \<noteq> FS_ASSIGNED \<and>
        fi_status f' = (case v of Again \<Rightarrow> FS_WAITING | Done \<Rightarrow> FS_FINISHED | Failed \<Rightarrow> FS_ERROR | Unchanged \<Rightarrow> fi_status (fi ! unat k)) \<and>
        fi_requeued f' \<le> max (fi_requeued (fi ! unat k)) MAX_REQUEUES \<and>
        (v = Done \<longrightarrow> fi_exitcode f' = ucast (DR_WEXITSTATUS (t_exitstatus task)) \<and> fi_end_time f' = time32 m) \<and>
        frames_of m' (unat ijob) = fi[unat k := f'] \<and>
        j_nprocs j' = (if j_nprocs j = 0 then 0 else j_nprocs j - 1) \<and>
        fleft j' = fleft j + (if v = Again then 1 else 0) \<and> fdone j' = fdone j + (if v = Done then 1 else 0) \<and>
        ffailed j' = ffailed j + (if v = Failed then 1 else 0) \<and>
        f' = settled_frame (time32 m) (t_exitstatus task) v (fi ! unat k) \<and> j' = settled_job v j \<and>
        m' = m\<lparr>jobs := (jobs m)[unat ijob := j'], frame_shm := shmput (fishmid j) (fi[unat k := f']) (frame_shm m)\<rparr> \<and>
        (\<forall>l < MAXJOBS. l \<noteq> unat ijob \<longrightarrow> jobs m' ! l = jobs m ! l \<and> (has_frames m l \<longrightarrow> frames_of m' l = frames_of m l)))"
proof -
  let ?stat = "t_exitstatus task" and ?i = "unat ijob"
  define m' where "m' = task_ended ijob (unat k) ?stat m"
  obtain c' where run: "handle_r_r_taskfini icomp c m = Inr (c', m')"
    using taskfini_eq [OF assms] unfolding m'_def by blast
  define f where "f = frames_of m ?i ! unat k"
  have len: "unat k < length (frames_of m ?i)" using frames_okD(2) [OF world_okD(3) [OF w] i(2,1)] n(3) by simp
  note world = task_ended_world [OF w i, where k = "unat k" and stat = ?stat, folded m'_def]
  have f': "frames_of m' ?i ! unat k = snd (frame_ended (time32 m) ?stat (jobs m ! ?i, f))"
    using world(2) len by (simp add: f_def)
  define f2 where "f2 = snd (frame_ended (time32 m) ?stat (jobs m ! ?i, f))"
  define v where "v = verdict ?stat (jobs m ! ?i) f"
  note ended = frame_ended_frame [where j = "jobs m ! ?i" and f = f and stat = ?stat and now = "time32 m", folded f2_def v_def]
  note bounds = verdict_bounds [where stat = ?stat and j = "jobs m ! ?i" and f = f, folded v_def]
  have st: "fi_status f2 \<noteq> FS_ASSIGNED" using ended(1) bounds(1) by (cases v) simp_all
  have rq: "fi_requeued f2 \<le> max (fi_requeued f) MAX_REQUEUES"
    using ended(2) inc_le [OF bounds(2)] by (auto simp: le_max_iff_disj)
  have j: "unat ijob < length (jobs m)" using i(1) world_okD(1) [OF w] by simp
  note job = task_ended_job [OF j, where stat = ?stat and k = "unat k", folded m'_def f_def v_def]
  note exact = task_ended_exact [where ijob = ijob and k = "unat k" and stat = ?stat and m = m, folded m'_def f_def, folded v_def]
  have f2s: "f2 = settled_frame (time32 m) ?stat v f" unfolding f2_def v_def by (rule frame_ended_settles)
  have fs: "frames_of m' ?i ! unat k = settled_frame (time32 m) ?stat v f" unfolding f' f2_def [symmetric] by (rule f2s)
  have js: "jobs m' ! ?i = settled_job v (jobs m ! ?i)" using j by (simp add: exact v_def)
  have ms: "m' = m\<lparr>jobs := (jobs m)[?i := jobs m' ! ?i],
      frame_shm := shmput (fishmid (jobs m ! ?i)) ((frames_of m ?i)[unat k := frames_of m' ?i ! unat k]) (frame_shm m)\<rparr>"
    unfolding js fs by (rule exact)
  have "frames_of m' ?i = (frames_of m ?i)[unat k := f2]" using world(2) by (simp add: f2_def f_def)
  with run world(1,3,4) st rq ended(1) frame_done [where j = "jobs m ! ?i" and f = f and stat = ?stat and now = "time32 m", folded f2_def v_def] job len
  show ?thesis
    unfolding Let_def f' f_def [symmetric] v_def [symmetric] f2_def [symmetric]
    by - (intro exI [of _ c'] exI [of _ m'] conjI; (rule ms | rule js | rule fs | simp add: f_def [symmetric]))
qed

definition finished_task :: task where
  "finished_task = free_task\<lparr>t_used := 1, t_jobname := ''shot'', t_frame := 2, t_exitstatus := 0x107\<rparr>"

theorem task_end_settles_frame_witness:
  "\<exists>c' m'. handle_r_r_taskfini 0 (quiet_client [MTask finished_task]) example_master = Inr (c', m') \<and>
     fi_status (frames_of m' 0 ! 1) = FS_FINISHED \<and> fi_exitcode (frames_of m' 0 ! 1) = 7 \<and> fdone (jobs m' ! 0) = 1"
proof -
  have j: "jobs example_master ! 0 = render_job" by (simp add: example_master_def)
  have h: "has_frames example_master (unat (0 :: u32))"
    by (simp add: has_frames_def j render_job_nframes) (simp add: render_job_def zero_job_def)
  have fc: "frame_count example_master 0 = 3" by (simp add: frame_count_def j render_job_nframes)
  have n: "job_frame_number_correct (jobs example_master ! unat (0 :: u32)) (t_frame finished_task) = Inr True"
    "job_frame_number_to_index (jobs example_master ! unat (0 :: u32)) (t_frame finished_task) = Inr 1"
    by (simp_all add: j render_job_def zero_job_def job_frame_number_correct_def job_frame_number_to_index_def
        finished_task_def free_task_def)
  have v: "verdict (t_exitstatus finished_task) render_job zero_frame = Done"
    by (simp add: verdict_def finished_task_def free_task_def DR_WIFEXITED_def zero_frame_def)
  have t: "t_ijob finished_task = 0" "t_jobname finished_task = j_name (jobs example_master ! unat (0 :: u32))"
    "attachable (frame_shm example_master) (fishmid (jobs example_master ! unat (0 :: u32)))" "fdone render_job = 0"
    by (simp_all add: finished_task_def free_task_def j) (simp_all add: render_job_def zero_job_def example_master_def shm_empty_def)
  have c: "rx (quiet_client [MTask finished_task]) = MTask finished_task # []" "0 < tx_left (quiet_client [MTask finished_task])"
    by (simp_all add: quiet_client_def)
  obtain c' m' where "handle_r_r_taskfini 0 (quiet_client [MTask finished_task]) example_master = Inr (c', m')"
    "fi_status (frames_of m' 0 ! 1) = FS_FINISHED" "fdone (jobs m' ! 0) = 1"
    "fi_exitcode (frames_of m' 0 ! 1) = ucast (DR_WEXITSTATUS (t_exitstatus finished_task))"
    using task_end_settles_frame [OF example_world_ok _ h c t(1-3) n, of 0]
    by (auto simp: max_defs j fc example_frames Let_def v t(4))
  then show ?thesis by (intro exI [of _ c'] exI [of _ m']) (simp add: finished_task_def free_task_def DR_WEXITSTATUS_def)
qed

section \<open>Stopping and continuing a job\<close>

lemma release_db_jobs: "jobs (release_db m) = jobs m"
  by (simp add: release_db_def)

lemmas flow_rules = yields_return yields_fault yields_andThen yields_if yields_option yields_rd yields_prod

lemma lock_any: "(\<And>s. P (m\<lparr>semid := s\<rparr>)) \<Longrightarrow> yields (lock_db m) P"
  by (simp add: lock_db_def sem_lock_def)

lemma check_frame_jobs: "yields (job_check_frame_status ijob i fi m) (\<lambda>(_, m'). jobs m' = jobs m)"
  unfolding job_check_frame_status_def Let_def
  by (intro lock_any flow_rules yields_any [where r = "job_index_correct_master m i" for m i]
      yields_any [where r = "job_frame_number_correct j n" for j n] yields_any [where r = "frame_runs i j f m" for i j f m])
    (simp_all add: release_db_def)

lemma check_frames_jobs:
  "(\<And>b m'. jobs m' = jobs m \<Longrightarrow> P (b, m')) \<Longrightarrow> yields (job_check_frames ijob fi is m) P"
proof (induction "is" arbitrary: m)
  case (Cons i "is")
  show ?case unfolding job_check_frames.simps
    by (rule yields_andThen, rule yields_mono [OF check_frame_jobs])
      (auto intro!: Cons.IH Cons.prems)
qed simp

lemma stopped_stays: "j_status (jobs m ! unat ijob) = JOBSTATUS_STOPPED \<Longrightarrow> job_new_status ijob m = m"
  by (simp add: job_new_status_def Let_def)

lemma update_info_stopped:
  assumes st: "j_status (jobs m ! unat ijob) = JOBSTATUS_STOPPED" and i: "unat ijob < length (jobs m)"
  shows "yields (job_update_info ijob m) (\<lambda>m'. j_status (jobs m' ! unat ijob) = JOBSTATUS_STOPPED)"
proof -
  have "j_status (jobs (release_db (job_new_status ijob (upd_job ijob (new_counts fi now) (m'\<lparr>semid := s\<rparr>)))) ! unat ijob) = JOBSTATUS_STOPPED"
    if "jobs m' = jobs m" for m' fi now s
  proof -
    have "j_status (jobs (upd_job ijob (new_counts fi now) (m'\<lparr>semid := s\<rparr>)) ! unat ijob) = JOBSTATUS_STOPPED"
      using that st i by (simp add: jobs_upd_nth new_counts_def Let_def)
    with stopped_stays [OF this] show ?thesis by (simp add: release_db_def)
  qed
  then show ?thesis
    unfolding job_update_info_def Let_def
    by (intro lock_any check_frames_jobs flow_rules yields_any [where r = "job_index_correct_master m i" for m i])
      (use st in \<open>simp_all add: release_db_jobs\<close>)
qed

lemma stopped_not_available:
  assumes "database_ok m" "unat ijob < MAXJOBS" "j_status (jobs m ! unat ijob) = JOBSTATUS_STOPPED"
  shows "job_available ijob icomp m = Inr (None, m)"
proof -
  have len: "length (jobs m) = MAXJOBS" and sem: "semid m = sem_free"
    using assms(1) db_invD by (auto simp: database_ok_def)
  have "job_may_run ijob (m\<lparr>semid := sem_held\<rparr>) = Inr False"
    using index_correct [of "m\<lparr>semid := sem_held\<rparr>" ijob] len assms(2,3) by (simp add: job_may_run_def)
  then show ?thesis using sem by (simp add: job_available_def)
qed

text \<open>Stopping a job that waits or runs: the request returns, no computer is given a frame of the job
  any more, the consistency checks leave it stopped, and continuing it restores the
  database except that the job is waiting.\<close>

lemma stopped_job:
  assumes ok: "database_ok m" and i: "unat ijob < MAXJOBS" "j_used (jobs m ! unat ijob) \<noteq> 0"
    and st: "j_status (jobs m ! unat ijob) \<in> {JOBSTATUS_WAITING, JOBSTATUS_ACTIVE}"
  shows "handle_r_r_stopjob ijob m = Inr (upd_job ijob job_stop m)" "database_ok (upd_job ijob job_stop m)"
    "job_available ijob icomp (upd_job ijob job_stop m) = Inr (None, upd_job ijob job_stop m)"
    "job_update_info ijob (upd_job ijob job_stop m) = Inr m2 \<Longrightarrow> j_status (jobs m2 ! unat ijob) = JOBSTATUS_STOPPED"
    "handle_r_r_contjob ijob (upd_job ijob job_stop m) = Inr (upd_job ijob (\<lambda>j. j\<lparr>j_status := JOBSTATUS_WAITING\<rparr>) m)"
proof -
  have inv: "db_inv {} m" and sem: "semid m = sem_free" using ok by (simp_all add: database_ok_def)
  have len: "length (jobs m) = MAXJOBS" by (rule db_invD(1) [OF inv])
  define m1 where "m1 = upd_job ijob job_stop m"
  have small: "\<not> ijob \<ge> of_nat MAXJOBS" using i(1) by (simp add: word_le_nat_alt max_defs)
  have held: "release_db (upd_job ijob f (m'\<lparr>semid := sem_held\<rparr>)) = upd_job ijob f m'"
    if "semid m' = sem_free" for f and m' :: master using that by (simp add: upd_job_def)
  show "handle_r_r_stopjob ijob m = Inr (upd_job ijob job_stop m)"
    using small sem i len held by (simp add: handle_r_r_stopjob_def)
  have j1: "jobs m1 ! unat ijob = (jobs m ! unat ijob)\<lparr>j_status := JOBSTATUS_STOPPED\<rparr>"
    using st i(1) len by (auto simp: m1_def jobs_upd_nth job_stop_def)
  have "db_inv {} m1" unfolding m1_def
    by (rule db_inv_same_frames [OF inv]) (auto simp: job_stop_def same_frames_def job_nframes_def)
  then have ok1: "database_ok m1" using sem by (simp add: database_ok_def m1_def)
  then show "database_ok (upd_job ijob job_stop m)" by (simp add: m1_def)
  have "upd_job ijob job_continue m1 = upd_job ijob (\<lambda>j. j\<lparr>j_status := JOBSTATUS_WAITING\<rparr>) m"
    using st i(1) len by (auto simp: m1_def upd_job_def job_stop_def job_continue_def)
  then show "handle_r_r_contjob ijob (upd_job ijob job_stop m) = Inr (upd_job ijob (\<lambda>j. j\<lparr>j_status := JOBSTATUS_WAITING\<rparr>) m)"
    using small sem i len j1 held [of m1 job_continue] by (simp add: handle_r_r_contjob_def m1_def)
  show "j_status (jobs m2 ! unat ijob) = JOBSTATUS_STOPPED" if "job_update_info ijob (upd_job ijob job_stop m) = Inr m2"
    using yieldsD [OF update_info_stopped [of m1 ijob] that [folded m1_def]] j1 i(1) len by (simp add: m1_def)
  show "job_available ijob icomp (upd_job ijob job_stop m) = Inr (None, upd_job ijob job_stop m)"
    using stopped_not_available [OF ok1 i(1)] j1 by (simp add: m1_def)
qed

end
