(* ===== verification/Client.thy ===== *)
theory Client
  imports Service
begin

text \<open>
  The other end of the requests: the functions of \<open>request.c\<close> that the tools, and the master and
  the slave towards each other, call to send one.  \<open>sfd\<close> is what \<open>connect_to_master\<close> or
  \<open>connect_to_slave\<close> returns, \<open>None\<close> for \<open>-1\<close>.  A function that returns 0 leaves a reason in \<open>drerrno\<close>,
  or leaves \<open>drerrno\<close> as the call that failed has set it (\<open>Inl None\<close>).  Where a function sends a
  request whose \<open>data\<close> it never set, \<open>junk\<close> is what was in memory.
\<close>

section \<open>Replies\<close>

datatype drerrno =
    DRE_NOCONNECT | DRE_ANSWERNOTLISTED | DRE_ANSWERNOTRIGHT | DRE_ERRORWRITING | DRE_ERRORREADING
  | DRE_NOTREGISTERED | DRE_COMMPROBLEM | DRE_CONNMASTER | DRE_NOMEMORY

type_synonym 'a reply = "(drerrno option + 'a) \<times> conn option"

definition connected :: "conn option \<Rightarrow> (conn \<Rightarrow> 'a reply) \<Rightarrow> 'a reply" where
  "connected sfd f = (case sfd of None \<Rightarrow> (Inl (Some DRE_NOCONNECT), None) | Some c \<Rightarrow> f c)"

definition failed :: "drerrno option \<Rightarrow> conn \<Rightarrow> 'a reply" where
  "failed e c = (Inl e, Some c)"

definition ask :: "u8 \<Rightarrow> u32 \<Rightarrow> u8 \<Rightarrow> conn \<Rightarrow> (conn \<Rightarrow> 'a reply) \<Rightarrow> 'a reply" where
  "ask ty dat who c f = sending (send_request ty dat who c) (failed (Some DRE_ERRORWRITING)) f"

definition send_string :: "cstring \<Rightarrow> conn \<Rightarrow> bool \<times> conn" where
  "send_string s = send_msg (MString s)"

definition recv_frame_info :: "conn \<Rightarrow> frame_info option \<times> conn" where
  "recv_frame_info = recv_as (\<lambda>x. case x of MFrame f \<Rightarrow> Some f | _ \<Rightarrow> None)"

definition recv_blocked_host :: "conn \<Rightarrow> cstring option \<times> conn" where
  "recv_blocked_host = recv_as (\<lambda>x. case x of MHost h \<Rightarrow> Some h | _ \<Rightarrow> None)"

definition succeed :: "conn \<Rightarrow> unit reply" where
  "succeed c = (Inr (), Some c)"

section \<open>Requests without an answer\<close>

definition request_job_delete :: "u32 \<Rightarrow> u8 \<Rightarrow> conn option \<Rightarrow> unit reply" where
  "request_job_delete ijob who sfd = connected sfd (\<lambda>c. ask R_R_DELETJOB ijob who c succeed)"

definition request_job_stop :: "u32 \<Rightarrow> u8 \<Rightarrow> conn option \<Rightarrow> unit reply" where
  "request_job_stop ijob who sfd = connected sfd (\<lambda>c. ask R_R_STOPJOB ijob who c succeed)"

definition request_job_continue :: "u32 \<Rightarrow> u8 \<Rightarrow> conn option \<Rightarrow> unit reply" where
  "request_job_continue ijob who sfd = connected sfd (\<lambda>c. ask R_R_CONTJOB ijob who c succeed)"

definition request_job_hstop :: "u32 \<Rightarrow> u8 \<Rightarrow> conn option \<Rightarrow> unit reply" where
  "request_job_hstop ijob who sfd = connected sfd (\<lambda>c. ask R_R_HSTOPJOB ijob who c succeed)"

definition request_job_rerun :: "u32 \<Rightarrow> u8 \<Rightarrow> conn option \<Rightarrow> unit reply" where
  "request_job_rerun ijob who sfd = connected sfd (\<lambda>c. ask R_R_RERUNJOB ijob who c succeed)"

definition request_slavexit :: "u32 \<Rightarrow> u8 \<Rightarrow> conn option \<Rightarrow> unit reply" where
  "request_slavexit icomp who sfd = connected sfd (\<lambda>c. ask R_R_SLAVEXIT icomp who c succeed)"

text \<open>Two requests: the index of the job, and a number.\<close>

definition ask_twice :: "u8 \<Rightarrow> u32 \<Rightarrow> u32 \<Rightarrow> u8 \<Rightarrow> conn option \<Rightarrow> unit reply" where
  "ask_twice ty ijob n who sfd = connected sfd (\<lambda>c. ask ty ijob who c (\<lambda>c. ask ty n who c succeed))"

definition request_job_delete_blocked_host :: "u32 \<Rightarrow> u32 \<Rightarrow> u8 \<Rightarrow> conn option \<Rightarrow> unit reply" where
  "request_job_delete_blocked_host ijob icomp = ask_twice R_R_JOBDELBLKHOST ijob icomp"

definition request_job_add_blocked_host :: "u32 \<Rightarrow> u32 \<Rightarrow> u8 \<Rightarrow> conn option \<Rightarrow> unit reply" where
  "request_job_add_blocked_host ijob icomp = ask_twice R_R_JOBBLKHOST ijob icomp"

definition request_job_frame_waiting :: "u32 \<Rightarrow> u32 \<Rightarrow> u8 \<Rightarrow> conn option \<Rightarrow> unit reply" where
  "request_job_frame_waiting ijob frame = ask_twice R_R_JOBFWAIT ijob frame"

definition request_job_frame_kill :: "u32 \<Rightarrow> u32 \<Rightarrow> u8 \<Rightarrow> conn option \<Rightarrow> unit reply" where
  "request_job_frame_kill ijob frame = ask_twice R_R_JOBFKILL ijob frame"

definition request_job_frame_finish :: "u32 \<Rightarrow> u32 \<Rightarrow> u8 \<Rightarrow> conn option \<Rightarrow> unit reply" where
  "request_job_frame_finish ijob frame = ask_twice R_R_JOBFFINI ijob frame"

definition request_job_frame_reset_requeued :: "u32 \<Rightarrow> u32 \<Rightarrow> u8 \<Rightarrow> conn option \<Rightarrow> unit reply" where
  "request_job_frame_reset_requeued ijob frame = ask_twice R_R_JOBFRSTRQD ijob frame"

definition request_job_frame_kill_finish :: "u32 \<Rightarrow> u32 \<Rightarrow> u8 \<Rightarrow> conn option \<Rightarrow> unit reply" where
  "request_job_frame_kill_finish ijob frame = ask_twice R_R_JOBFKFIN ijob frame"

definition request_job_limits_memory_set :: "u32 \<Rightarrow> u32 \<Rightarrow> u8 \<Rightarrow> conn option \<Rightarrow> unit reply" where
  "request_job_limits_memory_set ijob memory = ask_twice R_R_JOBLMS ijob memory"

definition request_job_limits_nmaxcpus_set :: "u32 \<Rightarrow> u16 \<Rightarrow> u8 \<Rightarrow> conn option \<Rightarrow> unit reply" where
  "request_job_limits_nmaxcpus_set ijob nmaxcpus = ask_twice R_R_JOBLNMCS ijob (ucast nmaxcpus)"

definition request_job_limits_nmaxcpuscomputer_set :: "u32 \<Rightarrow> u16 \<Rightarrow> u8 \<Rightarrow> conn option \<Rightarrow> unit reply" where
  "request_job_limits_nmaxcpuscomputer_set ijob n = ask_twice R_R_JOBLNMCCS ijob (ucast n)"

definition request_job_priority_update :: "u32 \<Rightarrow> u32 \<Rightarrow> u8 \<Rightarrow> conn option \<Rightarrow> unit reply" where
  "request_job_priority_update ijob priority = ask_twice R_R_JOBPRIUP ijob priority"

definition request_job_sesupdate :: "u32 \<Rightarrow> u32 \<Rightarrow> u32 \<Rightarrow> u32 \<Rightarrow> u32 \<Rightarrow> u8 \<Rightarrow> conn option \<Rightarrow> unit reply" where
  "request_job_sesupdate ijob fstart fend fstep bsize who sfd =
     connected sfd (\<lambda>c.
       ask R_R_JOBSESUP ijob who c (\<lambda>c. ask R_R_JOBSESUP fstart who c (\<lambda>c.
       ask R_R_JOBSESUP fend who c (\<lambda>c. ask R_R_JOBSESUP fstep who c (\<lambda>c.
       ask R_R_JOBSESUP bsize who c succeed)))))"

text \<open>A request and a string; the second function leaves \<open>drerrno\<close> to the sending of them.\<close>

definition ask_string :: "u8 \<Rightarrow> u32 \<Rightarrow> cstring \<Rightarrow> u8 \<Rightarrow> conn option \<Rightarrow> unit reply" where
  "ask_string ty ijob name who sfd = connected sfd (\<lambda>c.
     ask ty ijob who c (\<lambda>c. sending (send_string name c) (failed (Some DRE_ERRORWRITING)) succeed))"

definition request_job_block_host_by_name :: "u32 \<Rightarrow> cstring \<Rightarrow> u8 \<Rightarrow> conn option \<Rightarrow> unit reply" where
  "request_job_block_host_by_name ijob name = ask_string R_R_JOBBLKHOSTNAME ijob name"

definition request_job_unblock_host_by_name :: "u32 \<Rightarrow> cstring \<Rightarrow> u8 \<Rightarrow> conn option \<Rightarrow> unit reply" where
  "request_job_unblock_host_by_name ijob name = ask_string R_R_JOBUNBLKHOSTNAME ijob name"

definition request_job_limits_pool_set :: "u32 \<Rightarrow> cstring \<Rightarrow> u8 \<Rightarrow> conn option \<Rightarrow> unit reply" where
  "request_job_limits_pool_set ijob pool who sfd = connected sfd (\<lambda>c.
     sending (send_request R_R_JOBLPS ijob who c) (failed None) (\<lambda>c.
     sending (send_string pool c) (failed None) succeed))"

text \<open>To a slave.\<close>

definition request_slave_limits_nmaxcpus_set :: "u32 \<Rightarrow> u8 \<Rightarrow> conn option \<Rightarrow> unit reply" where
  "request_slave_limits_nmaxcpus_set n who sfd = connected sfd (\<lambda>c. ask RS_R_SETNMAXCPUS n who c succeed)"

definition request_slave_limits_enabled_set :: "u8 \<Rightarrow> u8 \<Rightarrow> conn option \<Rightarrow> unit reply" where
  "request_slave_limits_enabled_set enabled who sfd =
     connected sfd (\<lambda>c. ask RS_R_SETENABLED (ucast enabled) who c succeed)"

definition request_slave_limits_maxfreeloadcpu_set :: "u32 \<Rightarrow> u8 \<Rightarrow> conn option \<Rightarrow> unit reply" where
  "request_slave_limits_maxfreeloadcpu_set n who sfd =
     connected sfd (\<lambda>c. ask RS_R_SETMAXFREELOADCPU n who c succeed)"

definition request_slave_limits_autoenable_set :: "u32 \<Rightarrow> u32 \<Rightarrow> u8 \<Rightarrow> u8 \<Rightarrow> conn option \<Rightarrow> unit reply" where
  "request_slave_limits_autoenable_set h m flags who sfd = connected sfd (\<lambda>c.
     ask RS_R_SETAUTOENABLE h who c (\<lambda>c. ask RS_R_SETAUTOENABLE m who c (\<lambda>c.
     ask RS_R_SETAUTOENABLE (ucast flags) who c succeed)))"

definition request_slave_job_available :: "u8 \<Rightarrow> conn option \<Rightarrow> unit reply" where
  "request_slave_job_available who sfd = (case sfd of None \<Rightarrow> (Inl None, None) | Some c \<Rightarrow>
     sending (send_request RS_R_JOBAVAILABLE 0 who c) (failed None) succeed)"

definition slave_pool :: "u8 \<Rightarrow> u32 \<Rightarrow> cstring \<Rightarrow> u8 \<Rightarrow> conn option \<Rightarrow> unit reply" where
  "slave_pool ty junk pool who sfd = (case sfd of None \<Rightarrow> (Inl None, None) | Some c \<Rightarrow>
     sending (send_request ty junk who c) (failed None) (\<lambda>c. sending (send_string pool c) (failed None) succeed))"

definition request_slave_limits_pool_add :: "u32 \<Rightarrow> cstring \<Rightarrow> u8 \<Rightarrow> conn option \<Rightarrow> unit reply" where
  "request_slave_limits_pool_add = slave_pool RS_R_LIMITSPOOLADD"

definition request_slave_limits_pool_remove :: "u32 \<Rightarrow> cstring \<Rightarrow> u8 \<Rightarrow> conn option \<Rightarrow> unit reply" where
  "request_slave_limits_pool_remove = slave_pool RS_R_LIMITSPOOLREMOVE"

section \<open>Requests with an answer\<close>

text \<open>The switch over the answer: what to do for \<open>RERR_NOERROR\<close>, and the failures.\<close>

definition when_ready :: "u8 \<Rightarrow> conn \<Rightarrow> (conn \<Rightarrow> fault + 'a reply) \<Rightarrow> fault + 'a reply" where
  "when_ready ty c f = expect (recv_request c) (\<lambda>c. Inr (failed None c)) (\<lambda>req c.
     if rq_type req = ty then
       if rq_data req = RERR_NOERROR then f c
       else if rq_data req = RERR_NOREGIS then Inr (failed (Some DRE_NOTREGISTERED) c)
       else Inr (failed (Some DRE_ANSWERNOTLISTED) c)
     else Inr (failed (Some DRE_ANSWERNOTRIGHT) c))"

definition connected_to :: "conn option \<Rightarrow> (conn \<Rightarrow> fault + 'a reply) \<Rightarrow> fault + 'a reply" where
  "connected_to sfd f = (case sfd of None \<Rightarrow> Inr (Inl (Some DRE_NOCONNECT), None) | Some c \<Rightarrow> f c)"

text \<open>
  The record \<open>w\<close> holds the shared memory of the machine the caller runs on; nothing else of it is
  used.  \<open>job\<close> is what the caller's structure held before.
\<close>

definition request_job_xfer :: "u32 \<Rightarrow> job \<Rightarrow> u8 \<Rightarrow> conn option \<Rightarrow> master \<Rightarrow> fault + (job \<times> master) reply" where
  "request_job_xfer ijob job who sfd w = connected_to sfd (\<lambda>c.
     sending (send_request R_R_JOBXFER ijob who c) (\<lambda>c. Inr (failed None c)) (\<lambda>c.
     when_ready R_R_JOBXFER c (\<lambda>c.
       andThen (recv_job job c w) (\<lambda>(ok, j, c, w).
         if ok then Inr (Inr (j, w), Some c) else Inr (failed (Some DRE_ERRORREADING) c)))))"

fun recv_frames :: "nat \<Rightarrow> frame_info list \<Rightarrow> conn \<Rightarrow> frame_info list reply" where
  "recv_frames 0 fi c = (Inr fi, Some c)"
| "recv_frames (Suc n) fi c = expect (recv_frame_info c) (failed None) (\<lambda>f c. recv_frames n (fi @ [f]) c)"

definition request_job_xferfi :: "u32 \<Rightarrow> int \<Rightarrow> u8 \<Rightarrow> conn option \<Rightarrow> fault + frame_info list reply" where
  "request_job_xferfi ijob nframes who sfd = connected_to sfd (\<lambda>c.
     sending (send_request R_R_JOBXFERFI ijob who c) (\<lambda>c. Inr (failed None c)) (\<lambda>c.
     when_ready R_R_JOBXFERFI c (\<lambda>c. Inr (recv_frames (nat nframes) [] c))))"

definition request_job_frame_info :: "u32 \<Rightarrow> u32 \<Rightarrow> u8 \<Rightarrow> conn option \<Rightarrow> frame_info reply" where
  "request_job_frame_info ijob frame who sfd = connected sfd (\<lambda>c.
     ask R_R_JOBFINFO ijob who c (\<lambda>c. ask R_R_JOBFINFO frame who c (\<lambda>c.
     expect (recv_frame_info c) (failed (Some DRE_ERRORWRITING)) (\<lambda>f c. (Inr f, Some c)))))"

definition request_job_envvars :: "u32 \<Rightarrow> env_state \<Rightarrow> u8 \<Rightarrow> conn option \<Rightarrow> fault + env_state reply" where
  "request_job_envvars ijob es who sfd = connected_to sfd (\<lambda>c.
     sending (send_request R_R_JOBENVVARS ijob who c) (\<lambda>c. Inr (failed None c)) (\<lambda>c.
     andThen (recv_envvars es c) (\<lambda>(ok, es, c). Inr (if ok then (Inr es, Some c) else failed None c))))"

definition request_job_name :: "u32 \<Rightarrow> u8 \<Rightarrow> conn option \<Rightarrow> cstring reply" where
  "request_job_name ijob who sfd = connected sfd (\<lambda>c. ask R_R_JOBNAME ijob who c (\<lambda>c.
     expect (recv_string c) (failed (Some DRE_ERRORREADING)) (\<lambda>s c. (Inr s, Some c))))"

text \<open>The result of each \<open>recv_blocked_host\<close> is ignored; \<open>None\<close> is memory that \<open>malloc\<close> left uninitialised.\<close>

fun recv_hosts :: "nat \<Rightarrow> conn \<Rightarrow> cstring option list \<times> conn" where
  "recv_hosts 0 c = ([], c)"
| "recv_hosts (Suc n) c = (case recv_blocked_host c of (h, c) \<Rightarrow> case recv_hosts n c of (hs, c) \<Rightarrow> (h # hs, c))"

definition request_job_list_blocked_host :: "u32 \<Rightarrow> u8 \<Rightarrow> conn option \<Rightarrow> cstring option list reply" where
  "request_job_list_blocked_host ijob who sfd = connected sfd (\<lambda>c.
     sending (send_request R_R_JOBLSTBLKHOST ijob who c) (failed None) (\<lambda>c.
     expect (recv_request c) (failed None) (\<lambda>req c.
       case recv_hosts (unat (ucast (rq_data req) :: u16)) c of (hs, c) \<Rightarrow> (Inr hs, Some c))))"

text \<open>A computer; \<open>k\<close> is the caller's structure, and its pools go to the pool segments of \<open>w\<close>.\<close>

definition recv_computer :: "computer \<Rightarrow> conn \<Rightarrow> master \<Rightarrow> fault + bool \<times> computer \<times> conn \<times> master" where
  "recv_computer k c w =
     andThen (recv_computer_status (c_status k) c) (\<lambda>(ok, st, c).
       let k = k\<lparr>c_status := st\<rparr>
       in if \<not> ok then Inr (False, k, c, w)
          else expect (recv_computer_hwinfo c) (\<lambda>c. Inr (False, k, c, w)) (\<lambda>hw c.
            let k = k\<lparr>hwinfo := hw\<rparr>
            in andThen (recv_computer_limits (c_limits k, pool_shm w) c) (\<lambda>(ok, (cl, s), c).
              Inr (ok, k\<lparr>c_limits := cl\<rparr>, c, w\<lparr>pool_shm := s\<rparr>))))"

definition request_comp_xfer :: "u32 \<Rightarrow> computer \<Rightarrow> u8 \<Rightarrow> conn option \<Rightarrow> master \<Rightarrow> fault + (computer \<times> master) reply" where
  "request_comp_xfer icomp k who sfd w =
     (case computer_pool_free (c_limits k, pool_shm w) of (_, cl, s) \<Rightarrow>
        let k = computer_init (env_enabled w) (env_max_cpus w) (k\<lparr>c_limits := cl\<rparr>); w = w\<lparr>pool_shm := s\<rparr>
        in connected_to sfd (\<lambda>c.
           sending (send_request R_R_COMPXFER icomp who c) (\<lambda>c. Inr (failed None c)) (\<lambda>c.
           when_ready R_R_COMPXFER c (\<lambda>c.
             andThen (recv_computer k c w) (\<lambda>(ok, k, c, w).
               if ok then Inr (Inr (k, w), Some c) else Inr (failed None c))))))"

text \<open>
  The lists: the number that is returned is the one the master announced, also when the transfer
  broke off.  \<open>malloc\<close> fails for a negative number only; \<open>None\<close> stands for records that were never initialised, and the
  record the transfer broke off at is the last one given.
\<close>

fun recv_jobs :: "nat \<Rightarrow> conn \<Rightarrow> master \<Rightarrow> fault + job option list \<times> conn \<times> master" where
  "recv_jobs 0 c w = Inr ([], c, w)"
| "recv_jobs (Suc n) c w =
     andThen (recv_job (job_init (env_user w) zero_job) c w) (\<lambda>(ok, j, c, w).
       if ok then andThen (recv_jobs n c w) (\<lambda>(js, c, w). Inr (Some j # js, c, w))
       else Inr (Some j # replicate n None, c, w))"

definition request_job_list :: "u32 \<Rightarrow> u8 \<Rightarrow> conn option \<Rightarrow> master \<Rightarrow> fault + (int \<times> job option list \<times> master) reply" where
  "request_job_list junk who sfd w = connected_to sfd (\<lambda>c.
     sending (send_request R_R_LISTJOBS junk who c) (\<lambda>c. Inr (failed (Some DRE_ERRORWRITING) c)) (\<lambda>c.
     expect (recv_request c) (\<lambda>c. Inr (failed (Some DRE_ERRORREADING) c)) (\<lambda>req c.
       if rq_type req \<noteq> R_R_LISTJOBS then Inr (failed (Some DRE_ANSWERNOTRIGHT) c)
       else
         let njobs = sint (rq_data req)
         in if njobs < 0 then Inr (failed (Some DRE_NOMEMORY) c)
            else andThen (recv_jobs (nat njobs) c w) (\<lambda>(js, c, w). Inr (Inr (njobs, js, w), Some c)))))"

fun recv_computers :: "nat \<Rightarrow> computer \<Rightarrow> conn \<Rightarrow> master \<Rightarrow> fault + computer option list \<times> conn \<times> master" where
  "recv_computers 0 blank c w = Inr ([], c, w)"
| "recv_computers (Suc n) blank c w =
     andThen (recv_computer (computer_init (env_enabled w) (env_max_cpus w) blank) c w) (\<lambda>(ok, k, c, w).
       if ok then andThen (recv_computers n blank c w) (\<lambda>(ks, c, w). Inr (Some k # ks, c, w))
       else Inr (Some k # replicate n None, c, w))"

text \<open>\<open>blank\<close> is what \<open>malloc\<close> left in each record.\<close>

definition request_computer_list ::
    "u32 \<Rightarrow> computer \<Rightarrow> u8 \<Rightarrow> conn option \<Rightarrow> master \<Rightarrow> fault + (int \<times> computer option list \<times> master) reply" where
  "request_computer_list junk blank who sfd w = connected_to sfd (\<lambda>c.
     sending (send_request R_R_LISTCOMP junk who c) (\<lambda>c. Inr (failed (Some DRE_ERRORWRITING) c)) (\<lambda>c.
     expect (recv_request c) (\<lambda>c. Inr (failed (Some DRE_ERRORREADING) c)) (\<lambda>req c.
       if rq_type req \<noteq> R_R_LISTCOMP then Inr (failed (Some DRE_ANSWERNOTRIGHT) c)
       else
         let n = sint (rq_data req)
         in if n < 0 then Inr (failed (Some DRE_NOMEMORY) c)
            else andThen (recv_computers (nat n) blank c w) (\<lambda>(ks, c, w). Inr (Inr (n, ks, w), Some c)))))"

definition register_job :: "u32 \<Rightarrow> job \<Rightarrow> conn option \<Rightarrow> master \<Rightarrow> fault + job reply" where
  "register_job junk job sfd w = (case sfd of None \<Rightarrow> Inr (Inl None, None) | Some c \<Rightarrow>
     sending (send_request R_R_REGISJOB junk CLIENT c) (\<lambda>c. Inr (failed None c)) (\<lambda>c.
     expect (recv_request c) (\<lambda>c. Inr (failed None c)) (\<lambda>req c.
       if rq_type req = R_R_REGISJOB \<and> rq_data req = RERR_NOERROR then
         andThen (send_job job (env_shm w) c) (\<lambda>(sent, c).
         if \<not> sent then Inr (failed None c)
         else expect (recv_request c) (\<lambda>c. Inr (failed None c)) (\<lambda>req c.
           Inr (Inr (job\<lparr>j_id := rq_data req\<rparr>), Some c)))
       else Inr (failed None c))))"

text \<open>
  \<open>update_computer_limits\<close>, called by the slave; the connection is not closed when it fails.  The
  limits come back with their note of whether the pools are attached.
\<close>

definition update_computer_limits ::
    "u32 \<Rightarrow> computer_limits \<Rightarrow> conn option \<Rightarrow> cstring shm \<Rightarrow> fault + unit reply \<times> computer_limits" where
  "update_computer_limits junk cl sfd s = (case sfd of None \<Rightarrow> Inr ((Inl (Some DRE_CONNMASTER), None), cl) | Some c \<Rightarrow>
     sending (send_request R_R_UCLIMITS junk SLAVE c) (\<lambda>c. Inr (failed (Some DRE_COMMPROBLEM) c, cl)) (\<lambda>c.
     expect (recv_request c) (\<lambda>c. Inr (failed (Some DRE_COMMPROBLEM) c, cl)) (\<lambda>req c.
       if rq_type req \<noteq> R_R_UCLIMITS then Inr (failed (Some DRE_ANSWERNOTRIGHT) c, cl)
       else if rq_data req = RERR_NOERROR then
         andThen (send_computer_limits False (cl, s) c) (\<lambda>(sent, c, cl).
           Inr (if sent then succeed c else failed (Some DRE_COMMPROBLEM) c, cl))
       else if rq_data req = RERR_NOREGIS then Inr (failed (Some DRE_NOTREGISTERED) c, cl)
       else Inr (failed (Some DRE_ANSWERNOTLISTED) c, cl))))"

end
