(* ===== verification/Agreement.thy ===== *)
theory Agreement
  imports Client Outcomes
begin

text \<open>
  The two ends of a request fit together: what a handler of the master sends is what the
  function that asked for it receives, and the other way round.
\<close>

section \<open>Environment variables across a connection\<close>

definition generous :: "'a shm \<Rightarrow> bool" where
  "generous s \<longleftrightarrow> (\<forall>i n. grant s i n) \<and> (\<forall>i. attachable s i)"

definition fits :: "envvar \<Rightarrow> bool" where
  "fits v \<longleftrightarrow> length (ev_name v) \<le> MAXNAMELEN \<and> length (ev_value v) \<le> MAXNAMELEN"

text \<open>The segments of other lists are left alone, and the new one is none of them.\<close>

definition others_kept :: "env_state \<Rightarrow> env_state \<Rightarrow> bool" where
  "others_kept es es' \<longleftrightarrow> (\<forall>i. segs (snd es) i \<noteq> None \<longrightarrow> i \<noteq> evshmid (fst es) \<longrightarrow>
     segs (snd es') i = segs (snd es) i \<and> i \<noteq> evshmid (fst es'))"

lemma others_kept_trans: "others_kept a b \<Longrightarrow> others_kept b c \<Longrightarrow> others_kept a c"
  unfolding others_kept_def by metis

lemma fresh_name:
  "env_ok es \<Longrightarrow> fits v \<Longrightarrow> ev_name v \<notin> ev_name ` set (env_list es) \<Longrightarrow>
   first_idx (same_name (ev_name v)) (env_list es) = None"
  by (cases es) (auto simp: first_idx_None_iff env_ok_def same_name_short fits_def image_iff)

lemma add_one:
  assumes ok: "env_ok es" and g: "generous (snd es)" and v: "fits v" "ev_name v \<notin> ev_name ` set (env_list es)"
    and n: "length (env_list es) < 32767"
  shows "\<exists>es'. envvars_variable_add (ev_name v) (ev_value v) es = Inr (True, es') \<and> env_ok es' \<and>
    generous (snd es') \<and> env_list es' = env_list es @ [v] \<and> others_kept es es'"
proof -
  obtain ev s where es: "es = (ev, s)" by fastforce
  have len: "unat (nvariables ev) = length (env_list es)"
    using ok by (auto simp: es env_ok_def env_list_def split: if_splits)
  obtain k s1 where k: "shmget zero_envvar (Suc (unat (nvariables ev))) s = (k, s1)" "k \<noteq> -1"
    using g ok by (auto simp: es generous_def shmget_def env_ok_def shm_ok_def)
  have "\<exists>es'. envvars_variable_add (ev_name v) (ev_value v) (ev, s) = Inr (True, es') \<and> env_ok es' \<and>
    env_list es' = env_list (ev, s) @ [\<lparr>ev_name = strncpy MAXNAMELEN (ev_name v), ev_value = strncpy MAXNAMELEN (ev_value v)\<rparr>] \<and>
    attachable (snd es') = attachable s \<and> grant (snd es') = grant s \<and> segs s (evshmid (fst es')) = None \<and>
    (\<forall>i. segs s i \<noteq> None \<longrightarrow> i \<noteq> evshmid ev \<longrightarrow> segs (snd es') i = segs s i)"
    using fresh_name [OF ok v] ok len n k g by (intro add_new_list) (simp_all add: es generous_def)
  then show ?thesis using g v(1) by (fastforce simp: es generous_def fits_def others_kept_def)
qed

lemma recv_each_envvar_all:
  assumes "env_ok es" "generous (snd es)" "\<forall>v \<in> set vs. fits v" "distinct (map ev_name (env_list es @ vs))"
    "length (env_list es @ vs) \<le> 32767" "rx c = map MEnvvar vs @ rest"
  shows "\<exists>es'. recv_each_envvar (length vs) es c = Inr (True, es', c\<lparr>rx := rest\<rparr>) \<and> env_ok es' \<and>
    generous (snd es') \<and> env_list es' = env_list es @ vs \<and> others_kept es es'"
  using assms
proof (induction vs arbitrary: es c)
  case (Cons v vs)
  have r: "recv_envvar c = (Some v, c\<lparr>rx := map MEnvvar vs @ rest\<rparr>)"
    using Cons.prems(6) by (simp add: recv_envvar_def recv_as_def)
  obtain es1 where es1: "envvars_variable_add (ev_name v) (ev_value v) es = Inr (True, es1)" "env_ok es1"
    "generous (snd es1)" "env_list es1 = env_list es @ [v]" "others_kept es es1"
    using add_one [OF Cons.prems(1,2), of v] Cons.prems(3-5) by auto
  have "\<exists>es'. recv_each_envvar (length vs) es1 (c\<lparr>rx := map MEnvvar vs @ rest\<rparr>) = Inr (True, es', c\<lparr>rx := rest\<rparr>) \<and> env_ok es' \<and>
    generous (snd es') \<and> env_list es' = env_list es1 @ vs \<and> others_kept es1 es'"
    using Cons.IH [OF es1(2,3), of "c\<lparr>rx := map MEnvvar vs @ rest\<rparr>"] Cons.prems(3-5) es1(4) by simp
  then show ?case using others_kept_trans [OF es1(5)] by (auto simp: r es1)
qed (simp add: others_kept_def)

text \<open>The whole list: what \<open>send_envvars\<close> writes, \<open>recv_envvars\<close> reads.\<close>

definition wire_envvars :: "env_state \<Rightarrow> msg list" where
  "wire_envvars es = MWord16 (nvariables (fst es)) # map MEnvvar (env_list es)"

lemma send_all_ok: "length xs \<le> tx_left c \<Longrightarrow> send_all xs c = (True, c\<lparr>tx := tx c @ xs, tx_left := tx_left c - length xs\<rparr>)"
  by (induction xs arbitrary: c) (auto simp: send_msg_def)

lemma send_envvars_ok:
  assumes ok: "env_ok es" and t: "length (wire_envvars es) \<le> tx_left c"
  shows "send_envvars es c = Inr (True, c\<lparr>tx := tx c @ wire_envvars es, tx_left := tx_left c - length (wire_envvars es)\<rparr>)"
proof -
  obtain ev s where es: "es = (ev, s)" by fastforce
  show ?thesis
  proof (cases "nvariables ev = 0")
    case True
    then have "env_list es = []" using ok by (auto simp: es env_ok_def env_list_def split: if_splits)
    with True t show ?thesis by (simp add: es send_envvars_def wire_envvars_def send_msg_def)
  next
    case False
    then have "envvars_attach es = Some (env_list es)" "length (env_list es) = unat (nvariables ev)"
      using ok by (auto simp: es env_ok_def env_list_def envvars_attach_def shmat_def split: if_splits)
    with False t show ?thesis
      by (simp add: es send_envvars_def wire_envvars_def send_msg_def send_all_ok)
  qed
qed

lemma recv_envvars_ok:
  assumes ok: "env_ok es0" and r: "env_ok es" "generous (snd es)" "evshmid (fst es) = -1"
    and v: "\<forall>v \<in> set (env_list es0). fits v" "length (env_list es0) \<le> 32767" and c: "rx c = wire_envvars es0 @ rest"
  shows "\<exists>es'. recv_envvars es c = Inr (True, es', c\<lparr>rx := rest\<rparr>) \<and> env_ok es' \<and> generous (snd es') \<and>
    env_list es' = env_list es0 \<and> others_kept es es'"
proof -
  obtain ev0 s0 where es0: "es0 = (ev0, s0)" by fastforce
  have len: "unat (nvariables ev0) = length (env_list es0)" and d: "distinct (map ev_name (env_list es0))"
    using ok by (auto simp: es0 env_ok_def env_list_def split: if_splits)
  obtain ev s where es: "es = (ev, s)" by fastforce
  have f: "envvars_free es = (True, envvars_init, s)" using r(3) by (simp add: es envvars_free_def)
  have i: "env_ok (envvars_init, s)" "env_list (envvars_init, s) = []"
    using r(1) by (simp_all add: es env_ok_def envvars_init_def env_list_def)
  have w: "read_16b c = (Some (nvariables ev0), c\<lparr>rx := map MEnvvar (env_list es0) @ rest\<rparr>)"
    using c by (simp add: read_16b_def recv_as_def wire_envvars_def es0)
  have "\<exists>es'. recv_each_envvar (length (env_list es0)) (envvars_init, s) (c\<lparr>rx := map MEnvvar (env_list es0) @ rest\<rparr>) =
      Inr (True, es', c\<lparr>rx := rest\<rparr>) \<and> env_ok es' \<and> generous (snd es') \<and> env_list es' = env_list es0 \<and>
      others_kept (envvars_init, s) es'"
    using recv_each_envvar_all [OF i(1), of "env_list es0" "c\<lparr>rx := map MEnvvar (env_list es0) @ rest\<rparr>" rest] r(2) v d i(2)
    by (simp add: es)
  moreover have "others_kept es es' = others_kept (envvars_init, s) es'" for es'
    using r(3) by (simp add: others_kept_def es envvars_init_def)
  ultimately show ?thesis by (simp add: recv_envvars_def f w len)
qed

section \<open>A job across a connection\<close>

definition wire_job :: "job \<Rightarrow> envvar shm \<Rightarrow> msg list" where
  "wire_job j s = MJob (job_on_the_wire j) # wire_envvars (j_envvars j, s)"

definition env_fits :: "job \<Rightarrow> envvar shm \<Rightarrow> bool" where
  "env_fits j s \<longleftrightarrow> env_ok (j_envvars j, s) \<and> (\<forall>v \<in> set (env_list (j_envvars j, s)). fits v) \<and>
     length (env_list (j_envvars j, s)) \<le> 32767"

text \<open>A structure that owns no segments, as after \<open>job_init\<close>.\<close>

definition unowned :: "job \<Rightarrow> bool" where
  "unowned j \<longleftrightarrow> fishmid j = -1 \<and> bhshmid j = -1 \<and> evshmid (j_envvars j) = -1"

lemma send_job_ok:
  assumes "env_fits j s" "length (wire_job j s) \<le> tx_left c"
  shows "send_job j s c = Inr (True, c\<lparr>tx := tx c @ wire_job j s, tx_left := tx_left c - length (wire_job j s)\<rparr>)"
proof -
  let ?c = "c\<lparr>tx := tx c @ [MJob (job_on_the_wire j)], tx_left := tx_left c - 1\<rparr>"
  have "send_envvars (j_envvars j, s) ?c = Inr (True, ?c\<lparr>tx := tx ?c @ wire_envvars (j_envvars j, s),
      tx_left := tx_left ?c - length (wire_envvars (j_envvars j, s))\<rparr>)"
    by (rule send_envvars_ok) (use assms in \<open>auto simp: env_fits_def wire_job_def\<close>)
  then show ?thesis using assms(2) by (simp add: send_job_def send_msg_def wire_job_def)
qed

lemma job_delete_unowned:
  assumes "unowned j"
  shows "job_delete j w = (job_init (env_user w) (j\<lparr>j_envvars := envvars_init\<rparr>), w)"
  using assms
  by (auto simp: unowned_def job_delete_def job_frame_info_free_def job_block_host_free_def envvars_free_def Let_def
      job_init_def job_shared_frame_info_init_def job_shared_blocked_hosts_init_def split: prod.splits if_splits)

text \<open>What arrives of a job, with the environment \<open>ev\<close> that was built up on the way.\<close>

definition arrived :: "job \<Rightarrow> envvars \<Rightarrow> job" where
  "arrived j ev = (step_not_zero (job_fix_received_invalid j))\<lparr>j_envvars := ev\<rparr>"

definition roomy :: "master \<Rightarrow> bool" where
  "roomy w \<longleftrightarrow> shm_ok (env_shm w) \<and> generous (env_shm w)"

lemma recv_job_ok:
  assumes u: "unowned jl" and e: "env_fits j s" and w: "roomy w" and c: "rx c = wire_job j s @ rest"
  shows "\<exists>ev es. recv_job jl c w = Inr (True, arrived j ev, c\<lparr>rx := rest\<rparr>, w\<lparr>env_shm := es\<rparr>) \<and>
    env_ok (ev, es) \<and> generous es \<and> env_list (ev, es) = env_list (j_envvars j, s)"
proof -
  let ?c = "c\<lparr>rx := wire_envvars (j_envvars j, s) @ rest\<rparr>"
  let ?j = "job_fix_received_invalid (job_on_the_wire j)"
  have r: "recv_job_struct c = (Some (job_on_the_wire j), ?c)"
    using c by (simp add: recv_job_struct_def recv_as_def wire_job_def)
  have ev: "env_ok (j_envvars ?j, env_shm w)" "evshmid (j_envvars ?j) = -1"
    using w by (simp_all add: job_fix_received_invalid_def job_on_the_wire_def envvars_init_def env_ok_def env_list_def roomy_def)
  obtain es' where es': "recv_envvars (j_envvars ?j, env_shm w) ?c = Inr (True, es', ?c\<lparr>rx := rest\<rparr>)" "env_ok es'"
    "generous (snd es')" "env_list es' = env_list (j_envvars j, s)"
    using recv_envvars_ok [of "(j_envvars j, s)" "(j_envvars ?j, env_shm w)" ?c rest] e w ev
    by (auto simp: env_fits_def roomy_def)
  obtain ev es where p: "es' = (ev, es)" by fastforce
  have "step_not_zero (?j\<lparr>j_envvars := ev\<rparr>) = arrived j ev"
    by (simp add: arrived_def step_not_zero_def job_fix_received_invalid_def job_on_the_wire_def)
  then show ?thesis
    using es' by (auto simp: recv_job_def job_delete_unowned [OF u] r p Let_def)
qed

text \<open>
  The two processes of a transfer: the master answers, and what it sent is what the client reads.
\<close>

definition peer :: "conn \<Rightarrow> nat \<Rightarrow> conn" where
  "peer c n = \<lparr>rx = tx c, tx = [], tx_left = n\<rparr>"

lemma job_transfer:
  assumes j: "length (jobs m) = MAXJOBS" "unat ijob < MAXJOBS" "j_used (jobs m ! unat ijob) \<noteq> 0" and sem: "semid m = sem_free"
    and e: "env_fits (jobs m ! unat ijob) (env_shm m)"
    and t: "tx c = []" "length (wire_job (jobs m ! unat ijob) (env_shm m)) < tx_left c"
    and u: "unowned jl" "roomy w" and k: "0 < k"
  shows "\<exists>c' m'. handle_r_r_jobxfer ijob c m = Inr (c', m') \<and> jobs m' = jobs m \<and> semid m' = sem_free \<and>
    (\<exists>ev es c2. request_job_xfer ijob jl who (Some (peer c' k)) w =
        Inr (Inr (arrived (jobs m ! unat ijob) ev, w\<lparr>env_shm := es\<rparr>), Some c2) \<and> rx c2 = [] \<and> env_ok (ev, es) \<and>
      env_list (ev, es) = env_list (j_envvars (jobs m ! unat ijob), env_shm m))"
proof -
  let ?j = "jobs m ! unat ijob" and ?ok = "MRequest \<lparr>rq_type = R_R_JOBXFER, rq_who = MASTER, rq_data = RERR_NOERROR\<rparr>"
  let ?c1 = "c\<lparr>tx := [?ok], tx_left := tx_left c - 1\<rparr>"
  let ?c2 = "?c1\<lparr>tx := tx ?c1 @ wire_job ?j (env_shm m), tx_left := tx_left ?c1 - length (wire_job ?j (env_shm m))\<rparr>"
  have s: "send_job ?j (env_shm m) ?c1 = Inr (True, ?c2)"
    by (rule send_job_ok [OF e]) (use t in simp)
  have h: "handle_r_r_jobxfer ijob c m = Inr (?c2, m)"
    using j sem t s index_correct [of "m\<lparr>semid := sem_held\<rparr>" ijob]
    by (simp add: handle_r_r_jobxfer_def send_request_def send_msg_def Let_def)
  let ?p = "\<lparr>rx = wire_job ?j (env_shm m), tx = [MRequest \<lparr>rq_type = R_R_JOBXFER, rq_who = who, rq_data = ijob\<rparr>], tx_left = k - 1\<rparr>"
  obtain ev es where r: "recv_job jl ?p w = Inr (True, arrived ?j ev, ?p\<lparr>rx := []\<rparr>, w\<lparr>env_shm := es\<rparr>)"
    "env_ok (ev, es) \<and> env_list (ev, es) = env_list (j_envvars ?j, env_shm m)"
    using recv_job_ok [OF u(1) e u(2), of ?p "[]"] by auto
  have "request_job_xfer ijob jl who (Some (peer ?c2 k)) w =
      Inr (Inr (arrived ?j ev, w\<lparr>env_shm := es\<rparr>), Some (?p\<lparr>rx := []\<rparr>))"
    using k r by (simp add: request_job_xfer_def connected_to_def send_request_def send_msg_def peer_def when_ready_def
        recv_request_def recv_as_def)
  with h r(2) sem show ?thesis by auto
qed

text \<open>C25.  A job goes from the master to a client and arrives complete: for a job in use whose
  environment fits the fields, the client's structure ends up with every field of the master's job,
  except that the identifiers of segments, which mean nothing on another machine, are cut, and that
  a step of 0 becomes 1; the environment list is built again on the client's side, with the same
  variables in the same order.\<close>

theorem job_transfer_roundtrip:
  assumes j: "length (jobs m) = MAXJOBS" "unat ijob < MAXJOBS" "j_used (jobs m ! unat ijob) \<noteq> 0" and sem: "semid m = sem_free"
    and e: "env_fits (jobs m ! unat ijob) (env_shm m)"
    and t: "tx c = []" "length (wire_job (jobs m ! unat ijob) (env_shm m)) < tx_left c"
    and u: "unowned jl" "roomy w" and k: "0 < k"
  shows "\<exists>c' m'. handle_r_r_jobxfer ijob c m = Inr (c', m') \<and> jobs m' = jobs m \<and> semid m' = sem_free \<and>
    (\<exists>ev es c2. request_job_xfer ijob jl who (Some (peer c' k)) w =
        Inr (Inr (arrived (jobs m ! unat ijob) ev, w\<lparr>env_shm := es\<rparr>), Some c2) \<and> rx c2 = [] \<and>
      env_list (ev, es) = env_list (j_envvars (jobs m ! unat ijob), env_shm m))"
  using job_transfer [OF j sem e t u k] by blast

definition shaded_job :: job where
  "shaded_job = render_job\<lparr>frame_step := 0, j_envvars := \<lparr>nvariables = 2, evshmid = 4, evsemid = -1\<rparr>\<rparr>"

definition shaded_master :: master where
  "shaded_master = example_master\<lparr>jobs := shaded_job # tl (jobs example_master),
     env_shm := shm_empty\<lparr>segs := [4 \<mapsto> [\<lparr>ev_name = ''SHADER'', ev_value = ''toon''\<rparr>, \<lparr>ev_name = ''W'', ev_value = ''640''\<rparr>]],
       next_id := 5\<rparr>\<rparr>"

lemma shaded:
  "length (jobs shaded_master) = MAXJOBS" "jobs shaded_master ! 0 = shaded_job" "semid shaded_master = sem_free" "j_used shaded_job \<noteq> 0"
  "env_list (j_envvars shaded_job, env_shm shaded_master) =
      [\<lparr>ev_name = ''SHADER'', ev_value = ''toon''\<rparr>, \<lparr>ev_name = ''W'', ev_value = ''640''\<rparr>]"
  by (simp_all add: shaded_master_def example_master_def max_defs shaded_job_def render_job_def env_list_def)

lemma shaded_env: "env_fits shaded_job (env_shm shaded_master)" "length (wire_job shaded_job (env_shm shaded_master)) = 4"
  by (simp add: env_fits_def env_ok_def shaded fits_def max_defs)
     (simp_all add: shaded shaded_job_def shaded_master_def shm_empty_def shmat_def shm_ok_def wire_job_def wire_envvars_def env_list_def)

lemma example_roomy: "roomy example_master"
  by (simp add: roomy_def generous_def example_master_def shm_empty_def shm_ok_def)

lemma fresh_unowned: "unowned (job_init user zero_job)"
  by (simp add: unowned_def job_init_def job_shared_frame_info_init_def job_shared_blocked_hosts_init_def envvars_init_def Let_def)

theorem job_transfer_roundtrip_witness:
  "\<exists>c' m' ev es c2. handle_r_r_jobxfer 0 (quiet_client []) shaded_master = Inr (c', m') \<and>
     request_job_xfer 0 (job_init ''ada'' zero_job) CLIENT (Some (peer c' 1)) example_master =
       Inr (Inr (arrived shaded_job ev, example_master\<lparr>env_shm := es\<rparr>), Some c2) \<and>
     map ev_name (env_list (ev, es)) = [''SHADER'', ''W'']"
proof -
  have "\<exists>c' m'. handle_r_r_jobxfer 0 (quiet_client []) shaded_master = Inr (c', m') \<and> jobs m' = jobs shaded_master \<and>
      semid m' = sem_free \<and> (\<exists>ev es c2. request_job_xfer 0 (job_init ''ada'' zero_job) CLIENT (Some (peer c' 1)) example_master =
        Inr (Inr (arrived (jobs shaded_master ! unat (0 :: u32)) ev, example_master\<lparr>env_shm := es\<rparr>), Some c2) \<and> rx c2 = [] \<and>
        env_list (ev, es) = env_list (j_envvars (jobs shaded_master ! unat (0 :: u32)), env_shm shaded_master))"
    by (intro job_transfer_roundtrip) (simp_all add: shaded shaded_env example_roomy fresh_unowned quiet_client_def max_defs)
  then show ?thesis by (simp add: shaded) (elim exE conjE, intro exI conjI, assumption+, simp)
qed

end
