(* ===== verification/Slave.thy ===== *)
theory Slave
  imports Client
begin

text \<open>
  The processes of a slave (\<open>slave.c\<close> and the slave's half of \<open>request.c\<close>).  They share
  \<open>struct computer\<close> and its semaphore: the main process asks the master for tasks and starts them,
  a waiter stays with each task, the listener starts a handler for each connection, and the
  consistency process looks after tasks that died.
\<close>

section \<open>State\<close>

text \<open>
  \<open>start_limits\<close> and \<open>start_flags\<close> are what \<open>slave_get_options\<close> left in \<open>sdb->limits\<close> and \<open>sdb->flags\<close>,
  \<open>phantom\<close> counts the bytes in the pipe that wakes the main process up, \<open>groups_killed\<close> are the
  process groups of tasks that were sent SIGINT.  \<open>interrupted\<close> is set by a SIGINT to the slave's own
  group: that ends the main process, by way of its handler \<open>clean_out\<close>, and the listener, the
  handlers and the consistency process, but not the waiters, which ignore it.  \<open>main_gone\<close> is set
  when the main process ends without cleaning up.
\<close>

abbreviation SDBF_SETMAXCPUS :: u16 where "SDBF_SETMAXCPUS \<equiv> 1"

record slave =
  sdb :: slave_database
  start_limits :: computer_limits
  start_flags :: u16
  slave_pools :: "cstring shm"
  phantom :: nat
  groups_killed :: "u32 list"
  interrupted :: bool
  main_gone :: bool

abbreviation slave_comp :: "slave \<Rightarrow> computer" where "slave_comp s \<equiv> comp (sdb s)"

definition upd_comp :: "(computer \<Rightarrow> computer) \<Rightarrow> slave \<Rightarrow> slave" where
  "upd_comp f s = s\<lparr>sdb := (sdb s)\<lparr>comp := f (comp (sdb s))\<rparr>\<rparr>"

definition upd_limits :: "(computer_limits \<Rightarrow> computer_limits) \<Rightarrow> slave \<Rightarrow> slave" where
  "upd_limits f = upd_comp (\<lambda>c. c\<lparr>c_limits := f (c_limits c)\<rparr>)"

definition upd_task :: "nat \<Rightarrow> (task \<Rightarrow> task) \<Rightarrow> slave \<Rightarrow> slave" where
  "upd_task i f = upd_comp (\<lambda>c. c\<lparr>c_status := (c_status c)\<lparr>tasks := (tasks (c_status c))[i := f (tasks (c_status c) ! i)]\<rparr>\<rparr>)"

text \<open>\<open>ntasks\<close> and \<open>nrunning\<close> counted again.\<close>

definition recount :: "slave \<Rightarrow> slave" where
  "recount = upd_comp (\<lambda>c. c\<lparr>c_status := (c_status c)\<lparr>ntasks := computer_ntasks c, nrunning := computer_nrunning c\<rparr>\<rparr>)"

definition lock_slave :: "slave \<Rightarrow> fault + slave" where
  "lock_slave s = andThen (lock_sdb (sdb s)) (\<lambda>d. Inr (s\<lparr>sdb := d\<rparr>))"

definition release_slave :: "slave \<Rightarrow> slave" where
  "release_slave s = s\<lparr>sdb := release_sdb (sdb s)\<rparr>"

text \<open>A section that runs with the semaphore locked.\<close>

definition locked :: "(slave \<Rightarrow> slave) \<Rightarrow> slave \<Rightarrow> fault + slave" where
  "locked f s = andThen (lock_slave s) (\<lambda>s. Inr (release_slave (f s)))"

text \<open>\<open>sdb->comp->status.task[i]\<close>.\<close>

definition task_at :: "nat \<Rightarrow> slave \<Rightarrow> fault + task" where
  "task_at i s = rd (tasks (c_status (slave_comp s))) i"

section \<open>Requests the slave serves\<close>

text \<open>
  \<open>kill (-pid, SIGINT)\<close> in the handler of a kill request.  For the pid 0 of a task whose process has
  not been started yet this is the slave's own group.
\<close>

definition kill_group :: "u32 \<Rightarrow> slave \<Rightarrow> slave" where
  "kill_group pid s = (if pid = 0 then s\<lparr>interrupted := True\<rparr> else s\<lparr>groups_killed := groups_killed s @ [pid]\<rparr>)"

definition handle_rs_r_killtask :: "request \<Rightarrow> slave \<Rightarrow> fault + slave" where
  "handle_rs_r_killtask req s = andThen (task_at (unat (rq_data req)) s) (\<lambda>t. Inr (kill_group (t_pid t) s))"

text \<open>
  The limits are changed under the lock and a copy is sent to the master; the result of that is
  ignored.
\<close>

definition change_limits ::
    "(computer_limits \<Rightarrow> computer_limits) \<Rightarrow> u32 \<Rightarrow> conn option \<Rightarrow> slave \<Rightarrow> fault + conn option \<times> slave" where
  "change_limits f junk sfd s =
     andThen (locked (upd_limits f) s) (\<lambda>s.
     andThen (update_computer_limits junk (c_limits (slave_comp s)) sfd (slave_pools s)) (\<lambda>((_, sfd), _). Inr (sfd, s)))"

definition handle_rs_r_setnmaxcpus :: "request \<Rightarrow> u32 \<Rightarrow> conn option \<Rightarrow> slave \<Rightarrow> fault + conn option \<times> slave" where
  "handle_rs_r_setnmaxcpus req junk sfd s =
     (let ncpus = hw_ncpus (hwinfo (slave_comp s))
      in change_limits (\<lambda>cl. cl\<lparr>cl_nmaxcpus := (if rq_data req < ucast ncpus then ucast (rq_data req) else ncpus)\<rparr>) junk sfd s)"

definition handle_rs_r_setenabled :: "request \<Rightarrow> u32 \<Rightarrow> conn option \<Rightarrow> slave \<Rightarrow> fault + conn option \<times> slave" where
  "handle_rs_r_setenabled req = change_limits (\<lambda>cl. cl\<lparr>cl_enabled := ucast (rq_data req)\<rparr>)"

definition handle_rs_r_setmaxfreeloadcpu :: "request \<Rightarrow> u32 \<Rightarrow> conn option \<Rightarrow> slave \<Rightarrow> fault + conn option \<times> slave" where
  "handle_rs_r_setmaxfreeloadcpu req = change_limits (\<lambda>cl. cl\<lparr>cl_maxfreeloadcpu := ucast (rq_data req)\<rparr>)"

text \<open>The hour, the minute and the flags arrive in three requests; \<open>kill (0, SIGINT)\<close> ends the handler, too.\<close>

definition handle_rs_r_setautoenable ::
    "request \<Rightarrow> u32 \<Rightarrow> conn option \<Rightarrow> conn \<Rightarrow> slave \<Rightarrow> fault + conn option \<times> conn \<times> slave" where
  "handle_rs_r_setautoenable req junk sfd c s =
     (let h = rq_data req mod 24
      in expect (recv_request c) (\<lambda>c. Inr (sfd, c, s\<lparr>interrupted := True\<rparr>)) (\<lambda>req c.
         let m = rq_data req mod 60
         in expect (recv_request c) (\<lambda>c. Inr (sfd, c, s\<lparr>interrupted := True\<rparr>)) (\<lambda>req c.
           andThen (change_limits (\<lambda>cl. cl\<lparr>cl_autoenable :=
               \<lparr>ae_last = ucast (sdb_now (sdb s)) - AE_DELAY, ae_h = ucast h, ae_m = ucast m, ae_flags = ucast (rq_data req)\<rparr>\<rparr>)
             junk sfd s) (\<lambda>(sfd, s). Inr (sfd, c, s)))))"

text \<open>The pools are changed in place, and the master is sent the shared structure itself.\<close>

definition change_pools ::
    "(pool_state \<Rightarrow> fault + bool \<times> pool_state) \<Rightarrow> u32 \<Rightarrow> conn option \<Rightarrow> slave \<Rightarrow> fault + conn option \<times> slave" where
  "change_pools f junk sfd s =
     andThen (lock_slave s) (\<lambda>s.
     andThen (f (c_limits (slave_comp s), slave_pools s)) (\<lambda>(_, cl, ps).
     let s = release_slave (upd_limits (\<lambda>_. cl) (s\<lparr>slave_pools := ps\<rparr>))
     in andThen (update_computer_limits junk (c_limits (slave_comp s)) sfd (slave_pools s)) (\<lambda>((_, sfd), cl).
          Inr (sfd, upd_limits (\<lambda>_. cl) s))))"

definition handle_rs_r_limitspooladd :: "u32 \<Rightarrow> conn option \<Rightarrow> conn \<Rightarrow> slave \<Rightarrow> fault + conn option \<times> conn \<times> slave" where
  "handle_rs_r_limitspooladd junk sfd c s =
     expect (recv_string c) (\<lambda>c. Inr (sfd, c, s)) (\<lambda>pool c.
       andThen (change_pools (computer_pool_add pool) junk sfd s) (\<lambda>(sfd, s). Inr (sfd, c, s)))"

definition handle_rs_r_limitspoolremove :: "u32 \<Rightarrow> conn option \<Rightarrow> conn \<Rightarrow> slave \<Rightarrow> fault + conn option \<times> conn \<times> slave" where
  "handle_rs_r_limitspoolremove junk sfd c s =
     expect (recv_string c) (\<lambda>c. Inr (sfd, c, s)) (\<lambda>pool c.
       andThen (change_pools (computer_pool_remove pool) junk sfd s) (\<lambda>(sfd, s). Inr (sfd, c, s)))"

text \<open>
  \<open>handle_request_slave\<close>: \<open>c\<close> is the connection it was called for, \<open>sfd\<close> the one it opens to the master when
  it has to.  The handler process exits in the end, which undoes the semaphore operations it left
  open.
\<close>

definition slave_process_exit :: "slave \<Rightarrow> slave" where
  "slave_process_exit s = s\<lparr>sdb := (sdb s)\<lparr>sdb_semid := sem_exit (sdb_semid (sdb s))\<rparr>\<rparr>"

definition with_conn :: "conn \<Rightarrow> fault + conn option \<times> slave \<Rightarrow> fault + conn option \<times> conn \<times> slave" where
  "with_conn c r = andThen r (\<lambda>(sfd, s). Inr (sfd, c, s))"

definition serve_slave :: "u32 \<Rightarrow> request \<Rightarrow> conn option \<Rightarrow> conn \<Rightarrow> slave \<Rightarrow> fault + conn option \<times> conn \<times> slave" where
  "serve_slave junk req sfd c s =
     (if rq_type req = RS_R_KILLTASK then andThen (handle_rs_r_killtask req s) (\<lambda>s. Inr (sfd, c, s))
      else if rq_type req = RS_R_SETNMAXCPUS then with_conn c (handle_rs_r_setnmaxcpus req junk sfd s)
      else if rq_type req = RS_R_SETENABLED then with_conn c (handle_rs_r_setenabled req junk sfd s)
      else if rq_type req = RS_R_SETMAXFREELOADCPU then with_conn c (handle_rs_r_setmaxfreeloadcpu req junk sfd s)
      else if rq_type req = RS_R_SETAUTOENABLE then handle_rs_r_setautoenable req junk sfd c s
      else if rq_type req = RS_R_JOBAVAILABLE then Inr (sfd, c, s\<lparr>phantom := phantom s + 1\<rparr>)
      else if rq_type req = RS_R_LIMITSPOOLADD then handle_rs_r_limitspooladd junk sfd c s
      else if rq_type req = RS_R_LIMITSPOOLREMOVE then handle_rs_r_limitspoolremove junk sfd c s
      else Inr (sfd, c, s))"

definition handle_request_slave :: "u32 \<Rightarrow> conn option \<Rightarrow> conn \<Rightarrow> slave \<Rightarrow> fault + conn option \<times> conn \<times> slave" where
  "handle_request_slave junk sfd c s =
     expect (recv_request c) (\<lambda>c. Inr (sfd, c, slave_process_exit s)) (\<lambda>req c.
       andThen (serve_slave junk req sfd c s) (\<lambda>(sfd, c, s). Inr (sfd, c, slave_process_exit s)))"

section \<open>Asking for a task\<close>

text \<open>\<open>task_init\<close> of a reserved slot when the exchange breaks off.\<close>

definition give_slot_back :: "u16 \<Rightarrow> slave \<Rightarrow> fault + slave" where
  "give_slot_back itask = locked (upd_task (unat itask) task_init)"

text \<open>With a slot reserved: the slave accepts the task, says where it goes, and receives it.\<close>

definition accept_task :: "u16 \<Rightarrow> conn \<Rightarrow> slave \<Rightarrow> fault + u16 option \<times> conn option \<times> slave" where
  "accept_task itask c s =
     (let back = (\<lambda>c. andThen (give_slot_back itask s) (\<lambda>s. Inr (None, Some c, s)))
      in sending (send_request R_R_AVAILJOB RERR_NOERROR SLAVE c) back (\<lambda>c.
         sending (send_request R_R_AVAILJOB (ucast itask) SLAVE c) back (\<lambda>c.
         expect (recv_task c) back (\<lambda>ttask c.
           andThen (locked (\<lambda>s. recount (upd_task (unat itask) (\<lambda>_. ttask\<lparr>t_status := TASKSTATUS_LOADING\<rparr>) s)) s)
             (\<lambda>s. Inr (Some itask, Some c, s))))))"

text \<open>
  \<open>request_job_available\<close>; the first result is \<open>Some itask\<close> when it returns 1.  \<open>junk\<close> is the
  \<open>data\<close> of the first request, which is never set.
\<close>

definition request_job_available ::
    "u32 \<Rightarrow> conn option \<Rightarrow> slave \<Rightarrow> fault + u16 option \<times> conn option \<times> slave" where
  "request_job_available junk sfd s = (case sfd of None \<Rightarrow> Inr (None, None, s) | Some c \<Rightarrow>
     sending (send_request R_R_AVAILJOB junk SLAVE c) (\<lambda>c. Inr (None, Some c, s)) (\<lambda>c.
     expect (recv_request c) (\<lambda>c. Inr (None, Some c, s)) (\<lambda>req c.
     if rq_type req \<noteq> R_R_AVAILJOB \<or> rq_data req \<noteq> RERR_NOERROR then Inr (None, Some c, s)
     else andThen (task_available (sdb s)) (\<lambda>(itask, d).
       if itask = -1
       then Inr (None, Some (snd (send_request R_R_AVAILJOB RERR_NOSPACE SLAVE c)), s\<lparr>sdb := d\<rparr>)
       else accept_task itask c (s\<lparr>sdb := d\<rparr>)))))"

section \<open>Running a task\<close>

text \<open>
  \<open>launch_task\<close> in the main process: when no waiter can be created, the slot is freed and the
  main process exits with 1.
\<close>

definition drop_task :: "u16 \<Rightarrow> slave \<Rightarrow> fault + slave" where
  "drop_task itask = locked (upd_task (unat itask) (\<lambda>t. t\<lparr>t_used := 0\<rparr>))"

definition launch_task :: "bool \<Rightarrow> u16 \<Rightarrow> slave \<Rightarrow> fault + slave" where
  "launch_task forked itask s =
     (if forked then Inr s else andThen (drop_task itask s) (\<lambda>s. Inr (s\<lparr>main_gone := True\<rparr>)))"

text \<open>
  The waiter, once it has created the task process \<open>task_pid\<close>, or \<open>-1\<close> when that failed.
\<close>

definition task_started :: "u16 \<Rightarrow> u32 \<Rightarrow> slave \<Rightarrow> fault + slave" where
  "task_started itask task_pid s =
     locked (\<lambda>s. recount (upd_task (unat itask) (\<lambda>t. t\<lparr>t_status := TASKSTATUS_LOADING,
         t_start_loading_time := sdb_now (sdb s), t_pid := task_pid\<rparr>) s)) s"

text \<open>
  What \<open>waitpid\<close> tells of the end of a process, as its macros read it: the signal (at most 127), or
  the exit code (at most 255).
\<close>

datatype wait_status = Signaled u32 | Exited u32 | Neither

definition exit_status :: "wait_status \<Rightarrow> u32" where
  "exit_status rc = (case rc of
       Signaled n \<Rightarrow> (0 OR DR_SIGNALEDFLAG) OR n
     | Exited n \<Rightarrow> (0 OR DR_EXITEDFLAG) OR n
     | Neither \<Rightarrow> 0)"

text \<open>
  \<open>request_task_finished\<close>.  The waiter ignores SIGINT, so it goes on after \<open>kill (0, SIGINT)\<close>: without a
  connection all it tries fails, and when the answer does not arrive it looks at what is in \<open>req\<close>,
  of which \<open>junk\<close> is the \<open>data\<close>.
\<close>

definition report_task :: "request \<Rightarrow> u16 \<Rightarrow> conn \<Rightarrow> slave \<Rightarrow> fault + conn option \<times> slave" where
  "report_task req itask c s =
     (if rq_type req = R_R_TASKFINI \<and> rq_data req = RERR_NOERROR
      then andThen (task_at (unat itask) s) (\<lambda>t. Inr (Some (snd (send_msg (MTask t) c)), s))
      else Inr (Some c, s))"

definition request_task_finished :: "u32 \<Rightarrow> u16 \<Rightarrow> conn option \<Rightarrow> slave \<Rightarrow> fault + conn option \<times> slave" where
  "request_task_finished junk itask sfd s = (case sfd of None \<Rightarrow> Inr (None, s\<lparr>interrupted := True\<rparr>) | Some c \<Rightarrow>
     (case send_request R_R_TASKFINI junk SLAVE_LAUNCHER c of (sent, c) \<Rightarrow>
        let s = s\<lparr>interrupted := (interrupted s \<or> \<not> sent)\<rparr>
        in expect (recv_request c)
             (\<lambda>c. report_task \<lparr>rq_type = R_R_TASKFINI, rq_who = SLAVE_LAUNCHER, rq_data = junk\<rparr> itask c (s\<lparr>interrupted := True\<rparr>))
             (\<lambda>req c. report_task req itask c s)))"

text \<open>The waiter after \<open>waitpid\<close>, whose failure is \<open>None\<close>; the process exits then.\<close>

definition task_ended ::
    "u32 \<Rightarrow> u16 \<Rightarrow> wait_status option \<Rightarrow> conn option \<Rightarrow> slave \<Rightarrow> fault + conn option \<times> slave" where
  "task_ended junk itask w sfd s = (case w of
       None \<Rightarrow> andThen (locked (\<lambda>s. recount (upd_task (unat itask) (\<lambda>t. t\<lparr>t_used := 0\<rparr>) s)) s) (\<lambda>s. Inr (sfd, s))
     | Some rc \<Rightarrow>
         andThen (locked (\<lambda>s. upd_task (unat itask) (\<lambda>t. t\<lparr>t_exitstatus := exit_status rc\<rparr>)
             (recount (upd_task (unat itask) (\<lambda>t. t\<lparr>t_exitstatus := 0, t_status := TASKSTATUS_FINISHED\<rparr>) s))) s) (\<lambda>s.
         andThen (request_task_finished junk itask sfd s) (\<lambda>(sfd, s).
         andThen (drop_task itask s) (\<lambda>s. Inr (sfd, s)))))"

section \<open>The consistency process\<close>

text \<open>
  One task: \<open>alive pid\<close> is whether \<open>kill (pid, 0)\<close> finds a process.  A task that is \<^emph>\<open>not\<close> loading any
  more is kept for the time a task may take to load; one that is loading is dropped at once.
\<close>

definition check_task :: "(u32 \<Rightarrow> bool) \<Rightarrow> u64 \<Rightarrow> task \<Rightarrow> task" where
  "check_task alive now t =
     (if t_used t \<noteq> 0 \<and> \<not> alive (t_pid t) then
        if t_status t \<noteq> TASKSTATUS_LOADING \<and> now \<noteq> -1 \<and> now - t_start_loading_time t < MAXTASKLOADINGTIME then t
        else t\<lparr>t_used := 0\<rparr>
      else if t_used t \<noteq> 0 \<and> t_status t = TASKSTATUS_LOADING then t\<lparr>t_status := TASKSTATUS_RUNNING\<rparr>
      else t)"

text \<open>One pass over the slots \<open>i, i + 1, \<dots>\<close>, each change under the lock.\<close>

fun consistency_from :: "(u32 \<Rightarrow> bool) \<Rightarrow> nat \<Rightarrow> nat \<Rightarrow> slave \<Rightarrow> fault + slave" where
  "consistency_from alive i 0 s = Inr s"
| "consistency_from alive i (Suc n) s =
     andThen (task_at i s) (\<lambda>t.
       let t' = check_task alive (sdb_now (sdb s)) t
       in if t' = t then consistency_from alive (Suc i) n s
          else andThen (locked (upd_task i (check_task alive (sdb_now (sdb s)))) s) (consistency_from alive (Suc i) n))"

definition slave_consistency_pass :: "(u32 \<Rightarrow> bool) \<Rightarrow> slave \<Rightarrow> fault + slave" where
  "slave_consistency_pass alive = consistency_from alive 0 MAXTASKS"

section \<open>The main process\<close>

text \<open>
  Each of these stops at a \<open>kill (0, SIGINT)\<close>.  \<open>update_computer_status\<close> sends a copy of the status.
\<close>

definition update_computer_status :: "u32 \<Rightarrow> conn option \<Rightarrow> slave \<Rightarrow> fault + conn option \<times> slave" where
  "update_computer_status junk sfd s = (case sfd of None \<Rightarrow> Inr (None, s\<lparr>interrupted := True\<rparr>) | Some c \<Rightarrow>
     sending (send_request R_R_UCSTATUS junk SLAVE c) (\<lambda>c. Inr (Some c, s\<lparr>interrupted := True\<rparr>)) (\<lambda>c.
     expect (recv_request c) (\<lambda>c. Inr (Some c, s\<lparr>interrupted := True\<rparr>)) (\<lambda>req c.
       if rq_type req \<noteq> R_R_UCSTATUS then Inr (Some c, s)
       else if rq_data req = RERR_NOERROR then
         andThen (locked (\<lambda>s. s) s) (\<lambda>s. Inr (Some (snd (send_computer_status (c_status (slave_comp s)) c)), s))
       else if rq_data req = RERR_NOREGIS then Inr (Some c, s\<lparr>interrupted := True\<rparr>)
       else Inr (Some c, s))))"

definition register_slave :: "u32 \<Rightarrow> conn option \<Rightarrow> slave \<Rightarrow> conn option \<times> slave" where
  "register_slave junk sfd s = (case sfd of None \<Rightarrow> (None, s\<lparr>interrupted := True\<rparr>) | Some c \<Rightarrow>
     sending (send_request R_R_REGISTER junk SLAVE c) (\<lambda>c. (Some c, s\<lparr>interrupted := True\<rparr>)) (\<lambda>c.
     expect (recv_request c) (\<lambda>c. (Some c, s\<lparr>interrupted := True\<rparr>)) (\<lambda>req c.
       if rq_type req = R_R_REGISTER \<and> rq_data req = RERR_NOERROR then
         expect (recv_request c) (\<lambda>c. (Some c, s\<lparr>interrupted := True\<rparr>)) (\<lambda>req c.
           let s = upd_comp (\<lambda>k. k\<lparr>hwinfo := (hwinfo k)\<lparr>hw_id := rq_data req\<rparr>, c_used := 1\<rparr>) s
           in sending (send_msg (MHwinfo (hwinfo (slave_comp s))) c) (\<lambda>c. (Some c, s\<lparr>interrupted := True\<rparr>)) (\<lambda>c. (Some c, s)))
       else (Some c, s\<lparr>interrupted := True\<rparr>))))"

definition slave_set_limits :: "slave \<Rightarrow> slave" where
  "slave_set_limits s =
     (let s = (if ae_flags (cl_autoenable (start_limits s)) AND AEF_ACTIVE \<noteq> 0
               then upd_limits (\<lambda>cl. cl\<lparr>cl_autoenable := (cl_autoenable cl)
                      \<lparr>ae_flags := ae_flags (cl_autoenable (start_limits s)), ae_h := ae_h (cl_autoenable (start_limits s)) mod 24,
                       ae_m := ae_m (cl_autoenable (start_limits s)) mod 60\<rparr>\<rparr>) s
               else s)
      in if start_flags s AND SDBF_SETMAXCPUS \<noteq> 0
         then upd_limits (\<lambda>cl. cl\<lparr>cl_nmaxcpus :=
                (if cl_nmaxcpus (start_limits s) > cl_nmaxcpus cl then cl_nmaxcpus cl else cl_nmaxcpus (start_limits s))\<rparr>) s
         else s)"

text \<open>
  The start of \<open>main\<close>: \<open>env_enabled\<close> and \<open>env_max_cpus\<close> are the slave's \<open>DRQUEUE_ENABLED\<close> and
  \<open>DRQUEUE_MAX_CPUS\<close>, \<open>env_pool\<close> its \<open>DRQUEUE_POOL\<close>, \<open>hw\<close> what \<open>get_hwinfo\<close> finds out, and the two
  connections those of the registration and of the limits.
\<close>

definition slave_start ::
    "u8 option \<Rightarrow> u16 option \<Rightarrow> cstring option \<Rightarrow> computer_hwinfo \<Rightarrow> u32 \<Rightarrow> conn option \<Rightarrow> conn option \<Rightarrow> slave \<Rightarrow> fault + slave" where
  "slave_start enabled max_cpus env_pool hw junk reg_sfd lim_sfd s =
     (let s = upd_comp (computer_init enabled max_cpus) s;
          s = upd_comp (\<lambda>k. k\<lparr>c_used := 1, hwinfo := hw\<rparr>) s;
          s = slave_set_limits (upd_comp computer_limits_cpu_init s);
          s = snd (register_slave junk reg_sfd s)
      in if interrupted s then Inr s
         else andThen (computer_pool_set_from_environment env_pool (c_limits (slave_comp s), slave_pools s)) (\<lambda>(_, cl, ps).
              andThen (update_computer_limits junk cl lim_sfd ps) (\<lambda>(_, cl).
                Inr (upd_limits (\<lambda>_. cl) (s\<lparr>slave_pools := ps\<rparr>)))))"

text \<open>
  The loop over the tasks the master has to offer, which the source warns could run for ever.
  Each turn is what the environment does in one round; the result says whether the loop ended
  within the turns that are given.
\<close>

record turn =
  ask_conn :: "conn option"
  waiter_forked :: bool
  status_conn :: "conn option"

fun take_tasks :: "u32 \<Rightarrow> turn list \<Rightarrow> slave \<Rightarrow> fault + bool \<times> slave" where
  "take_tasks junk [] s = Inr (\<not> computer_available (slave_comp s), s)"
| "take_tasks junk (e # es) s =
     (if \<not> computer_available (slave_comp s) then Inr (True, s)
      else andThen (request_job_available junk (ask_conn e) s) (\<lambda>(got, _, s).
        case got of None \<Rightarrow> Inr (True, s) | Some itask \<Rightarrow>
          andThen (launch_task (waiter_forked e) itask s) (\<lambda>s.
            if main_gone s then Inr (True, s)
            else andThen (update_computer_status junk (status_conn e) s) (\<lambda>(_, s).
              if interrupted s then Inr (True, s) else take_tasks junk es s))))"

text \<open>One round of the main loop up to its \<open>select\<close>, at the local time \<open>hour:minute\<close>.\<close>

definition slave_round ::
    "u16 list \<Rightarrow> (u32 \<Rightarrow> bool) \<Rightarrow> int \<Rightarrow> int \<Rightarrow> u32 \<Rightarrow> conn option \<Rightarrow> turn list \<Rightarrow> conn option \<Rightarrow> slave \<Rightarrow> fault + bool \<times> slave" where
  "slave_round load alive hour minute junk lim_sfd turns sfd s =
     andThen (get_computer_status load alive (sdb s)) (\<lambda>d.
     andThen (computer_autoenable_check hour minute d) (\<lambda>(changed, d).
     let s = s\<lparr>sdb := d\<rparr>
     in andThen (if changed then update_computer_limits junk (c_limits (slave_comp s)) lim_sfd (slave_pools s)
                 else Inr ((Inr (), lim_sfd), c_limits (slave_comp s))) (\<lambda>_.
        andThen (take_tasks junk turns s) (\<lambda>(ended, s).
          if \<not> ended \<or> main_gone s \<or> interrupted s then Inr (ended, s)
          else andThen (update_computer_status junk sfd s) (\<lambda>(_, s). Inr (True, s))))))"

end
