(* ===== verification/Running.thy ===== *)
theory Running
  imports Slave Yields
begin

text \<open>
  What stays true on a slave while its processes run: the shape of its record, the bounds on its
  limits and the count of running tasks.  Also the two places where it can go wrong for a task: the
  exchange that reserves a slot for it, and the checks that decide whether it still runs.
\<close>

section \<open>Pools do not touch the other limits\<close>

definition own_limits :: "computer_limits \<Rightarrow> u8 \<times> u16 \<times> u16 \<times> autoenable" where
  "own_limits cl = (cl_enabled cl, cl_nmaxcpus cl, cl_maxfreeloadcpu cl, cl_autoenable cl)"

lemma own_limits_pool [simp]:
  "own_limits (computer_pool_init cl) = own_limits cl"
  "own_limits (computer_pool_detach_shared_memory cl) = own_limits cl"
  "own_limits (computer_pool_copy src cl) = own_limits cl"
  "own_limits (cl\<lparr>npools := n\<rparr>) = own_limits cl" "own_limits (cl\<lparr>poolshmid := i\<rparr>) = own_limits cl"
  "own_limits (cl\<lparr>pool_ptr := p\<rparr>) = own_limits cl" "own_limits (cl\<lparr>local_pool := lp\<rparr>) = own_limits cl"
  by (simp_all add: own_limits_def computer_pool_init_def computer_pool_detach_shared_memory_def computer_pool_copy_def)

lemma own_limits_attach:
  "computer_pool_attach_shared_memory (cl, s) = (r, cl') \<Longrightarrow> own_limits cl' = own_limits cl"
  by (auto simp: computer_pool_attach_shared_memory_def split: option.splits)

lemma own_limits_free:
  "computer_pool_free (cl, s) = (rv, cl', s') \<Longrightarrow> own_limits cl' = own_limits cl"
  by (auto simp: computer_pool_free_def Let_def split: if_splits prod.splits)

lemma pool_exists_own [yields_rules]:
  "(\<And>b cl' s'. own_limits cl' = own_limits cl \<Longrightarrow> P (b, cl', s')) \<Longrightarrow> yields (computer_pool_exists p (cl, s)) P"
  unfolding computer_pool_exists_def by (intro yields_rules yields_any) (auto dest: own_limits_attach)

lemma pool_append_own:
  "(\<And>b cl' s'. own_limits cl' = own_limits cl \<Longrightarrow> P (b, cl', s')) \<Longrightarrow> yields (pool_append p old (cl, s)) P"
  unfolding pool_append_def Let_def
  by (intro yields_rules yields_any) (auto dest!: own_limits_attach own_limits_free)

lemma pool_add_own [yields_rules]:
  "(\<And>b cl' s'. own_limits cl' = own_limits cl \<Longrightarrow> P (b, cl', s')) \<Longrightarrow> yields (computer_pool_add p (cl, s)) P"
  unfolding computer_pool_add_def
  by (intro yields_rules pool_append_own) (auto dest!: own_limits_attach)

lemma pool_remove_own [yields_rules]:
  "(\<And>b cl' s'. own_limits cl' = own_limits cl \<Longrightarrow> P (b, cl', s')) \<Longrightarrow> yields (computer_pool_remove p (cl, s)) P"
  unfolding computer_pool_remove_def Let_def
  by (intro yields_rules yields_any) (auto dest!: own_limits_attach own_limits_free)

lemma pools_join_own:
  "(\<And>cl' s'. own_limits cl' = own_limits cl \<Longrightarrow> P (cl', s')) \<Longrightarrow> yields (pools_join ps (cl, s)) P"
proof (induction ps arbitrary: cl s)
  case (Cons p ps)
  show ?case unfolding pools_join.simps
    by (intro yields_andThen pool_add_own yields_prod) (use Cons in auto)
qed simp

lemma pool_set_own [yields_rules]:
  "(\<And>b cl' s'. own_limits cl' = own_limits cl \<Longrightarrow> P (b, cl', s')) \<Longrightarrow>
   yields (computer_pool_set_from_environment env (cl, s)) P"
  unfolding computer_pool_set_from_environment_def
  by (intro yields_rules pools_join_own) auto

lemma send_pools_own:
  "(\<And>b c' cl'. own_limits cl' = own_limits cl \<Longrightarrow> P (b, c', cl')) \<Longrightarrow> yields (send_computer_pools l (cl, s) c) P"
  unfolding send_computer_pools_def by (intro yields_rules) (auto dest: own_limits_attach)

lemma update_limits_own [yields_rules]:
  "(\<And>r cl'. own_limits cl' = own_limits cl \<Longrightarrow> P (r, cl')) \<Longrightarrow> yields (update_computer_limits junk cl sfd s) P"
  unfolding update_computer_limits_def send_computer_limits_def
  by (intro yields_rules send_pools_own) auto

section \<open>The invariant\<close>

text \<open>
  The number of processors the master may use never exceeds those there are, the hour and the minute
  of the automatic start are such, and \<open>nrunning\<close>, which \<open>computer_available\<close> trusts, is never below
  the number of tasks that run.
\<close>

definition limits_ok :: "computer_hwinfo \<Rightarrow> computer_limits \<Rightarrow> bool" where
  "limits_ok hw cl \<longleftrightarrow> cl_nmaxcpus cl \<le> hw_ncpus hw \<and> ae_h (cl_autoenable cl) < 24 \<and> ae_m (cl_autoenable cl) < 60"

definition status_ok :: "computer_status \<Rightarrow> bool" where
  "status_ok st \<longleftrightarrow> length (tasks st) = MAXTASKS \<and> count_if task_is_running (tasks st) \<le> unat (nrunning st)"

definition slave_ok :: "slave \<Rightarrow> bool" where
  "slave_ok s \<longleftrightarrow> sdb_semid (sdb s) = sem_free \<and> limits_ok (hwinfo (slave_comp s)) (c_limits (slave_comp s)) \<and>
     status_ok (c_status (slave_comp s))"

lemma slave_okD:
  assumes "slave_ok s"
  shows "sdb_semid (sdb s) = sem_free" "length (tasks (c_status (slave_comp s))) = MAXTASKS"
  using assms by (simp_all add: slave_ok_def status_ok_def)

lemma limits_ok_own: "own_limits cl' = own_limits cl \<Longrightarrow> limits_ok hw cl' = limits_ok hw cl"
  by (simp add: own_limits_def limits_ok_def)

lemma count_if_le_tasks: "length ts = MAXTASKS \<Longrightarrow> count_if P ts \<le> 32"
  using count_if_le [of P ts] by (simp add: max_defs)

lemma unat_computer_nrunning:
  "length (tasks (c_status c)) = MAXTASKS \<Longrightarrow> unat (computer_nrunning c) = count_if task_is_running (tasks (c_status c))"
  using count_if_le_tasks [of "tasks (c_status c)" task_is_running] by (simp add: computer_nrunning_def unat_of_nat)

lemma recounted_ok: "length (tasks st) = MAXTASKS \<Longrightarrow> c_status c = st \<Longrightarrow>
   status_ok (st\<lparr>ntasks := n, nrunning := computer_nrunning c\<rparr>)"
  by (auto simp: status_ok_def unat_computer_nrunning)

text \<open>A slot that changes without running more than before.\<close>

lemma count_if_update_le:
  "(P x \<Longrightarrow> P (xs ! i)) \<Longrightarrow> count_if P (xs[i := x]) \<le> count_if P xs"
proof (cases "i < length xs")
  case True
  assume "P x \<Longrightarrow> P (xs ! i)"
  then show ?thesis
    using True count_if_update_lose [of i xs P x] count_if_update_same [of i xs P x] by (cases "P x"; cases "P (xs ! i)") auto
qed (simp add: list_update_beyond)

lemma slot_update_ok:
  assumes "status_ok st" "task_is_running (f (tasks st ! i)) \<Longrightarrow> task_is_running (tasks st ! i)"
  shows "status_ok (st\<lparr>tasks := (tasks st)[i := f (tasks st ! i)]\<rparr>)"
  using assms count_if_update_le [of task_is_running "f (tasks st ! i)" "tasks st" i]
  by (simp add: status_ok_def)

section \<open>Locked sections\<close>

lemma upd_comp_sdb [simp]:
  "sdb_semid (sdb (upd_comp f s)) = sdb_semid (sdb s)" "sdb_now (sdb (upd_comp f s)) = sdb_now (sdb s)"
  "comp (sdb (upd_comp f s)) = f (comp (sdb s))" "interrupted (upd_comp f s) = interrupted s"
  "main_gone (upd_comp f s) = main_gone s" "slave_pools (upd_comp f s) = slave_pools s"
  "start_limits (upd_comp f s) = start_limits s" "start_flags (upd_comp f s) = start_flags s"
  by (simp_all add: upd_comp_def)

lemma locked_upd:
  assumes "sdb_semid (sdb s) = sem_free" "\<And>d. sdb_now d = sdb_now (sdb s) \<Longrightarrow> f (s\<lparr>sdb := d\<rparr>) = upd_comp g (s\<lparr>sdb := d\<rparr>)"
  shows "locked f s = Inr (upd_comp g s)"
  using assms by (simp add: locked_def lock_slave_def release_slave_def upd_comp_def)

lemma locked_upd_comp: "sdb_semid (sdb s) = sem_free \<Longrightarrow> locked (upd_comp g) s = Inr (upd_comp g s)"
  by (simp add: locked_upd)

lemma upd_comp_twice [simp]: "upd_comp f (upd_comp g s) = upd_comp (\<lambda>c. f (g c)) s"
  by (simp add: upd_comp_def)

text \<open>The sections of the model, each the change it makes to the computer.\<close>

definition put_task :: "nat \<Rightarrow> (task \<Rightarrow> task) \<Rightarrow> computer \<Rightarrow> computer" where
  "put_task i f c = c\<lparr>c_status := (c_status c)\<lparr>tasks := (tasks (c_status c))[i := f (tasks (c_status c) ! i)]\<rparr>\<rparr>"

definition count_again :: "computer \<Rightarrow> computer" where
  "count_again c = c\<lparr>c_status := (c_status c)\<lparr>ntasks := computer_ntasks c, nrunning := computer_nrunning c\<rparr>\<rparr>"

lemma upd_task_comp: "upd_task i f = upd_comp (put_task i f)"
  by (simp add: upd_task_def put_task_def [abs_def])

lemma recount_comp: "recount = upd_comp count_again"
  by (simp add: recount_def count_again_def [abs_def])

lemmas upd_as_comp = upd_task_comp recount_comp upd_limits_def

definition comp_ok :: "computer \<Rightarrow> bool" where
  "comp_ok c \<longleftrightarrow> limits_ok (hwinfo c) (c_limits c) \<and> status_ok (c_status c)"

lemma slave_ok_comp: "slave_ok s \<longleftrightarrow> sdb_semid (sdb s) = sem_free \<and> comp_ok (comp (sdb s))"
  by (auto simp: slave_ok_def comp_ok_def)

lemma comp_ok_recounted:
  "limits_ok (hwinfo c) (c_limits c) \<Longrightarrow> length (tasks (c_status c)) = MAXTASKS \<Longrightarrow> comp_ok (count_again (put_task i f c))"
  by (simp add: comp_ok_def count_again_def recounted_ok put_task_def)

lemma comp_ok_put:
  "comp_ok c \<Longrightarrow> (task_is_running (f (tasks (c_status c) ! i)) \<Longrightarrow> task_is_running (tasks (c_status c) ! i)) \<Longrightarrow>
   comp_ok (put_task i f c)"
  by (simp add: comp_ok_def put_task_def slot_update_ok)

lemma comp_okD: "comp_ok c \<Longrightarrow> limits_ok (hwinfo c) (c_limits c)" "comp_ok c \<Longrightarrow> length (tasks (c_status c)) = MAXTASKS"
  by (simp_all add: comp_ok_def status_ok_def)

lemma upd_comp_ok: "slave_ok s \<Longrightarrow> (comp_ok (comp (sdb s)) \<Longrightarrow> comp_ok (g (comp (sdb s)))) \<Longrightarrow> slave_ok (upd_comp g s)"
  by (simp add: slave_ok_comp)

lemma slave_ok_other [simp]:
  "slave_ok (s\<lparr>interrupted := b\<rparr>) = slave_ok s" "slave_ok (s\<lparr>main_gone := b\<rparr>) = slave_ok s"
  "slave_ok (s\<lparr>phantom := n\<rparr>) = slave_ok s" "slave_ok (s\<lparr>groups_killed := g\<rparr>) = slave_ok s"
  "slave_ok (s\<lparr>slave_pools := ps\<rparr>) = slave_ok s"
  by (simp_all add: slave_ok_def)

lemma locked_comp_ok [yields_rules]:
  assumes "slave_ok s" "\<And>d. sdb_now d = sdb_now (sdb s) \<Longrightarrow> f (s\<lparr>sdb := d\<rparr>) = upd_comp g (s\<lparr>sdb := d\<rparr>)" "comp_ok (comp (sdb s)) \<Longrightarrow> comp_ok (g (comp (sdb s)))"
    "slave_ok (upd_comp g s) \<Longrightarrow> P (upd_comp g s)"
  shows "yields (locked f s) P"
  using assms locked_upd [of s f g] upd_comp_ok [of s g] by (simp add: slave_okD)

section \<open>Requests keep the invariant\<close>

lemma task_at_rule [yields_rules]: "(\<And>t. P t) \<Longrightarrow> yields (task_at i s) P"
  by (rule yields_any)

lemma change_limits_ok [yields_rules]:
  assumes "slave_ok s" "\<And>cl. limits_ok (hwinfo (slave_comp s)) cl \<Longrightarrow> limits_ok (hwinfo (slave_comp s)) (f cl)"
    "\<And>sfd s'. slave_ok s' \<Longrightarrow> P (sfd, s')"
  shows "yields (change_limits f junk sfd s) P"
  unfolding change_limits_def
  by (intro yields_rules locked_comp_ok [where g = "\<lambda>c. c\<lparr>c_limits := f (c_limits c)\<rparr>"])
    (use assms in \<open>auto simp: upd_limits_def comp_ok_def\<close>)

lemma setnmaxcpus_ok [yields_rules]:
  "slave_ok s \<Longrightarrow> (\<And>sfd s'. slave_ok s' \<Longrightarrow> P (sfd, s')) \<Longrightarrow> yields (handle_rs_r_setnmaxcpus req junk sfd s) P"
  unfolding handle_rs_r_setnmaxcpus_def Let_def
  by (rule change_limits_ok) (auto simp: limits_ok_def word_le_nat_alt word_less_nat_alt unsigned_ucast_eq take_bit_eq_mod)

lemma setenabled_ok [yields_rules]:
  "slave_ok s \<Longrightarrow> (\<And>sfd s'. slave_ok s' \<Longrightarrow> P (sfd, s')) \<Longrightarrow> yields (handle_rs_r_setenabled req junk sfd s) P"
  unfolding handle_rs_r_setenabled_def by (rule change_limits_ok) (auto simp: limits_ok_def)

lemma setmaxfreeloadcpu_ok [yields_rules]:
  "slave_ok s \<Longrightarrow> (\<And>sfd s'. slave_ok s' \<Longrightarrow> P (sfd, s')) \<Longrightarrow> yields (handle_rs_r_setmaxfreeloadcpu req junk sfd s) P"
  unfolding handle_rs_r_setmaxfreeloadcpu_def by (rule change_limits_ok) (auto simp: limits_ok_def)

lemma ucast_mod_less: "0 < n \<Longrightarrow> n < 256 \<Longrightarrow> (ucast ((x :: u32) mod n) :: u8) < ucast n"
proof -
  assume n: "0 < n" "n < 256"
  then have "x mod n < n" by (simp add: word_less_nat_alt unat_mod)
  with n show ?thesis by (simp add: word_less_nat_alt unsigned_ucast_eq take_bit_eq_mod)
qed

lemma setautoenable_ok [yields_rules]:
  "slave_ok s \<Longrightarrow> (\<And>sfd c s'. slave_ok s' \<Longrightarrow> P (sfd, c, s')) \<Longrightarrow> yields (handle_rs_r_setautoenable req junk sfd c s) P"
  unfolding handle_rs_r_setautoenable_def Let_def
  using ucast_mod_less [of 24] ucast_mod_less [of 60]
  by (intro yields_rules) (auto simp: limits_ok_def)

lemma change_pools_ok:
  assumes "slave_ok s" and f: "\<And>cl ps Q. (\<And>b cl' ps'. own_limits cl' = own_limits cl \<Longrightarrow> Q (b, cl', ps')) \<Longrightarrow> yields (f (cl, ps)) Q"
    and P: "\<And>sfd s'. slave_ok s' \<Longrightarrow> P (sfd, s')"
  shows "yields (change_pools f junk sfd s) P"
proof -
  have lock: "lock_slave s = Inr (s\<lparr>sdb := (sdb s)\<lparr>sdb_semid := sem_held\<rparr>\<rparr>)"
    using assms(1) by (simp add: lock_slave_def slave_okD)
  have ok: "slave_ok (upd_limits (\<lambda>_. cl') (release_slave (upd_limits (\<lambda>_. cl) (s\<lparr>sdb := (sdb s)\<lparr>sdb_semid := sem_held\<rparr>, slave_pools := ps\<rparr>))))"
    if "own_limits cl' = own_limits cl" "own_limits cl = own_limits (c_limits (slave_comp s))" for cl cl' ps
    using assms(1) that limits_ok_own [of cl'] 
    by (simp add: slave_ok_def release_slave_def upd_limits_def upd_comp_def)
  show ?thesis
    unfolding change_pools_def Let_def lock andThen_simps
    by (intro yields_andThen f yields_prod update_limits_own yields_return)
      (clarsimp, rule P, rule ok, auto simp: release_slave_def upd_limits_def)
qed

lemma limitspooladd_ok [yields_rules]:
  "slave_ok s \<Longrightarrow> (\<And>sfd c s'. slave_ok s' \<Longrightarrow> P (sfd, c, s')) \<Longrightarrow> yields (handle_rs_r_limitspooladd junk sfd c s) P"
  unfolding handle_rs_r_limitspooladd_def
  by (intro yields_rules change_pools_ok pool_add_own) auto

lemma limitspoolremove_ok [yields_rules]:
  "slave_ok s \<Longrightarrow> (\<And>sfd c s'. slave_ok s' \<Longrightarrow> P (sfd, c, s')) \<Longrightarrow> yields (handle_rs_r_limitspoolremove junk sfd c s) P"
  unfolding handle_rs_r_limitspoolremove_def
  by (intro yields_rules change_pools_ok pool_remove_own) auto

lemma process_exit_ok: "slave_ok s \<Longrightarrow> slave_process_exit s = s"
  by (simp add: slave_ok_def slave_process_exit_def)

lemma handle_request_slave_ok [yields_rules]:
  "slave_ok s \<Longrightarrow> (\<And>sfd c s'. slave_ok s' \<Longrightarrow> P (sfd, c, s')) \<Longrightarrow> yields (handle_request_slave junk sfd c s) P"
  unfolding handle_request_slave_def serve_slave_def with_conn_def handle_rs_r_killtask_def kill_group_def
  by (intro yields_rules) (auto simp: process_exit_ok)

section \<open>The exchange that reserves a slot\<close>

lemma put_task_twice:
  "put_task i f (put_task i g c) = put_task i (\<lambda>t. f (g t)) c"
  by (cases "i < length (tasks (c_status c))") (simp_all add: put_task_def list_update_beyond)

lemma put_task_here: "put_task i f c = put_task i (\<lambda>_. f (tasks (c_status c) ! i)) c"
  by (simp add: put_task_def)

definition reserved :: "nat \<Rightarrow> u64 \<Rightarrow> task \<Rightarrow> task" where
  "reserved i now t = t\<lparr>t_used := 1, t_itask := of_nat i, t_status := TASKSTATUS_LOADING, t_start_loading_time := now\<rparr>"

lemma task_available_slave:
  assumes "slave_ok s"
  shows "task_available (sdb s) = (case first_idx (\<lambda>t. t_used t = 0) (tasks (c_status (slave_comp s))) of
      None \<Rightarrow> Inr (-1, sdb s)
    | Some i \<Rightarrow> Inr (of_nat i, sdb (upd_comp (put_task i (reserved i (sdb_now (sdb s)))) s)))"
  using task_available_eq [OF slave_okD [OF assms]]
  by (simp add: upd_status_def take_slot_def put_task_def reserved_def upd_comp_def split: option.splits)

lemma sdb_of_upd_comp: "s\<lparr>sdb := sdb (upd_comp f s)\<rparr> = upd_comp f s"
  by (simp add: upd_comp_def)

text \<open>The ways it can end: as before, with the slot given back, or with the slot taken.\<close>

definition slot_given_back :: "nat \<Rightarrow> slave \<Rightarrow> u16 option \<times> slave \<Rightarrow> bool" where
  "slot_given_back i s = (\<lambda>(got, s'). got = None \<and> (\<exists>t. t_used t = 0 \<and> s' = upd_comp (put_task i (\<lambda>_. t)) s))"

definition slot_taken :: "nat \<Rightarrow> (task \<Rightarrow> bool) \<Rightarrow> slave \<Rightarrow> u16 option \<times> slave \<Rightarrow> bool" where
  "slot_taken i G s = (\<lambda>(got, s'). got = Some (of_nat i) \<and>
     (\<exists>t. G t \<and> s' = upd_comp (\<lambda>k. count_again (put_task i (\<lambda>_. t\<lparr>t_status := TASKSTATUS_LOADING\<rparr>) k)) s))"

lemma accept_task_result:
  assumes ok: "sdb_semid (sdb s) = sem_free" and i: "unat (of_nat i :: u16) = i"
    and G: "\<forall>t c' c''. rx c' = rx c \<longrightarrow> recv_task c' = (Some t, c'') \<longrightarrow> G t"
  shows "\<exists>got c' s'. accept_task (of_nat i) c (upd_comp (put_task i f) s) = Inr (got, Some c', s') \<and>
    (slot_given_back i s (got, s') \<or> slot_taken i G s (got, s'))"
proof -
  have undo: "give_slot_back (of_nat i) (upd_comp (put_task i f) s) = Inr (upd_comp (put_task i (\<lambda>_. task_init (f (tasks (c_status (slave_comp s)) ! i)))) s)"
    using ok unfolding give_slot_back_def upd_as_comp i
    by (subst locked_upd_comp) (simp_all add: put_task_twice, simp add: upd_comp_def put_task_here [of i "\<lambda>t. task_init (f t)"])
  have used: "t_used (task_init t) = 0" for t by (simp add: task_init_def)
  have keep: "locked (\<lambda>s. recount (upd_task (unat (of_nat i :: u16)) (\<lambda>_. t\<lparr>t_status := TASKSTATUS_LOADING\<rparr>) s)) (upd_comp (put_task i f) s) =
      Inr (upd_comp (\<lambda>k. count_again (put_task i (\<lambda>_. t\<lparr>t_status := TASKSTATUS_LOADING\<rparr>) k)) s)" for t
    using ok unfolding upd_as_comp i
    by (subst locked_upd [where g = "\<lambda>k. count_again (put_task i (\<lambda>_. t\<lparr>t_status := TASKSTATUS_LOADING\<rparr>) k)"])
       (simp_all add: put_task_twice)
  obtain b1 c1 where c1: "send_request R_R_AVAILJOB RERR_NOERROR SLAVE c = (b1, c1)" by fastforce
  obtain b2 c2 where c2: "send_request R_R_AVAILJOB (ucast (of_nat i :: u16)) SLAVE c1 = (b2, c2)" by fastforce
  obtain r c3 where c3: "recv_task c2 = (r, c3)" by fastforce
  have "rx c2 = rx c" using c1 c2 by (auto simp: send_request_def send_msg_def split: if_splits)
  then have g: "r = Some t \<Longrightarrow> G t" for t using G c3 by blast
  note r = accept_task_def Let_def undo keep c1 c2 c3 sending_def expect_def
  have used: "t_used (task_init t) = 0" for t by (simp add: task_init_def)
  show ?thesis
  proof (cases "b1 \<and> b2 \<and> r \<noteq> None")
    case True
    then obtain t where t: "r = Some t" by blast
    with True have "accept_task (of_nat i) c (upd_comp (put_task i f) s) =
        Inr (Some (of_nat i), Some c3, upd_comp (\<lambda>k. count_again (put_task i (\<lambda>_. t\<lparr>t_status := TASKSTATUS_LOADING\<rparr>) k)) s)"
      by (simp add: r)
    with g [OF t] show ?thesis unfolding slot_taken_def by auto
  next
    case False
    then have "\<exists>c'. accept_task (of_nat i) c (upd_comp (put_task i f) s) =
        Inr (None, Some c', upd_comp (put_task i (\<lambda>_. task_init (f (tasks (c_status (slave_comp s)) ! i)))) s)"
      by (cases b1; cases b2; cases r) (simp_all add: r)
    moreover have "slot_given_back i s (None, upd_comp (put_task i (\<lambda>_. task_init (f (tasks (c_status (slave_comp s)) ! i)))) s)"
      using used unfolding slot_given_back_def by blast
    ultimately show ?thesis by blast
  qed
qed

lemma request_job_available_result:
  assumes ok: "slave_ok s" and G: "\<forall>c t c' c''. sfd = Some c \<longrightarrow> rx c' = tl (rx c) \<longrightarrow> recv_task c' = (Some t, c'') \<longrightarrow> G t"
  shows "\<exists>got c' s'. request_job_available junk sfd s = Inr (got, c', s') \<and>
    (got = None \<and> s' = s \<or> (\<exists>i. first_idx (\<lambda>t. t_used t = 0) (tasks (c_status (slave_comp s))) = Some i \<and>
      (slot_given_back i s (got, s') \<or> slot_taken i G s (got, s'))))"
proof (cases sfd)
  case None
  then show ?thesis by (simp add: request_job_available_def)
next
  case (Some c)
  obtain b1 c1 where c1: "send_request R_R_AVAILJOB junk SLAVE c = (b1, c1)" by fastforce
  obtain r c2 where c2: "recv_request c1 = (r, c2)" by fastforce
  have "rx c1 = rx c" using c1 by (auto simp: send_request_def send_msg_def split: if_splits)
  then have rx: "r = Some req \<Longrightarrow> rx c2 = tl (rx c)" for req
    using c2 by (auto simp: recv_request_def recv_as_def split: list.splits option.splits)
  note d = request_job_available_def Some c1 c2 sending_def expect_def
  show ?thesis
  proof (cases "b1 \<and> (\<exists>req. r = Some req \<and> rq_type req = R_R_AVAILJOB \<and> rq_data req = RERR_NOERROR)")
    case False
    then show ?thesis by (cases b1; cases r) (auto simp: d)
  next
    case True
    then obtain req where req: "b1" "r = Some req" "rq_type req = R_R_AVAILJOB" "rq_data req = RERR_NOERROR" by blast
    show ?thesis
    proof (cases "first_idx (\<lambda>t. t_used t = 0) (tasks (c_status (slave_comp s)))")
      case None
      with req show ?thesis by (simp add: d task_available_slave [OF ok] sdb_of_upd_comp)
    next
      case (Some i)
      then have i: "i < 32" using first_idx_SomeD [OF Some] slave_okD(2) [OF ok] by (simp add: max_defs)
      have w: "unat (of_nat i :: u16) = i" using i by (simp add: unat_of_nat)
      have "unat (-1 :: u16) = 65535" by (simp add: unsigned_minus_1_eq_mask mask_eq_exp_minus_1)
      with i w have w: "unat (of_nat i :: u16) = i" "(of_nat i :: u16) \<noteq> -1" by auto
      have "request_job_available junk sfd s = accept_task (of_nat i) c2 (upd_comp (put_task i (reserved i (sdb_now (sdb s)))) s)"
        using req Some w by (simp add: d task_available_slave [OF ok] sdb_of_upd_comp)
      moreover have "\<forall>t c' c''. rx c' = rx c2 \<longrightarrow> recv_task c' = (Some t, c'') \<longrightarrow> G t"
        using G rx [OF req(2)] \<open>sfd = Some c\<close> by auto
      ultimately show ?thesis
        using accept_task_result [OF slave_okD(1) [OF ok] w(1), of c2 G "reserved i (sdb_now (sdb s))"] Some by auto
    qed
  qed
qed

section \<open>Room for one more task\<close>

lemma slot_given_back_tasks:
  assumes "slot_given_back i s (got, s')" "i < length (tasks (c_status (slave_comp s)))" "t_used (tasks (c_status (slave_comp s)) ! i) = 0"
  shows "t_used (tasks (c_status (slave_comp s')) ! k) = t_used (tasks (c_status (slave_comp s)) ! k) \<and>
    (t_used (tasks (c_status (slave_comp s)) ! k) \<noteq> 0 \<longrightarrow> tasks (c_status (slave_comp s')) ! k = tasks (c_status (slave_comp s)) ! k)"
  using assms by (auto simp: slot_given_back_def put_task_def nth_list_update)

lemma slot_given_back_ok:
  assumes "slave_ok s" "slot_given_back i s (got, s')"
  shows "slave_ok s'"
  using assms by (auto simp: slot_given_back_def task_is_running_def intro!: upd_comp_ok comp_ok_put)

lemma slot_taken_ok:
  assumes "slave_ok s" "slot_taken i G s (got, s')"
  shows "slave_ok s'"
  using assms by (auto simp: slot_taken_def intro!: upd_comp_ok comp_ok_recounted dest: comp_okD)

lemma slot_taken_count:
  assumes ok: "slave_ok s" and t: "slot_taken i G s (got, s')" and i: "i < MAXTASKS" "t_used (tasks (c_status (slave_comp s)) ! i) = 0"
  shows "unat (nrunning (c_status (slave_comp s'))) \<le> Suc (unat (nrunning (c_status (slave_comp s))))"
    "unat (nrunning (c_status (slave_comp s'))) = count_if task_is_running (tasks (c_status (slave_comp s')))"
proof -
  obtain t where s': "s' = upd_comp (\<lambda>k. count_again (put_task i (\<lambda>_. t) k)) s"
    using t by (auto simp: slot_taken_def)
  have len: "length (tasks (c_status (slave_comp s))) = MAXTASKS" by (rule slave_okD [OF ok])
  have "\<not> task_is_running (tasks (c_status (slave_comp s)) ! i)" using i by (simp add: task_is_running_def)
  then have "count_if task_is_running ((tasks (c_status (slave_comp s)))[i := t]) \<le> Suc (count_if task_is_running (tasks (c_status (slave_comp s))))"
    using i len count_if_update_gain [of i _ task_is_running t] count_if_update_same [of i _ task_is_running t]
    by (cases "task_is_running t") simp_all
  moreover have "count_if task_is_running (tasks (c_status (slave_comp s))) \<le> unat (nrunning (c_status (slave_comp s)))"
    using ok by (simp add: slave_ok_def status_ok_def)
  ultimately show "unat (nrunning (c_status (slave_comp s'))) \<le> Suc (unat (nrunning (c_status (slave_comp s))))"
    "unat (nrunning (c_status (slave_comp s'))) = count_if task_is_running (tasks (c_status (slave_comp s')))"
    using len unat_computer_nrunning [of "put_task i (\<lambda>_. t) (slave_comp s)"] by (simp_all add: s' count_again_def put_task_def)
qed

text \<open>C24.  When the main process of a slave asks the master for a task, the exchange always comes to
  an end, whatever breaks off on the way, and one of two things has happened.  Either no task came:
  then the same slots are in use as before, with the same tasks, so a slot that was reserved for it
  does not leak.  Or a task came: then it went to a slot that was free, no other slot was touched, and
  the tasks that run, counted again, are no more than the processors the slave may use, the
  processors it has, and its slots.\<close>

theorem task_request_takes_one_slot:
  assumes "slave_ok s" "computer_available (slave_comp s)"
  shows "\<exists>got sfd' s'. request_job_available junk sfd s = Inr (got, sfd', s') \<and> slave_ok s' \<and>
    (let ts = tasks (c_status (slave_comp s)); ts' = tasks (c_status (slave_comp s')) in
      (case got of
         None \<Rightarrow> \<forall>k < MAXTASKS. t_used (ts' ! k) = t_used (ts ! k) \<and> (t_used (ts ! k) \<noteq> 0 \<longrightarrow> ts' ! k = ts ! k)
       | Some itask \<Rightarrow> unat itask < MAXTASKS \<and> t_used (ts ! unat itask) = 0 \<and> t_status (ts' ! unat itask) = TASKSTATUS_LOADING \<and>
           (\<forall>k < MAXTASKS. k \<noteq> unat itask \<longrightarrow> ts' ! k = ts ! k) \<and>
           count_if task_is_running ts' \<le>
             Min {unat (cl_nmaxcpus (c_limits (slave_comp s'))), unat (hw_ncpus (hwinfo (slave_comp s'))), MAXTASKS}))"
proof -
  note ok = assms(1)
  obtain got sfd' s' where r: "request_job_available junk sfd s = Inr (got, sfd', s')"
    and c: "got = None \<and> s' = s \<or> (\<exists>i. first_idx (\<lambda>t. t_used t = 0) (tasks (c_status (slave_comp s))) = Some i \<and>
      (slot_given_back i s (got, s') \<or> slot_taken i (\<lambda>_. True) s (got, s')))"
    using request_job_available_result [OF ok, of sfd "\<lambda>_. True" junk] by auto
  consider (same) "got = None" "s' = s" | (slot) i where "i < MAXTASKS" "t_used (tasks (c_status (slave_comp s)) ! i) = 0"
      "slot_given_back i s (got, s') \<or> slot_taken i (\<lambda>_. True) s (got, s')"
    using c first_idx_SomeD [of "\<lambda>t. t_used t = 0" "tasks (c_status (slave_comp s))"] slave_okD(2) [OF ok] by fastforce
  then show ?thesis
  proof cases
    case same
    with ok show ?thesis unfolding r by simp
  next
    case slot
    note len = slave_okD(2) [OF ok]
    show ?thesis
    proof (cases "slot_given_back i s (got, s')")
      case True
      then have "got = None" by (simp add: slot_given_back_def)
      with slot_given_back_ok [OF ok True] slot_given_back_tasks [OF True] slot(1,2) len show ?thesis
        unfolding r by (simp del: Min_insert Min_insert2)
    next
      case False
      with slot have t: "slot_taken i (\<lambda>_. True) s (got, s')" by simp
      obtain t where s': "got = Some (of_nat i)" "s' = upd_comp (\<lambda>k. count_again (put_task i (\<lambda>_. t\<lparr>t_status := TASKSTATUS_LOADING\<rparr>) k)) s"
        using t by (auto simp: slot_taken_def)
      have i: "unat (of_nat i :: u16) = i" using slot(1) by (simp add: unat_of_nat max_defs)
      have f: "tasks (c_status (slave_comp s')) = (tasks (c_status (slave_comp s)))[i := t\<lparr>t_status := TASKSTATUS_LOADING\<rparr>]"
        "c_limits (slave_comp s') = c_limits (slave_comp s)" "hwinfo (slave_comp s') = hwinfo (slave_comp s)"
        by (simp_all add: s' count_again_def put_task_def)
      have "count_if task_is_running (tasks (c_status (slave_comp s'))) \<le>
          Min {unat (cl_nmaxcpus (c_limits (slave_comp s'))), unat (hw_ncpus (hwinfo (slave_comp s'))), MAXTASKS}"
        using slot_taken_count [OF ok t slot(1,2)] computer_room [OF assms(2)] f(2,3) by simp
      with slot_taken_ok [OF ok t] slot(1,2) s'(1) show ?thesis
        unfolding r by (simp add: i f len del: Min_insert)
    qed
  qed
qed

section \<open>An example slave\<close>

text \<open>A slave on the computer of \<open>example_sdb\<close>: one task of two runs, and all slots but the first are free.\<close>

definition example_slave :: slave where
  "example_slave = \<lparr>sdb = example_sdb, start_limits = c_limits example_computer, start_flags = 0, slave_pools = shm_empty,
     phantom = 0, groups_killed = [], interrupted = False, main_gone = False\<rparr>"

lemma example_slave_simps [simp]:
  "sdb example_slave = example_sdb" "interrupted example_slave = False"
  by (simp_all add: example_slave_def)

lemma example_slave_ok: "slave_ok example_slave"
  by (simp add: slave_ok_def limits_ok_def status_ok_def example_sdb_def example_computer_def max_defs free_task_def task_is_running_def)

lemma example_slave_free: "first_idx (\<lambda>t. t_used t = 0) (tasks (c_status (slave_comp example_slave))) = Some 1"
proof -
  have "replicate 31 free_task = free_task # replicate 30 free_task" by (simp add: numeral_eq_Suc)
  then show ?thesis by (simp add: example_sdb_def example_computer_def free_task_def)
qed

lemma example_slave_available: "computer_available (slave_comp example_slave)"
  by (simp add: computer_available_def example_sdb_def example_computer_def max_defs Let_def)

definition offered_task :: task where
  "offered_task = free_task\<lparr>t_used := 1, t_jobname := ''shot'', t_jobcmd := ''render.sh'', t_frame := 2, t_itask := 1\<rparr>"

definition master_offer :: conn where
  "master_offer = \<lparr>rx = [MRequest \<lparr>rq_type = R_R_AVAILJOB, rq_who = MASTER, rq_data = RERR_NOERROR\<rparr>, MTask offered_task],
     tx = [], tx_left = 9\<rparr>"

theorem task_request_takes_one_slot_witness:
  "\<exists>got sfd' s'. request_job_available 0 (Some master_offer) example_slave = Inr (got, sfd', s') \<and> slave_ok s'"
  using task_request_takes_one_slot [OF example_slave_ok example_slave_available, of 0 "Some master_offer"] by blast

end
