(* ===== verification/Upkeep.thy ===== *)
theory Upkeep
  imports Running
begin

text \<open>
  A slave at work: the checks of its tasks, their start and end, the rounds of the main process, and
  the invariant over all that can happen on it.
\<close>

section \<open>Checking the tasks\<close>

definition set_tasks :: "task list \<Rightarrow> computer \<Rightarrow> computer" where
  "set_tasks ts c = c\<lparr>c_status := (c_status c)\<lparr>tasks := ts\<rparr>\<rparr>"

lemma set_tasks_simps [simp]:
  "tasks (c_status (set_tasks ts c)) = ts" "set_tasks ts (set_tasks ts' c) = set_tasks ts c"
  "set_tasks (tasks (c_status c)) c = c" "hwinfo (set_tasks ts c) = hwinfo c" "c_limits (set_tasks ts c) = c_limits c"
  "nrunning (c_status (set_tasks ts c)) = nrunning (c_status c)"
  by (simp_all add: set_tasks_def)

lemma consistency_from_eq:
  assumes "sdb_semid (sdb s) = sem_free" "i + n \<le> length (tasks (c_status (slave_comp s)))"
  shows "consistency_from alive i n s = Inr (upd_comp (\<lambda>c. set_tasks (take i (tasks (c_status c)) @
      map (check_task alive (sdb_now (sdb s))) (take n (drop i (tasks (c_status c)))) @ drop (i + n) (tasks (c_status c))) c) s)"
  using assms
proof (induction n arbitrary: i s)
  case 0
  then show ?case by (simp add: upd_comp_def)
next
  case (Suc n)
  define ts where "ts = tasks (c_status (slave_comp s))"
  let ?chk = "check_task alive (sdb_now (sdb s))"
  have i: "i < length ts" using Suc.prems(2) by (simp add: ts_def)
  define s1 where "s1 = upd_comp (\<lambda>c. set_tasks (ts[i := ?chk (ts ! i)]) c) s"
  have "upd_task i ?chk s = s1"
    by (simp add: upd_task_def s1_def upd_comp_def set_tasks_def ts_def)
  then have l: "locked (upd_task i ?chk) s = Inr s1"
    using Suc.prems(1) unfolding upd_task_comp by (simp add: locked_upd_comp)
  have same: "?chk (ts ! i) = ts ! i \<Longrightarrow> s1 = s" by (simp add: s1_def ts_def upd_comp_def)
  have step: "consistency_from alive i (Suc n) s = consistency_from alive (Suc i) n s1"
    using i l same by (auto simp: task_at_def rd_def ts_def Let_def)
  have s1: "sdb_semid (sdb s1) = sem_free" "tasks (c_status (slave_comp s1)) = ts[i := ?chk (ts ! i)]" "sdb_now (sdb s1) = sdb_now (sdb s)"
    using Suc.prems(1) by (simp_all add: s1_def)
  have list: "take (Suc i) (ts[i := ?chk (ts ! i)]) @ map ?chk (take n (drop (Suc i) ts)) @ zs =
      take i ts @ map ?chk (take (Suc n) (drop i ts)) @ zs" for zs
    using i by (simp add: take_Suc_conv_app_nth Cons_nth_drop_Suc [symmetric])
  have "consistency_from alive (Suc i) n s1 = Inr (upd_comp (\<lambda>c. set_tasks (take (Suc i) (tasks (c_status c)) @
      map ?chk (take n (drop (Suc i) (tasks (c_status c)))) @ drop (Suc i + n) (tasks (c_status c))) c) s1)"
    using Suc.IH [of s1 "Suc i"] Suc.prems(2) s1 by (simp add: ts_def)
  also have "\<dots> = Inr (upd_comp (\<lambda>c. set_tasks (take i (tasks (c_status c)) @
      map ?chk (take (Suc n) (drop i (tasks (c_status c)))) @ drop (i + Suc n) (tasks (c_status c))) c) s)"
    by (simp add: s1_def upd_comp_def list flip: ts_def)
  finally show ?case using step by simp
qed

lemma consistency_pass_eq:
  assumes "slave_ok s"
  shows "slave_consistency_pass alive s =
    Inr (upd_comp (\<lambda>c. set_tasks (map (check_task alive (sdb_now (sdb s))) (tasks (c_status c))) c) s)"
  using consistency_from_eq [of s 0 MAXTASKS alive] slave_okD [OF assms]
  by (simp add: slave_consistency_pass_def upd_comp_def)

lemma count_if_map_le: "(\<And>x. P (f x) \<Longrightarrow> P x) \<Longrightarrow> count_if P (map f xs) \<le> count_if P xs"
  by (induction xs) (auto simp: le_Suc_eq)

lemma checked_running: "task_is_running (check_task alive now t) \<Longrightarrow> task_is_running t"
  by (auto simp: check_task_def task_is_running_def split: if_splits)

lemma consistency_pass_ok:
  assumes "slave_ok s" "slave_consistency_pass alive s = Inr s'"
  shows "slave_ok s'"
proof -
  have s': "s' = upd_comp (\<lambda>c. set_tasks (map (check_task alive (sdb_now (sdb s))) (tasks (c_status c))) c) s"
    using assms consistency_pass_eq by simp
  show ?thesis
    unfolding s' using assms(1) count_if_map_le [where P = task_is_running and f = "check_task alive (sdb_now (sdb s))"] checked_running
    by (intro upd_comp_ok) (auto simp: comp_ok_def status_ok_def set_tasks_def intro: order.trans)
qed

text \<open>C26.  A pass of the consistency process always ends, with the semaphore free, and treats each task
  in use by itself.  A task whose process is gone is freed, unless it is not loading and was started
  less than \<open>MAXTASKLOADINGTIME\<close> ago.  So it is the tasks that have been seen running that are kept for
  the time a task may take to load, and one that is still loading is freed at once.  A task whose
  process lives is kept, and is no longer loading.\<close>

theorem consistency_pass_tasks:
  assumes "slave_ok s" "k < MAXTASKS"
  shows "\<exists>s'. slave_consistency_pass alive s = Inr s' \<and> slave_ok s' \<and>
    (let t = tasks (c_status (slave_comp s)) ! k; t' = tasks (c_status (slave_comp s')) ! k;
         young = sdb_now (sdb s) \<noteq> -1 \<and> sdb_now (sdb s) - t_start_loading_time t < MAXTASKLOADINGTIME in
       if t_used t = 0 then t' = t
       else if alive (t_pid t) then t' = (if t_status t = TASKSTATUS_LOADING then t\<lparr>t_status := TASKSTATUS_RUNNING\<rparr> else t)
       else if t_status t \<noteq> TASKSTATUS_LOADING \<and> young then t' = t
       else t' = t\<lparr>t_used := 0\<rparr>)"
  using consistency_pass_eq [OF assms(1)] consistency_pass_ok [OF assms(1)] slave_okD(2) [OF assms(1)] assms(2)
  by (simp add: check_task_def Let_def)

section \<open>The other steps keep the invariant\<close>

lemma running_put_used: "task_is_running (t\<lparr>t_used := 0\<rparr>) = False"
  by (simp add: task_is_running_def)

lemma drop_task_ok [yields_rules]:
  "slave_ok s \<Longrightarrow> (\<And>s'. slave_ok s' \<Longrightarrow> P s') \<Longrightarrow> yields (drop_task itask s) P"
  unfolding drop_task_def upd_task_comp
  by (rule locked_comp_ok [where g = "put_task (unat itask) (\<lambda>t. t\<lparr>t_used := 0\<rparr>)"]) (auto intro!: comp_ok_put simp: running_put_used)

lemma launch_task_ok [yields_rules]:
  "slave_ok s \<Longrightarrow> (\<And>s'. slave_ok s' \<Longrightarrow> P s') \<Longrightarrow> yields (launch_task forked itask s) P"
  unfolding launch_task_def by (intro yields_rules) auto

lemma comp_ok_recount: "comp_ok c \<Longrightarrow> comp_ok (count_again (put_task i f c))"
  by (auto intro: comp_ok_recounted dest: comp_okD)

lemma task_started_ok [yields_rules]:
  "slave_ok s \<Longrightarrow> (\<And>s'. slave_ok s' \<Longrightarrow> P s') \<Longrightarrow> yields (task_started itask pid s) P"
  unfolding task_started_def upd_as_comp
  by (rule locked_comp_ok [where g = "\<lambda>c. count_again (put_task (unat itask) (\<lambda>t. t\<lparr>t_status := TASKSTATUS_LOADING,
         t_start_loading_time := sdb_now (sdb s), t_pid := pid\<rparr>) c)"]) (auto intro!: comp_ok_recount)

lemma report_task_ok [yields_rules]:
  "slave_ok s \<Longrightarrow> (\<And>sfd s'. slave_ok s' \<Longrightarrow> P (sfd, s')) \<Longrightarrow> yields (report_task req itask c s) P"
  unfolding report_task_def by (intro yields_rules) auto

lemma request_task_finished_ok [yields_rules]:
  "slave_ok s \<Longrightarrow> (\<And>sfd s'. slave_ok s' \<Longrightarrow> P (sfd, s')) \<Longrightarrow> yields (request_task_finished junk itask sfd s) P"
  unfolding request_task_finished_def Let_def by (intro yields_rules) auto

lemma running_exitstatus: "task_is_running (t\<lparr>t_exitstatus := st\<rparr>) = task_is_running t"
  by (simp add: task_is_running_def)

lemma finish_section_ok:
  "comp_ok c \<Longrightarrow> comp_ok (put_task i (\<lambda>t. t\<lparr>t_exitstatus := st\<rparr>) (count_again (put_task i f c)))"
  by (intro comp_ok_put comp_ok_recount) (simp_all add: running_exitstatus)

lemma task_ended_ok [yields_rules]:
  assumes "slave_ok s" "\<And>sfd s'. slave_ok s' \<Longrightarrow> P (sfd, s')"
  shows "yields (task_ended junk itask w sfd s) P"
proof (cases w)
  case None
  show ?thesis unfolding task_ended_def None option.case upd_as_comp
    by (intro yields_andThen locked_comp_ok [where g = "\<lambda>c. count_again (put_task (unat itask) (\<lambda>t. t\<lparr>t_used := 0\<rparr>) c)"])
      (use assms in \<open>auto intro!: comp_ok_recount\<close>)
next
  case (Some rc)
  show ?thesis unfolding task_ended_def Some option.case upd_as_comp
    by (intro yields_andThen locked_comp_ok [where g = "\<lambda>c. put_task (unat itask) (\<lambda>t. t\<lparr>t_exitstatus := exit_status rc\<rparr>)
          (count_again (put_task (unat itask) (\<lambda>t. t\<lparr>t_exitstatus := 0, t_status := TASKSTATUS_FINISHED\<rparr>) c))"]
        request_task_finished_ok drop_task_ok yields_prod yields_return)
      (use assms in \<open>auto intro!: finish_section_ok\<close>)
qed

lemma update_computer_status_ok [yields_rules]:
  assumes "slave_ok s" "\<And>sfd s'. slave_ok s' \<Longrightarrow> slave_comp s' = slave_comp s \<Longrightarrow> main_gone s' = main_gone s \<Longrightarrow> P (sfd, s')"
  shows "yields (update_computer_status junk sfd s) P"
proof -
  have "locked (\<lambda>s. s) s = Inr s" using locked_upd [of s "\<lambda>s. s" "\<lambda>c. c"] assms(1) by (simp add: slave_okD upd_comp_def)
  then show ?thesis
    unfolding update_computer_status_def \<open>locked (\<lambda>s. s) s = Inr s\<close> andThen_simps by (intro yields_rules) (use assms in \<open>auto\<close>)
qed

lemma checked_each_running: "count_if task_is_running (snd (check_each alive ts)) \<le> count_if task_is_running ts"
  unfolding check_each_eq by (rule count_if_map_le) (auto simp: task_is_running_def split: if_splits)

lemma get_computer_status_ok [yields_rules]:
  assumes "slave_ok s" "\<And>d. slave_ok (s\<lparr>sdb := d\<rparr>) \<Longrightarrow> P d"
  shows "yields (get_computer_status load alive (sdb s)) P"
proof -
  have "sdb_semid (upd_status (\<lambda>st. st\<lparr>loadavg := load\<rparr>) (sdb s)) = sem_free"
    using slave_okD(1) [OF assms(1)] by (simp add: upd_status_def)
  then have "get_computer_status load alive (sdb s) = Inr (upd_status (\<lambda>st. st\<lparr>loadavg := load,
      ntasks := fst (check_each alive (tasks st)), tasks := snd (check_each alive (tasks st))\<rparr>) (sdb s))"
    using slave_okD(1) [OF assms(1)] by (simp add: get_computer_status_def check_tasks_def upd_status_def split_def Let_def)
  moreover have "slave_ok (s\<lparr>sdb := upd_status (\<lambda>st. st\<lparr>loadavg := load,
      ntasks := fst (check_each alive (tasks st)), tasks := snd (check_each alive (tasks st))\<rparr>) (sdb s)\<rparr>)"
    using assms(1) order.trans [OF checked_each_running, of "tasks (c_status (slave_comp s))" _ alive]
    by (auto simp: slave_ok_def upd_status_def status_ok_def check_each_eq)
  ultimately show ?thesis using assms(2) by simp
qed

lemma autoenable_check_ok [yields_rules]:
  assumes "slave_ok s" "\<And>b d. slave_ok (s\<lparr>sdb := d\<rparr>) \<Longrightarrow> P (b, d)"
  shows "yields (computer_autoenable_check hour minute (sdb s)) P"
  unfolding computer_autoenable_check_def Let_def lock_sdb_def
  by (intro yields_rules) (use assms in \<open>auto simp: slave_ok_def limits_ok_def\<close>)

lemma request_job_available_ok [yields_rules]:
  assumes "slave_ok s" "\<And>got sfd s'. slave_ok s' \<Longrightarrow> P (got, sfd, s')"
  shows "yields (request_job_available junk sfd s) P"
proof -
  obtain got c s' where r: "request_job_available junk sfd s = Inr (got, c, s')"
    and c: "s' = s \<or> (\<exists>i. slot_given_back i s (got, s') \<or> slot_taken i (\<lambda>_. True) s (got, s'))"
    using request_job_available_result [OF assms(1), of sfd "\<lambda>_. True" junk] by auto
  from c have "slave_ok s'"
    using assms(1) slot_given_back_ok [OF assms(1)] slot_taken_ok [OF assms(1)] by blast
  with assms(2) show ?thesis by (simp add: r)
qed

section \<open>Everything that happens on a slave\<close>

text \<open>
  One step of one process.  The waiters and the handlers may come at any time, also for slots that
  have been freed in the meantime.
\<close>

inductive slave_step :: "slave \<Rightarrow> slave \<Rightarrow> bool" where
  Serve: "handle_request_slave junk sfd c s = Inr (sfd', c', s') \<Longrightarrow> slave_step s s'"
| Status: "get_computer_status load alive (sdb s) = Inr d \<Longrightarrow> slave_step s (s\<lparr>sdb := d\<rparr>)"
| Enable: "computer_autoenable_check hour minute (sdb s) = Inr (changed, d) \<Longrightarrow> slave_step s (s\<lparr>sdb := d\<rparr>)"
| Ask: "request_job_available junk sfd s = Inr (got, sfd', s') \<Longrightarrow> slave_step s s'"
| Launch: "launch_task forked itask s = Inr s' \<Longrightarrow> slave_step s s'"
| Report: "update_computer_status junk sfd s = Inr (sfd', s') \<Longrightarrow> slave_step s s'"
| Started: "task_started itask pid s = Inr s' \<Longrightarrow> slave_step s s'"
| Ended: "task_ended junk itask w sfd s = Inr (sfd', s') \<Longrightarrow> slave_step s s'"
| Check: "slave_consistency_pass alive s = Inr s' \<Longrightarrow> slave_step s s'"
| Time: "slave_step s (s\<lparr>sdb := (sdb s)\<lparr>sdb_now := now\<rparr>\<rparr>)"

lemma slave_ok_time [simp]: "slave_ok (s\<lparr>sdb := (sdb s)\<lparr>sdb_now := now\<rparr>\<rparr>) = slave_ok s"
  by (simp add: slave_ok_def)

lemma slave_step_ok:
  assumes "slave_step s s'" "slave_ok s"
  shows "slave_ok s'"
  using assms
proof (cases rule: slave_step.cases)
  case (Serve junk sfd c sfd' c')
  have "yields (handle_request_slave junk sfd c s) (\<lambda>(_, _, s'). slave_ok s')" by (rule handle_request_slave_ok [OF assms(2)]) simp
  from yieldsD [OF this Serve] show ?thesis by simp
next
  case (Status load alive d)
  have "yields (get_computer_status load alive (sdb s)) (\<lambda>d. slave_ok (s\<lparr>sdb := d\<rparr>))" by (rule get_computer_status_ok [OF assms(2)])
  from yieldsD [OF this Status(2)] show ?thesis by (simp add: Status(1))
next
  case (Enable hour minute changed d)
  have "yields (computer_autoenable_check hour minute (sdb s)) (\<lambda>(_, d). slave_ok (s\<lparr>sdb := d\<rparr>))"
    by (rule autoenable_check_ok [OF assms(2)]) simp
  from yieldsD [OF this Enable(2)] show ?thesis by (simp add: Enable(1))
next
  case (Ask junk sfd got sfd')
  have "yields (request_job_available junk sfd s) (\<lambda>(_, _, s'). slave_ok s')" by (rule request_job_available_ok [OF assms(2)]) simp
  from yieldsD [OF this Ask] show ?thesis by simp
next
  case (Launch forked itask)
  show ?thesis using yieldsD [OF launch_task_ok [OF assms(2), of slave_ok] Launch] by simp
next
  case (Report junk sfd sfd')
  have "yields (update_computer_status junk sfd s) (\<lambda>(_, s'). slave_ok s')" by (rule update_computer_status_ok [OF assms(2)]) simp
  from yieldsD [OF this Report] show ?thesis by simp
next
  case (Started itask pid)
  show ?thesis using yieldsD [OF task_started_ok [OF assms(2), of slave_ok] Started] by simp
next
  case (Ended junk itask w sfd sfd')
  have "yields (task_ended junk itask w sfd s) (\<lambda>(_, s'). slave_ok s')" by (rule task_ended_ok [OF assms(2)]) simp
  from yieldsD [OF this Ended] show ?thesis by simp
next
  case (Check alive)
  show ?thesis by (rule consistency_pass_ok [OF assms(2) Check])
next
  case (Time now)
  with assms(2) show ?thesis by simp
qed

section \<open>The start of a slave\<close>

text \<open>The segment a slave finds when it starts: nothing but its size and the semaphore are known.\<close>

definition fresh_slave :: "slave \<Rightarrow> bool" where
  "fresh_slave s \<longleftrightarrow> sdb_semid (sdb s) = sem_free \<and> length (tasks (c_status (slave_comp s))) = MAXTASKS"

lemma initial_comp_ok:
  "length (tasks (c_status c)) = MAXTASKS \<Longrightarrow>
   comp_ok (computer_limits_cpu_init ((computer_init enabled max_cpus c)\<lparr>c_used := u, hwinfo := hw\<rparr>))"
  by (auto simp: comp_ok_def limits_ok_def status_ok_def computer_limits_cpu_init_def computer_init_def computer_limits_init_def
      computer_status_init_def task_init_all_def task_init_def computer_pool_init_def count_if_def task_is_running_def filter_empty_conv)

lemma word_mod_u8: "0 < n \<Longrightarrow> n < 256 \<Longrightarrow> (x :: u8) mod of_nat n < of_nat n"
  by (simp add: word_less_nat_alt unat_mod unat_of_nat)

lemma slave_set_limits_ok:
  "slave_ok s \<Longrightarrow> slave_ok (slave_set_limits s)"
  using word_mod_u8 [of 24] word_mod_u8 [of 60]
  by (auto simp: slave_set_limits_def Let_def upd_limits_def slave_ok_comp comp_ok_def limits_ok_def)

lemma register_slave_same:
  "sdb_semid (sdb (snd (register_slave junk sfd s))) = sdb_semid (sdb s)"
  "c_limits (slave_comp (snd (register_slave junk sfd s))) = c_limits (slave_comp s)"
  "c_status (slave_comp (snd (register_slave junk sfd s))) = c_status (slave_comp s)"
  "hw_ncpus (hwinfo (slave_comp (snd (register_slave junk sfd s)))) = hw_ncpus (hwinfo (slave_comp s))"
  by (auto simp: register_slave_def Let_def expect_def sending_def split: option.splits prod.splits)

lemma slave_ok_same:
  "slave_ok s \<Longrightarrow> sdb_semid (sdb s') = sdb_semid (sdb s) \<Longrightarrow> own_limits (c_limits (slave_comp s')) = own_limits (c_limits (slave_comp s)) \<Longrightarrow>
   c_status (slave_comp s') = c_status (slave_comp s) \<Longrightarrow> hw_ncpus (hwinfo (slave_comp s')) = hw_ncpus (hwinfo (slave_comp s)) \<Longrightarrow> slave_ok s'"
  by (simp add: slave_ok_def limits_ok_def own_limits_def)

definition before_registration :: "u8 option \<Rightarrow> u16 option \<Rightarrow> computer_hwinfo \<Rightarrow> slave \<Rightarrow> slave" where
  "before_registration enabled max_cpus hw s =
     slave_set_limits (upd_comp computer_limits_cpu_init (upd_comp (\<lambda>k. k\<lparr>c_used := 1, hwinfo := hw\<rparr>) (upd_comp (computer_init enabled max_cpus) s)))"

lemma slave_start_same:
  "yields (slave_start enabled max_cpus env_pool hw junk reg_sfd lim_sfd s) (\<lambda>s'.
     let s0 = before_registration enabled max_cpus hw s in
     sdb_semid (sdb s') = sdb_semid (sdb s0) \<and> own_limits (c_limits (slave_comp s')) = own_limits (c_limits (slave_comp s0)) \<and>
     c_status (slave_comp s') = c_status (slave_comp s0) \<and> hw_ncpus (hwinfo (slave_comp s')) = hw_ncpus (hwinfo (slave_comp s0)))"
  unfolding slave_start_def Let_def before_registration_def [symmetric]
  by (intro yields_rules) (auto simp: register_slave_same upd_limits_def)

lemma before_registration_ok: "fresh_slave s \<Longrightarrow> slave_ok (before_registration enabled max_cpus hw s)"
  unfolding before_registration_def
  by (rule slave_set_limits_ok)
    (auto simp: slave_ok_comp fresh_slave_def intro: initial_comp_ok)

lemma slave_start_ok:
  assumes "fresh_slave s" "slave_start enabled max_cpus env_pool hw junk reg_sfd lim_sfd s = Inr s'"
  shows "slave_ok s'"
  using slave_ok_same [OF before_registration_ok [OF assms(1)]] yieldsD [OF slave_start_same assms(2)]
  unfolding Let_def by blast

inductive slave_reachable :: "slave \<Rightarrow> bool" where
  Start: "fresh_slave s \<Longrightarrow> slave_start enabled max_cpus env_pool hw junk reg_sfd lim_sfd s = Inr s' \<Longrightarrow> slave_reachable s'"
| Step: "slave_reachable s \<Longrightarrow> slave_step s s' \<Longrightarrow> slave_reachable s'"

lemma slave_reachable_ok: "slave_reachable s \<Longrightarrow> slave_ok s"
  by (induction rule: slave_reachable.induct) (auto intro: slave_start_ok slave_step_ok)

text \<open>C22.  From its start and through whatever its processes, the master and the clients do, a slave
  keeps its promises between two steps: the semaphore of its record is free, the number of processors
  it may use is at most the number it has, the automatic start is set to a time of day, and
  \<open>nrunning\<close>, by which it decides whether it takes another task, is at least the number of tasks that
  run.\<close>

theorem slave_invariant:
  assumes "slave_reachable s"
  shows "sdb_semid (sdb s) = sem_free \<and> cl_nmaxcpus (c_limits (slave_comp s)) \<le> hw_ncpus (hwinfo (slave_comp s)) \<and>
    ae_h (cl_autoenable (c_limits (slave_comp s))) < 24 \<and> ae_m (cl_autoenable (c_limits (slave_comp s))) < 60 \<and>
    length (tasks (c_status (slave_comp s))) = MAXTASKS \<and>
    count_if task_is_running (tasks (c_status (slave_comp s))) \<le> unat (nrunning (c_status (slave_comp s)))"
  using slave_reachable_ok [OF assms] by (simp add: slave_ok_def limits_ok_def status_ok_def)

section \<open>The loop over the tasks on offer ends\<close>

lemma update_computer_status_total:
  assumes "slave_ok s"
  shows "\<exists>sfd' s'. update_computer_status junk sfd s = Inr (sfd', s') \<and> slave_ok s' \<and> slave_comp s' = slave_comp s"
proof -
  have "locked (\<lambda>s. s) s = Inr s" using locked_upd [of s "\<lambda>s. s" "\<lambda>c. c"] assms by (simp add: slave_okD upd_comp_def)
  then have "\<exists>r. update_computer_status junk sfd s = Inr r"
    by (cases sfd) (simp_all add: update_computer_status_def expect_def sending_def split: prod.split option.split)
  then obtain sfd' s' where r: "update_computer_status junk sfd s = Inr (sfd', s')" by auto
  have "yields (update_computer_status junk sfd s) (\<lambda>(_, s'). slave_ok s' \<and> slave_comp s' = slave_comp s)"
    by (rule update_computer_status_ok [OF assms]) simp
  from yieldsD [OF this r] r show ?thesis by simp
qed

lemma launch_task_total:
  assumes "slave_ok s"
  shows "\<exists>s'. launch_task forked itask s = Inr s' \<and> slave_ok s' \<and> (s' = s \<or> main_gone s')"
proof (cases forked)
  case True
  with assms show ?thesis by (simp add: launch_task_def)
next
  case False
  have "\<exists>s1. drop_task itask s = Inr s1"
    using slave_okD(1) [OF assms] unfolding drop_task_def upd_task_comp by (simp add: locked_upd_comp)
  then obtain s1 where d: "drop_task itask s = Inr s1" by blast
  have "slave_ok s1" using yieldsD [OF drop_task_ok [OF assms, of slave_ok] d] by simp
  with False d show ?thesis by (simp add: launch_task_def)
qed

definition free_slots :: "slave \<Rightarrow> nat" where
  "free_slots s = count_if (\<lambda>t. t_used t = 0) (tasks (c_status (slave_comp s)))"

text \<open>What the master sends in one turn are tasks in use.\<close>

definition used_offers :: "turn \<Rightarrow> bool" where
  "used_offers e \<longleftrightarrow> (\<forall>c t. ask_conn e = Some c \<longrightarrow> MTask t \<in> set (rx c) \<longrightarrow> t_used t \<noteq> 0)"

lemma recv_task_in: "recv_task c = (Some t, c') \<Longrightarrow> MTask t \<in> set (rx c)"
  by (auto simp: recv_task_def recv_as_def split: list.splits option.splits msg.splits)

lemma request_uses_slot:
  assumes ok: "slave_ok s" and e: "used_offers e" and r: "request_job_available junk (ask_conn e) s = Inr (Some itask, c', s')"
  shows "slave_ok s' \<and> Suc (free_slots s') = free_slots s"
proof -
  have G: "\<forall>c t c' c''. ask_conn e = Some c \<longrightarrow> rx c' = tl (rx c) \<longrightarrow> recv_task c' = (Some t, c'') \<longrightarrow> t_used t \<noteq> 0"
    using e recv_task_in by (metis used_offers_def list.set_sel(2) tl_Nil)
  obtain i where i: "first_idx (\<lambda>t. t_used t = 0) (tasks (c_status (slave_comp s))) = Some i"
    and t: "slot_taken i (\<lambda>t. t_used t \<noteq> 0) s (Some itask, s')"
    using request_job_available_result [OF ok G, of junk] r by (auto simp: slot_given_back_def)
  then obtain t where t': "t_used t \<noteq> 0" "s' = upd_comp (\<lambda>k. count_again (put_task i (\<lambda>_. t\<lparr>t_status := TASKSTATUS_LOADING\<rparr>) k)) s"
    by (auto simp: slot_taken_def)
  have "Suc (free_slots s') = free_slots s"
    using first_idx_SomeD [OF i] t'(1) count_if_update_lose [of i "tasks (c_status (slave_comp s))" "\<lambda>t. t_used t = 0" "t\<lparr>t_status := TASKSTATUS_LOADING\<rparr>"]
    by (simp add: free_slots_def t'(2) count_again_def put_task_def)
  with slot_taken_ok [OF ok t] show ?thesis by simp
qed

lemma take_tasks_ends:
  assumes "slave_ok s" "\<forall>e \<in> set es. used_offers e" "free_slots s < length es"
  shows "\<exists>s'. take_tasks junk es s = Inr (True, s') \<and> slave_ok s'"
  using assms
proof (induction es arbitrary: s)
  case (Cons e es)
  obtain got c1 s1 where r: "request_job_available junk (ask_conn e) s = Inr (got, c1, s1)"
    using request_job_available_result [OF Cons.prems(1), of "ask_conn e" "\<lambda>_. True" junk] by auto
  have ok1: "slave_ok s1"
    using yieldsD [OF request_job_available_ok [OF Cons.prems(1), of "\<lambda>(_, _, s). slave_ok s"] r] by simp
  show ?case
  proof (cases got)
    case None
    with r ok1 Cons.prems(1) show ?thesis by simp
  next
    case (Some itask)
    obtain s2 where s2: "launch_task (waiter_forked e) itask s1 = Inr s2" "slave_ok s2" "s2 = s1 \<or> main_gone s2"
      using launch_task_total [OF ok1] by blast
    obtain c3 s3 where s3: "update_computer_status junk (status_conn e) s2 = Inr (c3, s3)" "slave_ok s3" "slave_comp s3 = slave_comp s2"
      using update_computer_status_total [OF s2(2)] by blast
    have "free_slots s3 < length es" if "\<not> main_gone s2"
      using request_uses_slot [OF Cons.prems(1), of e] r Some s2(3) s3(3) Cons.prems(2,3) that by (fastforce simp: free_slots_def)
    then have "\<exists>s'. take_tasks junk es s3 = Inr (True, s') \<and> slave_ok s'" if "\<not> main_gone s2"
      using Cons.IH [OF s3(2)] Cons.prems(2) that by simp
    with r Some s2(1,2) s3(1,2) Cons.prems(1) show ?thesis by auto
  qed
qed simp

text \<open>C23.  The loop in which a slave takes the tasks the master has to offer, of which the source says
  that it could run for ever, ends after at most \<open>MAXTASKS + 1\<close> rounds: whatever the master answers and
  whatever breaks off, as long as the tasks it sends are marked as used, every round that goes on has
  taken one more slot.\<close>

theorem task_loop_ends:
  assumes "slave_ok s" "\<forall>e \<in> set es. used_offers e" "MAXTASKS < length es"
  shows "\<exists>s'. take_tasks junk es s = Inr (True, s') \<and> slave_ok s'"
proof (rule take_tasks_ends [OF assms(1,2)])
  have "free_slots s \<le> MAXTASKS"
    using count_if_le [of "\<lambda>t. t_used t = 0" "tasks (c_status (slave_comp s))"] slave_okD(2) [OF assms(1)] by (simp add: free_slots_def)
  with assms(3) show "free_slots s < length es" by simp
qed

section \<open>Witnesses\<close>

theorem consistency_pass_tasks_witness:
  "\<exists>s'. slave_consistency_pass (\<lambda>_. False) example_slave = Inr s' \<and> t_used (tasks (c_status (slave_comp s')) ! 0) = 0"
  using consistency_pass_tasks [OF example_slave_ok, of 0 "\<lambda>_. False"]
  by (auto simp: max_defs Let_def example_sdb_def example_computer_def free_task_def)

text \<open>A slave without a master: \<open>slave_start\<close> is interrupted, and the invariant holds all the same.\<close>

definition blank_slave :: slave where
  "blank_slave = example_slave\<lparr>sdb := (sdb example_slave)\<lparr>comp := (comp example_sdb)
     \<lparr>c_status := (c_status (comp example_sdb))\<lparr>nrunning := 77\<rparr>\<rparr>\<rparr>\<rparr>"

theorem slave_invariant_witness:
  "\<exists>s. slave_start None (Some 9) None (hwinfo example_computer) 0 None None blank_slave = Inr s \<and>
     cl_nmaxcpus (c_limits (slave_comp s)) \<le> hw_ncpus (hwinfo (slave_comp s)) \<and>
     count_if task_is_running (tasks (c_status (slave_comp s))) \<le> unat (nrunning (c_status (slave_comp s)))"
proof -
  have f: "fresh_slave blank_slave" by (simp add: fresh_slave_def blank_slave_def example_sdb_def example_computer_def max_defs)
  obtain s where s: "slave_start None (Some 9) None (hwinfo example_computer) 0 None None blank_slave = Inr s"
    by (simp add: slave_start_def register_slave_def Let_def)
  have "slave_reachable s" by (rule slave_reachable.Start [OF f s])
  from slave_invariant [OF this] s show ?thesis by blast
qed

theorem task_loop_ends_witness:
  "\<exists>s'. take_tasks 0 (replicate 33 \<lparr>ask_conn = Some master_offer, waiter_forked = True, status_conn = None\<rparr>) example_slave = Inr (True, s') \<and>
     slave_ok s'"
proof -
  have "used_offers \<lparr>ask_conn = Some master_offer, waiter_forked = True, status_conn = None\<rparr>"
    by (simp add: used_offers_def master_offer_def offered_task_def)
  then show ?thesis by (intro task_loop_ends [OF example_slave_ok]) (simp_all add: max_defs)
qed

end
