(* ===== verification/Together.thy ===== *)
theory Together
  imports Upkeep Agreement
begin

text \<open>
  A master and a slave together: how a frame is handed over, how the end of a task is reported,
  and how a client changes the limits of a slave.
\<close>

section \<open>Handing over a frame\<close>

text \<open>
  The connection as the master sees it, when the slave accepts the task for the slot \<open>itask\<close>, and as
  the slave sees it, when the master sends \<open>xs\<close>.
\<close>

definition accepting :: "u16 \<Rightarrow> nat \<Rightarrow> conn" where
  "accepting itask n =
     \<lparr>rx = [MRequest \<lparr>rq_type = R_R_AVAILJOB, rq_who = SLAVE, rq_data = RERR_NOERROR\<rparr>,
            MRequest \<lparr>rq_type = R_R_AVAILJOB, rq_who = SLAVE, rq_data = ucast itask\<rparr>], tx = [], tx_left = n\<rparr>"

definition offering :: "msg list \<Rightarrow> nat \<Rightarrow> conn" where
  "offering xs n = \<lparr>rx = xs, tx = [], tx_left = n\<rparr>"

lemma job_update_assigned_eq:
  assumes "length (jobs m) = MAXJOBS" "unat ijob < MAXJOBS" "j_used (jobs m ! unat ijob) \<noteq> 0"
    and "job_frame_number_correct (jobs m ! unat ijob) (job_frame_index_to_number (jobs m ! unat ijob) iframe) = Inr True"
    and "shmat (fishmid (jobs m ! unat ijob)) (frame_shm m) = Some fi" "unat iframe < length fi"
  shows "\<exists>m'. job_update_assigned ijob iframe icomp itask m = Inr m' \<and> semid m' = semid m \<and> computers m' = computers m \<and>
    length (jobs m') = MAXJOBS \<and> (\<exists>st. jobs m' = (jobs m)[unat ijob := (jobs m ! unat ijob)\<lparr>j_status := st\<rparr>]) \<and>
    (\<exists>f. segs (frame_shm m') (fishmid (jobs m ! unat ijob)) = Some (fi[unat iframe := f]) \<and>
      fi_status f = FS_ASSIGNED \<and> fi_icomp f = icomp \<and> fi_itask f = itask)"
proof -
  have "\<exists>st. jobs m = (jobs m)[unat ijob := (jobs m ! unat ijob)\<lparr>j_status := st\<rparr>]"
    by (rule exI [of _ "j_status (jobs m ! unat ijob)"]) simp
  with assms show ?thesis
    by (simp add: job_update_assigned_def index_correct attach_frame_shared_memory_def Let_def shmput_def) (auto simp: upd_job_def)
qed

lemma computer_update_assigned_eq:
  assumes "length (jobs m) = MAXJOBS" "unat ijob < MAXJOBS" "j_used (jobs m ! unat ijob) \<noteq> 0"
    and "length (computers m) = MAXCOMPUTERS" "unat ic < MAXCOMPUTERS" "c_used (computers m ! unat ic) \<noteq> 0"
    and "length (tasks (c_status (computers m ! unat ic))) = MAXTASKS" "unat itask < MAXTASKS"
  shows "\<exists>m'. computer_update_assigned ijob iframe ic itask m = Inr m' \<and> semid m' = semid m \<and> frame_shm m' = frame_shm m \<and>
    jobs m' = jobs m \<and> length (computers m') = MAXCOMPUTERS \<and>
    tasks (c_status (computers m' ! unat ic)) = (tasks (c_status (computers m ! unat ic)))[unat itask :=
      assigned_task (jobs m ! unat ijob) ijob iframe ic itask (tasks (c_status (computers m ! unat ic)) ! unat itask)]"
  using assms by (simp add: computer_update_assigned_def index_correct computer_index_correct)
    (simp add: upd_computer_def)

lemma assigned_task_status [simp]:
  "assigned_task (j\<lparr>j_status := st\<rparr>) ijob iframe ic itask t = assigned_task j ijob iframe ic itask t"
  "job_frame_index_to_number (j\<lparr>j_status := st\<rparr>) k = job_frame_index_to_number j k"
  by (simp_all add: assigned_task_def job_frame_index_to_number_def)

lemma index_there_and_back [simp]: "(ucast (ucast (x :: u16) :: u32) :: u16) = x"
  by (rule bit_word_eqI) (simp add: bit_ucast_iff)

lemma hand_over_frame_eq:
  assumes sem: "semid m = sem_free"
    and j: "length (jobs m) = MAXJOBS" "unat ijob < MAXJOBS" "j_used (jobs m ! unat ijob) \<noteq> 0"
    and f: "job_frame_number_correct (jobs m ! unat ijob) (job_frame_index_to_number (jobs m ! unat ijob) iframe) = Inr True"
      "shmat (fishmid (jobs m ! unat ijob)) (frame_shm m) = Some fi" "unat iframe < length fi"
    and k: "length (computers m) = MAXCOMPUTERS" "unat ic < MAXCOMPUTERS" "c_used (computers m ! unat ic) \<noteq> 0"
      "length (tasks (c_status (computers m ! unat ic))) = MAXTASKS" "unat itask < MAXTASKS"
    and n: "2 \<le> n"
  shows "\<exists>t m' c'. hand_over_frame ic ijob iframe (accepting itask n) m = Inr (c', m') \<and>
    t = assigned_task (jobs m ! unat ijob) ijob iframe ic itask (tasks (c_status (computers m ! unat ic)) ! unat itask) \<and>
    tx c' = [MRequest \<lparr>rq_type = R_R_AVAILJOB, rq_who = MASTER, rq_data = RERR_NOERROR\<rparr>, MTask t] \<and>
    semid m' = sem_free \<and> tasks (c_status (computers m' ! unat ic)) ! unat itask = t \<and>
    (\<exists>f. segs (frame_shm m') (fishmid (jobs m ! unat ijob)) = Some (fi[unat iframe := f]) \<and>
      fi_status f = FS_ASSIGNED \<and> fi_icomp f = ic \<and> fi_itask f = itask)"
proof -
  let ?m = "m\<lparr>semid := sem_held\<rparr>"
  obtain m1 st g where m1: "job_update_assigned ijob iframe ic itask ?m = Inr m1" "semid m1 = sem_held" "computers m1 = computers m"
    "length (jobs m1) = MAXJOBS" "jobs m1 = (jobs m)[unat ijob := (jobs m ! unat ijob)\<lparr>j_status := st\<rparr>]"
    "segs (frame_shm m1) (fishmid (jobs m ! unat ijob)) = Some (fi[unat iframe := g])"
    "fi_status g = FS_ASSIGNED" "fi_icomp g = ic" "fi_itask g = itask"
    using job_update_assigned_eq [of ?m ijob iframe fi ic itask] j f by auto
  let ?t = "assigned_task (jobs m ! unat ijob) ijob iframe ic itask (tasks (c_status (computers m ! unat ic)) ! unat itask)"
  obtain m2 where m2: "computer_update_assigned ijob iframe ic itask m1 = Inr m2" "semid m2 = sem_held" "frame_shm m2 = frame_shm m1"
    "length (computers m2) = MAXCOMPUTERS" "tasks (c_status (computers m2 ! unat ic)) = (tasks (c_status (computers m ! unat ic)))[unat itask := ?t]"
    using computer_update_assigned_eq [of m1 ijob ic itask iframe] j k m1 by auto
  have "hand_over_frame ic ijob iframe (accepting itask n) m =
      Inr (\<lparr>rx = [], tx = [MRequest \<lparr>rq_type = R_R_AVAILJOB, rq_who = MASTER, rq_data = RERR_NOERROR\<rparr>, MTask ?t],
        tx_left = n - 2\<rparr>, release_db m2)"
    using n sem m1(1) m2(1,4,5) k
    by (simp add: hand_over_frame_def accepting_def send_request_def send_msg_def recv_request_def recv_as_def rd_def Let_def)
  then show ?thesis using m1(6-9) m2(2,3,5) k by auto
qed

lemma task_request_eq:
  assumes ok: "slave_ok s" and i: "first_idx (\<lambda>t. t_used t = 0) (tasks (c_status (slave_comp s))) = Some i" and n: "3 \<le> n"
  shows "\<exists>c'. request_job_available junk
      (Some (offering [MRequest \<lparr>rq_type = R_R_AVAILJOB, rq_who = MASTER, rq_data = RERR_NOERROR\<rparr>, MTask t] n)) s =
    Inr (Some (of_nat i), Some c', upd_comp (\<lambda>k. count_again (put_task i (\<lambda>_. t\<lparr>t_status := TASKSTATUS_LOADING\<rparr>) k)) s) \<and>
    tx c' = MRequest \<lparr>rq_type = R_R_AVAILJOB, rq_who = SLAVE, rq_data = junk\<rparr> # rx (accepting (of_nat i) 0)"
proof -
  have "i < 32" using first_idx_SomeD [OF i] slave_okD(2) [OF ok] by (simp add: max_defs)
  then have w: "unat (of_nat i :: u16) = i" by (simp add: unat_of_nat)
  have "unat (-1 :: u16) = 65535" by (simp add: unsigned_minus_1_eq_mask mask_eq_exp_minus_1)
  with w \<open>i < 32\<close> have w1: "(of_nat i :: u16) \<noteq> -1" by auto
  have l: "locked (\<lambda>s. recount (upd_task i (\<lambda>_. t\<lparr>t_status := TASKSTATUS_LOADING\<rparr>) s)) (upd_comp (put_task i f) s) =
      Inr (upd_comp (\<lambda>k. count_again (put_task i (\<lambda>_. t\<lparr>t_status := TASKSTATUS_LOADING\<rparr>) k)) s)" for f
    using slave_okD(1) [OF ok] unfolding upd_as_comp
    by (subst locked_upd [where g = "\<lambda>k. count_again (put_task i (\<lambda>_. t\<lparr>t_status := TASKSTATUS_LOADING\<rparr>) k)"])
       (simp_all add: put_task_twice)
  show ?thesis
    using n w w1
    by (simp add: request_job_available_def offering_def accepting_def accept_task_def send_request_def send_msg_def recv_request_def
        recv_as_def recv_task_def task_available_slave [OF ok] i sdb_of_upd_comp l Let_def)
qed

text \<open>C21.  The master and a slave agree on a frame that changes hands.  When the slave asks with a free
  slot and the connection holds, each end reads what the other has written, in order, and afterwards
  the frame is assigned in the master's record to that computer and slot, the slave has in that very
  slot a task that is loading, with the number of the job and of the frame, and the master's own
  record of the slave's slot says the same.\<close>

theorem frame_handed_over:
  assumes sem: "semid m = sem_free"
    and j: "length (jobs m) = MAXJOBS" "unat ijob < MAXJOBS" "j_used (jobs m ! unat ijob) \<noteq> 0"
    and f: "job_frame_number_correct (jobs m ! unat ijob) (job_frame_index_to_number (jobs m ! unat ijob) iframe) = Inr True"
      "shmat (fishmid (jobs m ! unat ijob)) (frame_shm m) = Some fi" "unat iframe < length fi"
    and k: "length (computers m) = MAXCOMPUTERS" "unat ic < MAXCOMPUTERS" "c_used (computers m ! unat ic) \<noteq> 0"
      "length (tasks (c_status (computers m ! unat ic))) = MAXTASKS"
    and s: "slave_ok s" "first_idx (\<lambda>t. t_used t = 0) (tasks (c_status (slave_comp s))) = Some i"
    and n: "2 \<le> n" "3 \<le> n'"
  shows "\<exists>cm m' cs s'. hand_over_frame ic ijob iframe (accepting (of_nat i) n) m = Inr (cm, m') \<and>
    request_job_available junk (Some (offering (tx cm) n')) s = Inr (Some (of_nat i), Some cs, s') \<and>
    tx cs = MRequest \<lparr>rq_type = R_R_AVAILJOB, rq_who = SLAVE, rq_data = junk\<rparr> # rx (accepting (of_nat i) n) \<and>
    (let t = tasks (c_status (slave_comp s')) ! i in
       t_used t \<noteq> 0 \<and> t_status t = TASKSTATUS_LOADING \<and> t_ijob t = ijob \<and> t_icomp t = ic \<and>
       t_frame t = job_frame_index_to_number (jobs m ! unat ijob) iframe \<and>
       tasks (c_status (computers m' ! unat ic)) ! i = t) \<and>
    (\<exists>fr. segs (frame_shm m') (fishmid (jobs m ! unat ijob)) = Some (fi[unat iframe := fr]) \<and>
       fi_status fr = FS_ASSIGNED \<and> fi_icomp fr = ic \<and> unat (fi_itask fr) = i)"
proof -
  have i: "i < MAXTASKS" "i < length (tasks (c_status (slave_comp s)))" using first_idx_SomeD [OF s(2)] slave_okD(2) [OF s(1)] by simp_all
  then have w: "unat (of_nat i :: u16) = i" by (simp add: unat_of_nat max_defs)
  define t where "t = assigned_task (jobs m ! unat ijob) ijob iframe ic (of_nat i) (tasks (c_status (computers m ! unat ic)) ! i)"
  obtain m' cm fr where m: "hand_over_frame ic ijob iframe (accepting (of_nat i) n) m = Inr (cm, m')"
    "tx cm = [MRequest \<lparr>rq_type = R_R_AVAILJOB, rq_who = MASTER, rq_data = RERR_NOERROR\<rparr>, MTask t]"
    "tasks (c_status (computers m' ! unat ic)) ! i = t"
    "segs (frame_shm m') (fishmid (jobs m ! unat ijob)) = Some (fi[unat iframe := fr])"
    "fi_status fr = FS_ASSIGNED" "fi_icomp fr = ic" "fi_itask fr = of_nat i"
    using hand_over_frame_eq [OF sem j f k _ n(1), of "of_nat i"] i(1) w by (auto simp: t_def)
  have t: "t\<lparr>t_status := TASKSTATUS_LOADING\<rparr> = t" "t_used t \<noteq> 0" "t_status t = TASKSTATUS_LOADING" "t_ijob t = ijob" "t_icomp t = ic"
    "t_frame t = job_frame_index_to_number (jobs m ! unat ijob) iframe" by (simp_all add: t_def assigned_task_def)
  obtain cs where c: "request_job_available junk (Some (offering (tx cm) n')) s =
      Inr (Some (of_nat i), Some cs, upd_comp (\<lambda>k. count_again (put_task i (\<lambda>_. t) k)) s)"
    "tx cs = MRequest \<lparr>rq_type = R_R_AVAILJOB, rq_who = SLAVE, rq_data = junk\<rparr> # rx (accepting (of_nat i) n)"
    using task_request_eq [OF s n(2), of junk t] t(1) m(2) by (auto simp: accepting_def)
  have fr: "\<exists>f. fi[unat iframe := fr] = fi[unat iframe := f] \<and> fi_status f = FS_ASSIGNED \<and> fi_icomp f = ic \<and> unat (fi_itask f) = i"
    using m(5-7) w by (intro exI [of _ fr]) simp
  show ?thesis
    unfolding m(1) using c m(3,4) i t(2-6) fr
    by (simp add: count_again_def put_task_def)
qed

theorem frame_handed_over_witness:
  "\<exists>cm m' cs s'. hand_over_frame 0 0 1 (accepting 1 9) example_master = Inr (cm, m') \<and>
     request_job_available 5 (Some (offering (tx cm) 9)) example_slave = Inr (Some 1, Some cs, s') \<and>
     t_frame (tasks (c_status (slave_comp s')) ! 1) = 2"
proof -
  have m: "semid example_master = sem_free" "length (jobs example_master) = MAXJOBS" "length (computers example_master) = MAXCOMPUTERS"
    "jobs example_master ! 0 = render_job" "computers example_master ! 0 = pool_computer"
    "shmat (fishmid render_job) (frame_shm example_master) = Some [zero_frame, zero_frame, zero_frame]"
    by (simp_all add: example_master_def max_defs render_job_def shmat_def shm_empty_def)
  have k: "c_used pool_computer \<noteq> 0" "length (tasks (c_status pool_computer)) = MAXTASKS"
    by (simp_all add: pool_computer_def example_computer_def max_defs)
  have j: "j_used render_job \<noteq> 0" "job_frame_index_to_number render_job 1 = 2" "job_frame_number_correct render_job 2 = Inr True"
    by (simp_all add: render_job_def zero_job_def job_frame_index_to_number_def job_frame_number_correct_def)
  have "\<exists>cm m' cs s'. hand_over_frame 0 0 1 (accepting (of_nat 1) 9) example_master = Inr (cm, m') \<and>
    request_job_available 5 (Some (offering (tx cm) 9)) example_slave = Inr (Some (of_nat 1), Some cs, s') \<and>
    tx cs = MRequest \<lparr>rq_type = R_R_AVAILJOB, rq_who = SLAVE, rq_data = 5\<rparr> # rx (accepting (of_nat 1) 9) \<and>
    (let t = tasks (c_status (slave_comp s')) ! 1 in
       t_used t \<noteq> 0 \<and> t_status t = TASKSTATUS_LOADING \<and> t_ijob t = 0 \<and> t_icomp t = 0 \<and>
       t_frame t = job_frame_index_to_number (jobs example_master ! unat (0 :: u32)) 1 \<and>
       tasks (c_status (computers m' ! unat (0 :: u32))) ! 1 = t) \<and>
    (\<exists>fr. segs (frame_shm m') (fishmid (jobs example_master ! unat (0 :: u32))) = Some ([zero_frame, zero_frame, zero_frame][unat (1 :: u32) := fr]) \<and>
       fi_status fr = FS_ASSIGNED \<and> fi_icomp fr = 0 \<and> unat (fi_itask fr) = 1)"
    by (rule frame_handed_over) (use m k j example_slave_ok example_slave_free in \<open>simp_all add: max_defs\<close>)
  then show ?thesis using m(4) j(2) by (simp add: Let_def) blast
qed

section \<open>Reporting the end of a task\<close>

lemma low_bits:
  fixes n :: u32
  assumes "n \<le> 255"
  shows "n AND 255 = n" "n AND 256 = 0" "n AND 512 = 0"
proof -
  have "take_bit 8 n = n"
    using assms by (simp add: word_unat_eq_iff unsigned_take_bit_eq take_bit_nat_eq_self_iff word_le_nat_alt)
  then have m: "n AND 255 = n" by (simp add: take_bit_eq_mask mask_eq_exp_minus_1)
  then show "n AND 255 = n" .
  have "n AND k = n AND (255 AND k)" for k by (subst (1) m [symmetric]) (simp only: and.assoc)
  from this [of 256] this [of 512] show "n AND 256 = 0" "n AND 512 = 0" by simp_all
qed

text \<open>The end of a process survives the packing into one number: what the waiter stores, from the
  exit code or the signal of the process, is read back by the master's macros as just that, and never
  as both or as the other.\<close>

theorem exit_status_roundtrip:
  assumes "case rc of Signaled n \<Rightarrow> n \<le> 127 | Exited n \<Rightarrow> n \<le> 255 | Neither \<Rightarrow> True"
  shows "(case rc of
      Signaled n \<Rightarrow> DR_WIFSIGNALED (exit_status rc) \<and> \<not> DR_WIFEXITED (exit_status rc) \<and> DR_WTERMSIG (exit_status rc) = n
    | Exited n \<Rightarrow> DR_WIFEXITED (exit_status rc) \<and> \<not> DR_WIFSIGNALED (exit_status rc) \<and> DR_WEXITSTATUS (exit_status rc) = n
    | Neither \<Rightarrow> \<not> DR_WIFEXITED (exit_status rc) \<and> \<not> DR_WIFSIGNALED (exit_status rc))"
proof (cases rc)
  case (Signaled n)
  with assms have "n \<le> 255" by (simp add: word_le_nat_alt)
  from low_bits [OF this] Signaled show ?thesis
    by (simp add: exit_status_def DR_WIFSIGNALED_def DR_WIFEXITED_def DR_WTERMSIG_def bit.conj_disj_distrib2)
next
  case (Exited n)
  with assms have "n \<le> 255" by simp
  from low_bits [OF this] Exited show ?thesis
    by (simp add: exit_status_def DR_WIFSIGNALED_def DR_WIFEXITED_def DR_WEXITSTATUS_def bit.conj_disj_distrib2)
qed (simp add: exit_status_def DR_WIFSIGNALED_def DR_WIFEXITED_def)

theorem exit_status_roundtrip_witness: "DR_WTERMSIG (exit_status (Signaled 9)) = 9"
  using exit_status_roundtrip [of "Signaled 9"] by simp

section \<open>Killing a task that has not started\<close>

text \<open>A kill request for a task that the slave has just taken, before its waiter has recorded the
  process, ends the slave: the pid it finds is the 0 that the master sent, and a signal to the group 0
  goes to the slave's own processes.  Once the waiter has stored the pid, the same request reaches the
  processes of the task and nothing else.\<close>

theorem early_kill_stops_slave:
  assumes ok: "slave_ok s" and r: "request_job_available junk sfd s = Inr (Some itask, sfd', s')"
    and pid: "\<forall>c t. sfd = Some c \<longrightarrow> MTask t \<in> set (rx c) \<longrightarrow> t_pid t = 0"
  shows "handle_rs_r_killtask \<lparr>rq_type = RS_R_KILLTASK, rq_who = MASTER, rq_data = ucast itask\<rparr> s' = Inr (s'\<lparr>interrupted := True\<rparr>) \<and>
    (\<forall>p. p \<noteq> 0 \<longrightarrow> (\<exists>s2. task_started itask p s' = Inr s2 \<and>
       handle_rs_r_killtask \<lparr>rq_type = RS_R_KILLTASK, rq_who = MASTER, rq_data = ucast itask\<rparr> s2 =
         Inr (s2\<lparr>groups_killed := groups_killed s2 @ [p]\<rparr>)))"
proof -
  have G: "\<forall>c t c' c''. sfd = Some c \<longrightarrow> rx c' = tl (rx c) \<longrightarrow> recv_task c' = (Some t, c'') \<longrightarrow> t_pid t = 0"
    using pid recv_task_in by (metis list.set_sel(2) tl_Nil)
  obtain i where i: "first_idx (\<lambda>t. t_used t = 0) (tasks (c_status (slave_comp s))) = Some i"
    and t: "slot_taken i (\<lambda>t. t_pid t = 0) s (Some itask, s')"
    using request_job_available_result [OF ok G, of junk] r by (auto simp: slot_given_back_def)
  then obtain t where t': "t_pid t = 0" "itask = of_nat i"
      "s' = upd_comp (\<lambda>k. count_again (put_task i (\<lambda>_. t\<lparr>t_status := TASKSTATUS_LOADING\<rparr>) k)) s"
    by (auto simp: slot_taken_def)
  have l: "i < length (tasks (c_status (slave_comp s)))" using first_idx_SomeD [OF i] by simp
  then have w: "unat itask = i" "unat (ucast itask :: u32) = i"
    using slave_okD(2) [OF ok] by (simp_all add: t'(2) unat_of_nat max_defs unsigned_ucast_eq take_bit_eq_mod)
  have at: "task_at i s' = Inr (t\<lparr>t_status := TASKSTATUS_LOADING\<rparr>)" using l by (simp add: task_at_def rd_def t'(3) count_again_def put_task_def)
  have st: "task_started itask p s' = Inr (upd_comp (\<lambda>k. count_again (put_task i (\<lambda>t. t\<lparr>t_status := TASKSTATUS_LOADING,
         t_start_loading_time := sdb_now (sdb s'), t_pid := p\<rparr>) k)) s')" for p
    using slave_okD(1) [OF ok] unfolding task_started_def upd_as_comp w
    by (intro locked_upd) (simp_all add: t'(3))
  have at2: "\<exists>t2. task_at i (upd_comp (\<lambda>k. count_again (put_task i (\<lambda>t. t\<lparr>t_status := TASKSTATUS_LOADING,
         t_start_loading_time := sdb_now (sdb s'), t_pid := p\<rparr>) k)) s') = Inr t2 \<and> t_pid t2 = p" for p
    using l by (simp add: task_at_def rd_def t'(3) count_again_def put_task_def)
  have "handle_rs_r_killtask \<lparr>rq_type = RS_R_KILLTASK, rq_who = MASTER, rq_data = ucast itask\<rparr> s' = Inr (s'\<lparr>interrupted := True\<rparr>)"
    using at t'(1) by (simp add: handle_rs_r_killtask_def w kill_group_def)
  moreover have "\<exists>s2. task_started itask p s' = Inr s2 \<and>
       handle_rs_r_killtask \<lparr>rq_type = RS_R_KILLTASK, rq_who = MASTER, rq_data = ucast itask\<rparr> s2 =
         Inr (s2\<lparr>groups_killed := groups_killed s2 @ [p]\<rparr>)" if "p \<noteq> 0" for p
  proof -
    obtain s2 t2 where "task_started itask p s' = Inr s2" "task_at i s2 = Inr t2" "t_pid t2 = p"
      using st [of p] at2 [of p] by blast
    with that show ?thesis by (simp add: handle_rs_r_killtask_def w kill_group_def)
  qed
  ultimately show ?thesis by blast
qed

theorem early_kill_stops_slave_witness:
  "\<exists>itask c s'. request_job_available 0 (Some master_offer) example_slave = Inr (Some itask, c, s') \<and>
     handle_rs_r_killtask \<lparr>rq_type = RS_R_KILLTASK, rq_who = MASTER, rq_data = ucast itask\<rparr> s' = Inr (s'\<lparr>interrupted := True\<rparr>)"
proof -
  obtain c s' where r: "request_job_available 0 (Some master_offer) example_slave = Inr (Some (of_nat 1), c, s')"
    using task_request_eq [OF example_slave_ok example_slave_free, of 9 0 offered_task] by (auto simp: offering_def master_offer_def)
  have "handle_rs_r_killtask \<lparr>rq_type = RS_R_KILLTASK, rq_who = MASTER, rq_data = ucast (of_nat 1 :: u16)\<rparr> s' = Inr (s'\<lparr>interrupted := True\<rparr>)"
    using early_kill_stops_slave [OF example_slave_ok r] by (simp add: master_offer_def offered_task_def free_task_def)
  with r show ?thesis by blast
qed

section \<open>The number of processors a slave may use\<close>

lemma start_nmaxcpus:
  "cl_nmaxcpus (c_limits (slave_comp (before_registration enabled max_cpus hw s))) =
     (if start_flags s AND SDBF_SETMAXCPUS \<noteq> 0 then min (cl_nmaxcpus (start_limits s)) (hw_ncpus hw) else hw_ncpus hw)"
  by (auto simp: before_registration_def slave_set_limits_def Let_def upd_limits_def computer_limits_cpu_init_def min_def)

lemma change_limits_result:
  assumes "slave_ok s" "change_limits f junk sfd s = Inr (sfd', s')"
  shows "s' = upd_limits f s"
  using assms(2) locked_upd_comp [OF slave_okD(1) [OF assms(1)], of "\<lambda>c. c\<lparr>c_limits := f (c_limits c)\<rparr>"]
  by (auto simp: change_limits_def upd_limits_def andThen_eq_Inr_iff)

text \<open>A client, the slave and its limits: the slave starts with as many processors as it has, or
  with the number of the option \<^verbatim>\<open>-n\<close> when that is less, and the variable \<^verbatim>\<open>DRQUEUE_MAX_CPUS\<close> of its
  environment makes no difference; and when a client asks for another number, what it wrote is what
  the handler of the slave reads, and the number becomes the one asked for, or the number of
  processors when that is less.\<close>

theorem processor_limit_of_slave:
  assumes "fresh_slave s" "slave_start enabled max_cpus env_pool hw junk reg_sfd lim_sfd s = Inr s1" "0 < k"
  shows "cl_nmaxcpus (c_limits (slave_comp s1)) =
      (if start_flags s AND SDBF_SETMAXCPUS \<noteq> 0 then min (cl_nmaxcpus (start_limits s)) (hw_ncpus hw) else hw_ncpus hw) \<and>
    (\<exists>c. request_slave_limits_nmaxcpus_set n CLIENT (Some (offering [] k)) = (Inr (), Some c) \<and>
      (\<forall>sfd sfd' c' s2. handle_request_slave junk sfd (peer c k) s1 = Inr (sfd', c', s2) \<longrightarrow>
        unat (cl_nmaxcpus (c_limits (slave_comp s2))) = min (unat n) (unat (hw_ncpus (hwinfo (slave_comp s1))))))"
proof -
  have ok: "slave_ok s1" by (rule slave_start_ok [OF assms(1,2)])
  have l: "cl_nmaxcpus (c_limits (slave_comp s1)) =
      (if start_flags s AND SDBF_SETMAXCPUS \<noteq> 0 then min (cl_nmaxcpus (start_limits s)) (hw_ncpus hw) else hw_ncpus hw)"
    using yieldsD [OF slave_start_same assms(2)] start_nmaxcpus [of enabled max_cpus hw s]
    by (simp add: Let_def own_limits_def)
  let ?c = "\<lparr>rx = [], tx = [MRequest \<lparr>rq_type = RS_R_SETNMAXCPUS, rq_who = CLIENT, rq_data = n\<rparr>], tx_left = k - 1\<rparr>"
  let ?n = "if n < ucast (hw_ncpus (hwinfo (slave_comp s1))) then ucast n else hw_ncpus (hwinfo (slave_comp s1))"
  have c: "request_slave_limits_nmaxcpus_set n CLIENT (Some (offering [] k)) = (Inr (), Some ?c)"
    using assms(3) by (simp add: request_slave_limits_nmaxcpus_set_def connected_def ask_def send_request_def send_msg_def succeed_def offering_def)
  have "unat (hw_ncpus (hwinfo (slave_comp s1))) < 65536" by (rule order.strict_trans2 [OF unsigned_less]) simp
  then have small: "unat n < unat (hw_ncpus (hwinfo (slave_comp s1))) \<Longrightarrow> unat n mod 65536 = unat n" by (simp only: mod_less order.strict_trans)
  have n: "unat ?n = min (unat n) (unat (hw_ncpus (hwinfo (slave_comp s1))))"
    using small
    by (auto simp: word_less_nat_alt unsigned_ucast_eq take_bit_eq_mod min_def)
  have "cl_nmaxcpus (c_limits (slave_comp s2)) = ?n" if h: "handle_request_slave junk sfd (peer ?c k) s1 = Inr (sfd', c', s2)" for sfd sfd' c' s2
  proof -
    obtain s3 where s3: "change_limits (\<lambda>cl. cl\<lparr>cl_nmaxcpus := ?n\<rparr>) junk sfd s1 = Inr (sfd', s3)" "s2 = slave_process_exit s3"
      using h by (auto simp: handle_request_slave_def serve_slave_def peer_def recv_request_def recv_as_def
          handle_rs_r_setnmaxcpus_def with_conn_def andThen_eq_Inr_iff Let_def simp del: if_split cong: if_cong)
    have "s3 = upd_limits (\<lambda>cl. cl\<lparr>cl_nmaxcpus := ?n\<rparr>) s1" by (rule change_limits_result [OF ok s3(1)])
    then show ?thesis unfolding s3(2) by (simp only: slave_process_exit_def upd_limits_def) (simp del: if_split)
  qed
  with l c n show ?thesis by auto
qed

theorem processor_limit_of_slave_witness:
  "\<exists>s1. slave_start None (Some 9) None (hwinfo example_computer) 0 None None blank_slave = Inr s1 \<and> cl_nmaxcpus (c_limits (slave_comp s1)) = 4"
proof -
  have f: "fresh_slave blank_slave" by (simp add: fresh_slave_def blank_slave_def example_sdb_def example_computer_def max_defs)
  obtain s where s: "slave_start None (Some 9) None (hwinfo example_computer) 0 None None blank_slave = Inr s"
    by (simp add: slave_start_def register_slave_def Let_def)
  have "start_flags blank_slave = 0" by (simp add: blank_slave_def example_slave_def)
  with processor_limit_of_slave [OF f s, of 1] s show ?thesis by (simp add: example_computer_def)
qed

end
