(* ===== verification/Database.thy ===== *)
theory Database
  imports Master Agreement
begin

text \<open>
  The database file (\<open>database.c\<close>): what a master writes when it ends and what the next one reads when
  it starts.  A file is a connection of its own: saving writes to its \<open>tx\<close>, loading reads from its
  \<open>rx\<close>.  The announcement of the size of a job belongs to the job.
\<close>

section \<open>Saving\<close>

abbreviation DB_VERSION :: u32 where "DB_VERSION \<equiv> 10"
abbreviation DB_MAGIC :: u32 where "DB_MAGIC \<equiv> 0xADDEEFBE"

text \<open>\<open>ptr\<close> is \<open>sizeof (void *)\<close>.\<close>

definition database_version_id :: "u32 \<Rightarrow> u32" where
  "database_version_id ptr = push_bit 16 DB_VERSION OR ptr"

text \<open>
  Where the segment cannot be attached, blank frames are stored: \<open>junk\<close> is what the local
  \<open>fi2\<close> held in the fields that \<open>job_frame_info_init\<close> leaves alone.
\<close>

definition database_job_save_frames :: "frame_info \<Rightarrow> job \<Rightarrow> frame_info shm \<Rightarrow> conn \<Rightarrow> fault + bool \<times> conn" where
  "database_job_save_frames junk j s c =
     (let n = nat (sint (job_nframes j))
      in case attach_frame_shared_memory (fishmid j) s of
           None \<Rightarrow> Inr (send_all (replicate n (MFrame (job_frame_info_init junk))) c)
         | Some fi \<Rightarrow> if n \<le> length fi then Inr (send_all (map MFrame (take n fi)) c) else Inl OutOfBounds)"

definition database_job_save_blocked_hosts :: "job \<Rightarrow> cstring shm \<Rightarrow> conn \<Rightarrow> fault + bool \<times> conn" where
  "database_job_save_blocked_hosts j s c =
     (if nblocked j \<noteq> 0 then
        (case attach_blocked_host_shared_memory (bhshmid j) s of
           None \<Rightarrow> Inr (False, c)
         | Some obh \<Rightarrow> send_blocked_host_list obh (ucast (nblocked j)) c)
      else send_blocked_host_list [] 0 c)"

definition database_job_save_envvars :: "job \<Rightarrow> envvar shm \<Rightarrow> conn \<Rightarrow> fault + bool \<times> conn" where
  "database_job_save_envvars j s = send_envvars (j_envvars j, s)"

text \<open>The part of a step that is reached only when the one before has succeeded.\<close>

definition and_if :: "fault + bool \<times> 'a \<Rightarrow> ('a \<Rightarrow> fault + bool \<times> 'a) \<Rightarrow> fault + bool \<times> 'a" where
  "and_if r f = andThen r (\<lambda>(ok, x). if ok then f x else Inr (False, x))"

definition database_job_save :: "frame_info \<Rightarrow> job \<Rightarrow> master \<Rightarrow> conn \<Rightarrow> fault + bool \<times> conn" where
  "database_job_save junk j m c =
     and_if (Inr (send_msg (MJob (job_on_the_wire j)) c)) (\<lambda>c.
       if j_used j \<noteq> 0 then
         and_if (database_job_save_envvars j (env_shm m) c) (\<lambda>c.
         and_if (database_job_save_frames junk j (frame_shm m) c) (\<lambda>c.
           database_job_save_blocked_hosts j (host_shm m) c))
       else Inr (True, c))"

fun save_jobs :: "frame_info \<Rightarrow> nat list \<Rightarrow> master \<Rightarrow> conn \<Rightarrow> fault + bool \<times> conn" where
  "save_jobs junk [] m c = Inr (True, c)"
| "save_jobs junk (i # is) m c =
     andThen (rd (jobs m) i) (\<lambda>j. and_if (database_job_save junk j m c) (save_jobs junk is m))"

text \<open>
  \<open>database_save\<close>: \<open>fd\<close> is the file as it could be opened in the end, \<open>None\<close> when it could not.  The three
  writes of the header are not checked.  When something fails, the semaphore stays locked.
\<close>

definition write_header :: "u32 \<Rightarrow> conn \<Rightarrow> conn" where
  "write_header ptr c =
     snd (send_msg (MWord16 (of_nat MAXJOBS)) (snd (send_msg (MWord32 (database_version_id ptr)) (snd (send_msg (MWord32 DB_MAGIC) c)))))"

definition database_save :: "frame_info \<Rightarrow> u32 \<Rightarrow> conn option \<Rightarrow> master \<Rightarrow> fault + bool \<times> conn option \<times> master" where
  "database_save junk ptr fd m =
     andThen (lock_db m) (\<lambda>m. case fd of None \<Rightarrow> Inr (False, None, m) | Some c \<Rightarrow>
       andThen (save_jobs junk [0..<MAXJOBS] m (write_header ptr c)) (\<lambda>(ok, c).
         Inr (ok, Some c, if ok then release_db m else m)))"

section \<open>Loading\<close>

fun recv_each_frame :: "nat \<Rightarrow> conn \<Rightarrow> frame_info list \<times> bool \<times> conn" where
  "recv_each_frame 0 c = ([], True, c)"
| "recv_each_frame (Suc n) c =
     expect (recv_frame_info c) (\<lambda>c. ([], False, c)) (\<lambda>f c. case recv_each_frame n c of (fs, ok, c) \<Rightarrow> (f # fs, ok, c))"

text \<open>A job that breaks off here is deleted with its segments.\<close>

definition database_job_load_frames :: "job \<Rightarrow> conn \<Rightarrow> master \<Rightarrow> bool \<times> job \<times> conn \<times> master" where
  "database_job_load_frames j c m =
     (let nframes = job_nframes j
      in if nframes \<noteq> 0 then
           (case get_frame_shared_memory nframes (frame_shm m) of (k, s) \<Rightarrow>
              let j = j\<lparr>fishmid := k\<rparr>; m = m\<lparr>frame_shm := s\<rparr>
              in if k = -1 then (False, j, c, m)
                 else (case attach_frame_shared_memory k s of
                     None \<Rightarrow> (False, j, c, m)
                   | Some fi \<Rightarrow>
                       (case recv_each_frame (unat nframes) c of (fs, ok, c) \<Rightarrow>
                          let m = m\<lparr>frame_shm := shmput k (fs @ drop (length fs) fi) s\<rparr>
                          in if ok then (True, j, c, m)
                             else (case job_delete j m of (j, m) \<Rightarrow> (False, j, c, m)))))
         else (True, j\<lparr>fishmid := -1\<rparr>, c, m))"

fun recv_each_host :: "nat \<Rightarrow> conn \<Rightarrow> cstring list \<times> bool \<times> conn" where
  "recv_each_host 0 c = ([], True, c)"
| "recv_each_host (Suc n) c =
     expect (recv_blocked_host c) (\<lambda>c. ([], False, c)) (\<lambda>h c. case recv_each_host n c of (hs, ok, c) \<Rightarrow> (h # hs, ok, c))"

definition recv_blocked_host_list :: "conn \<Rightarrow> (cstring list \<times> u32) option \<times> conn" where
  "recv_blocked_host_list c =
     expect (read_32b c) (\<lambda>c. (None, c)) (\<lambda>n c.
       case recv_each_host (unat n) c of (hs, ok, c) \<Rightarrow> (if ok then Some (hs, n) else None, c))"

definition database_job_load_blocked_hosts :: "job \<Rightarrow> conn \<Rightarrow> master \<Rightarrow> bool \<times> job \<times> conn \<times> master" where
  "database_job_load_blocked_hosts j c m =
     expect (recv_blocked_host_list c) (\<lambda>c. (False, j, c, m)) (\<lambda>(hs, n) c.
       if n \<noteq> 0 then
         (case get_blocked_host_shared_memory n (host_shm m) of (k, s) \<Rightarrow>
            if k = -1 then (False, j, c, m\<lparr>host_shm := s\<rparr>)
            else (case attach_blocked_host_shared_memory k s of
                None \<Rightarrow> (False, j, c, m\<lparr>host_shm := s\<rparr>)
              | Some _ \<Rightarrow> (True, j\<lparr>bhshmid := k, nblocked := ucast n\<rparr>, c, m\<lparr>host_shm := shmput k hs s\<rparr>)))
       else (True, j\<lparr>bhshmid := -1, nblocked := 0\<rparr>, c, m))"

definition database_job_load_envvars :: "job \<Rightarrow> conn \<Rightarrow> master \<Rightarrow> fault + bool \<times> job \<times> conn \<times> master" where
  "database_job_load_envvars j c m =
     andThen (recv_envvars (j_envvars j, env_shm m) c) (\<lambda>(ok, (ev, s), c). Inr (ok, j\<lparr>j_envvars := ev\<rparr>, c, m\<lparr>env_shm := s\<rparr>))"

text \<open>The old job is deleted once the announcement of the size has arrived, so not when nothing arrives.\<close>

definition database_job_load :: "job \<Rightarrow> conn \<Rightarrow> master \<Rightarrow> fault + bool \<times> job \<times> conn \<times> master" where
  "database_job_load j0 c m =
     expect (recv_job_struct c) (\<lambda>c. Inr (False, j0, c, m)) (\<lambda>j c.
       let m = snd (job_delete j0 m);
           j = job_fix_received_invalid (step_not_zero j)
       in if j_used j \<noteq> 0 then
            and_if (database_job_load_envvars j c m) (\<lambda>(j, c, m).
            and_if (Inr (database_job_load_frames j c m)) (\<lambda>(j, c, m).
              Inr (database_job_load_blocked_hosts j c m)))
          else Inr (True, j, c, m))"

fun load_jobs :: "nat list \<Rightarrow> conn \<Rightarrow> master \<Rightarrow> fault + bool \<times> conn \<times> master" where
  "load_jobs [] c m = Inr (True, c, m)"
| "load_jobs (i # is) c m =
     (let m = init_job i m
      in andThen (database_job_load (jobs m ! i) c m) (\<lambda>(ok, j, c, m).
           let m = upd_job (of_nat i) (\<lambda>_. j) m
           in if ok then load_jobs is c m else Inr (False, c, m)))"

text \<open>
  \<open>database_load\<close>: \<open>fd\<close> is \<open>None\<close> when the file cannot be opened, \<open>magic\<close>, \<open>version\<close> and \<open>size\<close> what the local
  header held where the file is too short to set it.
\<close>

definition header_field :: "'a \<Rightarrow> 'a option \<times> conn \<Rightarrow> 'a \<times> conn" where
  "header_field junk r = (case r of (None, c) \<Rightarrow> (junk, c) | (Some x, c) \<Rightarrow> (x, c))"

definition database_load ::
    "u32 \<Rightarrow> u32 \<Rightarrow> u32 \<Rightarrow> u16 \<Rightarrow> conn option \<Rightarrow> master \<Rightarrow> fault + bool \<times> master" where
  "database_load ptr magic version size0 fd m = (case fd of None \<Rightarrow> Inr (False, m) | Some c \<Rightarrow>
     (case header_field magic (read_32b c) of (mg, c) \<Rightarrow>
      if mg \<noteq> DB_MAGIC then Inr (False, m)
      else (case header_field version (read_32b c) of (v, c) \<Rightarrow>
        if v \<noteq> database_version_id ptr then Inr (False, m)
        else (case header_field size0 (read_16b c) of (n, c) \<Rightarrow>
          if n \<noteq> of_nat MAXJOBS then Inr (False, m)
          else andThen (load_jobs [0..<unat n] c m) (\<lambda>(ok, _, m). Inr (ok, m))))))"

text \<open>The start of the master, up to the first connection.\<close>

definition master_start :: "u32 \<Rightarrow> u32 \<Rightarrow> u32 \<Rightarrow> u16 \<Rightarrow> conn option \<Rightarrow> master \<Rightarrow> fault + master" where
  "master_start ptr magic version size0 fd m =
     andThen (database_load ptr magic version size0 fd m) (\<lambda>(ok, m).
       Inr (init_computers (if ok then m else database_init m)))"

text \<open>And the end: the clean-up after the signal.\<close>

definition clean_out :: "frame_info \<Rightarrow> u32 \<Rightarrow> conn option \<Rightarrow> master \<Rightarrow> fault + conn option \<times> master" where
  "clean_out junk ptr fd m = andThen (database_save junk ptr fd m) (\<lambda>(_, fd, m). Inr (fd, clean_out_database m))"

section \<open>Whatever the file holds, the master starts well\<close>

text \<open>What loading one job into \<open>m\<close> leaves: the frames of \<open>j\<close> are in a new segment, and the others as they were.\<close>

definition frames_loaded :: "master \<Rightarrow> job \<Rightarrow> master \<Rightarrow> bool" where
  "frames_loaded m j m' \<longleftrightarrow>
     (\<forall>i. segs (frame_shm m) i \<noteq> None \<longrightarrow> segs (frame_shm m') i = segs (frame_shm m) i) \<and>
     (if fishmid j = -1 then j_used j = 0 \<or> job_nframes j = 0
      else segs (frame_shm m) (fishmid j) = None \<and>
        (\<exists>fi. segs (frame_shm m') (fishmid j) = Some fi \<and> length fi = unat (job_nframes j)))"

definition same_but_segments :: "master \<Rightarrow> master \<Rightarrow> bool" where
  "same_but_segments m m' \<longleftrightarrow> jobs m' = jobs m \<and> computers m' = computers m \<and> semid m' = semid m"

lemma job_delete_same: "job_delete j m = (j', m') \<Longrightarrow> same_but_segments m m'"
  by (auto simp: job_delete_def same_but_segments_def split: prod.splits)

lemma recv_each_frame_length: "recv_each_frame n c = (fs, ok, c') \<Longrightarrow> length fs \<le> n \<and> (ok \<longrightarrow> length fs = n)"
  by (induction n arbitrary: c fs ok c') (auto simp: expect_def split: prod.splits option.splits)

lemma load_frames_ok:
  assumes v: "shm_ok (frame_shm m)" and r: "database_job_load_frames j c m = (ok, j', c', m')"
  shows "same_but_segments m m' \<and> shm_ok (frame_shm m') \<and> (ok \<longrightarrow> frames_loaded m j' m')"
proof (cases "job_nframes j = 0")
  case True
  with r v show ?thesis by (auto simp: database_job_load_frames_def same_but_segments_def frames_loaded_def job_nframes_def)
next
  case False
  obtain k s where g: "shmget zero_frame (unat (job_nframes j)) (frame_shm m) = (k, s)" by fastforce
  have s: "shm_ok s" by (rule shm.valid_get [OF v g])
  have n: "job_nframes (j\<lparr>fishmid := k\<rparr>) = job_nframes j" by (simp add: job_nframes_def)
  consider (none) "k = -1" | (lost) "k \<noteq> -1" "shmat k s = None" | (got) fi where "k \<noteq> -1" "shmat k s = Some fi" by (cases "shmat k s") auto
  then show ?thesis
  proof cases
    case got
    obtain fs b c1 where f: "recv_each_frame (unat (job_nframes j)) c = (fs, b, c1)" by (metis surj_pair)
    let ?m = "m\<lparr>frame_shm := shmput k (fs @ drop (length fs) fi) s\<rparr>"
    have look: "segs s i = (if i = k then Some (replicate (unat (job_nframes j)) zero_frame) else segs (frame_shm m) i)" for i
      by (rule shm.get_look [OF v g got(1)])
    have fi: "length fi = unat (job_nframes j)" using look [of k] shmat_SomeD [OF got(2)] by simp
    have v2: "shm_ok (frame_shm ?m)" using shm_ok_shmput [OF s got(2)] by simp
    have old: "segs (frame_shm m) k = None" by (rule shm.get_fresh [OF v g got(1)])
    show ?thesis
    proof (cases b)
      case True
      with r False g got f have e: "ok" "j' = j\<lparr>fishmid := k\<rparr>" "m' = ?m"
        by (simp_all add: database_job_load_frames_def get_frame_shared_memory_def attach_frame_shared_memory_def)
      have "frames_loaded m j' m'"
        using got(1) old look recv_each_frame_length [OF f] True fi n by (auto simp: frames_loaded_def e)
      with v2 show ?thesis by (simp add: e same_but_segments_def)
    next
      case b: False
      obtain j2 m2 where d: "job_delete (j\<lparr>fishmid := k\<rparr>) ?m = (j2, m2)" by fastforce
      have e: "\<not> ok" "m' = m2"
        using r False g got f b d by (simp_all add: database_job_load_frames_def get_frame_shared_memory_def attach_frame_shared_memory_def)
      have "shm_ok (frame_shm m2)"
        using job_delete_eq(1) [OF d] got(1) v2 shm.valid_remove [of "frame_shm ?m" k] by (cases "shmrm k (frame_shm ?m)") auto
      then show ?thesis using job_delete_same [OF d] by (simp add: e same_but_segments_def)
    qed
  qed (use r False g s in \<open>auto simp: database_job_load_frames_def get_frame_shared_memory_def attach_frame_shared_memory_def same_but_segments_def\<close>)
qed

lemma load_hosts_same:
  assumes "database_job_load_blocked_hosts j c m = (ok, j', c', m')"
  shows "same_but_segments m m' \<and> frame_shm m' = frame_shm m \<and> fishmid j' = fishmid j \<and> j_used j' = j_used j \<and> job_nframes j' = job_nframes j"
  using assms unfolding database_job_load_blocked_hosts_def
  by (auto simp: expect_def same_but_segments_def job_nframes_def split: prod.splits option.splits if_splits)

text \<open>One job.\<close>

lemma same_but_segments_trans: "same_but_segments a b \<Longrightarrow> same_but_segments b c \<Longrightarrow> same_but_segments a c"
  by (simp add: same_but_segments_def)

lemma load_envvars_same:
  assumes "database_job_load_envvars j c m = Inr (ok, j', c', m')"
  shows "same_but_segments m m' \<and> frame_shm m' = frame_shm m \<and> fishmid j' = fishmid j"
  using assms unfolding database_job_load_envvars_def
  by (auto simp: andThen_def same_but_segments_def split: prod.splits sum.splits)

lemma frames_loaded_cong:
  "frames_loaded m1 j m2 \<Longrightarrow> frame_shm m1 = frame_shm m \<Longrightarrow> frame_shm m2 = frame_shm m' \<Longrightarrow> fishmid j' = fishmid j \<Longrightarrow>
   j_used j' = j_used j \<Longrightarrow> job_nframes j' = job_nframes j \<Longrightarrow> frames_loaded m j' m'"
  by (auto simp: frames_loaded_def split: if_splits)

lemma and_ifE:
  assumes "and_if r f = Inr (ok, y)"
  obtains (stop) "r = Inr (False, y)" "\<not> ok" | (go) x where "r = Inr (True, x)" "f x = Inr (ok, y)"
  using assms by (auto simp: and_if_def andThen_def split: sum.splits prod.splits if_splits)

lemma job_load_ok:
  assumes v: "shm_ok (frame_shm m)" and u: "unowned j0" and r: "database_job_load j0 c m = Inr (ok, j', c', m')"
  shows "same_but_segments m m' \<and> shm_ok (frame_shm m') \<and> (ok \<longrightarrow> frames_loaded m j' m')"
proof (cases "fst (recv_job_struct c)")
  case None
  with r v show ?thesis by (auto simp: database_job_load_def expect_def same_but_segments_def split: prod.splits option.splits)
next
  case (Some jw)
  let ?j = "job_fix_received_invalid (step_not_zero jw)"
  obtain c0 where c0: "recv_job_struct c = (Some jw, c0)" using Some by (metis prod.collapse)
  show ?thesis
  proof (cases "j_used ?j = 0")
    case True
    with r v c0 u show ?thesis
      by (auto simp: database_job_load_def job_delete_unowned same_but_segments_def frames_loaded_def job_fix_received_invalid_def)
  next
    case False
    have "and_if (database_job_load_envvars ?j c0 m) (\<lambda>(j, c, m). and_if (Inr (database_job_load_frames j c m)) (\<lambda>(j, c, m).
        Inr (database_job_load_blocked_hosts j c m))) = Inr (ok, j', c', m')"
      using r c0 u False by (simp add: database_job_load_def job_delete_unowned)
    then show ?thesis
    proof (cases rule: and_ifE)
      case stop
      with load_envvars_same [OF stop(1)] v show ?thesis by simp
    next
      case (go x)
      obtain j1 c1 m1 where x: "x = (j1, c1, m1)" by (cases x)
      note e = load_envvars_same [OF go(1) [unfolded x]]
      from go(2) show ?thesis unfolding x prod.case
      proof (cases rule: and_ifE)
        case stop
        then show ?thesis using load_frames_ok [of m1 j1 c1 ok j' c' m'] e v by (auto intro: same_but_segments_trans)
      next
        case (go y)
        obtain j2 c2 m2 where y: "y = (j2, c2, m2)" by (cases y)
        have f: "same_but_segments m1 m2 \<and> shm_ok (frame_shm m2) \<and> frames_loaded m1 j2 m2"
          using load_frames_ok [of m1 j1 c1 True j2 c2 m2] go(1) e v by (simp add: y)
        note h = load_hosts_same [of j2 c2 m2 ok j' c' m']
        have "frames_loaded m j' m'" if "database_job_load_blocked_hosts j2 c2 m2 = (ok, j', c', m')"
          by (rule frames_loaded_cong [of m1 j2 m2]) (use f e h that in auto)
        then show ?thesis using go(2) f e h by (auto simp: y intro: same_but_segments_trans)
      qed
    qed
  qed
qed

section \<open>All jobs\<close>

text \<open>After the first \<open>n\<close> jobs, and when the loading breaks off.\<close>

definition loaded_upto :: "nat \<Rightarrow> master \<Rightarrow> bool" where
  "loaded_upto n m \<longleftrightarrow> shape_ok m \<and> shm_ok (frame_shm m) \<and> semid m = sem_free \<and>
     (\<forall>i < n. fishmid (jobs m ! i) \<noteq> -1 \<longrightarrow> (\<exists>fi. segment_of m i = Some fi \<and> length fi = frame_count m i)) \<and>
     (\<forall>i < n. \<forall>k < n. fishmid (jobs m ! i) = fishmid (jobs m ! k) \<longrightarrow> fishmid (jobs m ! i) \<noteq> -1 \<longrightarrow> i = k) \<and>
     (\<forall>i < n. has_frames m i \<longrightarrow> fishmid (jobs m ! i) \<noteq> -1)"

lemma load_one:
  assumes m: "loaded_upto n m" "n < MAXJOBS"
    and r: "database_job_load (jobs (init_job n m) ! n) c (init_job n m) = Inr (ok, j, c', m1)"
  shows "loaded_upto (if ok then Suc n else 0) (upd_job (of_nat n) (\<lambda>_. j) m1)"
proof -
  let ?m = "init_job n m" and ?m' = "upd_job (of_nat n) (\<lambda>_. j) m1"
  have len: "length (jobs m) = MAXJOBS" using m(1) by (simp add: loaded_upto_def shape_ok_def)
  have "unowned (jobs ?m ! n)"
    using m(2) by (simp add: init_job_nth [OF len m(2)] unowned_def job_init_def job_shared_frame_info_init_def
        job_shared_blocked_hosts_init_def envvars_init_def Let_def)
  then have l: "same_but_segments ?m m1 \<and> shm_ok (frame_shm m1) \<and> (ok \<longrightarrow> frames_loaded ?m j m1)"
    using m(1) r by (intro job_load_ok) (auto simp: loaded_upto_def)
  have other: "jobs ?m' ! i = (if i = n then j else jobs m ! i)" for i
    using l m(2) len by (simp add: jobs_upd_nth unat_index same_but_segments_def init_job_nth)
  have base: "shape_ok ?m'" "shm_ok (frame_shm ?m')" "semid ?m' = sem_free"
    using m(1) l by (auto simp: loaded_upto_def shape_ok_def same_but_segments_def)
  have keep: "segs (frame_shm m1) i = segs (frame_shm m) i" if "ok" "segs (frame_shm m) i \<noteq> None" for i
    using l that by (auto simp: frames_loaded_def)
  show ?thesis
  proof (cases ok)
    case True
    have new: "if fishmid j = -1 then j_used j = 0 \<or> job_nframes j = 0
      else segs (frame_shm m) (fishmid j) = None \<and> (\<exists>fi. segs (frame_shm m1) (fishmid j) = Some fi \<and> length fi = unat (job_nframes j))"
      using l True by (auto simp: frames_loaded_def split: if_splits)
    have old: "\<exists>fi. segs (frame_shm m) (fishmid (jobs m ! i)) = Some fi \<and> length fi = unat (job_nframes (jobs m ! i))"
      if "i < n" "fishmid (jobs m ! i) \<noteq> -1" for i
      using m(1) that by (auto simp: loaded_upto_def segment_of_def frame_count_def)
    have apart: "fishmid (jobs m ! i) \<noteq> fishmid j" if "i < n" "fishmid j \<noteq> -1" for i
      using old [OF that(1)] new that(2) by fastforce
    have seg: "\<exists>fi. segment_of ?m' i = Some fi \<and> length fi = frame_count ?m' i"
      if "i < Suc n" "fishmid (jobs ?m' ! i) \<noteq> -1" for i
    proof (cases "i = n")
      case False
      then have "i < n" "fishmid (jobs m ! i) \<noteq> -1" using that by (auto simp: other)
      then obtain fi where "segs (frame_shm m) (fishmid (jobs m ! i)) = Some fi" "length fi = unat (job_nframes (jobs m ! i))"
        using old by blast
      then show ?thesis using keep [OF True, of "fishmid (jobs m ! i)"] False
        by (simp add: segment_of_def frame_count_def other)
    qed (use new that in \<open>simp add: segment_of_def frame_count_def other\<close>)
    have "i = k" if "i < Suc n" "k < Suc n" "fishmid (jobs ?m' ! i) = fishmid (jobs ?m' ! k)" "fishmid (jobs ?m' ! i) \<noteq> -1" for i k
    proof -
      have "i < n \<Longrightarrow> k < n \<Longrightarrow> i = k" using that m(1) by (auto simp: other loaded_upto_def)
      then show ?thesis using that apart [of i] apart [of k] by (auto simp: other less_Suc_eq)
    qed
    moreover have "fishmid (jobs ?m' ! i) \<noteq> -1" if "i < Suc n" "has_frames ?m' i" for i
      using that new m(1) by (cases "i = n") (auto simp: other has_frames_def loaded_upto_def less_Suc_eq)
    ultimately show ?thesis using True base seg unfolding loaded_upto_def by simp
  qed (use base in \<open>simp add: loaded_upto_def\<close>)
qed

lemma loaded_upto_less: "loaded_upto n m \<Longrightarrow> k \<le> n \<Longrightarrow> loaded_upto k m"
  by (auto simp: loaded_upto_def)

lemma load_jobs_ok:
  assumes "loaded_upto n m" "n \<le> k" "k \<le> MAXJOBS" "load_jobs [n..<k] c m = Inr (ok, c', m')"
  shows "loaded_upto (if ok then k else 0) m'"
  using assms
proof (induction "k - n" arbitrary: n c m)
  case (Suc d)
  then have nk: "[n..<k] = n # [Suc n..<k]" by (simp add: upt_conv_Cons)
  obtain ok1 j c1 m1 where r: "database_job_load (jobs (init_job n m) ! n) c (init_job n m) = Inr (ok1, j, c1, m1)"
    and t: "(if ok1 then load_jobs [Suc n..<k] c1 (upd_job (of_nat n) (\<lambda>_. j) m1) else Inr (False, c1, upd_job (of_nat n) (\<lambda>_. j) m1)) = Inr (ok, c', m')"
    using Suc.prems(4) by (auto simp: nk Let_def andThen_def split: sum.splits)
  have l: "loaded_upto (if ok1 then Suc n else 0) (upd_job (of_nat n) (\<lambda>_. j) m1)"
    by (rule load_one [OF Suc.prems(1) _ r]) (use Suc in auto)
  show ?case
  proof (cases ok1)
    case True
    with l t Suc.hyps Suc.prems show ?thesis by (intro Suc.hyps(1)) auto
  qed (use l t in auto)
qed auto

lemma database_load_ok:
  assumes "shape_ok m" "shm_ok (frame_shm m)" "semid m = sem_free"
    and r: "database_load ptr magic version size0 fd m = Inr (ok, m')"
  shows "loaded_upto (if ok then MAXJOBS else 0) m'"
proof -
  have z: "loaded_upto 0 m" using assms by (simp add: loaded_upto_def)
  have n: "unat (of_nat MAXJOBS :: u16) = MAXJOBS" by (simp add: max_defs)
  from r show ?thesis
    using z unfolding database_load_def
    by (auto simp: n andThen_def dest!: load_jobs_ok [OF z le0 order_refl]
        split: option.splits prod.splits if_splits sum.splits)
qed

lemma loaded_inv: "loaded_upto MAXJOBS m \<Longrightarrow> db_inv {} m"
  by (simp add: loaded_upto_def db_inv_def)

lemma database_init_ok:
  assumes "loaded_upto 0 m"
  shows "database_ok (database_init m)"
proof -
  let ?j = "fold init_job [0..<MAXJOBS] m"
  have len: "length (jobs m) = MAXJOBS" using assms by (simp add: loaded_upto_def shape_ok_def)
  have "shape_ok ?j" "shm_ok (frame_shm ?j)" using assms by (simp_all add: loaded_upto_def shape_ok_def)
  then have "db_inv {} ?j" by (rule db_inv_idle) (use init_jobs_idle [OF len order_refl] in blast)
  then have "db_inv {} (init_computers ?j)" unfolding init_computers_def by (rule init_computers_inv)
  then have "db_inv {} (database_init m)" unfolding database_init_def Let_def by (rule db_inv_cong [THEN iffD2, rotated 3]) simp_all
  then show ?thesis using assms by (simp add: database_ok_def database_init_def init_computers_def Let_def loaded_upto_def)
qed

text \<open>Loading always returns: nothing in it leaves the bounds of an array.\<close>

lemma recv_each_envvar_returns:
  "env_ok es \<Longrightarrow> \<exists>ok es' c'. recv_each_envvar n es c = Inr (ok, es', c') \<and> env_ok es'"
proof (induction n arbitrary: es c)
  case (Suc n)
  show ?case
  proof (cases "recv_envvar c")
    case (Pair v c1)
    show ?thesis
    proof (cases v)
      case None
      with Pair Suc.prems show ?thesis by (simp add: expect_def ex_bool_eq)
    next
      case (Some w)
      obtain b es1 where "envvars_variable_add (ev_name w) (ev_value w) es = Inr (b, es1)" "env_ok es1"
        using add_total Suc.prems by (cases es) blast
      with Pair Some Suc.IH [of es1 c1] show ?thesis by (auto simp: expect_def)
    qed
  qed
qed (simp add: ex_bool_eq)

lemma recv_envvars_returns:
  assumes "env_ok es"
  shows "\<exists>ok es' c'. recv_envvars es c = Inr (ok, es', c') \<and> env_ok es'"
proof -
  obtain b es1 where f: "envvars_free es = (b, es1)" by (metis surj_pair)
  have ok: "env_ok es1" using assms f free_empty by (cases es) (auto simp: env_post_def)
  show ?thesis
  proof (cases "b \<and> fst (read_16b c) \<noteq> None")
    case True
    then obtain n c1 where "read_16b c = (Some n, c1)" by (metis option.exhaust prod.collapse)
    with f ok True recv_each_envvar_returns [OF ok] show ?thesis by (simp add: recv_envvars_def)
  qed (use f ok in \<open>cases es1; auto simp: recv_envvars_def expect_def split: prod.splits option.splits\<close>)
qed

lemma load_frames_env: "database_job_load_frames j c m = (True, j', c', m') \<Longrightarrow> env_shm m' = env_shm m"
  by (auto simp: database_job_load_frames_def Let_def split: prod.splits option.splits if_splits)

lemma load_hosts_env: "database_job_load_blocked_hosts j c m = (ok, j', c', m') \<Longrightarrow> env_shm m' = env_shm m"
  by (auto simp: database_job_load_blocked_hosts_def expect_def split: prod.splits option.splits if_splits)

lemma job_load_returns:
  assumes v: "shm_ok (env_shm m)" and u: "unowned j0"
  shows "\<exists>ok j' c' m'. database_job_load j0 c m = Inr (ok, j', c', m') \<and> (ok \<longrightarrow> shm_ok (env_shm m'))"
proof (cases "fst (recv_job_struct c)")
  case None
  then show ?thesis by (auto simp: database_job_load_def expect_def split: prod.splits option.splits)
next
  case (Some jw)
  let ?j = "job_fix_received_invalid (step_not_zero jw)"
  obtain c0 where c0: "recv_job_struct c = (Some jw, c0)" using Some by (metis prod.collapse)
  have "env_ok (j_envvars ?j, env_shm m)" using v by (simp add: job_fix_received_invalid_def env_ok_def env_list_def)
  then obtain b ev s c1 where e: "recv_envvars (j_envvars ?j, env_shm m) c0 = Inr (b, (ev, s), c1)" "env_ok (ev, s)"
    by (metis recv_envvars_returns surj_pair)
  obtain b2 j2 c2 m2 where f: "database_job_load_frames (?j\<lparr>j_envvars := ev\<rparr>) c1 (m\<lparr>env_shm := s\<rparr>) = (b2, j2, c2, m2)"
    by (metis surj_pair)
  obtain b3 j3 c3 m3 where h: "database_job_load_blocked_hosts j2 c2 m2 = (b3, j3, c3, m3)" by (metis surj_pair)
  have s: "shm_ok s" using e(2) by (simp add: env_ok_def)
  have "shm_ok (env_shm m3)" if b2
    using that f load_hosts_env [OF h] load_frames_env [of "?j\<lparr>j_envvars := ev\<rparr>" c1 "m\<lparr>env_shm := s\<rparr>" j2 c2 m2] s by simp
  with v u c0 e(1) f h show ?thesis
    by (simp add: database_job_load_def job_delete_unowned and_if_def database_job_load_envvars_def Let_def ex_bool_eq)
qed

lemma init_job_env [simp]: "env_shm (init_job n m) = env_shm m"
  by (simp add: init_job_def)

lemma init_job_unowned: "length (jobs m) = MAXJOBS \<Longrightarrow> n < MAXJOBS \<Longrightarrow> unowned (jobs (init_job n m) ! n)"
  by (simp add: init_job_nth unowned_def job_init_def job_shared_frame_info_init_def
        job_shared_blocked_hosts_init_def envvars_init_def Let_def)

lemma load_jobs_returns:
  "loaded_upto n m \<Longrightarrow> shm_ok (env_shm m) \<Longrightarrow> n \<le> k \<Longrightarrow> k \<le> MAXJOBS \<Longrightarrow> \<exists>r. load_jobs [n..<k] c m = Inr r"
proof (induction "k - n" arbitrary: n c m)
  case (Suc d)
  then have nk: "[n..<k] = n # [Suc n..<k]" by (simp add: upt_conv_Cons)
  have len: "length (jobs m) = MAXJOBS" using Suc.prems(1) by (simp add: loaded_upto_def shape_ok_def)
  obtain ok j c1 m1 where r: "database_job_load (jobs (init_job n m) ! n) c (init_job n m) = Inr (ok, j, c1, m1)"
    "ok \<longrightarrow> shm_ok (env_shm m1)"
    using job_load_returns [of "init_job n m" "jobs (init_job n m) ! n" c] init_job_unowned [OF len] Suc by auto
  show ?case
  proof (cases ok)
    case True
    have l: "loaded_upto (Suc n) (upd_job (of_nat n) (\<lambda>_. j) m1)"
      using load_one [OF Suc.prems(1) _ r(1)] True Suc by simp
    have "\<exists>r. load_jobs [Suc n..<k] c1 (upd_job (of_nat n) (\<lambda>_. j) m1) = Inr r"
      by (rule Suc.hyps(1) [OF _ l]) (use Suc.hyps(2) Suc.prems r(2) True in auto)
    with True r(1) show ?thesis by (simp add: nk)
  qed (use r in \<open>simp add: nk ex_bool_eq\<close>)
qed (simp add: ex_bool_eq)

lemma database_load_returns:
  assumes "loaded_upto 0 m" "shm_ok (env_shm m)"
  shows "\<exists>r. database_load ptr magic version size0 fd m = Inr r"
proof -
  have n: "unat (of_nat MAXJOBS :: u16) = MAXJOBS" by (simp add: max_defs)
  show ?thesis
    using load_jobs_returns [OF assms le0 order_refl] unfolding database_load_def
    by (auto simp: n andThen_def split: option.splits prod.splits if_splits sum.splits) (metis Inr_not_Inl)
qed

text \<open>C19.  The master always starts, whatever the database file holds - nothing, the file of another
  version, a file that breaks off in the middle of a job, or jobs that nobody has ever saved - and
  it satisfies its invariant, as does every state that it reaches from there: each job in
  use owns a segment with one record per frame, no two jobs share one, and the semaphore is free.\<close>

theorem loaded_master_invariant:
  "\<exists>m. master_start ptr magic version size0 fd (blank_master now user enabled max_cpus g a) = Inr m \<and>
    (\<forall>m'. master_step\<^sup>*\<^sup>* m m' \<longrightarrow> world_ok m' \<and> database_ok m')"
proof -
  let ?b = "blank_master now user enabled max_cpus g a"
  have b: "loaded_upto 0 ?b" "shm_ok (env_shm ?b)"
    by (simp_all add: loaded_upto_def blank_shape) (simp_all add: blank_master_def shm_ok_def shm_empty_def)
  obtain ok m1 where l: "database_load ptr magic version size0 fd ?b = Inr (ok, m1)"
    using database_load_returns [OF b] by fastforce
  define m where "m = init_computers (if ok then m1 else database_init m1)"
  have "loaded_upto (if ok then MAXJOBS else 0) m1"
    by (rule database_load_ok [OF _ _ _ l]) (use b in \<open>simp_all add: loaded_upto_def\<close>)
  then have "database_ok (if ok then m1 else database_init m1)"
    using database_init_ok [of m1] by (auto simp: database_ok_def loaded_inv) (simp add: loaded_upto_def)
  then have m: "database_ok m" unfolding m_def by (simp add: database_ok_def init_computers_inv init_computers_def)
  have "world_ok m' \<and> database_ok m'" if "master_step\<^sup>*\<^sup>* m m'" for m'
  proof -
    from that m have "database_ok m'" by (induction rule: rtranclp_induct) (auto intro: master_step_ok)
    then show ?thesis by (auto simp: database_ok_def intro: db_inv_world)
  qed
  then show ?thesis using l by (auto simp: master_start_def m_def)
qed

theorem loaded_master_invariant_witness:
  "\<exists>m. master_start 8 0 0 0 (Some \<lparr>rx = [MWord32 DB_MAGIC, MWord32 (database_version_id 8)], tx = [], tx_left = 0\<rparr>)
       (blank_master 0 ''drqueue'' None None (\<lambda>_ _. True) (\<lambda>_. True)) = Inr m \<and>
     world_ok (m\<lparr>clock := 7\<rparr>) \<and> database_ok (m\<lparr>clock := 7\<rparr>)"
proof -
  obtain m where m: "master_start 8 0 0 0 (Some \<lparr>rx = [MWord32 DB_MAGIC, MWord32 (database_version_id 8)], tx = [], tx_left = 0\<rparr>)
       (blank_master 0 ''drqueue'' None None (\<lambda>_ _. True) (\<lambda>_. True)) = Inr m"
    "\<forall>m'. master_step\<^sup>*\<^sup>* m m' \<longrightarrow> world_ok m' \<and> database_ok m'"
    using loaded_master_invariant by blast
  have "master_step\<^sup>*\<^sup>* m (m\<lparr>clock := 7\<rparr>)" by (rule r_into_rtranclp) (rule master_step.Time)
  with m show ?thesis by blast
qed

end
