(* ===== verification/Restore.thy ===== *)
theory Restore
  imports Database
begin

text \<open>
  A database that was saved comes back: for each job in use the next master has the same record, the
  same frames, the same blocked hosts and the same environment, in segments of its own.
\<close>

section \<open>What a job has besides its record\<close>

definition saved_frames :: "master \<Rightarrow> job \<Rightarrow> frame_info list" where
  "saved_frames m j = (if job_nframes j = 0 then [] else the (shmat (fishmid j) (frame_shm m)))"

definition saved_hosts :: "master \<Rightarrow> job \<Rightarrow> cstring list" where
  "saved_hosts m j = (if nblocked j = 0 then [] else the (shmat (bhshmid j) (host_shm m)))"

definition saved_envvars :: "master \<Rightarrow> job \<Rightarrow> envvar list" where
  "saved_envvars m j = env_list (j_envvars j, env_shm m)"

text \<open>A job whose segments can be read and have the sizes its record says.\<close>

definition complete :: "master \<Rightarrow> job \<Rightarrow> bool" where
  "complete m j \<longleftrightarrow> env_fits j (env_shm m) \<and> frame_step j \<noteq> 0 \<and> unat (job_nframes j) < 2147483648 \<and>
     (job_nframes j \<noteq> 0 \<longrightarrow> shmat (fishmid j) (frame_shm m) \<noteq> None) \<and> length (saved_frames m j) = unat (job_nframes j) \<and>
     (nblocked j \<noteq> 0 \<longrightarrow> shmat (bhshmid j) (host_shm m) \<noteq> None) \<and> length (saved_hosts m j) = unat (nblocked j)"

definition holds :: "master \<Rightarrow> job \<Rightarrow> frame_info list \<Rightarrow> cstring list \<Rightarrow> envvar list \<Rightarrow> bool" where
  "holds w j fi hs vs \<longleftrightarrow>
     (if fi = [] then fishmid j = -1 else segs (frame_shm w) (fishmid j) = Some fi) \<and>
     (if hs = [] then bhshmid j = -1 else segs (host_shm w) (bhshmid j) = Some hs) \<and>
     (if vs = [] then evshmid (j_envvars j) = -1 else segs (env_shm w) (evshmid (j_envvars j)) = Some vs) \<and>
     nvariables (j_envvars j) = of_nat (length vs)"

definition same_record :: "job \<Rightarrow> job \<Rightarrow> bool" where
  "same_record j j' \<longleftrightarrow> j'\<lparr>fishmid := fishmid j, bhshmid := bhshmid j, j_envvars := j_envvars j\<rparr> = j"

definition restored :: "master \<Rightarrow> job \<Rightarrow> master \<Rightarrow> job \<Rightarrow> bool" where
  "restored m j w j' \<longleftrightarrow>
     (if j_used j = 0 then j_used j' = 0
      else same_record j j' \<and> holds w j' (saved_frames m j) (saved_hosts m j) (saved_envvars m j))"

section \<open>Saving\<close>

definition sent_on :: "msg list \<Rightarrow> conn \<Rightarrow> conn" where
  "sent_on xs c = c\<lparr>tx := tx c @ xs, tx_left := tx_left c - length xs\<rparr>"

lemma sent_on_simps [simp]:
  "sent_on xs (sent_on ys c) = sent_on (ys @ xs) c" "tx_left (sent_on xs c) = tx_left c - length xs"
  "tx (sent_on xs c) = tx c @ xs" "rx (sent_on xs c) = rx c"
  by (simp_all add: sent_on_def)

lemma send_msg_on: "0 < tx_left c \<Longrightarrow> send_msg x c = (True, sent_on [x] c)"
  by (simp add: send_msg_def sent_on_def)

lemma send_all_on: "length xs \<le> tx_left c \<Longrightarrow> send_all xs c = (True, sent_on xs c)"
  by (simp add: send_all_ok sent_on_def)

definition wire_hosts :: "cstring list \<Rightarrow> msg list" where
  "wire_hosts hs = MWord32 (of_nat (length hs)) # map MHost hs"

definition wire_saved :: "master \<Rightarrow> job \<Rightarrow> msg list" where
  "wire_saved m j = MJob (job_on_the_wire j) #
     (if j_used j = 0 then [] else wire_envvars (j_envvars j, env_shm m) @ map MFrame (saved_frames m j) @ wire_hosts (saved_hosts m j))"

lemma nat_sint:
  fixes n :: u32
  assumes "unat n < 2147483648"
  shows "nat (sint n) = unat n"
proof -
  define k where "k = unat n"
  have "k < 2147483648" using assms by (simp only: k_def)
  then have k: "int k < 2147483648" by simp
  have "signed_take_bit 31 (int k) = int k" by (rule signed_take_bit_int_eq_self) (use k in simp_all)
  moreover have "uint n = int k" by (simp add: k_def)
  ultimately show ?thesis by (simp add: sint_uint flip: k_def)
qed

lemma save_hosts_ok:
  assumes s: "complete m j" and t: "length (wire_hosts (saved_hosts m j)) \<le> tx_left c"
  shows "database_job_save_blocked_hosts j (host_shm m) c = Inr (True, sent_on (wire_hosts (saved_hosts m j)) c)"
proof -
  have n: "length (saved_hosts m j) = unat (nblocked j)" using s by (simp add: complete_def)
  then have l: "unat (of_nat (length (saved_hosts m j)) :: u32) = length (saved_hosts m j)"
    using unat_u16_less [of "nblocked j"] by (simp add: unsigned_of_nat take_bit_nat_eq_self)
  have u: "(ucast (nblocked j) :: u32) = of_nat (length (saved_hosts m j))" by (simp add: n)
  have z: "send_blocked_host_list (saved_hosts m j) (of_nat (length (saved_hosts m j))) c = Inr (True, sent_on (wire_hosts (saved_hosts m j)) c)"
    using t l by (simp add: send_blocked_host_list_def send_msg_on send_all_on wire_hosts_def)
  show ?thesis
  proof (cases "nblocked j = 0")
    case True
    with n z show ?thesis by (simp add: database_job_save_blocked_hosts_def)
  next
    case False
    then have "shmat (bhshmid j) (host_shm m) = Some (saved_hosts m j)" using s by (auto simp: complete_def saved_hosts_def)
    with False z u show ?thesis by (simp add: database_job_save_blocked_hosts_def attach_blocked_host_shared_memory_def)
  qed
qed

lemma save_frames_ok:
  assumes s: "complete m j" and t: "length (saved_frames m j) \<le> tx_left c"
  shows "database_job_save_frames junk j (frame_shm m) c = Inr (True, sent_on (map MFrame (saved_frames m j)) c)"
proof -
  have n: "length (saved_frames m j) = unat (job_nframes j)" "nat (sint (job_nframes j)) = unat (job_nframes j)"
    using s by (simp_all add: complete_def nat_sint)
  show ?thesis
  proof (cases "job_nframes j = 0")
    case True
    then show ?thesis
      using n by (simp add: database_job_save_frames_def Let_def sent_on_def split: option.splits)
  next
    case False
    then have "shmat (fishmid j) (frame_shm m) = Some (saved_frames m j)" using s by (auto simp: complete_def saved_frames_def)
    with n t show ?thesis
      by (simp add: database_job_save_frames_def attach_frame_shared_memory_def Let_def send_all_on)
  qed
qed

lemma save_job_ok:
  assumes s: "j_used j \<noteq> 0 \<Longrightarrow> complete m j" and t: "length (wire_saved m j) \<le> tx_left c"
  shows "database_job_save junk j m c = Inr (True, sent_on (wire_saved m j) c)"
proof (cases "j_used j = 0")
  case True
  with t show ?thesis by (simp add: database_job_save_def and_if_def send_msg_on wire_saved_def)
next
  case False
  then have e: "env_ok (j_envvars j, env_shm m)" using s by (simp add: complete_def env_fits_def)
  have "send_envvars (j_envvars j, env_shm m) c' = Inr (True, sent_on (wire_envvars (j_envvars j, env_shm m)) c')"
    if "length (wire_envvars (j_envvars j, env_shm m)) \<le> tx_left c'" for c'
    using send_envvars_ok [OF e that] by (simp add: sent_on_def)
  with False s t show ?thesis
    by (simp add: database_job_save_def and_if_def send_msg_on wire_saved_def database_job_save_envvars_def
        save_frames_ok save_hosts_ok)
qed

lemma save_jobs_ok:
  assumes "\<And>i. i \<in> set is \<Longrightarrow> i < length (jobs m)" "\<And>i. i \<in> set is \<Longrightarrow> j_used (jobs m ! i) \<noteq> 0 \<Longrightarrow> complete m (jobs m ! i)"
    and "length (concat (map (\<lambda>i. wire_saved m (jobs m ! i)) is)) \<le> tx_left c"
  shows "save_jobs junk is m c = Inr (True, sent_on (concat (map (\<lambda>i. wire_saved m (jobs m ! i)) is)) c)"
  using assms
proof (induction "is" arbitrary: c)
  case (Cons i "is")
  then show ?case by (simp add: rd_def save_job_ok and_if_def)
qed (simp add: sent_on_def)

section \<open>Loading\<close>

text \<open>The segments that are there stay as they are, and memory is still to be had.\<close>

definition spacious :: "master \<Rightarrow> bool" where
  "spacious w \<longleftrightarrow> roomy w \<and> shm_ok (frame_shm w) \<and> generous (frame_shm w) \<and> shm_ok (host_shm w) \<and> generous (host_shm w)"

definition live_kept :: "master \<Rightarrow> master \<Rightarrow> bool" where
  "live_kept w w' \<longleftrightarrow>
     (\<forall>i. segs (frame_shm w) i \<noteq> None \<longrightarrow> segs (frame_shm w') i = segs (frame_shm w) i) \<and>
     (\<forall>i. segs (host_shm w) i \<noteq> None \<longrightarrow> segs (host_shm w') i = segs (host_shm w) i) \<and>
     (\<forall>i. segs (env_shm w) i \<noteq> None \<longrightarrow> segs (env_shm w') i = segs (env_shm w) i)"

lemma holds_kept: "holds w j fi hs vs \<Longrightarrow> live_kept w w' \<Longrightarrow> holds w' j fi hs vs"
  by (auto simp: holds_def live_kept_def split: if_splits)

lemma recv_each_frame_all:
  "rx c = map MFrame fi @ rest \<Longrightarrow> recv_each_frame (length fi) c = (fi, True, c\<lparr>rx := rest\<rparr>)"
  by (induction fi arbitrary: c) (simp_all add: recv_frame_info_def recv_as_def)

lemma recv_each_host_all:
  "rx c = map MHost hs @ rest \<Longrightarrow> recv_each_host (length hs) c = (hs, True, c\<lparr>rx := rest\<rparr>)"
  by (induction hs arbitrary: c) (simp_all add: recv_blocked_host_def recv_as_def)

lemma get_generous:
  assumes "shm_ok s" "generous s" "0 < n"
  obtains k s1 where "shmget z n s = (k, s1)" "k \<noteq> -1" "segs s k = None" "shmat k s1 = Some (replicate n z)" "shm_ok s1" "generous s1"
    "\<And>i. segs s i \<noteq> None \<Longrightarrow> segs s1 i = segs s i"
proof -
  obtain k s1 where g: "shmget z n s = (k, s1)" "k \<noteq> -1"
    using assms by (auto simp: generous_def shmget_def shm_ok_def)
  have a: "attachable s1 = attachable s" "grant s1 = grant s"
    using attachable_frame(1) [of z n s] grant_frame(1) [of z n s] g(1) by simp_all
  show ?thesis
    by (rule that [OF g shm.get_fresh [OF assms(1) g]])
      (use shm.get_look [OF assms(1) g] shm.valid_get [OF assms(1) g(1)] shm.get_fresh [OF assms(1) g] assms(2) a in
        \<open>auto simp: shmat_def generous_def\<close>)
qed

lemma load_frames_all:
  assumes c: "rx c = map MFrame fi @ rest" and n: "length fi = unat (job_nframes j)" and w: "shm_ok (frame_shm w)" "generous (frame_shm w)"
  shows "\<exists>k s. database_job_load_frames j c w = (True, j\<lparr>fishmid := k\<rparr>, c\<lparr>rx := rest\<rparr>, w\<lparr>frame_shm := s\<rparr>) \<and>
    shm_ok s \<and> generous s \<and> (if fi = [] then k = -1 else segs s k = Some fi) \<and>
    (\<forall>i. segs (frame_shm w) i \<noteq> None \<longrightarrow> segs s i = segs (frame_shm w) i)"
proof (cases "job_nframes j = 0")
  case True
  then have "fi = []" "c\<lparr>rx := rest\<rparr> = c" "w\<lparr>frame_shm := frame_shm w\<rparr> = w" using n c by simp_all
  with True w show ?thesis by (intro exI [of _ "-1"] exI [of _ "frame_shm w"]) (simp add: database_job_load_frames_def)
next
  case False
  then have p: "0 < unat (job_nframes j)" by (simp add: unat_gt_0)
  from get_generous [OF w p, of zero_frame] obtain k s1 where g: "shmget zero_frame (unat (job_nframes j)) (frame_shm w) = (k, s1)"
    "k \<noteq> -1" "segs (frame_shm w) k = None" "shmat k s1 = Some (replicate (unat (job_nframes j)) zero_frame)" "shm_ok s1" "generous s1"
    "\<And>i. segs (frame_shm w) i \<noteq> None \<Longrightarrow> segs s1 i = segs (frame_shm w) i" by blast
  have "database_job_load_frames j c w = (True, j\<lparr>fishmid := k\<rparr>, c\<lparr>rx := rest\<rparr>, w\<lparr>frame_shm := shmput k fi s1\<rparr>)"
    using False g recv_each_frame_all [OF c] n
    by (simp add: database_job_load_frames_def get_frame_shared_memory_def attach_frame_shared_memory_def)
  moreover have "fi \<noteq> []" using n p by auto
  moreover have "shm_ok (shmput k fi s1)" using shm_ok_shmput [OF g(5,4)] by simp
  moreover have "segs (shmput k fi s1) i = (if i = k then Some fi else segs s1 i)" for i by (simp add: shmput_def)
  ultimately show ?thesis using g by (intro exI [of _ k] exI [of _ "shmput k fi s1"]) (auto simp: generous_def)
qed

lemma load_hosts_all:
  assumes c: "rx c = wire_hosts hs @ rest" and n: "length hs < 65536" and w: "shm_ok (host_shm w)" "generous (host_shm w)"
  shows "\<exists>k s. database_job_load_blocked_hosts j c w =
      (True, j\<lparr>bhshmid := k, nblocked := of_nat (length hs)\<rparr>, c\<lparr>rx := rest\<rparr>, w\<lparr>host_shm := s\<rparr>) \<and>
    shm_ok s \<and> generous s \<and> (if hs = [] then k = -1 else segs s k = Some hs) \<and>
    (\<forall>i. segs (host_shm w) i \<noteq> None \<longrightarrow> segs s i = segs (host_shm w) i)"
proof -
  let ?n = "of_nat (length hs) :: u32"
  have l: "unat ?n = length hs" using n by (simp add: unsigned_of_nat take_bit_nat_eq_self)
  have r: "recv_blocked_host_list c = (Some (hs, ?n), c\<lparr>rx := rest\<rparr>)"
    using c l recv_each_host_all [of "c\<lparr>rx := map MHost hs @ rest\<rparr>" hs rest]
    by (simp add: recv_blocked_host_list_def read_32b_def recv_as_def wire_hosts_def)
  have u: "(ucast ?n :: u16) = of_nat (length hs)" by (simp add: word_unat_eq_iff unsigned_ucast_eq unsigned_of_nat)
  show ?thesis
  proof (cases "hs = []")
    case True
    with r w show ?thesis
      by (intro exI [of _ "-1"] exI [of _ "host_shm w"]) (simp add: database_job_load_blocked_hosts_def)
  next
    case False
    then have p: "0 < unat ?n" "?n \<noteq> 0" using l by (auto simp: unat_gt_0 [symmetric])
    from get_generous [OF w p(1), of "[]"] obtain k s1 where g: "shmget [] (unat ?n) (host_shm w) = (k, s1)"
      "k \<noteq> -1" "segs (host_shm w) k = None" "shmat k s1 = Some (replicate (unat ?n) [])" "shm_ok s1" "generous s1"
      "\<And>i. segs (host_shm w) i \<noteq> None \<Longrightarrow> segs s1 i = segs (host_shm w) i" by blast
    have "database_job_load_blocked_hosts j c w =
        (True, j\<lparr>bhshmid := k, nblocked := of_nat (length hs)\<rparr>, c\<lparr>rx := rest\<rparr>, w\<lparr>host_shm := shmput k hs s1\<rparr>)"
      using p g r u
      by (simp add: database_job_load_blocked_hosts_def get_blocked_host_shared_memory_def attach_blocked_host_shared_memory_def)
    moreover have "shm_ok (shmput k hs s1)" using shm_ok_shmput [OF g(5,4)] by simp
    moreover have "segs (shmput k hs s1) i = (if i = k then Some hs else segs s1 i)" for i by (simp add: shmput_def)
    ultimately show ?thesis using g False by (intro exI [of _ k] exI [of _ "shmput k hs s1"]) (auto simp: generous_def)
  qed
qed

lemma env_list_held:
  assumes "env_ok (ev, s)"
  shows "(if env_list (ev, s) = [] then evshmid ev = -1 else segs s (evshmid ev) = Some (env_list (ev, s))) \<and>
    nvariables ev = of_nat (length (env_list (ev, s)))"
  using assms by (auto simp: env_ok_def env_list_def shmat_def split: if_splits)

lemma load_job_all:
  assumes c: "rx c = wire_saved m j @ rest" and u: "unowned j0" and s: "j_used j \<noteq> 0 \<Longrightarrow> complete m j" and w: "spacious w"
  shows "\<exists>j' w'. database_job_load j0 c w = Inr (True, j', c\<lparr>rx := rest\<rparr>, w') \<and> spacious w' \<and> same_but_segments w w' \<and>
    env_user w' = env_user w \<and> live_kept w w' \<and> restored m j w' j'"
proof (cases "j_used j = 0")
  case True
  with c u w show ?thesis
    by (simp add: database_job_load_def recv_job_struct_def recv_as_def wire_saved_def job_delete_unowned
        step_not_zero_def job_fix_received_invalid_def job_on_the_wire_def same_but_segments_def live_kept_def restored_def)
next
  case False
  note s = s [OF False]
  let ?j = "job_fix_received_invalid (step_not_zero (job_on_the_wire j))"
  let ?fi = "saved_frames m j" and ?hs = "saved_hosts m j" and ?vs = "saved_envvars m j"
  let ?c1 = "c\<lparr>rx := wire_envvars (j_envvars j, env_shm m) @ map MFrame ?fi @ wire_hosts ?hs @ rest\<rparr>"
  have r: "recv_job_struct c = (Some (job_on_the_wire j), ?c1)"
    using c False by (simp add: recv_job_struct_def recv_as_def wire_saved_def)
  have ev0: "env_ok (j_envvars ?j, env_shm w)" "evshmid (j_envvars ?j) = -1"
    using w by (simp_all add: job_fix_received_invalid_def env_ok_def env_list_def spacious_def roomy_def)
  obtain ev es where e: "recv_envvars (j_envvars ?j, env_shm w) ?c1 = Inr (True, (ev, es), ?c1\<lparr>rx := map MFrame ?fi @ wire_hosts ?hs @ rest\<rparr>)"
    "env_ok (ev, es)" "generous es" "env_list (ev, es) = ?vs" "others_kept (j_envvars ?j, env_shm w) (ev, es)"
    using recv_envvars_ok [of "(j_envvars j, env_shm m)" "(j_envvars ?j, env_shm w)" ?c1 "map MFrame ?fi @ wire_hosts ?hs @ rest"] s w ev0
    by (auto simp: complete_def env_fits_def spacious_def roomy_def saved_envvars_def)
  let ?c2 = "c\<lparr>rx := map MFrame ?fi @ wire_hosts ?hs @ rest\<rparr>" and ?j1 = "?j\<lparr>j_envvars := ev\<rparr>" and ?w1 = "w\<lparr>env_shm := es\<rparr>"
  have n: "length ?fi = unat (job_nframes ?j1)"
    using s by (simp add: complete_def job_nframes_def step_not_zero_def job_fix_received_invalid_def job_on_the_wire_def)
  have sw: "shm_ok (frame_shm ?w1)" "generous (frame_shm ?w1)" using w by (simp_all add: spacious_def)
  obtain k fs where f: "database_job_load_frames ?j1 ?c2 ?w1 = (True, ?j1\<lparr>fishmid := k\<rparr>, ?c2\<lparr>rx := wire_hosts ?hs @ rest\<rparr>, ?w1\<lparr>frame_shm := fs\<rparr>)"
    "shm_ok fs" "generous fs" "if ?fi = [] then k = -1 else segs fs k = Some ?fi"
    "\<forall>i. segs (frame_shm w) i \<noteq> None \<longrightarrow> segs fs i = segs (frame_shm w) i"
    using load_frames_all [of ?c2 ?fi "wire_hosts ?hs @ rest" ?j1 ?w1, OF _ n sw] by auto
  let ?j2 = "?j1\<lparr>fishmid := k\<rparr>" and ?c3 = "c\<lparr>rx := wire_hosts ?hs @ rest\<rparr>" and ?w2 = "?w1\<lparr>frame_shm := fs\<rparr>"
  have h: "length ?hs = unat (nblocked j)" "length ?hs < 65536" using s unat_u16_less [of "nblocked j"] by (simp_all add: complete_def)
  have hw: "shm_ok (host_shm ?w2)" "generous (host_shm ?w2)" using w by (simp_all add: spacious_def)
  obtain b hh where b: "database_job_load_blocked_hosts ?j2 ?c3 ?w2 =
      (True, ?j2\<lparr>bhshmid := b, nblocked := of_nat (length ?hs)\<rparr>, ?c3\<lparr>rx := rest\<rparr>, ?w2\<lparr>host_shm := hh\<rparr>)"
    "shm_ok hh" "generous hh" "if ?hs = [] then b = -1 else segs hh b = Some ?hs"
    "\<forall>i. segs (host_shm w) i \<noteq> None \<longrightarrow> segs hh i = segs (host_shm w) i"
    using load_hosts_all [of ?c3 ?hs rest ?w2 ?j2, OF _ h(2) hw] by auto
  let ?j3 = "?j2\<lparr>bhshmid := b, nblocked := of_nat (length ?hs)\<rparr>" and ?w3 = "?w2\<lparr>host_shm := hh\<rparr>"
  have used: "j_used ?j \<noteq> 0" using False by (simp add: step_not_zero_def job_fix_received_invalid_def job_on_the_wire_def)
  have "database_job_load j0 c w = Inr (True, ?j3, c\<lparr>rx := rest\<rparr>, ?w3)"
    using e(1) f(1) b(1) used by (simp add: database_job_load_def r job_delete_unowned [OF u] and_if_def database_job_load_envvars_def)
  moreover have "same_record j ?j3"
    using s h(1) by (simp add: same_record_def complete_def step_not_zero_def job_fix_received_invalid_def job_on_the_wire_def)
  moreover have "holds ?w3 ?j3 ?fi ?hs ?vs"
    using env_list_held [OF e(2)] f(4) b(4) e(4) by (simp add: holds_def split: if_splits)
  moreover have "spacious ?w3" using w e(2,3) f(2,3) b(2,3) by (simp add: spacious_def roomy_def env_ok_def)
  moreover have "segs es i = segs (env_shm w) i" if "segs (env_shm w) i \<noteq> None" for i
  proof -
    have "i \<noteq> -1" using that w by (auto simp: spacious_def roomy_def)
    with that e(5) ev0(2) show ?thesis by (auto simp: others_kept_def)
  qed
  moreover from this have "live_kept w ?w3" using f(5) b(5) by (auto simp: live_kept_def)
  ultimately show ?thesis using False by (intro exI [of _ ?j3] exI [of _ ?w3]) (simp add: restored_def same_but_segments_def)
qed

lemma restored_kept: "restored m j w j' \<Longrightarrow> live_kept w w' \<Longrightarrow> restored m j w' j'"
  by (auto simp: restored_def intro: holds_kept)

lemma load_jobs_all:
  assumes "spacious w" "length (jobs w) = MAXJOBS" "n \<le> MAXJOBS"
    and "rx c = concat (map (\<lambda>i. wire_saved m (jobs m ! i)) [n..<MAXJOBS]) @ rest"
    and "\<And>i. i < MAXJOBS \<Longrightarrow> j_used (jobs m ! i) \<noteq> 0 \<Longrightarrow> complete m (jobs m ! i)"
    and "\<forall>i < n. restored m (jobs m ! i) w (jobs w ! i)"
  shows "\<exists>w'. load_jobs [n..<MAXJOBS] c w = Inr (True, c\<lparr>rx := rest\<rparr>, w') \<and>
    (\<forall>i < MAXJOBS. restored m (jobs m ! i) w' (jobs w' ! i))"
  using assms
proof (induction "MAXJOBS - n" arbitrary: n c w)
  case (Suc d)
  then have n: "n < MAXJOBS" and up: "[n..<MAXJOBS] = n # [Suc n..<MAXJOBS]" by (simp_all add: upt_conv_Cons)
  let ?w = "init_job n w"
  have "unowned (jobs ?w ! n)" by (rule init_job_unowned [OF Suc.prems(2) n])
  moreover have "spacious ?w" using Suc.prems(1) by (simp add: spacious_def roomy_def init_job_def)
  moreover have "rx c = wire_saved m (jobs m ! n) @ concat (map (\<lambda>i. wire_saved m (jobs m ! i)) [Suc n..<MAXJOBS]) @ rest"
    using Suc.prems(4) by (simp add: up)
  ultimately obtain j w1 where l: "database_job_load (jobs ?w ! n) c ?w =
      Inr (True, j, c\<lparr>rx := concat (map (\<lambda>i. wire_saved m (jobs m ! i)) [Suc n..<MAXJOBS]) @ rest\<rparr>, w1)"
    "spacious w1" "same_but_segments ?w w1" "live_kept ?w w1" "restored m (jobs m ! n) w1 j"
    using load_job_all Suc.prems(5) [OF n] by blast
  let ?w1 = "upd_job (of_nat n) (\<lambda>_. j) w1"
  have other: "jobs ?w1 ! i = (if i = n then j else jobs w ! i)" for i
    using l(3) n Suc.prems(2) by (simp add: jobs_upd_nth unat_index same_but_segments_def init_job_nth)
  have k: "live_kept w ?w1" using l(4) by (simp add: live_kept_def init_job_def)
  have "restored m (jobs m ! i) ?w1 (jobs ?w1 ! i)" if "i < Suc n" for i
  proof (cases "i = n")
    case True
    with l(5) show ?thesis unfolding other by (auto intro: restored_kept simp: live_kept_def)
  next
    case False
    with that have "restored m (jobs m ! i) w (jobs w ! i)" using Suc.prems(6) by simp
    from restored_kept [OF this k] False show ?thesis unfolding other by simp
  qed
  moreover have "spacious ?w1" using l(2) by (simp add: spacious_def roomy_def)
  moreover have "length (jobs ?w1) = MAXJOBS" using l(3) Suc.prems(2) by (simp add: same_but_segments_def)
  ultimately have "\<exists>w'. load_jobs [Suc n..<MAXJOBS] (c\<lparr>rx := concat (map (\<lambda>i. wire_saved m (jobs m ! i)) [Suc n..<MAXJOBS]) @ rest\<rparr>) ?w1
      = Inr (True, (c\<lparr>rx := concat (map (\<lambda>i. wire_saved m (jobs m ! i)) [Suc n..<MAXJOBS]) @ rest\<rparr>)\<lparr>rx := rest\<rparr>, w') \<and>
        (\<forall>i < MAXJOBS. restored m (jobs m ! i) w' (jobs w' ! i))"
    by (intro Suc.hyps(1) Suc.prems(5)) (use Suc.hyps(2) n in auto)
  then show ?case using l(1) by (simp add: up)
qed simp

section \<open>From one master to the next\<close>

definition wire_database :: "u32 \<Rightarrow> master \<Rightarrow> msg list" where
  "wire_database ptr m = [MWord32 DB_MAGIC, MWord32 (database_version_id ptr), MWord16 (of_nat MAXJOBS)] @
     concat (map (\<lambda>i. wire_saved m (jobs m ! i)) [0..<MAXJOBS])"

lemma release_same: "semid m = sem_free \<Longrightarrow> release_db (m\<lparr>semid := sem_held\<rparr>) = m"
  by (simp add: release_db_def)

lemma save_all:
  assumes "length (jobs m) = MAXJOBS" "semid m = sem_free" "length (wire_database ptr m) \<le> tx_left c"
    and "\<And>i. i < MAXJOBS \<Longrightarrow> j_used (jobs m ! i) \<noteq> 0 \<Longrightarrow> complete m (jobs m ! i)"
  shows "database_save junk ptr (Some c) m = Inr (True, Some (sent_on (wire_database ptr m) c), m)"
proof -
  let ?m = "m\<lparr>semid := sem_held\<rparr>"
  have same: "wire_saved ?m j = wire_saved m j" "complete ?m j = complete m j" for j
    by (simp_all add: wire_saved_def complete_def saved_frames_def saved_hosts_def)
  have "write_header ptr c = sent_on [MWord32 DB_MAGIC, MWord32 (database_version_id ptr), MWord16 (of_nat MAXJOBS)] c"
    using assms(3) by (simp add: write_header_def send_msg_on wire_database_def)
  moreover have "save_jobs junk [0..<MAXJOBS] ?m c' = Inr (True, sent_on (concat (map (\<lambda>i. wire_saved m (jobs m ! i)) [0..<MAXJOBS])) c')"
    if "length (concat (map (\<lambda>i. wire_saved m (jobs m ! i)) [0..<MAXJOBS])) \<le> tx_left c'" for c'
    using save_jobs_ok [of "[0..<MAXJOBS]" ?m c' junk] assms(1,4) that by (simp add: same)
  ultimately show ?thesis using assms(2,3) by (simp add: database_save_def wire_database_def release_same)
qed

lemma init_computers_same [simp]:
  "jobs (fold init_computer xs m) = jobs m" "frame_shm (fold init_computer xs m) = frame_shm m"
  "host_shm (fold init_computer xs m) = host_shm m" "env_shm (fold init_computer xs m) = env_shm m"
  by (induction xs arbitrary: m) (simp_all add: init_computer_def)

text \<open>C18.  A master that is stopped and started again loses no job.  If the file takes all that is written,
  and the segments of the jobs in use can be read and are of the sizes their records say, then the
  clean-up saves the database, and the next master, whose memory starts out blank, has the
  same records at the same places, and for each job in use the same frames, blocked hosts and
  environment variables in segments of its own.\<close>

theorem restart_keeps_jobs:
  assumes "length (jobs m) = MAXJOBS" "semid m = sem_free"
    and "\<And>i. i < MAXJOBS \<Longrightarrow> j_used (jobs m ! i) \<noteq> 0 \<Longrightarrow> complete m (jobs m ! i)"
    and "tx c = []" "length (wire_database ptr m) \<le> tx_left c"
  shows "\<exists>c' w. clean_out junk ptr (Some c) m = Inr (Some c', clean_out_database m) \<and>
    master_start ptr magic version size0 (Some (peer c' k)) (blank_master now user enabled max_cpus (\<lambda>_ _. True) (\<lambda>_. True)) = Inr w \<and>
    (\<forall>i < MAXJOBS. restored m (jobs m ! i) w (jobs w ! i))"
proof -
  let ?b = "blank_master now user enabled max_cpus (\<lambda>_ _. True) (\<lambda>_. True)"
  let ?c = "peer (sent_on (wire_database ptr m) c) k"
  have b: "spacious ?b" "length (jobs ?b) = MAXJOBS"
    by (simp_all add: spacious_def roomy_def generous_def blank_master_def shm_ok_def shm_empty_def)
  have n: "unat (of_nat MAXJOBS :: u16) = MAXJOBS" by (simp add: max_defs)
  have rx: "rx ?c = wire_database ptr m" using assms(4) by (simp add: peer_def)
  let ?c3 = "?c\<lparr>rx := concat (map (\<lambda>i. wire_saved m (jobs m ! i)) [0..<MAXJOBS])\<rparr>"
  obtain w where w: "load_jobs [0..<MAXJOBS] ?c3 ?b = Inr (True, ?c3\<lparr>rx := []\<rparr>, w)"
    "\<forall>i < MAXJOBS. restored m (jobs m ! i) w (jobs w ! i)"
    using load_jobs_all [OF b le0, of ?c3 m "[]"] assms(3) by auto
  have "database_load ptr magic version size0 (Some ?c) ?b = Inr (True, w)"
    using rx w(1) n by (simp add: database_load_def header_field_def read_32b_def read_16b_def recv_as_def wire_database_def)
  then have "master_start ptr magic version size0 (Some ?c) ?b = Inr (init_computers w)" by (simp add: master_start_def)
  moreover have "restored m j (init_computers w) j' = restored m j w j'" for j j'
    by (simp add: restored_def holds_def init_computers_def)
  moreover have "clean_out junk ptr (Some c) m = Inr (Some (sent_on (wire_database ptr m) c), clean_out_database m)"
    using save_all [OF assms(1,2,5,3)] by (simp add: clean_out_def)
  ultimately show ?thesis using w(2) by (auto simp: init_computers_def)
qed

definition saved_job :: job where
  "saved_job = render_job\<lparr>j_envvars := \<lparr>nvariables = 2, evshmid = 4, evsemid = -1\<rparr>, nblocked := 1, bhshmid := 2\<rparr>"

definition saved_master :: master where
  "saved_master = example_master\<lparr>jobs := saved_job # tl (jobs example_master),
     host_shm := shm_empty\<lparr>segs := [2 \<mapsto> [''nina'']], next_id := 3\<rparr>, env_shm := env_shm shaded_master\<rparr>"

lemma saved_master_jobs:
  "length (jobs saved_master) = MAXJOBS" "jobs saved_master ! 0 = saved_job"
  "i < MAXJOBS \<Longrightarrow> j_used (jobs saved_master ! i) \<noteq> 0 \<Longrightarrow> jobs saved_master ! i = saved_job"
  by (simp_all add: saved_master_def example_master_def max_defs)
    (cases i, simp_all add: saved_master_def example_master_def zero_job_def max_defs)

lemma saved_job_complete:
  "complete saved_master saved_job" "saved_frames saved_master saved_job = [zero_frame, zero_frame, zero_frame]"
  "saved_hosts saved_master saved_job = [''nina'']"
  "map ev_name (saved_envvars saved_master saved_job) = [''SHADER'', ''W'']"
proof -
  have n: "job_nframes saved_job = 3" by (simp add: job_nframes_def saved_job_def render_job_def)
  show f: "saved_frames saved_master saved_job = [zero_frame, zero_frame, zero_frame]"
    by (simp add: saved_frames_def n) (simp add: saved_job_def saved_master_def example_master_def render_job_def shm_empty_def shmat_def)
  show h: "saved_hosts saved_master saved_job = [''nina'']"
    by (simp add: saved_hosts_def saved_job_def saved_master_def shm_empty_def shmat_def)
  have l: "env_list (j_envvars saved_job, env_shm saved_master) =
      [\<lparr>ev_name = ''SHADER'', ev_value = ''toon''\<rparr>, \<lparr>ev_name = ''W'', ev_value = ''640''\<rparr>]"
    by (simp add: env_list_def saved_job_def saved_master_def shaded_master_def)
  then show "map ev_name (saved_envvars saved_master saved_job) = [''SHADER'', ''W'']" by (simp add: saved_envvars_def)
  have "env_fits saved_job (env_shm saved_master)"
    by (simp add: env_fits_def env_ok_def l fits_def max_defs)
       (simp add: saved_job_def saved_master_def shaded_master_def shm_empty_def shmat_def shm_ok_def)
  then show "complete saved_master saved_job"
    unfolding complete_def n f h
    by (simp add: saved_job_def saved_master_def example_master_def render_job_def shm_empty_def shmat_def)
qed

theorem restart_keeps_jobs_witness:
  "\<exists>c' w. clean_out zero_frame 8 (Some \<lparr>rx = [], tx = [], tx_left = length (wire_database 8 saved_master)\<rparr>) saved_master =
       Inr (Some c', clean_out_database saved_master) \<and>
     master_start 8 0 0 0 (Some (peer c' 0)) (blank_master 0 ''drqueue'' None None (\<lambda>_ _. True) (\<lambda>_. True)) = Inr w \<and>
     j_name (jobs w ! 0) = ''shot'' \<and> segs (frame_shm w) (fishmid (jobs w ! 0)) = Some [zero_frame, zero_frame, zero_frame] \<and>
     segs (host_shm w) (bhshmid (jobs w ! 0)) = Some [''nina'']"
proof -
  let ?c = "\<lparr>rx = [], tx = [], tx_left = length (wire_database 8 saved_master)\<rparr>"
  have sem: "semid saved_master = sem_free" by (simp add: saved_master_def example_master_def)
  have c: "complete saved_master (jobs saved_master ! i)" if "i < MAXJOBS" "j_used (jobs saved_master ! i) \<noteq> 0" for i
    using saved_job_complete(1) by (simp only: saved_master_jobs(3) [OF that])
  have "\<exists>c' w. clean_out zero_frame 8 (Some ?c) saved_master = Inr (Some c', clean_out_database saved_master) \<and>
    master_start 8 0 0 0 (Some (peer c' 0)) (blank_master 0 ''drqueue'' None None (\<lambda>_ _. True) (\<lambda>_. True)) = Inr w \<and>
    (\<forall>i < MAXJOBS. restored saved_master (jobs saved_master ! i) w (jobs w ! i))"
    by (rule restart_keeps_jobs [OF saved_master_jobs(1) sem c]) simp_all
  then obtain c' w where w: "clean_out zero_frame 8 (Some ?c) saved_master = Inr (Some c', clean_out_database saved_master)"
    "master_start 8 0 0 0 (Some (peer c' 0)) (blank_master 0 ''drqueue'' None None (\<lambda>_ _. True) (\<lambda>_. True)) = Inr w"
    "restored saved_master (jobs saved_master ! 0) w (jobs w ! 0)" by (force simp: max_defs)
  have used: "j_used saved_job \<noteq> 0" and name: "j_name saved_job = ''shot''" by (simp_all add: saved_job_def render_job_def)
  have r: "same_record saved_job (jobs w ! 0)"
    "holds w (jobs w ! 0) [zero_frame, zero_frame, zero_frame] [''nina''] (saved_envvars saved_master saved_job)"
    using w(3) used by (simp_all add: restored_def saved_master_jobs(2) saved_job_complete(2,3))
  have "j_name (jobs w ! 0) = j_name ((jobs w ! 0)\<lparr>fishmid := fishmid saved_job, bhshmid := bhshmid saved_job, j_envvars := j_envvars saved_job\<rparr>)"
    by simp
  also have "\<dots> = ''shot''" using r(1) name by (simp add: same_record_def)
  finally show ?thesis using w(1,2) r(2) by (intro exI [of _ c'] exI [of _ w]) (simp add: holds_def)
qed

end
