(* ===== verification/Bytes.thy ===== *)
theory Bytes
  imports Conn
begin

unbundle bit_operations_syntax

text \<open>
  The bottom of \<open>communications.c\<close>: the loops that move bytes in the pieces the kernel gives, the
  order in which a machine keeps the bytes of a number, and the exchange of sizes before a
  structure.  This is what the items of a connection in \<open>Conn\<close> stand on.
\<close>

section \<open>Loops around \<open>read\<close> and \<open>write\<close>\<close>

text \<open>
  One call of \<open>read\<close> or \<open>write\<close>: it fails, or it moves up to so many bytes.  A \<open>read\<close> that does not
  fail moves at least one byte unless the peer has closed and everything it sent was read.  The
  answers of successive calls are a sequence; \<open>stream\<close> is all that the peer sends before it closes.
\<close>

datatype kernel = Fails | Moves nat

type_synonym calls = "nat \<Rightarrow> kernel"

definition next_calls :: "calls \<Rightarrow> calls" where
  "next_calls s = (\<lambda>i. s (Suc i))"

definition got :: "nat \<Rightarrow> nat \<Rightarrow> u8 list \<Rightarrow> nat" where
  "got k bleft stream = min bleft (min (max 1 k) (length stream))"

lemma got_le: "got k bleft stream \<le> bleft" "got k bleft stream \<le> length stream"
  by (simp_all add: got_def)

lemma got_zero: "got k bleft stream = 0 \<longleftrightarrow> bleft = 0 \<or> stream = []"
  by (cases stream) (auto simp: got_def min_def max_def split: if_splits)

function read_loop :: "calls \<Rightarrow> nat \<Rightarrow> u8 list \<Rightarrow> u8 list \<Rightarrow> bool \<times> u8 list \<times> u8 list" where
  "read_loop s bleft stream buf = (case s 0 of
       Fails \<Rightarrow> (False, buf, stream)
     | Moves k \<Rightarrow>
         let r = got k bleft stream;
             buf' = buf @ take r stream; stream' = drop r stream
         in if r < bleft then
              if r = 0 then (False, buf', stream') else read_loop (next_calls s) (bleft - r) stream' buf'
            else (True, buf', stream'))"
  by pat_completeness auto
termination by (relation "measure (\<lambda>(s, bleft, stream, buf). bleft)") auto

text \<open>The result is \<open>len\<close>, which the callers take for a truth value.\<close>

definition dr_read :: "calls \<Rightarrow> nat \<Rightarrow> u8 list \<Rightarrow> bool \<times> u8 list \<times> u8 list" where
  "dr_read s len stream = (case read_loop s len stream [] of (ok, buf, rest) \<Rightarrow> (ok \<and> len \<noteq> 0, buf, rest))"

function write_loop :: "calls \<Rightarrow> u8 list \<Rightarrow> u8 list \<Rightarrow> bool \<times> u8 list" where
  "write_loop s buf out = (case s 0 of
       Fails \<Rightarrow> (False, out)
     | Moves k \<Rightarrow>
         let w = min (length buf) k; out' = out @ take w buf
         in if w < length buf then
              if w = 0 then (False, out') else write_loop (next_calls s) (drop w buf) out'
            else (True, out'))"
  by pat_completeness auto
termination by (relation "measure (\<lambda>(s, buf, out). length buf)") auto

definition dr_write :: "calls \<Rightarrow> u8 list \<Rightarrow> u8 list \<Rightarrow> bool \<times> u8 list" where
  "dr_write s buf out = (case write_loop s buf out of (ok, out) \<Rightarrow> (ok \<and> buf \<noteq> [], out))"

declare read_loop.simps [simp del] write_loop.simps [simp del]

lemma read_loop_step:
  "s 0 = Moves k \<Longrightarrow> read_loop s bleft stream buf =
     (let r = got k bleft stream in
      if r < bleft then if r = 0 then (False, buf @ take r stream, drop r stream)
        else read_loop (next_calls s) (bleft - r) (drop r stream) (buf @ take r stream)
      else (True, buf @ take r stream, drop r stream))"
  by (subst read_loop.simps) (simp add: Let_def)

text \<open>Whatever the kernel does, no byte is lost, repeated or read too much.\<close>

lemma read_loop_parts:
  "read_loop s bleft stream buf = (ok, buf', rest) \<Longrightarrow>
   \<exists>bs. buf' = buf @ bs \<and> stream = bs @ rest \<and> length bs \<le> bleft \<and> (ok \<longrightarrow> length bs = bleft)"
proof (induction s bleft stream buf arbitrary: ok buf' rest rule: read_loop.induct)
  case (1 s bleft stream buf)
  show ?case
  proof (cases "s 0")
    case Fails
    with 1(2) show ?thesis by (subst (asm) read_loop.simps) simp
  next
    case (Moves k)
    define r where "r = got k bleft stream"
    have r: "r \<le> length stream" "r \<le> bleft" by (simp_all add: r_def got_le)
    have step: "read_loop s bleft stream buf =
        (if r < bleft then if r = 0 then (False, buf @ take r stream, drop r stream)
           else read_loop (next_calls s) (bleft - r) (drop r stream) (buf @ take r stream)
         else (True, buf @ take r stream, drop r stream))"
      by (simp add: read_loop_step [where s = s and k = k, OF Moves] r_def Let_def)
    show ?thesis
    proof (cases "r < bleft \<and> r \<noteq> 0")
      case True
      then have l: "read_loop (next_calls s) (bleft - r) (drop r stream) (buf @ take r stream) = (ok, buf', rest)"
        using 1(2) by (simp add: step)
      obtain bs where "buf' = (buf @ take r stream) @ bs" "drop r stream = bs @ rest"
        "length bs \<le> bleft - r" "ok \<longrightarrow> length bs = bleft - r"
        using 1(1) [OF Moves r_def refl refl _ _ l] True by auto
      moreover have "stream = take r stream @ drop r stream" by simp
      ultimately show ?thesis using r True by (intro exI [of _ "take r stream @ bs"]) auto
    next
      case False
      then show ?thesis using 1(2) r by (intro exI [of _ "take r stream"]) (auto simp: step split: if_splits)
    qed
  qed
qed

text \<open>Without failures the read succeeds exactly when there are enough bytes.\<close>

lemma read_loop_enough:
  "\<forall>i. s i \<noteq> Fails \<Longrightarrow> fst (read_loop s bleft stream buf) \<longleftrightarrow> bleft \<le> length stream"
proof (induction s bleft stream buf rule: read_loop.induct)
  case (1 s bleft stream buf)
  obtain k where k: "s 0 = Moves k" using 1(2) by (cases "s 0") auto
  define r where "r = got k bleft stream"
  have r: "r \<le> length stream" "r \<le> bleft" "r = 0 \<longleftrightarrow> bleft = 0 \<or> stream = []" by (simp_all add: r_def got_le got_zero)
  have rest: "\<forall>i. next_calls s i \<noteq> Fails" using 1(2) by (simp add: next_calls_def)
  have "fst (read_loop (next_calls s) (bleft - r) (drop r stream) (buf @ take r stream)) \<longleftrightarrow> bleft - r \<le> length (drop r stream)"
    if "r < bleft" "r \<noteq> 0"
    by (rule 1(1) [OF k r_def refl refl that rest])
  then show ?case using r by (auto simp: read_loop_step [where s = s and k = k, OF k] r_def [symmetric] Let_def)
qed

lemma dr_read_exact:
  assumes "\<forall>i. s i \<noteq> Fails" "0 < len" "dr_read s len stream = (ok, buf, rest)"
  shows "stream = buf @ rest" "ok \<longleftrightarrow> len \<le> length stream" "ok \<Longrightarrow> buf = take len stream" "ok \<Longrightarrow> rest = drop len stream"
proof -
  have r: "read_loop s len stream [] = (ok, buf, rest)"
    using assms(2,3) by (simp add: dr_read_def split: prod.splits)
  show "ok \<longleftrightarrow> len \<le> length stream" using read_loop_enough [OF assms(1), of len stream "[]"] r by simp
  show "stream = buf @ rest" using read_loop_parts [OF r] by auto
  show "ok \<Longrightarrow> buf = take len stream" "ok \<Longrightarrow> rest = drop len stream" using read_loop_parts [OF r] by auto
qed

lemma write_loop_step:
  "s 0 = Moves k \<Longrightarrow> write_loop s buf out =
     (let w = min (length buf) k in
      if w < length buf then if w = 0 then (False, out @ take w buf)
        else write_loop (next_calls s) (drop w buf) (out @ take w buf)
      else (True, out @ take w buf))"
  by (subst write_loop.simps) (simp add: Let_def)

lemma write_loop_parts:
  "write_loop s buf out = (ok, out') \<Longrightarrow> \<exists>n \<le> length buf. out' = out @ take n buf \<and> (ok \<longrightarrow> n = length buf)"
proof (induction s buf out arbitrary: ok out' rule: write_loop.induct)
  case (1 s buf out)
  show ?case
  proof (cases "s 0")
    case Fails
    with 1(2) show ?thesis by (subst (asm) write_loop.simps) auto
  next
    case (Moves k)
    define w where "w = min (length buf) k"
    note step = write_loop_step [where s = s and k = k, OF Moves, of buf out, folded w_def, unfolded Let_def]
    show ?thesis
    proof (cases "w < length buf \<and> w \<noteq> 0")
      case True
      then have l: "write_loop (next_calls s) (drop w buf) (out @ take w buf) = (ok, out')" using 1(2) by (simp add: step)
      obtain n where "n \<le> length buf - w" "out' = out @ take w buf @ take n (drop w buf)" "ok \<longrightarrow> n = length buf - w"
        using 1(1) [OF Moves w_def refl _ _ l] True by auto
      then show ?thesis using True by (intro exI [of _ "w + n"]) (auto simp: take_add)
    next
      case False
      then show ?thesis using 1(2) by (intro exI [of _ w]) (auto simp: step w_def split: if_splits)
    qed
  qed
qed

lemma write_loop_all:
  "\<forall>i k. s i = Moves k \<longrightarrow> 0 < k \<Longrightarrow> \<forall>i. s i \<noteq> Fails \<Longrightarrow> write_loop s buf out = (True, out @ buf)"
proof (induction s buf out rule: write_loop.induct)
  case (1 s buf out)
  obtain k where k: "s 0 = Moves k" "0 < k" using 1(2,3) by (cases "s 0") auto
  define w where "w = min (length buf) k"
  note step = write_loop_step [where s = s and k = k, OF k(1), of buf out, folded w_def, unfolded Let_def]
  have rest: "\<forall>i k. next_calls s i = Moves k \<longrightarrow> 0 < k" "\<forall>i. next_calls s i \<noteq> Fails"
    using 1(2,3) by (simp_all add: next_calls_def)
  have "write_loop (next_calls s) (drop w buf) (out @ take w buf) = (True, (out @ take w buf) @ drop w buf)"
    if "w < length buf" "w \<noteq> 0"
    using 1(1) [OF k(1) w_def refl that rest] by simp
  then show ?case using k(2) by (auto simp: step w_def split: if_splits)
qed

section \<open>The bytes of a number\<close>

fun le_bytes :: "nat \<Rightarrow> 'a::len word \<Rightarrow> u8 list" where
  "le_bytes 0 w = []"
| "le_bytes (Suc n) w = ucast w # le_bytes n (drop_bit 8 w)"

fun le_word :: "u8 list \<Rightarrow> 'a::len word" where
  "le_word [] = 0"
| "le_word (b # bs) = ucast b OR push_bit 8 (le_word bs)"

lemma length_le_bytes [simp]: "length (le_bytes n w) = n"
  by (induction n arbitrary: w) simp_all

lemma le_word_bytes: "le_word (le_bytes n w) = take_bit (8 * n) (w :: 'a::len word)"
proof (induction n arbitrary: w)
  case (Suc n)
  show ?case
  proof (rule bit_word_eqI)
    fix i assume "i < LENGTH('a)"
    then show "bit (le_word (le_bytes (Suc n) w) :: 'a word) i = bit (take_bit (8 * Suc n) w) i"
      by (auto simp: Suc.IH bit_simps)
  qed
qed simp

lemma bit_le_word:
  "bit (le_word bs :: 'a::len word) k \<longleftrightarrow> k < LENGTH('a) \<and> k < 8 * length bs \<and> bit (bs ! (k div 8)) (k mod 8)"
proof (induction bs arbitrary: k)
  case (Cons b bs)
  show ?case
  proof (cases "k < 8")
    case True
    then show ?thesis by (auto simp: bit_simps)
  next
    case False
    then have "k div 8 = Suc ((k - 8) div 8)" "k mod 8 = (k - 8) mod 8" by (simp_all add: le_div_geq le_mod_geq)
    moreover have "\<not> bit b k" using False bit_imp_le_length [of b k] by auto
    ultimately show ?thesis using False Cons.IH [of "k - 8"] by (auto simp: bit_simps)
  qed
qed simp

lemma le_bytes_nth: "i < n \<Longrightarrow> le_bytes n w ! i = ucast (drop_bit (8 * i) w)"
  by (induction n arbitrary: i w) (auto simp: nth_Cons ac_simps split: nat.splits)

lemma le_bytes_word:
  assumes "8 * length bs \<le> LENGTH('a)"
  shows "le_bytes (length bs) (le_word bs :: 'a::len word) = bs"
proof (rule nth_equalityI)
  fix i assume "i < length (le_bytes (length bs) (le_word bs :: 'a word))"
  then have i: "i < length bs" by simp
  show "le_bytes (length bs) (le_word bs :: 'a word) ! i = bs ! i"
  proof (rule bit_word_eqI)
    fix j assume "j < LENGTH(8)"
    then have "j < 8" by simp
    moreover from this i assms have "8 * i + j < LENGTH('a)" "8 * i + j < 8 * length bs" by linarith+
    moreover from \<open>j < 8\<close> have "(8 * i + j) div 8 = i" "(8 * i + j) mod 8 = j" by simp_all
    ultimately show "bit (le_bytes (length bs) (le_word bs :: 'a word) ! i) j = bit (bs ! i) j"
      by (simp add: le_bytes_nth i bit_simps bit_le_word)
  qed
qed simp

text \<open>
  The order in which a machine keeps the bytes of a number, and how the bytes of a number lie in
  its memory.
\<close>

datatype byte_order = Big | Little

definition stored :: "byte_order \<Rightarrow> nat \<Rightarrow> 'a::len word \<Rightarrow> u8 list" where
  "stored e n w = (case e of Little \<Rightarrow> le_bytes n w | Big \<Rightarrow> rev (le_bytes n w))"

definition loaded :: "byte_order \<Rightarrow> u8 list \<Rightarrow> 'a::len word" where
  "loaded e bs = (case e of Little \<Rightarrow> le_word bs | Big \<Rightarrow> le_word (rev bs))"

definition byteswap :: "nat \<Rightarrow> 'a::len word \<Rightarrow> 'a word" where
  "byteswap n w = le_word (rev (le_bytes n w))"

lemma loaded_stored [simp]: "8 * n = LENGTH('a) \<Longrightarrow> loaded e (stored e n w) = (w :: 'a::len word)"
  by (simp add: loaded_def stored_def le_word_bytes split: byte_order.splits)

lemma stored_loaded: "8 * length bs = LENGTH('a) \<Longrightarrow> stored e (length bs) (loaded e bs :: 'a::len word) = bs"
  using le_bytes_word [of bs, where 'a = 'a] le_bytes_word [of "rev bs", where 'a = 'a]
  by (simp add: loaded_def stored_def split: byte_order.splits)

lemma length_stored [simp]: "length (stored e n w) = n"
  by (simp add: stored_def split: byte_order.splits)

lemma byteswap_twice [simp]: "8 * n = LENGTH('a) \<Longrightarrow> byteswap n (byteswap n w) = (w :: 'a::len word)"
  using le_bytes_word [of "rev (le_bytes n w)", where 'a = 'a] by (simp add: byteswap_def le_word_bytes)

text \<open>\<open>htonl\<close> and the like; each is its own inverse.\<close>

definition htonl :: "byte_order \<Rightarrow> u32 \<Rightarrow> u32" where
  "htonl e v = (case e of Big \<Rightarrow> v | Little \<Rightarrow> byteswap 4 v)"

definition htons :: "byte_order \<Rightarrow> u16 \<Rightarrow> u16" where
  "htons e v = (case e of Big \<Rightarrow> v | Little \<Rightarrow> byteswap 2 v)"

abbreviation "ntohl \<equiv> htonl"
abbreviation "ntohs \<equiv> htons"

text \<open>
  \<open>dr_hton64\<close> does not look at the machine but at two macros: \<open>only_big\<close> is whether \<open>BIG_ENDIAN\<close> is
  defined and \<open>LITTLE_ENDIAN\<close> is not.  The system headers of most systems define both.
\<close>

definition swap64 :: "u64 \<Rightarrow> u64" where
  "swap64 v = loaded Little (rev (stored Little 8 v))"

definition dr_hton64 :: "bool \<Rightarrow> u64 \<Rightarrow> u64" where
  "dr_hton64 only_big v = (if only_big then v else swap64 v)"

definition dr_ntoh64 :: "bool \<Rightarrow> u64 \<Rightarrow> u64" where
  "dr_ntoh64 only_big v = (if only_big then v else swap64 v)"

lemma stored_htonl: "stored e 4 (htonl e v) = rev (le_bytes 4 v)"
  using le_bytes_word [of "rev (le_bytes 4 v)", where 'a = 32]
  by (simp add: stored_def htonl_def byteswap_def split: byte_order.splits)

lemma ntohl_loaded: "length bs = 4 \<Longrightarrow> ntohl e (loaded e bs) = le_word (rev bs)"
  using le_bytes_word [of bs, where 'a = 32]
  by (simp add: loaded_def htonl_def byteswap_def split: byte_order.splits)

lemma stored_htons: "stored e 2 (htons e v) = rev (le_bytes 2 v)"
  using le_bytes_word [of "rev (le_bytes 2 v)", where 'a = 16]
  by (simp add: stored_def htons_def byteswap_def split: byte_order.splits)

lemma ntohs_loaded: "length bs = 2 \<Longrightarrow> ntohs e (loaded e bs) = le_word (rev bs)"
  using le_bytes_word [of bs, where 'a = 16]
  by (simp add: loaded_def htons_def byteswap_def split: byte_order.splits)

section \<open>Numbers and sizes on the wire\<close>

definition write_number :: "byte_order \<Rightarrow> calls \<Rightarrow> u32 \<Rightarrow> u8 list \<Rightarrow> bool \<times> u8 list" where
  "write_number e s v out = dr_write s (stored e 4 (htonl e v)) out"

definition read_number :: "byte_order \<Rightarrow> calls \<Rightarrow> u8 list \<Rightarrow> u32 option \<times> u8 list" where
  "read_number e s stream = (case dr_read s 4 stream of (ok, buf, rest) \<Rightarrow> (if ok then Some (ntohl e (loaded e buf)) else None, rest))"

text \<open>
  The exchange of sizes: each side writes its own and reads the other's, the sender first.  Both
  functions return whether they agree; \<open>sr\<close> and \<open>sw\<close> are the calls for reading and writing.
\<close>

definition check_send_datasize ::
    "byte_order \<Rightarrow> calls \<Rightarrow> calls \<Rightarrow> u32 \<Rightarrow> u8 list \<Rightarrow> u8 list \<Rightarrow> bool \<times> u8 list \<times> u8 list" where
  "check_send_datasize e sr sw datasize stream out =
     (case write_number e sw datasize out of (ok, out) \<Rightarrow>
        if \<not> ok then (False, stream, out)
        else (case read_number e sr stream of (None, stream) \<Rightarrow> (False, stream, out)
          | (Some remotesize, stream) \<Rightarrow> (datasize = remotesize, stream, out)))"

definition check_recv_datasize ::
    "byte_order \<Rightarrow> calls \<Rightarrow> calls \<Rightarrow> u32 \<Rightarrow> u8 list \<Rightarrow> u8 list \<Rightarrow> bool \<times> u8 list \<times> u8 list" where
  "check_recv_datasize e sr sw datasize stream out =
     (case read_number e sr stream of (None, stream) \<Rightarrow> (False, stream, out)
       | (Some remotesize, stream) \<Rightarrow>
           (case write_number e sw datasize out of (ok, out) \<Rightarrow>
              if \<not> ok then (False, stream, out) else (datasize = remotesize, stream, out)))"

definition steady :: "calls \<Rightarrow> bool" where
  "steady s \<longleftrightarrow> (\<forall>i. \<exists>k > 0. s i = Moves k)"

lemma write_number_bytes:
  assumes "steady s"
  shows "write_number e s v out = (True, out @ rev (le_bytes 4 v))"
proof -
  have "write_loop s (rev (le_bytes 4 v)) out = (True, out @ rev (le_bytes 4 v))"
    using assms by (intro write_loop_all) (auto simp: steady_def, metis kernel.inject, metis kernel.distinct(1))
  moreover have "rev (le_bytes 4 v) \<noteq> []" by (metis length_le_bytes length_rev list.size(3) zero_neq_numeral)
  ultimately show ?thesis by (simp add: write_number_def dr_write_def stored_htonl)
qed

lemma read_number_bytes:
  assumes "steady s"
  shows "read_number e s (rev (le_bytes 4 v) @ rest) = (Some v, rest)"
proof -
  obtain ok buf rest' where r: "dr_read s 4 (rev (le_bytes 4 v) @ rest) = (ok, buf, rest')" by (metis surj_pair)
  have "\<forall>i. s i \<noteq> Fails" using assms by (metis steady_def kernel.distinct(1))
  note d = dr_read_exact [OF this _ r, simplified]
  have "ntohl e (loaded e buf) = v" if "ok"
    using d(3) [OF that] ntohl_loaded [of buf e] by (simp add: le_word_bytes take_bit_word_eq_self)
  then show ?thesis using d by (simp add: read_number_def r)
qed

text \<open>A number arrives as it was sent, between machines of any byte orders and in whatever pieces
  the two kernels move it, as long as no call fails, and no byte of what follows is touched.  And
  when the two ends then compare the sizes of what they are about to exchange, both come to the
  same answer: that the sizes agree, exactly when they do.\<close>

theorem numbers_cross_machines:
  assumes "steady sw" "steady sr" "steady sw'" "steady sr'"
  shows "\<exists>bs. write_number e sw v out = (True, out @ bs) \<and> length bs = 4 \<and>
      read_number e' sr (bs @ rest) = (Some v, rest) \<and>
      (\<exists>ours. check_recv_datasize e' sr sw' n (snd (write_number e sw m []) @ rest) [] = (n = m, rest, ours) \<and>
        check_send_datasize e sr' sw m (ours @ rest') out = (n = m, rest', snd (write_number e sw m out)))"
  using assms
  by (auto simp: write_number_bytes read_number_bytes check_recv_datasize_def check_send_datasize_def)

theorem numbers_cross_machines_witness:
  "\<exists>bs. write_number Little (\<lambda>_. Moves 1) 0x0A0B0C0D [] = (True, bs) \<and> read_number Big (\<lambda>_. Moves 3) bs = (Some 0x0A0B0C0D, [])"
proof -
  have s: "steady (\<lambda>_. Moves 1)" "steady (\<lambda>_. Moves 3)" by (simp_all add: steady_def)
  from numbers_cross_machines [OF s(1,2,1,2), of Little "0x0A0B0C0D" "[]" Big "[]" 0 0 "[]"] show ?thesis by auto
qed

end
