(* ===== verification/Machines.thy ===== *)
theory Machines
  imports Bytes Exchange
begin

text \<open>
  Records between machines of different byte orders: the conversions that the \<open>send_\<dots>\<close> and
  \<open>recv_\<dots>\<close> functions of \<open>communications.c\<close> and the \<open>\<dots>_bswap_\<dots>\<close> functions of \<open>job.c\<close> make around
  the transfer of a structure, field by field.  They justify the items of \<open>Conn\<close>, which arrive as
  they were sent.
\<close>

section \<open>A structure read on another machine\<close>

record machine =
  byte_order :: byte_order
  only_big :: bool

definition reread :: "nat \<Rightarrow> machine \<Rightarrow> machine \<Rightarrow> 'a::len word \<Rightarrow> 'a word" where
  "reread n a b v = loaded (byte_order b) (stored (byte_order a) n v)"

abbreviation reread16 :: "machine \<Rightarrow> machine \<Rightarrow> u16 \<Rightarrow> u16" where "reread16 \<equiv> reread 2"
abbreviation reread32 :: "machine \<Rightarrow> machine \<Rightarrow> u32 \<Rightarrow> u32" where "reread32 \<equiv> reread 4"
abbreviation reread64 :: "machine \<Rightarrow> machine \<Rightarrow> u64 \<Rightarrow> u64" where "reread64 \<equiv> reread 8"

lemma ntohl_reread [simp]: "ntohl (byte_order b) (reread32 a b (htonl (byte_order a) v)) = v"
  by (simp add: reread_def stored_htonl ntohl_loaded le_word_bytes take_bit_word_eq_self)

lemma ntohs_reread [simp]: "ntohs (byte_order b) (reread16 a b (htons (byte_order a) v)) = v"
  by (simp add: reread_def stored_htons ntohs_loaded le_word_bytes take_bit_word_eq_self)

lemma reread_same: "byte_order a = byte_order b \<Longrightarrow> 8 * n = LENGTH('a) \<Longrightarrow> reread n a b v = (v :: 'a::len word)"
  by (simp add: reread_def)

lemma reread_zero [simp]: "reread n a b 0 = 0"
proof -
  have "le_bytes n (0 :: 'a::len word) = replicate n 0" by (induction n) simp_all
  moreover have "le_word (replicate n 0) = (0 :: 'a word)" by (induction n) simp_all
  ultimately show ?thesis by (simp add: reread_def stored_def loaded_def split: byte_order.splits)
qed

text \<open>What the bytes of a structure of machine \<open>a\<close> mean on \<open>b\<close>; single bytes and strings stay the same.\<close>

definition reread_frame_info :: "machine \<Rightarrow> machine \<Rightarrow> frame_info \<Rightarrow> frame_info" where
  "reread_frame_info a b f = f\<lparr>fi_start_time := reread32 a b (fi_start_time f), fi_end_time := reread32 a b (fi_end_time f),
     fi_icomp := reread32 a b (fi_icomp f), fi_itask := reread16 a b (fi_itask f), fi_requeued := reread16 a b (fi_requeued f),
     fi_flags := reread16 a b (fi_flags f)\<rparr>"

definition reread_task :: "machine \<Rightarrow> machine \<Rightarrow> task \<Rightarrow> task" where
  "reread_task a b t = t\<lparr>t_ijob := reread32 a b (t_ijob t), t_icomp := reread32 a b (t_icomp t), t_itask := reread16 a b (t_itask t),
     t_frame := reread32 a b (t_frame t), t_frame_start := reread32 a b (t_frame_start t), t_frame_end := reread32 a b (t_frame_end t),
     t_frame_step := reread32 a b (t_frame_step t), t_block_size := reread32 a b (t_block_size t), t_pid := reread32 a b (t_pid t),
     t_exitstatus := reread32 a b (t_exitstatus t), t_start_loading_time := reread64 a b (t_start_loading_time t)\<rparr>"

definition reread_hwinfo :: "machine \<Rightarrow> machine \<Rightarrow> computer_hwinfo \<Rightarrow> computer_hwinfo" where
  "reread_hwinfo a b h = h\<lparr>hw_id := reread32 a b (hw_id h), hw_procspeed := reread32 a b (hw_procspeed h),
     hw_ncpus := reread16 a b (hw_ncpus h), hw_speedindex := reread32 a b (hw_speedindex h), hw_memory := reread32 a b (hw_memory h)\<rparr>"

definition reread_autoenable :: "machine \<Rightarrow> machine \<Rightarrow> autoenable \<Rightarrow> autoenable" where
  "reread_autoenable a b ae = ae\<lparr>ae_last := reread32 a b (ae_last ae)\<rparr>"

text \<open>The identifiers of segments and pointers, which the receiver replaces, are left out here and below.\<close>

definition reread_limits :: "machine \<Rightarrow> machine \<Rightarrow> computer_limits \<Rightarrow> computer_limits" where
  "reread_limits a b cl = cl\<lparr>cl_nmaxcpus := reread16 a b (cl_nmaxcpus cl), cl_maxfreeloadcpu := reread16 a b (cl_maxfreeloadcpu cl),
     cl_autoenable := reread_autoenable a b (cl_autoenable cl), npools := reread16 a b (npools cl),
     npoolsattached := reread32 a b (npoolsattached cl)\<rparr>"

definition reread_job_limits :: "machine \<Rightarrow> machine \<Rightarrow> job_limits \<Rightarrow> job_limits" where
  "reread_job_limits a b l = l\<lparr>jl_nmaxcpus := reread16 a b (jl_nmaxcpus l), jl_nmaxcpuscomputer := reread16 a b (jl_nmaxcpuscomputer l),
     jl_os_flags := reread16 a b (jl_os_flags l), jl_memory := reread32 a b (jl_memory l)\<rparr>"

definition reread_koji :: "machine \<Rightarrow> machine \<Rightarrow> koj_info \<Rightarrow> koj_info" where
  "reread_koji a b k = (case k of
       KojiTurtle s r p c x y i v \<Rightarrow> KojiTurtle s r p c (reread32 a b x) (reread32 a b y) i v
     | _ \<Rightarrow> k)"

definition reread_job :: "machine \<Rightarrow> machine \<Rightarrow> job \<Rightarrow> job" where
  "reread_job a b j = j\<lparr>j_id := reread32 a b (j_id j), j_nprocs := reread16 a b (j_nprocs j), j_status := reread16 a b (j_status j),
     j_priority := reread32 a b (j_priority j), koj := reread16 a b (koj j), koji := reread_koji a b (koji j),
     frame_start := reread32 a b (frame_start j), frame_end := reread32 a b (frame_end j), frame_step := reread32 a b (frame_step j),
     fleft := reread32 a b (fleft j), fdone := reread32 a b (fdone j), ffailed := reread32 a b (ffailed j),
     old_fdone := reread32 a b (old_fdone j), old_nprocs := reread16 a b (old_nprocs j), block_size := reread32 a b (block_size j),
     submit_time := reread32 a b (submit_time j), avg_frame_time := reread32 a b (avg_frame_time j),
     est_finish_time := reread32 a b (est_finish_time j), nblocked := reread16 a b (nblocked j), j_flags := reread32 a b (j_flags j),
     dependid := reread32 a b (dependid j), limits := reread_job_limits a b (limits j),
     j_envvars := (j_envvars j)\<lparr>nvariables := reread16 a b (nvariables (j_envvars j))\<rparr>\<rparr>"

section \<open>The conversions\<close>

definition frame_info_to_network :: "byte_order \<Rightarrow> frame_info \<Rightarrow> frame_info" where
  "frame_info_to_network e f = f\<lparr>fi_start_time := htonl e (fi_start_time f), fi_end_time := htonl e (fi_end_time f),
     fi_icomp := htonl e (fi_icomp f), fi_itask := htons e (fi_itask f), fi_requeued := htons e (fi_requeued f),
     fi_flags := htons e (fi_flags f)\<rparr>"

definition frame_info_from_network :: "byte_order \<Rightarrow> frame_info \<Rightarrow> frame_info" where
  "frame_info_from_network e f = f\<lparr>fi_start_time := ntohl e (fi_start_time f), fi_end_time := ntohl e (fi_end_time f),
     fi_icomp := ntohl e (fi_icomp f), fi_itask := ntohs e (fi_itask f), fi_requeued := ntohs e (fi_requeued f),
     fi_flags := ntohs e (fi_flags f)\<rparr>"

definition task_to_network :: "machine \<Rightarrow> task \<Rightarrow> task" where
  "task_to_network a t = (let e = byte_order a in t\<lparr>t_ijob := htonl e (t_ijob t), t_icomp := htonl e (t_icomp t), t_itask := htons e (t_itask t),
     t_frame := htonl e (t_frame t), t_frame_start := htonl e (t_frame_start t), t_frame_end := htonl e (t_frame_end t),
     t_frame_step := htonl e (t_frame_step t), t_block_size := htonl e (t_block_size t), t_pid := htonl e (t_pid t),
     t_exitstatus := htonl e (t_exitstatus t), t_start_loading_time := dr_hton64 (only_big a) (t_start_loading_time t)\<rparr>)"

definition task_from_network :: "machine \<Rightarrow> task \<Rightarrow> task" where
  "task_from_network b t = (let e = byte_order b in t\<lparr>t_ijob := ntohl e (t_ijob t), t_icomp := ntohl e (t_icomp t), t_itask := ntohs e (t_itask t),
     t_frame := ntohl e (t_frame t), t_frame_start := ntohl e (t_frame_start t), t_frame_end := ntohl e (t_frame_end t),
     t_frame_step := ntohl e (t_frame_step t), t_block_size := ntohl e (t_block_size t), t_pid := ntohl e (t_pid t),
     t_exitstatus := ntohl e (t_exitstatus t), t_start_loading_time := dr_ntoh64 (only_big b) (t_start_loading_time t)\<rparr>)"

definition hwinfo_to_network :: "byte_order \<Rightarrow> computer_hwinfo \<Rightarrow> computer_hwinfo" where
  "hwinfo_to_network e h = h\<lparr>hw_id := htonl e (hw_id h), hw_procspeed := htonl e (hw_procspeed h),
     hw_ncpus := htons e (hw_ncpus h), hw_speedindex := htonl e (hw_speedindex h), hw_memory := htonl e (hw_memory h)\<rparr>"

definition hwinfo_from_network :: "byte_order \<Rightarrow> computer_hwinfo \<Rightarrow> computer_hwinfo" where
  "hwinfo_from_network e h = h\<lparr>hw_id := ntohl e (hw_id h), hw_procspeed := ntohl e (hw_procspeed h),
     hw_ncpus := ntohs e (hw_ncpus h), hw_speedindex := ntohl e (hw_speedindex h), hw_memory := ntohl e (hw_memory h)\<rparr>"

definition autoenable_to_network :: "byte_order \<Rightarrow> autoenable \<Rightarrow> autoenable" where
  "autoenable_to_network e ae = ae\<lparr>ae_last := htonl e (ae_last ae)\<rparr>"

definition autoenable_from_network :: "byte_order \<Rightarrow> autoenable \<Rightarrow> autoenable" where
  "autoenable_from_network e ae = ae\<lparr>ae_last := ntohl e (ae_last ae)\<rparr>"

definition limits_to_network :: "byte_order \<Rightarrow> computer_limits \<Rightarrow> computer_limits" where
  "limits_to_network e cl = computer_limits_cleanup_to_send
     (cl\<lparr>cl_nmaxcpus := htons e (cl_nmaxcpus cl), cl_maxfreeloadcpu := htons e (cl_maxfreeloadcpu cl),
         cl_autoenable := (cl_autoenable cl)\<lparr>ae_last := htonl e (ae_last (cl_autoenable cl))\<rparr>\<rparr>)"

definition limits_from_network :: "byte_order \<Rightarrow> computer_limits \<Rightarrow> computer_limits" where
  "limits_from_network e cl =
     cl\<lparr>cl_nmaxcpus := ntohs e (cl_nmaxcpus cl), cl_maxfreeloadcpu := ntohs e (cl_maxfreeloadcpu cl),
        cl_autoenable := (cl_autoenable cl)\<lparr>ae_last := ntohl e (ae_last (cl_autoenable cl))\<rparr>\<rparr>"

definition job_limits_bswap_to_network :: "byte_order \<Rightarrow> job_limits \<Rightarrow> job_limits \<Rightarrow> job_limits" where
  "job_limits_bswap_to_network e orig dest = dest\<lparr>jl_nmaxcpus := htons e (jl_nmaxcpus orig),
     jl_nmaxcpuscomputer := htons e (jl_nmaxcpuscomputer orig), jl_os_flags := htons e (jl_os_flags orig), jl_memory := htonl e (jl_memory orig)\<rparr>"

definition job_limits_bswap_from_network :: "byte_order \<Rightarrow> job_limits \<Rightarrow> job_limits \<Rightarrow> job_limits" where
  "job_limits_bswap_from_network e orig dest = dest\<lparr>jl_nmaxcpus := ntohs e (jl_nmaxcpus orig),
     jl_nmaxcpuscomputer := ntohs e (jl_nmaxcpuscomputer orig), jl_os_flags := ntohs e (jl_os_flags orig), jl_memory := ntohl e (jl_memory orig)\<rparr>"

text \<open>Only the size of the picture of a Turtle job is a number; where the kind of the job says so, it is swapped.\<close>

definition swap_koji :: "byte_order \<Rightarrow> u16 \<Rightarrow> koj_info \<Rightarrow> koj_info" where
  "swap_koji e kind k = (if kind = KOJ_TURTLE then (case k of
       KojiTurtle s r p c x y i v \<Rightarrow> KojiTurtle s r p c (htonl e x) (htonl e y) i v
     | _ \<Rightarrow> k) else k)"

text \<open>Both are called with a structure of their own as the source and the same (or a copy of it) as the target.\<close>

definition job_bswap_to_network :: "byte_order \<Rightarrow> job \<Rightarrow> job" where
  "job_bswap_to_network e j = j\<lparr>j_id := htonl e (j_id j), j_nprocs := htons e (j_nprocs j), j_status := htons e (j_status j),
     koji := swap_koji e (koj j) (koji j), koj := htons e (koj j),
     frame_start := htonl e (frame_start j), frame_end := htonl e (frame_end j), frame_step := htonl e (frame_step j),
     block_size := htonl e (block_size j), avg_frame_time := htonl e (avg_frame_time j), est_finish_time := htonl e (est_finish_time j),
     fleft := htonl e (fleft j), fdone := htonl e (fdone j), ffailed := htonl e (ffailed j),
     j_priority := htonl e (j_priority j), j_flags := htonl e (j_flags j),
     limits := job_limits_bswap_to_network e (limits j) (limits j),
     j_envvars := envvars_init\<lparr>nvariables := htons e (nvariables (j_envvars j))\<rparr>\<rparr>"

definition job_bswap_from_network :: "byte_order \<Rightarrow> job \<Rightarrow> job" where
  "job_bswap_from_network e j = j\<lparr>j_id := ntohl e (j_id j), j_nprocs := ntohs e (j_nprocs j), j_status := ntohs e (j_status j),
     koj := ntohs e (koj j), koji := swap_koji e (ntohs e (koj j)) (koji j),
     frame_start := ntohl e (frame_start j), frame_end := ntohl e (frame_end j),
     frame_step := (if ntohl e (frame_step j) = 0 then 1 else ntohl e (frame_step j)),
     block_size := ntohl e (block_size j), avg_frame_time := ntohl e (avg_frame_time j), est_finish_time := ntohl e (est_finish_time j),
     fleft := ntohl e (fleft j), fdone := ntohl e (fdone j), ffailed := ntohl e (ffailed j),
     j_priority := ntohl e (j_priority j), j_flags := ntohl e (j_flags j),
     limits := job_limits_bswap_from_network e (limits j) (limits j)\<rparr>"

section \<open>Every item of a connection\<close>

definition request_to_network :: "byte_order \<Rightarrow> request \<Rightarrow> request" where
  "request_to_network e r = r\<lparr>rq_data := htonl e (rq_data r)\<rparr>"

definition request_from_network :: "byte_order \<Rightarrow> request \<Rightarrow> request" where
  "request_from_network e r = r\<lparr>rq_data := ntohl e (rq_data r)\<rparr>"

definition to_network :: "machine \<Rightarrow> msg \<Rightarrow> msg" where
  "to_network a x = (let e = byte_order a in case x of
       MRequest r \<Rightarrow> MRequest (request_to_network e r)
     | MTask t \<Rightarrow> MTask (task_to_network a t)
     | MJob j \<Rightarrow> MJob (job_bswap_to_network e j)
     | MHwinfo h \<Rightarrow> MHwinfo (hwinfo_to_network e h)
     | MLoadavg ls \<Rightarrow> MLoadavg (map (htons e) ls)
     | MLimits cl \<Rightarrow> MLimits (limits_to_network e cl)
     | MFrame f \<Rightarrow> MFrame (frame_info_to_network e f)
     | MAutoenable ae \<Rightarrow> MAutoenable (autoenable_to_network e ae)
     | MWord16 n \<Rightarrow> MWord16 (htons e n)
     | MWord32 n \<Rightarrow> MWord32 (htonl e n)
     | _ \<Rightarrow> x)"

definition reread_msg :: "machine \<Rightarrow> machine \<Rightarrow> msg \<Rightarrow> msg" where
  "reread_msg a b x = (case x of
       MRequest r \<Rightarrow> MRequest (r\<lparr>rq_data := reread32 a b (rq_data r)\<rparr>)
     | MTask t \<Rightarrow> MTask (reread_task a b t)
     | MJob j \<Rightarrow> MJob (reread_job a b j)
     | MHwinfo h \<Rightarrow> MHwinfo (reread_hwinfo a b h)
     | MLoadavg ls \<Rightarrow> MLoadavg (map (reread16 a b) ls)
     | MLimits cl \<Rightarrow> MLimits (reread_limits a b cl)
     | MFrame f \<Rightarrow> MFrame (reread_frame_info a b f)
     | MAutoenable ae \<Rightarrow> MAutoenable (reread_autoenable a b ae)
     | MWord16 n \<Rightarrow> MWord16 (reread16 a b n)
     | MWord32 n \<Rightarrow> MWord32 (reread32 a b n)
     | _ \<Rightarrow> x)"

text \<open>A job and the limits lose what belongs to the memory of the sender.\<close>

definition from_network :: "machine \<Rightarrow> msg \<Rightarrow> msg" where
  "from_network b x = (let e = byte_order b in case x of
       MRequest r \<Rightarrow> MRequest (request_from_network e r)
     | MTask t \<Rightarrow> MTask (task_from_network b t)
     | MJob j \<Rightarrow> MJob (job_bswap_from_network e (job_fix_received_invalid j))
     | MHwinfo h \<Rightarrow> MHwinfo (hwinfo_from_network e h)
     | MLoadavg ls \<Rightarrow> MLoadavg (map (ntohs e) ls)
     | MLimits cl \<Rightarrow> MLimits (limits_from_network e (computer_pool_init (computer_limits_cleanup_received cl)))
     | MFrame f \<Rightarrow> MFrame (frame_info_from_network e f)
     | MAutoenable ae \<Rightarrow> MAutoenable (autoenable_from_network e ae)
     | MWord16 n \<Rightarrow> MWord16 (ntohs e n)
     | MWord32 n \<Rightarrow> MWord32 (ntohl e n)
     | _ \<Rightarrow> x)"

text \<open>What the items of \<open>Conn\<close> promise.\<close>

definition as_sent :: "msg \<Rightarrow> msg" where
  "as_sent x = (case x of
       MJob j \<Rightarrow> MJob (step_not_zero (job_fix_received_invalid (job_on_the_wire j)))
     | MLimits cl \<Rightarrow> MLimits (computer_pool_init cl)
     | _ \<Rightarrow> x)"

text \<open>The fields that are not converted, or not according to the byte order.\<close>

definition without_raw :: "msg \<Rightarrow> msg" where
  "without_raw x = (case x of
       MJob j \<Rightarrow> MJob (j\<lparr>old_fdone := 0, old_nprocs := 0, submit_time := 0, dependid := 0\<rparr>)
     | MTask t \<Rightarrow> MTask (t\<lparr>t_start_loading_time := 0\<rparr>)
     | _ \<Rightarrow> x)"

text \<open>The kind of a job says which member of the union is in use.\<close>

definition kind_fits :: "msg \<Rightarrow> bool" where
  "kind_fits x = (case x of MJob j \<Rightarrow> koj j = KOJ_TURTLE \<longleftrightarrow> (case koji j of KojiTurtle _ _ _ _ _ _ _ _ \<Rightarrow> True | _ \<Rightarrow> False) | _ \<Rightarrow> True)"

definition same_machine :: "machine \<Rightarrow> machine \<Rightarrow> bool" where
  "same_machine a b \<longleftrightarrow> byte_order a = byte_order b \<and> only_big a = only_big b"

definition travel :: "machine \<Rightarrow> machine \<Rightarrow> msg \<Rightarrow> msg" where
  "travel a b x = from_network b (reread_msg a b (to_network a x))"

lemmas network_defs = travel_def from_network_def to_network_def reread_msg_def as_sent_def without_raw_def
  request_to_network_def request_from_network_def task_to_network_def task_from_network_def reread_task_def
  hwinfo_to_network_def hwinfo_from_network_def reread_hwinfo_def autoenable_to_network_def autoenable_from_network_def
  reread_autoenable_def frame_info_to_network_def frame_info_from_network_def reread_frame_info_def

lemma koji_travels:
  "kind = KOJ_TURTLE \<longleftrightarrow> (case k of KojiTurtle _ _ _ _ _ _ _ _ \<Rightarrow> True | _ \<Rightarrow> False) \<Longrightarrow>
   swap_koji (byte_order b) kind (reread_koji a b (swap_koji (byte_order a) kind k)) = k"
  by (auto simp: swap_koji_def reread_koji_def split: koj_info.splits)

lemma job_travels:
  assumes "kind_fits (MJob j)"
  shows "travel a b (MJob j) = (case as_sent (MJob j) of MJob j' \<Rightarrow>
     MJob (j'\<lparr>old_fdone := reread32 a b (old_fdone j), old_nprocs := reread16 a b (old_nprocs j),
       submit_time := reread32 a b (submit_time j), dependid := reread32 a b (dependid j)\<rparr>) | x \<Rightarrow> x)"
  using assms koji_travels [of "koj j" "koji j" b a]
  by (simp add: travel_def from_network_def to_network_def reread_msg_def as_sent_def job_bswap_to_network_def
      job_bswap_from_network_def reread_job_def job_fix_received_invalid_def step_not_zero_def job_on_the_wire_def
      job_limits_bswap_to_network_def job_limits_bswap_from_network_def reread_job_limits_def kind_fits_def envvars_init_def Let_def)

lemma limits_travel: "travel a b (MLimits cl) = as_sent (MLimits cl)"
  by (simp add: travel_def from_network_def to_network_def reread_msg_def as_sent_def limits_to_network_def limits_from_network_def
      computer_limits_cleanup_to_send_def computer_limits_cleanup_received_def computer_pool_init_def reread_limits_def
      reread_autoenable_def Let_def)

lemma task_travels:
  "travel a b (MTask t) =
     MTask (t\<lparr>t_start_loading_time := dr_ntoh64 (only_big b) (reread64 a b (dr_hton64 (only_big a) (t_start_loading_time t)))\<rparr>)"
  by (simp add: network_defs Let_def)

lemma swap64_twice [simp]: "swap64 (swap64 v) = v"
proof -
  have "swap64 w = byteswap 8 w" for w by (simp add: swap64_def byteswap_def loaded_def stored_def)
  then show ?thesis by simp
qed

lemma other_travels:
  "travel a b x = as_sent x" if "case x of MJob j \<Rightarrow> False | MTask t \<Rightarrow> False | MLimits cl \<Rightarrow> False | _ \<Rightarrow> True"
  using that by (cases x) (simp_all add: network_defs Let_def o_def)

text \<open>C20.  Between machines of the same byte order every item of a connection arrives as it was sent, a
  job without what belongs to the sender's memory and with a step of at least 1.  Between any two
  machines, whatever their byte orders, the same holds of everything but five fields: the
  dependency, the submission time and the two old counters of a job, which nobody converts,
  and the start of the loading of a task, which is converted by the macros of the system headers
  and not by the order of the machine.\<close>

theorem items_cross_machines:
  assumes "kind_fits x"
  shows "(same_machine a b \<longrightarrow> travel a b x = as_sent x) \<and> without_raw (travel a b x) = without_raw (as_sent x)"
proof (cases x)
  case (MJob j)
  with assms have t: "travel a b x = (case as_sent x of MJob j' \<Rightarrow>
     MJob (j'\<lparr>old_fdone := reread32 a b (old_fdone j), old_nprocs := reread16 a b (old_nprocs j),
       submit_time := reread32 a b (submit_time j), dependid := reread32 a b (dependid j)\<rparr>) | x \<Rightarrow> x)"
    by (simp only: job_travels)
  show ?thesis unfolding t
    by (simp add: MJob as_sent_def without_raw_def same_machine_def reread_same step_not_zero_def job_fix_received_invalid_def
        job_on_the_wire_def)
next
  case (MTask t)
  show ?thesis
    by (simp add: MTask task_travels as_sent_def without_raw_def same_machine_def reread_same dr_hton64_def dr_ntoh64_def)
qed (simp_all add: limits_travel other_travels)

text \<open>And the five fields are damaged: a job that depends on job 1 arrives as one that depends on job 16777216.\<close>

theorem items_cross_machines_witness:
  "travel \<lparr>byte_order = Little, only_big = False\<rparr> \<lparr>byte_order = Little, only_big = False\<rparr> (MFrame (zero_frame\<lparr>fi_icomp := 7\<rparr>)) =
     MFrame (zero_frame\<lparr>fi_icomp := 7\<rparr>) \<and>
   without_raw (travel \<lparr>byte_order = Little, only_big = False\<rparr> \<lparr>byte_order = Big, only_big = False\<rparr> (MJob (zero_job\<lparr>dependid := 1, j_id := 5\<rparr>))) =
     without_raw (as_sent (MJob (zero_job\<lparr>dependid := 1, j_id := 5\<rparr>)))"
  using items_cross_machines [of "MFrame (zero_frame\<lparr>fi_icomp := 7\<rparr>)" "\<lparr>byte_order = Little, only_big = False\<rparr>" "\<lparr>byte_order = Little, only_big = False\<rparr>"]
    items_cross_machines [of "MJob (zero_job\<lparr>dependid := 1, j_id := 5\<rparr>)" "\<lparr>byte_order = Little, only_big = False\<rparr>" "\<lparr>byte_order = Big, only_big = False\<rparr>"]
  by (simp add: kind_fits_def same_machine_def as_sent_def zero_job_def)

lemma dependency_damaged:
  "reread32 \<lparr>byte_order = Little, only_big = False\<rparr> \<lparr>byte_order = Big, only_big = False\<rparr> 1 = 16777216"
  by (simp add: reread_def stored_def loaded_def eval_nat_numeral)

end
