(* ===== verification/Completion.thy ===== *)
theory Completion
  imports Outcomes
begin

text \<open>
  That a job comes to its end.  The steps a job makes are the answers to computers that ask for a
  frame (\<open>job_available\<close>) and the reports of tasks that ended (\<open>handle_r_r_taskfini\<close>), in any order and by any
  computers.  Every step brings the job closer to its end, whatever the exit status, because a frame is
  requeued at most \<open>MAX_REQUEUES\<close> times; and as long as it has not ended, some step is possible.
\<close>

section \<open>The steps of a job\<close>

text \<open>The task a slave sends back: what the report depends on is the job, the frame and the status.\<close>

definition returned_task :: "u32 \<Rightarrow> nat \<Rightarrow> u32 \<Rightarrow> master \<Rightarrow> task" where
  "returned_task ijob k stat m =
     (let j = jobs m ! unat ijob
      in free_task\<lparr>t_used := 1, t_jobname := j_name j, t_ijob := ijob,
           t_frame := job_frame_index_to_number j (of_nat k), t_exitstatus := stat\<rparr>)"

inductive job_step :: "u32 set \<Rightarrow> u32 \<Rightarrow> master \<Rightarrow> master \<Rightarrow> bool" for crew ijob where
  give: "icomp \<in> crew \<Longrightarrow> job_available ijob icomp m = Inr (Some n, m') \<Longrightarrow> job_step crew ijob m m'"
| report: "k < frame_count m (unat ijob) \<Longrightarrow> fi_status (frames_of m (unat ijob) ! k) = FS_ASSIGNED \<Longrightarrow>
    rx c = [MTask (returned_task ijob k stat m)] \<Longrightarrow> 0 < tx_left c \<Longrightarrow>
    handle_r_r_taskfini icomp c m = Inr (c', m') \<Longrightarrow> job_step crew ijob m m'"

text \<open>
  A job that can be worked on: its parts are there, it may run, its counter of processors is
  right, and the computers of the crew could take a frame of it if no other ran.
\<close>

definition could_take :: "master \<Rightarrow> u32 \<Rightarrow> u32 \<Rightarrow> bool" where
  "could_take m ijob icomp \<longleftrightarrow> lookup_ok m ijob icomp \<and>
     within_limits (upd_job ijob (\<lambda>j. j\<lparr>j_nprocs := 0\<rparr>) m) ijob icomp"

definition at_work :: "u32 set \<Rightarrow> u32 \<Rightarrow> master \<Rightarrow> bool" where
  "at_work crew ijob m \<longleftrightarrow>
     (let i = unat ijob; j = jobs m ! i
      in crew \<noteq> {} \<and> (\<forall>icomp \<in> crew. could_take m ijob icomp) \<and> may_run m ijob \<and> has_frames m i \<and>
         frame_start j \<le> frame_end j \<and> unat (block_size j) * unat (frame_step j) < 2 ^ 32 \<and>
         frame_count m i < 65536 \<and> j_flags j AND JF_JOBDELETE = 0 \<and>
         j_nprocs j = of_nat (count_status FS_ASSIGNED (frames_of m i)) \<and>
         (\<forall>f \<in> set (frames_of m i). fi_status f \<in> {FS_WAITING, FS_ASSIGNED, FS_ERROR, FS_FINISHED}))"

definition frame_settled :: "frame_info \<Rightarrow> bool" where
  "frame_settled f \<longleftrightarrow> fi_status f \<in> {FS_FINISHED, FS_ERROR}"

section \<open>What is left to do\<close>

definition effort :: "frame_info \<Rightarrow> nat" where
  "effort f = (let r = unat MAX_REQUEUES - unat (fi_requeued f)
     in if fi_status f = FS_WAITING then 2 * r + 2 else if fi_status f = FS_ASSIGNED then 2 * r + 1 else 0)"

definition work_left :: "u32 \<Rightarrow> master \<Rightarrow> nat" where
  "work_left ijob m = sum_list (map effort (frames_of m (unat ijob)))"

lemma sum_effort_update:
  assumes "k < length fs" "effort f < effort (fs ! k)"
  shows "sum_list (map effort (fs[k := f])) < sum_list (map effort fs)"
proof -
  have "effort (fs ! k) \<le> sum_list (map effort fs)" using assms(1) by (simp add: member_le_sum_list)
  then show ?thesis using assms by (simp add: map_update sum_list_update)
qed

lemma effort_assign: "fi_status f = FS_WAITING \<Longrightarrow> effort (assign_frame icomp f) < effort f"
  by (simp add: effort_def assign_frame_def Let_def)

lemma effort_ended:
  assumes "fi_status f = FS_ASSIGNED"
  shows "effort (snd (frame_ended now stat (j, f))) < effort f"
proof (cases "verdict stat j f")
  case Again
  then have "fi_requeued f < MAX_REQUEUES" by (rule verdict_bounds(2))
  then have "unat (fi_requeued f + 1) = unat (fi_requeued f) + 1" "unat (fi_requeued f) < 3"
    by (simp_all add: word_less_nat_alt unat_word_ariths)
  then show ?thesis using assms Again by (simp add: effort_def frame_ended_frame Let_def)
next
  case Unchanged
  then show ?thesis using verdict_bounds(1) assms by simp
qed (use assms in \<open>simp_all add: effort_def frame_ended_frame Let_def\<close>)

lemma effort_bound: "effort f \<le> 8"
  by (simp add: effort_def Let_def) arith

lemma count_status_update:
  assumes "k < length fs"
  shows "count_status st (fs[k := f]) + (if fi_status (fs ! k) = st then 1 else 0) =
    count_status st fs + (if fi_status f = st then 1 else 0)"
  using assms
proof (induction fs arbitrary: k)
  case (Cons g fs)
  then show ?case by (cases k) (auto simp: count_status_def)
qed simp

section \<open>What a step leaves alone\<close>

definition alike :: "u32 \<Rightarrow> master \<Rightarrow> master \<Rightarrow> bool" where
  "alike ijob m m' \<longleftrightarrow>
     (let j = jobs m ! unat ijob; j' = jobs m' ! unat ijob
      in j' = j\<lparr>j_nprocs := j_nprocs j', fleft := fleft j', fdone := fdone j', ffailed := ffailed j'\<rparr>) \<and>
     (\<forall>n. n \<noteq> unat ijob \<longrightarrow> jobs m' ! n = jobs m ! n) \<and> host_shm m' = host_shm m \<and> pool_shm m' = pool_shm m \<and>
     attachable (frame_shm m') = attachable (frame_shm m) \<and>
     (\<forall>n. hwinfo (computers m' ! n) = hwinfo (computers m ! n) \<and> c_status (computers m' ! n) = c_status (computers m ! n) \<and>
        npools (c_limits (computers m' ! n)) = npools (c_limits (computers m ! n)) \<and>
        poolshmid (c_limits (computers m' ! n)) = poolshmid (c_limits (computers m ! n)))"

lemma alikeD:
  assumes "alike ijob m m'"
  obtains n l d f where "jobs m' ! unat ijob = (jobs m ! unat ijob)\<lparr>j_nprocs := n, fleft := l, fdone := d, ffailed := f\<rparr>"
  using assms unfolding alike_def Let_def by blast

lemma alike_frames:
  assumes "alike ijob m m'"
  shows "frame_count m' (unat ijob) = frame_count m (unat ijob)" "has_frames m' (unat ijob) = has_frames m (unat ijob)"
  by (rule alikeD [OF assms], simp add: frame_count_def has_frames_def job_nframes_def)+

lemma alike_may_run: "alike ijob m m' \<Longrightarrow> may_run m' ijob = may_run m ijob"
proof -
  assume a: "alike ijob m m'"
  obtain n l d f where j: "jobs m' ! unat ijob = (jobs m ! unat ijob)\<lparr>j_nprocs := n, fleft := l, fdone := d, ffailed := f\<rparr>"
    by (rule alikeD [OF a])
  then have "j_status (jobs m' ! i) = j_status (jobs m ! i)" for i
    using a by (cases "i = unat ijob") (simp_all add: alike_def)
  then show ?thesis by (simp add: may_run_def j Let_def)
qed

lemma nrunning_cong: "c_status c' = c_status c \<Longrightarrow> computer_nrunning_job c' ijob = computer_nrunning_job c ijob"
  by (simp add: computer_nrunning_job_def)

lemma alike_could_take:
  assumes a: "alike ijob m m'" and w: "world_ok m'" and c: "could_take m ijob icomp"
  shows "could_take m' ijob icomp"
proof -
  obtain n l d f where j: "jobs m' ! unat ijob = (jobs m ! unat ijob)\<lparr>j_nprocs := n, fleft := l, fdone := d, ffailed := f\<rparr>"
    by (rule alikeD [OF a])
  have p: "pools_ok (c_limits (computers m' ! n), s) = pools_ok (c_limits (computers m ! n), s)"
    "pool_names (c_limits (computers m' ! n), s) = pool_names (c_limits (computers m ! n), s)" for n s
    using a pools_cong [of "c_limits (computers m' ! n)" "c_limits (computers m ! n)" s] by (simp_all add: alike_def)
  note al = a [unfolded alike_def]
  have nr: "computer_nrunning_job (computers m' ! n) ijob = computer_nrunning_job (computers m ! n) ijob" for n
    using al by (intro nrunning_cong) blast
  have len: "unat ijob < length (jobs m)" "unat ijob < length (jobs m')"
    using c w world_okD(1) by (auto simp: could_take_def lookup_ok_def)
  show ?thesis
    using c w al p len nr
    by (simp add: could_take_def lookup_ok_def within_limits_def Let_def jobs_upd_nth j hosts_ok_def blocked_hosts_def)
qed

lemma at_work_step:
  assumes work: "at_work crew ijob m" and a: "alike ijob m m'" and w: "world_ok m'"
    and fr: "frames_of m' (unat ijob) = (frames_of m (unat ijob))[k := f]"
    and f: "fi_status f \<in> {FS_WAITING, FS_ASSIGNED, FS_ERROR, FS_FINISHED}"
    and n: "j_nprocs (jobs m' ! unat ijob) = of_nat (count_status FS_ASSIGNED (frames_of m' (unat ijob)))"
  shows "at_work crew ijob m'"
proof -
  obtain n l d f where j: "jobs m' ! unat ijob = (jobs m ! unat ijob)\<lparr>j_nprocs := n, fleft := l, fdone := d, ffailed := f\<rparr>"
    by (rule alikeD [OF a])
  have "\<forall>g \<in> set (frames_of m' (unat ijob)). fi_status g \<in> {FS_WAITING, FS_ASSIGNED, FS_ERROR, FS_FINISHED}"
    using work f set_update_subset_insert [of "frames_of m (unat ijob)" k] unfolding fr at_work_def Let_def by blast
  moreover have "\<forall>icomp \<in> crew. could_take m' ijob icomp"
    using work alike_could_take [OF a w] by (simp add: at_work_def Let_def)
  moreover have "j_flags (jobs m' ! unat ijob) = j_flags (jobs m ! unat ijob)" "frame_start (jobs m' ! unat ijob) = frame_start (jobs m ! unat ijob)"
    "frame_end (jobs m' ! unat ijob) = frame_end (jobs m ! unat ijob)" "frame_step (jobs m' ! unat ijob) = frame_step (jobs m ! unat ijob)"
    "block_size (jobs m' ! unat ijob) = block_size (jobs m ! unat ijob)" by (simp_all add: j)
  ultimately show ?thesis
    using work n alike_frames [OF a] alike_may_run [OF a] unfolding at_work_def Let_def by simp
qed

section \<open>The two steps\<close>

lemma at_workD:
  assumes "at_work crew ijob m"
  shows "world_ok m" "unat ijob < MAXJOBS" "has_frames m (unat ijob)" "attachable (frame_shm m) (fishmid (jobs m ! unat ijob))"
    "frame_start (jobs m ! unat ijob) \<le> frame_end (jobs m ! unat ijob)"
    "unat (block_size (jobs m ! unat ijob)) * unat (frame_step (jobs m ! unat ijob)) < 2 ^ 32"
    "length (frames_of m (unat ijob)) = frame_count m (unat ijob)" "frame_count m (unat ijob) < 65536"
    "j_nprocs (jobs m ! unat ijob) = of_nat (count_status FS_ASSIGNED (frames_of m (unat ijob)))"
    "j_flags (jobs m ! unat ijob) AND JF_JOBDELETE = 0" "may_run m ijob"
    "\<And>f. f \<in> set (frames_of m (unat ijob)) \<Longrightarrow> fi_status f \<in> {FS_WAITING, FS_ASSIGNED, FS_ERROR, FS_FINISHED}"
proof -
  obtain icomp where c: "could_take m ijob icomp" using assms unfolding at_work_def Let_def by blast
  show w: "world_ok m" "unat ijob < MAXJOBS" "attachable (frame_shm m) (fishmid (jobs m ! unat ijob))"
    using c by (simp_all add: could_take_def lookup_ok_def)
  show "has_frames m (unat ijob)" using assms by (simp add: at_work_def Let_def)
  then show "length (frames_of m (unat ijob)) = frame_count m (unat ijob)"
    using frames_okD(2) world_okD(3) [OF w(1)] w(2) by blast
qed (use assms in \<open>simp_all add: at_work_def Let_def\<close>)

lemma limits_nth:
  "computers (set_limits icomp cl m) ! n =
     (if n = unat icomp \<and> n < length (computers m) then (computers m ! n)\<lparr>c_limits := cl\<rparr> else computers m ! n)"
  by (cases "unat icomp < length (computers m)") (auto simp: set_limits_def upd_computer_def list_update_beyond)

lemma give_eq:
  assumes work: "at_work crew ijob m" and ic: "icomp \<in> crew" and a: "job_available ijob icomp m = Inr (Some n, m')"
  shows "at_work crew ijob m' \<and> work_left ijob m' < work_left ijob m \<and> alike ijob m m'"
proof -
  note d = at_workD [OF work]
  have ok: "lookup_ok m ijob icomp" using work ic by (auto simp: at_work_def could_take_def Let_def)
  obtain cl m0 where m0: "m0 = set_limits icomp cl m" and e: "job_available ijob icomp m =
    (case offer m ijob icomp of
       None \<Rightarrow> Inr (None, m0)
     | Some k \<Rightarrow> Inr (Some (of_nat k),
         upd_job ijob (\<lambda>j. j\<lparr>j_nprocs := j_nprocs j + 1, fleft := fleft j - 1\<rparr>)
           (put_frame (unat ijob) k (assign_frame icomp (frames_of m (unat ijob) ! k)) m0)))"
    and cl: "npools cl = npools (c_limits (computers m ! unat icomp))" "poolshmid cl = poolshmid (c_limits (computers m ! unat icomp))"
    using job_available_eq [OF ok] by blast
  obtain k where k: "offer m ijob icomp = Some k" using e a by (auto split: option.splits)
  define g where "g = assign_frame icomp (frames_of m (unat ijob) ! k)"
  have m': "m' = upd_job ijob (\<lambda>j. j\<lparr>j_nprocs := j_nprocs j + 1, fleft := fleft j - 1\<rparr>) (put_frame (unat ijob) k g m0)"
    using e a k by (simp add: g_def)
  have w: "world_ok m'" "frames_of m' (unat ijob) = (frames_of m (unat ijob))[k := g]"
    using job_available_full [OF ok] a k by (auto simp: g_def)
  have fw: "first_waiting m ijob = Some k" using k by (simp add: offer_def split: if_splits)
  have u: "j_used (jobs m ! unat ijob) \<noteq> 0" using d(3) by (simp add: has_frames_def)
  note b = first_waiting_bound [OF world_okD(3) [OF d(1)] d(2) u fw]
  have len: "length (jobs m) = MAXJOBS" "length (computers m) = MAXCOMPUTERS" using world_okD [OF d(1)] by simp_all
  have j: "jobs m' ! n = (if n = unat ijob then (jobs m ! n)\<lparr>j_nprocs := j_nprocs (jobs m ! n) + 1, fleft := fleft (jobs m ! n) - 1\<rparr>
      else jobs m ! n)" for n
    using d(2) len by (simp add: m' m0 jobs_upd_nth)
  have al: "alike ijob m m'"
    using cl by (simp add: alike_def j Let_def) (simp add: m' m0 limits_nth)
  have cnt: "count_status FS_ASSIGNED (frames_of m' (unat ijob)) = count_status FS_ASSIGNED (frames_of m (unat ijob)) + 1"
    using count_status_update [OF b(7), of FS_ASSIGNED g] b(5) by (simp add: w(2) g_def assign_frame_def)
  have "at_work crew ijob m'"
    by (rule at_work_step [OF work al w]) (simp_all add: cnt j d(9), simp add: g_def assign_frame_def)
  moreover have "work_left ijob m' < work_left ijob m"
    unfolding work_left_def w(2) by (rule sum_effort_update [OF b(7)]) (simp add: g_def effort_assign b(5))
  ultimately show ?thesis using al by blast
qed

lemma index_number_index:
  assumes work: "at_work crew ijob m" and k: "k < frame_count m (unat ijob)"
  shows "job_frame_number_correct (jobs m ! unat ijob) (job_frame_index_to_number (jobs m ! unat ijob) (of_nat k)) = Inr True"
    and "job_frame_number_to_index (jobs m ! unat ijob) (job_frame_index_to_number (jobs m ! unat ijob) (of_nat k)) = Inr (of_nat k)"
  using index_roundtrip [OF at_workD(5) [OF work] frame_count_word(2) [OF k] at_workD(6) [OF work]] by blast+

lemma report_eq:
  assumes work: "at_work crew ijob m" and k: "k < frame_count m (unat ijob)" "fi_status (frames_of m (unat ijob) ! k) = FS_ASSIGNED"
    and c: "rx c = [MTask (returned_task ijob k stat m)]" "0 < tx_left c"
  shows "\<exists>c'. handle_r_r_taskfini icomp c m = Inr (c', task_ended ijob k stat m)"
    and "at_work crew ijob (task_ended ijob k stat m) \<and> work_left ijob (task_ended ijob k stat m) < work_left ijob m \<and>
      alike ijob m (task_ended ijob k stat m)"
proof -
  note d = at_workD [OF work]
  note n = index_number_index [OF work k(1)]
  note kw = frame_count_word(1) [OF k(1)]
  define task where "task = returned_task ijob k stat m"
  have t: "t_ijob task = ijob" "t_jobname task = j_name (jobs m ! unat ijob)" "t_exitstatus task = stat"
    "t_frame task = job_frame_index_to_number (jobs m ! unat ijob) (of_nat k)"
    by (simp_all add: task_def returned_task_def Let_def)
  show "\<exists>c'. handle_r_r_taskfini icomp c m = Inr (c', task_ended ijob k stat m)"
    using taskfini_eq [OF d(1-3) c(1) [folded task_def] c(2) t(1,2) d(4), of "of_nat k" icomp] n k(1) by (simp add: t kw)
  define m' where "m' = task_ended ijob k stat m"
  define f where "f = frames_of m (unat ijob) ! k"
  define g where "g = snd (frame_ended (time32 m) stat (jobs m ! unat ijob, f))"
  note w = task_ended_world [OF d(1-3), where k = k and stat = stat, folded m'_def f_def, folded g_def]
  have lj: "unat ijob < length (jobs m)" using d(2) world_okD(1) [OF d(1)] by simp
  have kl: "k < length (frames_of m (unat ijob))" using k(1) d(7) by simp
  note tj = task_ended_job [OF lj, of k stat, folded m'_def f_def]
  have jn: "jobs m' ! unat ijob = fst (frame_ended (time32 m) stat
      (if j_nprocs (jobs m ! unat ijob) \<noteq> 0 then (jobs m ! unat ijob)\<lparr>j_nprocs := j_nprocs (jobs m ! unat ijob) - 1\<rparr> else jobs m ! unat ijob, f))"
    using lj by (simp add: m'_def task_ended_def Let_def jobs_upd_nth f_def)
  have al: "alike ijob m m'"
    using w(4) unfolding alike_def
    by (simp add: jn frame_ended_job Let_def split: verdict.splits) (simp add: m'_def task_ended_def Let_def)
  have st: "fi_status g \<in> {FS_WAITING, FS_ERROR, FS_FINISHED}" "fi_status g \<noteq> FS_ASSIGNED"
    using verdict_bounds(1) [of stat "jobs m ! unat ijob" f] k(2)
    by (auto simp: g_def frame_ended_frame f_def split: verdict.splits)
  have cnt: "count_status FS_ASSIGNED (frames_of m' (unat ijob)) + 1 = count_status FS_ASSIGNED (frames_of m (unat ijob))"
    using count_status_update [OF kl, of FS_ASSIGNED g] st(2) k(2) by (simp add: w(2))
  have nz: "j_nprocs (jobs m ! unat ijob) \<noteq> 0"
    using of_nat_count_0(1) [of "frames_of m (unat ijob)" FS_ASSIGNED] d(7,8,9) cnt by simp
  have np: "j_nprocs (jobs m' ! unat ijob) = of_nat (count_status FS_ASSIGNED (frames_of m' (unat ijob)))"
    using tj(1) nz unfolding d(9) cnt [symmetric] by simp
  have "at_work crew ijob m'"
    by (rule at_work_step [OF work al w(1,2) _ np]) (use st(1) in blast)
  moreover have "work_left ijob m' < work_left ijob m"
    unfolding work_left_def w(2) by (rule sum_effort_update [OF kl]) (use k(2) in \<open>simp add: g_def f_def effort_ended\<close>)
  ultimately show "at_work crew ijob (task_ended ijob k stat m) \<and> work_left ijob (task_ended ijob k stat m) < work_left ijob m \<and>
      alike ijob m (task_ended ijob k stat m)"
    using al by (simp add: m'_def)
qed

section \<open>The end of a job\<close>

lemma job_step_work:
  assumes "job_step crew ijob m m'" "at_work crew ijob m"
  shows "at_work crew ijob m' \<and> work_left ijob m' < work_left ijob m \<and> alike ijob m m'"
  using assms(1)
proof cases
  case (give icomp n)
  then show ?thesis using give_eq [OF assms(2)] by blast
next
  case (report k c stat icomp c')
  then show ?thesis using report_eq [OF assms(2) report(1-4)] by (metis Inr_inject prod.inject)
qed

lemma job_steps_work:
  assumes "(job_step crew ijob ^^ n) m m'" "at_work crew ijob m"
  shows "at_work crew ijob m' \<and> n + work_left ijob m' \<le> work_left ijob m \<and>
    frame_count m' (unat ijob) = frame_count m (unat ijob)"
  using assms
proof (induction n arbitrary: m')
  case (Suc n)
  obtain m1 where m1: "(job_step crew ijob ^^ n) m m1" "job_step crew ijob m1 m'" using Suc.prems(1) by auto
  note ih = Suc.IH [OF m1(1) Suc.prems(2)]
  show ?case using job_step_work [OF m1(2)] ih alike_frames(1) by fastforce
qed simp

lemma work_left_bound: "at_work crew ijob m \<Longrightarrow> work_left ijob m \<le> 8 * frame_count m (unat ijob)"
  using sum_list_mono [of "frames_of m (unat ijob)" effort "\<lambda>_. 8"] at_workD(7) [of crew ijob m]
  by (simp add: work_left_def effort_bound sum_list_triv)

lemma could_take_now:
  assumes "could_take m ijob icomp" "j_nprocs (jobs m ! unat ijob) = 0"
  shows "lookup_ok m ijob icomp" "within_limits m ijob icomp"
proof -
  have "upd_job ijob (\<lambda>j. j\<lparr>j_nprocs := 0\<rparr>) m = m" using assms(2) by (simp add: upd_job_def list_update_same_conv flip: assms(2))
  then show "lookup_ok m ijob icomp" "within_limits m ijob icomp" using assms(1) by (simp_all add: could_take_def)
qed

text \<open>As long as a frame is not settled, there is a step.\<close>

lemma job_goes_on:
  assumes work: "at_work crew ijob m" and f: "f \<in> set (frames_of m (unat ijob))" "\<not> frame_settled f"
  shows "\<exists>m'. job_step crew ijob m m'"
proof (cases "\<exists>k < frame_count m (unat ijob). fi_status (frames_of m (unat ijob) ! k) = FS_ASSIGNED")
  case True
  then obtain k where k: "k < frame_count m (unat ijob)" "fi_status (frames_of m (unat ijob) ! k) = FS_ASSIGNED" by blast
  define c where "c = \<lparr>rx = [MTask (returned_task ijob k 0 m)], tx = [], tx_left = 1\<rparr>"
  have c: "rx c = [MTask (returned_task ijob k 0 m)]" "0 < tx_left c" by (simp_all add: c_def)
  show ?thesis using report_eq(1) [OF work k c, of 0] job_step.report [OF k c] by blast
next
  case False
  note d = at_workD [OF work]
  have none: "fi_status g \<noteq> FS_ASSIGNED" if "g \<in> set (frames_of m (unat ijob))" for g
    using False that d(7) by (auto simp: in_set_conv_nth)
  then have "count_status FS_ASSIGNED (frames_of m (unat ijob)) = 0"
    by (simp add: count_status_def count_if_def filter_empty_conv)
  then have np: "j_nprocs (jobs m ! unat ijob) = 0" using d(9) by simp
  obtain icomp where ic: "icomp \<in> crew" "could_take m ijob icomp" using work unfolding at_work_def Let_def by blast
  note now = could_take_now [OF ic(2) np]
  have "fi_status f = FS_WAITING" using d(12) [OF f(1)] none [OF f(1)] f(2) by (auto simp: frame_settled_def)
  then have "first_waiting m ijob \<noteq> None" using f(1) by (auto simp: first_waiting_def first_idx_None_iff)
  then obtain k where "offer m ijob icomp = Some k" using now(2) d(11) by (auto simp: offer_def)
  then have "\<exists>n m'. job_available ijob icomp m = Inr (Some n, m')" using job_available_full [OF now(1)] by auto
  then show ?thesis using job_step.give [OF ic(1)] by blast
qed

lemma job_ends:
  assumes work: "at_work crew ijob m" and s: "\<forall>f \<in> set (frames_of m (unat ijob)). frame_settled f"
  shows "\<exists>m'. job_update_info ijob m = Inr m' \<and> j_status (jobs m' ! unat ijob) = JOBSTATUS_FINISHED \<and>
    unat (fdone (jobs m' ! unat ijob)) + unat (ffailed (jobs m' ! unat ijob)) = frame_count m (unat ijob)"
proof -
  note d = at_workD [OF work]
  have z: "count_status st (frames_of m (unat ijob)) = 0" if "st \<in> {FS_ASSIGNED, FS_WAITING}" for st
    using s that by (auto simp: count_status_def count_if_def filter_empty_conv frame_settled_def)
  have "\<forall>f \<in> set (frames_of m (unat ijob)). slot_ok f" using s by (auto simp: slot_ok_def frame_settled_def)
  have st: "\<forall>f \<in> set (frames_of m (unat ijob)). fi_status f \<in> {FS_WAITING, FS_ASSIGNED, FS_ERROR, FS_FINISHED}"
    using d(12) by blast
  note slots = \<open>\<forall>f \<in> set (frames_of m (unat ijob)). slot_ok f\<close>
  obtain m' where m': "job_update_info ijob m = Inr m'"
    "unat (j_nprocs (jobs m' ! unat ijob)) + unat (fleft (jobs m' ! unat ijob)) + unat (fdone (jobs m' ! unat ijob)) +
       unat (ffailed (jobs m' ! unat ijob)) = frame_count m (unat ijob)"
    "unat (j_nprocs (jobs m' ! unat ijob)) = count_status FS_ASSIGNED (frames_of m (unat ijob))"
    "unat (fleft (jobs m' ! unat ijob)) = count_status FS_WAITING (frames_of m (unat ijob))"
    "j_status (jobs m' ! unat ijob) = next_status (j_status (jobs m ! unat ijob)) (frames_of m (unat ijob))"
    using job_updated [OF d(1-3,5,4,8) st slots d(10)] unfolding Let_def by blast
  have "j_status (jobs m ! unat ijob) = JOBSTATUS_WAITING \<or> j_status (jobs m ! unat ijob) = JOBSTATUS_ACTIVE"
    using d(11) by (simp add: may_run_def Let_def)
  then have "j_status (jobs m' ! unat ijob) = JOBSTATUS_FINISHED"
    unfolding m'(5) next_status_def using z by simp
  then show ?thesis using m'(1-4) z by simp
qed

text \<open>C6.  A job that may run comes to its end.  Whatever computers ask for its frames and in
  whatever order the reports of the tasks come back, with whatever exit status, every answer and
  every report brings it closer to the end: there are at most eight of them for each frame.
  And when no more can happen, every frame is finished or failed, and the next update makes
  the job finished, with each frame counted once.  It needs only one computer that its limits allow,
  and that assigned frames are reported sooner or later.\<close>

theorem job_completes:
  assumes "at_work crew ijob m" "(job_step crew ijob ^^ n) m m'"
  shows "n \<le> 8 * frame_count m (unat ijob) \<and>
    ((\<exists>m''. job_step crew ijob m' m'') \<or>
     (\<forall>f \<in> set (frames_of m' (unat ijob)). frame_settled f) \<and> length (frames_of m' (unat ijob)) = frame_count m (unat ijob) \<and>
     (\<exists>m''. job_update_info ijob m' = Inr m'' \<and> j_status (jobs m'' ! unat ijob) = JOBSTATUS_FINISHED \<and>
        unat (fdone (jobs m'' ! unat ijob)) + unat (ffailed (jobs m'' ! unat ijob)) = frame_count m (unat ijob)))"
proof -
  note w = job_steps_work [OF assms(2,1)]
  have "n \<le> 8 * frame_count m (unat ijob)" using w work_left_bound [OF assms(1)] by linarith
  moreover have "length (frames_of m' (unat ijob)) = frame_count m (unat ijob)" using w at_workD(7) by metis
  moreover have "(\<exists>m''. job_step crew ijob m' m'') \<or> (\<forall>f \<in> set (frames_of m' (unat ijob)). frame_settled f)"
    using w job_goes_on [of crew ijob m'] by blast
  ultimately show ?thesis using w job_ends [of crew ijob m'] by auto
qed

lemma example_at_work: "at_work {0} 0 example_master"
proof -
  have j: "jobs example_master ! 0 = render_job" by (simp add: example_master_def)
  have h: "has_frames example_master 0"
    by (simp add: has_frames_def j render_job_nframes) (simp add: render_job_def zero_job_def)
  have fc: "frame_count example_master 0 = 3" by (simp add: frame_count_def j render_job_nframes)
  have o: "may_run example_master 0" "within_limits example_master 0 0"
    using example_offer by (simp_all add: offer_def split: if_splits)
  have np: "j_nprocs render_job = 0" "frame_start render_job \<le> frame_end render_job"
    "unat (block_size render_job) * unat (frame_step render_job) < 2 ^ 32" "j_flags render_job AND JF_JOBDELETE = 0"
    by (simp_all add: render_job_def zero_job_def)
  have "upd_job 0 (\<lambda>j. j\<lparr>j_nprocs := 0\<rparr>) example_master = example_master"
    using np(1) j by (simp add: upd_job_def list_update_same_conv example_master_def)
  then have "could_take example_master 0 0" using example_lookup_ok o(2) by (simp add: could_take_def)
  then show ?thesis using o(1) h fc np by (simp add: at_work_def j example_frames zero_frame_def count_status_def)
qed

theorem job_completes_witness:
  "\<exists>n m' m''. n \<le> 24 \<and> (job_step {0} 0 ^^ n) example_master m' \<and> (\<forall>f \<in> set (frames_of m' 0). frame_settled f) \<and>
     length (frames_of m' 0) = 3 \<and> job_update_info 0 m' = Inr m'' \<and> j_status (jobs m'' ! 0) = JOBSTATUS_FINISHED"
proof -
  let ?run = "\<lambda>n. \<exists>m'. (job_step {0} 0 ^^ n) example_master m'"
  have fc: "frame_count example_master (unat (0 :: u32)) = 3"
    by (simp add: frame_count_def example_master_def render_job_nframes)
  have zero: "?run 0" by auto
  have le: "\<forall>n. ?run n \<longrightarrow> n < 25"
  proof (intro allI impI)
    fix n assume "?run n"
    then obtain m' where "(job_step {0} 0 ^^ n) example_master m'" by blast
    from job_completes [OF example_at_work this] show "n < 25" by (simp only: fc) linarith
  qed
  obtain n where n: "?run n" "\<And>k. ?run k \<Longrightarrow> k \<le> n"
    using ex_has_greatest_nat [of ?run 0 "\<lambda>n. n", OF zero le] by blast
  then obtain m' where m': "(job_step {0} 0 ^^ n) example_master m'" by blast
  have last: "\<not> (\<exists>m''. job_step {0} 0 m' m'')"
  proof
    assume "\<exists>m''. job_step {0} 0 m' m''"
    then have "?run (Suc n)" using m' by (meson relpowp_Suc_I)
    then show False using n(2) [of "Suc n"] by simp
  qed
  note r = job_completes [OF example_at_work m', unfolded fc]
  have a: "n \<le> 24" using r by simp
  have b: "\<forall>f \<in> set (frames_of m' 0). frame_settled f" "length (frames_of m' 0) = 3"
    using r last by simp_all
  obtain m'' where "job_update_info 0 m' = Inr m''" "j_status (jobs m'' ! 0) = JOBSTATUS_FINISHED"
    using r last by auto
  with a b m' show ?thesis by blast
qed

end
