(* ===== verification/Text.thy ===== *)
theory Text
  imports Pools
begin

text \<open>
  Text as the C library makes and takes it apart: numbers in the formats of \<open>printf\<close>, \<open>snprintf\<close> into
  a buffer, the environment of a process, and \<open>strchr\<close>, \<open>strrchr\<close> and \<open>strtok\<close>.  Used by the parts of the
  program that set up the environment of a task, read configuration files and write scripts.
\<close>

section \<open>Numbers\<close>

fun digits :: "nat \<Rightarrow> nat \<Rightarrow> nat list" where
  "digits b n = (if n < b \<or> b < 2 then [n] else digits b (n div b) @ [n mod b])"

declare digits.simps [simp del]

definition digit_char :: "nat \<Rightarrow> char" where
  "digit_char d = ''0123456789ABCDEF'' ! d"

definition char_digit :: "char \<Rightarrow> nat" where
  "char_digit c = (if of_char c < (58 :: nat) then of_char c - 48 else of_char c - 55)"

definition dec :: "nat \<Rightarrow> cstring" where
  "dec n = map digit_char (digits 10 n)"

definition hex :: "nat \<Rightarrow> cstring" where
  "hex n = map digit_char (digits 16 n)"

text \<open>The number a string of decimal digits stands for.\<close>

definition read_dec :: "cstring \<Rightarrow> nat" where
  "read_dec s = foldl (\<lambda>v c. 10 * v + char_digit c) 0 s"

lemma digits_less: "d \<in> set (digits b n) \<Longrightarrow> 2 \<le> b \<Longrightarrow> d < b"
proof (induction b n rule: digits.induct)
  case (1 b n)
  show ?case
  proof (cases "n < b")
    case True
    then show ?thesis using 1(2) by (simp add: digits.simps [of b n])
  next
    case False
    then have "d \<in> set (digits b (n div b)) \<or> d = n mod b" using 1(2,3) by (auto simp: digits.simps [of b n])
    then show ?thesis using 1(1) 1(3) False by auto
  qed
qed

lemma digits_not_Nil [simp]: "digits b n \<noteq> []"
  by (subst digits.simps) simp

definition is_digit :: "char \<Rightarrow> bool" where
  "is_digit c \<longleftrightarrow> c \<in> set ''0123456789''"

lemma below_10: "(d :: nat) < 10 \<Longrightarrow> d \<in> {0, 1, 2, 3, 4, 5, 6, 7, 8, 9}"
  by auto

lemma char_digit_char: "d < 10 \<Longrightarrow> char_digit (digit_char d) = d" "d < 10 \<Longrightarrow> is_digit (digit_char d)"
  by (drule below_10, auto simp: char_digit_def digit_char_def is_digit_def)+

lemma dec_not_Nil [simp]: "dec n \<noteq> []"
  by (simp add: dec_def)

lemma read_dec_dec [simp]: "read_dec (dec n) = n"
proof (induction n rule: less_induct)
  case (less n)
  show ?case
  proof (cases "n < 10")
    case True
    then show ?thesis by (simp add: read_dec_def dec_def digits.simps [of 10 n] char_digit_char)
  next
    case False
    then have "read_dec (dec (n div 10)) = n div 10" by (intro less) simp
    with False show ?thesis
      by (simp add: read_dec_def dec_def digits.simps [of 10 n] char_digit_char)
  qed
qed

lemma read_dec_zeros [simp]: "read_dec (replicate k (CHR ''0'') @ s) = read_dec s"
proof -
  have "foldl (\<lambda>v c. 10 * v + char_digit c) 0 (replicate k (CHR ''0'')) = (0 :: nat)"
    by (induction k) (simp_all add: char_digit_def)
  then show ?thesis by (simp add: read_dec_def)
qed

lemma dec_char: "c \<in> set (dec n) \<Longrightarrow> is_digit c"
  using digits_less [of _ 10 n] char_digit_char(2) by (auto simp: dec_def)

lemma dec_inject [simp]: "dec n = dec k \<longleftrightarrow> n = k"
  by (metis read_dec_dec)

lemma length_dec: "n < 10 ^ k \<Longrightarrow> 0 < k \<Longrightarrow> length (dec n) \<le> k"
proof (induction k arbitrary: n)
  case (Suc k)
  show ?case
  proof (cases "n < 10")
    case True
    then show ?thesis by (simp add: dec_def digits.simps [of 10 n])
  next
    case False
    have "length (dec (n div 10)) \<le> k"
    proof (rule Suc.IH)
      show "n div 10 < 10 ^ k" using Suc.prems(1) by (simp add: div_less_iff_less_mult)
      then show "0 < k" using False by (cases k) simp_all
    qed
    then show ?thesis using False by (simp add: dec_def digits.simps [of 10 n])
  qed
qed simp

text \<open>\<open>%u\<close>, \<open>%i\<close> and \<open>%0*i\<close> of 32-bit values; an unsigned value printed with \<open>%i\<close> is taken as signed.\<close>

definition print_u :: "u32 \<Rightarrow> cstring" where
  "print_u w = dec (unat w)"

definition print_i :: "u32 \<Rightarrow> cstring" where
  "print_i w = (if sint w < 0 then CHR ''-'' # dec (nat (- sint w)) else dec (nat (sint w)))"

definition print_0i :: "u8 \<Rightarrow> u32 \<Rightarrow> cstring" where
  "print_0i width w =
     (let ds = dec (nat \<bar>sint w\<bar>)
      in if sint w < 0 then CHR ''-'' # replicate (unat width - Suc (length ds)) (CHR ''0'') @ ds
         else replicate (unat width - length ds) (CHR ''0'') @ ds)"

lemma length_print_u: "length (print_u w) \<le> 10"
proof -
  have "unat w < 10000000000" by (rule less_trans [OF unat_u32_less]) simp
  then show ?thesis unfolding print_u_def using length_dec [of "unat w" 10] by simp
qed

lemma sint_small: "unat (w :: u32) < 2147483648 \<Longrightarrow> sint w = int (unat w)"
proof -
  assume "unat w < 2147483648"
  then have "uint w < 2147483648" by (metis of_nat_less_iff of_nat_numeral of_nat_unat)
  moreover have "- 2147483648 \<le> uint w" by (rule order_trans [OF _ unsigned_greater_eq]) simp
  ultimately show ?thesis by (simp add: sint_uint signed_take_bit_int_eq_self_iff)
qed

lemma print_i_small: "unat w < 2147483648 \<Longrightarrow> print_i w = dec (unat w)"
  by (simp add: print_i_def sint_small)

lemma print_0i_read: "unat w < 2147483648 \<Longrightarrow> read_dec (print_0i width w) = unat w"
  by (simp add: print_0i_def sint_small Let_def)

lemma is_digit_0 [simp]: "is_digit (CHR ''0'')"
  by (simp add: is_digit_def)

lemma print_0i_char: "c \<in> set (print_0i width w) \<Longrightarrow> is_digit c \<or> c = CHR ''-''"
  using dec_char [of c] by (auto simp: print_0i_def Let_def split: if_splits)

lemma print_0i_not_Nil [simp]: "print_0i width w \<noteq> []"
  by (simp add: print_0i_def Let_def)

section \<open>Buffers and pieces\<close>

definition PATH_MAX :: nat where "PATH_MAX = 4096"

text \<open>\<open>snprintf\<close> into a buffer keeps all but the last of its bytes for the text.\<close>

definition snprintf :: "nat \<Rightarrow> cstring \<Rightarrow> cstring" where
  "snprintf n s = take (n - 1) s"

lemma snprintf_short [simp]: "length s < n \<Longrightarrow> snprintf n s = s"
  by (simp add: snprintf_def)

lemma snprintf_length: "0 < n \<Longrightarrow> length (snprintf n s) < n"
  by (simp add: snprintf_def min_def) linarith

text \<open>\<open>strchr\<close> as the text before the character and the text behind it, and the base name that
  \<open>strrchr (path, '/')\<close> finds.\<close>

definition split_at :: "char \<Rightarrow> cstring \<Rightarrow> (cstring \<times> cstring) option" where
  "split_at c s = (let a = takeWhile (\<lambda>x. x \<noteq> c) s in if a = s then None else Some (a, drop (Suc (length a)) s))"

lemma split_at_found: "c \<notin> set a \<Longrightarrow> split_at c (a @ c # b) = Some (a, b)"
proof -
  assume "c \<notin> set a"
  then have "takeWhile (\<lambda>x. x \<noteq> c) (a @ c # b) = a" by (induction a) auto
  then show ?thesis by (simp add: split_at_def)
qed

lemma split_at_none: "split_at c s = None \<longleftrightarrow> c \<notin> set s"
  by (auto simp: split_at_def Let_def takeWhile_eq_all_conv)

text \<open>What a buffer says is the text before the first NUL.\<close>

definition cstr :: "cstring \<Rightarrow> cstring" where
  "cstr s = takeWhile (\<lambda>c. c \<noteq> CHR 0x00) s"

definition basename :: "cstring \<Rightarrow> cstring" where
  "basename s = rev (takeWhile (\<lambda>x. x \<noteq> CHR ''/'') (rev s))"

lemma basename_path: "CHR ''/'' \<notin> set b \<Longrightarrow> basename (a @ CHR ''/'' # b) = b"
  by (simp add: basename_def takeWhile_append)

section \<open>The environment of a process\<close>

type_synonym environ = "cstring \<rightharpoonup> cstring"

text \<open>\<open>putenv\<close> of a string without \<open>=\<close> removes the variable, in the C library of GNU.\<close>

definition putenv :: "cstring \<Rightarrow> environ \<Rightarrow> environ" where
  "putenv s E = (case split_at (CHR ''='') s of None \<Rightarrow> E(s := None) | Some (n, v) \<Rightarrow> E(n \<mapsto> v))"

lemma putenv_set [simp]: "CHR ''='' \<notin> set n \<Longrightarrow> putenv (n @ CHR ''='' # v) E = E(n \<mapsto> v)"
  by (simp add: putenv_def split_at_found)

definition putenvs :: "cstring list \<Rightarrow> environ \<Rightarrow> environ" where
  "putenvs ss E = foldl (\<lambda>E s. putenv s E) E ss"

lemma putenvs_simps [simp]: "putenvs [] E = E" "putenvs (s # ss) E = putenvs ss (putenv s E)"
  by (simp_all add: putenvs_def)

text \<open>Settings of the form \<open>name=value\<close>, later ones over earlier ones.\<close>

definition setting :: "cstring \<times> cstring \<Rightarrow> cstring" where
  "setting = (\<lambda>(n, v). n @ CHR ''='' # v)"

lemma putenvs_settings:
  "\<forall>p \<in> set ps. CHR ''='' \<notin> set (fst p) \<Longrightarrow> putenvs (map setting ps) E = E ++ map_of (rev ps)"
proof (induction ps arbitrary: E)
  case (Cons p ps)
  obtain n v where p: "p = (n, v)" by fastforce
  have "putenvs (map setting (p # ps)) E = E(n \<mapsto> v) ++ map_of (rev ps)"
    using Cons by (simp add: p setting_def)
  also have "\<dots> = E ++ map_of (rev (p # ps))" by (simp add: p map_add_assoc)
  finally show ?case .
qed simp

lemma map_of_rev_distinct: "distinct (map fst ps) \<Longrightarrow> map_of (rev ps) = map_of ps"
  by (rule map_of_inject_set [THEN iffD2]) (simp_all add: rev_map [symmetric])

section \<open>\<open>strtok\<close>\<close>

lemma strtok_word: "set w \<inter> seps = {} \<Longrightarrow> strtok_all seps tok (w @ cs) = strtok_all seps (rev w @ tok) cs"
  by (induction w arbitrary: tok) auto

lemma strtok_join:
  assumes "sep \<in> seps" "\<forall>w \<in> set ws. w \<noteq> [] \<and> set w \<inter> seps = {}"
  shows "strtok_all seps [] (foldr (\<lambda>w s. sep # w @ s) ws []) = ws"
  using assms(2)
proof (induction ws)
  case (Cons w ws)
  have "strtok_all seps (rev w) (foldr (\<lambda>w s. sep # w @ s) ws []) = w # strtok_all seps [] (foldr (\<lambda>w s. sep # w @ s) ws [])"
    using Cons.prems assms(1) by (cases ws) simp_all
  then show ?case using Cons assms(1) by (simp add: strtok_word)
qed simp

end
