(* ===== verification/Taskenv.thy ===== *)
theory Taskenv
  imports Agreement Text
begin

text \<open>
  The environment in which the command of a task runs: \<open>task_environment_set\<close> (\<open>task.c\<close>), which the
  slave calls before it starts the command.  The texts are printed into buffers of \<open>BUFFERLEN\<close> bytes.
\<close>

section \<open>The frames of a task\<close>

definition task_block_end :: "task \<Rightarrow> u32" where
  "task_block_end t =
     (let block_end = t_frame t + t_block_size t
      in if block_end > t_frame_end t + 1 then t_frame_end t + 1 else block_end)"

lemma word_step: "(i :: u32) < e \<Longrightarrow> unat (i + 1) = Suc (unat i)"
proof -
  assume "i < e"
  then have "unat i < unat e" by (simp add: word_less_nat_alt)
  moreover have "unat e < 4294967296" by (rule unat_u32_less)
  ultimately have "unat i + 1 < 4294967296" by linarith
  then show ?thesis by (simp add: unat_word_ariths)
qed

function pad_loop :: "u32 \<Rightarrow> u32 \<Rightarrow> u8 \<Rightarrow> cstring \<Rightarrow> cstring" where
  "pad_loop i block_end width padframes =
     (if i < block_end
      then pad_loop (i + 1) block_end width (snprintf BUFFERLEN (padframes @ '' '' @ print_0i width i))
      else padframes)"
  by pat_completeness auto

termination
  by (relation "measure (\<lambda>(i, e, w, s). unat e - unat i)") (auto simp: word_step word_less_nat_alt)

declare pad_loop.simps [simp del]

definition task_padframes :: "task \<Rightarrow> cstring" where
  "task_padframes t = pad_loop (t_frame t + 1) (task_block_end t) (t_frame_pad t)
     (snprintf BUFFERLEN (snprintf BUFFERLEN (''DRQUEUE_PADFRAMES='' @ print_0i (t_frame_pad t) (t_frame t))))"

section \<open>What the command finds\<close>

datatype platform = Linux | Freebsd | Osx | Cygwin | Irix

definition os_name :: "platform \<Rightarrow> cstring" where
  "os_name p = (case p of Linux \<Rightarrow> ''LINUX'' | Freebsd \<Rightarrow> ''FREEBSD'' | Osx \<Rightarrow> ''OSX'' | Cygwin \<Rightarrow> ''WINDOWS'' | Irix \<Rightarrow> ''IRIX'')"

abbreviation settext :: "cstring \<Rightarrow> cstring \<Rightarrow> cstring" where
  "settext n v \<equiv> snprintf (BUFFERLEN - 1) (setting (n, v))"

definition task_strings :: "platform \<Rightarrow> task \<Rightarrow> cstring list" where
  "task_strings p t =
     [snprintf BUFFERLEN (setting (''DRQUEUE_PADFRAME'', print_0i (t_frame_pad t) (t_frame t))),
      task_padframes t,
      settext ''DRQUEUE_FRAME'' (print_u (t_frame t)),
      settext ''DRQUEUE_OWNER'' (t_owner t),
      settext ''DRQUEUE_STARTFRAME'' (print_u (t_frame_start t)),
      settext ''DRQUEUE_ENDFRAME'' (print_u (t_frame_end t)),
      settext ''DRQUEUE_STEPFRAME'' (print_u (t_frame_step t)),
      settext ''DRQUEUE_BLOCKSIZE'' (print_u (t_block_size t)),
      settext ''DRQUEUE_JOBNAME'' (t_jobname t),
      settext ''DRQUEUE_JOBID'' (print_i (t_ijob t)),
      settext ''DRQUEUE_COMPID'' (print_i (t_icomp t)),
      setting (''DRQUEUE_OS'', os_name p)]"

text \<open>The variables of the job, as far as the array goes.\<close>

fun custom_env :: "nat \<Rightarrow> nat \<Rightarrow> envvar list \<Rightarrow> environ \<Rightarrow> fault + environ" where
  "custom_env i 0 vs E = Inr E"
| "custom_env i (Suc n) vs E = andThen (rd vs i) (\<lambda>v.
     custom_env (Suc i) n vs (putenv (snprintf BUFFERLEN (setting (ev_name v, ev_value v))) E))"

text \<open>The segments of the machine are \<open>s\<close>; the variables are freed again at the end.\<close>

definition task_environment_set ::
    "platform \<Rightarrow> task \<Rightarrow> envvar shm \<Rightarrow> conn option \<Rightarrow> environ \<Rightarrow> fault + environ \<times> envvar shm \<times> conn option" where
  "task_environment_set p t s sfd E =
     (let E = putenvs (task_strings p t) E
      in andThen (request_job_envvars (t_ijob t) (envvars_init, s) SLAVE_LAUNCHER sfd) (\<lambda>(r, sfd).
           case r of Inl _ \<Rightarrow> Inr (E, s, sfd)
           | Inr es \<Rightarrow>
               andThen (case envvars_attach es of None \<Rightarrow> Inr E
                   | Some vs \<Rightarrow> custom_env 0 (unat (nvariables (fst es))) vs E) (\<lambda>E.
                 Inr (E, snd (snd (envvars_free es)), sfd))))"

section \<open>The list of padded frames\<close>

text \<open>The texts of the frames from \<open>i\<close> up to but without \<open>e\<close>.\<close>

definition frame_words :: "u8 \<Rightarrow> u32 \<Rightarrow> u32 \<Rightarrow> cstring list" where
  "frame_words width i e = map (\<lambda>k. print_0i width (of_nat k)) [unat i..<unat e]"

definition spaced :: "cstring list \<Rightarrow> cstring" where
  "spaced ws = foldr (\<lambda>w s. CHR '' '' # w @ s) ws []"

lemma frame_words_step: "i < e \<Longrightarrow> frame_words width i e = print_0i width i # frame_words width (i + 1) e"
  by (simp add: frame_words_def word_step word_less_nat_alt upt_conv_Cons)

lemma frame_words_none: "\<not> i < e \<Longrightarrow> frame_words width i e = []"
  by (simp add: frame_words_def word_less_nat_alt)

lemma spaced_simps [simp]: "spaced [] = []" "spaced (w # ws) = CHR '' '' # w @ spaced ws"
  by (simp_all add: spaced_def)

text \<open>As long as the buffer has room, the loop appends a text for each frame.\<close>

lemma pad_loop_eq:
  "length s + length (spaced (frame_words width i e)) < BUFFERLEN \<Longrightarrow>
   pad_loop i e width s = s @ spaced (frame_words width i e)"
proof (induction i e width s rule: pad_loop.induct)
  case (1 i e width s)
  show ?case
  proof (cases "i < e")
    case True
    note w = frame_words_step [OF True, of width]
    have fits: "length (s @ '' '' @ print_0i width i) < BUFFERLEN" using 1(2) by (simp add: w)
    have "pad_loop (i + 1) e width (snprintf BUFFERLEN (s @ '' '' @ print_0i width i)) =
        (s @ '' '' @ print_0i width i) @ spaced (frame_words width (i + 1) e)"
      using 1(1) [OF True] 1(2) unfolding snprintf_short [OF fits] by (simp add: w)
    then show ?thesis using True by (subst pad_loop.simps) (simp add: w)
  next
    case False
    then show ?thesis by (subst pad_loop.simps) (simp add: frame_words_none)
  qed
qed

section \<open>What the command of a task finds\<close>

text \<open>The frames that are listed for a task: one number after the other, as many as the size of a block, without those that the job has not.\<close>

definition listed_frames :: "task \<Rightarrow> nat list" where
  "listed_frames t = [unat (t_frame t)..<min (unat (t_frame t) + unat (t_block_size t)) (unat (t_frame_end t) + 1)]"

text \<open>
  The frames of the block of a task: in a job with a step the frames are a step apart, and a block takes that many of them
  (\<open>job_frame_index_to_number\<close>, \<open>job.c\<close>).
\<close>

definition block_frames :: "task \<Rightarrow> nat list" where
  "block_frames t = filter (\<lambda>k. k \<le> unat (t_frame_end t)) (map (\<lambda>i. unat (t_frame t) + i * unat (t_frame_step t)) [0..<unat (t_block_size t)])"

lemma filter_upt: "filter (\<lambda>k. k \<le> e) [a..<b] = [a..<min b (e + 1)]"
proof (induction b)
  case (Suc b)
  show ?case
  proof (cases "a \<le> b \<and> b \<le> e")
    case True
    then show ?thesis using Suc by (simp add: min_def)
  next
    case False
    moreover have "min (Suc b) (e + 1) = min b (e + 1)" if "\<not> b \<le> e" using that by simp
    ultimately show ?thesis using Suc by (cases "a \<le> b") simp_all
  qed
qed simp

lemma listed_is_block: "t_frame_step t = 1 \<Longrightarrow> listed_frames t = block_frames t"
  by (simp add: listed_frames_def block_frames_def filter_upt add.commute [of "unat (t_frame t)"] map_add_upt)

text \<open>With a larger step the frame after the first one is listed and is not in the block.\<close>

lemma listed_not_block:
  assumes "1 < t_frame_step t" "1 < t_block_size t" "t_frame t < t_frame_end t"
  shows "Suc (unat (t_frame t)) \<in> set (listed_frames t) - set (block_frames t)"
proof -
  have n: "1 < unat (t_frame_step t)" "1 < unat (t_block_size t)" "unat (t_frame t) < unat (t_frame_end t)"
    using assms by (simp_all add: word_less_nat_alt)
  have "Suc (unat (t_frame t)) \<noteq> unat (t_frame t) + i * unat (t_frame_step t)" for i
    using n(1) by (cases i) auto
  then show ?thesis using n by (auto simp: listed_frames_def block_frames_def)
qed

text \<open>A task of a job whose frame numbers do not reach the sign bit, and texts that fit their fields.\<close>

definition task_fits :: "task \<Rightarrow> bool" where
  "task_fits t \<longleftrightarrow> t_block_size t \<noteq> 0 \<and> t_frame t \<le> t_frame_end t \<and> unat (t_frame_end t) < 2147483647 \<and>
     unat (t_block_size t) < 2147483648 \<and> unat (t_ijob t) < 2147483648 \<and> unat (t_icomp t) < 2147483648 \<and>
     length (t_owner t) \<le> MAXNAMELEN \<and> length (t_jobname t) \<le> MAXNAMELEN \<and>
     length (spaced (map (\<lambda>k. print_0i (t_frame_pad t) (of_nat k)) (listed_frames t))) + 18 < BUFFERLEN"

lemma task_block_end_unat:
  assumes "task_fits t"
  shows "unat (task_block_end t) = min (unat (t_frame t) + unat (t_block_size t)) (unat (t_frame_end t) + 1)"
proof -
  have le: "unat (t_frame t) \<le> unat (t_frame_end t)" using assms by (simp add: task_fits_def word_le_nat_alt)
  have e: "unat (t_frame_end t + 1) = unat (t_frame_end t) + 1"
    using assms by (simp add: task_fits_def unat_word_ariths)
  have s: "unat (t_frame t + t_block_size t) = unat (t_frame t) + unat (t_block_size t)"
    using assms le by (simp add: task_fits_def unat_word_ariths)
  show ?thesis by (simp add: task_block_end_def Let_def word_less_nat_alt e s min_def)
qed

lemma listed_frames_words:
  assumes "task_fits t"
  shows "map (\<lambda>k. print_0i (t_frame_pad t) (of_nat k)) (listed_frames t) =
    print_0i (t_frame_pad t) (t_frame t) # frame_words (t_frame_pad t) (t_frame t + 1) (task_block_end t)"
proof -
  have le: "unat (t_frame t) \<le> unat (t_frame_end t)" "0 < unat (t_block_size t)"
    using assms by (simp_all add: task_fits_def word_le_nat_alt unat_gt_0)
  have "unat (t_frame t + 1) = Suc (unat (t_frame t))"
    using assms le by (simp add: task_fits_def unat_word_ariths)
  then show ?thesis
    using le by (simp add: listed_frames_def frame_words_def task_block_end_unat [OF assms] upt_conv_Cons)
qed

lemma task_padframes_eq:
  assumes "task_fits t"
  shows "task_padframes t = setting (''DRQUEUE_PADFRAMES'', tl (spaced (map (\<lambda>k. print_0i (t_frame_pad t) (of_nat k)) (listed_frames t))))"
proof -
  let ?w = "print_0i (t_frame_pad t) (t_frame t)"
  let ?ws = "frame_words (t_frame_pad t) (t_frame t + 1) (task_block_end t)"
  have fits: "length (''DRQUEUE_PADFRAMES='' @ ?w) + length (spaced ?ws) < BUFFERLEN"
    using assms by (simp add: task_fits_def listed_frames_words [OF assms])
  then have short: "length (''DRQUEUE_PADFRAMES='' @ ?w) < BUFFERLEN" by simp
  show ?thesis
    unfolding task_padframes_def snprintf_short [OF short] pad_loop_eq [OF fits] listed_frames_words [OF assms]
    by (simp add: setting_def)
qed

definition task_settings :: "platform \<Rightarrow> task \<Rightarrow> (cstring \<times> cstring) list" where
  "task_settings p t =
     [(''DRQUEUE_PADFRAME'', print_0i (t_frame_pad t) (t_frame t)),
      (''DRQUEUE_PADFRAMES'', tl (spaced (map (\<lambda>k. print_0i (t_frame_pad t) (of_nat k)) (listed_frames t)))),
      (''DRQUEUE_FRAME'', print_u (t_frame t)), (''DRQUEUE_OWNER'', t_owner t),
      (''DRQUEUE_STARTFRAME'', print_u (t_frame_start t)), (''DRQUEUE_ENDFRAME'', print_u (t_frame_end t)),
      (''DRQUEUE_STEPFRAME'', print_u (t_frame_step t)), (''DRQUEUE_BLOCKSIZE'', print_u (t_block_size t)),
      (''DRQUEUE_JOBNAME'', t_jobname t), (''DRQUEUE_JOBID'', print_i (t_ijob t)),
      (''DRQUEUE_COMPID'', print_i (t_icomp t)), (''DRQUEUE_OS'', os_name p)]"

lemma task_strings_eq:
  assumes f: "task_fits t"
  shows "task_strings p t = map setting (task_settings p t)"
proof -
  have "length (print_0i (t_frame_pad t) (t_frame t)) + 18 < BUFFERLEN"
    using f by (simp add: task_fits_def listed_frames_words [OF f])
  then have pf: "length (setting (''DRQUEUE_PADFRAME'', print_0i (t_frame_pad t) (t_frame t))) < BUFFERLEN"
    by (simp add: setting_def)
  have short: "settext n v = setting (n, v)" if "length n \<le> 20" "length v \<le> 128" for n v
    by (rule snprintf_short) (use that in \<open>simp add: setting_def max_defs\<close>)
  have u: "length (print_u w) \<le> 128" for w using length_print_u [of w] by linarith
  have "length (t_owner t) \<le> 128" "length (t_jobname t) \<le> 128" using f by (simp_all add: task_fits_def max_defs)
  moreover have "print_i (t_ijob t) = print_u (t_ijob t)" "print_i (t_icomp t) = print_u (t_icomp t)"
    using f by (simp_all add: task_fits_def print_i_small print_u_def)
  ultimately show ?thesis
    using pf unfolding task_strings_def by (simp only: short u list.size, simp add: short u task_settings_def task_padframes_eq [OF f])
qed

lemma custom_env_eq:
  "i + n \<le> length vs \<Longrightarrow> \<forall>v \<in> set vs. length (setting (ev_name v, ev_value v)) < BUFFERLEN \<Longrightarrow>
   custom_env i n vs E = Inr (putenvs (map (\<lambda>v. setting (ev_name v, ev_value v)) (take n (drop i vs))) E)"
proof (induction n arbitrary: i E)
  case (Suc n)
  then have "i < length vs" by simp
  then show ?case using Suc by (simp add: rd_def take_Suc_conv_app_nth Cons_nth_drop_Suc [symmetric])
qed simp

text \<open>A word of \<open>PADFRAMES\<close> is the text of one frame, and reads as its number.\<close>

lemma padframes_read:
  assumes f: "task_fits t"
  shows "map read_dec (strtok_all {CHR '' ''} [] (tl (spaced (map (\<lambda>k. print_0i (t_frame_pad t) (of_nat k)) (listed_frames t))))) =
    listed_frames t"
proof -
  let ?p = "\<lambda>k. print_0i (t_frame_pad t) (of_nat k)"
  have w: "w \<noteq> [] \<and> set w \<inter> {CHR '' ''} = {}" if mem: "w \<in> set (map ?p (listed_frames t))" for w
  proof -
    obtain k where k: "w = ?p k" using mem by auto
    then have "CHR '' '' \<notin> set w" using print_0i_char [of "CHR '' ''" "t_frame_pad t" "of_nat k"] by (auto simp: is_digit_def)
    then show ?thesis using k by simp
  qed
  have "strtok_all {CHR '' ''} [] (spaced ws) = strtok_all {CHR '' ''} [] (tl (spaced ws))" for ws
    by (cases ws) simp_all
  then have "strtok_all {CHR '' ''} [] (tl (spaced (map ?p (listed_frames t)))) = map ?p (listed_frames t)"
    using strtok_join [of "CHR '' ''" "{CHR '' ''}" "map ?p (listed_frames t)"] w by (simp add: spaced_def)
  moreover have "read_dec (?p k) = k" if "k \<in> set (listed_frames t)" for k
  proof -
    have k: "k < 2147483648" using that f by (auto simp: listed_frames_def task_fits_def)
    then have "unat (of_nat k :: u32) = k" by (simp add: unat_of_nat)
    then show ?thesis using print_0i_read [of "of_nat k"] k by simp
  qed
  ultimately show ?thesis by (simp add: map_idI)
qed

lemma task_environment_eq:
  assumes f: "task_fits t" and r: "request_job_envvars (t_ijob t) (envvars_init, s) SLAVE_LAUNCHER sfd = Inr (Inr es, sfd')"
    and e: "env_ok es" "\<forall>v \<in> set (env_list es). CHR ''='' \<notin> set (ev_name v) \<and> length (ev_value v) \<le> MAXNAMELEN"
  shows "\<exists>s'. task_environment_set p t s sfd E = Inr (E ++ map_of (task_settings p t) ++ env_map es, s', sfd') \<and>
    (\<exists>fr fs i. map_of (task_settings p t) ''DRQUEUE_FRAME'' = Some fr \<and> read_dec fr = unat (t_frame t) \<and>
       map_of (task_settings p t) ''DRQUEUE_JOBID'' = Some i \<and> read_dec i = unat (t_ijob t) \<and>
       map_of (task_settings p t) ''DRQUEUE_PADFRAMES'' = Some fs \<and> map read_dec (strtok_all {CHR '' ''} [] fs) = listed_frames t)"
proof -
  let ?E = "putenvs (task_strings p t) E"
  have names: "distinct (map fst (task_settings p t))" "\<forall>q \<in> set (task_settings p t). CHR ''='' \<notin> set (fst q)"
    by (simp_all add: task_settings_def)
  have E: "?E = E ++ map_of (task_settings p t)"
    unfolding task_strings_eq [OF f] by (simp only: putenvs_settings [OF names(2)] map_of_rev_distinct [OF names(1)])
  obtain ev sh where es: "es = (ev, sh)" by fastforce
  have env: "(case envvars_attach es of None \<Rightarrow> Inr ?E | Some vs \<Rightarrow> custom_env 0 (unat (nvariables (fst es))) vs ?E) =
      Inr (?E ++ env_map es)"
  proof (cases "evshmid ev = -1")
    case True
    then show ?thesis by (simp add: es envvars_attach_def env_map_def env_list_def)
  next
    case False
    then obtain vs where vs: "shmat (evshmid ev) sh = Some vs" using e(1) by (auto simp: es env_ok_def)
    then have l: "env_list es = vs" using False by (simp add: es env_list_def shmat_def split: if_splits)
    let ?ps = "map (\<lambda>v. (ev_name v, ev_value v)) vs"
    have n: "length vs = unat (nvariables ev)" "distinct (map fst ?ps)" "\<forall>v \<in> set vs. length (ev_name v) \<le> MAXNAMELEN"
      using e(1) False l by (simp_all add: es env_ok_def o_def)
    have "\<forall>v \<in> set vs. length (setting (ev_name v, ev_value v)) < BUFFERLEN"
      using n(3) e(2) unfolding l by (fastforce simp: setting_def max_defs)
    then have "custom_env 0 (unat (nvariables ev)) vs ?E = Inr (putenvs (map setting ?ps) ?E)"
      by (subst custom_env_eq) (simp_all add: n(1) [symmetric] o_def)
    also have "putenvs (map setting ?ps) ?E = ?E ++ map_of (rev ?ps)"
      by (rule putenvs_settings) (use e(2) l in auto)
    also have "map_of (rev ?ps) = env_map es" using map_of_rev_distinct [OF n(2)] by (simp add: env_map_def l)
    finally show ?thesis using vs False by (simp add: es envvars_attach_def)
  qed
  have run: "task_environment_set p t s sfd E = Inr (?E ++ env_map es, snd (snd (envvars_free es)), sfd')"
    by (simp add: task_environment_set_def Let_def r env)
  have "map_of (task_settings p t) ''DRQUEUE_FRAME'' = Some (print_u (t_frame t))"
    "map_of (task_settings p t) ''DRQUEUE_JOBID'' = Some (print_i (t_ijob t))"
    "map_of (task_settings p t) ''DRQUEUE_PADFRAMES'' =
       Some (tl (spaced (map (\<lambda>k. print_0i (t_frame_pad t) (of_nat k)) (listed_frames t))))"
    by (simp_all add: task_settings_def)
  moreover have "read_dec (print_i (t_ijob t)) = unat (t_ijob t)" using f by (simp add: task_fits_def print_i_small)
  moreover have "read_dec (print_u (t_frame t)) = unat (t_frame t)" by (simp add: print_u_def)
  ultimately show ?thesis using run padframes_read [OF f] unfolding E by blast
qed


definition render_task :: task where
  "render_task = free_task\<lparr>t_used := 1, t_jobname := ''shot'', t_frame := 2, t_frame_start := 1, t_frame_end := 3,
     t_frame_step := 1, t_block_size := 2\<rparr>"

lemma render_task_text:
  "listed_frames render_task = [2, 3]" "print_0i (t_frame_pad render_task) 2 = ''0002''" "print_0i (t_frame_pad render_task) 3 = ''0003''"
  by (simp add: listed_frames_def render_task_def free_task_def upt_rec)
     (simp_all add: render_task_def free_task_def print_0i_def dec_def digits.simps [of 10] digit_char_def Let_def numeral_3_eq_3)

lemma shaded_facts:
  "length (jobs shaded_master) = MAXJOBS" "jobs shaded_master ! 0 = shaded_job" "j_used shaded_job \<noteq> 0"
  "semid shaded_master = sem_free"
  "env_list (j_envvars shaded_job, env_shm shaded_master) =
     [\<lparr>ev_name = ''SHADER'', ev_value = ''toon''\<rparr>, \<lparr>ev_name = ''W'', ev_value = ''640''\<rparr>]"
  by (simp_all add: shaded_master_def example_master_def max_defs shaded_job_def render_job_def env_list_def)

lemma shaded_fits: "env_fits shaded_job (env_shm shaded_master)"
  by (simp add: env_fits_def env_ok_def shaded_facts fits_def max_defs)
     (simp add: shaded_job_def shaded_master_def shm_empty_def shmat_def shm_ok_def)


end
