(* ===== verification/Configfile.thy ===== *)
theory Configfile
  imports Text
begin

text \<open>
  Configuration files (\<open>config.c\<close>): the lines \<open>key=value\<close> that the master, the slave and \<open>drqman\<close> read
  when they start, and that end up in the environment of the process.
\<close>

section \<open>Lines\<close>

text \<open>
  \<open>fgets\<close> takes a line with its end, or as much as fits into the buffer.  What counts of the buffer is
  the text before the first NUL.
\<close>

definition fgets :: "nat \<Rightarrow> cstring \<Rightarrow> (cstring \<times> cstring) option" where
  "fgets n content = (if content = [] then None
     else let line = takeWhile (\<lambda>c. c \<noteq> CHR 0x0A) content;
              k = min (n - 1) (if length line < length content then Suc (length line) else length line)
          in Some (take k content, drop k content))"

definition config_eol_remove :: "cstring \<Rightarrow> cstring" where
  "config_eol_remove buffer =
     (case split_at (CHR 0x0D) buffer of Some (a, _) \<Rightarrow> a
      | None \<Rightarrow> (case split_at (CHR 0x0A) buffer of Some (a, _) \<Rightarrow> a | None \<Rightarrow> buffer))"

definition config_read_line :: "nat \<Rightarrow> cstring \<Rightarrow> (cstring \<times> cstring) option" where
  "config_read_line buflen content = map_option (\<lambda>(line, rest). (config_eol_remove (cstr line), rest)) (fgets buflen content)"

section \<open>Settings\<close>

text \<open>\<open>strtok\<close> with the one delimiter \<open>=\<close>: the next token, if there is one, and what follows it.\<close>

definition strtok_eq :: "cstring \<Rightarrow> (cstring \<times> cstring) option" where
  "strtok_eq s = (let t = dropWhile (\<lambda>c. c = CHR ''='') s; w = takeWhile (\<lambda>c. c \<noteq> CHR ''='') t
     in if t = [] then None else Some (w, drop (Suc (length w)) t))"

definition config_variable :: "cstring \<Rightarrow> cstring option" where
  "config_variable token =
     (if token = ''logs'' then Some ''DRQUEUE_LOGS''
      else if token = ''tmp'' then Some ''DRQUEUE_TMP''
      else if token = ''bin'' then Some ''DRQUEUE_BIN''
      else if token = ''etc'' then Some ''DRQUEUE_ETC''
      else if token = ''db'' then Some ''DRQUEUE_DB''
      else if token = ''pool'' then Some ''DRQUEUE_POOL''
      else None)"

text \<open>One line; \<open>None\<close> when the process exits.\<close>

definition config_line :: "cstring \<Rightarrow> environ \<Rightarrow> environ option" where
  "config_line buffer E =
     (if buffer \<noteq> [] \<and> hd buffer = CHR ''#'' then Some E
      else (case strtok_eq buffer of None \<Rightarrow> Some E
        | Some (token, rest) \<Rightarrow>
            (case config_variable token of None \<Rightarrow> None
             | Some name \<Rightarrow>
                 (case strtok_eq rest of None \<Rightarrow> Some E
                  | Some (value, _) \<Rightarrow> Some (putenv (snprintf BUFFERLEN (setting (name, value))) E)))))"

lemma fgets_shorter: "fgets n content = Some (line, rest) \<Longrightarrow> 2 \<le> n \<Longrightarrow> length rest < length content"
proof -
  assume a: "fgets n content = Some (line, rest)" "2 \<le> n"
  let ?l = "takeWhile (\<lambda>c. c \<noteq> CHR 0x0A) content"
  define k where "k = min (n - 1) (if length ?l < length content then Suc (length ?l) else length ?l)"
  have ne: "content \<noteq> []" and r: "rest = drop k content" using a(1) by (auto simp: fgets_def k_def Let_def split: if_splits)
  have "0 < k" using a(2) ne by (auto simp: k_def)
  then show ?thesis using ne r by simp
qed

function config_parse_lines :: "cstring \<Rightarrow> environ \<Rightarrow> environ option" where
  "config_parse_lines content E =
     (case config_read_line (BUFFERLEN - 1) content of None \<Rightarrow> Some E
      | Some (buffer, rest) \<Rightarrow>
          (case config_line buffer E of None \<Rightarrow> None | Some E \<Rightarrow> config_parse_lines rest E))"
  by pat_completeness auto

termination
  by (relation "measure (\<lambda>(content, E). length content)")
    (auto simp: config_read_line_def max_defs intro: fgets_shorter)

declare config_parse_lines.simps [simp del]

text \<open>The files of the machine are a function from paths to their contents, if they can be read.\<close>

definition config_parse :: "(cstring \<Rightarrow> cstring option) \<Rightarrow> cstring \<Rightarrow> environ \<Rightarrow> environ option" where
  "config_parse files cfg E = (case files cfg of None \<Rightarrow> Some E | Some content \<Rightarrow> config_parse_lines content E)"

abbreviation BASE_CONF_PATH :: cstring where "BASE_CONF_PATH \<equiv> ''/etc/drqueue''"
abbreviation BASE_CONF_EXT :: cstring where "BASE_CONF_EXT \<equiv> ''conf''"

definition config_get_default_file :: "cstring \<Rightarrow> nat \<Rightarrow> cstring" where
  "config_get_default_file tool dstlen = snprintf dstlen (BASE_CONF_PATH @ ''/'' @ tool @ ''.'' @ BASE_CONF_EXT)"

definition config_parse_tool :: "(cstring \<Rightarrow> cstring option) \<Rightarrow> cstring \<Rightarrow> environ \<Rightarrow> environ option" where
  "config_parse_tool files tool E =
     (case config_parse files (config_get_default_file tool PATH_MAX) E of None \<Rightarrow> None
      | Some E \<Rightarrow>
          (case E ''DRQUEUE_ETC'' of
             Some etc \<Rightarrow> config_parse files (snprintf PATH_MAX (etc @ ''/'' @ tool @ ''.'' @ BASE_CONF_EXT)) E
           | None \<Rightarrow>
               (case E ''DRQUEUE_ROOT'' of
                  Some root \<Rightarrow> config_parse files (snprintf PATH_MAX (root @ ''/etc/'' @ tool @ ''.'' @ BASE_CONF_EXT)) E
                | None \<Rightarrow> Some E)))"

section \<open>What a file means\<close>

datatype config_entry = Setting cstring cstring | Comment cstring | Blank

definition entry_text :: "config_entry \<Rightarrow> cstring" where
  "entry_text e = (case e of Setting k v \<Rightarrow> k @ CHR ''='' # v | Comment s \<Rightarrow> CHR ''#'' # s | Blank \<Rightarrow> [])"

text \<open>A line ends as on Unix or as on Windows.\<close>

definition render :: "(config_entry \<times> bool) list \<Rightarrow> cstring" where
  "render es = concat (map (\<lambda>(e, crlf). entry_text e @ (if crlf then [CHR 0x0D, CHR 0x0A] else [CHR 0x0A])) es)"

definition plain :: "cstring \<Rightarrow> bool" where
  "plain s \<longleftrightarrow> set s \<inter> {CHR 0x00, CHR 0x0A, CHR 0x0D} = {} \<and> length s \<le> 4000"

definition entry_ok :: "config_entry \<Rightarrow> bool" where
  "entry_ok e = (case e of
       Setting k v \<Rightarrow> k \<in> {''logs'', ''tmp'', ''bin'', ''etc'', ''db'', ''pool''} \<and> v \<noteq> [] \<and> plain v \<and> CHR ''='' \<notin> set v
     | Comment s \<Rightarrow> plain s
     | Blank \<Rightarrow> True)"

fun settings_of :: "(config_entry \<times> bool) list \<Rightarrow> (cstring \<times> cstring) list" where
  "settings_of [] = []"
| "settings_of ((Setting k v, crlf) # es) = (the (config_variable k), v) # settings_of es"
| "settings_of ((_, crlf) # es) = settings_of es"

lemma read_line_eq:
  assumes "set s \<inter> {CHR 0x00, CHR 0x0A, CHR 0x0D} = {}" "length s \<le> 4090" "eol = [CHR 0x0D, CHR 0x0A] \<or> eol = [CHR 0x0A]"
  shows "config_read_line (BUFFERLEN - 1) (s @ eol @ rest) = Some (s, rest)"
proof -
  obtain pre where eol: "eol = pre @ [CHR 0x0A]" "pre = [] \<or> pre = [CHR 0x0D]" using assms(3) by auto
  have nl: "takeWhile (\<lambda>c. c \<noteq> CHR 0x0A) ((s @ pre) @ CHR 0x0A # rest) = s @ pre"
    using assms(1) eol(2) by (subst takeWhile_append2) auto
  have "length (s @ pre) \<le> 4091" using assms(2) eol(2) by auto
  then have f: "fgets (BUFFERLEN - 1) (s @ eol @ rest) = Some (s @ eol, rest)"
    using nl by (simp add: fgets_def eol(1) max_defs Let_def)
  have c: "cstr (s @ eol) = s @ eol" using assms(1,3) unfolding cstr_def takeWhile_eq_all_conv by auto
  have "config_eol_remove (s @ eol) = s"
  proof (cases "pre = []")
    case True
    then have "split_at (CHR 0x0D) (s @ eol) = None" using assms(1) eol(1) by (simp add: split_at_none)
    moreover have "split_at (CHR 0x0A) (s @ eol) = Some (s, [])" using True assms(1) eol(1) by (simp add: split_at_found)
    ultimately show ?thesis by (simp add: config_eol_remove_def)
  next
    case False
    then have "split_at (CHR 0x0D) (s @ eol) = Some (s, [CHR 0x0A])" using assms(1) eol by (simp add: split_at_found)
    then show ?thesis by (simp add: config_eol_remove_def)
  qed
  then show ?thesis unfolding config_read_line_def f by (simp add: c)
qed

lemma parse_line:
  assumes "set s \<inter> {CHR 0x00, CHR 0x0A, CHR 0x0D} = {}" "length s \<le> 4090"
  shows "config_parse_lines (s @ (if crlf then [CHR 0x0D, CHR 0x0A] else [CHR 0x0A]) @ rest) E =
    (case config_line s E of None \<Rightarrow> None | Some E \<Rightarrow> config_parse_lines rest E)"
  by (subst config_parse_lines.simps, subst read_line_eq [OF assms]) simp_all

lemma strtok_eq_key: "k \<noteq> [] \<Longrightarrow> CHR ''='' \<notin> set k \<Longrightarrow> strtok_eq (k @ CHR ''='' # v) = Some (k, v)"
proof -
  assume k: "k \<noteq> []" "CHR ''='' \<notin> set k"
  then have "dropWhile (\<lambda>c. c = CHR ''='') (k @ CHR ''='' # v) = k @ CHR ''='' # v" by (cases k) auto
  moreover have "takeWhile (\<lambda>c. c \<noteq> CHR ''='') (k @ CHR ''='' # v) = k" using k(2) by (subst takeWhile_append2) auto
  ultimately show ?thesis by (simp add: strtok_eq_def)
qed

lemma strtok_eq_last: "v \<noteq> [] \<Longrightarrow> CHR ''='' \<notin> set v \<Longrightarrow> strtok_eq v = Some (v, [])"
proof -
  assume v: "v \<noteq> []" "CHR ''='' \<notin> set v"
  then have "dropWhile (\<lambda>c. c = CHR ''='') v = v" by (cases v) auto
  moreover have "takeWhile (\<lambda>c. c \<noteq> CHR ''='') v = v" using v(2) by (auto simp: takeWhile_eq_all_conv)
  ultimately show ?thesis using v(1) unfolding strtok_eq_def Let_def by (simp only: if_False) simp
qed

lemma config_variable_names:
  "config_variable k = Some n \<Longrightarrow> n \<in> {''DRQUEUE_LOGS'', ''DRQUEUE_TMP'', ''DRQUEUE_BIN'', ''DRQUEUE_ETC'', ''DRQUEUE_DB'', ''DRQUEUE_POOL''}"
  by (auto simp: config_variable_def split: if_splits)

lemma config_line_setting:
  assumes "entry_ok (Setting k v)"
  shows "config_line (entry_text (Setting k v)) E = Some (E(the (config_variable k) \<mapsto> v))"
proof -
  have k: "k \<in> {''logs'', ''tmp'', ''bin'', ''etc'', ''db'', ''pool''}" and v: "v \<noteq> []" "CHR ''='' \<notin> set v" "length v \<le> 4000"
    using assms by (simp_all add: entry_ok_def plain_def)
  obtain n where n: "config_variable k = Some n" using k by (auto simp: config_variable_def)
  have "length n \<le> 12" "CHR ''='' \<notin> set n" using config_variable_names [OF n] by auto
  then have p: "putenv (snprintf BUFFERLEN (setting (n, v))) E = E(n \<mapsto> v)"
    using v(3) by (simp add: setting_def max_defs)
  have kk: "k \<noteq> []" "CHR ''='' \<notin> set k" "hd (k @ CHR ''='' # v) \<noteq> CHR ''#''" using k by auto
  show ?thesis
    using kk(3) by (simp add: entry_text_def config_line_def strtok_eq_key [OF kk(1,2)] strtok_eq_last [OF v(1,2)] n p)
qed

lemma config_line_other: "config_line (entry_text (Comment s)) E = Some E" "config_line (entry_text Blank) E = Some E"
  by (simp_all add: config_line_def entry_text_def strtok_eq_def)

lemma entry_line:
  assumes "entry_ok e"
  shows "set (entry_text e) \<inter> {CHR 0x00, CHR 0x0A, CHR 0x0D} = {}" "length (entry_text e) \<le> 4090"
  using assms by (auto simp: entry_ok_def entry_text_def plain_def split: config_entry.splits)

lemma render_cons:
  "render ((x, crlf) # es) = entry_text x @ (if crlf then [CHR 0x0D, CHR 0x0A] else [CHR 0x0A]) @ render es"
  by (simp add: render_def)

lemma config_parse_render:
  "\<forall>e \<in> set es. entry_ok (fst e) \<Longrightarrow>
   config_parse_lines (render es @ rest) E = config_parse_lines rest (E ++ map_of (rev (settings_of es)))"
proof (induction es arbitrary: E)
  case (Cons e es)
  obtain x crlf where e: "e = (x, crlf)" by fastforce
  have ok: "entry_ok x" using Cons.prems by (simp add: e)
  have "config_parse_lines (render (e # es) @ rest) E =
      (case config_line (entry_text x) E of None \<Rightarrow> None | Some E \<Rightarrow> config_parse_lines (render es @ rest) E)"
    unfolding render_cons e append_assoc by (rule parse_line [OF entry_line [OF ok]])
  also have "\<dots> = config_parse_lines rest (E ++ map_of (rev (settings_of (e # es))))"
  proof (cases x)
    case (Setting k v)
    have IH: "config_parse_lines (render es @ rest) (E(the (config_variable k) \<mapsto> v)) =
        config_parse_lines rest (E(the (config_variable k) \<mapsto> v) ++ map_of (rev (settings_of es)))"
      using Cons.IH Cons.prems by simp
    show ?thesis unfolding e Setting config_line_setting [OF ok [unfolded Setting]] option.case IH
      by (simp add: map_add_assoc)
  qed (use Cons.IH Cons.prems in \<open>simp_all add: e config_line_other\<close>)
  finally show ?case .
qed (simp add: render_def)

lemma config_parse_end [simp]: "config_parse_lines [] E = Some E"
  by (subst config_parse_lines.simps) (simp add: config_read_line_def fgets_def)

lemma unknown_key:
  assumes "config_variable k = None" "k \<noteq> []" "CHR ''='' \<notin> set k" "hd k \<noteq> CHR ''#''" "plain k" "plain v" "length k \<le> 80"
  shows "config_parse_lines (entry_text (Setting k v) @ (if crlf then [CHR 0x0D, CHR 0x0A] else [CHR 0x0A]) @ rest) E = None"
proof -
  have s: "set (entry_text (Setting k v)) \<inter> {CHR 0x00, CHR 0x0A, CHR 0x0D} = {}" "length (entry_text (Setting k v)) \<le> 4090"
    using assms(5-7) by (auto simp: entry_text_def plain_def)
  have "config_line (entry_text (Setting k v)) E = None"
    using assms(1-4) by (simp add: config_line_def entry_text_def strtok_eq_key)
  then show ?thesis using parse_line [OF s, of crlf rest E] by simp
qed

text \<open>C28.  A program finds its settings in its environment.  The file under \<^verbatim>\<open>/etc/drqueue\<close> is read first, and it
  already counts when the second is looked for; a later line holds over an earlier one, the
  second file over the first, and both over what the environment was.  Comments, empty lines and the line
  ends of Windows make no difference.  And a key that is not one of the six ends the process.\<close>

theorem config_settings_apply:
  assumes f: "files (config_get_default_file tool PATH_MAX) = Some (render es)" "\<forall>e \<in> set es. entry_ok (fst e)"
    and e: "E1 = E ++ map_of (rev (settings_of es))" "E1 ''DRQUEUE_ETC'' = Some etc"
    and f': "files (snprintf PATH_MAX (etc @ ''/'' @ tool @ ''.'' @ BASE_CONF_EXT)) = Some (render es')" "\<forall>e \<in> set es'. entry_ok (fst e)"
  shows "config_parse_tool files tool E = Some (E1 ++ map_of (rev (settings_of es'))) \<and>
    (\<forall>files' k v crlf rest. files' (config_get_default_file tool PATH_MAX) =
         Some (render es @ entry_text (Setting k v) @ (if crlf then [CHR 0x0D, CHR 0x0A] else [CHR 0x0A]) @ rest) \<longrightarrow>
       config_variable k = None \<longrightarrow> k \<noteq> [] \<longrightarrow> CHR ''='' \<notin> set k \<longrightarrow> hd k \<noteq> CHR ''#'' \<longrightarrow> plain k \<longrightarrow> plain v \<longrightarrow> length k \<le> 80 \<longrightarrow>
       config_parse_tool files' tool E = None)"
proof -
  have "config_parse files (config_get_default_file tool PATH_MAX) E = Some E1"
    using config_parse_render [OF f(2), of "[]" E] by (simp add: config_parse_def f(1) e(1))
  moreover have "config_parse files (snprintf PATH_MAX (etc @ ''/'' @ tool @ ''.'' @ BASE_CONF_EXT)) E1 =
      Some (E1 ++ map_of (rev (settings_of es')))"
    unfolding config_parse_def f'(1) using config_parse_render [OF f'(2), of "[]" E1] by simp
  ultimately show ?thesis
    using e(2) config_parse_render [OF f(2)] unknown_key by (simp add: config_parse_tool_def config_parse_def)
qed

definition etc_files :: "cstring \<Rightarrow> cstring option" where
  "etc_files = [''/etc/drqueue/slave.conf'' \<mapsto> render [(Comment '' the cluster'', False), (Setting ''tmp'' ''/t'', False), (Setting ''etc'' ''/e'', True)],
     ''/e/slave.conf'' \<mapsto> render [(Blank, False), (Setting ''tmp'' ''/u'', False), (Setting ''pool'' ''linux'', False)]]"

theorem config_settings_apply_witness:
  "\<exists>E. config_parse_tool etc_files ''slave'' [''HOME'' \<mapsto> ''/root''] = Some E \<and> E ''DRQUEUE_TMP'' = Some ''/u'' \<and> E ''HOME'' = Some ''/root'' \<and>
     config_parse_tool [''/etc/drqueue/slave.conf'' \<mapsto> ''tpm=/u'' @ [CHR 0x0A]] ''slave'' Map.empty = None"
proof -
  have d: "config_get_default_file ''slave'' PATH_MAX = ''/etc/drqueue/slave.conf''"
    by (simp add: config_get_default_file_def PATH_MAX_def)
  let ?es = "[(Comment '' the cluster'', False), (Setting ''tmp'' ''/t'', False), (Setting ''etc'' ''/e'', True)]"
  let ?es' = "[(Blank, False), (Setting ''tmp'' ''/u'', False), (Setting ''pool'' ''linux'', False)]"
  have v: "config_variable ''tmp'' = Some ''DRQUEUE_TMP''" "config_variable ''etc'' = Some ''DRQUEUE_ETC''"
    "config_variable ''pool'' = Some ''DRQUEUE_POOL''" "config_variable ''tpm'' = None"
    by (simp_all add: config_variable_def)
  have ok: "\<forall>e \<in> set ?es. entry_ok (fst e)" "\<forall>e \<in> set ?es'. entry_ok (fst e)"
    by (simp_all add: entry_ok_def plain_def)
  have p: "etc_files (config_get_default_file ''slave'' PATH_MAX) = Some (render ?es)"
    "([''HOME'' \<mapsto> ''/root''] ++ map_of (rev (settings_of ?es))) ''DRQUEUE_ETC'' = Some ''/e''"
    "etc_files (snprintf PATH_MAX (''/e'' @ ''/'' @ ''slave'' @ ''.'' @ BASE_CONF_EXT)) = Some (render ?es')"
    by (simp add: d etc_files_def, simp add: v, simp add: etc_files_def PATH_MAX_def)
  have a: "config_parse_tool etc_files ''slave'' [''HOME'' \<mapsto> ''/root''] =
      Some ([''HOME'' \<mapsto> ''/root''] ++ map_of (rev (settings_of ?es)) ++ map_of (rev (settings_of ?es')))"
    by (rule conjunct1 [OF config_settings_apply [OF p(1) ok(1) refl p(2,3) ok(2)]])
  have b: "config_parse_tool [''/etc/drqueue/slave.conf'' \<mapsto> ''tpm=/u'' @ [CHR 0x0A]] ''slave'' Map.empty = None"
    using unknown_key [of "''tpm''" "''/u''" False "[]" Map.empty]
    by (simp add: config_parse_tool_def config_parse_def d entry_text_def v plain_def)
  show ?thesis using a b by (simp add: v)
qed

text \<open>A value that holds the character \<open>=\<close> is cut there.\<close>

lemma value_is_cut: "config_line ''tmp=/a=b'' E = Some (E(''DRQUEUE_TMP'' \<mapsto> ''/a''))"
  by (simp add: config_line_def strtok_eq_def config_variable_def setting_def putenv_def split_at_def snprintf_def max_defs)

end
