(* ===== verification/Jobscript.thy ===== *)
theory Jobscript
  imports Text
begin

text \<open>
  The writer of scripts (\<open>jobscript.c\<close>): a script is a heading, settings of variables, and the text of
  a template, appended to a file.  The machine is the files that can be read, which paths can be opened for
  appending, the environment and the clock; a null pointer is \<open>None\<close>, and a Boolean result the \<open>int\<close> the function
  returns.
\<close>

record script_host =
  sh_files :: "cstring \<rightharpoonup> cstring"
  sh_appendable :: "cstring \<Rightarrow> bool"
  sh_env :: environ
  sh_now :: u64

abbreviation JOBSCRIPT_TCSH :: u16 where "JOBSCRIPT_TCSH \<equiv> 0"
abbreviation JOBSCRIPT_PYTHON :: u16 where "JOBSCRIPT_PYTHON \<equiv> 1"

definition JS_MAX_VAR_VALUE :: nat where "JS_MAX_VAR_VALUE = 256"

text \<open>\<open>FILE *file\<close> is the path it was opened with.\<close>

record jobscript_info =
  js_type :: u16
  js_file :: cstring
  js_filename :: cstring

section \<open>Writing\<close>

definition file_text :: "cstring \<Rightarrow> script_host \<Rightarrow> cstring" where
  "file_text path w = (case sh_files w path of None \<Rightarrow> [] | Some s \<Rightarrow> s)"

definition fprintf :: "jobscript_info \<Rightarrow> cstring \<Rightarrow> script_host \<Rightarrow> script_host" where
  "fprintf ji s w = w\<lparr>sh_files := (sh_files w)(js_file ji \<mapsto> file_text (js_file ji) w @ s)\<rparr>"

definition jobscript_new :: "u16 \<Rightarrow> cstring \<Rightarrow> script_host \<Rightarrow> jobscript_info option \<times> script_host" where
  "jobscript_new type filename w =
     (if type \<noteq> JOBSCRIPT_TCSH \<and> type \<noteq> JOBSCRIPT_PYTHON then (None, w)
      else if \<not> sh_appendable w filename then (None, w)
      else (Some \<lparr>js_type = type, js_file = filename, js_filename = strncpy PATH_MAX filename\<rparr>,
            w\<lparr>sh_files := (sh_files w)(filename \<mapsto> file_text filename w)\<rparr>))"

definition jobscript_check_pointer :: "jobscript_info option \<Rightarrow> bool" where
  "jobscript_check_pointer ji \<longleftrightarrow> ji \<noteq> None"

definition jobscript_tcsh_check_pointer :: "jobscript_info option \<Rightarrow> bool" where
  "jobscript_tcsh_check_pointer ji = (case ji of None \<Rightarrow> False | Some j \<Rightarrow> js_type j = JOBSCRIPT_TCSH)"

definition jobscript_python_check_pointer :: "jobscript_info option \<Rightarrow> bool" where
  "jobscript_python_check_pointer ji = (case ji of None \<Rightarrow> False | Some j \<Rightarrow> js_type j = JOBSCRIPT_PYTHON)"

definition nl :: cstring where "nl = [CHR 0x0A]"

definition jobscript_tcsh_write_heading :: "jobscript_info option \<Rightarrow> script_host \<Rightarrow> bool \<times> script_host" where
  "jobscript_tcsh_write_heading ji w =
     (if \<not> jobscript_tcsh_check_pointer ji then (False, w)
      else (True, fprintf (the ji) (''#!/bin/tcsh'' @ nl @ ''### GENERATED BY JOBSCRIPT TOOLS'' @ nl @
        ''# generated using the jobscript tools from libdrqueue'' @ nl @ ''### END OF HEADING'' @ nl) w))"

definition jobscript_python_write_heading :: "jobscript_info option \<Rightarrow> script_host \<Rightarrow> bool \<times> script_host" where
  "jobscript_python_write_heading ji w =
     (if \<not> jobscript_python_check_pointer ji then (False, w)
      else (True, fprintf (the ji) (''#!/usr/bin/env python'' @ nl @ ''# -*- coding: utf-8 -*-'' @ nl @
        ''### GENERATED BY JOBSCRIPT TOOLS'' @ nl @
        ''# generated using the jobscript tools from libdrqueue'' @ nl @ ''### END OF HEADING'' @ nl) w))"

definition jobscript_write_heading :: "jobscript_info option \<Rightarrow> script_host \<Rightarrow> bool \<times> script_host" where
  "jobscript_write_heading ji w = (case ji of None \<Rightarrow> (False, w)
     | Some j \<Rightarrow> if js_type j = JOBSCRIPT_TCSH then jobscript_tcsh_write_heading ji w
         else if js_type j = JOBSCRIPT_PYTHON then jobscript_python_write_heading ji w
         else (False, w))"

definition jobscript_tcsh_set_variable :: "jobscript_info option \<Rightarrow> cstring \<Rightarrow> cstring \<Rightarrow> script_host \<Rightarrow> bool \<times> script_host" where
  "jobscript_tcsh_set_variable ji name value w =
     (if \<not> jobscript_tcsh_check_pointer ji then (False, w)
      else (True, fprintf (the ji) (nl @ ''## tcsh variable set by jobscript tools'' @ nl @
        ''set '' @ name @ ''=\"'' @ value @ ''\"'' @ nl) w))"

definition jobscript_python_set_variable :: "jobscript_info option \<Rightarrow> cstring \<Rightarrow> cstring \<Rightarrow> script_host \<Rightarrow> bool \<times> script_host" where
  "jobscript_python_set_variable ji name value w =
     (if \<not> jobscript_python_check_pointer ji then (False, w)
      else (True, fprintf (the ji) (nl @ ''## python variable set by jobscript tools'' @ nl @
        name @ ''=\"'' @ value @ ''\"'' @ nl) w))"

definition jobscript_set_variable :: "jobscript_info option \<Rightarrow> cstring \<Rightarrow> cstring \<Rightarrow> script_host \<Rightarrow> bool \<times> script_host" where
  "jobscript_set_variable ji name value w = (case ji of None \<Rightarrow> (False, w)
     | Some j \<Rightarrow> if js_type j = JOBSCRIPT_TCSH then jobscript_tcsh_set_variable ji name value w
         else if js_type j = JOBSCRIPT_PYTHON then jobscript_python_set_variable ji name value w
         else (False, w))"

definition print_int :: "int \<Rightarrow> cstring" where
  "print_int n = (if n < 0 then CHR ''-'' # dec (nat (- n)) else dec (nat n))"

definition jobscript_set_variable_int :: "jobscript_info option \<Rightarrow> cstring \<Rightarrow> int \<Rightarrow> script_host \<Rightarrow> bool \<times> script_host" where
  "jobscript_set_variable_int ji name value w =
     jobscript_set_variable ji name (snprintf JS_MAX_VAR_VALUE (print_int value)) w"

definition template_path :: "cstring \<Rightarrow> environ \<Rightarrow> cstring option" where
  "template_path name E = (case E ''DRQUEUE_ETC'' of
       Some d \<Rightarrow> Some (snprintf PATH_MAX (d @ ''/'' @ name))
     | None \<Rightarrow> (case E ''DRQUEUE_ROOT'' of
         Some d \<Rightarrow> Some (snprintf PATH_MAX (d @ ''/etc/'' @ name))
       | None \<Rightarrow> None))"

definition jobscript_template_write :: "jobscript_info option \<Rightarrow> cstring \<Rightarrow> script_host \<Rightarrow> bool \<times> script_host" where
  "jobscript_template_write ji name w =
     (if \<not> jobscript_check_pointer ji then (False, w)
      else (case template_path name (sh_env w) of None \<Rightarrow> (False, w)
        | Some path \<Rightarrow> (case sh_files w path of None \<Rightarrow> (False, w)
            | Some template \<Rightarrow> (True, fprintf (the ji) (nl @ ''# jobscript starts writing template file '' @ CHR 0x27 # path @ CHR 0x27 # nl @
                template @ nl @ ''# jobscript finished writing template file '' @ CHR 0x27 # path @ CHR 0x27 # nl) w))))"

text \<open>The settings of a script, in the order in which they are made.\<close>

datatype script_var = StrVar cstring cstring | IntVar cstring int

fun set_variables :: "jobscript_info option \<Rightarrow> script_var list \<Rightarrow> script_host \<Rightarrow> script_host" where
  "set_variables ji [] w = w"
| "set_variables ji (StrVar n v # vs) w = set_variables ji vs (snd (jobscript_set_variable ji n v w))"
| "set_variables ji (IntVar n v # vs) w = set_variables ji vs (snd (jobscript_set_variable_int ji n v w))"

section \<open>Reading a script\<close>

text \<open>The lines of a text, and the settings that a Python script makes, as long as no value needs quoting.\<close>

lemma split_at_shorter: "split_at c s = Some (a, b) \<Longrightarrow> length b < length s"
proof -
  assume "split_at c s = Some (a, b)"
  then have "b = drop (Suc (length a)) s" "s \<noteq> []" by (auto simp: split_at_def Let_def split: if_splits)
  then show ?thesis by simp
qed

function lines :: "cstring \<Rightarrow> cstring list" where
  "lines s = (case split_at (CHR 0x0A) s of None \<Rightarrow> if s = [] then [] else [s] | Some (a, b) \<Rightarrow> a # lines b)"
  by pat_completeness auto

termination by (relation "measure length") (auto intro: split_at_shorter)

declare lines.simps [simp del]

definition assignment :: "cstring \<Rightarrow> (cstring \<times> cstring) option" where
  "assignment line = (case split_at (CHR ''='') line of
       Some (n, c # r) \<Rightarrow> if c = CHR 0x22 \<and> r \<noteq> [] \<and> last r = CHR 0x22 then Some (n, butlast r) else None
     | _ \<Rightarrow> None)"

definition script_vars :: "cstring \<Rightarrow> (cstring \<times> cstring) list" where
  "script_vars s = List.map_filter assignment (lines s)"

definition quotable :: "cstring \<Rightarrow> bool" where
  "quotable v \<longleftrightarrow> set v \<inter> {CHR 0x22, CHR 0x5C, CHR 0x0A, CHR 0x0D} = {}"

definition var_setting :: "script_var \<Rightarrow> cstring \<times> cstring" where
  "var_setting x = (case x of StrVar n v \<Rightarrow> (n, v) | IntVar n v \<Rightarrow> (n, snprintf JS_MAX_VAR_VALUE (print_int v)))"

definition var_ok :: "script_var \<Rightarrow> bool" where
  "var_ok x \<longleftrightarrow> set (fst (var_setting x)) \<inter> {CHR ''='', CHR 0x0A} = {} \<and> quotable (snd (var_setting x))"

definition python_text :: "script_var list \<Rightarrow> cstring" where
  "python_text vs = concat (map (\<lambda>x. nl @ ''## python variable set by jobscript tools'' @ nl @
     fst (var_setting x) @ ''=\"'' @ snd (var_setting x) @ ''\"'' @ nl) vs)"

definition python_heading :: cstring where
  "python_heading = ''#!/usr/bin/env python'' @ nl @ ''# -*- coding: utf-8 -*-'' @ nl @
     ''### GENERATED BY JOBSCRIPT TOOLS'' @ nl @
     ''# generated using the jobscript tools from libdrqueue'' @ nl @ ''### END OF HEADING'' @ nl"

lemma lines_line: "CHR 0x0A \<notin> set a \<Longrightarrow> lines (a @ nl @ b) = a # lines b"
  by (subst lines.simps) (simp add: nl_def split_at_found)

lemma lines_empty: "lines (nl @ b) = [] # lines b"
  using lines_line [of "[]" b] by simp

lemma script_vars_line:
  "CHR 0x0A \<notin> set a \<Longrightarrow> script_vars (a @ nl @ b) = (case assignment a of None \<Rightarrow> [] | Some p \<Rightarrow> [p]) @ script_vars b"
  by (simp add: script_vars_def lines_line map_filter_simps split: option.splits)

lemma assignment_none: "CHR ''='' \<notin> set a \<Longrightarrow> assignment a = None"
  by (simp add: assignment_def split_at_none [THEN iffD2])

lemma assignment_var: "CHR ''='' \<notin> set n \<Longrightarrow> assignment (n @ ''=\"'' @ v @ ''\"'') = Some (n, v)"
  by (simp add: assignment_def split_at_found)

lemma script_vars_python:
  "\<forall>x \<in> set vs. var_ok x \<Longrightarrow> script_vars (python_text vs @ rest) = map var_setting vs @ script_vars rest"
proof (induction vs)
  case (Cons x vs)
  obtain n v where x: "var_setting x = (n, v)" by fastforce
  have ok: "CHR ''='' \<notin> set n" "CHR 0x0A \<notin> set (n @ ''=\"'' @ v @ ''\"'')"
    using Cons.prems by (auto simp: var_ok_def quotable_def x)
  have "python_text (x # vs) @ rest = [] @ nl @ ''## python variable set by jobscript tools'' @ nl @
      (n @ ''=\"'' @ v @ ''\"'') @ nl @ (python_text vs @ rest)"
    by (simp add: python_text_def x)
  moreover have "script_vars ([] @ nl @ b) = script_vars b" for b
    by (subst script_vars_line) (simp_all add: assignment_none)
  moreover have "script_vars (''## python variable set by jobscript tools'' @ nl @ b) = script_vars b" for b
    by (subst script_vars_line, simp, subst assignment_none) simp_all
  moreover have "script_vars ((n @ ''=\"'' @ v @ ''\"'') @ nl @ b) = (n, v) # script_vars b" for b
    unfolding script_vars_line [OF ok(2)] assignment_var [OF ok(1)] by simp
  ultimately have "script_vars (python_text (x # vs) @ rest) = (n, v) # script_vars (python_text vs @ rest)"
    by (simp only:)
  with Cons show ?case by (simp add: x)
qed (simp add: python_text_def)

lemma script_vars_heading: "script_vars (python_heading @ rest) = script_vars rest"
  unfolding python_heading_def append_assoc
  by (subst script_vars_line, simp, subst assignment_none, simp)+ simp

end
