(* ===== verification/Scripts.thy ===== *)
theory Scripts
  imports Jobscript
begin

text \<open>
  The generators of render scripts (\<open>*sg.c\<close>), one for each renderer: from what a front end knows of a
  scene they make a Python script, whose path becomes the command of a job.  Each has a structure of its own, a
  check that it is complete, the variables it sets, and the name of its template.

  \<open>dr_copy_path\<close> copies into an array of \<open>MAXCMDLEN\<close> bytes with \<open>strncpy\<close> and one byte less than that: a text of
  \<open>MAXCMDLEN - 1\<close> characters or more is left without an end, and reading it runs into memory that was never
  set, which counts as a fault where the copy is made.  The null pointer a generator returns is \<open>None\<close>; \<open>drerrno\<close> is then
  \<open>DRE_NOTCOMPLETE\<close>.
\<close>

section \<open>What the generators share\<close>

definition copy_path :: "cstring \<Rightarrow> fault + cstring" where
  "copy_path s = (if length s < MAXCMDLEN - 1 then Inr s else Inl OutOfBounds)"

definition script_file :: "cstring \<Rightarrow> cstring \<Rightarrow> u64 \<Rightarrow> cstring" where
  "script_file scriptdir scene now = snprintf (BUFFERLEN - 1) (scriptdir @ ''/'' @ basename scene @ ''.'' @ hex (unat now))"

text \<open>
  The middle part: heading, variables, template.  Without a template the generator returns in the middle;
  whether the template was found makes no difference to it.
\<close>

definition write_script :: "cstring \<Rightarrow> script_var list \<Rightarrow> cstring option \<Rightarrow> script_host \<Rightarrow> cstring option \<times> script_host" where
  "write_script filename vs template w =
     (case jobscript_new JOBSCRIPT_PYTHON filename w of
        (None, w) \<Rightarrow> (None, w)
      | (ji, w) \<Rightarrow>
          let w = set_variables ji vs (snd (jobscript_write_heading ji w))
          in (case template of None \<Rightarrow> (None, w) | Some t \<Rightarrow> (Some filename, snd (jobscript_template_write ji t w))))"

definition render_type :: "u8 \<Rightarrow> script_var list" where
  "render_type t = (if t = 2 then [StrVar ''RENDER_TYPE'' ''single image'']
     else if t = 1 then [StrVar ''RENDER_TYPE'' ''animation''] else [])"

text \<open>The directory for scripts; the end of an empty path is looked for before its start.\<close>

definition default_script_path :: "cstring \<Rightarrow> environ \<Rightarrow> fault + cstring" where
  "default_script_path unset E = (case E ''DRQUEUE_TMP'' of None \<Rightarrow> Inr unset
     | Some p \<Rightarrow> if p = [] then Inl OutOfBounds
         else Inr (snprintf (BUFFERLEN - 1) (if last p = CHR ''/'' then p else p @ ''/'')))"

section \<open>The generators\<close>

text \<open>\<open>generalsg.c\<close>\<close>

record generalsgi =
  geg_scriptdir :: cstring
  geg_script :: cstring
  geg_uid_owner :: u32
  geg_gid_owner :: u32

definition generalsg_vars :: "generalsgi \<Rightarrow> script_var list" where
  "generalsg_vars info =
     [StrVar ''GENSCRIPT'' (geg_script info), IntVar ''OWNER_UID'' (uint (geg_uid_owner info)), IntVar ''OWNER_GID'' (uint (geg_gid_owner info))]"

definition generalsg_create :: "generalsgi \<Rightarrow> script_host \<Rightarrow> fault + cstring option \<times> script_host" where
  "generalsg_create info w =
     (if geg_script info = [] then Inr (None, w)
      else Inr (write_script (script_file (geg_scriptdir info) (geg_script info) (sh_now w))
         (generalsg_vars info)
         (Some ''general_sg.py'') w))"

definition generalsg_default_script_path :: "environ \<Rightarrow> fault + cstring" where
  "generalsg_default_script_path = default_script_path ''/drqueue_tmp/not/set/''"

text \<open>\<open>mayasg.c\<close>\<close>

record mayasgi =
  myg_renderdir :: cstring
  myg_projectdir :: cstring
  myg_scene :: cstring
  myg_image :: cstring
  myg_scriptdir :: cstring
  myg_file_owner :: cstring
  myg_camera :: cstring
  myg_res_x :: u32
  myg_res_y :: u32
  myg_format :: cstring
  myg_renderer :: u8
  myg_precommand :: cstring
  myg_postcommand :: cstring

definition mayasg_vars :: "mayasgi \<Rightarrow> cstring \<Rightarrow> cstring \<Rightarrow> cstring \<Rightarrow> cstring \<Rightarrow> cstring \<Rightarrow> script_var list" where
  "mayasg_vars info scene renderdir projectdir precommand postcommand =
     [StrVar ''SCENE'' scene, StrVar ''RENDERDIR'' renderdir, StrVar ''PROJECTDIR'' projectdir, StrVar ''RF_OWNER'' (myg_file_owner info)] @
     (if myg_format info \<noteq> [] then [StrVar ''FFORMAT'' (myg_format info)] else []) @
     (if 0 < myg_res_x info then [IntVar ''RESX'' (uint (myg_res_x info))] else []) @
     (if 0 < myg_res_y info then [IntVar ''RESY'' (uint (myg_res_y info))] else []) @
     (if myg_camera info \<noteq> [] then [StrVar ''CAMERA'' (myg_camera info)] else []) @
     (if myg_image info \<noteq> [] then [StrVar ''DRQUEUE_IMAGE'' (myg_image info)] else []) @
     (if myg_renderer info = 0 then [StrVar ''RENDERER'' ''sw''] else []) @
     (if myg_renderer info = 1 then [StrVar ''RENDERER'' ''mr''] else []) @
     (if myg_renderer info = 2 then [StrVar ''RENDERER'' ''rman''] else []) @
     (if myg_renderer info = 3 then [StrVar ''RENDERER'' ''file''] else []) @
     (if myg_postcommand info \<noteq> [] then [StrVar ''DRQUEUE_POST'' postcommand] else []) @
     (if myg_precommand info \<noteq> [] then [StrVar ''DRQUEUE_PRE'' precommand] else [])"

definition mayasg_create :: "mayasgi \<Rightarrow> script_host \<Rightarrow> fault + cstring option \<times> script_host" where
  "mayasg_create info w =
     (if myg_renderdir info = [] \<or> myg_scene info = [] \<or> myg_projectdir info = [] then Inr (None, w)
      else andThen (copy_path (myg_scene info)) (\<lambda>scene.
      andThen (copy_path (myg_renderdir info)) (\<lambda>renderdir.
      andThen (copy_path (myg_projectdir info)) (\<lambda>projectdir.
      andThen (copy_path (myg_precommand info)) (\<lambda>precommand.
      andThen (copy_path (myg_postcommand info)) (\<lambda>postcommand.
      Inr (write_script (script_file (myg_scriptdir info) scene (sh_now w))
         (mayasg_vars info scene renderdir projectdir precommand postcommand)
         (Some ''maya_sg.py'') w)))))))"

definition mayasg_default_script_path :: "environ \<Rightarrow> fault + cstring" where
  "mayasg_default_script_path = default_script_path ''/drqueue_tmp/not/set/''"

text \<open>\<open>mentalraysg.c\<close>\<close>

record mentalraysgi =
  mrg_renderdir :: cstring
  mrg_scene :: cstring
  mrg_image :: cstring
  mrg_scriptdir :: cstring
  mrg_file_owner :: cstring
  mrg_camera :: cstring
  mrg_res_x :: u32
  mrg_res_y :: u32
  mrg_format :: cstring
  mrg_render_type :: u8

definition mentalraysg_vars :: "mentalraysgi \<Rightarrow> cstring \<Rightarrow> cstring \<Rightarrow> script_var list" where
  "mentalraysg_vars info scene renderdir =
     [StrVar ''SCENE'' scene, StrVar ''RENDERDIR'' renderdir, StrVar ''RF_OWNER'' (mrg_file_owner info)] @
     (if mrg_format info \<noteq> [] then [StrVar ''FFORMAT'' (mrg_format info)] else []) @
     (if 0 < sint (mrg_res_x info) then [IntVar ''RESX'' (sint (mrg_res_x info))] else []) @
     (if 0 < sint (mrg_res_y info) then [IntVar ''RESY'' (sint (mrg_res_y info))] else []) @
     (if mrg_camera info \<noteq> [] then [StrVar ''CAMERA'' (mrg_camera info)] else []) @
     (if mrg_image info \<noteq> [] then [StrVar ''DRQUEUE_IMAGE'' (mrg_image info)] else []) @
     render_type (mrg_render_type info)"

definition mentalraysg_create :: "mentalraysgi \<Rightarrow> script_host \<Rightarrow> fault + cstring option \<times> script_host" where
  "mentalraysg_create info w =
     (if mrg_scene info = [] \<or> mrg_renderdir info = [] then Inr (None, w)
      else andThen (copy_path (mrg_scene info)) (\<lambda>scene.
      andThen (copy_path (mrg_renderdir info)) (\<lambda>renderdir.
      Inr (write_script (script_file (mrg_scriptdir info) scene (sh_now w))
         (mentalraysg_vars info scene renderdir)
         (if mrg_render_type info = 1 \<or> mrg_render_type info = 2 then Some ''mentalray_sg.py'' else None) w))))"

definition mentalraysg_default_script_path :: "environ \<Rightarrow> fault + cstring" where
  "mentalraysg_default_script_path = default_script_path ''/drqueue_tmp/not/set/''"

text \<open>\<open>blendersg.c\<close>\<close>

record blendersgi =
  blg_scene :: cstring
  blg_scriptdir :: cstring
  blg_render_type :: u8

definition blendersg_vars :: "blendersgi \<Rightarrow> cstring \<Rightarrow> script_var list" where
  "blendersg_vars info scene =
     [StrVar ''SCENE'' scene] @
     render_type (blg_render_type info)"

definition blendersg_create :: "blendersgi \<Rightarrow> script_host \<Rightarrow> fault + cstring option \<times> script_host" where
  "blendersg_create info w =
     (if blg_scene info = [] then Inr (None, w)
      else andThen (copy_path (blg_scene info)) (\<lambda>scene.
      Inr (write_script (script_file (blg_scriptdir info) scene (sh_now w))
         (blendersg_vars info scene)
         (if blg_render_type info = 1 \<or> blg_render_type info = 2 then Some ''blender_sg.py'' else None) w)))"

definition blendersg_default_script_path :: "environ \<Rightarrow> fault + cstring" where
  "blendersg_default_script_path = default_script_path ''/drqueue_tmp/not/set/report/bug/please/''"

text \<open>\<open>3delightsg.c\<close>\<close>

record threedelightsgi =
  tdg_scene :: cstring
  tdg_scriptdir :: cstring
  tdg_file_owner :: cstring

definition threedelightsg_vars :: "threedelightsgi \<Rightarrow> cstring \<Rightarrow> script_var list" where
  "threedelightsg_vars info scene =
     [StrVar ''SCENE'' scene, StrVar ''RF_OWNER'' (tdg_file_owner info)]"

definition threedelightsg_create :: "threedelightsgi \<Rightarrow> script_host \<Rightarrow> fault + cstring option \<times> script_host" where
  "threedelightsg_create info w =
     (if tdg_scene info = [] then Inr (None, w)
      else andThen (copy_path (tdg_scene info)) (\<lambda>scene.
      Inr (write_script (script_file (tdg_scriptdir info) scene (sh_now w))
         (threedelightsg_vars info scene)
         (Some ''3delight_sg.py'') w)))"

definition threedelightsg_default_script_path :: "environ \<Rightarrow> fault + cstring" where
  "threedelightsg_default_script_path = default_script_path ''/drqueue_tmp/not/set/''"

text \<open>\<open>pixiesg.c\<close>\<close>

record pixiesgi =
  pxg_renderdir :: cstring
  pxg_scene :: cstring
  pxg_scriptdir :: cstring

definition pixiesg_vars :: "pixiesgi \<Rightarrow> cstring \<Rightarrow> script_var list" where
  "pixiesg_vars info scene =
     [StrVar ''RIBFILE'' scene]"

definition pixiesg_create :: "pixiesgi \<Rightarrow> script_host \<Rightarrow> fault + cstring option \<times> script_host" where
  "pixiesg_create info w =
     (if pxg_scene info = [] then Inr (None, w)
      else andThen (copy_path (pxg_scene info)) (\<lambda>scene.
      Inr (write_script (script_file (pxg_scriptdir info) scene (sh_now w))
         (pixiesg_vars info scene)
         (Some ''pixie_sg.py'') w)))"

definition pixiesg_default_script_path :: "environ \<Rightarrow> fault + cstring" where
  "pixiesg_default_script_path = default_script_path ''/drqueue_tmp/not/set/''"

text \<open>\<open>lightwavesg.c\<close>\<close>

record lightwavesgi =
  lwg_projectdir :: cstring
  lwg_configdir :: cstring
  lwg_scene :: cstring
  lwg_image :: cstring
  lwg_scriptdir :: cstring
  lwg_file_owner :: cstring
  lwg_camera :: cstring
  lwg_res_x :: u32
  lwg_res_y :: u32
  lwg_format :: cstring
  lwg_mentalray :: u32

definition lightwavesg_vars :: "lightwavesgi \<Rightarrow> cstring \<Rightarrow> cstring \<Rightarrow> cstring \<Rightarrow> script_var list" where
  "lightwavesg_vars info scene projectdir configdir =
     [StrVar ''SCENE'' scene, StrVar ''PROJECTDIR'' projectdir, StrVar ''CONFIGDIR'' configdir, StrVar ''RF_OWNER'' (lwg_file_owner info)] @
     (if lwg_format info \<noteq> [] then [StrVar ''FFORMAT'' (lwg_format info)] else []) @
     (if 0 < sint (lwg_res_x info) then [IntVar ''RESX'' (sint (lwg_res_x info))] else []) @
     (if 0 < sint (lwg_res_y info) then [IntVar ''RESY'' (sint (lwg_res_y info))] else []) @
     (if lwg_camera info \<noteq> [] then [StrVar ''CAMERA'' (lwg_camera info)] else [])"

definition lightwavesg_create :: "lightwavesgi \<Rightarrow> script_host \<Rightarrow> fault + cstring option \<times> script_host" where
  "lightwavesg_create info w =
     (if lwg_scene info = [] then Inr (None, w)
      else andThen (copy_path (lwg_scene info)) (\<lambda>scene.
      andThen (copy_path (lwg_projectdir info)) (\<lambda>projectdir.
      andThen (copy_path (lwg_configdir info)) (\<lambda>configdir.
      Inr (write_script (script_file (lwg_scriptdir info) scene (sh_now w))
         (lightwavesg_vars info scene projectdir configdir)
         (Some ''lightwave_sg.py'') w)))))"

definition lightwavesg_default_script_path :: "environ \<Rightarrow> fault + cstring" where
  "lightwavesg_default_script_path = default_script_path ''/drqueue_tmp/not/set/''"

text \<open>\<open>nukesg.c\<close>\<close>

record nukesgi =
  nkg_scene :: cstring
  nkg_image :: cstring
  nkg_scriptdir :: cstring
  nkg_file_owner :: cstring
  nkg_camera :: cstring
  nkg_res_x :: u32
  nkg_res_y :: u32
  nkg_format :: cstring
  nkg_mentalray :: u32

definition nukesg_vars :: "nukesgi \<Rightarrow> cstring \<Rightarrow> script_var list" where
  "nukesg_vars info scene =
     [StrVar ''SCENE'' scene, StrVar ''RF_OWNER'' (nkg_file_owner info)] @
     (if nkg_format info \<noteq> [] then [StrVar ''FFORMAT'' (nkg_format info)] else []) @
     (if 0 < sint (nkg_res_x info) then [IntVar ''RESX'' (sint (nkg_res_x info))] else []) @
     (if 0 < sint (nkg_res_y info) then [IntVar ''RESY'' (sint (nkg_res_y info))] else []) @
     (if nkg_camera info \<noteq> [] then [StrVar ''CAMERA'' (nkg_camera info)] else [])"

definition nukesg_create :: "nukesgi \<Rightarrow> script_host \<Rightarrow> fault + cstring option \<times> script_host" where
  "nukesg_create info w =
     (if nkg_scene info = [] then Inr (None, w)
      else andThen (copy_path (nkg_scene info)) (\<lambda>scene.
      Inr (write_script (script_file (nkg_scriptdir info) scene (sh_now w))
         (nukesg_vars info scene)
         (Some ''nuke_sg.py'') w)))"

definition nukesg_default_script_path :: "environ \<Rightarrow> fault + cstring" where
  "nukesg_default_script_path = default_script_path ''/drqueue_tmp/not/set/''"

text \<open>\<open>terragensg.c\<close>\<close>

record terragensgi =
  tgg_worldfile :: cstring
  tgg_terrainfile :: cstring
  tgg_scriptfile :: cstring
  tgg_image :: cstring
  tgg_scriptdir :: cstring
  tgg_file_owner :: cstring
  tgg_camera :: cstring
  tgg_res_x :: u32
  tgg_res_y :: u32
  tgg_format :: cstring
  tgg_mentalray :: u32

definition terragensg_vars :: "terragensgi \<Rightarrow> cstring \<Rightarrow> cstring \<Rightarrow> cstring \<Rightarrow> script_var list" where
  "terragensg_vars info scriptfile worldfile terrainfile =
     [StrVar ''SCENE'' scriptfile, StrVar ''WORLDFILE'' worldfile, StrVar ''TERRAINFILE'' terrainfile, StrVar ''RF_OWNER'' (tgg_file_owner info)] @
     (if tgg_format info \<noteq> [] then [StrVar ''FFORMAT'' (tgg_format info)] else []) @
     (if 0 < sint (tgg_res_x info) then [IntVar ''RESX'' (sint (tgg_res_x info))] else []) @
     (if 0 < sint (tgg_res_y info) then [IntVar ''RESY'' (sint (tgg_res_y info))] else []) @
     (if tgg_camera info \<noteq> [] then [StrVar ''CAMERA'' (tgg_camera info)] else [])"

definition terragensg_create :: "terragensgi \<Rightarrow> script_host \<Rightarrow> fault + cstring option \<times> script_host" where
  "terragensg_create info w =
     (if tgg_scriptfile info = [] then Inr (None, w)
      else andThen (copy_path (tgg_scriptfile info)) (\<lambda>scriptfile.
      andThen (copy_path (tgg_worldfile info)) (\<lambda>worldfile.
      andThen (copy_path (tgg_terrainfile info)) (\<lambda>terrainfile.
      Inr (write_script (script_file (tgg_scriptdir info) scriptfile (sh_now w))
         (terragensg_vars info scriptfile worldfile terrainfile)
         (Some ''terragen_sg.py'') w)))))"

definition terragensg_default_script_path :: "environ \<Rightarrow> fault + cstring" where
  "terragensg_default_script_path = default_script_path ''/drqueue_tmp/not/set/''"

text \<open>\<open>aqsissg.c\<close>\<close>

record aqsissgi =
  aqg_scene :: cstring
  aqg_scriptdir :: cstring
  aqg_file_owner :: cstring
  aqg_custom_crop :: u8
  aqg_xmin :: u32
  aqg_xmax :: u32
  aqg_ymin :: u32
  aqg_ymax :: u32
  aqg_custom_samples :: u8
  aqg_disp_stats :: u8
  aqg_verbose :: u8
  aqg_custom_beep :: u8

definition aqsissg_vars :: "aqsissgi \<Rightarrow> cstring \<Rightarrow> script_var list" where
  "aqsissg_vars info scene =
     [StrVar ''SCENE'' scene, StrVar ''RF_OWNER'' (aqg_file_owner info)] @
     (if aqg_custom_crop info \<noteq> 0 then [StrVar ''CUSTOM_CROP'' ''yes'', IntVar ''CROP_XMIN'' (uint (aqg_xmin info)), IntVar ''CROP_XMAX'' (uint (aqg_xmax info)), IntVar ''CROP_YMIN'' (uint (aqg_ymin info)), IntVar ''CROP_YMAX'' (uint (aqg_ymax info))] else [])"

definition aqsissg_create :: "aqsissgi \<Rightarrow> script_host \<Rightarrow> fault + cstring option \<times> script_host" where
  "aqsissg_create info w =
     (if aqg_scene info = [] then Inr (None, w)
      else andThen (copy_path (aqg_scene info)) (\<lambda>scene.
      Inr (write_script (script_file (aqg_scriptdir info) scene (sh_now w))
         (aqsissg_vars info scene)
         (Some ''aqsis_sg.py'') w)))"

definition aqsissg_default_script_path :: "environ \<Rightarrow> fault + cstring" where
  "aqsissg_default_script_path = default_script_path ''/drqueue_tmp/not/set/''"

text \<open>\<open>mantrasg.c\<close>\<close>

record mantrasgi =
  mng_scene :: cstring
  mng_renderdir :: cstring
  mng_scriptdir :: cstring
  mng_file_owner :: cstring
  mng_custom_bucket :: u8
  mng_bucketSize :: u32
  mng_custom_WH :: u8
  mng_Width :: u32
  mng_Height :: u32
  mng_custom_lod :: u8
  mng_LOD :: u32
  mng_custom_varyaa :: u8
  mng_varyAA :: int
  mng_custom_samples :: u8
  mng_raytrace :: u32
  mng_aaoff :: u32
  mng_custom_bDepth :: u8
  mng_bDepth :: u32
  mng_custom_zDepth :: u8
  mng_zDepth :: cstring
  mng_custom_Cracks :: u8
  mng_Cracks :: u32
  mng_custom_Quality :: u8
  mng_Quality :: u32
  mng_custom_QFiner :: u8
  mng_QFiner :: cstring
  mng_custom_Type :: u8
  mng_Type :: cstring
  mng_custom_SMultiplier :: u8
  mng_SMultiplier :: u32
  mng_custom_MPCache :: u8
  mng_MPCache :: u32
  mng_custom_MCache :: u8
  mng_MCache :: u32
  mng_custom_SMPolygon :: u8
  mng_SMPolygon :: u32

definition mantrasg_vars :: "mantrasgi \<Rightarrow> cstring \<Rightarrow> cstring \<Rightarrow> script_var list" where
  "mantrasg_vars info scene renderdir =
     [StrVar ''SCENE'' scene, StrVar ''RENDERDIR'' renderdir, StrVar ''RF_OWNER'' (mng_file_owner info), IntVar ''RAYTRACE'' (sint (mng_raytrace info)), IntVar ''ANTIALIAS'' (sint (mng_aaoff info))] @
     (if mng_custom_bucket info \<noteq> 0 then [StrVar ''CUSTOM_BUCKET'' ''yes'', IntVar ''BUCKETSIZE'' (uint (mng_bucketSize info))] else []) @
     (if mng_custom_lod info \<noteq> 0 then [StrVar ''CUSTOM_LOD'' ''yes'', IntVar ''LOD'' (uint (mng_LOD info))] else []) @
     (if mng_custom_varyaa info \<noteq> 0 then [StrVar ''CUSTOM_VARYAA'' ''yes'', IntVar ''VARYAA'' (mng_varyAA info)] else []) @
     (if mng_custom_bDepth info \<noteq> 0 then [StrVar ''CUSTOM_BDEPTH'' ''yes'', IntVar ''BDEPTH'' (uint (mng_bDepth info))] else []) @
     (if mng_custom_zDepth info \<noteq> 0 then [StrVar ''CUSTOM_ZDEPTH'' ''yes'', StrVar ''ZDEPTH'' (mng_zDepth info)] else []) @
     (if mng_custom_Cracks info \<noteq> 0 then [StrVar ''CUSTOM_CRACKS'' ''yes'', IntVar ''CRACKS'' (uint (mng_Cracks info))] else []) @
     (if mng_custom_Quality info \<noteq> 0 then [StrVar ''CUSTOM_QUALITY'' ''yes'', IntVar ''QUALITY'' (uint (mng_Quality info))] else []) @
     (if mng_custom_QFiner info \<noteq> 0 then [StrVar ''CUSTOM_QFINER'' ''yes'', StrVar ''QFINER'' (mng_QFiner info)] else []) @
     (if mng_custom_SMultiplier info \<noteq> 0 then [StrVar ''CUSTOM_SMULTIPLIER'' ''yes'', IntVar ''SMULTIPLIER'' (uint (mng_SMultiplier info))] else []) @
     (if mng_custom_MPCache info \<noteq> 0 then [StrVar ''CUSTOM_MPCACHE'' ''yes'', IntVar ''MPCACHE'' (uint (mng_MPCache info))] else []) @
     (if mng_custom_MCache info \<noteq> 0 then [StrVar ''CUSTOM_MCACHE'' ''yes'', IntVar ''MCACHE'' (uint (mng_MCache info))] else []) @
     (if mng_custom_SMPolygon info \<noteq> 0 then [StrVar ''CUSTOM_SMPOLYGON'' ''yes'', IntVar ''SMPOLYGON'' (uint (mng_SMPolygon info))] else []) @
     (if mng_custom_WH info \<noteq> 0 then [StrVar ''CUSTOM_WH'' ''yes'', IntVar ''WIDTH'' (uint (mng_Width info)), IntVar ''HEIGHT'' (uint (mng_Height info))] else []) @
     (if mng_custom_Type info \<noteq> 0 then [StrVar ''CUSTOM_TYPE'' ''yes'', StrVar ''CTYPE'' (mng_Type info)] else [])"

definition mantrasg_create :: "mantrasgi \<Rightarrow> script_host \<Rightarrow> fault + cstring option \<times> script_host" where
  "mantrasg_create info w =
     (if mng_scene info = [] \<or> mng_renderdir info = [] then Inr (None, w)
      else andThen (copy_path (mng_scene info)) (\<lambda>scene.
      andThen (copy_path (mng_renderdir info)) (\<lambda>renderdir.
      Inr (write_script (script_file (mng_scriptdir info) scene (sh_now w))
         (mantrasg_vars info scene renderdir)
         (Some ''mantra_sg.py'') w))))"

definition mantrasg_default_script_path :: "environ \<Rightarrow> fault + cstring" where
  "mantrasg_default_script_path = default_script_path ''/drqueue_tmp/not/set/''"

text \<open>\<open>aftereffectssg.c\<close>\<close>

record aftereffectssgi =
  aeg_project :: cstring
  aeg_comp :: cstring
  aeg_scriptdir :: cstring

definition aftereffectssg_vars :: "aftereffectssgi \<Rightarrow> cstring \<Rightarrow> script_var list" where
  "aftereffectssg_vars info project =
     [StrVar ''PROJECT'' project, StrVar ''COMP'' (aeg_comp info)]"

definition aftereffectssg_create :: "aftereffectssgi \<Rightarrow> script_host \<Rightarrow> fault + cstring option \<times> script_host" where
  "aftereffectssg_create info w =
     (if aeg_project info = [] \<or> aeg_comp info = [] then Inr (None, w)
      else andThen (copy_path (aeg_project info)) (\<lambda>project.
      Inr (write_script (script_file (aeg_scriptdir info) project (sh_now w))
         (aftereffectssg_vars info project)
         (Some ''aftereffects_sg.py'') w)))"

definition aftereffectssg_default_script_path :: "environ \<Rightarrow> fault + cstring" where
  "aftereffectssg_default_script_path = default_script_path ''/drqueue_tmp/not/set/report/bug/please/''"

text \<open>\<open>shakesg.c\<close>\<close>

record shakesgi =
  shg_script :: cstring
  shg_scriptdir :: cstring

definition shakesg_vars :: "shakesgi \<Rightarrow> cstring \<Rightarrow> script_var list" where
  "shakesg_vars info script =
     [StrVar ''DRQUEUE_SCRIPT'' script]"

definition shakesg_create :: "shakesgi \<Rightarrow> script_host \<Rightarrow> fault + cstring option \<times> script_host" where
  "shakesg_create info w =
     (if shg_script info = [] then Inr (None, w)
      else andThen (copy_path (shg_script info)) (\<lambda>script.
      Inr (write_script (script_file (shg_scriptdir info) script (sh_now w))
         (shakesg_vars info script)
         (Some ''shake_sg.py'') w)))"

text \<open>This one looks for the slash behind the end of the path, and never finds one.\<close>

definition shakesg_default_script_path :: "environ \<Rightarrow> cstring" where
  "shakesg_default_script_path E = (case E ''DRQUEUE_TMP'' of None \<Rightarrow> ''/drqueue_tmp/not/set/report/bug/please/''
     | Some p \<Rightarrow> snprintf (BUFFERLEN - 1) (p @ ''/''))"

text \<open>\<open>turtlesg.c\<close>\<close>

record turtlesgi =
  tug_renderdir :: cstring
  tug_projectdir :: cstring
  tug_scene :: cstring
  tug_image :: cstring
  tug_scriptdir :: cstring
  tug_file_owner :: cstring
  tug_camera :: cstring
  tug_res_x :: u32
  tug_res_y :: u32
  tug_format :: cstring
  tug_usemaya70 :: u8

definition turtlesg_vars :: "turtlesgi \<Rightarrow> cstring \<Rightarrow> cstring \<Rightarrow> cstring \<Rightarrow> script_var list" where
  "turtlesg_vars info scene renderdir projectdir =
     [StrVar ''SCENE'' scene, StrVar ''RENDERDIR'' renderdir, StrVar ''PROJECTDIR'' projectdir, StrVar ''RF_OWNER'' (tug_file_owner info)] @
     (if tug_format info \<noteq> [] then [StrVar ''FFORMAT'' (tug_format info)] else []) @
     (if 0 < tug_res_x info then [IntVar ''RESX'' (uint (tug_res_x info))] else []) @
     (if 0 < tug_res_y info then [IntVar ''RESY'' (uint (tug_res_y info))] else []) @
     (if tug_camera info \<noteq> [] then [StrVar ''CAMERA'' (tug_camera info)] else []) @
     (if tug_image info \<noteq> [] then [StrVar ''DRQUEUE_IMAGE'' (tug_image info)] else []) @
     (if tug_usemaya70 info = 1 then [IntVar ''USEMAYA70'' 1] else [])"

definition turtlesg_create :: "turtlesgi \<Rightarrow> script_host \<Rightarrow> fault + cstring option \<times> script_host" where
  "turtlesg_create info w =
     (if tug_scene info = [] \<or> tug_renderdir info = [] \<or> tug_projectdir info = [] then Inr (None, w)
      else andThen (copy_path (tug_scene info)) (\<lambda>scene.
      andThen (copy_path (tug_renderdir info)) (\<lambda>renderdir.
      andThen (copy_path (tug_projectdir info)) (\<lambda>projectdir.
      Inr (write_script (script_file (tug_scriptdir info) scene (sh_now w))
         (turtlesg_vars info scene renderdir projectdir)
         (Some ''turtle_sg.py'') w)))))"

definition turtlesg_default_script_path :: "environ \<Rightarrow> fault + cstring" where
  "turtlesg_default_script_path = default_script_path ''/drqueue_tmp/not/set/''"

text \<open>\<open>xsisg.c\<close>\<close>

record xsisgi =
  xsg_xsiDir :: cstring
  xsg_scene :: cstring
  xsg_xsipass :: cstring
  xsg_renderdir :: cstring
  xsg_image :: cstring
  xsg_imageExt :: cstring
  xsg_scriptdir :: cstring
  xsg_file_owner :: cstring
  xsg_res_x :: u32
  xsg_res_y :: u32
  xsg_skipFrames :: u8
  xsg_runScript :: u8
  xsg_scriptRun :: cstring

definition xsisg_vars :: "xsisgi \<Rightarrow> cstring \<Rightarrow> cstring \<Rightarrow> cstring \<Rightarrow> script_var list" where
  "xsisg_vars info scene renderdir xsiDir =
     [StrVar ''SCENE'' scene, StrVar ''RENDERDIR'' renderdir, StrVar ''XSI_DIR'' xsiDir, StrVar ''RF_OWNER'' (xsg_file_owner info), StrVar ''DRQUEUE_PASS'' (xsg_xsipass info), IntVar ''DRQUEUE_RUNSCRIPT'' (sint (xsg_runScript info))] @
     (if 0 < xsg_res_x info then [IntVar ''RESX'' (uint (xsg_res_x info))] else []) @
     (if 0 < xsg_res_y info then [IntVar ''RESY'' (uint (xsg_res_y info))] else []) @
     (if xsg_image info \<noteq> [] then [StrVar ''DRQUEUE_IMAGE'' (xsg_image info)] else []) @
     (if xsg_imageExt info \<noteq> [] then [StrVar ''DRQUEUE_IMAGEEXT'' (xsg_imageExt info)] else []) @
     [StrVar ''DRQUEUE_SKIPFRAMES'' (if xsg_skipFrames info \<noteq> 0 then ''on'' else ''off'')] @
     (if xsg_scriptRun info \<noteq> [] then [StrVar ''DRQUEUE_SCRIPTRUN'' (xsg_scriptRun info)] else [])"

definition xsisg_create :: "xsisgi \<Rightarrow> script_host \<Rightarrow> fault + cstring option \<times> script_host" where
  "xsisg_create info w =
     (if xsg_scene info = [] \<or> xsg_renderdir info = [] \<or> xsg_xsiDir info = [] then Inr (None, w)
      else andThen (copy_path (xsg_scene info)) (\<lambda>scene.
      andThen (copy_path (xsg_renderdir info)) (\<lambda>renderdir.
      andThen (copy_path (xsg_xsiDir info)) (\<lambda>xsiDir.
      Inr (write_script (script_file (xsg_scriptdir info) scene (sh_now w))
         (xsisg_vars info scene renderdir xsiDir)
         (Some ''xsi_sg.py'') w)))))"

definition xsisg_default_script_path :: "environ \<Rightarrow> fault + cstring" where
  "xsisg_default_script_path = default_script_path ''/drqueue_tmp/not/set/''"

text \<open>\<open>luxrendersg.c\<close>\<close>

record luxrendersgi =
  lxg_scene :: cstring
  lxg_scriptdir :: cstring
  lxg_kind :: cstring

definition luxrendersg_vars :: "luxrendersgi \<Rightarrow> cstring \<Rightarrow> script_var list" where
  "luxrendersg_vars info scene =
     [StrVar ''SCENE'' scene]"

definition luxrendersg_create :: "luxrendersgi \<Rightarrow> script_host \<Rightarrow> fault + cstring option \<times> script_host" where
  "luxrendersg_create info w =
     (if lxg_scene info = [] then Inr (None, w)
      else andThen (copy_path (lxg_scene info)) (\<lambda>scene.
      Inr (write_script (script_file (lxg_scriptdir info) scene (sh_now w))
         (luxrendersg_vars info scene)
         (Some ''luxrender_sg.py'') w)))"

definition luxrendersg_default_script_path :: "environ \<Rightarrow> fault + cstring" where
  "luxrendersg_default_script_path = default_script_path ''/drqueue_tmp/not/set/report/bug/please/''"

text \<open>\<open>vraysg.c\<close>\<close>

record vraysgi =
  vrg_scene :: cstring
  vrg_scriptdir :: cstring

definition vraysg_vars :: "vraysgi \<Rightarrow> cstring \<Rightarrow> script_var list" where
  "vraysg_vars info scene =
     [StrVar ''SCENE'' scene]"

definition vraysg_create :: "vraysgi \<Rightarrow> script_host \<Rightarrow> fault + cstring option \<times> script_host" where
  "vraysg_create info w =
     (if vrg_scene info = [] then Inr (None, w)
      else andThen (copy_path (vrg_scene info)) (\<lambda>scene.
      Inr (write_script (script_file (vrg_scriptdir info) scene (sh_now w))
         (vraysg_vars info scene)
         (Some ''vray_sg.py'') w)))"

definition vraysg_default_script_path :: "environ \<Rightarrow> fault + cstring" where
  "vraysg_default_script_path = default_script_path ''/drqueue_tmp/not/set/report/bug/please/''"

text \<open>\<open>3dsmaxsg.c\<close>\<close>

record threedsmaxsgi =
  tmg_scene :: cstring
  tmg_scriptdir :: cstring
  tmg_image :: cstring

definition threedsmaxsg_vars :: "threedsmaxsgi \<Rightarrow> cstring \<Rightarrow> cstring \<Rightarrow> script_var list" where
  "threedsmaxsg_vars info scene image_path =
     [StrVar ''SCENE'' scene, StrVar ''DRQUEUE_IMAGE'' image_path]"

definition threedsmaxsg_create :: "threedsmaxsgi \<Rightarrow> script_host \<Rightarrow> fault + cstring option \<times> script_host" where
  "threedsmaxsg_create info w =
     (if tmg_scene info = [] then Inr (None, w)
      else andThen (copy_path (tmg_scene info)) (\<lambda>scene.
      andThen (copy_path (tmg_image info)) (\<lambda>image_path.
      Inr (write_script (script_file (tmg_scriptdir info) scene (sh_now w))
         (threedsmaxsg_vars info scene image_path)
         (Some ''3dsmax_sg.py'') w))))"

definition threedsmaxsg_default_script_path :: "environ \<Rightarrow> fault + cstring" where
  "threedsmaxsg_default_script_path = default_script_path ''/drqueue_tmp/not/set/report/bug/please/''"

text \<open>\<open>cinema4dsg.c\<close>\<close>

record cinema4dsgi =
  cdg_scene :: cstring
  cdg_renderdir :: cstring
  cdg_scriptdir :: cstring
  cdg_file_owner :: cstring

definition cinema4dsg_vars :: "cinema4dsgi \<Rightarrow> cstring \<Rightarrow> cstring \<Rightarrow> script_var list" where
  "cinema4dsg_vars info scene renderdir =
     [StrVar ''SCENE'' scene, StrVar ''RENDERDIR'' renderdir, StrVar ''RF_OWNER'' (cdg_file_owner info)]"

definition cinema4dsg_create :: "cinema4dsgi \<Rightarrow> script_host \<Rightarrow> fault + cstring option \<times> script_host" where
  "cinema4dsg_create info w =
     (if cdg_scene info = [] \<or> cdg_renderdir info = [] then Inr (None, w)
      else andThen (copy_path (cdg_scene info)) (\<lambda>scene.
      andThen (copy_path (cdg_renderdir info)) (\<lambda>renderdir.
      Inr (write_script (script_file (cdg_scriptdir info) scene (sh_now w))
         (cinema4dsg_vars info scene renderdir)
         (Some ''cinema4d_sg.py'') w))))"

definition cinema4dsg_default_script_path :: "environ \<Rightarrow> fault + cstring" where
  "cinema4dsg_default_script_path = default_script_path ''/drqueue_tmp/not/set/report/bug/please/''"

section \<open>All of them\<close>

datatype script_info =
    GeneralScript generalsgi
  | MayaScript mayasgi
  | MentalrayScript mentalraysgi
  | BlenderScript blendersgi
  | ThreedelightScript threedelightsgi
  | PixieScript pixiesgi
  | LightwaveScript lightwavesgi
  | NukeScript nukesgi
  | TerragenScript terragensgi
  | AqsisScript aqsissgi
  | MantraScript mantrasgi
  | AftereffectsScript aftereffectssgi
  | ShakeScript shakesgi
  | TurtleScript turtlesgi
  | XsiScript xsisgi
  | LuxrenderScript luxrendersgi
  | VrayScript vraysgi
  | ThreedsmaxScript threedsmaxsgi
  | Cinema4dScript cinema4dsgi

definition script_create :: "script_info \<Rightarrow> script_host \<Rightarrow> fault + cstring option \<times> script_host" where
  "script_create x w = (case x of
       GeneralScript i \<Rightarrow> generalsg_create i w
     | MayaScript i \<Rightarrow> mayasg_create i w
     | MentalrayScript i \<Rightarrow> mentalraysg_create i w
     | BlenderScript i \<Rightarrow> blendersg_create i w
     | ThreedelightScript i \<Rightarrow> threedelightsg_create i w
     | PixieScript i \<Rightarrow> pixiesg_create i w
     | LightwaveScript i \<Rightarrow> lightwavesg_create i w
     | NukeScript i \<Rightarrow> nukesg_create i w
     | TerragenScript i \<Rightarrow> terragensg_create i w
     | AqsisScript i \<Rightarrow> aqsissg_create i w
     | MantraScript i \<Rightarrow> mantrasg_create i w
     | AftereffectsScript i \<Rightarrow> aftereffectssg_create i w
     | ShakeScript i \<Rightarrow> shakesg_create i w
     | TurtleScript i \<Rightarrow> turtlesg_create i w
     | XsiScript i \<Rightarrow> xsisg_create i w
     | LuxrenderScript i \<Rightarrow> luxrendersg_create i w
     | VrayScript i \<Rightarrow> vraysg_create i w
     | ThreedsmaxScript i \<Rightarrow> threedsmaxsg_create i w
     | Cinema4dScript i \<Rightarrow> cinema4dsg_create i w)"

text \<open>What is to be rendered, the name the template knows it by, and where the script goes.\<close>

definition main_input :: "script_info \<Rightarrow> cstring" where
  "main_input x = (case x of
       GeneralScript i \<Rightarrow> geg_script i
     | MayaScript i \<Rightarrow> myg_scene i
     | MentalrayScript i \<Rightarrow> mrg_scene i
     | BlenderScript i \<Rightarrow> blg_scene i
     | ThreedelightScript i \<Rightarrow> tdg_scene i
     | PixieScript i \<Rightarrow> pxg_scene i
     | LightwaveScript i \<Rightarrow> lwg_scene i
     | NukeScript i \<Rightarrow> nkg_scene i
     | TerragenScript i \<Rightarrow> tgg_scriptfile i
     | AqsisScript i \<Rightarrow> aqg_scene i
     | MantraScript i \<Rightarrow> mng_scene i
     | AftereffectsScript i \<Rightarrow> aeg_project i
     | ShakeScript i \<Rightarrow> shg_script i
     | TurtleScript i \<Rightarrow> tug_scene i
     | XsiScript i \<Rightarrow> xsg_scene i
     | LuxrenderScript i \<Rightarrow> lxg_scene i
     | VrayScript i \<Rightarrow> vrg_scene i
     | ThreedsmaxScript i \<Rightarrow> tmg_scene i
     | Cinema4dScript i \<Rightarrow> cdg_scene i)"

definition main_variable :: "script_info \<Rightarrow> cstring" where
  "main_variable x = (case x of
       GeneralScript i \<Rightarrow> ''GENSCRIPT''
     | MayaScript i \<Rightarrow> ''SCENE''
     | MentalrayScript i \<Rightarrow> ''SCENE''
     | BlenderScript i \<Rightarrow> ''SCENE''
     | ThreedelightScript i \<Rightarrow> ''SCENE''
     | PixieScript i \<Rightarrow> ''RIBFILE''
     | LightwaveScript i \<Rightarrow> ''SCENE''
     | NukeScript i \<Rightarrow> ''SCENE''
     | TerragenScript i \<Rightarrow> ''SCENE''
     | AqsisScript i \<Rightarrow> ''SCENE''
     | MantraScript i \<Rightarrow> ''SCENE''
     | AftereffectsScript i \<Rightarrow> ''PROJECT''
     | ShakeScript i \<Rightarrow> ''DRQUEUE_SCRIPT''
     | TurtleScript i \<Rightarrow> ''SCENE''
     | XsiScript i \<Rightarrow> ''SCENE''
     | LuxrenderScript i \<Rightarrow> ''SCENE''
     | VrayScript i \<Rightarrow> ''SCENE''
     | ThreedsmaxScript i \<Rightarrow> ''SCENE''
     | Cinema4dScript i \<Rightarrow> ''SCENE'')"

definition script_directory :: "script_info \<Rightarrow> cstring" where
  "script_directory x = (case x of
       GeneralScript i \<Rightarrow> geg_scriptdir i
     | MayaScript i \<Rightarrow> myg_scriptdir i
     | MentalrayScript i \<Rightarrow> mrg_scriptdir i
     | BlenderScript i \<Rightarrow> blg_scriptdir i
     | ThreedelightScript i \<Rightarrow> tdg_scriptdir i
     | PixieScript i \<Rightarrow> pxg_scriptdir i
     | LightwaveScript i \<Rightarrow> lwg_scriptdir i
     | NukeScript i \<Rightarrow> nkg_scriptdir i
     | TerragenScript i \<Rightarrow> tgg_scriptdir i
     | AqsisScript i \<Rightarrow> aqg_scriptdir i
     | MantraScript i \<Rightarrow> mng_scriptdir i
     | AftereffectsScript i \<Rightarrow> aeg_scriptdir i
     | ShakeScript i \<Rightarrow> shg_scriptdir i
     | TurtleScript i \<Rightarrow> tug_scriptdir i
     | XsiScript i \<Rightarrow> xsg_scriptdir i
     | LuxrenderScript i \<Rightarrow> lxg_scriptdir i
     | VrayScript i \<Rightarrow> vrg_scriptdir i
     | ThreedsmaxScript i \<Rightarrow> tmg_scriptdir i
     | Cinema4dScript i \<Rightarrow> cdg_scriptdir i)"

text \<open>The texts that end up in the script.\<close>

definition script_texts :: "script_info \<Rightarrow> cstring list" where
  "script_texts x = (case x of
       GeneralScript i \<Rightarrow> [geg_script i]
     | MayaScript i \<Rightarrow> [myg_scene i, myg_renderdir i, myg_projectdir i, myg_file_owner i, myg_format i, myg_camera i, myg_image i, myg_postcommand i, myg_precommand i]
     | MentalrayScript i \<Rightarrow> [mrg_scene i, mrg_renderdir i, mrg_file_owner i, mrg_format i, mrg_camera i, mrg_image i]
     | BlenderScript i \<Rightarrow> [blg_scene i]
     | ThreedelightScript i \<Rightarrow> [tdg_scene i, tdg_file_owner i]
     | PixieScript i \<Rightarrow> [pxg_scene i]
     | LightwaveScript i \<Rightarrow> [lwg_scene i, lwg_projectdir i, lwg_configdir i, lwg_file_owner i, lwg_format i, lwg_camera i]
     | NukeScript i \<Rightarrow> [nkg_scene i, nkg_file_owner i, nkg_format i, nkg_camera i]
     | TerragenScript i \<Rightarrow> [tgg_scriptfile i, tgg_worldfile i, tgg_terrainfile i, tgg_file_owner i, tgg_format i, tgg_camera i]
     | AqsisScript i \<Rightarrow> [aqg_scene i, aqg_file_owner i]
     | MantraScript i \<Rightarrow> [mng_scene i, mng_renderdir i, mng_file_owner i, mng_zDepth i, mng_QFiner i, mng_Type i]
     | AftereffectsScript i \<Rightarrow> [aeg_project i, aeg_comp i]
     | ShakeScript i \<Rightarrow> [shg_script i]
     | TurtleScript i \<Rightarrow> [tug_scene i, tug_renderdir i, tug_projectdir i, tug_file_owner i, tug_format i, tug_camera i, tug_image i]
     | XsiScript i \<Rightarrow> [xsg_scene i, xsg_renderdir i, xsg_xsiDir i, xsg_file_owner i, xsg_xsipass i, xsg_image i, xsg_imageExt i, xsg_scriptRun i]
     | LuxrenderScript i \<Rightarrow> [lxg_scene i]
     | VrayScript i \<Rightarrow> [vrg_scene i]
     | ThreedsmaxScript i \<Rightarrow> [tmg_scene i, tmg_image i]
     | Cinema4dScript i \<Rightarrow> [cdg_scene i, cdg_renderdir i, cdg_file_owner i])"

section \<open>What a script says\<close>

text \<open>The last part of a script: the template between two comments, or nothing.\<close>

definition template_part :: "cstring \<Rightarrow> bool" where
  "template_part s \<longleftrightarrow> s = [] \<or> (\<exists>r. s = nl @ ''# jobscript starts writing template file '' @ r)"

text \<open>What was added to the file sets the variable, last of all before the template.\<close>

definition says :: "script_host \<Rightarrow> cstring \<Rightarrow> script_host \<Rightarrow> cstring \<Rightarrow> cstring \<Rightarrow> bool" where
  "says w f w' n v \<longleftrightarrow> (\<exists>before rest. file_text f w' = file_text f w @ before @ rest \<and> template_part rest \<and>
     map_of (rev (script_vars before)) n = Some v)"

definition main_first :: "cstring \<Rightarrow> cstring \<Rightarrow> script_var list \<Rightarrow> bool" where
  "main_first n v vs \<longleftrightarrow> (\<exists>vs'. vs = StrVar n v # vs' \<and> (\<forall>y \<in> set vs'. fst (var_setting y) \<noteq> n)) \<and> (\<forall>y \<in> set vs. var_ok y)"

lemma fprintf_text [simp]:
  "file_text (js_file ji) (fprintf ji s w) = file_text (js_file ji) w @ s"
  "g \<noteq> js_file ji \<Longrightarrow> sh_files (fprintf ji s w) g = sh_files w g" "sh_env (fprintf ji s w) = sh_env w"
  by (simp_all add: fprintf_def file_text_def)

lemma set_variables_text:
  assumes "js_type ji = JOBSCRIPT_PYTHON"
  shows "file_text (js_file ji) (set_variables (Some ji) vs w) = file_text (js_file ji) w @ python_text vs \<and>
    (\<forall>g. g \<noteq> js_file ji \<longrightarrow> sh_files (set_variables (Some ji) vs w) g = sh_files w g)"
proof (induction vs arbitrary: w)
  case (Cons x vs)
  have "set_variables (Some ji) (x # vs) w = set_variables (Some ji) vs (fprintf ji (python_text [x]) w)"
    using assms by (cases x) (simp_all add: jobscript_set_variable_def jobscript_set_variable_int_def jobscript_python_set_variable_def
        jobscript_python_check_pointer_def python_text_def var_setting_def)
  then show ?case using Cons.IH [of "fprintf ji (python_text [x]) w"] by (simp add: python_text_def)
qed (simp add: python_text_def)

lemma template_text:
  "\<exists>r. file_text (js_file ji) (snd (jobscript_template_write (Some ji) t w)) = file_text (js_file ji) w @ r \<and> template_part r \<and>
    (\<forall>g. g \<noteq> js_file ji \<longrightarrow> sh_files (snd (jobscript_template_write (Some ji) t w)) g = sh_files w g)"
  by (auto simp: jobscript_template_write_def jobscript_check_pointer_def template_part_def split: option.splits)

lemma write_script_says:
  assumes r: "write_script f vs t w = (Some f', w')" and m: "main_first n v vs"
  shows "f' = f \<and> says w f w' n v \<and> (\<forall>g. g \<noteq> f \<longrightarrow> sh_files w' g = sh_files w g)"
proof -
  define ji where "ji = \<lparr>js_type = JOBSCRIPT_PYTHON, js_file = f, js_filename = strncpy PATH_MAX f\<rparr>"
  have ji: "js_type ji = JOBSCRIPT_PYTHON" "js_file ji = f" by (simp_all add: ji_def)
  define w1 where "w1 = w\<lparr>sh_files := (sh_files w)(f \<mapsto> file_text f w)\<rparr>"
  have new: "jobscript_new JOBSCRIPT_PYTHON f w = (Some ji, w1)" and t: "t \<noteq> None"
    using r by (auto simp: write_script_def jobscript_new_def ji_def w1_def Let_def split: if_splits option.splits)
  obtain t' where t': "t = Some t'" using t by blast
  have h: "jobscript_write_heading (Some ji) w1 = (True, fprintf ji python_heading w1)"
    using ji by (simp add: jobscript_write_heading_def jobscript_python_write_heading_def jobscript_python_check_pointer_def python_heading_def)
  define w2 where "w2 = set_variables (Some ji) vs (fprintf ji python_heading w1)"
  have res: "f' = f" "w' = snd (jobscript_template_write (Some ji) t' w2)"
    using r by (simp_all add: write_script_def new h t' w2_def Let_def)
  have w1: "file_text f w1 = file_text f w" "\<And>g. g \<noteq> f \<Longrightarrow> sh_files w1 g = sh_files w g"
    by (simp_all add: w1_def file_text_def)
  have w2: "file_text f w2 = file_text f w @ python_heading @ python_text vs" "\<And>g. g \<noteq> f \<Longrightarrow> sh_files w2 g = sh_files w g"
    using set_variables_text [OF ji(1), of vs "fprintf ji python_heading w1"] w1 fprintf_text(1,2) [where ji = ji] unfolding ji(2) w2_def by auto
  obtain r where w': "file_text f w' = file_text f w2 @ r" "template_part r" "\<And>g. g \<noteq> f \<Longrightarrow> sh_files w' g = sh_files w2 g"
    using template_text [of ji t' w2] unfolding ji(2) res(2) by blast
  obtain vs' where vs: "vs = StrVar n v # vs'" "\<forall>y \<in> set vs'. fst (var_setting y) \<noteq> n" "\<forall>y \<in> set vs. var_ok y"
    using m unfolding main_first_def by blast
  have "script_vars (python_heading @ python_text vs) = map var_setting vs"
    using script_vars_heading [of "python_text vs @ []"] script_vars_python [OF vs(3), of "[]"]
    by (simp add: script_vars_def lines.simps [of "[]"] split_at_def map_filter_simps)
  moreover have "map_of (rev (map var_setting vs')) n = None" using vs(2) by (auto simp: map_of_eq_None_iff image_iff)
  ultimately have "map_of (rev (script_vars (python_heading @ python_text vs))) n = Some v"
    by (simp add: vs(1) var_setting_def map_add_def)
  then show ?thesis unfolding says_def using res(1) w' w2
    by (intro conjI exI [of _ "python_heading @ python_text vs"] exI [of _ r]) simp_all
qed

lemma print_int_char: "c \<in> set (print_int n) \<Longrightarrow> is_digit c \<or> c = CHR ''-''"
  using dec_char by (auto simp: print_int_def split: if_splits)

lemma quotable_int: "quotable (snprintf k (print_int n))"
proof -
  have "set (snprintf k (print_int n)) \<subseteq> set (print_int n)" by (simp add: snprintf_def set_take_subset)
  then show ?thesis using print_int_char [of _ n] by (fastforce simp: quotable_def is_digit_def)
qed

lemma var_ok_simps:
  "var_ok (StrVar n v) \<longleftrightarrow> set n \<inter> {CHR ''='', CHR 0x0A} = {} \<and> quotable v"
  "var_ok (IntVar n i) \<longleftrightarrow> set n \<inter> {CHR ''='', CHR 0x0A} = {}"
  "fst (var_setting (StrVar n v)) = n" "fst (var_setting (IntVar n i)) = n"
  by (simp_all add: var_ok_def var_setting_def quotable_int)

lemma quotable_words [simp]: "quotable ''yes''" "quotable ''on''" "quotable ''off''" "quotable ''sw''" "quotable ''mr''"
  "quotable ''rman''" "quotable ''file''" "quotable ''single image''" "quotable ''animation''"
  by (simp_all add: quotable_def)

lemma main_first_Cons:
  "main_first n v ((StrVar n v # xs) @ ys) \<longleftrightarrow> var_ok (StrVar n v) \<and> list_all (\<lambda>y. fst (var_setting y) \<noteq> n \<and> var_ok y) (xs @ ys)"
  "main_first n v (StrVar n v # xs) \<longleftrightarrow> var_ok (StrVar n v) \<and> list_all (\<lambda>y. fst (var_setting y) \<noteq> n \<and> var_ok y) xs"
  by (auto simp: main_first_def list_all_iff)

lemma list_all_If: "list_all P (if c then xs else ys) \<longleftrightarrow> (c \<longrightarrow> list_all P xs) \<and> (\<not> c \<longrightarrow> list_all P ys)"
  by simp

lemmas vars_ok = main_first_Cons var_ok_simps render_type_def list_all_If

lemma generalsg_vars_main:
  "quotable (geg_script info) \<Longrightarrow>
   main_first ''GENSCRIPT'' (geg_script info) (generalsg_vars info)"
  by (simp add: generalsg_vars_def vars_ok)

lemma mayasg_vars_main:
  "quotable scene \<Longrightarrow> quotable renderdir \<Longrightarrow> quotable projectdir \<Longrightarrow> quotable (myg_file_owner info) \<Longrightarrow> quotable (myg_format info) \<Longrightarrow> quotable (myg_camera info) \<Longrightarrow> quotable (myg_image info) \<Longrightarrow> quotable postcommand \<Longrightarrow> quotable precommand \<Longrightarrow>
   main_first ''SCENE'' scene (mayasg_vars info scene renderdir projectdir precommand postcommand)"
  by (simp add: mayasg_vars_def vars_ok)

lemma mentalraysg_vars_main:
  "quotable scene \<Longrightarrow> quotable renderdir \<Longrightarrow> quotable (mrg_file_owner info) \<Longrightarrow> quotable (mrg_format info) \<Longrightarrow> quotable (mrg_camera info) \<Longrightarrow> quotable (mrg_image info) \<Longrightarrow>
   main_first ''SCENE'' scene (mentalraysg_vars info scene renderdir)"
  by (simp add: mentalraysg_vars_def vars_ok)

lemma blendersg_vars_main:
  "quotable scene \<Longrightarrow>
   main_first ''SCENE'' scene (blendersg_vars info scene)"
  by (simp add: blendersg_vars_def vars_ok)

lemma threedelightsg_vars_main:
  "quotable scene \<Longrightarrow> quotable (tdg_file_owner info) \<Longrightarrow>
   main_first ''SCENE'' scene (threedelightsg_vars info scene)"
  by (simp add: threedelightsg_vars_def vars_ok)

lemma pixiesg_vars_main:
  "quotable scene \<Longrightarrow>
   main_first ''RIBFILE'' scene (pixiesg_vars info scene)"
  by (simp add: pixiesg_vars_def vars_ok)

lemma lightwavesg_vars_main:
  "quotable scene \<Longrightarrow> quotable projectdir \<Longrightarrow> quotable configdir \<Longrightarrow> quotable (lwg_file_owner info) \<Longrightarrow> quotable (lwg_format info) \<Longrightarrow> quotable (lwg_camera info) \<Longrightarrow>
   main_first ''SCENE'' scene (lightwavesg_vars info scene projectdir configdir)"
  by (simp add: lightwavesg_vars_def vars_ok)

lemma nukesg_vars_main:
  "quotable scene \<Longrightarrow> quotable (nkg_file_owner info) \<Longrightarrow> quotable (nkg_format info) \<Longrightarrow> quotable (nkg_camera info) \<Longrightarrow>
   main_first ''SCENE'' scene (nukesg_vars info scene)"
  by (simp add: nukesg_vars_def vars_ok)

lemma terragensg_vars_main:
  "quotable scriptfile \<Longrightarrow> quotable worldfile \<Longrightarrow> quotable terrainfile \<Longrightarrow> quotable (tgg_file_owner info) \<Longrightarrow> quotable (tgg_format info) \<Longrightarrow> quotable (tgg_camera info) \<Longrightarrow>
   main_first ''SCENE'' scriptfile (terragensg_vars info scriptfile worldfile terrainfile)"
  by (simp add: terragensg_vars_def vars_ok)

lemma aqsissg_vars_main:
  "quotable scene \<Longrightarrow> quotable (aqg_file_owner info) \<Longrightarrow>
   main_first ''SCENE'' scene (aqsissg_vars info scene)"
  by (simp add: aqsissg_vars_def vars_ok)

lemma mantrasg_vars_main:
  "quotable scene \<Longrightarrow> quotable renderdir \<Longrightarrow> quotable (mng_file_owner info) \<Longrightarrow> quotable (mng_zDepth info) \<Longrightarrow> quotable (mng_QFiner info) \<Longrightarrow> quotable (mng_Type info) \<Longrightarrow>
   main_first ''SCENE'' scene (mantrasg_vars info scene renderdir)"
  by (simp add: mantrasg_vars_def vars_ok)

lemma aftereffectssg_vars_main:
  "quotable project \<Longrightarrow> quotable (aeg_comp info) \<Longrightarrow>
   main_first ''PROJECT'' project (aftereffectssg_vars info project)"
  by (simp add: aftereffectssg_vars_def vars_ok)

lemma shakesg_vars_main:
  "quotable script \<Longrightarrow>
   main_first ''DRQUEUE_SCRIPT'' script (shakesg_vars info script)"
  by (simp add: shakesg_vars_def vars_ok)

lemma turtlesg_vars_main:
  "quotable scene \<Longrightarrow> quotable renderdir \<Longrightarrow> quotable projectdir \<Longrightarrow> quotable (tug_file_owner info) \<Longrightarrow> quotable (tug_format info) \<Longrightarrow> quotable (tug_camera info) \<Longrightarrow> quotable (tug_image info) \<Longrightarrow>
   main_first ''SCENE'' scene (turtlesg_vars info scene renderdir projectdir)"
  by (simp add: turtlesg_vars_def vars_ok)

lemma xsisg_vars_main:
  "quotable scene \<Longrightarrow> quotable renderdir \<Longrightarrow> quotable xsiDir \<Longrightarrow> quotable (xsg_file_owner info) \<Longrightarrow> quotable (xsg_xsipass info) \<Longrightarrow> quotable (xsg_image info) \<Longrightarrow> quotable (xsg_imageExt info) \<Longrightarrow> quotable (xsg_scriptRun info) \<Longrightarrow>
   main_first ''SCENE'' scene (xsisg_vars info scene renderdir xsiDir)"
  by (simp add: xsisg_vars_def vars_ok)

lemma luxrendersg_vars_main:
  "quotable scene \<Longrightarrow>
   main_first ''SCENE'' scene (luxrendersg_vars info scene)"
  by (simp add: luxrendersg_vars_def vars_ok)

lemma vraysg_vars_main:
  "quotable scene \<Longrightarrow>
   main_first ''SCENE'' scene (vraysg_vars info scene)"
  by (simp add: vraysg_vars_def vars_ok)

lemma threedsmaxsg_vars_main:
  "quotable scene \<Longrightarrow> quotable image_path \<Longrightarrow>
   main_first ''SCENE'' scene (threedsmaxsg_vars info scene image_path)"
  by (simp add: threedsmaxsg_vars_def vars_ok)

lemma cinema4dsg_vars_main:
  "quotable scene \<Longrightarrow> quotable renderdir \<Longrightarrow> quotable (cdg_file_owner info) \<Longrightarrow>
   main_first ''SCENE'' scene (cinema4dsg_vars info scene renderdir)"
  by (simp add: cinema4dsg_vars_def vars_ok)

section \<open>The property\<close>

lemmas creates = generalsg_create_def mayasg_create_def mentalraysg_create_def blendersg_create_def threedelightsg_create_def
  pixiesg_create_def lightwavesg_create_def nukesg_create_def terragensg_create_def aqsissg_create_def
  mantrasg_create_def aftereffectssg_create_def shakesg_create_def turtlesg_create_def xsisg_create_def
  luxrendersg_create_def vraysg_create_def threedsmaxsg_create_def cinema4dsg_create_def

lemmas vars_main = generalsg_vars_main mayasg_vars_main mentalraysg_vars_main blendersg_vars_main threedelightsg_vars_main
  pixiesg_vars_main lightwavesg_vars_main nukesg_vars_main terragensg_vars_main aqsissg_vars_main
  mantrasg_vars_main aftereffectssg_vars_main shakesg_vars_main turtlesg_vars_main xsisg_vars_main
  luxrendersg_vars_main vraysg_vars_main threedsmaxsg_vars_main cinema4dsg_vars_main

lemma copy_path_bind: "andThen (copy_path s) g = Inr r \<longleftrightarrow> length s < MAXCMDLEN - 1 \<and> g s = Inr r"
  by (simp add: copy_path_def)

lemma write_script_none: "write_script f vs None w \<noteq> (Some f', w')"
  by (simp add: write_script_def Let_def split: prod.splits option.splits)

lemma script_says:
  assumes "write_script (script_file d m t) vs tm w = (Some f, w')" and "main_first n m vs"
  shows "f = script_file d m t \<and> says w f w' n m \<and> (\<forall>g. g \<noteq> f \<longrightarrow> sh_files w' g = sh_files w g)"
  using write_script_says [OF assms] by simp

text \<open>C30. Whatever the renderer, a script that is made is for an input that was given, goes to the file
  of that input in the directory for scripts, and gives the template exactly the input that was asked for - in a file
  that was there before too, as the last setting counts - and no other file changes: as long as the texts
  hold no quotes, backslashes and line ends, which are written as they are.
\<close>

theorem scripts_say_what_was_asked:
  assumes "script_create x w = Inr (Some f, w')" and "\<forall>s \<in> set (script_texts x). quotable s"
  shows "main_input x \<noteq> [] \<and> f = script_file (script_directory x) (main_input x) (sh_now w) \<and>
    says w f w' (main_variable x) (main_input x) \<and> (\<forall>g. g \<noteq> f \<longrightarrow> sh_files w' g = sh_files w g)"
  using assms
  by (cases x) (simp_all add: script_create_def main_input_def main_variable_def script_directory_def script_texts_def
      creates copy_path_bind write_script_none split: if_splits, ((elim conjE)?, erule script_says, rule vars_main; assumption)+)

lemma write_script_returns:
  "sh_appendable w f \<Longrightarrow> \<exists>w'. write_script f vs (Some t) w = (Some f, w')"
  by (simp add: write_script_def jobscript_new_def Let_def)

definition empty_disk :: script_host where
  "empty_disk = \<lparr>sh_files = (\<lambda>_. None), sh_appendable = (\<lambda>_. True), sh_env = (\<lambda>_. None), sh_now = 7\<rparr>"

definition ball_scene :: script_info where
  "ball_scene = BlenderScript \<lparr>blg_scene = ''/shots/ball.blend'', blg_scriptdir = ''/tmp'', blg_render_type = 1\<rparr>"

theorem scripts_say_what_was_asked_witness:
  "\<exists>f w'. script_create ball_scene empty_disk = Inr (Some f, w') \<and>
     main_input ball_scene \<noteq> [] \<and> f = script_file (script_directory ball_scene) (main_input ball_scene) (sh_now empty_disk) \<and>
     says empty_disk f w' (main_variable ball_scene) (main_input ball_scene) \<and> (\<forall>g. g \<noteq> f \<longrightarrow> sh_files w' g = sh_files empty_disk g)"
proof -
  obtain f w' where c: "script_create ball_scene empty_disk = Inr (Some f, w')"
    using write_script_returns [of empty_disk]
    by (fastforce simp: ball_scene_def script_create_def blendersg_create_def copy_path_def MAXCMDLEN_def empty_disk_def)
  have q: "\<forall>s \<in> set (script_texts ball_scene). quotable s"
    by (simp add: ball_scene_def script_texts_def quotable_def)
  show ?thesis using c scripts_say_what_was_asked [OF c q] by blast
qed

end
