(* ===== verification/Common.thy ===== *)
theory Common
  imports Text
begin

unbundle bit_operations_syntax

text \<open>
  The environment that every program of the suite starts from (\<open>common.c\<close>): the directories of an
  installation, which default to subdirectories of \<^verbatim>\<open>DRQUEUE_ROOT\<close>, and the check that they are there.  What \<open>stat\<close>
  tells of a path is its mode, \<open>None\<close> when it fails.
\<close>

section \<open>Defaults\<close>

definition default_dir :: "cstring \<Rightarrow> cstring \<Rightarrow> cstring \<Rightarrow> environ \<Rightarrow> environ" where
  "default_dir name dir drq_root E =
     (if E name = None then putenv (snprintf BUFFERLEN (name @ ''='' @ drq_root @ ''/'' @ dir)) E else E)"

text \<open>\<open>None\<close> when the process exits.  The last character of an empty root is looked for before its start.\<close>

definition set_default_env :: "environ \<Rightarrow> fault + environ option" where
  "set_default_env E = (case E ''DRQUEUE_ROOT'' of None \<Rightarrow> Inr None
     | Some drq_root \<Rightarrow>
         if drq_root = [] then Inl OutOfBounds
         else let drq_root = (if last drq_root = CHR 0x0D then butlast drq_root else drq_root);
                  E = default_dir ''DRQUEUE_TMP'' ''tmp'' drq_root E;
                  E = default_dir ''DRQUEUE_ETC'' ''etc'' drq_root E;
                  E = default_dir ''DRQUEUE_BIN'' ''bin'' drq_root E;
                  E = default_dir ''DRQUEUE_LOGS'' ''logs'' drq_root E
              in Inr (Some (default_dir ''DRQUEUE_DB'' ''db'' drq_root E)))"

section \<open>The check\<close>

datatype env_error = DRE_NOENVMASTER | DRE_NOENVROOT | DRE_NOTMPDIR | DRE_NODBDIR | DRE_NOLOGDIR | DRE_NOBINDIR | DRE_NOETCDIR

definition S_ISDIR :: "u32 \<Rightarrow> bool" where
  "S_ISDIR mode \<longleftrightarrow> mode AND 0xF000 = 0x4000"

abbreviation S_IWUSR :: u32 where "S_IWUSR \<equiv> 0x80"
abbreviation S_IWOTH :: u32 where "S_IWOTH \<equiv> 2"

definition env_dir :: "cstring \<Rightarrow> cstring \<Rightarrow> cstring \<Rightarrow> environ \<Rightarrow> cstring" where
  "env_dir name dir drq_root E = snprintf (BUFFERLEN - 1) (case E name of Some d \<Rightarrow> d | None \<Rightarrow> drq_root @ ''/'' @ dir)"

definition writable_dir :: "u32 \<Rightarrow> u32 option \<Rightarrow> bool" where
  "writable_dir b mode = (case mode of None \<Rightarrow> False | Some m \<Rightarrow> S_ISDIR m \<and> b AND m \<noteq> 0)"

definition common_environment_check :: "(cstring \<Rightarrow> u32 option) \<Rightarrow> environ \<Rightarrow> env_error + unit" where
  "common_environment_check stat E =
     (if E ''DRQUEUE_MASTER'' = None then Inl DRE_NOENVMASTER
      else (case E ''DRQUEUE_ROOT'' of None \<Rightarrow> Inl DRE_NOENVROOT
        | Some drq_root \<Rightarrow>
            if \<not> writable_dir S_IWOTH (stat (env_dir ''DRQUEUE_TMP'' ''tmp'' drq_root E)) then Inl DRE_NOTMPDIR
            else if \<not> writable_dir S_IWUSR (stat (env_dir ''DRQUEUE_DB'' ''db'' drq_root E)) then Inl DRE_NODBDIR
            else if \<not> writable_dir S_IWUSR (stat (env_dir ''DRQUEUE_LOGS'' ''logs'' drq_root E)) then Inl DRE_NOLOGDIR
            else if stat (env_dir ''DRQUEUE_BIN'' ''bin'' drq_root E) = None then Inl DRE_NOBINDIR
            else if stat (env_dir ''DRQUEUE_ETC'' ''etc'' drq_root E) = None then Inl DRE_NOETCDIR
            else Inr ()))"

section \<open>Installations\<close>

text \<open>The directories, with the subdirectory that is the default for each.\<close>

definition env_dirs :: "(cstring \<times> cstring) list" where
  "env_dirs = [(''DRQUEUE_TMP'', ''tmp''), (''DRQUEUE_ETC'', ''etc''), (''DRQUEUE_BIN'', ''bin''),
     (''DRQUEUE_LOGS'', ''logs''), (''DRQUEUE_DB'', ''db'')]"

definition defaults :: "cstring \<Rightarrow> environ" where
  "defaults drq_root = map_of (map (\<lambda>(n, d). (n, drq_root @ ''/'' @ d)) env_dirs)"

lemma default_dir_map:
  assumes "length (name @ ''='' @ drq_root @ ''/'' @ dir) < BUFFERLEN" "CHR ''='' \<notin> set name"
  shows "default_dir name dir drq_root E = [name \<mapsto> drq_root @ ''/'' @ dir] ++ E"
  using assms putenv_set [of name "drq_root @ ''/'' @ dir" E]
  by (auto simp: default_dir_def map_add_def fun_eq_iff split: option.splits)

lemma set_default_env_defaults:
  assumes "E ''DRQUEUE_ROOT'' = Some r" "r \<noteq> []" "last r \<noteq> CHR 0x0D" "length r < 4000"
  shows "set_default_env E = Inr (Some (defaults r ++ E))"
  using assms
  by (simp add: set_default_env_def default_dir_map max_defs) (auto simp: defaults_def env_dirs_def map_add_def fun_eq_iff split: option.splits)

end
