(* ===== verification/Sendjob.thy ===== *)
theory Sendjob
  imports Scripts Client Common
begin

text \<open>
  \<open>sendjob.cpp\<close>: a file describes a job, line by line, and the program makes its script and registers it with the
  master.  Local variables and structures that are read without having been set hold what was in memory: \<open>J\<close> for the integers, and
  the structure of a generator as it is passed in.  A string that \<open>strncpy\<close> leaves without an end counts as a
  fault where it is copied, and so does a variable of the environment that is not set and is used as a string.
\<close>

section \<open>Input streams\<close>

text \<open>
  What is left of a \<open>std::ifstream\<close>, and whether it is still good: once the end or an error was met, no operation
  reads anything, and the variable keeps its value.
\<close>

record istream =
  is_rest :: cstring
  is_good :: bool

definition getline :: "cstring \<Rightarrow> istream \<Rightarrow> cstring \<times> istream" where
  "getline old s =
     (if \<not> is_good s then (old, s)
      else (case split_at (CHR 0x0A) (is_rest s) of
          Some (l, r) \<Rightarrow> (l, s\<lparr>is_rest := r\<rparr>)
        | None \<Rightarrow> (is_rest s, \<lparr>is_rest = [], is_good = False\<rparr>)))"

definition is_space :: "char \<Rightarrow> bool" where
  "is_space c \<longleftrightarrow> c = CHR '' '' \<or> 9 \<le> (of_char c :: nat) \<and> (of_char c :: nat) \<le> 13"

text \<open>A decimal number with an optional sign, and what follows it.\<close>

definition scan_int :: "cstring \<Rightarrow> int option \<times> cstring" where
  "scan_int t =
     (let neg = (t \<noteq> [] \<and> hd t = CHR ''-'');
          u = (if t \<noteq> [] \<and> (hd t = CHR ''-'' \<or> hd t = CHR ''+'') then tl t else t);
          ds = takeWhile is_digit u
      in (if ds = [] then None else Some (if neg then - int (read_dec ds) else int (read_dec ds)),
          dropWhile is_digit u))"

definition INT_MAX :: int where "INT_MAX = 2147483647"
definition INT_MIN :: int where "INT_MIN = -2147483648"

text \<open>\<open>operator>>\<close> for an \<open>int\<close>: nothing to read fails and stores 0, and a number beyond the range stores the bound.\<close>

definition read_int :: "u32 \<Rightarrow> istream \<Rightarrow> u32 \<times> istream" where
  "read_int old s =
     (let t = dropWhile is_space (is_rest s)
      in if \<not> is_good s then (old, s)
         else if t = [] then (old, \<lparr>is_rest = [], is_good = False\<rparr>)
         else (case scan_int t of
             (None, r) \<Rightarrow> (0, \<lparr>is_rest = r, is_good = False\<rparr>)
           | (Some n, r) \<Rightarrow>
               if n > INT_MAX then (of_int INT_MAX, \<lparr>is_rest = r, is_good = False\<rparr>)
               else if n < INT_MIN then (of_int INT_MIN, \<lparr>is_rest = r, is_good = False\<rparr>)
               else (of_int n, \<lparr>is_rest = r, is_good = r \<noteq> []\<rparr>)))"

section \<open>The sender\<close>

text \<open>
  The machine, the connections the master will accept, the memory of the client with its segments, and what the
  operating system tells of the user.
\<close>

record sender =
  sd_host :: script_host
  sd_conns :: "conn option list"
  sd_world :: master
  sd_junk :: u32
  sd_stat :: "cstring \<Rightarrow> u32 option"
  sd_login :: "cstring option"
  sd_cwd :: "cstring option"
  sd_uid :: u32
  sd_gid :: u32

text \<open>The exit code of a function, what came of its registration, and the machine and the file after it.\<close>

type_synonym submitted = "fault + int \<times> job reply option \<times> sender \<times> istream"

definition getenv :: "sender \<Rightarrow> cstring \<Rightarrow> fault + cstring" where
  "getenv S name = (case sh_env (sd_host S) name of None \<Rightarrow> Inl WildPointer | Some s \<Rightarrow> Inr s)"

definition connect :: "sender \<Rightarrow> conn option \<times> sender" where
  "connect S = (case sd_conns S of [] \<Rightarrow> (None, S) | c # cs \<Rightarrow> (c, S\<lparr>sd_conns := cs\<rparr>))"

text \<open>\<open>strncpy\<close> into an array that was never set, and into one of a job, which \<open>job_init\<close> has set to zeros.\<close>

definition fill :: "nat \<Rightarrow> cstring \<Rightarrow> fault + cstring" where
  "fill n s = (if length s < n then Inr s else Inl OutOfBounds)"

definition put :: "nat \<Rightarrow> cstring \<Rightarrow> cstring" where
  "put n s = strncpy (n - 1) (cstr s)"

text \<open>The end of every function: without a script it fails, otherwise the job is registered.\<close>

definition submit :: "cstring option \<times> script_host \<Rightarrow> (cstring \<Rightarrow> job) \<Rightarrow> sender \<Rightarrow> istream \<Rightarrow> submitted" where
  "submit script job_of S s =
     (let S = S\<lparr>sd_host := snd script\<rparr>
      in (case fst script of None \<Rightarrow> Inr (1, None, S, s)
        | Some pathToScript \<Rightarrow>
            (let (sfd, S) = connect S
             in andThen (register_job (sd_junk S) (job_of pathToScript) sfd (sd_world S)) (\<lambda>r.
                  Inr (case fst r of Inl _ \<Rightarrow> 1 | Inr _ \<Rightarrow> 0, Some r, S, s)))))"

section \<open>Kinds of jobs\<close>

abbreviation KOJ_GENERAL :: u16 where "KOJ_GENERAL \<equiv> 0"
abbreviation KOJ_MAYA :: u16 where "KOJ_MAYA \<equiv> 1"
abbreviation KOJ_BLENDER :: u16 where "KOJ_BLENDER \<equiv> 2"
abbreviation KOJ_3DELIGHT :: u16 where "KOJ_3DELIGHT \<equiv> 4"
abbreviation KOJ_PIXIE :: u16 where "KOJ_PIXIE \<equiv> 5"
abbreviation KOJ_MENTALRAY :: u16 where "KOJ_MENTALRAY \<equiv> 6"
abbreviation KOJ_LIGHTWAVE :: u16 where "KOJ_LIGHTWAVE \<equiv> 7"
abbreviation KOJ_AFTEREFFECTS :: u16 where "KOJ_AFTEREFFECTS \<equiv> 8"
abbreviation KOJ_SHAKE :: u16 where "KOJ_SHAKE \<equiv> 9"
abbreviation KOJ_AQSIS :: u16 where "KOJ_AQSIS \<equiv> 10"
abbreviation KOJ_TERRAGEN :: u16 where "KOJ_TERRAGEN \<equiv> 11"
abbreviation KOJ_NUKE :: u16 where "KOJ_NUKE \<equiv> 12"
abbreviation KOJ_MANTRA :: u16 where "KOJ_MANTRA \<equiv> 14"
abbreviation KOJ_XSI :: u16 where "KOJ_XSI \<equiv> 15"
abbreviation KOJ_LUXRENDER :: u16 where "KOJ_LUXRENDER \<equiv> 16"

abbreviation TOJ_NONE :: nat where "TOJ_NONE \<equiv> 0"
abbreviation TOJ_MAYA :: nat where "TOJ_MAYA \<equiv> 1"
abbreviation TOJ_BLENDER :: nat where "TOJ_BLENDER \<equiv> 2"
abbreviation TOJ_THREEDELIGHT :: nat where "TOJ_THREEDELIGHT \<equiv> 4"
abbreviation TOJ_PIXIE :: nat where "TOJ_PIXIE \<equiv> 5"
abbreviation TOJ_MENTALRAY :: nat where "TOJ_MENTALRAY \<equiv> 6"
abbreviation TOJ_LIGHTWAVE :: nat where "TOJ_LIGHTWAVE \<equiv> 7"
abbreviation TOJ_AFTEREFFECTS :: nat where "TOJ_AFTEREFFECTS \<equiv> 8"
abbreviation TOJ_SHAKE :: nat where "TOJ_SHAKE \<equiv> 9"
abbreviation TOJ_AQSIS :: nat where "TOJ_AQSIS \<equiv> 10"
abbreviation TOJ_TERRAGEN :: nat where "TOJ_TERRAGEN \<equiv> 11"
abbreviation TOJ_NUKE :: nat where "TOJ_NUKE \<equiv> 12"
abbreviation TOJ_MANTRA :: nat where "TOJ_MANTRA \<equiv> 14"
abbreviation TOJ_XSI :: nat where "TOJ_XSI \<equiv> 15"
abbreviation TOJ_LUXRENDER :: nat where "TOJ_LUXRENDER \<equiv> 16"
abbreviation TOJ_GENERAL :: nat where "TOJ_GENERAL \<equiv> 17"

abbreviation OSF_ALL :: u16 where "OSF_ALL \<equiv> 0xFFFF"

text \<open>\<open>strstr\<close>, and the search that lets any name that contains the name of a renderer stand for it.\<close>

fun strstr :: "cstring \<Rightarrow> cstring \<Rightarrow> bool" where
  "strstr [] needle = (needle = [])"
| "strstr (c # s) needle = (take (length needle) (c # s) = needle \<or> strstr s needle)"

definition str2toj :: "cstring \<Rightarrow> nat" where
  "str2toj str =
     (if strstr str ''general'' then TOJ_GENERAL
      else if strstr str ''maya'' then TOJ_MAYA
      else if strstr str ''mentalray'' then TOJ_MENTALRAY
      else if strstr str ''blender'' then TOJ_BLENDER
      else if strstr str ''3delight'' then TOJ_THREEDELIGHT
      else if strstr str ''aqsis'' then TOJ_AQSIS
      else if strstr str ''mantra'' then TOJ_MANTRA
      else if strstr str ''lightwave'' then TOJ_LIGHTWAVE
      else if strstr str ''pixie'' then TOJ_PIXIE
      else if strstr str ''aftereffects'' then TOJ_AFTEREFFECTS
      else if strstr str ''shake'' then TOJ_SHAKE
      else if strstr str ''nuke'' then TOJ_NUKE
      else if strstr str ''terragen'' then TOJ_TERRAGEN
      else if strstr str ''xsi'' then TOJ_XSI
      else if strstr str ''luxrender'' then TOJ_LUXRENDER
      else TOJ_NONE)"

section \<open>A general job\<close>

text \<open>
  The script is the file itself, so that nothing is read from it.  \<open>strncpy\<close> pads with zeros up to \<open>BUFFERLEN - 1\<close>
  bytes, in a field of \<open>MAXNAMELEN\<close>.
\<close>

definition RegisterGeneralJob :: "sender \<Rightarrow> generalsgi \<Rightarrow> cstring \<Rightarrow> u32 \<Rightarrow> u32 \<Rightarrow> u32 \<Rightarrow> istream \<Rightarrow> submitted" where
  "RegisterGeneralJob S generalSgi infile frameStart frameEnd frameStep s =
     andThen (getenv S ''USER'') (\<lambda>user.
     let job = job_init user zero_job
     in
     andThen (fill (BUFFERLEN - 1) infile) (\<lambda>c_script.
     andThen (case sh_env (sd_host S) ''DRQUEUE_TMP'' of Some tmpPath \<Rightarrow> Inr (snprintf BUFFERLEN tmpPath)
              | None \<Rightarrow> andThen (getenv S ''DRQUEUE_ROOT'') (\<lambda>root. Inr (snprintf BUFFERLEN (root @ ''/tmp/'')))) (\<lambda>c_scriptdir.
     let generalSgi = generalSgi\<lparr>geg_script := c_script, geg_uid_owner := sd_uid S, geg_gid_owner := sd_gid S, geg_scriptdir := c_scriptdir\<rparr>
     in
     andThen (generalsg_create generalSgi (sd_host S)) (\<lambda>script.
       if fst script = None then Inr (1, None, S\<lparr>sd_host := snd script\<rparr>, s)
       else if BUFFERLEN - 1 > MAXNAMELEN then Inl OutOfBounds
       else (case (sd_login S, sd_cwd S) of
           (Some owner, Some scriptdir) \<Rightarrow>
             submit script (\<lambda>path. job\<lparr>j_status := JOBSTATUS_WAITING, j_envvars := (j_envvars job)\<lparr>nvariables := 0, evshmid := -1\<rparr>, j_flags := 0,
               j_name := put BUFFERLEN infile, j_owner := put BUFFERLEN owner, j_cmd := strncpy (MAXCMDLEN - 1) path,
               frame_start := frameStart, frame_end := frameEnd, frame_step := frameStep, block_size := 1, j_priority := 500,
               koj := KOJ_GENERAL, koji := KojiGeneral (strncpy PATH_MAX scriptdir),
               limits := \<lparr>jl_nmaxcpus = -1, jl_nmaxcpuscomputer = -1, jl_os_flags = OSF_ALL, jl_memory = 0, jl_pool = strncpy (MAXNAMELEN - 1) ''Default''\<rparr>\<rparr>) S s
         | _ \<Rightarrow> Inl WildPointer)))))"

section \<open>A job from a file\<close>

definition RegisterMayaJobFromFile ::
    "sender \<Rightarrow> (nat \<Rightarrow> u32) \<Rightarrow> mayasgi \<Rightarrow> istream \<Rightarrow> submitted" where
  "RegisterMayaJobFromFile S J mayaSgi s =
     andThen (getenv S ''USER'') (\<lambda>user.
     let job = job_init user zero_job;
         (owner, s) = getline [] s;
         (jobName, s) = getline [] s;
         (camera, s) = getline [] s;
         (renderer, s) = read_int (J 0) s;
         (frameStart, s) = read_int (J 1) s;
         (frameEnd, s) = read_int (J 2) s;
         (frameStep, s) = read_int (J 3) s;
         (resX, s) = read_int (J 4) s;
         (resY, s) = read_int (J 5) s;
         (scenePath, s) = getline [] s;
         (scenePath, s) = getline scenePath s;
         (renderDir, s) = getline [] s;
         (projectDir, s) = getline [] s;
         (fileFormat, s) = getline [] s;
         (image, s) = getline [] s
     in
     andThen (fill (BUFFERLEN - 1) (cstr renderDir)) (\<lambda>c_renderdir.
     andThen (fill (BUFFERLEN - 1) (cstr projectDir)) (\<lambda>c_projectdir.
     andThen (fill (BUFFERLEN - 1) (cstr scenePath)) (\<lambda>c_scene.
     andThen (fill (BUFFERLEN - 1) (cstr image)) (\<lambda>c_image.
     andThen (getenv S ''DRQUEUE_ROOT'') (\<lambda>root.
     andThen (fill (BUFFERLEN - 1) (cstr owner)) (\<lambda>c_file_owner.
     andThen (fill (BUFFERLEN - 1) (cstr camera)) (\<lambda>c_camera.
     andThen (fill (BUFFERLEN - 1) (cstr fileFormat)) (\<lambda>c_format.
     let mayaSgi = mayaSgi\<lparr>myg_renderer := ucast renderer, myg_renderdir := c_renderdir, myg_projectdir := c_projectdir,
           myg_scene := c_scene, myg_image := c_image, myg_scriptdir := snprintf BUFFERLEN (root @ ''/tmp/''),
           myg_file_owner := c_file_owner, myg_camera := c_camera, myg_res_x := resX,
           myg_res_y := resY, myg_format := c_format\<rparr>
     in
     andThen (mayasg_create mayaSgi (sd_host S)) (\<lambda>script.
     submit script (\<lambda>path. job\<lparr>j_name := put MAXNAMELEN jobName, j_cmd := strncpy (MAXCMDLEN - 1) path,
          j_owner := put MAXNAMELEN owner, j_email := put MAXNAMELEN owner,
          frame_start := frameStart, frame_end := frameEnd,
          frame_step := frameStep, frame_pad := 4,
          koj := KOJ_MAYA, koji := KojiMaya (put BUFFERLEN scenePath) (put BUFFERLEN renderDir) (put BUFFERLEN projectDir) [] [] [] []\<rparr>) S s))))))))))"

definition RegisterMentalrayJobFromFile ::
    "sender \<Rightarrow> (nat \<Rightarrow> u32) \<Rightarrow> mentalraysgi \<Rightarrow> istream \<Rightarrow> submitted" where
  "RegisterMentalrayJobFromFile S J mentalraySgi s =
     andThen (getenv S ''USER'') (\<lambda>user.
     let job = job_init user zero_job;
         (owner, s) = getline [] s;
         (jobName, s) = getline [] s;
         (camera, s) = getline [] s;
         (frameStart, s) = read_int (J 0) s;
         (frameEnd, s) = read_int (J 1) s;
         (frameStep, s) = read_int (J 2) s;
         (resX, s) = read_int (J 3) s;
         (resY, s) = read_int (J 4) s;
         (scenePath, s) = getline [] s;
         (scenePath, s) = getline scenePath s;
         (renderDir, s) = getline [] s;
         (fileFormat, s) = getline [] s;
         (image, s) = getline [] s
     in
     andThen (fill (BUFFERLEN - 1) (cstr owner)) (\<lambda>c_file_owner.
     andThen (fill (BUFFERLEN - 1) (cstr camera)) (\<lambda>c_camera.
     andThen (fill (BUFFERLEN - 1) (cstr scenePath)) (\<lambda>c_scene.
     andThen (fill (BUFFERLEN - 1) (cstr renderDir)) (\<lambda>c_renderdir.
     andThen (fill (BUFFERLEN - 1) (cstr fileFormat)) (\<lambda>c_format.
     andThen (getenv S ''DRQUEUE_ROOT'') (\<lambda>root.
     andThen (fill (BUFFERLEN - 1) (cstr image)) (\<lambda>c_image.
     let mentalraySgi = mentalraySgi\<lparr>mrg_file_owner := c_file_owner, mrg_camera := c_camera, mrg_res_x := resX,
           mrg_res_y := resY, mrg_scene := c_scene, mrg_renderdir := c_renderdir,
           mrg_format := c_format, mrg_scriptdir := snprintf BUFFERLEN (root @ ''/tmp/''), mrg_image := c_image\<rparr>;
         job = job\<lparr>autoRequeue := 1\<rparr>
     in
     andThen (mentalraysg_create mentalraySgi (sd_host S)) (\<lambda>script.
     submit script (\<lambda>path. job\<lparr>j_name := put MAXNAMELEN jobName, j_cmd := strncpy (MAXCMDLEN - 1) path,
          j_owner := put MAXNAMELEN owner, j_email := put MAXNAMELEN owner,
          frame_start := frameStart, frame_end := frameEnd,
          frame_step := frameStep, j_priority := 500,
          koj := KOJ_MENTALRAY, koji := KojiMentalray (put BUFFERLEN scenePath) (put BUFFERLEN renderDir) [] [],
          limits := \<lparr>jl_nmaxcpus = -1, jl_nmaxcpuscomputer = -1, jl_os_flags = OSF_ALL, jl_memory = 0, jl_pool = strncpy (MAXNAMELEN - 1) ''Default''\<rparr>\<rparr>) S s)))))))))"

definition RegisterBlenderJobFromFile ::
    "sender \<Rightarrow> (nat \<Rightarrow> u32) \<Rightarrow> blendersgi \<Rightarrow> istream \<Rightarrow> submitted" where
  "RegisterBlenderJobFromFile S J blenderSgi s =
     andThen (getenv S ''USER'') (\<lambda>user.
     let job = job_init user zero_job;
         (jobName, s) = getline [] s;
         (frameStart, s) = read_int (J 0) s;
         (frameEnd, s) = read_int (J 1) s;
         (frameStep, s) = read_int (J 2) s;
         (render_type, s) = read_int (J 3) s;
         (scenePath, s) = getline [] s;
         (scenePath, s) = getline scenePath s
     in
     andThen (fill (BUFFERLEN - 1) (cstr scenePath)) (\<lambda>c_scene.
     andThen (getenv S ''DRQUEUE_ROOT'') (\<lambda>root.
     let blenderSgi = blenderSgi\<lparr>blg_scene := c_scene, blg_scriptdir := snprintf BUFFERLEN (root @ ''/tmp/''), blg_render_type := ucast render_type\<rparr>;
         job = job\<lparr>autoRequeue := 1\<rparr>
     in
     andThen (blendersg_create blenderSgi (sd_host S)) (\<lambda>script.
     submit script (\<lambda>path. job\<lparr>j_name := put MAXNAMELEN jobName, j_cmd := strncpy (MAXCMDLEN - 1) path,
          j_owner := put MAXNAMELEN user, j_email := put MAXNAMELEN user,
          frame_start := frameStart, frame_end := frameEnd,
          frame_step := frameStep, block_size := frameStep,
          j_priority := 500, koj := KOJ_BLENDER,
          koji := KojiBlender (put BUFFERLEN scenePath) [], limits := \<lparr>jl_nmaxcpus = -1, jl_nmaxcpuscomputer = -1, jl_os_flags = OSF_ALL, jl_memory = 0, jl_pool = strncpy (MAXNAMELEN - 1) ''Default''\<rparr>\<rparr>) S s))))"

definition RegisterLightwaveJobFromFile ::
    "sender \<Rightarrow> (nat \<Rightarrow> u32) \<Rightarrow> lightwavesgi \<Rightarrow> istream \<Rightarrow> submitted" where
  "RegisterLightwaveJobFromFile S J lightwaveSgi s =
     andThen (getenv S ''USER'') (\<lambda>user.
     let job = job_init user zero_job;
         (owner, s) = getline [] s;
         (jobName, s) = getline [] s;
         (frameStart, s) = read_int (J 0) s;
         (frameEnd, s) = read_int (J 1) s;
         (frameStep, s) = read_int (J 2) s;
         (scenePath, s) = getline [] s;
         (scenePath, s) = getline scenePath s;
         (configDir, s) = getline [] s;
         (projectDir, s) = getline [] s
     in
     andThen (fill (BUFFERLEN - 1) (cstr scenePath)) (\<lambda>c_scene.
     andThen (fill (BUFFERLEN - 1) (cstr configDir)) (\<lambda>c_configdir.
     andThen (fill (BUFFERLEN - 1) (cstr projectDir)) (\<lambda>c_projectdir.
     andThen (getenv S ''DRQUEUE_ROOT'') (\<lambda>root.
     let lightwaveSgi = lightwaveSgi\<lparr>lwg_scene := c_scene, lwg_configdir := c_configdir, lwg_projectdir := c_projectdir,
           lwg_scriptdir := snprintf BUFFERLEN (root @ ''/tmp/'')\<rparr>;
         job = job\<lparr>autoRequeue := 1\<rparr>
     in
     andThen (lightwavesg_create lightwaveSgi (sd_host S)) (\<lambda>script.
     submit script (\<lambda>path. job\<lparr>j_name := put MAXNAMELEN jobName, j_cmd := strncpy (MAXCMDLEN - 1) path,
          j_owner := put MAXNAMELEN owner, j_email := put MAXNAMELEN owner,
          frame_start := frameStart, frame_end := frameEnd,
          frame_step := frameStep, j_priority := 500,
          koj := KOJ_LIGHTWAVE, koji := KojiLightwave (put BUFFERLEN scenePath) (put BUFFERLEN projectDir) (put BUFFERLEN configDir) [],
          limits := \<lparr>jl_nmaxcpus = -1, jl_nmaxcpuscomputer = -1, jl_os_flags = OSF_ALL, jl_memory = 0, jl_pool = strncpy (MAXNAMELEN - 1) ''Default''\<rparr>\<rparr>) S s))))))"

definition RegisterTerragenJobFromFile ::
    "sender \<Rightarrow> (nat \<Rightarrow> u32) \<Rightarrow> terragensgi \<Rightarrow> istream \<Rightarrow> submitted" where
  "RegisterTerragenJobFromFile S J terragenSgi s =
     andThen (getenv S ''USER'') (\<lambda>user.
     let job = job_init user zero_job;
         (owner, s) = getline [] s;
         (jobName, s) = getline [] s;
         (frameStart, s) = read_int (J 0) s;
         (frameEnd, s) = read_int (J 1) s;
         (frameStep, s) = read_int (J 2) s;
         (scenePath, s) = getline [] s;
         (scenePath, s) = getline scenePath s;
         (worldfile, s) = getline [] s;
         (terrainfile, s) = getline [] s
     in
     andThen (fill (BUFFERLEN - 1) (cstr owner)) (\<lambda>c_file_owner.
     andThen (fill (BUFFERLEN - 1) (cstr scenePath)) (\<lambda>c_scriptfile.
     andThen (fill (BUFFERLEN - 1) (cstr worldfile)) (\<lambda>c_worldfile.
     andThen (fill (BUFFERLEN - 1) (cstr terrainfile)) (\<lambda>c_terrainfile.
     andThen (getenv S ''DRQUEUE_ROOT'') (\<lambda>root.
     let terragenSgi = terragenSgi\<lparr>tgg_file_owner := c_file_owner, tgg_scriptfile := c_scriptfile, tgg_worldfile := c_worldfile,
           tgg_terrainfile := c_terrainfile, tgg_scriptdir := snprintf BUFFERLEN (root @ ''/tmp/'')\<rparr>;
         job = job\<lparr>autoRequeue := 1\<rparr>
     in
     andThen (terragensg_create terragenSgi (sd_host S)) (\<lambda>script.
     submit script (\<lambda>path. job\<lparr>j_name := put MAXNAMELEN jobName, j_cmd := strncpy (MAXCMDLEN - 1) path,
          j_owner := put MAXNAMELEN owner, j_email := put MAXNAMELEN owner,
          frame_start := frameStart, frame_end := frameEnd,
          frame_step := frameStep, j_priority := 500,
          koj := KOJ_TERRAGEN, koji := KojiTerragen (put BUFFERLEN scenePath) (put BUFFERLEN worldfile) (put BUFFERLEN terrainfile) [],
          limits := \<lparr>jl_nmaxcpus = -1, jl_nmaxcpuscomputer = -1, jl_os_flags = OSF_ALL, jl_memory = 0, jl_pool = strncpy (MAXNAMELEN - 1) ''Default''\<rparr>\<rparr>) S s)))))))"

definition RegisterShakeJobFromFile ::
    "sender \<Rightarrow> (nat \<Rightarrow> u32) \<Rightarrow> shakesgi \<Rightarrow> istream \<Rightarrow> submitted" where
  "RegisterShakeJobFromFile S J shakeSgi s =
     andThen (getenv S ''USER'') (\<lambda>user.
     let job = job_init user zero_job;
         (owner, s) = getline [] s;
         (jobName, s) = getline [] s;
         (frameStart, s) = read_int (J 0) s;
         (frameEnd, s) = read_int (J 1) s;
         (frameStep, s) = read_int (J 2) s;
         (scenePath, s) = getline [] s;
         (scenePath, s) = getline scenePath s
     in
     andThen (fill (BUFFERLEN - 1) (cstr scenePath)) (\<lambda>c_script.
     andThen (getenv S ''DRQUEUE_ROOT'') (\<lambda>root.
     let shakeSgi = shakeSgi\<lparr>shg_script := c_script, shg_scriptdir := snprintf BUFFERLEN (root @ ''/tmp/'')\<rparr>;
         job = job\<lparr>autoRequeue := 1\<rparr>
     in
     andThen (shakesg_create shakeSgi (sd_host S)) (\<lambda>script.
     submit script (\<lambda>path. job\<lparr>j_name := put MAXNAMELEN jobName, j_cmd := strncpy (MAXCMDLEN - 1) path,
          j_owner := put MAXNAMELEN owner, j_email := put MAXNAMELEN owner,
          frame_start := frameStart, frame_end := frameEnd,
          frame_step := frameStep, j_priority := 500,
          koj := KOJ_SHAKE, koji := KojiShake (put BUFFERLEN scenePath) [],
          limits := \<lparr>jl_nmaxcpus = -1, jl_nmaxcpuscomputer = -1, jl_os_flags = OSF_ALL, jl_memory = 0, jl_pool = strncpy (MAXNAMELEN - 1) ''Default''\<rparr>\<rparr>) S s))))"

definition RegisterNukeJobFromFile ::
    "sender \<Rightarrow> (nat \<Rightarrow> u32) \<Rightarrow> nukesgi \<Rightarrow> istream \<Rightarrow> submitted" where
  "RegisterNukeJobFromFile S J nukeSgi s =
     andThen (getenv S ''USER'') (\<lambda>user.
     let job = job_init user zero_job;
         (owner, s) = getline [] s;
         (jobName, s) = getline [] s;
         (frameStart, s) = read_int (J 0) s;
         (frameEnd, s) = read_int (J 1) s;
         (frameStep, s) = read_int (J 2) s;
         (scenePath, s) = getline [] s;
         (scenePath, s) = getline scenePath s
     in
     andThen (fill (BUFFERLEN - 1) (cstr scenePath)) (\<lambda>c_scene.
     andThen (getenv S ''DRQUEUE_ROOT'') (\<lambda>root.
     let nukeSgi = nukeSgi\<lparr>nkg_scene := c_scene, nkg_scriptdir := snprintf BUFFERLEN (root @ ''/tmp/'')\<rparr>;
         job = job\<lparr>autoRequeue := 1\<rparr>
     in
     andThen (nukesg_create nukeSgi (sd_host S)) (\<lambda>script.
     submit script (\<lambda>path. job\<lparr>j_name := put MAXNAMELEN jobName, j_cmd := strncpy (MAXCMDLEN - 1) path,
          j_owner := put MAXNAMELEN owner, j_email := put MAXNAMELEN owner,
          frame_start := frameStart, frame_end := frameEnd,
          frame_step := frameStep, j_priority := 500,
          koj := KOJ_NUKE, koji := KojiNuke (put BUFFERLEN scenePath) [],
          limits := \<lparr>jl_nmaxcpus = -1, jl_nmaxcpuscomputer = -1, jl_os_flags = OSF_ALL, jl_memory = 0, jl_pool = strncpy (MAXNAMELEN - 1) ''Default''\<rparr>\<rparr>) S s))))"

definition RegisterThreedelightJobFromFile ::
    "sender \<Rightarrow> (nat \<Rightarrow> u32) \<Rightarrow> threedelightsgi \<Rightarrow> istream \<Rightarrow> submitted" where
  "RegisterThreedelightJobFromFile S J threedelightSgi s =
     andThen (getenv S ''USER'') (\<lambda>user.
     let job = job_init user zero_job;
         (owner, s) = getline [] s;
         (jobName, s) = getline [] s;
         (frameStart, s) = read_int (J 0) s;
         (frameEnd, s) = read_int (J 1) s;
         (frameStep, s) = read_int (J 2) s;
         (scenePath, s) = getline [] s;
         (scenePath, s) = getline scenePath s
     in
     andThen (fill (BUFFERLEN - 1) (cstr owner)) (\<lambda>c_file_owner.
     andThen (fill (BUFFERLEN - 1) (cstr scenePath)) (\<lambda>c_scene.
     andThen (getenv S ''DRQUEUE_ROOT'') (\<lambda>root.
     let threedelightSgi = threedelightSgi\<lparr>tdg_file_owner := c_file_owner, tdg_scene := c_scene, tdg_scriptdir := snprintf BUFFERLEN (root @ ''/tmp/'')\<rparr>;
         job = job\<lparr>autoRequeue := 1\<rparr>
     in
     andThen (threedelightsg_create threedelightSgi (sd_host S)) (\<lambda>script.
     submit script (\<lambda>path. job\<lparr>j_name := put MAXNAMELEN jobName, j_cmd := strncpy (MAXCMDLEN - 1) path,
          j_owner := put MAXNAMELEN owner, j_email := put MAXNAMELEN owner,
          frame_start := frameStart, frame_end := frameEnd,
          frame_step := frameStep, j_priority := 500,
          koj := KOJ_3DELIGHT, koji := Koji3delight (put BUFFERLEN scenePath) [],
          limits := \<lparr>jl_nmaxcpus = -1, jl_nmaxcpuscomputer = -1, jl_os_flags = OSF_ALL, jl_memory = 0, jl_pool = strncpy (MAXNAMELEN - 1) ''Default''\<rparr>\<rparr>) S s)))))"

definition RegisterPixieJobFromFile ::
    "sender \<Rightarrow> (nat \<Rightarrow> u32) \<Rightarrow> pixiesgi \<Rightarrow> istream \<Rightarrow> submitted" where
  "RegisterPixieJobFromFile S J pixieSgi s =
     andThen (getenv S ''USER'') (\<lambda>user.
     let job = job_init user zero_job;
         (owner, s) = getline [] s;
         (jobName, s) = getline [] s;
         (frameStart, s) = read_int (J 0) s;
         (frameEnd, s) = read_int (J 1) s;
         (frameStep, s) = read_int (J 2) s;
         (scenePath, s) = getline [] s;
         (scenePath, s) = getline scenePath s
     in
     andThen (fill (BUFFERLEN - 1) (cstr scenePath)) (\<lambda>c_scene.
     andThen (getenv S ''DRQUEUE_ROOT'') (\<lambda>root.
     let pixieSgi = pixieSgi\<lparr>pxg_scene := c_scene, pxg_scriptdir := snprintf BUFFERLEN (root @ ''/tmp/'')\<rparr>;
         job = job\<lparr>autoRequeue := 1\<rparr>
     in
     andThen (pixiesg_create pixieSgi (sd_host S)) (\<lambda>script.
     submit script (\<lambda>path. job\<lparr>j_name := put MAXNAMELEN jobName, j_cmd := strncpy (MAXCMDLEN - 1) path,
          j_owner := put MAXNAMELEN owner, j_email := put MAXNAMELEN owner,
          frame_start := frameStart, frame_end := frameEnd,
          frame_step := frameStep, j_priority := 500,
          koj := KOJ_PIXIE, koji := KojiPixie (put BUFFERLEN scenePath) [],
          limits := \<lparr>jl_nmaxcpus = -1, jl_nmaxcpuscomputer = -1, jl_os_flags = OSF_ALL, jl_memory = 0, jl_pool = strncpy (MAXNAMELEN - 1) ''Default''\<rparr>\<rparr>) S s))))"

definition RegisterAftereffectsJobFromFile ::
    "sender \<Rightarrow> (nat \<Rightarrow> u32) \<Rightarrow> aftereffectssgi \<Rightarrow> istream \<Rightarrow> submitted" where
  "RegisterAftereffectsJobFromFile S J aftereffectsSgi s =
     andThen (getenv S ''USER'') (\<lambda>user.
     let job = job_init user zero_job;
         (owner, s) = getline [] s;
         (jobName, s) = getline [] s;
         (frameStart, s) = read_int (J 0) s;
         (frameEnd, s) = read_int (J 1) s;
         (frameStep, s) = read_int (J 2) s;
         (scenePath, s) = getline [] s;
         (scenePath, s) = getline scenePath s;
         (comp, s) = getline [] s
     in
     andThen (fill (BUFFERLEN - 1) (cstr scenePath)) (\<lambda>c_project.
     andThen (fill (BUFFERLEN - 1) (cstr comp)) (\<lambda>c_comp.
     andThen (getenv S ''DRQUEUE_ROOT'') (\<lambda>root.
     let aftereffectsSgi = aftereffectsSgi\<lparr>aeg_project := c_project, aeg_comp := c_comp, aeg_scriptdir := snprintf BUFFERLEN (root @ ''/tmp/'')\<rparr>;
         job = job\<lparr>autoRequeue := 1\<rparr>
     in
     andThen (aftereffectssg_create aftereffectsSgi (sd_host S)) (\<lambda>script.
     submit script (\<lambda>path. job\<lparr>j_name := put MAXNAMELEN jobName, j_cmd := strncpy (MAXCMDLEN - 1) path,
          j_owner := put MAXNAMELEN owner, j_email := put MAXNAMELEN owner,
          frame_start := frameStart, frame_end := frameEnd,
          frame_step := frameStep, j_priority := 500,
          koj := KOJ_AFTEREFFECTS, koji := KojiAftereffects (put BUFFERLEN scenePath) (put BUFFERLEN comp) [],
          limits := \<lparr>jl_nmaxcpus = -1, jl_nmaxcpuscomputer = -1, jl_os_flags = OSF_ALL, jl_memory = 0, jl_pool = strncpy (MAXNAMELEN - 1) ''Default''\<rparr>\<rparr>) S s)))))"

definition RegisterAqsisJobFromFile ::
    "sender \<Rightarrow> (nat \<Rightarrow> u32) \<Rightarrow> aqsissgi \<Rightarrow> istream \<Rightarrow> submitted" where
  "RegisterAqsisJobFromFile S J aqsisSgi s =
     andThen (getenv S ''USER'') (\<lambda>user.
     let job = job_init user zero_job;
         (owner, s) = getline [] s;
         (jobName, s) = getline [] s;
         (frameStart, s) = read_int (J 0) s;
         (frameEnd, s) = read_int (J 1) s;
         (frameStep, s) = read_int (J 2) s;
         (scenePath, s) = getline [] s;
         (scenePath, s) = getline scenePath s
     in
     andThen (fill (BUFFERLEN - 1) (cstr scenePath)) (\<lambda>c_scene.
     andThen (getenv S ''DRQUEUE_ROOT'') (\<lambda>root.
     let aqsisSgi = aqsisSgi\<lparr>aqg_scene := c_scene, aqg_scriptdir := snprintf BUFFERLEN (root @ ''/tmp/'')\<rparr>;
         job = job\<lparr>autoRequeue := 1\<rparr>
     in
     andThen (aqsissg_create aqsisSgi (sd_host S)) (\<lambda>script.
     submit script (\<lambda>path. job\<lparr>j_name := put MAXNAMELEN jobName, j_cmd := strncpy (MAXCMDLEN - 1) path,
          j_owner := put MAXNAMELEN owner, j_email := put MAXNAMELEN owner,
          frame_start := frameStart, frame_end := frameEnd,
          frame_step := frameStep, j_priority := 500,
          koj := KOJ_AQSIS, koji := KojiAqsis (put BUFFERLEN scenePath) [],
          limits := \<lparr>jl_nmaxcpus = -1, jl_nmaxcpuscomputer = -1, jl_os_flags = OSF_ALL, jl_memory = 0, jl_pool = strncpy (MAXNAMELEN - 1) ''Default''\<rparr>\<rparr>) S s))))"

definition RegisterMantraJobFromFile ::
    "sender \<Rightarrow> (nat \<Rightarrow> u32) \<Rightarrow> mantrasgi \<Rightarrow> istream \<Rightarrow> submitted" where
  "RegisterMantraJobFromFile S J mantraSgi s =
     andThen (getenv S ''USER'') (\<lambda>user.
     let job = job_init user zero_job;
         (owner, s) = getline [] s;
         (jobName, s) = getline [] s;
         (frameStart, s) = read_int (J 0) s;
         (frameEnd, s) = read_int (J 1) s;
         (frameStep, s) = read_int (J 2) s;
         (scenePath, s) = getline [] s;
         (scenePath, s) = getline scenePath s
     in
     andThen (fill (BUFFERLEN - 1) (cstr scenePath)) (\<lambda>c_scene.
     andThen (getenv S ''DRQUEUE_ROOT'') (\<lambda>root.
     let mantraSgi = mantraSgi\<lparr>mng_scene := c_scene, mng_scriptdir := snprintf BUFFERLEN (root @ ''/tmp/'')\<rparr>
     in
     andThen (mantrasg_create mantraSgi (sd_host S)) (\<lambda>script.
     submit script (\<lambda>path. job\<lparr>j_name := put MAXNAMELEN jobName, j_cmd := strncpy (MAXCMDLEN - 1) path,
          j_owner := put MAXNAMELEN owner, j_email := put MAXNAMELEN owner,
          frame_start := frameStart, frame_end := frameEnd,
          frame_step := frameStep, j_priority := 500,
          koj := KOJ_MANTRA, koji := KojiMantra (put BUFFERLEN scenePath) [] [],
          limits := \<lparr>jl_nmaxcpus = -1, jl_nmaxcpuscomputer = -1, jl_os_flags = OSF_ALL, jl_memory = 0, jl_pool = strncpy (MAXNAMELEN - 1) ''Default''\<rparr>\<rparr>) S s))))"

definition RegisterXSIJobFromFile ::
    "sender \<Rightarrow> (nat \<Rightarrow> u32) \<Rightarrow> xsisgi \<Rightarrow> istream \<Rightarrow> submitted" where
  "RegisterXSIJobFromFile S J xsiSgi s =
     andThen (getenv S ''USER'') (\<lambda>user.
     let job = job_init user zero_job;
         (owner, s) = getline [] s;
         (jobName, s) = getline [] s;
         (xsiDir, s) = getline [] s;
         (priority, s) = read_int (J 0) s;
         (maxcpus, s) = read_int (J 1) s;
         (frameStart, s) = read_int (J 2) s;
         (frameEnd, s) = read_int (J 3) s;
         (framePad, s) = read_int (J 4) s;
         (frameStep, s) = read_int (J 5) s;
         (blockSize, s) = read_int (J 6) s;
         (resX, s) = read_int (J 7) s;
         (resY, s) = read_int (J 8) s;
         (skipFrames, s) = read_int (J 9) s;
         (scenePath, s) = getline [] s;
         (scenePath, s) = getline scenePath s;
         (pass, s) = getline [] s;
         (renderDir, s) = getline [] s;
         (image, s) = getline [] s;
         (imageExt, s) = getline [] s;
         (runScript, s) = read_int (J 10) s;
         (scriptRun, s) = (if runScript \<noteq> 0 then (case getline [] s of (scriptRun, s) \<Rightarrow> getline scriptRun s) else ([], s))
     in
     andThen (fill (BUFFERLEN - 1) (cstr owner)) (\<lambda>c_file_owner.
     andThen (fill (BUFFERLEN - 1) (cstr xsiDir)) (\<lambda>c_xsiDir.
     andThen (fill (BUFFERLEN - 1) (cstr scenePath)) (\<lambda>c_scene.
     andThen (fill (BUFFERLEN - 1) (cstr pass)) (\<lambda>c_xsipass.
     andThen (fill (BUFFERLEN - 1) (cstr renderDir)) (\<lambda>c_renderdir.
     andThen (getenv S ''DRQUEUE_ROOT'') (\<lambda>root.
     andThen (fill (BUFFERLEN - 1) (cstr image)) (\<lambda>c_image.
     andThen (fill (BUFFERLEN - 1) (cstr imageExt)) (\<lambda>c_imageExt.
     andThen (fill (BUFFERLEN - 1) (cstr scriptRun)) (\<lambda>c_scriptRun.
     let xsiSgi = xsiSgi\<lparr>xsg_file_owner := c_file_owner, xsg_res_x := resX, xsg_res_y := resY,
           xsg_skipFrames := ucast skipFrames, xsg_xsiDir := c_xsiDir, xsg_scene := c_scene,
           xsg_xsipass := c_xsipass, xsg_renderdir := c_renderdir, xsg_scriptdir := snprintf BUFFERLEN (root @ ''/tmp/''),
           xsg_image := c_image, xsg_imageExt := c_imageExt, xsg_runScript := ucast runScript,
           xsg_scriptRun := c_scriptRun\<rparr>
     in
     andThen (xsisg_create xsiSgi (sd_host S)) (\<lambda>script.
     submit script (\<lambda>path. job\<lparr>j_name := put MAXNAMELEN jobName, j_cmd := strncpy (MAXCMDLEN - 1) path,
          j_owner := put MAXNAMELEN owner, j_email := put MAXNAMELEN owner,
          autoRequeue := 1, j_status := JOBSTATUS_WAITING,
          frame_start := frameStart, frame_end := frameEnd,
          frame_pad := ucast framePad, frame_step := frameStep,
          block_size := blockSize, j_priority := priority,
          koj := KOJ_XSI, koji := KojiXsi (put BUFFERLEN scenePath) (put BUFFERLEN pass) (put BUFFERLEN renderDir) (put BUFFERLEN image) (put BUFFERLEN imageExt) (strncpy (BUFFERLEN - 1) ''$DRQUEUE_BIN/viewcmd/imf_batch'')\<rparr>) S s)))))))))))"

definition RegisterLuxrenderJobFromFile ::
    "sender \<Rightarrow> (nat \<Rightarrow> u32) \<Rightarrow> luxrendersgi \<Rightarrow> istream \<Rightarrow> submitted" where
  "RegisterLuxrenderJobFromFile S J luxrenderSgi s =
     andThen (getenv S ''USER'') (\<lambda>user.
     let job = job_init user zero_job;
         (jobName, s) = getline [] s;
         (frameStart, s) = read_int (J 0) s;
         (frameEnd, s) = read_int (J 1) s;
         (frameStep, s) = read_int (J 2) s;
         (scenePath, s) = getline [] s;
         (scenePath, s) = getline scenePath s
     in
     andThen (fill (BUFFERLEN - 1) (cstr scenePath)) (\<lambda>c_scene.
     andThen (getenv S ''DRQUEUE_ROOT'') (\<lambda>root.
     let luxrenderSgi = luxrenderSgi\<lparr>lxg_scene := c_scene, lxg_scriptdir := snprintf BUFFERLEN (root @ ''/tmp/'')\<rparr>;
         job = job\<lparr>autoRequeue := 1\<rparr>
     in
     andThen (luxrendersg_create luxrenderSgi (sd_host S)) (\<lambda>script.
     submit script (\<lambda>path. job\<lparr>j_name := put MAXNAMELEN jobName, j_cmd := strncpy (MAXCMDLEN - 1) path,
          j_owner := put MAXNAMELEN user, j_email := put MAXNAMELEN user,
          frame_start := frameStart, frame_end := frameEnd,
          frame_step := frameStep, block_size := frameStep,
          j_priority := 500, koj := KOJ_LUXRENDER,
          koji := KojiLuxrender (put BUFFERLEN scenePath) [] [], limits := \<lparr>jl_nmaxcpus = -1, jl_nmaxcpuscomputer = -1, jl_os_flags = OSF_ALL, jl_memory = 0, jl_pool = strncpy (MAXNAMELEN - 1) ''Default''\<rparr>\<rparr>) S s))))"
section \<open>The program\<close>

text \<open>The structures on the stacks of the functions, before they are set.\<close>

record sendjob_stack =
  st_ints :: "nat \<Rightarrow> u32"
  st_general :: generalsgi
  st_maya :: mayasgi
  st_mentalray :: mentalraysgi
  st_blender :: blendersgi
  st_lightwave :: lightwavesgi
  st_terragen :: terragensgi
  st_shake :: shakesgi
  st_nuke :: nukesgi
  st_threedelight :: threedelightsgi
  st_pixie :: pixiesgi
  st_aftereffects :: aftereffectssgi
  st_aqsis :: aqsissgi
  st_mantra :: mantrasgi
  st_xsi :: xsisgi
  st_luxrender :: luxrendersgi

text \<open>\<open>strtok\<close> with one separator, \<open>atoi\<close>, and the frames of a general job; \<open>atoi\<close> of a token that is not there
  is a use of a null pointer.\<close>

definition strtok1 :: "char \<Rightarrow> cstring \<Rightarrow> (cstring \<times> cstring) option" where
  "strtok1 c s = (let t = dropWhile (\<lambda>x. x = c) s; w = takeWhile (\<lambda>x. x \<noteq> c) t
     in if t = [] then None else Some (w, drop (Suc (length w)) t))"

definition atoi :: "cstring \<Rightarrow> u32" where
  "atoi s = (case fst (scan_int (dropWhile is_space s)) of None \<Rightarrow> 0
     | Some n \<Rightarrow> of_int (max (- (2 ^ 63)) (min (2 ^ 63 - 1) n)))"

definition frame_range :: "cstring \<Rightarrow> fault + u32 \<times> u32 \<times> u32" where
  "frame_range rng = (case strtok1 (CHR '':'') rng of None \<Rightarrow> Inl WildPointer
     | Some (fs, rng) \<Rightarrow> (case strtok1 (CHR '':'') rng of None \<Rightarrow> Inl WildPointer
       | Some (fe, sf) \<Rightarrow> if sf = [] then Inl WildPointer else Inr (atoi fs, atoi fe, atoi sf)))"

text \<open>The choice of the function; there is no \<open>break\<close> behind the case of XSI.\<close>

definition register_from_file :: "nat \<Rightarrow> sender \<Rightarrow> sendjob_stack \<Rightarrow> istream \<Rightarrow> submitted" where
  "register_from_file toj S M s =
     (if toj = TOJ_MAYA then RegisterMayaJobFromFile S (st_ints M) (st_maya M) s
      else if toj = TOJ_MENTALRAY then RegisterMentalrayJobFromFile S (st_ints M) (st_mentalray M) s
      else if toj = TOJ_BLENDER then RegisterBlenderJobFromFile S (st_ints M) (st_blender M) s
      else if toj = TOJ_THREEDELIGHT then RegisterThreedelightJobFromFile S (st_ints M) (st_threedelight M) s
      else if toj = TOJ_PIXIE then RegisterPixieJobFromFile S (st_ints M) (st_pixie M) s
      else if toj = TOJ_LIGHTWAVE then RegisterLightwaveJobFromFile S (st_ints M) (st_lightwave M) s
      else if toj = TOJ_AFTEREFFECTS then RegisterAftereffectsJobFromFile S (st_ints M) (st_aftereffects M) s
      else if toj = TOJ_SHAKE then RegisterShakeJobFromFile S (st_ints M) (st_shake M) s
      else if toj = TOJ_AQSIS then RegisterAqsisJobFromFile S (st_ints M) (st_aqsis M) s
      else if toj = TOJ_MANTRA then RegisterMantraJobFromFile S (st_ints M) (st_mantra M) s
      else if toj = TOJ_TERRAGEN then RegisterTerragenJobFromFile S (st_ints M) (st_terragen M) s
      else if toj = TOJ_NUKE then RegisterNukeJobFromFile S (st_ints M) (st_nuke M) s
      else if toj = TOJ_XSI then
        andThen (RegisterXSIJobFromFile S (st_ints M) (st_xsi M) s) (\<lambda>(ret, r, S, s).
          if ret \<noteq> 0 then Inr (ret, r, S, s) else RegisterLuxrenderJobFromFile S (st_ints M) (st_luxrender M) s)
      else if toj = TOJ_LUXRENDER then RegisterLuxrenderJobFromFile S (st_ints M) (st_luxrender M) s
      else Inr (0, None, S, s))"

text \<open>
  The options \<^verbatim>\<open>-t\<close> and \<^verbatim>\<open>-f\<close>, and the last argument with what the file holds, if it can be opened.  The exit code,
  and what came of the registration.
\<close>

definition sendjob ::
    "sender \<Rightarrow> sendjob_stack \<Rightarrow> cstring option \<Rightarrow> cstring option \<Rightarrow> cstring \<Rightarrow> cstring option \<Rightarrow> fault + int \<times> job reply option \<times> sender" where
  "sendjob S M t f infile content =
     andThen (case f of None \<Rightarrow> Inr (1, 1, 1) | Some rng \<Rightarrow> frame_range rng) (\<lambda>(fs, fe, sf).
     let toj = (case t of None \<Rightarrow> TOJ_NONE | Some str \<Rightarrow> str2toj str)
     in if toj = TOJ_NONE then Inr (1, None, S)
        else andThen (set_default_env (sh_env (sd_host S))) (\<lambda>E. case E of None \<Rightarrow> Inr (1, None, S)
          | Some E \<Rightarrow>
              let S = S\<lparr>sd_host := (sd_host S)\<lparr>sh_env := E\<rparr>\<rparr>;
                  s = (case content of None \<Rightarrow> \<lparr>is_rest = [], is_good = False\<rparr> | Some c \<Rightarrow> \<lparr>is_rest = c, is_good = True\<rparr>)
              in if common_environment_check (sd_stat S) E \<noteq> Inr () then Inr (1, None, S)
                 else andThen (if toj = TOJ_GENERAL then RegisterGeneralJob S (st_general M) infile fs fe sf s else register_from_file toj S M s)
                        (\<lambda>(ret, r, S, s). Inr (ret, r, S))))"

end
