(* ===== verification/Tools.thy ===== *)
theory Tools
  imports Sendjob Outcomes
begin

text \<open>
  The command line tools.  Each reads its options, prepares its environment, calls one function of \<open>Client\<close> and
  prints.  The options are what \<open>getopt\<close> returns, with their arguments; a run is the exit code, what was printed to the
  standard output, the connection, and the shared memory it leaves.  Messages to the standard error are left out.
\<close>

section \<open>What the tools share\<close>

record client =
  cl_env :: environ
  cl_stat :: "cstring \<Rightarrow> u32 option"
  cl_conn :: "conn option"
  cl_world :: master
  cl_junk :: u32
  cl_job :: job
  cl_computer :: computer
  cl_status :: u16

type_synonym run = "int \<times> cstring \<times> conn option \<times> master"

text \<open>Options, until one of them ends the program.\<close>

fun options :: "('o \<Rightarrow> 's \<Rightarrow> int + 's) \<Rightarrow> 'o list \<Rightarrow> 's \<Rightarrow> int + 's" where
  "options f [] s = Inr s"
| "options f (x # xs) s = (case f x s of Inl code \<Rightarrow> Inl code | Inr s \<Rightarrow> options f xs s)"

definition prepared :: "client \<Rightarrow> fault + bool" where
  "prepared C = andThen (set_default_env (cl_env C)) (\<lambda>E. case E of None \<Rightarrow> Inr False
     | Some E \<Rightarrow> Inr (common_environment_check (cl_stat C) E = Inr ()))"

definition exits :: "client \<Rightarrow> int \<Rightarrow> fault + run" where
  "exits C code = Inr (code, [], None, cl_world C)"

definition after_options :: "client \<Rightarrow> int + 's \<Rightarrow> ('s \<Rightarrow> bool) \<Rightarrow> ('s \<Rightarrow> fault + run) \<Rightarrow> fault + run" where
  "after_options C r usable work = (case r of Inl code \<Rightarrow> exits C code
     | Inr s \<Rightarrow> if \<not> usable s then exits C 1
         else andThen (prepared C) (\<lambda>ok. if \<not> ok then exits C 1 else work s))"

text \<open>A request that answers with success or failure, and a message for the first.\<close>

definition checked :: "client \<Rightarrow> cstring \<Rightarrow> cstring \<Rightarrow> unit reply \<Rightarrow> fault + run" where
  "checked C before msg r = (case fst r of
       Inl _ \<Rightarrow> Inr (1, before, snd r, cl_world C)
     | Inr _ \<Rightarrow> Inr (0, before @ msg @ nl, snd r, cl_world C))"

definition end_option :: "char \<Rightarrow> int + 's \<Rightarrow> int + 's" where
  "end_option c s = (if c = CHR ''v'' then Inl 0 else if c = CHR ''?'' \<or> c = CHR ''h'' then Inl 1 else s)"

section \<open>\<open>cjob\<close>\<close>

datatype cjob_action = Cjob_none | Cjob_stop | Cjob_hstop | Cjob_cont | Cjob_del | Cjob_status

definition cjob_option :: "char \<times> cstring \<Rightarrow> u32 \<times> cjob_action \<Rightarrow> int + u32 \<times> cjob_action" where
  "cjob_option = (\<lambda>(c, optarg) (ijob, action). end_option c (Inr
     (if c = CHR ''s'' then (ijob, Cjob_stop)
      else if c = CHR ''d'' then (ijob, Cjob_del)
      else if c = CHR ''c'' then (ijob, Cjob_cont)
      else if c = CHR ''k'' then (ijob, Cjob_hstop)
      else if c = CHR ''t'' then (ijob, Cjob_status)
      else if c = CHR ''j'' then (atoi optarg, action)
      else (ijob, action))))"

text \<open>
  The results of the requests are ignored, and the exit code is 0.  The structure for the status was never
  set: \<open>request_job_xfer\<close> frees what it holds (\<open>cl_job\<close>), and after a failure its status is what it may be (\<open>cl_status\<close>).
\<close>

definition cjob :: "client \<Rightarrow> (char \<times> cstring) list \<Rightarrow> fault + run" where
  "cjob C argv = after_options C (options cjob_option argv (-1, Cjob_none)) (\<lambda>(ijob, action). ijob \<noteq> -1 \<and> action \<noteq> Cjob_none)
     (\<lambda>(ijob, action). case action of
        Cjob_none \<Rightarrow> Inr (0, [], cl_conn C, cl_world C)
      | Cjob_stop \<Rightarrow> Inr (0, ''Stopping job: '' @ print_i ijob @ nl, snd (request_job_stop ijob CLIENT (cl_conn C)), cl_world C)
      | Cjob_hstop \<Rightarrow> Inr (0, ''Hard stopping job: '' @ print_i ijob @ nl, snd (request_job_hstop ijob CLIENT (cl_conn C)), cl_world C)
      | Cjob_del \<Rightarrow> Inr (0, ''Deleting job: '' @ print_i ijob @ nl, snd (request_job_delete ijob CLIENT (cl_conn C)), cl_world C)
      | Cjob_cont \<Rightarrow> Inr (0, ''Continue job: '' @ print_i ijob @ nl, snd (request_job_continue ijob CLIENT (cl_conn C)), cl_world C)
      | Cjob_status \<Rightarrow> andThen (request_job_xfer ijob (cl_job C) CLIENT (cl_conn C) (cl_world C)) (\<lambda>r.
          case fst r of
            Inl _ \<Rightarrow> Inr (0, job_status_string (cl_status C) @ nl, snd r, cl_world C)
          | Inr (j, w) \<Rightarrow> Inr (0, job_status_string (j_status j) @ nl, snd r, w)))"

section \<open>\<open>ctask\<close> and \<open>requeue\<close>\<close>

datatype ctask_status = Ctask_finished | Ctask_error | Ctask_reque | Ctask_none

definition ctask_option :: "char \<times> cstring \<Rightarrow> u32 \<times> u32 \<times> ctask_status \<Rightarrow> int + u32 \<times> u32 \<times> ctask_status" where
  "ctask_option = (\<lambda>(c, optarg) (ijob, frame, status). end_option c (Inr
     (if c = CHR ''f'' then (ijob, atoi optarg, status)
      else if c = CHR ''j'' then (atoi optarg, frame, status)
      else if c = CHR ''r'' then (ijob, frame, Ctask_reque)
      else if c = CHR ''d'' then (ijob, frame, Ctask_finished)
      else if c = CHR ''e'' then (ijob, frame, Ctask_error)
      else (ijob, frame, status))))"

definition numbers :: "u32 \<Rightarrow> u32 \<Rightarrow> cstring" where
  "numbers frame ijob = print_i frame @ '','' @ print_i ijob @ nl"

definition ctask :: "client \<Rightarrow> (char \<times> cstring) list \<Rightarrow> fault + run" where
  "ctask C argv = after_options C (options ctask_option argv (-1, -1, Ctask_none)) (\<lambda>(ijob, frame, status). ijob \<noteq> -1 \<and> status \<noteq> Ctask_none)
     (\<lambda>(ijob, frame, status). case status of
        Ctask_finished \<Rightarrow> checked C (''Setting frame finished: '' @ numbers frame ijob) ''Frame set finished successfully''
          (request_job_frame_finish ijob frame CLIENT (cl_conn C))
      | Ctask_error \<Rightarrow> Inr (0, ''Setting frame to error not yet implemented: '' @ numbers frame ijob, cl_conn C, cl_world C)
      | Ctask_reque \<Rightarrow> checked C (''Requeueing frame: '' @ numbers frame ijob) ''Frame requeued successfully''
          (request_job_frame_waiting ijob frame CLIENT (cl_conn C))
      | Ctask_none \<Rightarrow> Inr (0, [], cl_conn C, cl_world C))"

definition requeue_option :: "char \<times> cstring \<Rightarrow> u32 \<times> u32 \<Rightarrow> int + u32 \<times> u32" where
  "requeue_option = (\<lambda>(c, optarg) (ijob, frame). end_option c (Inr
     (if c = CHR ''f'' then (ijob, atoi optarg) else if c = CHR ''j'' then (atoi optarg, frame) else (ijob, frame))))"

definition requeue :: "client \<Rightarrow> (char \<times> cstring) list \<Rightarrow> fault + run" where
  "requeue C argv = after_options C (options requeue_option argv (-1, -1)) (\<lambda>(ijob, frame). frame \<noteq> -1 \<and> ijob \<noteq> -1)
     (\<lambda>(ijob, frame). checked C [] ''Frame requeued successfully'' (request_job_frame_waiting ijob frame CLIENT (cl_conn C)))"

section \<open>\<open>blockhost\<close>\<close>

datatype block_action = Block_none | Block_add | Block_del | Block_list

definition blockhost_option :: "char \<times> cstring \<Rightarrow> u32 \<times> u32 \<times> block_action \<Rightarrow> int + u32 \<times> u32 \<times> block_action" where
  "blockhost_option = (\<lambda>(c, optarg) (ijob, icomp, action). end_option c (Inr
     (if c = CHR ''a'' then (ijob, atoi optarg, Block_add)
      else if c = CHR ''d'' then (ijob, atoi optarg, Block_del)
      else if c = CHR ''l'' then (ijob, icomp, Block_list)
      else if c = CHR ''j'' then (atoi optarg, icomp, action)
      else (ijob, icomp, action))))"

text \<open>One line for each host; a host that was never received is read all the same.\<close>

fun host_lines :: "nat \<Rightarrow> cstring option list \<Rightarrow> fault + cstring" where
  "host_lines i [] = Inr []"
| "host_lines i (None # hs) = Inl WildPointer"
| "host_lines i (Some h # hs) = andThen (host_lines (Suc i) hs) (\<lambda>t. Inr (dec i @ [CHR 0x09] @ h @ nl @ t))"

text \<open>Without an answer, the list and its length were never set.\<close>

definition blockhost :: "client \<Rightarrow> (char \<times> cstring) list \<Rightarrow> fault + run" where
  "blockhost C argv = after_options C (options blockhost_option argv (-1, -1, Block_none)) (\<lambda>(ijob, icomp, action). ijob \<noteq> -1 \<and> action \<noteq> Block_none)
     (\<lambda>(ijob, icomp, action). case action of
        Block_none \<Rightarrow> Inr (0, [], cl_conn C, cl_world C)
      | Block_add \<Rightarrow> checked C [] ''Host blocked successfully'' (request_job_add_blocked_host ijob icomp CLIENT (cl_conn C))
      | Block_del \<Rightarrow> checked C [] ''Host unblocked successfully'' (request_job_delete_blocked_host ijob icomp CLIENT (cl_conn C))
      | Block_list \<Rightarrow> (case request_job_list_blocked_host ijob CLIENT (cl_conn C) of
          (Inl _, c) \<Rightarrow> Inl WildPointer
        | (Inr hs, c) \<Rightarrow> andThen (host_lines 0 hs) (\<lambda>out. Inr (0, out, c, cl_world C))))"

section \<open>\<open>jobfinfo\<close>\<close>

datatype jobf_op = Jobf_none | Jobf_requeued | Jobf_status

definition jobfinfo_option :: "char \<times> cstring \<Rightarrow> u32 \<times> u32 \<times> jobf_op \<Rightarrow> int + u32 \<times> u32 \<times> jobf_op" where
  "jobfinfo_option = (\<lambda>(c, optarg) (ijob, frame, op). end_option c (Inr
     (if c = CHR ''f'' then (ijob, atoi optarg, op)
      else if c = CHR ''j'' then (atoi optarg, frame, op)
      else if c = CHR ''r'' then (ijob, frame, Jobf_requeued)
      else if c = CHR ''s'' then (ijob, frame, Jobf_status)
      else (ijob, frame, op))))"

definition jobfinfo :: "client \<Rightarrow> (char \<times> cstring) list \<Rightarrow> fault + run" where
  "jobfinfo C argv = after_options C (options jobfinfo_option argv (-1, -1, Jobf_none))
     (\<lambda>(ijob, frame, op). frame \<noteq> -1 \<and> ijob \<noteq> -1 \<and> op \<noteq> Jobf_none)
     (\<lambda>(ijob, frame, op). case request_job_frame_info ijob frame CLIENT (cl_conn C) of
        (Inl _, c) \<Rightarrow> Inr (1, [], c, cl_world C)
      | (Inr fi, c) \<Rightarrow> Inr (0, (case op of
            Jobf_none \<Rightarrow> ''OP_NONE'' @ nl
          | Jobf_requeued \<Rightarrow> dec (unat (fi_requeued fi)) @ nl
          | Jobf_status \<Rightarrow> job_frame_status_string (fi_status fi) @ nl), c, cl_world C))"

section \<open>\<open>jobinfo\<close>\<close>

datatype info_op = Info_none | Info_number | Info_list | Info_one

definition jobinfo_option :: "char \<times> cstring \<Rightarrow> u32 \<times> info_op \<Rightarrow> int + u32 \<times> info_op" where
  "jobinfo_option = (\<lambda>(c, optarg) (ijob, op). end_option c (Inr
     (if c = CHR ''j'' then (atoi optarg, Info_one)
      else if c = CHR ''l'' then (ijob, Info_list)
      else if c = CHR ''n'' then (ijob, Info_number)
      else (ijob, op))))"

definition print_job :: "job \<Rightarrow> cstring" where
  "print_job j = ''ID: '' @ print_i (j_id j) @ '' Name: '' @ j_name j @ nl"

text \<open>The records that the transfer never reached are read as well.\<close>

fun print_jobs :: "job option list \<Rightarrow> fault + cstring" where
  "print_jobs [] = Inr []"
| "print_jobs (None # js) = Inl WildPointer"
| "print_jobs (Some j # js) = andThen (print_jobs js) (\<lambda>t. Inr (print_job j @ t))"

fun print_variables :: "nat \<Rightarrow> envvar list \<Rightarrow> fault + cstring" where
  "print_variables 0 vs = Inr []"
| "print_variables (Suc n) [] = Inl OutOfBounds"
| "print_variables (Suc n) (v # vs) = andThen (print_variables n vs) (\<lambda>t.
     Inr ([CHR 0x09] @ ev_name v @ ''='' @ ev_value v @ nl @ t))"

text \<open>When the segment cannot be attached, the pointer to the variables is null.\<close>

definition show_job :: "job \<Rightarrow> envvar shm \<Rightarrow> fault + cstring" where
  "show_job j s = andThen
     (case envvars_attach (j_envvars j, s) of
        None \<Rightarrow> if nvariables (j_envvars j) = 0 then Inr [] else Inl WildPointer
      | Some vs \<Rightarrow> print_variables (unat (nvariables (j_envvars j))) vs)
     (\<lambda>t. Inr (print_job j @ [CHR 0x09] @ ''Environment variables'' @ nl @ t))"

text \<open>
  After the list each job is set to its initial values and not freed: the segments of its environment stay.  The
  structure for one job is what \<open>malloc\<close> left (\<open>cl_job\<close>).
\<close>

definition jobinfo :: "client \<Rightarrow> (char \<times> cstring) list \<Rightarrow> fault + run" where
  "jobinfo C argv = after_options C (options jobinfo_option argv (-1, Info_none)) (\<lambda>(ijob, op). op \<noteq> Info_none)
     (\<lambda>(ijob, op).
        if op = Info_list \<or> op = Info_number then
          andThen (request_job_list (cl_junk C) CLIENT (cl_conn C) (cl_world C)) (\<lambda>r. case r of
             (Inl _, c) \<Rightarrow> Inr (1, [], c, cl_world C)
           | (Inr (njobs, js, w), c) \<Rightarrow>
               if op = Info_number then Inr (0, dec (nat njobs) @ nl, c, w)
               else andThen (print_jobs js) (\<lambda>out. Inr (0, out, c, w)))
        else if op = Info_one then
          andThen (request_job_xfer ijob (cl_job C) CLIENT (cl_conn C) (cl_world C)) (\<lambda>r. case r of
             (Inl _, c) \<Rightarrow> Inr (1, [], c, cl_world C)
           | (Inr (j, w), c) \<Rightarrow> andThen (show_job j (env_shm w)) (\<lambda>out.
               case envvars_free (j_envvars j, env_shm w) of (_, _, s) \<Rightarrow> Inr (0, out, c, w\<lparr>env_shm := s\<rparr>)))
        else Inr (0, ''OP_NONE'' @ nl, cl_conn C, cl_world C))"

section \<open>\<open>compinfo\<close>\<close>

definition compinfo_option :: "char \<times> cstring \<Rightarrow> u32 \<times> info_op \<Rightarrow> int + u32 \<times> info_op" where
  "compinfo_option = (\<lambda>(c, optarg) (icomp, op). end_option c (Inr
     (if c = CHR ''d'' then (icomp, Info_one)
      else if c = CHR ''c'' then (atoi optarg, op)
      else if c = CHR ''l'' then (icomp, Info_list)
      else if c = CHR ''n'' then (icomp, Info_number)
      else (icomp, op))))"

text \<open>Each computer is freed after it was printed; what remains of it is the segment of pools that goes.\<close>

definition print_computer :: "computer \<Rightarrow> master \<Rightarrow> cstring \<times> master" where
  "print_computer k w = (''ID: '' @ print_i (hw_id (hwinfo k)) @ '' Name: '' @ hw_name (hwinfo k) @ nl,
     case computer_pool_free (c_limits k, pool_shm w) of (_, _, s) \<Rightarrow> w\<lparr>pool_shm := s\<rparr>)"

fun print_computers :: "computer option list \<Rightarrow> master \<Rightarrow> fault + cstring \<times> master" where
  "print_computers [] w = Inr ([], w)"
| "print_computers (None # ks) w = Inl WildPointer"
| "print_computers (Some k # ks) w = (case print_computer k w of (t, w) \<Rightarrow>
     andThen (print_computers ks w) (\<lambda>(t', w). Inr (t @ t', w)))"

definition compinfo :: "client \<Rightarrow> (char \<times> cstring) list \<Rightarrow> fault + run" where
  "compinfo C argv = after_options C (options compinfo_option argv (-1, Info_none)) (\<lambda>(icomp, op). op \<noteq> Info_none)
     (\<lambda>(icomp, op).
        if op = Info_one then
          (if icomp = -1 then Inr (1, [], cl_conn C, cl_world C)
           else andThen (request_comp_xfer icomp (computer_init (env_enabled (cl_world C)) (env_max_cpus (cl_world C)) (cl_computer C))
                           CLIENT (cl_conn C) (cl_world C)) (\<lambda>r. case r of
               (Inl _, c) \<Rightarrow> Inr (1, [], c, cl_world C)
             | (Inr (k, w), c) \<Rightarrow> (case print_computer k w of (t, w) \<Rightarrow> Inr (0, t, c, w))))
        else if op = Info_none then Inr (0, ''OP_NONE'' @ nl, cl_conn C, cl_world C)
        else
          andThen (request_computer_list (cl_junk C) (cl_computer C) CLIENT (cl_conn C) (cl_world C)) (\<lambda>r. case r of
             (Inl _, c) \<Rightarrow> Inr (1, [], c, cl_world C)
           | (Inr (n, ks, w), c) \<Rightarrow>
               if op = Info_number then Inr (0, dec (nat n) @ nl, c, w)
               else andThen (print_computers ks w) (\<lambda>(t, w). Inr (0, t, c, w))))"

end
