(* ===== verification/Registration.thy ===== *)
theory Registration
  imports Agreement Text
begin

text \<open>
  The registration of a job, with both of its ends: what \<open>register_job\<close> is given is what the master stores, in the
  first record that is free, with frames that all wait.
\<close>

text \<open>What the master makes of the job that arrives in record \<open>i\<close>, with its frames in segment \<open>k\<close>.\<close>

definition registered :: "u32 \<Rightarrow> job \<Rightarrow> envvars \<Rightarrow> int \<Rightarrow> u32 \<Rightarrow> job" where
  "registered i j ev k now = (let a = arrived j ev; n = job_nframes a in
     a\<lparr>j_used := 1, j_id := i, j_status := JOBSTATUS_WAITING, fishmid := k, fleft := n, fdone := 0, ffailed := 0, j_nprocs := 0,
       submit_time := now, avg_frame_time := DFLTAVGFTIME, est_finish_time := now + DFLTAVGFTIME * n\<rparr>)"

lemma index_unat: "i < MAXJOBS \<Longrightarrow> unat (of_nat i :: u32) = i"
  by (simp add: max_defs unsigned_of_nat take_bit_nat_eq_self)

lemma first_free_record:
  assumes "length (jobs m) = MAXJOBS" "i < MAXJOBS" "j_used (jobs m ! i) = 0" "\<forall>k < i. j_used (jobs m ! k) \<noteq> 0"
  shows "job_index_free m = Inr (of_nat i)" "(of_nat i :: u32) \<noteq> -1"
proof -
  have "first_idx (\<lambda>j. j_used j = 0) (take MAXJOBS (jobs m)) = Some i"
    using assms by (intro first_idx_SomeI) auto
  then show "job_index_free m = Inr (of_nat i)" using assms(1) by (simp add: job_index_free_def scan_def)
  show "(of_nat i :: u32) \<noteq> -1"
  proof
    assume "(of_nat i :: u32) = -1"
    then have "unat (of_nat i :: u32) = unat (-1 :: u32)" by simp
    then show False using assms(2) by (simp add: index_unat) (simp add: max_defs unsigned_minus_1_eq_mask mask_eq_exp_minus_1)
  qed
qed

lemma init_registered_ok:
  fixes i :: u32 and j :: job and ev :: envvars
  defines "a \<equiv> arrived j ev"
  assumes m: "length (jobs m) = MAXJOBS" "semid m = sem_free" "unat i < MAXJOBS" "j_used (jobs m ! unat i) \<noteq> 0"
    and s: "shm_ok (frame_shm m)" "generous (frame_shm m)"
    and n: "0 < unat (job_nframes a)" "unat (job_nframes a) < 2147483648"
  shows "\<exists>k fs. job_init_registered i a m = Inr (m\<lparr>semid := sem_free, frame_shm := fs, jobs := (jobs m)[unat i := registered i j ev k (time32 m)]\<rparr>) \<and>
    shmat k fs = Some (replicate (unat (job_nframes a)) (job_frame_info_init zero_frame))"
proof -
  let ?n = "job_nframes a" and ?k = "next_id (frame_shm m)"
  let ?j = "a\<lparr>j_used := 1, j_id := i, j_status := JOBSTATUS_WAITING\<rparr>"
  have nf: "job_nframes ?j = ?n" "job_nframes (a\<lparr>j_used := 1, j_id := i\<rparr>) = ?n" by (rule job_nframes_cong; simp)+
  have sint: "nat (sint ?n) = unat ?n" using n(2) sint_small [of ?n] by simp
  obtain fs where g: "shmget zero_frame (unat ?n) (frame_shm m) = (?k, fs)" "shmat ?k fs = Some (replicate (unat ?n) zero_frame)"
    and g': "attachable fs = attachable (frame_shm m)"
    using s n(1) by (auto simp: shmget_def generous_def shmat_def)
  have k: "?k \<noteq> -1" using s(1) by (auto simp: shm_ok_def)
  let ?fs = "shmput ?k (replicate (unat ?n) (job_frame_info_init zero_frame)) fs"
  have fs: "shmat ?k ?fs = Some (replicate (unat ?n) (job_frame_info_init zero_frame))"
    using s(2) g' by (simp add: generous_def)
  have n0: "?n \<noteq> 0" using n(1) by auto
  have "job_init_registered i a m = Inr (m\<lparr>semid := sem_free, frame_shm := ?fs, jobs := (jobs m)[unat i := registered i j ev ?k (time32 m)]\<rparr>)"
    using m n0 k index_correct [of "m\<lparr>semid := sem_held\<rparr>" i]
    by (simp add: job_init_registered_def Let_def upd_job_def nf g get_frame_shared_memory_def attach_frame_shared_memory_def sint
        registered_def a_def [symmetric] time32_def)
  with fs show ?thesis by blast
qed

text \<open>The end of the client that is connected to a handler: it reads what the other side writes.\<close>

definition job_request :: "u32 \<Rightarrow> msg" where
  "job_request junk = MRequest \<lparr>rq_type = R_R_REGISJOB, rq_who = CLIENT, rq_data = junk\<rparr>"

lemma register_job_ok:
  assumes e: "env_fits j (env_shm w)" and n: "length (wire_job j (env_shm w)) < k"
  shows "register_job junk j (Some \<lparr>rx = [MRequest \<lparr>rq_type = R_R_REGISJOB, rq_who = MASTER, rq_data = RERR_NOERROR\<rparr>,
      MRequest \<lparr>rq_type = R_R_REGISJOB, rq_who = MASTER, rq_data = i\<rparr>], tx = [], tx_left = k\<rparr>) w =
    Inr (Inr (j\<lparr>j_id := i\<rparr>), Some \<lparr>rx = [], tx = job_request junk # wire_job j (env_shm w), tx_left = k - 1 - length (wire_job j (env_shm w))\<rparr>)"
proof -
  let ?c = "\<lparr>rx = [MRequest \<lparr>rq_type = R_R_REGISJOB, rq_who = MASTER, rq_data = i\<rparr>], tx = [job_request junk], tx_left = k - 1\<rparr>"
  have "send_job j (env_shm w) ?c = Inr (True, ?c\<lparr>tx := tx ?c @ wire_job j (env_shm w), tx_left := tx_left ?c - length (wire_job j (env_shm w))\<rparr>)"
    by (rule send_job_ok [OF e]) (use n in simp)
  then show ?thesis using n
    by (simp add: register_job_def send_request_def send_msg_def recv_request_def recv_as_def job_request_def)
qed

lemma register_roundtrip:
  assumes m: "length (jobs m) = MAXJOBS" "semid m = sem_free" "roomy m" "shm_ok (frame_shm m)" "generous (frame_shm m)"
    and i: "i < MAXJOBS" "j_used (jobs m ! i) = 0" "\<forall>k < i. j_used (jobs m ! k) \<noteq> 0"
    and e: "env_fits j (env_shm w)"
    and n: "0 < unat (job_nframes (step_not_zero j))" "unat (job_nframes (step_not_zero j)) < 2147483648"
    and c: "rx c = wire_job j (env_shm w)" "tx c = []" "2 \<le> tx_left c" and k: "length (wire_job j (env_shm w)) < k"
  shows "\<exists>c' m' cc ev h. handle_r_r_regisjob c m = Inr (c', m') \<and>
    register_job junk j (Some (peer c' k)) w = Inr (Inr (j\<lparr>j_id := of_nat i\<rparr>), Some cc) \<and> tx cc = job_request junk # rx c \<and>
    semid m' = sem_free \<and> jobs m' = (jobs m)[i := registered (of_nat i) j ev h (time32 m)] \<and>
    shmat h (frame_shm m') = Some (replicate (unat (job_nframes (step_not_zero j))) (job_frame_info_init zero_frame)) \<and>
    env_list (ev, env_shm m') = env_list (j_envvars j, env_shm w)"
proof -
  let ?i = "of_nat i :: u32"
  let ?ok = "MRequest \<lparr>rq_type = R_R_REGISJOB, rq_who = MASTER, rq_data = RERR_NOERROR\<rparr>"
  let ?c1 = "c\<lparr>tx := [?ok], tx_left := tx_left c - 1\<rparr>"
  define m1 where "m1 = m\<lparr>jobs := (jobs m)[i := (jobs m ! i)\<lparr>j_used := 1\<rparr>]\<rparr>"
  have iu: "unat ?i = i" by (rule index_unat [OF i(1)])
  have free: "job_index_free (m\<lparr>semid := sem_held\<rparr>) = Inr ?i" "?i \<noteq> -1"
    using first_free_record [of "m\<lparr>semid := sem_held\<rparr>" i] m i by simp_all
  have claimed: "release_db (upd_job ?i (\<lambda>j. j\<lparr>j_used := 1\<rparr>) (m\<lparr>semid := sem_held\<rparr>)) = m1\<lparr>semid := sem_free\<rparr>"
    by (simp add: upd_job_def iu m1_def)
  have m1s: "m1\<lparr>semid := sem_free\<rparr> = m1" using m(2) by (simp add: m1_def)
  have u: "unowned (job_init (env_user m) zero_job)"
    by (simp add: unowned_def job_init_def job_shared_frame_info_init_def job_shared_blocked_hosts_init_def envvars_init_def Let_def)
  have "roomy m1" using m(3) by (simp add: roomy_def m1_def)
  then obtain ev es where r: "recv_job (job_init (env_user m) zero_job) ?c1 m1 = Inr (True, arrived j ev, ?c1\<lparr>rx := []\<rparr>, m1\<lparr>env_shm := es\<rparr>)"
    "env_list (ev, es) = env_list (j_envvars j, env_shm w)"
    using recv_job_ok [OF u e, of m1 ?c1 "[]"] c(1) by auto
  have nf: "job_nframes (arrived j ev) = job_nframes (step_not_zero j)"
    by (rule job_nframes_cong) (simp_all add: arrived_def step_not_zero_def job_fix_received_invalid_def)
  obtain h fs where g: "job_init_registered ?i (arrived j ev) (m1\<lparr>env_shm := es\<rparr>) =
      Inr (m1\<lparr>env_shm := es, semid := sem_free, frame_shm := fs, jobs := (jobs m1)[i := registered ?i j ev h (time32 m)]\<rparr>)"
    "shmat h fs = Some (replicate (unat (job_nframes (step_not_zero j))) (job_frame_info_init zero_frame))"
    using init_registered_ok [of "m1\<lparr>env_shm := es\<rparr>" ?i j ev] m i n
    by (auto simp: m1_def iu nf time32_def)
  let ?c' = "?c1\<lparr>rx := [], tx := [?ok, MRequest \<lparr>rq_type = R_R_REGISJOB, rq_who = MASTER, rq_data = ?i\<rparr>], tx_left := tx_left c - 2\<rparr>"
  let ?m' = "m1\<lparr>env_shm := es, semid := sem_free, frame_shm := fs, jobs := (jobs m1)[i := registered ?i j ev h (time32 m)]\<rparr>"
  have H: "handle_r_r_regisjob c m = Inr (?c', ?m')"
    using m(2) c free r(1) g(1)
    by (simp add: handle_r_r_regisjob_def claimed m1s send_request_def send_msg_def Let_def)
  have R: "register_job junk j (Some (peer ?c' k)) w = Inr (Inr (j\<lparr>j_id := ?i\<rparr>),
      Some \<lparr>rx = [], tx = job_request junk # wire_job j (env_shm w), tx_left = k - 1 - length (wire_job j (env_shm w))\<rparr>)"
    using register_job_ok [OF e k] by (simp add: peer_def)
  show ?thesis
    by (intro exI conjI, rule H, rule R) (use c(1) g(2) r(2) in \<open>simp_all add: m1_def\<close>)
qed

text \<open>C8. Registering a job stores it: the master takes the first record that is free, answers its index, and
  keeps there every field of the job as it was sent - a step of 0 as 1 -, marked as waiting, with as many
  frames as its range has blocks, all waiting, and with the variables of its environment; no other record changes.  The client
  writes what the handler reads, and gets the index as the identifier.\<close>

theorem registered_job_is_stored:
  assumes m: "length (jobs m) = MAXJOBS" "semid m = sem_free" "roomy m" "shm_ok (frame_shm m)" "generous (frame_shm m)"
    and i: "i < MAXJOBS" "j_used (jobs m ! i) = 0" "\<forall>k < i. j_used (jobs m ! k) \<noteq> 0"
    and e: "env_fits j (env_shm w)"
    and n: "0 < unat (job_nframes (step_not_zero j))" "unat (job_nframes (step_not_zero j)) < 2147483648"
    and c: "rx c = wire_job j (env_shm w)" "tx c = []" "2 \<le> tx_left c" and k: "length (wire_job j (env_shm w)) < k"
  shows "\<exists>c' m' cc ev h. handle_r_r_regisjob c m = Inr (c', m') \<and>
    register_job junk j (Some (peer c' k)) w = Inr (Inr (j\<lparr>j_id := of_nat i\<rparr>), Some cc) \<and> tx cc = job_request junk # rx c \<and>
    semid m' = sem_free \<and> jobs m' = (jobs m)[i := registered (of_nat i) j ev h (time32 m)] \<and>
    shmat h (frame_shm m') = Some (replicate (unat (job_nframes (step_not_zero j))) (job_frame_info_init zero_frame)) \<and>
    env_list (ev, env_shm m') = env_list (j_envvars j, env_shm w)"
  by (rule register_roundtrip [OF assms])

theorem registered_job_is_stored_witness:
  "\<exists>c' m' cc ev h. handle_r_r_regisjob \<lparr>rx = wire_job shaded_job (env_shm shaded_master), tx = [], tx_left = 2\<rparr> example_master = Inr (c', m') \<and>
    register_job 9 shaded_job (Some (peer c' 5)) shaded_master = Inr (Inr (shaded_job\<lparr>j_id := 1\<rparr>), Some cc) \<and>
    jobs m' ! 1 = registered 1 shaded_job ev h (time32 example_master) \<and> jobs m' ! 0 = render_job \<and>
    map ev_name (env_list (ev, env_shm m')) = [''SHADER'', ''W'']"
proof -
  have l: "env_list (j_envvars shaded_job, env_shm shaded_master) =
      [\<lparr>ev_name = ''SHADER'', ev_value = ''toon''\<rparr>, \<lparr>ev_name = ''W'', ev_value = ''640''\<rparr>]"
    by (simp add: env_list_def shaded_job_def shaded_master_def)
  have e: "env_fits shaded_job (env_shm shaded_master)"
    by (simp add: env_fits_def env_ok_def l fits_def max_defs)
       (simp add: shaded_job_def shaded_master_def shm_empty_def shmat_def shm_ok_def)
  have w: "length (wire_job shaded_job (env_shm shaded_master)) = 4" by (simp add: wire_job_def wire_envvars_def l)
  have m: "length (jobs example_master) = MAXJOBS" "semid example_master = sem_free" "roomy example_master"
    "shm_ok (frame_shm example_master)" "generous (frame_shm example_master)" "1 < MAXJOBS" "j_used (jobs example_master ! 1) = 0"
    "\<forall>k < 1. j_used (jobs example_master ! k) \<noteq> 0" "jobs example_master ! 0 = render_job"
    by (simp_all add: example_master_def roomy_def generous_def shm_empty_def shm_ok_def max_defs zero_job_def render_job_def)
  have n: "unat (job_nframes (step_not_zero shaded_job)) = 3"
    by (simp add: shaded_job_def render_job_def zero_job_def step_not_zero_def job_nframes_def)
  let ?c = "\<lparr>rx = wire_job shaded_job (env_shm shaded_master), tx = [], tx_left = 2\<rparr>"
  obtain c' m' cc ev h where r: "handle_r_r_regisjob ?c example_master = Inr (c', m')"
    "register_job 9 shaded_job (Some (peer c' 5)) shaded_master = Inr (Inr (shaded_job\<lparr>j_id := of_nat 1\<rparr>), Some cc)"
    "jobs m' = (jobs example_master)[1 := registered (of_nat 1) shaded_job ev h (time32 example_master)]"
    "env_list (ev, env_shm m') = env_list (j_envvars shaded_job, env_shm shaded_master)"
    using registered_job_is_stored [OF m(1-8) e, of ?c 5 9] by (auto simp: w n)
  show ?thesis
    by (intro exI [of _ c'] exI [of _ m'] exI [of _ cc] exI [of _ ev] exI [of _ h]) (use r m in \<open>simp add: l max_defs\<close>)
qed

end
