(* ===== verification/Submission.thy ===== *)
theory Submission
  imports Sendjob Registration
begin

text \<open>
  What the file of a job says is what the master is asked to do: the job that \<open>sendjob\<close> registers is the one that the
  lines of its file describe, and its command is a script made for its scene.
\<close>

section \<open>Files\<close>

datatype item = Line cstring | Number nat

definition nline :: char where "nline = CHR 0x0A"

fun item_text :: "item \<Rightarrow> cstring" where
  "item_text (Line s) = s @ [nline]"
| "item_text (Number n) = dec n @ [nline]"

definition file_of :: "item list \<Rightarrow> istream" where
  "file_of xs = \<lparr>is_rest = concat (map item_text xs), is_good = True\<rparr>"

fun item_ok :: "item \<Rightarrow> bool" where
  "item_ok (Line s) \<longleftrightarrow> nline \<notin> set s \<and> CHR 0x00 \<notin> set s \<and> length s < BUFFERLEN - 1"
| "item_ok (Number n) \<longleftrightarrow> n < 2147483648"

lemma is_space_digit: "is_digit c \<Longrightarrow> \<not> is_space c"
  by (auto simp: is_digit_def is_space_def)

lemma getline_line: "nline \<notin> set l \<Longrightarrow> getline old \<lparr>is_rest = l @ nline # r, is_good = True\<rparr> = (l, \<lparr>is_rest = r, is_good = True\<rparr>)"
  by (simp add: getline_def nline_def split_at_found)

lemma getline_end: "getline old \<lparr>is_rest = nline # r, is_good = True\<rparr> = ([], \<lparr>is_rest = r, is_good = True\<rparr>)"
  using getline_line [of "[]" old r] by simp

lemma scan_dec:
  assumes "r = [] \<or> \<not> is_digit (hd r)"
  shows "scan_int (dec n @ r) = (Some (int n), r)"
proof -
  obtain c d where d: "dec n = c # d" using dec_not_Nil by (cases "dec n") auto
  have digits: "\<forall>c \<in> set (dec n). is_digit c" using dec_char by blast
  then have c: "is_digit c" by (simp add: d)
  then have sign: "c \<noteq> CHR ''-''" "c \<noteq> CHR ''+''" by (auto simp: is_digit_def)
  have t: "takeWhile is_digit (dec n @ r) = dec n" "dropWhile is_digit (dec n @ r) = r"
    using digits assms by (cases r; simp add: takeWhile_append dropWhile_append)+
  have h: "dec n @ r \<noteq> []" "hd (dec n @ r) \<noteq> CHR ''-''" "hd (dec n @ r) \<noteq> CHR ''+''" using sign by (simp_all add: d)
  show ?thesis by (simp only: scan_int_def Let_def t h read_dec_dec dec_not_Nil simp_thms if_False prod.case)
qed

lemma read_number:
  assumes "n < 2147483648"
  shows "read_int old \<lparr>is_rest = dec n @ nline # r, is_good = True\<rparr> = (of_nat n, \<lparr>is_rest = nline # r, is_good = True\<rparr>)"
proof -
  obtain c d where d: "dec n = c # d" using dec_not_Nil by (cases "dec n") auto
  have c: "is_digit c" using dec_char [of c n] by (simp add: d)
  have dr: "dropWhile is_space (dec n @ nline # r) = dec n @ nline # r" using is_space_digit [OF c] by (simp add: d)
  have sc: "scan_int (dec n @ nline # r) = (Some (int n), nline # r)" by (rule scan_dec) (simp add: nline_def is_digit_def)
  have "dec n @ nline # r \<noteq> []" by simp
  then show ?thesis using assms by (simp only: read_int_def Let_def istream.simps dr sc) (simp add: INT_MAX_def INT_MIN_def)
qed

lemma read_next_number:
  "n < 2147483648 \<Longrightarrow> read_int old \<lparr>is_rest = nline # dec n @ nline # r, is_good = True\<rparr> = (of_nat n, \<lparr>is_rest = nline # r, is_good = True\<rparr>)"
  using read_number [of n old r] by (simp add: read_int_def nline_def is_space_def)

lemmas reading = getline_line getline_end read_number read_next_number

lemma cstr_text: "CHR 0x00 \<notin> set s \<Longrightarrow> cstr s = s"
  by (simp add: cstr_def takeWhile_eq_all_conv) blast

lemma fill_text: "length s < n \<Longrightarrow> fill n s = Inr s"
  by (simp add: fill_def)

text \<open>Numbers as arguments.\<close>

lemma is_space_dec: "dropWhile is_space (dec n) = dec n"
proof -
  obtain c d where d: "dec n = c # d" using dec_not_Nil by (cases "dec n") auto
  have "is_digit c" using dec_char [of c n] by (simp add: d)
  then show ?thesis using is_space_digit by (simp add: d)
qed

lemma atoi_dec: "n < 2147483648 \<Longrightarrow> atoi (dec n) = of_nat n"
  using scan_dec [of "[]" n] by (simp add: atoi_def is_space_dec)

lemma small_index:
  assumes "n < 2147483648"
  shows "(of_nat n :: u32) \<noteq> -1" "print_i (of_nat n) = dec n" "unat (of_nat n :: u32) = n"
proof -
  show u: "unat (of_nat n :: u32) = n" using assms by (simp add: unat_of_nat)
  have "sint (of_nat n :: u32) = int n" using u assms sint_small [of "of_nat n :: u32"] by simp
  then show "(of_nat n :: u32) \<noteq> -1" by auto
  show "print_i (of_nat n) = dec n" using print_i_small [of "of_nat n"] assms u by simp
qed

section \<open>Registration\<close>

lemma submit_result:
  assumes "submit script job_of S s = Inr (0, Some r, S', s')"
  shows "\<exists>f. fst script = Some f \<and> snd script = sd_host S' \<and> register_job (sd_junk S) (job_of f) (fst (connect S)) (sd_world S) = Inr r"
  using assms
  by (auto simp: submit_def Let_def connect_def andThen_eq_Inr_iff split: option.splits list.splits prod.splits)
section \<open>What a file may say\<close>

text \<open>Everything that any kind of job asks for.\<close>

record job_form =
  fm_owner :: cstring
  fm_name :: cstring
  fm_camera :: cstring
  fm_scene :: cstring
  fm_renderdir :: cstring
  fm_projectdir :: cstring
  fm_configdir :: cstring
  fm_format :: cstring
  fm_image :: cstring
  fm_world :: cstring
  fm_terrain :: cstring
  fm_comp :: cstring
  fm_xsidir :: cstring
  fm_pass :: cstring
  fm_ext :: cstring
  fm_start :: nat
  fm_end :: nat
  fm_step :: nat
  fm_resx :: nat
  fm_resy :: nat
  fm_renderer :: nat
  fm_render_type :: nat
  fm_priority :: nat
  fm_maxcpus :: nat
  fm_pad :: nat
  fm_block :: nat
  fm_skip :: nat

definition form_items :: "nat \<Rightarrow> job_form \<Rightarrow> item list" where
  "form_items toj fm =
     (if toj = TOJ_MAYA then [Line (fm_owner fm), Line (fm_name fm), Line (fm_camera fm), Number (fm_renderer fm), Number (fm_start fm), Number (fm_end fm), Number (fm_step fm), Number (fm_resx fm), Number (fm_resy fm), Line (fm_scene fm), Line (fm_renderdir fm), Line (fm_projectdir fm), Line (fm_format fm), Line (fm_image fm)]
      else if toj = TOJ_MENTALRAY then [Line (fm_owner fm), Line (fm_name fm), Line (fm_camera fm), Number (fm_start fm), Number (fm_end fm), Number (fm_step fm), Number (fm_resx fm), Number (fm_resy fm), Line (fm_scene fm), Line (fm_renderdir fm), Line (fm_format fm), Line (fm_image fm)]
      else if toj = TOJ_BLENDER then [Line (fm_name fm), Number (fm_start fm), Number (fm_end fm), Number (fm_step fm), Number (fm_render_type fm), Line (fm_scene fm)]
      else if toj = TOJ_LIGHTWAVE then [Line (fm_owner fm), Line (fm_name fm), Number (fm_start fm), Number (fm_end fm), Number (fm_step fm), Line (fm_scene fm), Line (fm_configdir fm), Line (fm_projectdir fm)]
      else if toj = TOJ_TERRAGEN then [Line (fm_owner fm), Line (fm_name fm), Number (fm_start fm), Number (fm_end fm), Number (fm_step fm), Line (fm_scene fm), Line (fm_world fm), Line (fm_terrain fm)]
      else if toj = TOJ_SHAKE then [Line (fm_owner fm), Line (fm_name fm), Number (fm_start fm), Number (fm_end fm), Number (fm_step fm), Line (fm_scene fm)]
      else if toj = TOJ_NUKE then [Line (fm_owner fm), Line (fm_name fm), Number (fm_start fm), Number (fm_end fm), Number (fm_step fm), Line (fm_scene fm)]
      else if toj = TOJ_THREEDELIGHT then [Line (fm_owner fm), Line (fm_name fm), Number (fm_start fm), Number (fm_end fm), Number (fm_step fm), Line (fm_scene fm)]
      else if toj = TOJ_PIXIE then [Line (fm_owner fm), Line (fm_name fm), Number (fm_start fm), Number (fm_end fm), Number (fm_step fm), Line (fm_scene fm)]
      else if toj = TOJ_AFTEREFFECTS then [Line (fm_owner fm), Line (fm_name fm), Number (fm_start fm), Number (fm_end fm), Number (fm_step fm), Line (fm_scene fm), Line (fm_comp fm)]
      else if toj = TOJ_AQSIS then [Line (fm_owner fm), Line (fm_name fm), Number (fm_start fm), Number (fm_end fm), Number (fm_step fm), Line (fm_scene fm)]
      else if toj = TOJ_MANTRA then [Line (fm_owner fm), Line (fm_name fm), Number (fm_start fm), Number (fm_end fm), Number (fm_step fm), Line (fm_scene fm)]
      else if toj = TOJ_XSI then [Line (fm_owner fm), Line (fm_name fm), Line (fm_xsidir fm), Number (fm_priority fm), Number (fm_maxcpus fm), Number (fm_start fm), Number (fm_end fm), Number (fm_pad fm), Number (fm_step fm), Number (fm_block fm), Number (fm_resx fm), Number (fm_resy fm), Number (fm_skip fm), Line (fm_scene fm), Line (fm_pass fm), Line (fm_renderdir fm), Line (fm_image fm), Line (fm_ext fm), Number 0]
      else if toj = TOJ_LUXRENDER then [Line (fm_name fm), Number (fm_start fm), Number (fm_end fm), Number (fm_step fm), Line (fm_scene fm)]
      else [])"

definition described_koji :: "nat \<Rightarrow> job_form \<Rightarrow> koj_info" where
  "described_koji toj fm =
     (if toj = TOJ_MAYA then KojiMaya (fm_scene fm) (fm_renderdir fm) (fm_projectdir fm) [] [] [] []
      else if toj = TOJ_MENTALRAY then KojiMentalray (fm_scene fm) (fm_renderdir fm) [] []
      else if toj = TOJ_BLENDER then KojiBlender (fm_scene fm) []
      else if toj = TOJ_LIGHTWAVE then KojiLightwave (fm_scene fm) (fm_projectdir fm) (fm_configdir fm) []
      else if toj = TOJ_TERRAGEN then KojiTerragen (fm_scene fm) (fm_world fm) (fm_terrain fm) []
      else if toj = TOJ_SHAKE then KojiShake (fm_scene fm) []
      else if toj = TOJ_NUKE then KojiNuke (fm_scene fm) []
      else if toj = TOJ_THREEDELIGHT then Koji3delight (fm_scene fm) []
      else if toj = TOJ_PIXIE then KojiPixie (fm_scene fm) []
      else if toj = TOJ_AFTEREFFECTS then KojiAftereffects (fm_scene fm) (fm_comp fm) []
      else if toj = TOJ_AQSIS then KojiAqsis (fm_scene fm) []
      else if toj = TOJ_MANTRA then KojiMantra (fm_scene fm) [] []
      else if toj = TOJ_XSI then KojiXsi (fm_scene fm) (fm_pass fm) (fm_renderdir fm) (fm_image fm) (fm_ext fm) ''$DRQUEUE_BIN/viewcmd/imf_batch''
      else if toj = TOJ_LUXRENDER then KojiLuxrender (fm_scene fm) [] []
      else KojiGeneral [])"

text \<open>The job that a file describes.  Two kinds do not name the owner, and make blocks as long as a step.\<close>

definition described_job :: "nat \<Rightarrow> cstring \<Rightarrow> job_form \<Rightarrow> job" where
  "described_job toj user fm =
     (let unowned = (toj = TOJ_BLENDER \<or> toj = TOJ_LUXRENDER); who = (if unowned then put MAXNAMELEN user else fm_owner fm)
      in (job_init user zero_job)\<lparr>j_name := fm_name fm, j_owner := who, j_email := who, frame_start := of_nat (fm_start fm),
        frame_end := of_nat (fm_end fm), frame_step := of_nat (fm_step fm), koj := of_nat toj, koji := described_koji toj fm,
        block_size := (if unowned then of_nat (fm_step fm) else if toj = TOJ_XSI then of_nat (fm_block fm) else 1),
        frame_pad := (if toj = TOJ_XSI then ucast (of_nat (fm_pad fm) :: u32) else 4),
        j_priority := (if toj = TOJ_XSI then of_nat (fm_priority fm) else 500)\<rparr>)"

definition form_ok :: "nat \<Rightarrow> job_form \<Rightarrow> bool" where
  "form_ok toj fm \<longleftrightarrow> (\<forall>x \<in> set (form_items toj fm). item_ok x) \<and> length (fm_name fm) < MAXNAMELEN \<and> length (fm_owner fm) < MAXNAMELEN"

text \<open>What came of it: a script for the scene, and the job for the master.\<close>

definition asked_for :: "nat \<Rightarrow> job_form \<Rightarrow> sender \<Rightarrow> job reply \<Rightarrow> sender \<Rightarrow> bool" where
  "asked_for toj fm S r S' \<longleftrightarrow> (\<exists>x f user. script_create x (sd_host S) = Inr (Some f, sd_host S') \<and> main_input x = fm_scene fm \<and>
     sh_env (sd_host S) ''USER'' = Some user \<and>
     register_job (sd_junk S) ((described_job toj user fm)\<lparr>j_cmd := strncpy (MAXCMDLEN - 1) f\<rparr>) (fst (connect S)) (sd_world S) = Inr r)"

lemma asked_forI:
  assumes "submit (a, b) job_of S s = Inr (0, Some r, S', s')" "script_create x (sd_host S) = Inr (a, b)"
    "main_input x = fm_scene fm" "sh_env (sd_host S) ''USER'' = Some user"
    "\<And>f. job_of f = (described_job toj user fm)\<lparr>j_cmd := strncpy (MAXCMDLEN - 1) f\<rparr>"
  shows "asked_for toj fm S r S'"
  unfolding asked_for_def using submit_result [OF assms(1)] assms(2-) by fastforce

lemma getenv_set: "getenv S n = Inr v \<longleftrightarrow> sh_env (sd_host S) n = Some v"
  by (simp add: getenv_def split: option.splits)

lemma put_text:
  "CHR 0x00 \<notin> set s \<Longrightarrow> length s < n \<Longrightarrow> put n s = s"
  "CHR 0x00 \<notin> set s \<Longrightarrow> length s < n - Suc 0 \<Longrightarrow> put n s = s"
  by (simp_all add: put_def cstr_text)

lemma fixed_texts:
  "fill (BUFFERLEN - Suc 0) [] = Inr []" "strncpy (BUFFERLEN - Suc 0) ''$DRQUEUE_BIN/viewcmd/imf_batch'' = ''$DRQUEUE_BIN/viewcmd/imf_batch''" "strncpy (BUFFERLEN - 1) ''$DRQUEUE_BIN/viewcmd/imf_batch'' = ''$DRQUEUE_BIN/viewcmd/imf_batch''"
  "cstr [] = []"
  by (simp_all add: fill_def max_defs cstr_def)

lemmas form_defs = form_ok_def form_items_def file_of_def Let_def reading

lemmas copied = cstr_text fill_text fixed_texts

lemmas job_defs = fixed_texts described_job_def described_koji_def job_init_def zero_job_def job_limits_init_def zero_limits_def
  job_shared_frame_info_init_def job_shared_blocked_hosts_init_def envvars_init_def Let_def put_text


lemma made:
  "mayasg_create i0 w = r \<Longrightarrow> script_create (MayaScript i0) w = r"
  "mentalraysg_create i1 w = r \<Longrightarrow> script_create (MentalrayScript i1) w = r"
  "blendersg_create i2 w = r \<Longrightarrow> script_create (BlenderScript i2) w = r"
  "lightwavesg_create i3 w = r \<Longrightarrow> script_create (LightwaveScript i3) w = r"
  "terragensg_create i4 w = r \<Longrightarrow> script_create (TerragenScript i4) w = r"
  "shakesg_create i5 w = r \<Longrightarrow> script_create (ShakeScript i5) w = r"
  "nukesg_create i6 w = r \<Longrightarrow> script_create (NukeScript i6) w = r"
  "threedelightsg_create i7 w = r \<Longrightarrow> script_create (ThreedelightScript i7) w = r"
  "pixiesg_create i8 w = r \<Longrightarrow> script_create (PixieScript i8) w = r"
  "aftereffectssg_create i9 w = r \<Longrightarrow> script_create (AftereffectsScript i9) w = r"
  "aqsissg_create i10 w = r \<Longrightarrow> script_create (AqsisScript i10) w = r"
  "mantrasg_create i11 w = r \<Longrightarrow> script_create (MantraScript i11) w = r"
  "xsisg_create i12 w = r \<Longrightarrow> script_create (XsiScript i12) w = r"
  "luxrendersg_create i13 w = r \<Longrightarrow> script_create (LuxrenderScript i13) w = r"
  by (simp_all add: script_create_def)

lemma maya_job:
  assumes "form_ok TOJ_MAYA fm" "RegisterMayaJobFromFile S J sgi (file_of (form_items TOJ_MAYA fm)) = Inr (0, Some r, S', s')"
  shows "asked_for TOJ_MAYA fm S r S'"
  using assms
  by (simp add: form_defs RegisterMayaJobFromFile_def, simp add: copied, simp add: andThen_eq_Inr_iff getenv_set)
    (elim exE conjE, erule asked_forI, erule made(1), simp add: main_input_def, assumption, simp add: job_defs)

lemma mentalray_job:
  assumes "form_ok TOJ_MENTALRAY fm" "RegisterMentalrayJobFromFile S J sgi (file_of (form_items TOJ_MENTALRAY fm)) = Inr (0, Some r, S', s')"
  shows "asked_for TOJ_MENTALRAY fm S r S'"
  using assms
  by (simp add: form_defs RegisterMentalrayJobFromFile_def, simp add: copied, simp add: andThen_eq_Inr_iff getenv_set)
    (elim exE conjE, erule asked_forI, erule made(2), simp add: main_input_def, assumption, simp add: job_defs)

lemma blender_job:
  assumes "form_ok TOJ_BLENDER fm" "RegisterBlenderJobFromFile S J sgi (file_of (form_items TOJ_BLENDER fm)) = Inr (0, Some r, S', s')"
  shows "asked_for TOJ_BLENDER fm S r S'"
  using assms
  by (simp add: form_defs RegisterBlenderJobFromFile_def, simp add: copied, simp add: andThen_eq_Inr_iff getenv_set)
    (elim exE conjE, erule asked_forI, erule made(3), simp add: main_input_def, assumption, simp add: job_defs)

lemma lightwave_job:
  assumes "form_ok TOJ_LIGHTWAVE fm" "RegisterLightwaveJobFromFile S J sgi (file_of (form_items TOJ_LIGHTWAVE fm)) = Inr (0, Some r, S', s')"
  shows "asked_for TOJ_LIGHTWAVE fm S r S'"
  using assms
  by (simp add: form_defs RegisterLightwaveJobFromFile_def, simp add: copied, simp add: andThen_eq_Inr_iff getenv_set)
    (elim exE conjE, erule asked_forI, erule made(4), simp add: main_input_def, assumption, simp add: job_defs)

lemma terragen_job:
  assumes "form_ok TOJ_TERRAGEN fm" "RegisterTerragenJobFromFile S J sgi (file_of (form_items TOJ_TERRAGEN fm)) = Inr (0, Some r, S', s')"
  shows "asked_for TOJ_TERRAGEN fm S r S'"
  using assms
  by (simp add: form_defs RegisterTerragenJobFromFile_def, simp add: copied, simp add: andThen_eq_Inr_iff getenv_set)
    (elim exE conjE, erule asked_forI, erule made(5), simp add: main_input_def, assumption, simp add: job_defs)

lemma shake_job:
  assumes "form_ok TOJ_SHAKE fm" "RegisterShakeJobFromFile S J sgi (file_of (form_items TOJ_SHAKE fm)) = Inr (0, Some r, S', s')"
  shows "asked_for TOJ_SHAKE fm S r S'"
  using assms
  by (simp add: form_defs RegisterShakeJobFromFile_def, simp add: copied, simp add: andThen_eq_Inr_iff getenv_set)
    (elim exE conjE, erule asked_forI, erule made(6), simp add: main_input_def, assumption, simp add: job_defs)

lemma nuke_job:
  assumes "form_ok TOJ_NUKE fm" "RegisterNukeJobFromFile S J sgi (file_of (form_items TOJ_NUKE fm)) = Inr (0, Some r, S', s')"
  shows "asked_for TOJ_NUKE fm S r S'"
  using assms
  by (simp add: form_defs RegisterNukeJobFromFile_def, simp add: copied, simp add: andThen_eq_Inr_iff getenv_set)
    (elim exE conjE, erule asked_forI, erule made(7), simp add: main_input_def, assumption, simp add: job_defs)

lemma threedelight_job:
  assumes "form_ok TOJ_THREEDELIGHT fm" "RegisterThreedelightJobFromFile S J sgi (file_of (form_items TOJ_THREEDELIGHT fm)) = Inr (0, Some r, S', s')"
  shows "asked_for TOJ_THREEDELIGHT fm S r S'"
  using assms
  by (simp add: form_defs RegisterThreedelightJobFromFile_def, simp add: copied, simp add: andThen_eq_Inr_iff getenv_set)
    (elim exE conjE, erule asked_forI, erule made(8), simp add: main_input_def, assumption, simp add: job_defs)

lemma pixie_job:
  assumes "form_ok TOJ_PIXIE fm" "RegisterPixieJobFromFile S J sgi (file_of (form_items TOJ_PIXIE fm)) = Inr (0, Some r, S', s')"
  shows "asked_for TOJ_PIXIE fm S r S'"
  using assms
  by (simp add: form_defs RegisterPixieJobFromFile_def, simp add: copied, simp add: andThen_eq_Inr_iff getenv_set)
    (elim exE conjE, erule asked_forI, erule made(9), simp add: main_input_def, assumption, simp add: job_defs)

lemma aftereffects_job:
  assumes "form_ok TOJ_AFTEREFFECTS fm" "RegisterAftereffectsJobFromFile S J sgi (file_of (form_items TOJ_AFTEREFFECTS fm)) = Inr (0, Some r, S', s')"
  shows "asked_for TOJ_AFTEREFFECTS fm S r S'"
  using assms
  by (simp add: form_defs RegisterAftereffectsJobFromFile_def, simp add: copied, simp add: andThen_eq_Inr_iff getenv_set)
    (elim exE conjE, erule asked_forI, erule made(10), simp add: main_input_def, assumption, simp add: job_defs)

lemma aqsis_job:
  assumes "form_ok TOJ_AQSIS fm" "RegisterAqsisJobFromFile S J sgi (file_of (form_items TOJ_AQSIS fm)) = Inr (0, Some r, S', s')"
  shows "asked_for TOJ_AQSIS fm S r S'"
  using assms
  by (simp add: form_defs RegisterAqsisJobFromFile_def, simp add: copied, simp add: andThen_eq_Inr_iff getenv_set)
    (elim exE conjE, erule asked_forI, erule made(11), simp add: main_input_def, assumption, simp add: job_defs)

lemma mantra_job:
  assumes "form_ok TOJ_MANTRA fm" "RegisterMantraJobFromFile S J sgi (file_of (form_items TOJ_MANTRA fm)) = Inr (0, Some r, S', s')"
  shows "asked_for TOJ_MANTRA fm S r S'"
  using assms
  by (simp add: form_defs RegisterMantraJobFromFile_def, simp add: copied, simp add: andThen_eq_Inr_iff getenv_set)
    (elim exE conjE, erule asked_forI, erule made(12), simp add: main_input_def, assumption, simp add: job_defs)

lemma xsi_job:
  assumes "form_ok TOJ_XSI fm" "RegisterXSIJobFromFile S J sgi (file_of (form_items TOJ_XSI fm)) = Inr (0, Some r, S', s')"
  shows "asked_for TOJ_XSI fm S r S'"
  using assms
  by (simp add: form_defs RegisterXSIJobFromFile_def, simp add: copied, simp add: andThen_eq_Inr_iff getenv_set)
    (elim exE conjE, erule asked_forI, erule made(13), simp add: main_input_def, assumption, simp add: job_defs)

lemma luxrender_job:
  assumes "form_ok TOJ_LUXRENDER fm" "RegisterLuxrenderJobFromFile S J sgi (file_of (form_items TOJ_LUXRENDER fm)) = Inr (0, Some r, S', s')"
  shows "asked_for TOJ_LUXRENDER fm S r S'"
  using assms
  by (simp add: form_defs RegisterLuxrenderJobFromFile_def, simp add: copied, simp add: andThen_eq_Inr_iff getenv_set)
    (elim exE conjE, erule asked_forI, erule made(14), simp add: main_input_def, assumption, simp add: job_defs)

section \<open>The program and the master\<close>

lemma from_file:
  assumes "form_ok toj fm" "toj \<noteq> TOJ_XSI" "register_from_file toj S M (file_of (form_items toj fm)) = Inr (0, Some r, S', s')"
  shows "asked_for toj fm S r S'"
  using assms(3) unfolding register_from_file_def
  by (simp only: split: if_splits) (use assms(1,2) in \<open>blast dest: maya_job mentalray_job blender_job lightwave_job terragen_job shake_job nuke_job threedelight_job pixie_job aftereffects_job aqsis_job mantra_job xsi_job luxrender_job | simp\<close>)+

text \<open>A job of \<open>sendjob\<close> brings no variables along.\<close>

lemma described_env: "j_envvars (described_job toj user fm) = envvars_init"
  by (simp add: described_job_def job_init_def Let_def)

lemma wire_described:
  "j_envvars j = envvars_init \<Longrightarrow> wire_job j s = [MJob j, MWord16 0]"
  by (simp add: wire_job_def wire_envvars_def job_on_the_wire_def env_list_def envvars_init_def)

lemma register_job_writes:
  assumes "register_job junk j (Some c) w = Inr (Inr j', Some cc)" "j_envvars j = envvars_init"
  shows "tx cc = tx c @ job_request junk # wire_job j s"
  using assms
  by (auto simp: wire_described register_job_def failed_def sending_def expect_def send_job_def send_envvars_def send_request_def send_msg_def
      recv_request_def recv_as_def job_request_def job_on_the_wire_def envvars_init_def andThen_eq_Inr_iff
      split: option.splits prod.splits if_splits list.splits msg.splits)


lemma described_nframes:
  "job_nframes (step_not_zero ((described_job toj user fm)\<lparr>j_cmd := f\<rparr>)) = job_nframes (step_not_zero (described_job toj [] fm))"
  by (rule job_nframes_cong) (simp_all add: step_not_zero_def described_job_def Let_def job_init_def)

lemma sendjob_asks:
  assumes "str2toj t = toj" "toj \<noteq> TOJ_XSI" "toj \<noteq> TOJ_GENERAL" "form_ok toj fm"
    "sendjob S M (Some t) None infile (Some (is_rest (file_of (form_items toj fm)))) = Inr (0, Some r, S')"
  shows "\<exists>E. set_default_env (sh_env (sd_host S)) = Inr (Some E) \<and> asked_for toj fm (S\<lparr>sd_host := (sd_host S)\<lparr>sh_env := E\<rparr>\<rparr>) r S'"
proof -
  have opened: "file_of xs = \<lparr>is_rest = is_rest (file_of xs), is_good = True\<rparr>" for xs by (simp add: file_of_def)
  show ?thesis
    using assms(5) unfolding sendjob_def
    by (auto simp: assms(1,3) andThen_eq_Inr_iff Let_def opened [symmetric] split: option.splits if_splits
        intro!: from_file [OF assms(4,2)])
qed

text \<open>C7. What a file says waits at the master: when \<open>sendjob\<close> has sent the job that a file of any kind but the general one and XSI
  describes, its script was made for the scene of the file, and a master that reads what it wrote keeps the
  described job in its first free record, with the name, the owner, the range, the renderer and its settings from the file, that
  script as its command, and all its frames waiting.\<close>

theorem described_job_waits_at_master:
  assumes t: "str2toj t = toj" "toj \<noteq> TOJ_XSI" "toj \<noteq> TOJ_GENERAL" and f: "form_ok toj fm"
    and s: "sendjob S M (Some t) None infile (Some (is_rest (file_of (form_items toj fm)))) = Inr (0, Some (Inr j, Some cc), S')"
    and c0: "fst (connect S) = Some c0" "tx c0 = []" and w: "shm_ok (env_shm (sd_world S))"
    and m: "length (jobs m) = MAXJOBS" "semid m = sem_free" "roomy m" "shm_ok (frame_shm m)" "generous (frame_shm m)"
    and i: "i < MAXJOBS" "j_used (jobs m ! i) = 0" "\<forall>k < i. j_used (jobs m ! k) \<noteq> 0"
    and n: "0 < unat (job_nframes (step_not_zero (described_job toj [] fm)))" "unat (job_nframes (step_not_zero (described_job toj [] fm))) < 2147483648"
    and c: "job_request (sd_junk S) # rx c = tx cc" "tx c = []" "2 \<le> tx_left c"
  shows "\<exists>E x path user c' m' ev h. set_default_env (sh_env (sd_host S)) = Inr (Some E) \<and> E ''USER'' = Some user \<and>
    script_create x ((sd_host S)\<lparr>sh_env := E\<rparr>) = Inr (Some path, sd_host S') \<and> main_input x = fm_scene fm \<and>
    handle_r_r_regisjob c m = Inr (c', m') \<and> semid m' = sem_free \<and>
    jobs m' = (jobs m)[i := registered (of_nat i) ((described_job toj user fm)\<lparr>j_cmd := strncpy (MAXCMDLEN - 1) path\<rparr>) ev h (time32 m)] \<and>
    shmat h (frame_shm m') = Some (replicate (unat (job_nframes (step_not_zero (described_job toj [] fm)))) (job_frame_info_init zero_frame))"
proof -
  obtain E x path user where E: "set_default_env (sh_env (sd_host S)) = Inr (Some E)"
    and u: "E ''USER'' = Some user"
    and x: "script_create x ((sd_host S)\<lparr>sh_env := E\<rparr>) = Inr (Some path, sd_host S')" "main_input x = fm_scene fm"
    and r: "register_job (sd_junk S) ((described_job toj user fm)\<lparr>j_cmd := strncpy (MAXCMDLEN - 1) path\<rparr>) (Some c0) (sd_world S) = Inr (Inr j, Some cc)"
    using sendjob_asks [OF t f s] c0(1) by (auto simp: asked_for_def connect_def split: list.splits)
  let ?j = "(described_job toj user fm)\<lparr>j_cmd := strncpy (MAXCMDLEN - 1) path\<rparr>"
  have ev: "j_envvars ?j = envvars_init" by (simp add: described_env)
  have e: "env_fits ?j (env_shm (sd_world S))" using w by (simp add: env_fits_def env_ok_def described_env env_list_def envvars_init_def)
  have rx: "rx c = wire_job ?j (env_shm (sd_world S))" using register_job_writes [OF r ev, of "env_shm (sd_world S)"] c0(2) c(1) by simp
  note nf = described_nframes [where toj = toj and user = user and fm = fm]
  show ?thesis
    using register_roundtrip [OF m i e _ _ rx c(2,3) lessI] n E u x unfolding nf by blast
qed


section \<open>The other two kinds\<close>

text \<open>A general job is never registered: the name alone overruns its field.\<close>

lemma general_job_overruns:
  assumes "RegisterGeneralJob S sgi infile frameStart frameEnd frameStep s = Inr (ret, r, S', s')"
  shows "ret = 1 \<and> r = None"
  using assms
  by (auto simp: RegisterGeneralJob_def andThen_eq_Inr_iff Let_def max_defs split: if_splits option.splits prod.splits)

text \<open>An XSI job is registered, and then its file, which is at its end, is taken for one of Luxrender.\<close>

lemma env_kept:
  "sh_env (snd (jobscript_set_variable ji n v w)) = sh_env w"
  "sh_env (snd (jobscript_set_variable_int ji n k w)) = sh_env w"
  "sh_env (snd (jobscript_write_heading ji w)) = sh_env w"
  "sh_env (snd (jobscript_template_write ji t w)) = sh_env w"
  "jobscript_new ty f w = (ji, w') \<Longrightarrow> sh_env w' = sh_env w"
  by (auto simp: jobscript_set_variable_int_def jobscript_set_variable_def jobscript_python_set_variable_def jobscript_tcsh_set_variable_def
      jobscript_write_heading_def jobscript_tcsh_write_heading_def jobscript_python_write_heading_def jobscript_template_write_def
      jobscript_new_def split: option.splits if_splits)

lemma env_set_variables: "sh_env (set_variables ji vs w) = sh_env w"
  by (induction ji vs w rule: set_variables.induct) (simp_all add: env_kept)

lemma env_write_script: "write_script f vs t w = (p, w') \<Longrightarrow> sh_env w' = sh_env w"
  by (auto simp: write_script_def Let_def env_kept env_set_variables dest!: env_kept(5) split: prod.splits option.splits)

lemma env_xsi: "xsisg_create info w = Inr (p, w') \<Longrightarrow> sh_env w' = sh_env w"
  by (auto simp: xsisg_create_def andThen_eq_Inr_iff split: if_splits dest: env_write_script)

lemma nothing_left: "read_int old \<lparr>is_rest = [], is_good = g\<rparr> = (old, \<lparr>is_rest = [], is_good = False\<rparr>)"
  "getline t \<lparr>is_rest = [], is_good = False\<rparr> = (t, \<lparr>is_rest = [], is_good = False\<rparr>)"
  by (simp_all add: read_int_def getline_def)

text \<open>C29. Sending an XSI job fails after it has succeeded: the job is registered, and without a \<open>break\<close> the
  program goes on to read a Luxrender job from what is left of the file, finds no scene and exits with 1, and the
  user is told that there was an error.\<close>

theorem xsi_job_sent_but_reported_as_error:
  assumes f: "form_ok TOJ_XSI fm"
    and x: "RegisterXSIJobFromFile S (st_ints M) (st_xsi M) (file_of (form_items TOJ_XSI fm)) = Inr (0, Some r, S1, s1)"
  shows "asked_for TOJ_XSI fm S r S1 \<and> (\<exists>s2. register_from_file TOJ_XSI S M (file_of (form_items TOJ_XSI fm)) = Inr (1, None, S1, s2))"
proof -
  have s1: "s1 = \<lparr>is_rest = [nline], is_good = True\<rparr> \<and> sh_env (sd_host S1) = sh_env (sd_host S) \<and>
      (\<exists>u. sh_env (sd_host S) ''USER'' = Some u) \<and> (\<exists>d. sh_env (sd_host S) ''DRQUEUE_ROOT'' = Some d)"
    using f x
    by (simp add: form_defs RegisterXSIJobFromFile_def, simp add: copied, simp add: andThen_eq_Inr_iff getenv_set)
      (auto simp: submit_def Let_def connect_def andThen_eq_Inr_iff dest!: env_xsi split: option.splits list.splits prod.splits)
  then obtain u d where env: "getenv S1 ''USER'' = Inr u" "getenv S1 ''DRQUEUE_ROOT'' = Inr d" by (auto simp: getenv_def)
  have "RegisterLuxrenderJobFromFile S1 (st_ints M) (st_luxrender M) s1 = Inr (1, None, S1, \<lparr>is_rest = [], is_good = False\<rparr>)"
    using s1 by (simp add: RegisterLuxrenderJobFromFile_def env getline_end nothing_left fixed_texts luxrendersg_create_def submit_def)
  then show ?thesis using xsi_job [OF f x] x by (simp add: register_from_file_def)
qed

definition ball_form :: job_form where
  "ball_form = \<lparr>fm_owner = [], fm_name = ''ball'', fm_camera = [], fm_scene = ''/shots/ball.blend'', fm_renderdir = [], fm_projectdir = [],
     fm_configdir = [], fm_format = [], fm_image = [], fm_world = [], fm_terrain = [], fm_comp = [], fm_xsidir = [], fm_pass = [], fm_ext = [],
     fm_start = 1, fm_end = 3, fm_step = 1, fm_resx = 0, fm_resy = 0, fm_renderer = 0, fm_render_type = 1, fm_priority = 0, fm_maxcpus = 0,
     fm_pad = 0, fm_block = 0, fm_skip = 0\<rparr>"

definition ada_env :: environ where
  "ada_env = [''DRQUEUE_ROOT'' \<mapsto> ''/dq'', ''DRQUEUE_MASTER'' \<mapsto> ''queen'', ''USER'' \<mapsto> ''ada'']"

text \<open>A user whose connection the master accepts with record 1.\<close>

definition ada :: sender where
  "ada = \<lparr>sd_host = empty_disk\<lparr>sh_env := ada_env\<rparr>,
     sd_conns = [Some \<lparr>rx = [MRequest \<lparr>rq_type = R_R_REGISJOB, rq_who = MASTER, rq_data = RERR_NOERROR\<rparr>,
       MRequest \<lparr>rq_type = R_R_REGISJOB, rq_who = MASTER, rq_data = 1\<rparr>], tx = [], tx_left = 9\<rparr>],
     sd_world = example_master, sd_junk = 7, sd_stat = (\<lambda>_. Some 0x41FF), sd_login = None, sd_cwd = None, sd_uid = 0, sd_gid = 0\<rparr>"

definition ada_sendjob :: "sendjob_stack \<Rightarrow> fault + int \<times> job reply option \<times> sender" where
  "ada_sendjob M = sendjob ada M (Some ''blender'') None ''ball.txt'' (Some (is_rest (file_of (form_items TOJ_BLENDER ball_form))))"

lemma ada_form: "form_ok TOJ_BLENDER ball_form"
  by (simp add: form_ok_def form_items_def ball_form_def nline_def max_defs)

lemma ada_submits:
  assumes "j_envvars (g f) = envvars_init"
  shows "\<exists>j cc S' s'. submit (Some f, h) g (ada\<lparr>sd_host := h'\<rparr>) s = Inr (0, Some (Inr j, Some cc), S', s')"
proof -
  have e: "env_fits (g f) (env_shm example_master)" "length (wire_job (g f) (env_shm example_master)) < 9"
    by (simp_all add: wire_described assms env_fits_def env_ok_def env_list_def envvars_init_def example_master_def)
  show ?thesis
    using register_job_ok [OF e, of 7 1] by (simp add: submit_def connect_def ada_def Let_def)
qed

lemma ada_default_env: "set_default_env (sh_env (sd_host ada)) = Inr (Some (defaults ''/dq'' ++ ada_env))"
  by (simp add: ada_def) (rule set_default_env_defaults; simp add: ada_env_def)

lemma ada_sends: "\<exists>j cc S'. ada_sendjob M = Inr (0, Some (Inr j, Some cc), S')"
proof -
  let ?E = "defaults ''/dq'' ++ ada_env"
  let ?S = "ada\<lparr>sd_host := (sd_host ada)\<lparr>sh_env := ?E\<rparr>\<rparr>"
  note E = ada_default_env
  have v: "?E ''DRQUEUE_ROOT'' = Some ''/dq''" "?E ''DRQUEUE_MASTER'' = Some ''queen''" "?E ''USER'' = Some ''ada''"
    by (simp_all add: ada_env_def)
  have ck: "common_environment_check (sd_stat ada) ?E = Inr ()"
    unfolding common_environment_check_def v by (simp add: ada_def writable_dir_def S_ISDIR_def)
  have opened: "\<lparr>is_rest = is_rest (file_of xs), is_good = True\<rparr> = file_of xs" for xs by (simp add: file_of_def)
  have "\<exists>j cc S' s'. RegisterBlenderJobFromFile ?S (st_ints M) (st_blender M) (file_of (form_items TOJ_BLENDER ball_form)) =
      Inr (0, Some (Inr j, Some cc), S', s')"
  proof -
    have root: "getenv ?S ''DRQUEUE_ROOT'' = Inr ''/dq''" "getenv ?S ''USER'' = Inr ''ada''"
      using v by (simp_all add: getenv_def)
    obtain f h where b: "blendersg_create ((st_blender M)\<lparr>blg_scene := ''/shots/ball.blend'', blg_scriptdir := snprintf BUFFERLEN (''/dq'' @ ''/tmp/''), blg_render_type := 1\<rparr>)
        (sd_host ?S) = Inr (Some f, h)"
      using write_script_returns [of "sd_host ?S"]
      by (fastforce simp: blendersg_create_def copy_path_def max_defs ada_def empty_disk_def)
    show ?thesis
      using ada_form b
      by (simp add: form_defs RegisterBlenderJobFromFile_def root, simp add: copied)
        (simp add: ball_form_def, rule ada_submits, simp add: job_init_def Let_def)
  qed
  then show ?thesis
    by (auto simp: ada_sendjob_def sendjob_def E ck opened str2toj_def register_from_file_def)
qed

theorem described_job_waits_at_master_witness:
  "\<forall>M. \<exists>j cc S' path c' m' ev h. ada_sendjob M = Inr (0, Some (Inr j, Some cc), S') \<and>
     handle_r_r_regisjob \<lparr>rx = tl (tx cc), tx = [], tx_left = 2\<rparr> example_master = Inr (c', m') \<and>
     jobs m' ! 1 = registered 1 ((described_job TOJ_BLENDER ''ada'' ball_form)\<lparr>j_cmd := path\<rparr>) ev h (time32 example_master)"
proof
  fix M
  obtain j cc S' where s: "ada_sendjob M = Inr (0, Some (Inr j, Some cc), S')" using ada_sends by blast
  note run = s [unfolded ada_sendjob_def]
  have t: "str2toj ''blender'' = TOJ_BLENDER" "TOJ_BLENDER \<noteq> TOJ_XSI" "TOJ_BLENDER \<noteq> TOJ_GENERAL" by (simp_all add: str2toj_def)
  let ?c0 = "the (fst (connect ada))"
  have c0: "fst (connect ada) = Some ?c0" "tx ?c0 = []" by (simp_all add: connect_def ada_def)
  have "tx cc = job_request (sd_junk ada) # tl (tx cc)"
  proof -
    obtain E where "asked_for TOJ_BLENDER ball_form (ada\<lparr>sd_host := (sd_host ada)\<lparr>sh_env := E\<rparr>\<rparr>) (Inr j, Some cc) S'"
      using sendjob_asks [OF t ada_form run] by blast
    then obtain path user where "register_job (sd_junk ada) ((described_job TOJ_BLENDER user ball_form)\<lparr>j_cmd := path\<rparr>) (Some ?c0) (sd_world ada) = Inr (Inr j, Some cc)"
      by (auto simp: asked_for_def connect_def ada_def)
    from register_job_writes [OF this, of shm_empty] show ?thesis by (simp add: described_env c0(2))
  qed
  then have c: "job_request (sd_junk ada) # rx \<lparr>rx = tl (tx cc), tx = [], tx_left = 2\<rparr> = tx cc" by simp
  have m: "length (jobs example_master) = MAXJOBS" "semid example_master = sem_free" "roomy example_master"
    "shm_ok (frame_shm example_master)" "generous (frame_shm example_master)" "1 < MAXJOBS" "j_used (jobs example_master ! 1) = 0"
    "\<forall>k < 1. j_used (jobs example_master ! k) \<noteq> 0"
    by (simp_all add: example_master_def roomy_def generous_def shm_empty_def shm_ok_def max_defs zero_job_def render_job_def)
  have n: "unat (job_nframes (step_not_zero (described_job TOJ_BLENDER [] ball_form))) = 3"
    by (simp add: step_not_zero_def described_job_def ball_form_def job_init_def Let_def job_nframes_def)
  have w: "shm_ok (env_shm (sd_world ada))" by (simp add: ada_def example_master_def)
  obtain E x path user c' m' ev h where r: "set_default_env (sh_env (sd_host ada)) = Inr (Some E)"
    "handle_r_r_regisjob \<lparr>rx = tl (tx cc), tx = [], tx_left = 2\<rparr> example_master = Inr (c', m')"
    "jobs m' = (jobs example_master)[1 := registered (of_nat 1) ((described_job TOJ_BLENDER user ball_form)\<lparr>j_cmd := strncpy (MAXCMDLEN - 1) path\<rparr>) ev h (time32 example_master)]"
    "E ''USER'' = Some user"
    using described_job_waits_at_master [OF t ada_form run c0 w m _ _ c] n by auto
  have "user = ''ada''" using r(1,4) ada_default_env by (auto simp: ada_env_def)
  then have "jobs m' ! 1 = registered 1 ((described_job TOJ_BLENDER ''ada'' ball_form)\<lparr>j_cmd := strncpy (MAXCMDLEN - 1) path\<rparr>) ev h (time32 example_master)"
    using r(3) m(1,6) by simp
  with s r(2) show "\<exists>j cc S' path c' m' ev h. ada_sendjob M = Inr (0, Some (Inr j, Some cc), S') \<and>
     handle_r_r_regisjob \<lparr>rx = tl (tx cc), tx = [], tx_left = 2\<rparr> example_master = Inr (c', m') \<and>
     jobs m' ! 1 = registered 1 ((described_job TOJ_BLENDER ''ada'' ball_form)\<lparr>j_cmd := path\<rparr>) ev h (time32 example_master)"
    by blast
qed

definition flight_form :: job_form where
  "flight_form = ball_form\<lparr>fm_owner := ''ada'', fm_name := ''flight'', fm_xsidir := ''XSI_5.1'', fm_scene := ''/shots/f.scn'', fm_renderdir := ''/out'',
     fm_pass := ''beauty'', fm_image := ''f'', fm_ext := ''pic'', fm_priority := 500, fm_pad := 4, fm_block := 1\<rparr>"

theorem xsi_job_sent_but_reported_as_error_witness:
  "\<forall>M. \<exists>S r S1 s2. asked_for TOJ_XSI flight_form S r S1 \<and>
     register_from_file TOJ_XSI S M (file_of (form_items TOJ_XSI flight_form)) = Inr (1, None, S1, s2)"
proof
  fix M :: sendjob_stack
  let ?S = "ada\<lparr>sd_host := (sd_host ada)\<lparr>sh_env := defaults ''/dq'' ++ ada_env\<rparr>\<rparr>"
  have form: "form_ok TOJ_XSI flight_form"
    by (simp add: form_ok_def form_items_def flight_form_def ball_form_def nline_def max_defs)
  have env: "getenv ?S ''DRQUEUE_ROOT'' = Inr ''/dq''" "getenv ?S ''USER'' = Inr ''ada''"
    by (simp_all add: getenv_def ada_env_def)
  have made: "\<exists>f h. xsisg_create i (sd_host ?S) = Inr (Some f, h)"
    if "xsg_scene i = ''/shots/f.scn''" "xsg_renderdir i = ''/out''" "xsg_xsiDir i = ''XSI_5.1''" for i
    using write_script_returns [of "sd_host ?S"] that
    by (fastforce simp: xsisg_create_def copy_path_def max_defs ada_def empty_disk_def)
  have "\<exists>r S1 s1. RegisterXSIJobFromFile ?S (st_ints M) (st_xsi M) (file_of (form_items TOJ_XSI flight_form)) = Inr (0, Some r, S1, s1)"
  proof -
    let ?i = "(st_xsi M)\<lparr>xsg_file_owner := ''ada'', xsg_res_x := 0, xsg_res_y := 0, xsg_skipFrames := 0, xsg_xsiDir := ''XSI_5.1'', xsg_scene := ''/shots/f.scn'',
      xsg_xsipass := ''beauty'', xsg_renderdir := ''/out'', xsg_scriptdir := snprintf BUFFERLEN (''/dq'' @ ''/tmp/''), xsg_image := ''f'', xsg_imageExt := ''pic'',
      xsg_runScript := 0, xsg_scriptRun := []\<rparr>"
    obtain f h where b: "xsisg_create ?i (sd_host ?S) = Inr (Some f, h)" using made [of ?i] by auto
    have out: "\<exists>a b S1 s1. submit (Some f, h) g ?S s = Inr (0, Some (a, b), S1, s1)" if "j_envvars (g f) = envvars_init" for g s
      using ada_submits [of g f h _ s] that by blast
    show ?thesis
      using form b
      by (simp add: form_defs RegisterXSIJobFromFile_def env, simp add: copied)
        (simp add: flight_form_def ball_form_def, rule out, simp add: job_init_def Let_def)
  qed
  then show "\<exists>S r S1 s2. asked_for TOJ_XSI flight_form S r S1 \<and>
     register_from_file TOJ_XSI S M (file_of (form_items TOJ_XSI flight_form)) = Inr (1, None, S1, s2)"
    using xsi_job_sent_but_reported_as_error [OF form] by blast
qed

end
