(* ===== verification/Commands.thy ===== *)
theory Commands
  imports Tools Submission
begin

text \<open>
  The tools and the master together: what a user's command does to a job at the master, and what the master holds
  and a tool prints.
\<close>

section \<open>Stopping a job\<close>

text \<open>A request that is not answered: the tool writes it, and the master serves what the tool wrote.\<close>

definition asked_by :: "conn \<Rightarrow> conn \<Rightarrow> u8 \<Rightarrow> u32 \<Rightarrow> bool" where
  "asked_by c0 cc ty n \<longleftrightarrow> tx cc = tx c0 @ [MRequest \<lparr>rq_type = ty, rq_who = CLIENT, rq_data = n\<rparr>]"

lemma sends_request:
  "0 < tx_left c0 \<Longrightarrow> \<exists>cc. connected (Some c0) (\<lambda>c. ask ty n CLIENT c succeed) = (Inr (), Some cc) \<and> asked_by c0 cc ty n"
  by (simp add: connected_def ask_def send_request_def send_msg_def succeed_def asked_by_def)

lemma cjob_option_simps:
  "cjob_option (CHR ''s'', s) (i, a) = Inr (i, Cjob_stop)" "cjob_option (CHR ''j'', s) (i, a) = Inr (atoi s, a)"
  by (simp_all add: cjob_option_def end_option_def)

lemma cjob_options:
  "n < 2147483648 \<Longrightarrow> options cjob_option [(CHR ''s'', []), (CHR ''j'', dec n)] (-1, Cjob_none) = Inr (of_nat n, Cjob_stop)"
  by (simp only: options.simps cjob_option_simps atoi_dec sum.case)

lemma cjob_sends:
  assumes p: "prepared C = Inr True" and c: "cl_conn C = Some c0" "0 < tx_left c0" and n: "n < 2147483648"
  shows "\<exists>cc. cjob C [(CHR ''s'', []), (CHR ''j'', dec n)] = Inr (0, ''Stopping job: '' @ dec n @ nl, Some cc, cl_world C) \<and>
    asked_by c0 cc R_R_STOPJOB (of_nat n)"
proof -
  obtain cc where cc: "request_job_stop (of_nat n) CLIENT (Some c0) = (Inr (), Some cc)" "asked_by c0 cc R_R_STOPJOB (of_nat n)"
    using sends_request [OF c(2), of R_R_STOPJOB "of_nat n", folded request_job_stop_def] by (elim exE conjE)
  have "cjob C [(CHR ''s'', []), (CHR ''j'', dec n)] = Inr (0, ''Stopping job: '' @ dec n @ nl, Some cc, cl_world C)"
    unfolding cjob_def after_options_def cjob_options [OF n] sum.case prod.case p andThen_simps c(1) cjob_action.case
    by (simp only: small_index [OF n] cjob_action.distinct simp_thms if_False if_True) (simp only: cc snd_conv)
  from this cc(2) show ?thesis by (intro exI conjI)
qed

lemma serves_request:
  assumes "asked_by c0 cc ty n" "tx c0 = []"
  shows "handle_request_master stale addr host icomp (peer cc k) m =
    andThen (serve stale addr host icomp ty n \<lparr>rx = [], tx = [], tx_left = k\<rparr> m) (\<lambda>(c, m). Inr (c, process_exit m))"
  using assms by (simp add: handle_request_master_def peer_def asked_by_def recv_request_def recv_as_def touch_computer_def max_defs)

text \<open>C13. \<open>cjob -s -j n\<close> stops the job \<open>n\<close>: the tool prints its line and ends with 0, and when the master serves
  what the tool has written, on behalf of any machine, the database stays well formed, the job is stopped, no computer
  is offered a frame of it, the checks of the master leave it stopped, no other job has changed, and
  the request to continue brings back the database as it was, with the job waiting.\<close>

theorem stop_command_stops_job:
  assumes p: "prepared C = Inr True" and c: "cl_conn C = Some c0" "0 < tx_left c0" "tx c0 = []"
    and ok: "database_ok m" and n: "n < MAXJOBS" "j_used (jobs m ! n) \<noteq> 0"
    and st: "j_status (jobs m ! n) \<in> {JOBSTATUS_WAITING, JOBSTATUS_ACTIVE}"
  shows "\<exists>cc m'. cjob C [(CHR ''s'', []), (CHR ''j'', dec n)] = Inr (0, ''Stopping job: '' @ dec n @ nl, Some cc, cl_world C) \<and>
    handle_request_master stale addr host icomp (peer cc k) m = Inr (\<lparr>rx = [], tx = [], tx_left = k\<rparr>, m') \<and>
    database_ok m' \<and> jobs m' = (jobs m)[n := (jobs m ! n)\<lparr>j_status := JOBSTATUS_STOPPED\<rparr>] \<and>
    (\<forall>i. job_available (of_nat n) i m' = Inr (None, m')) \<and>
    (\<forall>m2. job_update_info (of_nat n) m' = Inr m2 \<longrightarrow> j_status (jobs m2 ! n) = JOBSTATUS_STOPPED) \<and>
    handle_r_r_contjob (of_nat n) m' = Inr (upd_job (of_nat n) (\<lambda>j. j\<lparr>j_status := JOBSTATUS_WAITING\<rparr>) m)"
proof -
  have n': "n < 2147483648" using n(1) by (simp add: max_defs)
  note u = small_index(3) [OF n']
  obtain cc where cc: "cjob C [(CHR ''s'', []), (CHR ''j'', dec n)] = Inr (0, ''Stopping job: '' @ dec n @ nl, Some cc, cl_world C)"
    "asked_by c0 cc R_R_STOPJOB (of_nat n)" using cjob_sends [OF p c(1,2) n'] by (elim exE conjE)
  let ?m = "upd_job (of_nat n) job_stop m" and ?c = "\<lparr>rx = [], tx = [], tx_left = k\<rparr>"
  have i: "unat (of_nat n :: u32) < MAXJOBS" "j_used (jobs m ! unat (of_nat n :: u32)) \<noteq> 0"
    "j_status (jobs m ! unat (of_nat n :: u32)) \<in> {JOBSTATUS_WAITING, JOBSTATUS_ACTIVE}"
    unfolding u by (fact n(1), fact n(2), fact st)
  note stopped = stopped_job [OF ok i]
  have upd: "\<forall>m2. job_update_info (of_nat n) ?m = Inr m2 \<longrightarrow> j_status (jobs m2 ! n) = JOBSTATUS_STOPPED"
    using stopped(4) unfolding u by blast
  have jobs: "jobs ?m = (jobs m)[n := (jobs m ! n)\<lparr>j_status := JOBSTATUS_STOPPED\<rparr>]"
    using st by (auto simp: upd_job_def u job_stop_def)
  have quit: "process_exit ?m = ?m" using stopped(2) by (simp add: database_ok_def process_exit_def)
  have "serve stale addr host icomp R_R_STOPJOB (of_nat n) ?c m = Inr (?c, ?m)"
    by (simp add: serve_def on_master_def stopped(1))
  then have "handle_request_master stale addr host icomp (peer cc k) m = Inr (?c, ?m)"
    unfolding serves_request [OF cc(2) c(3)] by (simp only: andThen_simps prod.case quit)
  moreover have "\<forall>i. job_available (of_nat n) i ?m = Inr (None, ?m)" using stopped(3) by blast
  ultimately show ?thesis using cc(1) stopped(2,5) jobs upd by (intro exI [of _ cc] exI [of _ ?m] conjI)
qed


text \<open>A user at a machine with the directories of the queue, who reaches the master.\<close>

definition ada_client :: client where
  "ada_client = \<lparr>cl_env = ada_env, cl_stat = (\<lambda>_. Some 0x41FF), cl_conn = Some \<lparr>rx = [], tx = [], tx_left = 9\<rparr>,
     cl_world = example_master, cl_junk = 7, cl_job = job_init ''ada'' zero_job, cl_computer = example_computer, cl_status = 0\<rparr>"

lemma ada_prepared: "prepared ada_client = Inr True"
proof -
  have E: "set_default_env ada_env = Inr (Some (defaults ''/dq'' ++ ada_env))"
    by (rule set_default_env_defaults) (simp_all add: ada_env_def)
  have "common_environment_check (\<lambda>_. Some 0x41FF) (defaults ''/dq'' ++ ada_env) = Inr ()"
    by (simp add: common_environment_check_def writable_dir_def S_ISDIR_def defaults_def env_dirs_def ada_env_def map_add_def)
  then show ?thesis by (simp add: prepared_def ada_client_def E)
qed

theorem stop_command_stops_job_witness:
  "\<exists>cc m'. cjob ada_client [(CHR ''s'', []), (CHR ''j'', dec 0)] = Inr (0, ''Stopping job: '' @ dec 0 @ nl, Some cc, example_master) \<and>
    handle_request_master (\<lambda>_. 0) [] None (-1) (peer cc 0) example_master = Inr (\<lparr>rx = [], tx = [], tx_left = 0\<rparr>, m') \<and>
    job_available 0 0 m' = Inr (None, m')"
proof -
  have c: "cl_conn ada_client = Some \<lparr>rx = [], tx = [], tx_left = 9\<rparr>" "cl_world ada_client = example_master" by (simp_all add: ada_client_def)
  have j: "j_used (jobs example_master ! 0) \<noteq> 0" "j_status (jobs example_master ! 0) \<in> {JOBSTATUS_WAITING, JOBSTATUS_ACTIVE}"
    by (simp_all add: example_master_def render_job_def zero_job_def)
  show ?thesis
    using stop_command_stops_job [OF ada_prepared c(1) _ _ example_database_ok _ j, of "\<lambda>_. 0" "[]" None "-1" 0]
    by (simp add: max_defs c(2)) blast
qed

section \<open>Showing a job\<close>

definition variable_line :: "envvar \<Rightarrow> cstring" where
  "variable_line v = [CHR 0x09] @ ev_name v @ ''='' @ ev_value v @ nl"

lemma print_variables_all: "print_variables (length vs) vs = Inr (concat (map variable_line vs))"
  by (induction vs) (simp_all add: variable_line_def)

lemma print_variables_env:
  assumes "env_ok (ev, s)"
  shows "(case envvars_attach (ev, s) of
      None \<Rightarrow> if nvariables ev = 0 then Inr [] else Inl WildPointer
    | Some vs \<Rightarrow> print_variables (unat (nvariables ev)) vs) = Inr (concat (map variable_line (env_list (ev, s))))"
proof (cases "evshmid ev = -1")
  case True
  then show ?thesis using assms by (simp add: env_ok_def envvars_attach_def env_list_def)
next
  case False
  then have "envvars_attach (ev, s) = Some (env_list (ev, s))" "unat (nvariables ev) = length (env_list (ev, s))"
    using assms by (auto simp: env_ok_def env_list_def envvars_attach_def shmat_def split: if_splits)
  then show ?thesis by (simp add: print_variables_all)
qed

lemma show_arrived:
  assumes "env_ok (ev, s)"
  shows "show_job (arrived j ev) s =
    Inr (print_job j @ [CHR 0x09] @ ''Environment variables'' @ nl @ concat (map variable_line (env_list (ev, s))))"
proof -
  have j: "print_job (arrived j ev) = print_job j" "j_envvars (arrived j ev) = ev"
    by (simp_all add: print_job_def arrived_def step_not_zero_def job_fix_received_invalid_def)
  show ?thesis unfolding show_job_def j print_variables_env [OF assms] by (simp only: andThen_simps)
qed

text \<open>\<open>jobinfo -j n\<close> prints the job \<open>n\<close> as the master has it: its number, its name, and a line for each variable of
  its environment, in their order.  This holds when the structure that \<open>malloc\<close> left names no segments, for
  \<open>request_job_xfer\<close> removes the ones it names.\<close>

theorem jobinfo_shows_job:
  assumes p: "prepared C = Inr True" and u: "unowned (cl_job C)" "roomy (cl_world C)" and k: "0 < k"
    and j: "length (jobs m) = MAXJOBS" "n < MAXJOBS" "j_used (jobs m ! n) \<noteq> 0" and sem: "semid m = sem_free"
    and e: "env_fits (jobs m ! n) (env_shm m)"
    and t: "tx c = []" "length (wire_job (jobs m ! n) (env_shm m)) < tx_left c"
  shows "\<exists>c' m' c2 w. handle_r_r_jobxfer (of_nat n) c m = Inr (c', m') \<and> jobs m' = jobs m \<and> semid m' = sem_free \<and>
    jobinfo (C\<lparr>cl_conn := Some (peer c' k)\<rparr>) [(CHR ''j'', dec n)] =
      Inr (0, print_job (jobs m ! n) @ [CHR 0x09] @ ''Environment variables'' @ nl @
        concat (map variable_line (env_list (j_envvars (jobs m ! n), env_shm m))), Some c2, w)"
proof -
  have n: "n < 2147483648" using j(2) by (simp add: max_defs)
  note i = small_index [OF n]
  obtain c' m' ev es c2 where h: "handle_r_r_jobxfer (of_nat n) c m = Inr (c', m')" "jobs m' = jobs m" "semid m' = sem_free"
    and r: "request_job_xfer (of_nat n) (cl_job C) CLIENT (Some (peer c' k)) (cl_world C) =
      Inr (Inr (arrived (jobs m ! n) ev, (cl_world C)\<lparr>env_shm := es\<rparr>), Some c2)"
    and ev: "env_ok (ev, es)" "env_list (ev, es) = env_list (j_envvars (jobs m ! n), env_shm m)"
    using job_transfer [of m "of_nat n", unfolded i, OF j sem e t u k] by blast
  let ?C = "C\<lparr>cl_conn := Some (peer c' k)\<rparr>"
  obtain b e' s where f: "envvars_free (ev, es) = (b, e', s)" by (cases "envvars_free (ev, es)") auto
  have o: "options jobinfo_option [(CHR ''j'', dec n)] (-1, Info_none) = Inr (of_nat n, Info_one)"
    by (simp add: jobinfo_option_def end_option_def atoi_dec [OF n])
  have P: "prepared ?C = Inr True" using p by (simp add: prepared_def cong: option.case_cong)
  have E: "j_envvars (arrived (jobs m ! n) ev) = ev" "env_shm ((cl_world C)\<lparr>env_shm := es\<rparr>) = es"
    "(cl_world C)\<lparr>env_shm := es, env_shm := s\<rparr> = (cl_world C)\<lparr>env_shm := s\<rparr>" by (simp_all add: arrived_def)
  have S: "cl_job ?C = cl_job C" "cl_conn ?C = Some (peer c' k)" "cl_world ?C = cl_world C" by simp_all
  have "jobinfo ?C [(CHR ''j'', dec n)] = Inr (0, print_job (jobs m ! n) @ [CHR 0x09] @ ''Environment variables'' @ nl @
        concat (map variable_line (env_list (j_envvars (jobs m ! n), env_shm m))), Some c2, (cl_world C)\<lparr>env_shm := s\<rparr>)"
    unfolding jobinfo_def after_options_def o P sum.case prod.case andThen_simps
    by (simp only: info_op.distinct simp_thms if_False if_True S r andThen_simps prod.case sum.case
      show_arrived [OF ev(1)] E f ev(2))
  with h show ?thesis by blast
qed

theorem jobinfo_shows_job_witness:
  "\<exists>c' m' c2 w. handle_r_r_jobxfer 0 (quiet_client []) shaded_master = Inr (c', m') \<and>
    jobinfo (ada_client\<lparr>cl_conn := Some (peer c' 1)\<rparr>) [(CHR ''j'', dec 0)] =
      Inr (0, print_job shaded_job @ [CHR 0x09] @ ''Environment variables'' @ nl @
        [CHR 0x09] @ ''SHADER=toon'' @ nl @ [CHR 0x09] @ ''W=640'' @ nl, Some c2, w)"
proof -
  have c: "unowned (cl_job ada_client)" "roomy (cl_world ada_client)"
    by (simp_all add: ada_client_def fresh_unowned example_roomy)
  have t: "tx (quiet_client []) = []" "length (wire_job (jobs shaded_master ! 0) (env_shm shaded_master)) < tx_left (quiet_client [])"
    by (simp_all add: quiet_client_def shaded shaded_env)
  have j: "0 < MAXJOBS" "j_used (jobs shaded_master ! 0) \<noteq> 0" "env_fits (jobs shaded_master ! 0) (env_shm shaded_master)"
    by (simp_all add: shaded shaded_env max_defs)
  have l: "concat (map variable_line (env_list (j_envvars (jobs shaded_master ! 0), env_shm shaded_master))) =
      [CHR 0x09] @ ''SHADER=toon'' @ nl @ [CHR 0x09] @ ''W=640'' @ nl"
    by (simp add: shaded variable_line_def)
  show ?thesis
    using jobinfo_shows_job [OF ada_prepared c zero_less_one shaded(1) j(1,2) shaded(3) j(3) t]
    unfolding l unfolding shaded(2) semiring_1_class.of_nat_0 by blast
qed

end
