(* ===== verification/Hardware.thy ===== *)
theory Hardware
  imports Configfile Submission
begin

text \<open>
  What a slave finds out about its machine before it registers (\<open>computer_info.c\<close>, and \<open>computer_info.linux.h\<close> for
  Linux): the files under \<open>/proc\<close> are read line by line and searched.  The files are a parameter, and so are
  what \<open>gethostname\<close> gives, the size of a pointer, and the whole part of what \<open>sscanf\<close> reads with \<open>%f\<close>.
\<close>

section \<open>Constants\<close>

abbreviation ARCH_UNKNOWN :: u8 where "ARCH_UNKNOWN \<equiv> 0"
abbreviation ARCH_INTEL :: u8 where "ARCH_INTEL \<equiv> 1"
abbreviation ARCH_MIPS :: u8 where "ARCH_MIPS \<equiv> 2"
abbreviation ARCH_PPC :: u8 where "ARCH_PPC \<equiv> 3"
abbreviation ARCH_SPARC :: u8 where "ARCH_SPARC \<equiv> 4"
abbreviation ARCH_POWER :: u8 where "ARCH_POWER \<equiv> 5"

abbreviation PROCTYPE_UNKNOWN :: u8 where "PROCTYPE_UNKNOWN \<equiv> 0"
abbreviation PROCTYPE_INTEL_UNKNOWN :: u8 where "PROCTYPE_INTEL_UNKNOWN \<equiv> 1"
abbreviation PROCTYPE_PENTIUM :: u8 where "PROCTYPE_PENTIUM \<equiv> 2"
abbreviation PROCTYPE_PENTIUMII :: u8 where "PROCTYPE_PENTIUMII \<equiv> 3"
abbreviation PROCTYPE_PENTIUMIII :: u8 where "PROCTYPE_PENTIUMIII \<equiv> 4"
abbreviation PROCTYPE_PENTIUM4 :: u8 where "PROCTYPE_PENTIUM4 \<equiv> 5"
abbreviation PROCTYPE_INTELXEON :: u8 where "PROCTYPE_INTELXEON \<equiv> 6"
abbreviation PROCTYPE_INTELIA64 :: u8 where "PROCTYPE_INTELIA64 \<equiv> 7"
abbreviation PROCTYPE_PENTIUMM :: u8 where "PROCTYPE_PENTIUMM \<equiv> 8"
abbreviation PROCTYPE_ATHLON :: u8 where "PROCTYPE_ATHLON \<equiv> 9"
abbreviation PROCTYPE_OPTERON :: u8 where "PROCTYPE_OPTERON \<equiv> 10"
abbreviation PROCTYPE_MIPSR5000 :: u8 where "PROCTYPE_MIPSR5000 \<equiv> 11"
abbreviation PROCTYPE_MIPSR10000 :: u8 where "PROCTYPE_MIPSR10000 \<equiv> 12"
abbreviation PROCTYPE_MIPSR12000 :: u8 where "PROCTYPE_MIPSR12000 \<equiv> 13"
abbreviation PROCTYPE_PPC :: u8 where "PROCTYPE_PPC \<equiv> 14"
abbreviation PROCTYPE_INTEL_CORE2 :: u8 where "PROCTYPE_INTEL_CORE2 \<equiv> 15"
abbreviation PROCTYPE_ULTRASPARC :: u8 where "PROCTYPE_ULTRASPARC \<equiv> 16"
abbreviation PROCTYPE_CELLBE :: u8 where "PROCTYPE_CELLBE \<equiv> 17"

section \<open>Reading a file to its end\<close>

text \<open>
  The loop \<open>while (!feof (f)) { fgets (buf,n,f); ... }\<close>, as the contents of the buffer in each round.  The end of the file is only
  known after a read has met it, so a file that ends with a line end gives a last round in which nothing is
  read and the buffer is the old one; \<open>None\<close> is a buffer that was never set.
\<close>

definition met_end :: "nat \<Rightarrow> cstring \<Rightarrow> cstring \<Rightarrow> bool" where
  "met_end n line rest \<longleftrightarrow> rest = [] \<and> length line < n - 1 \<and> last line \<noteq> CHR 0x0A"

fun rounds :: "nat \<Rightarrow> nat \<Rightarrow> cstring option \<Rightarrow> cstring \<Rightarrow> cstring option list" where
  "rounds 0 n buf content = []"
| "rounds (Suc k) n buf content = (case fgets n content of
      None \<Rightarrow> [buf]
    | Some (line, rest) \<Rightarrow> Some (cstr line) # (if met_end n line rest then [] else rounds k n (Some (cstr line)) rest))"

text \<open>Each round but the last takes a character.\<close>

definition buffers :: "cstring \<Rightarrow> cstring option list" where
  "buffers content = rounds (Suc (length content)) (BUFFERLEN - 1) None content"

text \<open>Looking until a line says what was looked for.\<close>

fun search :: "(cstring \<Rightarrow> (fault + 'a) option) \<Rightarrow> cstring option list \<Rightarrow> fault + 'a option" where
  "search f [] = Inr None"
| "search f (None # bs) = Inl WildPointer"
| "search f (Some b # bs) = (case f b of None \<Rightarrow> search f bs | Some r \<Rightarrow> andThen r (\<lambda>x. Inr (Some x)))"

text \<open>From the first digit on; without one, the loop runs on behind the text.\<close>

definition from_digit :: "cstring \<Rightarrow> fault + cstring" where
  "from_digit s = (let t = dropWhile (\<lambda>c. \<not> is_digit c) s in if t = [] then Inl WildPointer else Inr t)"

section \<open>The machine\<close>

record machine_files =
  mf_hostname :: "cstring option"
  mf_cpuinfo :: "cstring option"
  mf_meminfo :: "cstring option"
  mf_pointer :: nat
  mf_float :: "cstring \<Rightarrow> int"

text \<open>\<open>None\<close> as a result: the process has sent SIGINT to its own group.\<close>

type_synonym 'a found = "fault + 'a option"

definition reading :: "cstring option \<Rightarrow> (cstring option list \<Rightarrow> 'a found) \<Rightarrow> 'a found" where
  "reading path f = (case path of None \<Rightarrow> Inr None | Some content \<Rightarrow> f (buffers content))"

text \<open>\<open>strtok\<close> with the separators colon and space; the second token is the number.\<close>

definition strtok_sep :: "cstring \<Rightarrow> (cstring \<times> cstring) option" where
  "strtok_sep s = (let t = dropWhile (\<lambda>c. c \<in> set '': '') s; w = takeWhile (\<lambda>c. c \<notin> set '': '') t
     in if t = [] then None else Some (w, drop (Suc (length w)) t))"

definition quotient :: "int \<Rightarrow> int \<Rightarrow> int" where
  "quotient a b = (if a < 0 then - ((- a) div b) else a div b)"

definition memory_of_line :: "cstring \<Rightarrow> (fault + u32) option" where
  "memory_of_line buf =
     (if strstr buf ''MemTotal'' then
       Some (case strtok_sep buf of None \<Rightarrow> Inl WildPointer
         | Some (_, buf) \<Rightarrow> (case strtok_sep buf of None \<Rightarrow> Inl WildPointer
             | Some (token, _) \<Rightarrow> Inr (of_int (quotient (sint (atoi token)) 1024))))
     else None)"

definition get_memory :: "machine_files \<Rightarrow> u32 found" where
  "get_memory M = reading (mf_meminfo M) (search memory_of_line)"

definition model_name :: "cstring \<Rightarrow> u8" where
  "model_name buf =
     (if strstr buf ''Opteron'' then PROCTYPE_OPTERON
      else if strstr buf ''AMD Athlon'' then PROCTYPE_ATHLON
      else if strstr buf ''Xeon'' then PROCTYPE_INTELXEON
      else if strstr buf ''Pentium(R) 4'' then PROCTYPE_PENTIUM4
      else if strstr buf ''Pentium(R) M'' then PROCTYPE_PENTIUMM
      else if strstr buf ''Pentium III'' then PROCTYPE_PENTIUMIII
      else if strstr buf ''Pentium II'' then PROCTYPE_PENTIUMII
      else if strstr buf ''Pentium '' then PROCTYPE_PENTIUM
      else PROCTYPE_UNKNOWN)"

definition proctype_line :: "cstring \<Rightarrow> u8 option" where
  "proctype_line buf =
     (if strstr buf ''model name'' then Some (model_name buf)
      else if strstr buf ''arch'' \<and> strstr buf ''IA-64'' then Some PROCTYPE_INTELIA64
      else if strstr buf ''platform'' \<and> strstr buf ''PowerMac'' then Some PROCTYPE_PPC
      else if strstr buf ''cpu'' \<and> strstr buf ''UltraSparc'' then Some PROCTYPE_ULTRASPARC
      else if strstr buf ''cpu'' \<and> strstr buf ''Cell Broadband Engine'' then Some PROCTYPE_CELLBE
      else if strstr buf ''cpu model'' \<and> strstr buf ''R5000'' then Some PROCTYPE_MIPSR5000
      else if strstr buf ''cpu model'' \<and> strstr buf ''R10000'' then Some PROCTYPE_MIPSR10000
      else if strstr buf ''cpu model'' \<and> strstr buf ''R12000'' then Some PROCTYPE_MIPSR12000
      else None)"

definition get_proctype :: "machine_files \<Rightarrow> u8 found" where
  "get_proctype M = reading (mf_cpuinfo M) (search (\<lambda>buf. map_option Inr (proctype_line buf)))"

text \<open>\<open>strtoll\<close> with base 16 at a digit.\<close>

definition is_hex :: "char \<Rightarrow> bool" where
  "is_hex c \<longleftrightarrow> c \<in> set ''0123456789abcdefABCDEF''"

definition hex_value :: "char \<Rightarrow> nat" where
  "hex_value c = (if is_digit c then char_digit c else if c \<in> set ''abcdef'' then of_char c - 87 else of_char c - 55)"

definition strtoll16 :: "cstring \<Rightarrow> int" where
  "strtoll16 s =
     (let t = (case s of a # b # c # _ \<Rightarrow> if a = CHR ''0'' \<and> b \<in> set ''xX'' \<and> is_hex c then drop 2 s else s | _ \<Rightarrow> s)
      in min (2 ^ 63 - 1) (int (foldl (\<lambda>v c. 16 * v + hex_value c) 0 (takeWhile is_hex t))))"

text \<open>\<open>%i\<close> takes the base from the way the number starts.\<close>

definition is_octal :: "char \<Rightarrow> bool" where
  "is_octal c \<longleftrightarrow> c \<in> set ''01234567''"

definition scan_auto :: "cstring \<Rightarrow> int" where
  "scan_auto s = (case s of
       a # b # c # _ \<Rightarrow> if a = CHR ''0'' \<and> b \<in> set ''xX'' \<and> is_hex c then strtoll16 s
         else if a = CHR ''0'' then min (2 ^ 63 - 1) (int (foldl (\<lambda>v c. 8 * v + hex_value c) 0 (takeWhile is_octal s)))
         else min (2 ^ 63 - 1) (int (read_dec (takeWhile is_digit s)))
     | a # _ \<Rightarrow> if a = CHR ''0'' then int (foldl (\<lambda>v c. 8 * v + hex_value c) 0 (takeWhile is_octal s))
         else int (read_dec (takeWhile is_digit s))
     | [] \<Rightarrow> 0)"

definition procspeed_line :: "(cstring \<Rightarrow> int) \<Rightarrow> cstring \<Rightarrow> (fault + u32) option" where
  "procspeed_line float buf =
     (if strstr buf ''cpu MHz'' then Some (andThen (from_digit buf) (\<lambda>t. Inr (of_int (float t))))
      else if strstr buf ''clock'' then Some (andThen (from_digit buf) (\<lambda>t. Inr (of_int (float t))))
      else if strstr buf ''ClkTck'' then
        Some (andThen (from_digit buf) (\<lambda>t. andThen (from_digit (tl t)) (\<lambda>t. Inr (of_int (strtoll16 t div 1000000)))))
      else if strstr buf ''BogoMIPS'' then Some (andThen (from_digit buf) (\<lambda>t. Inr (of_int (float t))))
      else None)"

definition get_procspeed :: "machine_files \<Rightarrow> u32 found" where
  "get_procspeed M = reading (mf_cpuinfo M) (search (procspeed_line (mf_float M)))"

text \<open>The number of lines that say \<open>processor\<close>, or what a line says of it.\<close>

fun numproc_from :: "int \<Rightarrow> cstring option list \<Rightarrow> fault + int" where
  "numproc_from n [] = Inr n"
| "numproc_from n (None # bs) = Inl WildPointer"
| "numproc_from n (Some b # bs) =
     (if strstr b ''ncpus active'' then andThen (from_digit b) (\<lambda>t. Inr (scan_auto t))
      else numproc_from (if strstr b ''processor'' then n + 1 else n) bs)"

definition get_numproc :: "machine_files \<Rightarrow> u16 found" where
  "get_numproc M = reading (mf_cpuinfo M) (\<lambda>bs. andThen (numproc_from 0 bs) (\<lambda>n. Inr (Some (of_int n))))"

definition architecture_line :: "cstring \<Rightarrow> u8 option" where
  "architecture_line buf =
     (if strstr buf ''Sparc'' then Some ARCH_SPARC
      else if strstr buf ''system type'' \<and> strstr buf ''SGI'' then Some ARCH_MIPS
      else if strstr buf ''model'' \<and> strstr buf ''SonyPS3'' then Some ARCH_POWER
      else None)"

definition get_architecture :: "machine_files \<Rightarrow> u8 found" where
  "get_architecture M = reading (mf_cpuinfo M) (\<lambda>bs.
     andThen (search (\<lambda>buf. map_option Inr (architecture_line buf)) bs) (\<lambda>a.
       Inr (Some (case a of None \<Rightarrow> ARCH_INTEL | Some a \<Rightarrow> a))))"

definition get_speedindex :: "computer_hwinfo \<Rightarrow> u32" where
  "get_speedindex hw = (ucast (hw_proctype hw) + 1) * hw_procspeed hw"

definition computer_info_nnbits :: "nat \<Rightarrow> u8" where
  "computer_info_nnbits bytes = (if bytes = 4 then 32 else if bytes = 8 then 64 else 0)"

text \<open>A step of \<open>get_hwinfo\<close>: the end of the process, or the next step.\<close>

definition next_found :: "'a found \<Rightarrow> ('a \<Rightarrow> 'b found) \<Rightarrow> 'b found" where
  "next_found r f = andThen r (\<lambda>x. case x of None \<Rightarrow> Inr None | Some x \<Rightarrow> f x)"

definition get_hwinfo :: "machine_files \<Rightarrow> computer_hwinfo \<Rightarrow> computer_hwinfo found" where
  "get_hwinfo M hw = (case mf_hostname M of None \<Rightarrow> Inr None | Some name \<Rightarrow>
     let hw = hw\<lparr>hw_name := name\<rparr> in
     next_found (get_architecture M) (\<lambda>a.
     let hw = hw\<lparr>hw_arch := a, hw_os := OS_LINUX\<rparr> in
     next_found (get_proctype M) (\<lambda>p. let hw = hw\<lparr>hw_proctype := p\<rparr> in
     next_found (get_procspeed M) (\<lambda>v. let hw = hw\<lparr>hw_procspeed := v\<rparr> in
     next_found (get_numproc M) (\<lambda>n. let hw = hw\<lparr>hw_ncpus := n\<rparr>; hw = hw\<lparr>hw_speedindex := get_speedindex hw\<rparr> in
     next_found (get_memory M) (\<lambda>k. Inr (Some (hw\<lparr>hw_memory := k, hw_nnbits := computer_info_nnbits (mf_pointer M)\<rparr>))))))))"

section \<open>Names\<close>

definition osstring :: "u8 \<Rightarrow> cstring" where
  "osstring os =
     (if os = OS_UNKNOWN then ''UNKNOWN'' else if os = OS_IRIX then ''Irix'' else if os = OS_LINUX then ''Linux''
      else if os = OS_WINDOWS \<or> os = OS_CYGWIN then ''Windows'' else if os = OS_OSX then ''Mac OSX''
      else if os = OS_FREEBSD then ''FreeBSD'' else ''DEFAULT (ERROR)'')"

definition bitsstring :: "u8 \<Rightarrow> cstring" where
  "bitsstring nnbits =
     (if nnbits = 0 then ''Unknown'' else if nnbits = 32 then ''32bit'' else if nnbits = 64 then ''64bit''
      else ''ERROR: value not listed'')"

definition archstring :: "u8 \<Rightarrow> cstring" where
  "archstring a =
     (if a = ARCH_UNKNOWN then ''UNKNOWN'' else if a = ARCH_INTEL then ''Intel'' else if a = ARCH_MIPS then ''Mips''
      else if a = ARCH_PPC then ''PowerPC'' else if a = ARCH_SPARC then ''Sparc'' else if a = ARCH_POWER then ''Power''
      else ''DEFAULT (ERROR)'')"

text \<open>\<open>PROCTYPE_INTEL_CORE2\<close> has no name.\<close>

definition proctypestring :: "u8 \<Rightarrow> cstring" where
  "proctypestring p =
     (if p = PROCTYPE_UNKNOWN then ''UNKNOWN'' else if p = PROCTYPE_INTEL_UNKNOWN then ''Intel (not listed)''
      else if p = PROCTYPE_PENTIUM then ''Pentium'' else if p = PROCTYPE_PENTIUMII then ''Pentium II''
      else if p = PROCTYPE_PENTIUMIII then ''Pentium III'' else if p = PROCTYPE_PENTIUM4 then ''Pentium 4''
      else if p = PROCTYPE_INTELXEON then ''Xeon'' else if p = PROCTYPE_INTELIA64 then ''IA-64''
      else if p = PROCTYPE_PENTIUMM then ''Pentium M'' else if p = PROCTYPE_ATHLON then ''Athlon''
      else if p = PROCTYPE_OPTERON then ''Opteron'' else if p = PROCTYPE_MIPSR5000 then ''R5000''
      else if p = PROCTYPE_MIPSR10000 then ''R10000'' else if p = PROCTYPE_MIPSR12000 then ''R12000''
      else if p = PROCTYPE_PPC then ''PPC'' else if p = PROCTYPE_ULTRASPARC then ''Ultrasparc''
      else if p = PROCTYPE_CELLBE then ''Cell Broadband Engine'' else ''DEFAULT (ERROR)'')"

definition report_line :: "cstring \<Rightarrow> nat \<Rightarrow> cstring \<Rightarrow> cstring" where
  "report_line label tabs value = label @ replicate tabs (CHR 0x09) @ value @ nl"

definition report_hwinfo :: "computer_hwinfo \<Rightarrow> cstring" where
  "report_hwinfo hw = ''HWINFO Report'' @ nl @
     report_line ''Name:'' 3 (hw_name hw) @ report_line ''Architecture:'' 2 (archstring (hw_arch hw)) @
     report_line ''OS:'' 3 (osstring (hw_os hw)) @ report_line ''Processor type:'' 2 (proctypestring (hw_proctype hw)) @
     report_line ''64bit-32bit cpu:'' 1 (bitsstring (hw_nnbits hw)) @
     report_line ''Processor speed:'' 1 (print_i (hw_procspeed hw) @ '' MHz'') @
     report_line ''Number of processors:'' 1 (dec (unat (hw_ncpus hw))) @
     report_line ''Memory:'' 3 (print_i (hw_memory hw) @ '' Mbytes'')"

section \<open>What is found\<close>

definition text_of :: "cstring list \<Rightarrow> cstring" where
  "text_of ls = concat (map (\<lambda>l. l @ nl) ls)"

definition plain_line :: "cstring \<Rightarrow> bool" where
  "plain_line l \<longleftrightarrow> CHR 0x0A \<notin> set l \<and> CHR 0x00 \<notin> set l \<and> length l < BUFFERLEN - 2"

lemma fgets_line:
  assumes "plain_line l" "n = BUFFERLEN - 1"
  shows "fgets n (l @ nl @ r) = Some (l @ nl, r)"
proof -
  have "takeWhile (\<lambda>c. c \<noteq> CHR 0x0A) (l @ nl @ r) = l"
    using assms by (simp add: takeWhile_append plain_line_def nl_def takeWhile_eq_all_conv)
  then show ?thesis using assms by (simp add: fgets_def plain_line_def max_defs nl_def Let_def)
qed

lemma cstr_line: "plain_line l \<Longrightarrow> cstr (l @ nl) = l @ nl"
  by (simp add: cstr_def plain_line_def nl_def takeWhile_eq_all_conv) blast

lemma rounds_lines:
  assumes n: "n = BUFFERLEN - 1"
  shows "\<forall>l \<in> set ls. plain_line l \<Longrightarrow> length ls < k \<Longrightarrow>
   rounds k n buf (text_of ls) =
     map (\<lambda>l. Some (l @ nl)) ls @ [if ls = [] then buf else Some (last ls @ nl)]"
proof (induction ls arbitrary: k buf)
  case Nil
  then show ?case by (cases k) (simp_all add: text_of_def fgets_def)
next
  case (Cons l ls)
  then obtain k' where k: "k = Suc k'" "length ls < k'" by (cases k) auto
  have t: "text_of (l # ls) = l @ nl @ text_of ls" by (simp add: text_of_def)
  have l: "plain_line l" using Cons.prems(1) by simp
  have e: "\<not> met_end n (l @ nl) (text_of ls)" by (simp add: met_end_def nl_def)
  show ?case using Cons.IH [of k' "Some (l @ nl)"] Cons.prems(1) k by (simp add: t fgets_line [OF l n] cstr_line [OF l] e)
qed

lemma length_text_of: "length ls \<le> length (text_of ls)"
  by (induction ls) (simp_all add: text_of_def nl_def)

lemma buffers_lines:
  assumes "ls \<noteq> []" "\<forall>l \<in> set ls. plain_line l"
  shows "buffers (text_of ls) = map (\<lambda>l. Some (l @ nl)) (ls @ [last ls])"
  using rounds_lines [OF refl assms(2), of "Suc (length (text_of ls))" None] assms(1) length_text_of [of ls]
  by (simp add: buffers_def)

lemma strstr_iff: "strstr s t \<longleftrightarrow> (\<exists>a b. s = a @ t @ b)"
proof (induction s)
  case (Cons c s)
  have "(\<exists>b. c # s = t @ b) \<longleftrightarrow> take (length t) (c # s) = t" by (metis append_eq_conv_conj append_take_drop_id)
  then show ?case using Cons by (auto simp: Cons_eq_append_conv simp del: take_Suc_Cons; metis append_Cons append_Nil)
qed simp

lemma strstr_line:
  assumes "CHR 0x0A \<notin> set t" "t \<noteq> []"
  shows "strstr (l @ nl) t \<longleftrightarrow> strstr l t"
proof
  assume "strstr (l @ nl) t"
  then obtain a b where ab: "l @ nl = a @ t @ b" by (auto simp: strstr_iff)
  have "b \<noteq> []"
  proof
    assume "b = []"
    then have "last (l @ nl) = last t" using ab assms(2) by simp
    then have "CHR 0x0A = last t" by (simp add: nl_def)
    then show False using assms last_in_set by metis
  qed
  then obtain b' c where "b = b' @ [c]" by (meson rev_exhaust)
  then have "l = a @ t @ b'" using ab by (simp add: nl_def flip: append_assoc)
  then show "strstr l t" by (auto simp: strstr_iff)
next
  assume "strstr l t"
  then obtain a b where "l = a @ t @ b" by (auto simp: strstr_iff)
  then have "l @ nl = a @ t @ (b @ nl)" by simp
  then show "strstr (l @ nl) t" unfolding strstr_iff by blast
qed

text \<open>Searching lines of text.\<close>

lemma search_skips:
  "\<forall>l \<in> set ls. f (l @ nl) = None \<Longrightarrow> search f (map (\<lambda>l. Some (l @ nl)) ls @ bs) = search f bs"
  by (induction ls) simp_all

lemma numproc_lines:
  "\<forall>l \<in> set ls. \<not> strstr l ''ncpus active'' \<Longrightarrow>
   numproc_from n (map (\<lambda>l. Some (l @ nl)) ls) = Inr (n + int (length (filter (\<lambda>l. strstr l ''processor'') ls)))"
  by (induction ls arbitrary: n) (simp_all add: strstr_line)

definition memory_line :: "nat \<Rightarrow> nat \<Rightarrow> cstring" where
  "memory_line spaces kb = ''MemTotal:'' @ replicate spaces (CHR '' '') @ dec kb @ '' kB''"

lemma strtok_sep_token:
  assumes "\<forall>c \<in> set w. c \<notin> set '': ''" "w \<noteq> []" "c \<in> set '': ''"
  shows "strtok_sep (replicate k (CHR '' '') @ w @ c # r) = Some (w, r)"
proof -
  obtain a v where w: "w = a # v" using assms(2) by (cases w) auto
  have d: "dropWhile (\<lambda>c. c \<in> set '': '') (replicate k (CHR '' '') @ w @ c # r) = w @ c # r"
    using assms(1) by (induction k) (simp_all add: w)
  have t: "takeWhile (\<lambda>c. c \<notin> set '': '') (w @ c # r) = w"
    using assms(1,3) by (simp add: takeWhile_append)
  show ?thesis unfolding strtok_sep_def Let_def d t using assms(2) by simp
qed

lemma memory_token:
  assumes "kb < 2147483648"
  shows "strtok_sep (memory_line spaces kb @ nl) = Some (''MemTotal'', replicate spaces (CHR '' '') @ dec kb @ '' kB'' @ nl)"
    "strtok_sep (replicate spaces (CHR '' '') @ dec kb @ '' kB'' @ nl) = Some (dec kb, ''kB'' @ nl)"
proof -
  show "strtok_sep (memory_line spaces kb @ nl) = Some (''MemTotal'', replicate spaces (CHR '' '') @ dec kb @ '' kB'' @ nl)"
    using strtok_sep_token [of "''MemTotal''" "CHR '':''" 0] by (simp add: memory_line_def)
  have "\<forall>c \<in> set (dec kb). c \<notin> set '': ''" using dec_char by (fastforce simp: is_digit_def)
  then show "strtok_sep (replicate spaces (CHR '' '') @ dec kb @ '' kB'' @ nl) = Some (dec kb, ''kB'' @ nl)"
    using strtok_sep_token [of "dec kb" "CHR '' ''" spaces] by simp
qed

lemma get_memory_finds:
  assumes "mf_meminfo M = Some (text_of (pre @ memory_line spaces kb # post))" "kb < 2147483648"
    and p: "\<forall>l \<in> set (pre @ memory_line spaces kb # post). plain_line l" "\<forall>l \<in> set pre. \<not> strstr l ''MemTotal''"
  shows "get_memory M = Inr (Some (of_nat (kb div 1024)))"
proof -
  let ?ls = "pre @ memory_line spaces kb # post"
  have m: "strstr (memory_line spaces kb @ nl) ''MemTotal''" by (simp add: memory_line_def)
  have s: "strstr (l @ nl) ''MemTotal'' \<longleftrightarrow> strstr l ''MemTotal''" for l by (rule strstr_line) simp_all
  have n: "quotient (sint (of_nat kb :: u32)) 1024 = int (kb div 1024)"
    using assms(2) sint_small [of "of_nat kb :: u32"] small_index(3) [OF assms(2)] by (simp add: quotient_def zdiv_int)
  have f: "memory_of_line (memory_line spaces kb @ nl) = Some (Inr (of_nat (kb div 1024)))"
    unfolding memory_of_line_def memory_token [OF assms(2)] option.case prod.case atoi_dec [OF assms(2)] n using m by simp
  have b: "buffers (text_of ?ls) = map (\<lambda>l. Some (l @ nl)) pre @ Some (memory_line spaces kb @ nl) #
      map (\<lambda>l. Some (l @ nl)) (post @ [last ?ls])"
    using buffers_lines [OF _ p(1)] by simp
  have l: "\<forall>l \<in> set pre. memory_of_line (l @ nl) = None" using p(2) by (simp add: s memory_of_line_def)
  show ?thesis unfolding get_memory_def assms(1) reading_def option.case b search_skips [where f = memory_of_line, OF l] by (simp add: f)
qed

text \<open>
  What a line tells, as tables: the words that a line must contain, and what it then says.  The first row whose words are
  all in the line counts, and of several lines the first that tells anything.
\<close>

definition tells :: "(cstring list \<times> 'a) list \<Rightarrow> cstring \<Rightarrow> 'a option" where
  "tells table l = map_option snd (find (\<lambda>row. list_all (strstr l) (fst row)) table)"

fun first_some :: "('b \<Rightarrow> 'a option) \<Rightarrow> 'b list \<Rightarrow> 'a option" where
  "first_some f [] = None"
| "first_some f (x # xs) = (case f x of None \<Rightarrow> first_some f xs | Some y \<Rightarrow> Some y)"

definition kinds :: "(cstring list \<times> u8) list" where
  "kinds =
     [([''model name'', ''Opteron''], PROCTYPE_OPTERON), ([''model name'', ''AMD Athlon''], PROCTYPE_ATHLON),
      ([''model name'', ''Xeon''], PROCTYPE_INTELXEON), ([''model name'', ''Pentium(R) 4''], PROCTYPE_PENTIUM4),
      ([''model name'', ''Pentium(R) M''], PROCTYPE_PENTIUMM), ([''model name'', ''Pentium III''], PROCTYPE_PENTIUMIII),
      ([''model name'', ''Pentium II''], PROCTYPE_PENTIUMII), ([''model name'', ''Pentium ''], PROCTYPE_PENTIUM),
      ([''model name''], PROCTYPE_UNKNOWN), ([''arch'', ''IA-64''], PROCTYPE_INTELIA64),
      ([''platform'', ''PowerMac''], PROCTYPE_PPC), ([''cpu'', ''UltraSparc''], PROCTYPE_ULTRASPARC),
      ([''cpu'', ''Cell Broadband Engine''], PROCTYPE_CELLBE), ([''cpu model'', ''R5000''], PROCTYPE_MIPSR5000),
      ([''cpu model'', ''R10000''], PROCTYPE_MIPSR10000), ([''cpu model'', ''R12000''], PROCTYPE_MIPSR12000)]"

definition architectures :: "(cstring list \<times> u8) list" where
  "architectures = [([''Sparc''], ARCH_SPARC), ([''system type'', ''SGI''], ARCH_MIPS), ([''model'', ''SonyPS3''], ARCH_POWER)]"

text \<open>The speed is read from the first digit of the line on; of the clock ticks, from the second digit, in hexadecimal.\<close>

definition to_digit :: "cstring \<Rightarrow> cstring" where
  "to_digit s = dropWhile (\<lambda>c. \<not> is_digit c) s"

definition speeds :: "(cstring \<Rightarrow> int) \<Rightarrow> (cstring list \<times> (cstring \<Rightarrow> int)) list" where
  "speeds float = [([''cpu MHz''], float), ([''clock''], float), ([''ClkTck''], \<lambda>t. strtoll16 (to_digit (tl t)) div 1000000), ([''BogoMIPS''], float)]"

definition speed_of_line :: "(cstring \<Rightarrow> int) \<Rightarrow> cstring \<Rightarrow> u32 option" where
  "speed_of_line float l = map_option (\<lambda>f. of_int (f (to_digit (l @ nl)))) (tells (speeds float) l)"

text \<open>A line that tells a speed has the digits for it.\<close>

definition speed_has_digits :: "cstring \<Rightarrow> bool" where
  "speed_has_digits l \<longleftrightarrow> (let t = to_digit (l @ nl) in
     ((strstr l ''cpu MHz'' \<or> strstr l ''clock'' \<or> strstr l ''BogoMIPS'') \<longrightarrow> t \<noteq> []) \<and> (strstr l ''ClkTck'' \<longrightarrow> t \<noteq> [] \<and> to_digit (tl t) \<noteq> []))"

lemma search_lines:
  assumes "\<forall>l \<in> set ls. f (l @ nl) = map_option Inr (g l)"
  shows "search f (map (\<lambda>l. Some (l @ nl)) ls) = Inr (first_some g ls)"
  using assms by (induction ls) (auto split: option.splits)

lemma first_some_none: "first_some g ls = None \<longleftrightarrow> (\<forall>l \<in> set ls. g l = None)"
  by (induction ls) (auto split: option.splits)

lemma first_some_twice: "ls \<noteq> [] \<Longrightarrow> first_some g (ls @ [last ls]) = first_some g ls"
proof -
  assume "ls \<noteq> []"
  then have l: "last ls \<in> set ls" by simp
  have a: "first_some g (ls @ bs) = (case first_some g ls of None \<Rightarrow> first_some g bs | Some x \<Rightarrow> Some x)" for bs
    by (induction ls) (auto split: option.splits)
  show ?thesis
  proof (cases "first_some g ls")
    case None
    then have "g (last ls) = None" using l by (simp add: first_some_none)
    then show ?thesis by (simp add: a None)
  qed (simp add: a)
qed

lemma tells_simps:
  "tells [] l = None" "tells ((ws, x) # table) l = (if list_all (strstr l) ws then Some x else tells table l)"
  by (simp_all add: tells_def)

lemma line_words:
  "strstr (l @ nl) ''model name'' = strstr l ''model name''" "strstr (l @ nl) ''Opteron'' = strstr l ''Opteron''"
  "strstr (l @ nl) ''AMD Athlon'' = strstr l ''AMD Athlon''" "strstr (l @ nl) ''Xeon'' = strstr l ''Xeon''"
  "strstr (l @ nl) ''Pentium(R) 4'' = strstr l ''Pentium(R) 4''" "strstr (l @ nl) ''Pentium(R) M'' = strstr l ''Pentium(R) M''"
  "strstr (l @ nl) ''Pentium III'' = strstr l ''Pentium III''" "strstr (l @ nl) ''Pentium II'' = strstr l ''Pentium II''"
  "strstr (l @ nl) ''Pentium '' = strstr l ''Pentium ''" "strstr (l @ nl) ''arch'' = strstr l ''arch''"
  "strstr (l @ nl) ''IA-64'' = strstr l ''IA-64''" "strstr (l @ nl) ''platform'' = strstr l ''platform''"
  "strstr (l @ nl) ''PowerMac'' = strstr l ''PowerMac''" "strstr (l @ nl) ''cpu'' = strstr l ''cpu''"
  "strstr (l @ nl) ''UltraSparc'' = strstr l ''UltraSparc''" "strstr (l @ nl) ''cpu model'' = strstr l ''cpu model''"
  "strstr (l @ nl) ''Cell Broadband Engine'' = strstr l ''Cell Broadband Engine''" "strstr (l @ nl) ''R5000'' = strstr l ''R5000''"
  "strstr (l @ nl) ''R10000'' = strstr l ''R10000''" "strstr (l @ nl) ''R12000'' = strstr l ''R12000''"
  "strstr (l @ nl) ''Sparc'' = strstr l ''Sparc''" "strstr (l @ nl) ''system type'' = strstr l ''system type''"
  "strstr (l @ nl) ''SGI'' = strstr l ''SGI''" "strstr (l @ nl) ''model'' = strstr l ''model''"
  "strstr (l @ nl) ''SonyPS3'' = strstr l ''SonyPS3''" "strstr (l @ nl) ''cpu MHz'' = strstr l ''cpu MHz''"
  "strstr (l @ nl) ''clock'' = strstr l ''clock''" "strstr (l @ nl) ''ClkTck'' = strstr l ''ClkTck''"
  "strstr (l @ nl) ''BogoMIPS'' = strstr l ''BogoMIPS''"
  by (rule strstr_line; simp)+

lemma proctype_line_says: "proctype_line (l @ nl) = tells kinds l"
  unfolding proctype_line_def model_name_def kinds_def tells_simps list.pred_inject line_words
  by (cases "strstr l ''model name''") (simp_all only: if_True if_False simp_thms if_distrib [where f = Some] list.pred_inject)

lemma architecture_line_says: "architecture_line (l @ nl) = tells architectures l"
  unfolding architecture_line_def architectures_def tells_simps list.pred_inject line_words by simp

lemma from_to_digit: "to_digit s \<noteq> [] \<Longrightarrow> from_digit s = Inr (to_digit s)"
  by (simp add: from_digit_def to_digit_def)

lemma procspeed_line_says:
  assumes "speed_has_digits l"
  shows "procspeed_line float (l @ nl) = map_option Inr (speed_of_line float l)"
proof -
  define t where "t = to_digit (l @ nl)"
  have d: "strstr l ''cpu MHz'' \<Longrightarrow> from_digit (l @ nl) = Inr t" "strstr l ''clock'' \<Longrightarrow> from_digit (l @ nl) = Inr t"
    "strstr l ''BogoMIPS'' \<Longrightarrow> from_digit (l @ nl) = Inr t" "strstr l ''ClkTck'' \<Longrightarrow> from_digit (l @ nl) = Inr t"
    "strstr l ''ClkTck'' \<Longrightarrow> from_digit (tl t) = Inr (to_digit (tl t))"
    using assms unfolding speed_has_digits_def Let_def t_def by (simp_all only: from_to_digit simp_thms not_False_eq_True)
  show ?thesis
    unfolding procspeed_line_def speed_of_line_def speeds_def tells_simps list.pred_inject line_words t_def [symmetric]
    by (cases "strstr l ''cpu MHz''"; cases "strstr l ''clock''"; cases "strstr l ''ClkTck''"; cases "strstr l ''BogoMIPS''")
      (simp_all only: d if_True if_False simp_thms list.pred_inject option.map andThen_simps)
qed

lemma reading_finds:
  assumes c: "mf_cpuinfo M = Some (text_of ls)" "ls \<noteq> []" "\<forall>l \<in> set ls. plain_line l"
    and f: "\<And>l. l \<in> set ls \<Longrightarrow> f (l @ nl) = map_option Inr (g l)"
  shows "reading (mf_cpuinfo M) (search f) = Inr (first_some g ls)"
proof -
  have "\<forall>l \<in> set (ls @ [last ls]). f (l @ nl) = map_option Inr (g l)" using f c(2) by simp
  then show ?thesis
    unfolding reading_def c(1) option.case buffers_lines [OF c(2,3)] by (simp only: search_lines first_some_twice [OF c(2)])
qed

lemma get_numproc_lines:
  assumes c: "mf_cpuinfo M = Some (text_of ls)" "ls \<noteq> []" "\<forall>l \<in> set ls. plain_line l" and n: "\<forall>l \<in> set ls. \<not> strstr l ''ncpus active''"
  shows "get_numproc M = Inr (Some (of_nat (length (filter (\<lambda>l. strstr l ''processor'') ls) + (if strstr (last ls) ''processor'' then 1 else 0))))"
proof -
  have "\<forall>l \<in> set (ls @ [last ls]). \<not> strstr l ''ncpus active''" using n c(2) by simp
  then show ?thesis
    unfolding get_numproc_def reading_def c(1) option.case buffers_lines [OF c(2,3)]
    by (simp only: numproc_lines andThen_simps) simp
qed

lemma get_architecture_finds:
  assumes c: "mf_cpuinfo M = Some (text_of ls)" "ls \<noteq> []" "\<forall>l \<in> set ls. plain_line l"
  shows "get_architecture M = Inr (Some (case first_some (tells architectures) ls of None \<Rightarrow> ARCH_INTEL | Some a \<Rightarrow> a))"
proof -
  have r: "search (\<lambda>buf. map_option Inr (architecture_line buf)) (buffers (text_of ls)) = Inr (first_some (tells architectures) ls)"
    using reading_finds [OF c, of "\<lambda>buf. map_option Inr (architecture_line buf)" "tells architectures"]
    by (simp add: reading_def c(1) architecture_line_says)
  show ?thesis unfolding get_architecture_def reading_def c(1) option.case r andThen_simps ..
qed


definition node7_cpu :: "cstring list" where
  "node7_cpu = [''processor : 0'', ''model name : Intel Xeon'', ''cpu MHz : 2394.230'', [], ''processor : 1'', []]"

definition node7 :: machine_files where
  "node7 = \<lparr>mf_hostname = Some ''node7'', mf_cpuinfo = Some (text_of node7_cpu),
     mf_meminfo = Some (text_of ([] @ memory_line 8 8000000 # [''MemFree: 9 kB''])), mf_pointer = 8,
     mf_float = (\<lambda>t. int (read_dec (takeWhile is_digit t)))\<rparr>"

lemma node7_lines: "node7_cpu \<noteq> []" "\<forall>l \<in> set node7_cpu. plain_line l"
  "list_all (\<lambda>l. \<not> strstr l ''ncpus active'') node7_cpu" "list_all speed_has_digits node7_cpu"
  "length (filter (\<lambda>l. strstr l ''processor'') node7_cpu) + (if strstr (last node7_cpu) ''processor'' then 1 else 0) = 2"
  by (simp_all add: node7_cpu_def plain_line_def max_defs speed_has_digits_def to_digit_def is_digit_def Let_def)

lemma node7_tells: "first_some (tells kinds) node7_cpu = Some PROCTYPE_INTELXEON" "first_some (tells architectures) node7_cpu = None"
  "first_some (speed_of_line (mf_float node7)) node7_cpu = Some 2394"
  by (simp_all add: node7_cpu_def tells_simps kinds_def architectures_def speed_of_line_def speeds_def node7_def to_digit_def is_digit_def
      read_dec_def nl_def char_digit_def)

lemma memory_line_plain: "kb < 2147483648 \<Longrightarrow> spaces < 100 \<Longrightarrow> plain_line (memory_line spaces kb)"
proof -
  assume a: "kb < 2147483648" "spaces < 100"
  have "length (dec kb) \<le> 10" using a length_dec [of kb 10] by simp
  moreover have "CHR 0x0A \<notin> set (dec kb)" "CHR 0x00 \<notin> set (dec kb)" using dec_char [of _ kb] by (auto simp: is_digit_def)
  ultimately show ?thesis using a(2) by (simp add: plain_line_def memory_line_def max_defs)
qed

lemma node7_memory: "\<forall>l \<in> set ([] @ memory_line 8 8000000 # [''MemFree: 9 kB'']). plain_line l"
  using memory_line_plain [of 8000000 8] by (simp add: plain_line_def max_defs)


end
