(* ===== verification/Dialog.thy ===== *)
theory Dialog
  imports Commands
begin

text \<open>
  The dialog of \<open>drqman\<close> in which a job is described, copied and submitted (\<open>drqman/drqm_jobs.c\<close>).  An entry of the toolkit is the
  text it holds, at most as long as it was made for; a button is whether it is active.  There is one dialog for the
  life of the program: \<open>GetNewJobDialog\<close> makes it when it is first needed and shows the same one ever after.
\<close>

section \<open>The dialog\<close>

text \<open>The entries of the frame for one kind of job are in the order of its member of \<open>koj_info\<close>.  Turtle has none for the
  camera and the resolution, and Luxrender none for the script.\<close>

record dnj =
  ename :: cstring
  ecmd :: cstring
  esf :: cstring
  eef :: cstring
  estf :: cstring
  ebs :: cstring
  efp :: cstring
  cpri :: cstring
  epri :: cstring
  ckoj :: cstring
  dkoj :: u16
  ekoji :: koj_info
  enmaxcpus :: cstring
  enmaxcpuscomputer :: cstring
  ememory :: cstring
  epool :: cstring
  cb_irix :: bool
  cb_linux :: bool
  cb_osx :: bool
  cb_freebsd :: bool
  cb_cygwin :: bool
  cbmailnotify :: bool
  cbdifemail :: bool
  edifemail :: cstring
  cbjobdepend :: bool
  ejobdepend :: cstring
  cbjobdelete :: bool
  denvvars :: envvars
  submitstopped :: bool

definition entry_text :: "nat \<Rightarrow> cstring \<Rightarrow> cstring" where
  "entry_text maxlen s = take maxlen s"

abbreviation koji_text :: "cstring \<Rightarrow> cstring" where
  "koji_text \<equiv> entry_text (BUFFERLEN - 1)"

text \<open>The commands to look at a frame that are suggested, where the manager runs on Linux.\<close>

definition KOJ_MAYA_DFLT_VIEWCMD :: cstring where "KOJ_MAYA_DFLT_VIEWCMD = ''fcheck $DRQUEUE_RD/$DRQUEUE_IMAGE.$DRQUEUE_PADFRAME.sgi''"
definition KOJ_MENTALRAY_DFLT_VIEWCMD :: cstring where "KOJ_MENTALRAY_DFLT_VIEWCMD = ''imf_disp $DRQUEUE_RD/$DRQUEUE_IMAGE.$DRQUEUE_FRAME.iff''"
definition KOJ_BLENDER_DFLT_VIEWCMD :: cstring where "KOJ_BLENDER_DFLT_VIEWCMD = ''display image.$DRQUEUE_FRAME.jpg''"
definition KOJ_MANTRA_DFLT_VIEWCMD :: cstring where "KOJ_MANTRA_DFLT_VIEWCMD = ''display $DRQUEUE_RD/$DRQUEUE_IMAGE.$DRQUEUE_FRAME.tif''"
definition KOJ_AQSIS_DFLT_VIEWCMD :: cstring where "KOJ_AQSIS_DFLT_VIEWCMD = ''display $DRQUEUE_RD/$DRQUEUE_IMAGE.$DRQUEUE_FRAME.tif''"
definition KOJ_PIXIE_DFLT_VIEWCMD :: cstring where "KOJ_PIXIE_DFLT_VIEWCMD = ''display image.$DRQUEUE_FRAME.jpg''"
definition KOJ_3DELIGHT_DFLT_VIEWCMD :: cstring where "KOJ_3DELIGHT_DFLT_VIEWCMD = ''imf_disp $DRQUEUE_RD/$DRQUEUE_IMAGE.$DRQUEUE_FRAME.iff''"
definition KOJ_LIGHTWAVE_DFLT_VIEWCMD :: cstring where "KOJ_LIGHTWAVE_DFLT_VIEWCMD = ''fcheck $DRQUEUE_RD/$DRQUEUE_IMAGE.$DRQUEUE_PADFRAME.tif''"
definition KOJ_NUKE_DFLT_VIEWCMD :: cstring where "KOJ_NUKE_DFLT_VIEWCMD = ''fcheck $DRQUEUE_RD/$DRQUEUE_IMAGE.$DRQUEUE_PADFRAME.tif''"
definition KOJ_TERRAGEN_DFLT_VIEWCMD :: cstring where "KOJ_TERRAGEN_DFLT_VIEWCMD = ''fcheck $DRQUEUE_RD/$DRQUEUE_IMAGE.$DRQUEUE_PADFRAME.tif''"
definition KOJ_AFTEREFFECTS_DFLT_VIEWCMD :: cstring where "KOJ_AFTEREFFECTS_DFLT_VIEWCMD = ''IF YOU HAVE A SOLUTION FOR THIS SUBMIT A BUG REPORT''"
definition KOJ_SHAKE_DFLT_VIEWCMD :: cstring where "KOJ_SHAKE_DFLT_VIEWCMD = ''display image.$DRQUEUE_FRAME.jpg''"
definition KOJ_TURTLE_DFLT_VIEWCMD :: cstring where "KOJ_TURTLE_DFLT_VIEWCMD = ''fcheck $DRQUEUE_RD/$DRQUEUE_IMAGE.$DRQUEUE_PADFRAME.sgi''"
definition KOJ_XSI_DFLT_VIEWCMD :: cstring where "KOJ_XSI_DFLT_VIEWCMD = ''$DRQUEUE_BIN/viewcmd/imf_batch''"
definition KOJ_LUXRENDER_DFLT_VIEWCMD :: cstring where "KOJ_LUXRENDER_DFLT_VIEWCMD = ''display image.$DRQUEUE_FRAME.jpg''"

text \<open>The entries of a new frame: the suggested command, the extension of the pictures of XSI, and otherwise empty.\<close>

definition koj_frame :: "u16 \<Rightarrow> koj_info" where
  "koj_frame k =
     (if k = KOJ_MAYA then KojiMaya [] [] [] [] [] [] KOJ_MAYA_DFLT_VIEWCMD
      else if k = KOJ_MENTALRAY then KojiMentalray [] [] [] KOJ_MENTALRAY_DFLT_VIEWCMD
      else if k = KOJ_BLENDER then KojiBlender [] KOJ_BLENDER_DFLT_VIEWCMD
      else if k = KOJ_MANTRA then KojiMantra [] [] KOJ_MANTRA_DFLT_VIEWCMD
      else if k = KOJ_AQSIS then KojiAqsis [] KOJ_AQSIS_DFLT_VIEWCMD
      else if k = KOJ_PIXIE then KojiPixie [] KOJ_PIXIE_DFLT_VIEWCMD
      else if k = KOJ_3DELIGHT then Koji3delight [] KOJ_3DELIGHT_DFLT_VIEWCMD
      else if k = KOJ_LIGHTWAVE then KojiLightwave [] [] [] KOJ_LIGHTWAVE_DFLT_VIEWCMD
      else if k = KOJ_NUKE then KojiNuke [] KOJ_NUKE_DFLT_VIEWCMD
      else if k = KOJ_TERRAGEN then KojiTerragen [] [] [] KOJ_TERRAGEN_DFLT_VIEWCMD
      else if k = KOJ_AFTEREFFECTS then KojiAftereffects [] [] KOJ_AFTEREFFECTS_DFLT_VIEWCMD
      else if k = KOJ_SHAKE then KojiShake [] KOJ_SHAKE_DFLT_VIEWCMD
      else if k = KOJ_TURTLE then KojiTurtle [] [] [] [] 0 0 [] KOJ_TURTLE_DFLT_VIEWCMD
      else if k = KOJ_XSI then KojiXsi [] [] [] [] ''.pic'' KOJ_XSI_DFLT_VIEWCMD
      else if k = KOJ_LUXRENDER then KojiLuxrender [] [] KOJ_LUXRENDER_DFLT_VIEWCMD
      else KojiGeneral [])"

definition koj_of_name :: "cstring \<Rightarrow> u16 option" where
  "koj_of_name s =
     (if s = ''General'' then Some KOJ_GENERAL
      else if s = ''Maya'' then Some KOJ_MAYA
      else if s = ''Mental Ray'' then Some KOJ_MENTALRAY
      else if s = ''Blender'' then Some KOJ_BLENDER
      else if s = ''Mantra'' then Some KOJ_MANTRA
      else if s = ''Aqsis'' then Some KOJ_AQSIS
      else if s = ''Pixie'' then Some KOJ_PIXIE
      else if s = ''3delight'' then Some KOJ_3DELIGHT
      else if s = ''Lightwave'' then Some KOJ_LIGHTWAVE
      else if s = ''Nuke'' then Some KOJ_NUKE
      else if s = ''Terragen'' then Some KOJ_TERRAGEN
      else if s = ''After Effects'' then Some KOJ_AFTEREFFECTS
      else if s = ''Shake'' then Some KOJ_SHAKE
      else if s = ''Turtle'' then Some KOJ_TURTLE
      else if s = ''XSI'' then Some KOJ_XSI
      else if s = ''Luxrender'' then Some KOJ_LUXRENDER
      else None)"

definition dnj_koj_combo_changed :: "dnj \<Rightarrow> dnj" where
  "dnj_koj_combo_changed d = (case koj_of_name (ckoj d) of
       None \<Rightarrow> d
     | Some k \<Rightarrow> if k \<noteq> dkoj d then d\<lparr>dkoj := k, ekoji := koj_frame k\<rparr> else d)"

text \<open>Setting a text that is there already changes nothing, so no handler runs.\<close>

definition set_koj :: "cstring \<Rightarrow> dnj \<Rightarrow> dnj" where
  "set_koj s d = (if s = ckoj d then d else dnj_koj_combo_changed (d\<lparr>ckoj := s\<rparr>))"

definition dnj_cpri_changed :: "dnj \<Rightarrow> dnj" where
  "dnj_cpri_changed d =
     d\<lparr>epri := if cpri d = ''Highest'' then ''1000'' else if cpri d = ''High'' then ''750'' else if cpri d = ''Normal'' then ''500''
        else if cpri d = ''Low'' then ''250'' else if cpri d = ''Lowest'' then ''100'' else ''500''\<rparr>"

definition set_cpri :: "cstring \<Rightarrow> dnj \<Rightarrow> dnj" where
  "set_cpri s d = (if s = cpri d then d else dnj_cpri_changed (d\<lparr>cpri := s\<rparr>))"

definition dnj_flags_cbmailnotify_toggled :: "dnj \<Rightarrow> dnj" where
  "dnj_flags_cbmailnotify_toggled d = (if cbmailnotify d then d else d\<lparr>cbdifemail := False\<rparr>)"

definition set_mailnotify :: "bool \<Rightarrow> dnj \<Rightarrow> dnj" where
  "set_mailnotify b d = (if b = cbmailnotify d then d else dnj_flags_cbmailnotify_toggled (d\<lparr>cbmailnotify := b\<rparr>))"

text \<open>The name of the user is that of the password file.\<close>

definition NewJobDialog :: "cstring option \<Rightarrow> dnj" where
  "NewJobDialog login =
     \<lparr>ename = [], ecmd = [], esf = ''1'', eef = ''100'', estf = ''1'', ebs = ''1'', efp = ''4'', cpri = ''Normal'', epri = ''500'',
      ckoj = ''General'', dkoj = KOJ_GENERAL, ekoji = KojiGeneral [], enmaxcpus = ''-1'', enmaxcpuscomputer = ''-1'', ememory = ''0'',
      epool = DEFAULT_POOL, cb_irix = True, cb_linux = True, cb_osx = True, cb_freebsd = True, cb_cygwin = True, cbmailnotify = False,
      cbdifemail = False, edifemail = entry_text (MAXNAMELEN - 1) (case login of None \<Rightarrow> ''ERROR'' | Some u \<Rightarrow> u),
      cbjobdepend = False, ejobdepend = [], cbjobdelete = False, denvvars = envvars_init, submitstopped = False\<rparr>"

section \<open>Submitting\<close>

text \<open>\<open>%u\<close>, \<open>%hu\<close> and \<open>%hhu\<close> of \<open>sscanf\<close> take a sign as well; \<open>strtoul\<close> goes to its bound when the number is too large for
  64 bits, and the result is cut to the width.\<close>

definition scan_u :: "cstring \<Rightarrow> int option" where
  "scan_u s = (case fst (scan_int (dropWhile is_space s)) of None \<Rightarrow> None
     | Some n \<Rightarrow> Some (if \<bar>n\<bar> < 2 ^ 64 then n else 2 ^ 64 - 1))"

text \<open>What is read from the entries of the kind.  Turtle's other fields and Luxrender's script keep the zeros of \<open>job_init\<close>, the job is
  not requeued when it is for XSI, and After Effects is missing.\<close>

definition dnj_koji :: "dnj \<Rightarrow> job \<Rightarrow> fault + job" where
  "dnj_koji d job =
     (let put = strncpy (BUFFERLEN - 1) in
      case (dkoj d, ekoji d) of (k, e) \<Rightarrow>
      if k = KOJ_MAYA then (case e of KojiMaya s1 s2 s3 s4 s5 s6 s7 \<Rightarrow> Inr (job\<lparr>koji := KojiMaya (put s1) (put s2) (put s3) (put s4) (put s5) (put s6) (put s7)\<rparr>) | _ \<Rightarrow> Inl WildPointer)
      else if k = KOJ_MENTALRAY then (case e of KojiMentalray s1 s2 s3 s4 \<Rightarrow> Inr (job\<lparr>koji := KojiMentalray (put s1) (put s2) (put s3) (put s4)\<rparr>) | _ \<Rightarrow> Inl WildPointer)
      else if k = KOJ_BLENDER then (case e of KojiBlender s1 s2 \<Rightarrow> Inr (job\<lparr>koji := KojiBlender (put s1) (put s2)\<rparr>) | _ \<Rightarrow> Inl WildPointer)
      else if k = KOJ_MANTRA then (case e of KojiMantra s1 _ s3 \<Rightarrow> Inr (job\<lparr>koji := KojiMantra (put s1) [] (put s3)\<rparr>) | _ \<Rightarrow> Inl WildPointer)
      else if k = KOJ_AQSIS then (case e of KojiAqsis s1 s2 \<Rightarrow> Inr (job\<lparr>koji := KojiAqsis (put s1) (put s2)\<rparr>) | _ \<Rightarrow> Inl WildPointer)
      else if k = KOJ_PIXIE then (case e of KojiPixie s1 s2 \<Rightarrow> Inr (job\<lparr>koji := KojiPixie (put s1) (put s2)\<rparr>) | _ \<Rightarrow> Inl WildPointer)
      else if k = KOJ_3DELIGHT then (case e of Koji3delight s1 s2 \<Rightarrow> Inr (job\<lparr>koji := Koji3delight (put s1) (put s2)\<rparr>) | _ \<Rightarrow> Inl WildPointer)
      else if k = KOJ_LIGHTWAVE then (case e of KojiLightwave s1 s2 s3 s4 \<Rightarrow> Inr (job\<lparr>koji := KojiLightwave (put s1) (put s2) (put s3) (put s4)\<rparr>) | _ \<Rightarrow> Inl WildPointer)
      else if k = KOJ_NUKE then (case e of KojiNuke s1 s2 \<Rightarrow> Inr (job\<lparr>koji := KojiNuke (put s1) (put s2)\<rparr>) | _ \<Rightarrow> Inl WildPointer)
      else if k = KOJ_TERRAGEN then (case e of KojiTerragen s1 s2 s3 s4 \<Rightarrow> Inr (job\<lparr>koji := KojiTerragen (put s1) (put s2) (put s3) (put s4)\<rparr>) | _ \<Rightarrow> Inl WildPointer)
      else if k = KOJ_SHAKE then (case e of KojiShake s1 s2 \<Rightarrow> Inr (job\<lparr>koji := KojiShake (put s1) (put s2)\<rparr>) | _ \<Rightarrow> Inl WildPointer)
      else if k = KOJ_TURTLE then (case e of KojiTurtle s1 s2 s3 _ _ _ s7 s8 \<Rightarrow> Inr (job\<lparr>koji := KojiTurtle (put s1) (put s2) (put s3) [] 0 0 (put s7) (put s8)\<rparr>) | _ \<Rightarrow> Inl WildPointer)
      else if k = KOJ_XSI then (case e of KojiXsi s1 s2 s3 s4 s5 s6 \<Rightarrow> Inr (job\<lparr>koji := KojiXsi (put s1) (put s2) (put s3) (put s4) (put s5) (put s6), autoRequeue := 0\<rparr>) | _ \<Rightarrow> Inl WildPointer)
      else if k = KOJ_LUXRENDER then (case e of KojiLuxrender s1 _ s3 \<Rightarrow> Inr (job\<lparr>koji := KojiLuxrender (put s1) [] (put s3)\<rparr>) | _ \<Rightarrow> Inl WildPointer)
      else Inr job)"

definition dnj_os_flags :: "dnj \<Rightarrow> u16" where
  "dnj_os_flags d =
     (if cb_irix d then OSF_IRIX else 0) OR (if cb_linux d then OSF_LINUX else 0) OR (if cb_osx d then OSF_OSX else 0) OR
     (if cb_freebsd d then OSF_FREEBSD else 0) OR (if cb_cygwin d then OSF_CYGWIN else 0)"

text \<open>The flags, the address for mail and the job this one waits for.\<close>

definition dnj_flags :: "dnj \<Rightarrow> job \<Rightarrow> job" where
  "dnj_flags d job =
     (let job = job\<lparr>j_flags := 0\<rparr>;
          job = (if cbmailnotify d then job\<lparr>j_flags := j_flags job OR JF_MAILNOTIFY\<rparr> else job);
          job = (if cbdifemail d then job\<lparr>j_flags := j_flags job OR JF_MNDIFEMAIL, j_email := strncpy (MAXNAMELEN - 1) (edifemail d)\<rparr>
                 else job\<lparr>j_email := strncpy (MAXNAMELEN - 1) (j_owner job)\<rparr>);
          job = (if cbjobdepend d then job\<lparr>j_flags := j_flags job OR JF_JOBDEPEND, dependid := atoi (ejobdepend d)\<rparr> else job)
      in if cbjobdelete d then job\<lparr>j_flags := j_flags job OR JF_JOBDELETE\<rparr> else job)"

text \<open>The job the dialog describes, if all its numbers can be read.\<close>

definition dnj_job :: "cstring \<Rightarrow> cstring option \<Rightarrow> dnj \<Rightarrow> fault + job option" where
  "dnj_job user login d =
     (let name = strncpy (MAXNAMELEN - 1) (ename d); cmd = strncpy (MAXCMDLEN - 1) (ecmd d)
      in if name = [] \<or> cmd = [] then Inr None
      else (case (scan_u (esf d), scan_u (eef d), scan_u (estf d), scan_u (ebs d), scan_u (efp d), scan_u (epri d)) of
        (Some sf, Some ef, Some stf, Some bs, Some fp, Some pri) \<Rightarrow>
          andThen (dnj_koji d ((job_init user zero_job)\<lparr>j_name := name, j_cmd := cmd, frame_start := of_int sf, frame_end := of_int ef,
            frame_step := of_int stf, block_size := of_int bs, frame_pad := of_int fp, j_priority := of_int pri,
            j_owner := strncpy (MAXNAMELEN - 1) (case login of None \<Rightarrow> ''ERROR'' | Some u \<Rightarrow> u),
            j_status := JOBSTATUS_WAITING, autoRequeue := 1, koj := dkoj d\<rparr>)) (\<lambda>job.
          (case (scan_u (enmaxcpus d), scan_u (enmaxcpuscomputer d), scan_u (ememory d)) of
             (Some n, Some nc, Some mem) \<Rightarrow>
               Inr (Some ((dnj_flags d (job\<lparr>limits := \<lparr>jl_nmaxcpus = of_int n, jl_nmaxcpuscomputer = of_int nc,
                 jl_os_flags = dnj_os_flags d, jl_memory = of_int mem, jl_pool = strncpy (MAXNAMELEN - 1) (epool d)\<rparr>\<rparr>))\<lparr>j_envvars := denvvars d\<rparr>))
           | _ \<Rightarrow> Inr None))
      | _ \<Rightarrow> Inr None))"

text \<open>
  Whether the dialog may close, what came of the registration, and what came of the request to stop the job.  The result
  of the last one is ignored.
\<close>

definition dnj_submit :: "sender \<Rightarrow> dnj \<Rightarrow> fault + bool \<times> job reply option \<times> unit reply option \<times> sender" where
  "dnj_submit S d =
     andThen (getenv S ''USER'') (\<lambda>user.
     andThen (dnj_job user (sd_login S) d) (\<lambda>job. case job of None \<Rightarrow> Inr (False, None, None, S)
      | Some job \<Rightarrow>
          (let (sfd, S) = connect S
           in andThen (register_job (sd_junk S) job sfd (sd_world S)) (\<lambda>r. case fst r of
                Inl _ \<Rightarrow> Inr (False, Some r, None, S)
              | Inr job \<Rightarrow>
                  if submitstopped d then (let (sfd, S) = connect S in Inr (True, Some r, Some (request_job_hstop (j_id job) CLIENT sfd), S))
                  else Inr (True, Some r, None, S)))))"

definition dnj_bsubmitstopped_pressed :: "dnj \<Rightarrow> dnj" where
  "dnj_bsubmitstopped_pressed d = d\<lparr>submitstopped := True\<rparr>"

section \<open>Copying\<close>

definition print_short :: "u16 \<Rightarrow> cstring" where
  "print_short w = print_i (scast w)"

text \<open>The priority: the names of the combo box, and \<open>Custom\<close> with the number.\<close>

definition clone_priority :: "u32 \<Rightarrow> dnj \<Rightarrow> dnj" where
  "clone_priority p d =
     (if p = 1000 then set_cpri ''Highest'' d
      else if p = 750 then set_cpri ''High'' d
      else if p = 500 then set_cpri ''Normal'' d
      else if p = 250 then set_cpri ''Low'' d
      else if p = 100 then set_cpri ''Lowest'' d
      else (set_cpri ''Custom'' d)\<lparr>epri := entry_text (MAXCMDLEN - 1) (print_u p)\<rparr>)"

text \<open>Buttons are only ever set.\<close>

definition clone_flags :: "job \<Rightarrow> dnj \<Rightarrow> dnj" where
  "clone_flags j d =
     (let d = (if j_flags j AND JF_MAILNOTIFY \<noteq> 0 then
                 let d = set_mailnotify True d
                 in if j_flags j AND JF_MNDIFEMAIL \<noteq> 0 then d\<lparr>cbdifemail := True, edifemail := entry_text (MAXNAMELEN - 1) (j_email j)\<rparr> else d
               else d);
          d = (if j_flags j AND JF_JOBDEPEND \<noteq> 0 then d\<lparr>cbjobdepend := True, ejobdepend := print_i (dependid j)\<rparr> else d)
      in if j_flags j AND JF_JOBDELETE \<noteq> 0 then d\<lparr>cbjobdelete := True\<rparr> else d)"

text \<open>
  The kind of the job.  A general job leaves the kind that was chosen before.  Behind the case of Mantra there is no \<open>break\<close>, so its
  fields are copied again as those of Aqsis, whose view command lies where Mantra has the render directory.  A
  job whose \<open>koji\<close> is not the one its \<open>koj\<close> says would be read as the bytes of another member, which is a fault here.
\<close>

definition clone_koji :: "job \<Rightarrow> dnj \<Rightarrow> fault + dnj" where
  "clone_koji j d =
     (let t = koji_text in
      if koj j = KOJ_MAYA then (case koji j of KojiMaya s1 s2 s3 s4 s5 s6 s7 \<Rightarrow> Inr ((set_koj ''Maya'' d)\<lparr>ekoji := KojiMaya (t s1) (t s2) (t s3) (t s4) (t s5) (t s6) (t s7)\<rparr>) | _ \<Rightarrow> Inl WildPointer)
      else if koj j = KOJ_MENTALRAY then (case koji j of KojiMentalray s1 s2 s3 s4 \<Rightarrow> Inr ((set_koj ''Mental Ray'' d)\<lparr>ekoji := KojiMentalray (t s1) (t s2) (t s3) (t s4)\<rparr>) | _ \<Rightarrow> Inl WildPointer)
      else if koj j = KOJ_BLENDER then (case koji j of KojiBlender s1 s2 \<Rightarrow> Inr ((set_koj ''Blender'' d)\<lparr>ekoji := KojiBlender (t s1) (t s2)\<rparr>) | _ \<Rightarrow> Inl WildPointer)
      else if koj j = KOJ_MANTRA then (case koji j of KojiMantra s1 s2 _ \<Rightarrow> Inr ((set_koj ''Aqsis'' (set_koj ''Mantra'' d))\<lparr>ekoji := KojiAqsis (t s1) (t s2)\<rparr>) | _ \<Rightarrow> Inl WildPointer)
      else if koj j = KOJ_AQSIS then (case koji j of KojiAqsis s1 s2 \<Rightarrow> Inr ((set_koj ''Aqsis'' d)\<lparr>ekoji := KojiAqsis (t s1) (t s2)\<rparr>) | _ \<Rightarrow> Inl WildPointer)
      else if koj j = KOJ_PIXIE then (case koji j of KojiPixie s1 s2 \<Rightarrow> Inr ((set_koj ''Pixie'' d)\<lparr>ekoji := KojiPixie (t s1) (t s2)\<rparr>) | _ \<Rightarrow> Inl WildPointer)
      else if koj j = KOJ_3DELIGHT then (case koji j of Koji3delight s1 s2 \<Rightarrow> Inr ((set_koj ''3delight'' d)\<lparr>ekoji := Koji3delight (t s1) (t s2)\<rparr>) | _ \<Rightarrow> Inl WildPointer)
      else if koj j = KOJ_LIGHTWAVE then (case koji j of KojiLightwave s1 s2 s3 s4 \<Rightarrow> Inr ((set_koj ''Lightwave'' d)\<lparr>ekoji := KojiLightwave (t s1) (t s2) (t s3) (t s4)\<rparr>) | _ \<Rightarrow> Inl WildPointer)
      else if koj j = KOJ_NUKE then (case koji j of KojiNuke s1 s2 \<Rightarrow> Inr ((set_koj ''Nuke'' d)\<lparr>ekoji := KojiNuke (t s1) (t s2)\<rparr>) | _ \<Rightarrow> Inl WildPointer)
      else if koj j = KOJ_TERRAGEN then (case koji j of KojiTerragen s1 s2 s3 s4 \<Rightarrow> Inr ((set_koj ''Terragen'' d)\<lparr>ekoji := KojiTerragen (t s1) (t s2) (t s3) (t s4)\<rparr>) | _ \<Rightarrow> Inl WildPointer)
      else if koj j = KOJ_AFTEREFFECTS then (case koji j of KojiAftereffects s1 s2 s3 \<Rightarrow> Inr ((set_koj ''After Effects'' d)\<lparr>ekoji := KojiAftereffects (t s1) (t s2) (t s3)\<rparr>) | _ \<Rightarrow> Inl WildPointer)
      else if koj j = KOJ_SHAKE then (case koji j of KojiShake s1 s2 \<Rightarrow> Inr ((set_koj ''Shake'' d)\<lparr>ekoji := KojiShake (t s1) (t s2)\<rparr>) | _ \<Rightarrow> Inl WildPointer)
      else if koj j = KOJ_TURTLE then (case koji j of KojiTurtle s1 s2 s3 _ _ _ s7 s8 \<Rightarrow> Inr ((set_koj ''Turtle'' d)\<lparr>ekoji := KojiTurtle (t s1) (t s2) (t s3) [] 0 0 (t s7) (t s8)\<rparr>) | _ \<Rightarrow> Inl WildPointer)
      else if koj j = KOJ_XSI then (case koji j of KojiXsi s1 s2 s3 s4 s5 s6 \<Rightarrow> Inr ((set_koj ''XSI'' d)\<lparr>ekoji := KojiXsi (t s1) (t s2) (t s3) (t s4) (t s5) (t s6)\<rparr>) | _ \<Rightarrow> Inl WildPointer)
      else if koj j = KOJ_LUXRENDER then (case koji j of KojiLuxrender s1 _ s3 \<Rightarrow> Inr ((set_koj ''Luxrender'' d)\<lparr>ekoji := KojiLuxrender (t s1) [] (t s3)\<rparr>) | _ \<Rightarrow> Inl WildPointer)
      else Inr d)"

text \<open>The command, the size of the blocks, the memory limit, the pool, the operating systems and the environment of the job
  are not copied.\<close>

definition CopyJob_CloneInfo :: "job \<Rightarrow> dnj \<Rightarrow> fault + dnj" where
  "CopyJob_CloneInfo j d =
     (let d = d\<lparr>ename := entry_text (MAXNAMELEN - 1) (j_name j), esf := print_i (frame_start j), eef := print_i (frame_end j),
                estf := print_i (frame_step j), efp := dec (unat (frame_pad j))\<rparr>;
          d = clone_priority (j_priority j) d;
          d = d\<lparr>enmaxcpus := print_short (jl_nmaxcpus (limits j)), enmaxcpuscomputer := print_short (jl_nmaxcpuscomputer (limits j))\<rparr>
      in clone_koji j (clone_flags j d))"

end
