(* ===== verification/Copying.thy ===== *)
theory Copying
  imports Dialog
begin

text \<open>
  What a user can do to the dialog of \<open>drqman\<close>, and what becomes of a job that is copied and submitted again.
\<close>

section \<open>Numbers in the entries\<close>

lemma scan_neg: "scan_int (CHR ''-'' # dec n) = (Some (- int n), [])"
proof -
  have "\<forall>c \<in> set (dec n). is_digit c" using dec_char by blast
  then have t: "takeWhile is_digit (dec n) = dec n" "dropWhile is_digit (dec n) = []" by (simp_all add: takeWhile_eq_all_conv dropWhile_eq_Nil_conv)
  show ?thesis by (simp add: scan_int_def Let_def t)
qed

lemma scan_print_i: "fst (scan_int (dropWhile is_space (print_i w))) = Some (sint w)"
proof (cases "sint w < 0")
  case True
  then show ?thesis by (simp add: print_i_def is_space_def scan_neg)
next
  case False
  then show ?thesis using scan_dec [of "[]" "nat (sint w)"] by (simp add: print_i_def is_space_dec)
qed

lemma sint32_bounds: "- (2 ^ 31) \<le> sint (w :: u32)" "sint (w :: u32) < 2 ^ 31"
  using sint_range_size [of w] by (simp_all add: word_size)

lemma scan_u_print_i: "scan_u (print_i w) = Some (sint w)"
  using sint32_bounds [of w] by (simp add: scan_u_def scan_print_i)

lemma atoi_print_i: "atoi (print_i w) = w"
proof -
  have "max (- (2 ^ 63)) (min (2 ^ 63 - 1) (sint w)) = sint w" using sint32_bounds [of w] by simp
  then show ?thesis unfolding atoi_def scan_print_i option.case by (simp only: of_int_sint scast_id)
qed

lemma scan_u_dec: "n < 2 ^ 64 \<Longrightarrow> scan_u (dec n) = Some (int n)"
  using scan_dec [of "[]" n] by (simp add: scan_u_def is_space_dec)

lemma scan_u_print_u: "scan_u (print_u w) = Some (uint w)"
  using scan_u_dec [of "unat w"] unat_u32_less [of w] by (simp add: print_u_def)

lemma scan_u_print_short: "scan_u (print_short w) = Some (sint (scast w :: u32))"
  by (simp add: print_short_def scan_u_print_i)

lemma short_back: "of_int (sint (scast (w :: u16) :: u32)) = w" "scast (scast (w :: u16) :: u32) = w"
  by (rule bit_word_eqI, simp add: bit_simps)+

lemma scan_u_pad: "scan_u (dec (unat (p :: u8))) = Some (int (unat p))"
proof -
  have "unat p < 2 ^ 64" by (rule less_trans [OF unsigned_less [of p]]) simp
  then show ?thesis by (rule scan_u_dec)
qed

section \<open>The kinds\<close>

fun kind_of :: "koj_info \<Rightarrow> u16" where
  "kind_of (KojiGeneral _) = KOJ_GENERAL"
| "kind_of (KojiMaya _ _ _ _ _ _ _) = KOJ_MAYA"
| "kind_of (KojiMentalray _ _ _ _) = KOJ_MENTALRAY"
| "kind_of (KojiBlender _ _) = KOJ_BLENDER"
| "kind_of (KojiPixie _ _) = KOJ_PIXIE"
| "kind_of (Koji3delight _ _) = KOJ_3DELIGHT"
| "kind_of (KojiLightwave _ _ _ _) = KOJ_LIGHTWAVE"
| "kind_of (KojiNuke _ _) = KOJ_NUKE"
| "kind_of (KojiTerragen _ _ _ _) = KOJ_TERRAGEN"
| "kind_of (KojiAqsis _ _) = KOJ_AQSIS"
| "kind_of (KojiMantra _ _ _) = KOJ_MANTRA"
| "kind_of (KojiAftereffects _ _ _) = KOJ_AFTEREFFECTS"
| "kind_of (KojiShake _ _) = KOJ_SHAKE"
| "kind_of (KojiTurtle _ _ _ _ _ _ _ _) = KOJ_TURTLE"
| "kind_of (KojiXsi _ _ _ _ _ _) = KOJ_XSI"
| "kind_of (KojiLuxrender _ _ _) = KOJ_LUXRENDER"
| "kind_of (KojiVray _ _) = 17"
| "kind_of (KojiThreedsmax _ _ _ _) = 18"

text \<open>
  The texts of a kind; what the dialog shows for a job, which is nothing new for a general job and the kinds without a frame,
  and a job for Aqsis for one for Mantra; and what is read from the entries again.
\<close>

fun texts_of :: "koj_info \<Rightarrow> cstring list" where
  "texts_of (KojiGeneral s) = [s]"
| "texts_of (KojiMaya s r p b a i v) = [s, r, p, b, a, i, v]"
| "texts_of (KojiMentalray s r i v) = [s, r, i, v]"
| "texts_of (KojiBlender s v) = [s, v]"
| "texts_of (KojiPixie s v) = [s, v]"
| "texts_of (Koji3delight s v) = [s, v]"
| "texts_of (KojiLightwave s p c v) = [s, p, c, v]"
| "texts_of (KojiNuke s v) = [s, v]"
| "texts_of (KojiTerragen s w t v) = [s, w, t, v]"
| "texts_of (KojiAqsis s v) = [s, v]"
| "texts_of (KojiMantra s r v) = [s, r, v]"
| "texts_of (KojiAftereffects p c v) = [p, c, v]"
| "texts_of (KojiShake s v) = [s, v]"
| "texts_of (KojiTurtle s r p c x y i v) = [s, r, p, c, i, v]"
| "texts_of (KojiXsi s p r i e v) = [s, p, r, i, e, v]"
| "texts_of (KojiLuxrender s f v) = [s, f, v]"
| "texts_of (KojiVray s v) = [s, v]"
| "texts_of (KojiThreedsmax s f i v) = [s, f, i, v]"

definition short_texts :: "koj_info \<Rightarrow> bool" where
  "short_texts e \<longleftrightarrow> (\<forall>t \<in> set (texts_of e). length t < BUFFERLEN)"

fun shown_koji :: "koj_info \<Rightarrow> koj_info option" where
  "shown_koji (KojiGeneral s) = None"
| "shown_koji (KojiVray s v) = None"
| "shown_koji (KojiThreedsmax s f i v) = None"
| "shown_koji (KojiMantra s r v) = Some (KojiAqsis s r)"
| "shown_koji (KojiTurtle s r p c x y i v) = Some (KojiTurtle s r p [] 0 0 i v)"
| "shown_koji (KojiLuxrender s f v) = Some (KojiLuxrender s [] v)"
| "shown_koji e = Some e"

fun read_koji :: "koj_info \<Rightarrow> koj_info" where
  "read_koji (KojiGeneral s) = KojiGeneral []"
| "read_koji (KojiVray s v) = KojiGeneral []"
| "read_koji (KojiThreedsmax s f i v) = KojiGeneral []"
| "read_koji (KojiAftereffects p c v) = KojiGeneral []"
| "read_koji (KojiMantra s r v) = KojiMantra s [] v"
| "read_koji (KojiTurtle s r p c x y i v) = KojiTurtle s r p [] 0 0 i v"
| "read_koji (KojiLuxrender s f v) = KojiLuxrender s [] v"
| "read_koji e = e"

text \<open>The kinds that a copy keeps with every field; of Turtle and Luxrender only without the fields the dialog has no entries for.\<close>

fun held :: "koj_info \<Rightarrow> bool" where
  "held (KojiMaya s r p b a i v) \<longleftrightarrow> True"
| "held (KojiMentalray s r i v) \<longleftrightarrow> True"
| "held (KojiBlender s v) \<longleftrightarrow> True"
| "held (KojiPixie s v) \<longleftrightarrow> True"
| "held (Koji3delight s v) \<longleftrightarrow> True"
| "held (KojiLightwave s p c v) \<longleftrightarrow> True"
| "held (KojiNuke s v) \<longleftrightarrow> True"
| "held (KojiTerragen s w t v) \<longleftrightarrow> True"
| "held (KojiAqsis s v) \<longleftrightarrow> True"
| "held (KojiShake s v) \<longleftrightarrow> True"
| "held (KojiTurtle s r p c x y i v) \<longleftrightarrow> c = [] \<and> x = 0 \<and> y = 0"
| "held (KojiXsi s p r i e v) \<longleftrightarrow> True"
| "held (KojiLuxrender s f v) \<longleftrightarrow> f = []"
| "held _ \<longleftrightarrow> False"

lemma held_kept: "held e \<Longrightarrow> shown_koji e = Some e \<and> read_koji e = e"
  by (cases e) simp_all

lemma short_shown: "short_texts e \<Longrightarrow> shown_koji e = Some e' \<Longrightarrow> short_texts e'"
  by (cases e) (auto simp: short_texts_def BUFFERLEN_def)

lemma koj_names:
  "koj_of_name ''General'' = Some KOJ_GENERAL" "koj_of_name ''Maya'' = Some KOJ_MAYA" "koj_of_name ''Mental Ray'' = Some KOJ_MENTALRAY"
  "koj_of_name ''Blender'' = Some KOJ_BLENDER" "koj_of_name ''Mantra'' = Some KOJ_MANTRA" "koj_of_name ''Aqsis'' = Some KOJ_AQSIS"
  "koj_of_name ''Pixie'' = Some KOJ_PIXIE" "koj_of_name ''3delight'' = Some KOJ_3DELIGHT" "koj_of_name ''Lightwave'' = Some KOJ_LIGHTWAVE"
  "koj_of_name ''Nuke'' = Some KOJ_NUKE" "koj_of_name ''Terragen'' = Some KOJ_TERRAGEN" "koj_of_name ''After Effects'' = Some KOJ_AFTEREFFECTS"
  "koj_of_name ''Shake'' = Some KOJ_SHAKE" "koj_of_name ''Turtle'' = Some KOJ_TURTLE" "koj_of_name ''XSI'' = Some KOJ_XSI"
  "koj_of_name ''Luxrender'' = Some KOJ_LUXRENDER"
  by (simp_all add: koj_of_name_def)

lemma koj_of_name_kinds:
  "koj_of_name s = Some k \<Longrightarrow> k \<in> {KOJ_GENERAL, KOJ_MAYA, KOJ_MENTALRAY, KOJ_BLENDER, KOJ_MANTRA, KOJ_AQSIS, KOJ_PIXIE, KOJ_3DELIGHT,
     KOJ_LIGHTWAVE, KOJ_NUKE, KOJ_TERRAGEN, KOJ_AFTEREFFECTS, KOJ_SHAKE, KOJ_TURTLE, KOJ_XSI, KOJ_LUXRENDER}"
  unfolding koj_of_name_def by (simp only: split: if_splits) simp_all

lemma koj_frame_kind: "koj_of_name s = Some k \<Longrightarrow> kind_of (koj_frame k) = k"
  by (drule koj_of_name_kinds, elim insertE emptyE) (simp_all add: koj_frame_def)

section \<open>The dialog in use\<close>

definition priority_shown :: "cstring \<Rightarrow> cstring \<Rightarrow> bool" where
  "priority_shown c s \<longleftrightarrow> (c = ''Highest'' \<longrightarrow> s = ''1000'') \<and> (c = ''High'' \<longrightarrow> s = ''750'') \<and> (c = ''Normal'' \<longrightarrow> s = ''500'') \<and>
     (c = ''Low'' \<longrightarrow> s = ''250'') \<and> (c = ''Lowest'' \<longrightarrow> s = ''100'')"

text \<open>
  The entries of the frame belong to the chosen kind, the number of the priority is the one of its name, and the other address
  for mail is only used when mail is asked for.
\<close>

definition dialog_ok :: "dnj \<Rightarrow> bool" where
  "dialog_ok d \<longleftrightarrow> koj_of_name (ckoj d) = Some (dkoj d) \<and> kind_of (ekoji d) = dkoj d \<and> priority_shown (cpri d) (epri d) \<and>
     (cbdifemail d \<longrightarrow> cbmailnotify d)"

lemma set_koj_known:
  assumes "koj_of_name (ckoj d) = Some (dkoj d)" "koj_of_name s = Some k"
  shows "(set_koj s d)\<lparr>ekoji := e\<rparr> = d\<lparr>ckoj := s, dkoj := k, ekoji := e\<rparr>"
    "ckoj (set_koj s d) = s" "dkoj (set_koj s d) = k"
  using assms by (auto simp: set_koj_def dnj_koj_combo_changed_def)

lemma set_koj_ok: "dialog_ok d \<Longrightarrow> koj_of_name s = Some k \<Longrightarrow> dialog_ok (set_koj s d)"
  by (auto simp: dialog_ok_def set_koj_def dnj_koj_combo_changed_def koj_frame_kind)

lemma set_cpri_ok: "dialog_ok d \<Longrightarrow> dialog_ok (set_cpri s d)"
  by (simp add: dialog_ok_def set_cpri_def dnj_cpri_changed_def priority_shown_def)

lemma set_mailnotify_ok: "dialog_ok d \<Longrightarrow> dialog_ok (set_mailnotify b d)"
  by (auto simp: dialog_ok_def set_mailnotify_def dnj_flags_cbmailnotify_toggled_def)

lemma new_dialog_ok: "dialog_ok (NewJobDialog login)"
  by (simp add: dialog_ok_def NewJobDialog_def koj_names priority_shown_def)

lemma custom_shown: "priority_shown ''Custom'' s"
  by (simp add: priority_shown_def)

text \<open>What the user types and presses.  The name of a kind or of a priority can only be chosen; the number of the priority can be typed
  when it is not given by a name.  Submitting leaves the dialog as it is.\<close>

inductive dialog_step :: "dnj \<Rightarrow> dnj \<Rightarrow> bool" where
  type_texts: "dialog_step d (d\<lparr>ename := entry_text (MAXNAMELEN - 1) s1, ecmd := entry_text (MAXCMDLEN - 1) s2, esf := s3, eef := s4, estf := s5,
      ebs := s6, efp := s7, edifemail := entry_text (MAXNAMELEN - 1) s8, ejobdepend := s9\<rparr>)"
| type_limits: "dialog_step d (d\<lparr>enmaxcpus := s1, enmaxcpuscomputer := s2, ememory := s3, epool := s4, cb_irix := b1, cb_linux := b2, cb_osx := b3,
      cb_freebsd := b4, cb_cygwin := b5\<rparr>)"
| type_priority: "cpri d = ''Custom'' \<Longrightarrow> dialog_step d (d\<lparr>epri := entry_text (MAXCMDLEN - 1) s\<rparr>)"
| choose_priority: "s \<in> {''Highest'', ''High'', ''Normal'', ''Low'', ''Lowest'', ''Custom''} \<Longrightarrow> dialog_step d (set_cpri s d)"
| choose_kind: "koj_of_name s = Some k \<Longrightarrow> dialog_step d (set_koj s d)"
| type_kind: "kind_of e = kind_of (ekoji d) \<Longrightarrow> dialog_step d (d\<lparr>ekoji := e\<rparr>)"
| press_mail: "dialog_step d (set_mailnotify b d)"
| press_address: "cbmailnotify d \<Longrightarrow> dialog_step d (d\<lparr>cbdifemail := b\<rparr>)"
| press_others: "dialog_step d (d\<lparr>cbjobdepend := b1, cbjobdelete := b2\<rparr>)"
| set_variables: "dialog_step d (d\<lparr>denvvars := ev\<rparr>)"
| copy_job: "CopyJob_CloneInfo j d = Inr d' \<Longrightarrow> dialog_step d d'"
| submit_stopped: "dialog_step d (dnj_bsubmitstopped_pressed d)"

lemma set_koj_entries: "dialog_ok d \<Longrightarrow> koj_of_name s = Some k \<Longrightarrow> kind_of e = k \<Longrightarrow> dialog_ok ((set_koj s d)\<lparr>ekoji := e\<rparr>)"
  by (simp add: set_koj_known dialog_ok_def)

lemma clone_koji_ok: "clone_koji j d = Inr d' \<Longrightarrow> dialog_ok d \<Longrightarrow> dialog_ok d'"
  by (cases "koji j")
    (auto simp: clone_koji_def Let_def koj_names intro!: set_koj_entries set_koj_ok split: if_splits)

lemma set_cpri_shows: "cpri (set_cpri s d) = s"
  by (simp add: set_cpri_def dnj_cpri_changed_def)

lemma custom_ok: "dialog_ok d \<Longrightarrow> dialog_ok ((set_cpri ''Custom'' d)\<lparr>epri := s\<rparr>)"
  using set_cpri_ok [of d "''Custom''"] by (simp add: dialog_ok_def set_cpri_shows custom_shown)

lemma clone_priority_ok: "dialog_ok d \<Longrightarrow> dialog_ok (clone_priority p d)"
  by (simp add: clone_priority_def set_cpri_ok custom_ok)

lemma mail_asked: "cbmailnotify (set_mailnotify True d)"
  by (simp add: set_mailnotify_def dnj_flags_cbmailnotify_toggled_def)

lemma clone_flags_ok: "dialog_ok d \<Longrightarrow> dialog_ok (clone_flags j d)"
  using set_mailnotify_ok [of d True] mail_asked [of d] by (auto simp: clone_flags_def Let_def dialog_ok_def)

lemma dialog_texts:
  "dialog_ok (d\<lparr>ename := s1, esf := s2, eef := s3, estf := s4, efp := s5\<rparr>) = dialog_ok d"
  "dialog_ok (d\<lparr>enmaxcpus := s1, enmaxcpuscomputer := s2\<rparr>) = dialog_ok d"
  by (simp_all add: dialog_ok_def)

lemma copy_ok:
  assumes "CopyJob_CloneInfo j d = Inr d'" "dialog_ok d"
  shows "dialog_ok d'"
  using assms(1) unfolding CopyJob_CloneInfo_def Let_def
  by (rule clone_koji_ok) (simp add: clone_flags_ok clone_priority_ok dialog_texts assms(2))

lemma dialog_step_ok: "dialog_step d d' \<Longrightarrow> dialog_ok d \<Longrightarrow> dialog_ok d'"
proof (induction rule: dialog_step.induct)
  case (type_priority d s)
  then show ?case by (simp add: dialog_ok_def custom_shown)
next
  case (copy_job j d d')
  then show ?case by (rule copy_ok)
qed (auto simp: set_cpri_ok set_koj_ok set_mailnotify_ok, auto simp: dialog_ok_def dnj_bsubmitstopped_pressed_def)

lemma dialog_reached_ok: "dialog_step\<^sup>*\<^sup>* d d' \<Longrightarrow> dialog_ok d \<Longrightarrow> dialog_ok d'"
  by (induction rule: rtranclp_induct) (auto intro: dialog_step_ok)

section \<open>Submitting stopped\<close>

lemma clone_stopped:
  "submitstopped (set_koj s d) = submitstopped d" "submitstopped (set_cpri s d) = submitstopped d" "submitstopped (set_mailnotify b d) = submitstopped d"
  "submitstopped (clone_priority p d) = submitstopped d" "submitstopped (clone_flags j d) = submitstopped d"
  by (auto simp: set_koj_def dnj_koj_combo_changed_def set_cpri_def dnj_cpri_changed_def set_mailnotify_def dnj_flags_cbmailnotify_toggled_def
      clone_priority_def clone_flags_def Let_def split: option.splits)

lemma clone_koji_stopped: "clone_koji j d = Inr d' \<Longrightarrow> submitstopped d' = submitstopped d"
  by (cases "koji j") (auto simp: clone_koji_def Let_def clone_stopped split: if_splits)

lemma submitstopped_stays: "dialog_step d d' \<Longrightarrow> submitstopped d \<Longrightarrow> submitstopped d'"
  by (induction rule: dialog_step.induct)
    (auto simp: clone_stopped dnj_bsubmitstopped_pressed_def CopyJob_CloneInfo_def Let_def dest!: clone_koji_stopped)

lemma connects: "\<exists>sfd S1. connect S = (sfd, S1) \<and> sd_conns S1 = tl (sd_conns S)"
  by (cases "sd_conns S") (simp_all add: connect_def)

text \<open>C33. The button that submits a job stopped is never released: after it was pressed once, whatever the user does to
  the dialog, every job that is registered with it is asked to stop, the ones of the other button too.\<close>

theorem submit_stopped_sticks:
  assumes "dialog_step\<^sup>*\<^sup>* (dnj_bsubmitstopped_pressed d) d'" "dnj_submit S d' = Inr (True, Some (Inr j, c), stop, S')"
  shows "\<exists>sfd. stop = Some (request_job_hstop (j_id j) CLIENT sfd) \<and> sd_conns S' = tl (tl (sd_conns S))"
proof -
  have "submitstopped d'"
    using assms(1) by (induction rule: rtranclp_induct) (auto intro: submitstopped_stays simp: dnj_bsubmitstopped_pressed_def)
  then have st: "submitstopped d' = True" by simp
  obtain user job where u: "getenv S ''USER'' = Inr user" "dnj_job user (sd_login S) d' = Inr (Some job)"
    using assms(2) by (auto simp: dnj_submit_def andThen_eq_Inr_iff split: option.splits)
  obtain sfd S1 where c: "connect S = (sfd, S1)" "sd_conns S1 = tl (sd_conns S)" using connects by blast
  obtain sfd2 S2 where c2: "connect S1 = (sfd2, S2)" "sd_conns S2 = tl (sd_conns S1)" using connects by blast
  have "\<exists>r. register_job (sd_junk S1) job sfd (sd_world S1) = Inr r"
    using assms(2) unfolding dnj_submit_def u andThen_simps option.case c(1) Let_def prod.case by (auto simp: andThen_eq_Inr_iff)
  then obtain r where r: "register_job (sd_junk S1) job sfd (sd_world S1) = Inr r" by blast
  show ?thesis
    using assms(2) c(2) c2(2)
    unfolding dnj_submit_def u andThen_simps option.case c(1) Let_def prod.case st if_True r c2(1)
    by (cases "fst r") auto
qed


section \<open>Copying a job\<close>

text \<open>A job the dialog can describe: its texts fit, and its flags are the ones the dialog sets.\<close>

definition copyable :: "job \<Rightarrow> bool" where
  "copyable j \<longleftrightarrow> kind_of (koji j) = koj j \<and> short_texts (koji j) \<and> j_name j \<noteq> [] \<and> length (j_name j) < MAXNAMELEN \<and> length (j_email j) < MAXNAMELEN \<and>
     j_flags j = j_flags j AND (JF_MAILNOTIFY OR JF_MNDIFEMAIL OR JF_JOBDEPEND OR JF_JOBDELETE) \<and>
     (j_flags j AND JF_MNDIFEMAIL \<noteq> 0 \<longrightarrow> j_flags j AND JF_MAILNOTIFY \<noteq> 0)"

text \<open>A dialog to copy into: no button of the flags is set, there is a command, and what copying leaves can be read and is short enough.\<close>

definition ready :: "dnj \<Rightarrow> bool" where
  "ready d \<longleftrightarrow> \<not> cbmailnotify d \<and> \<not> cbjobdepend d \<and> \<not> cbjobdelete d \<and> ecmd d \<noteq> [] \<and> scan_u (ebs d) \<noteq> None \<and> scan_u (ememory d) \<noteq> None \<and>
     short_texts (ekoji d)"

definition logged_in :: "cstring option \<Rightarrow> cstring" where
  "logged_in login = strncpy (MAXNAMELEN - 1) (case login of None \<Rightarrow> ''ERROR'' | Some u \<Rightarrow> u)"

text \<open>The kind that the dialog has after copying, with its entries.\<close>

definition shown_kind :: "dnj \<Rightarrow> job \<Rightarrow> u16 \<times> koj_info" where
  "shown_kind d j = (case shown_koji (koji j) of None \<Rightarrow> (dkoj d, ekoji d) | Some e \<Rightarrow> (kind_of e, e))"

text \<open>The copy: the frames, the priority, the limits on processors, the flags are those of the job; the kind is the one the dialog has then; the owner
  is the user of the manager; the command, the size of the blocks and the other limits are what the dialog held.\<close>

definition copied_job :: "cstring \<Rightarrow> cstring option \<Rightarrow> dnj \<Rightarrow> job \<Rightarrow> job" where
  "copied_job user login d j = (job_init user zero_job)\<lparr>j_name := j_name j, j_cmd := strncpy (MAXCMDLEN - 1) (ecmd d),
     frame_start := frame_start j, frame_end := frame_end j, frame_step := frame_step j, block_size := of_int (the (scan_u (ebs d))),
     frame_pad := frame_pad j, j_priority := j_priority j, j_owner := logged_in login, j_status := JOBSTATUS_WAITING,
     autoRequeue := (if fst (shown_kind d j) = KOJ_XSI then 0 else 1), koj := fst (shown_kind d j), koji := read_koji (snd (shown_kind d j)),
     limits := \<lparr>jl_nmaxcpus = jl_nmaxcpus (limits j), jl_nmaxcpuscomputer = jl_nmaxcpuscomputer (limits j), jl_os_flags = dnj_os_flags d,
       jl_memory = of_int (the (scan_u (ememory d))), jl_pool = strncpy (MAXNAMELEN - 1) (epool d)\<rparr>,
     j_flags := j_flags j, j_email := (if j_flags j AND JF_MNDIFEMAIL \<noteq> 0 then j_email j else logged_in login),
     dependid := (if j_flags j AND JF_JOBDEPEND \<noteq> 0 then dependid j else 0), j_envvars := denvvars d\<rparr>"

lemma text_kept: "length s < n \<Longrightarrow> entry_text (n - 1) s = s" "length s < n \<Longrightarrow> strncpy (n - 1) s = s"
  "length s < n \<Longrightarrow> entry_text (n - Suc 0) s = s" "length s < n \<Longrightarrow> strncpy (n - Suc 0) s = s"
  by (simp_all add: entry_text_def strncpy_def)

lemma short_texts_kept: "short_texts e \<Longrightarrow> t \<in> set (texts_of e) \<Longrightarrow> koji_text t = t \<and> strncpy (BUFFERLEN - 1) t = t"
  by (simp add: short_texts_def text_kept)

lemma set_koj_overwritten: "(set_koj s d)\<lparr>ckoj := c, dkoj := k, ekoji := e\<rparr> = d\<lparr>ckoj := c, dkoj := k, ekoji := e\<rparr>"
  by (simp add: set_koj_def dnj_koj_combo_changed_def split: option.splits)

lemma clone_koji_copies:
  assumes "dialog_ok d" "kind_of (koji j) = koj j" "short_texts (koji j)"
  shows "\<exists>s. clone_koji j d = Inr (d\<lparr>ckoj := s, dkoj := fst (shown_kind d j), ekoji := snd (shown_kind d j)\<rparr>)"
proof -
  have k: "koj_of_name (ckoj d) = Some (dkoj d)" using assms(1) by (simp add: dialog_ok_def)
  note known = set_koj_known [OF k]
  note texts = short_texts_kept [OF assms(3)]
  have same: "\<exists>s. d = d\<lparr>ckoj := s\<rparr>" by (intro exI [of _ "ckoj d"]) simp
  have "koj_of_name (ckoj (set_koj ''Mantra'' d)) = Some (dkoj (set_koj ''Mantra'' d))" by (simp add: known koj_names)
  note twice = set_koj_known(1) [OF this koj_names(6), unfolded set_koj_overwritten]
  show ?thesis
    using assms(2) texts
    by (cases "koji j") (auto simp: clone_koji_def shown_kind_def Let_def koj_names known twice same split: if_splits)
qed

lemma dnj_koji_reads:
  assumes "kind_of (ekoji d) = dkoj d" "short_texts (ekoji d)" "koji job = KojiGeneral []"
  shows "dnj_koji d job = Inr (job\<lparr>koji := read_koji (ekoji d), autoRequeue := (if dkoj d = KOJ_XSI then 0 else autoRequeue job)\<rparr>)"
proof -
  note texts = short_texts_kept [OF assms(2)]
  have "job = job\<lparr>koji := KojiGeneral [], autoRequeue := autoRequeue job\<rparr>" using assms(3) by simp
  then show ?thesis
    using assms(1) texts by (cases "ekoji d") (auto simp: dnj_koji_def Let_def)
qed

lemma shown_kind_ok:
  assumes "dialog_ok d" "short_texts (ekoji d)" "short_texts (koji j)"
  shows "kind_of (snd (shown_kind d j)) = fst (shown_kind d j)" "short_texts (snd (shown_kind d j))"
  using assms short_shown by (auto simp: shown_kind_def dialog_ok_def split: option.splits)

section \<open>What the copy describes\<close>

lemma named_priorities:
  assumes "priority_shown (cpri d) (epri d)"
  shows "set_cpri ''Highest'' d = d\<lparr>cpri := ''Highest'', epri := ''1000''\<rparr>" "set_cpri ''High'' d = d\<lparr>cpri := ''High'', epri := ''750''\<rparr>"
    "set_cpri ''Normal'' d = d\<lparr>cpri := ''Normal'', epri := ''500''\<rparr>" "set_cpri ''Low'' d = d\<lparr>cpri := ''Low'', epri := ''250''\<rparr>"
    "set_cpri ''Lowest'' d = d\<lparr>cpri := ''Lowest'', epri := ''100''\<rparr>"
  using assms by (auto simp: set_cpri_def dnj_cpri_changed_def priority_shown_def)

lemma named_numbers:
  "scan_u ''1000'' = Some 1000" "scan_u ''750'' = Some 750" "scan_u ''500'' = Some 500" "scan_u ''250'' = Some 250" "scan_u ''100'' = Some 100"
  by code_simp+

lemma set_custom: "\<exists>e. set_cpri ''Custom'' d = d\<lparr>cpri := ''Custom'', epri := e\<rparr>"
proof (cases "cpri d = ''Custom''")
  case True
  then show ?thesis by (intro exI [of _ "epri d"]) (simp add: set_cpri_def)
next
  case False
  then show ?thesis by (intro exI [of _ "''500''"]) (simp add: set_cpri_def dnj_cpri_changed_def)
qed

lemma clone_priority_copies:
  assumes "dialog_ok d"
  shows "\<exists>c e. clone_priority p d = d\<lparr>cpri := c, epri := e\<rparr> \<and> scan_u e = Some (uint p)"
proof -
  have s: "priority_shown (cpri d) (epri d)" using assms by (simp add: dialog_ok_def)
  obtain e where e: "set_cpri ''Custom'' d = d\<lparr>cpri := ''Custom'', epri := e\<rparr>" using set_custom by blast
  have "length (print_u p) < MAXCMDLEN" using length_print_u [of p] by (simp add: max_defs)
  then have t: "entry_text (MAXCMDLEN - 1) (print_u p) = print_u p" by (rule text_kept)
  have c: "(set_cpri ''Custom'' d)\<lparr>epri := print_u p\<rparr> = d\<lparr>cpri := ''Custom'', epri := print_u p\<rparr>" by (simp add: e)
  consider "p = 1000" | "p = 750" | "p = 500" | "p = 250" | "p = 100" | "p \<noteq> 1000 \<and> p \<noteq> 750 \<and> p \<noteq> 500 \<and> p \<noteq> 250 \<and> p \<noteq> 100" by blast
  then show ?thesis
  proof cases
    case 1
    then show ?thesis using named_priorities(1) [OF s] named_numbers(1) by (intro exI conjI) (simp_all add: clone_priority_def)
  next
    case 2
    then show ?thesis using named_priorities(2) [OF s] named_numbers(2) by (intro exI conjI) (simp_all add: clone_priority_def)
  next
    case 3
    then show ?thesis using named_priorities(3) [OF s] named_numbers(3) by (intro exI conjI) (simp_all add: clone_priority_def)
  next
    case 4
    then show ?thesis using named_priorities(4) [OF s] named_numbers(4) by (intro exI conjI) (simp_all add: clone_priority_def)
  next
    case 5
    then show ?thesis using named_priorities(5) [OF s] named_numbers(5) by (intro exI conjI) (simp_all add: clone_priority_def)
  next
    case 6
    then show ?thesis
      by (intro exI [of _ "''Custom''"] exI [of _ "print_u p"] conjI) (simp_all only: clone_priority_def if_False simp_thms t c scan_u_print_u)
  qed
qed

lemma clone_flags_copies:
  assumes "\<not> cbmailnotify d" "\<not> cbdifemail d" "\<not> cbjobdepend d" "\<not> cbjobdelete d" "length (j_email j) < MAXNAMELEN"
    "j_flags j AND JF_MNDIFEMAIL \<noteq> 0 \<longrightarrow> j_flags j AND JF_MAILNOTIFY \<noteq> 0"
  shows "clone_flags j d = d\<lparr>cbmailnotify := j_flags j AND JF_MAILNOTIFY \<noteq> 0, cbdifemail := j_flags j AND JF_MNDIFEMAIL \<noteq> 0,
      edifemail := (if j_flags j AND JF_MNDIFEMAIL \<noteq> 0 then j_email j else edifemail d), cbjobdepend := j_flags j AND JF_JOBDEPEND \<noteq> 0,
      ejobdepend := (if j_flags j AND JF_JOBDEPEND \<noteq> 0 then print_i (dependid j) else ejobdepend d), cbjobdelete := j_flags j AND JF_JOBDELETE \<noteq> 0\<rparr>"
proof -
  have m: "set_mailnotify True d = d\<lparr>cbmailnotify := True\<rparr>"
    using assms(1) by (simp add: set_mailnotify_def dnj_flags_cbmailnotify_toggled_def)
  show ?thesis
    unfolding clone_flags_def Let_def m text_kept(1) [OF assms(5)] using assms by auto
qed

lemma flag_kept: "(if f AND 2 ^ k \<noteq> 0 then 2 ^ k else 0) = f AND (2 ^ k :: u32)"
proof (cases "f AND 2 ^ k = 0")
  case False
  then have "bit f k" using and_exp_eq_0_iff_not_bit by blast
  then have "f AND 2 ^ k = 2 ^ k" by (intro bit_word_eqI) (auto simp: bit_and_iff bit_exp_iff)
  then show ?thesis using False by simp
qed simp

lemma flags_kept:
  fixes f :: u32
  shows "(if f AND 1 \<noteq> 0 then 1 else 0) = f AND 1" "(if f AND 2 \<noteq> 0 then 2 else 0) = f AND 2"
    "(if f AND 4 \<noteq> 0 then 4 else 0) = f AND 4" "(if f AND 8 \<noteq> 0 then 8 else 0) = f AND 8"
proof -
  have e: "(2 :: u32) ^ 0 = 1" "(2 :: u32) ^ 1 = 2" "(2 :: u32) ^ 2 = 4" "(2 :: u32) ^ 3 = 8" by simp_all
  show "(if f AND 1 \<noteq> 0 then 1 else 0) = f AND 1" "(if f AND 2 \<noteq> 0 then 2 else 0) = f AND 2"
    "(if f AND 4 \<noteq> 0 then 4 else 0) = f AND 4" "(if f AND 8 \<noteq> 0 then 8 else 0) = f AND 8"
    using flag_kept [of f 0] flag_kept [of f 1] flag_kept [of f 2] flag_kept [of f 3] unfolding e .
qed

lemma four_flags:
  fixes f :: u32
  assumes "f = f AND (JF_MAILNOTIFY OR JF_MNDIFEMAIL OR JF_JOBDEPEND OR JF_JOBDELETE)"
  shows "((if f AND 1 \<noteq> 0 then 1 else 0) OR (if f AND 2 \<noteq> 0 then 2 else 0) OR (if f AND 4 \<noteq> 0 then 4 else 0)) OR (if f AND 8 \<noteq> 0 then 8 else 0) = f"
  using assms unfolding flags_kept bit.conj_disj_distrib [symmetric] by simp
lemma dnj_flags_copies:
  assumes "j_flags j = j_flags j AND (JF_MAILNOTIFY OR JF_MNDIFEMAIL OR JF_JOBDEPEND OR JF_JOBDELETE)" "length (j_email j) < MAXNAMELEN"
    "cbmailnotify d \<longleftrightarrow> j_flags j AND JF_MAILNOTIFY \<noteq> 0" "cbdifemail d \<longleftrightarrow> j_flags j AND JF_MNDIFEMAIL \<noteq> 0"
    "cbjobdepend d \<longleftrightarrow> j_flags j AND JF_JOBDEPEND \<noteq> 0" "cbjobdelete d \<longleftrightarrow> j_flags j AND JF_JOBDELETE \<noteq> 0"
    "j_flags j AND JF_MNDIFEMAIL \<noteq> 0 \<longrightarrow> edifemail d = j_email j" "j_flags j AND JF_JOBDEPEND \<noteq> 0 \<longrightarrow> ejobdepend d = print_i (dependid j)"
    "length (j_owner x) < MAXNAMELEN" "dependid x = 0"
  shows "dnj_flags d x = x\<lparr>j_flags := j_flags j, j_email := (if j_flags j AND JF_MNDIFEMAIL \<noteq> 0 then j_email j else j_owner x),
      dependid := (if j_flags j AND JF_JOBDEPEND \<noteq> 0 then dependid j else 0)\<rparr>"
proof -
  have "dnj_flags d x = x\<lparr>j_flags := ((if j_flags j AND 1 \<noteq> 0 then 1 else 0) OR (if j_flags j AND 2 \<noteq> 0 then 2 else 0) OR
        (if j_flags j AND 4 \<noteq> 0 then 4 else 0)) OR (if j_flags j AND 8 \<noteq> 0 then 8 else 0),
      j_email := (if j_flags j AND JF_MNDIFEMAIL \<noteq> 0 then j_email j else j_owner x),
      dependid := (if j_flags j AND JF_JOBDEPEND \<noteq> 0 then dependid j else 0)\<rparr>"
    unfolding dnj_flags_def Let_def assms(3-6) using assms(2,7-10)
    by (auto simp: text_kept atoi_print_i)
  then show ?thesis unfolding four_flags [OF assms(1)] .
qed

text \<open>The entries after copying.\<close>

definition shows_job :: "job \<Rightarrow> dnj \<Rightarrow> dnj \<Rightarrow> bool" where
  "shows_job j d d' \<longleftrightarrow> ename d' = j_name j \<and> ecmd d' = ecmd d \<and> esf d' = print_i (frame_start j) \<and> eef d' = print_i (frame_end j) \<and>
     estf d' = print_i (frame_step j) \<and> ebs d' = ebs d \<and> efp d' = dec (unat (frame_pad j)) \<and> scan_u (epri d') = Some (uint (j_priority j)) \<and>
     enmaxcpus d' = print_short (jl_nmaxcpus (limits j)) \<and> enmaxcpuscomputer d' = print_short (jl_nmaxcpuscomputer (limits j)) \<and>
     ememory d' = ememory d \<and> epool d' = epool d \<and> dnj_os_flags d' = dnj_os_flags d \<and> denvvars d' = denvvars d \<and>
     (cbmailnotify d' \<longleftrightarrow> j_flags j AND JF_MAILNOTIFY \<noteq> 0) \<and> (cbdifemail d' \<longleftrightarrow> j_flags j AND JF_MNDIFEMAIL \<noteq> 0) \<and>
     (cbjobdepend d' \<longleftrightarrow> j_flags j AND JF_JOBDEPEND \<noteq> 0) \<and> (cbjobdelete d' \<longleftrightarrow> j_flags j AND JF_JOBDELETE \<noteq> 0) \<and>
     (j_flags j AND JF_MNDIFEMAIL \<noteq> 0 \<longrightarrow> edifemail d' = j_email j) \<and> (j_flags j AND JF_JOBDEPEND \<noteq> 0 \<longrightarrow> ejobdepend d' = print_i (dependid j)) \<and>
     dkoj d' = fst (shown_kind d j) \<and> ekoji d' = snd (shown_kind d j) \<and> submitstopped d' = submitstopped d"

lemma copy_shows:
  assumes ok: "dialog_ok d" and r: "ready d" and j: "copyable j"
  shows "\<exists>d'. CopyJob_CloneInfo j d = Inr d' \<and> shows_job j d d'"
proof -
  let ?d1 = "d\<lparr>ename := j_name j, esf := print_i (frame_start j), eef := print_i (frame_end j), estf := print_i (frame_step j), efp := dec (unat (frame_pad j))\<rparr>"
  have d1: "dialog_ok ?d1" using ok by (simp only: dialog_texts)
  obtain c e where p: "clone_priority (j_priority j) ?d1 = ?d1\<lparr>cpri := c, epri := e\<rparr>" "scan_u e = Some (uint (j_priority j))"
    using clone_priority_copies [OF d1] by blast
  let ?d2 = "?d1\<lparr>cpri := c, epri := e, enmaxcpus := print_short (jl_nmaxcpus (limits j)), enmaxcpuscomputer := print_short (jl_nmaxcpuscomputer (limits j))\<rparr>"
  have d2: "dialog_ok ?d2" using clone_priority_ok [OF d1, of "j_priority j"] unfolding p(1) by (simp only: dialog_texts)
  have nb: "\<not> cbmailnotify ?d2" "\<not> cbdifemail ?d2" "\<not> cbjobdepend ?d2" "\<not> cbjobdelete ?d2"
    using r ok by (auto simp: ready_def dialog_ok_def)
  have jl: "length (j_email j) < MAXNAMELEN" "j_flags j AND JF_MNDIFEMAIL \<noteq> 0 \<longrightarrow> j_flags j AND JF_MAILNOTIFY \<noteq> 0" "length (j_name j) < MAXNAMELEN"
    "kind_of (koji j) = koj j" "short_texts (koji j)"
    using j unfolding copyable_def by blast+
  note f = clone_flags_copies [OF nb jl(1,2)]
  have d3: "dialog_ok (clone_flags j ?d2)" by (rule clone_flags_ok [OF d2])
  have dk: "dkoj (clone_flags j ?d2) = dkoj d" "ekoji (clone_flags j ?d2) = ekoji d" unfolding f by simp_all
  have sk: "shown_kind (clone_flags j ?d2) j = shown_kind d j" unfolding shown_kind_def dk ..
  obtain s where k: "clone_koji j (clone_flags j ?d2) = Inr ((clone_flags j ?d2)\<lparr>ckoj := s, dkoj := fst (shown_kind d j), ekoji := snd (shown_kind d j)\<rparr>)"
    using clone_koji_copies [OF d3 jl(4,5)] unfolding sk by blast
  have "CopyJob_CloneInfo j d = Inr ((clone_flags j ?d2)\<lparr>ckoj := s, dkoj := fst (shown_kind d j), ekoji := snd (shown_kind d j)\<rparr>)"
    unfolding CopyJob_CloneInfo_def Let_def text_kept(1) [OF jl(3)] p(1) by (rule k)
  moreover have "shows_job j d ((clone_flags j ?d2)\<lparr>ckoj := s, dkoj := fst (shown_kind d j), ekoji := snd (shown_kind d j)\<rparr>)"
    unfolding f shows_job_def using p(2) by (simp add: dnj_os_flags_def)
  ultimately show ?thesis by blast
qed

lemma shown_is_described:
  assumes ok: "dialog_ok d" and s: "shows_job j d d'" and r: "ready d" and j: "copyable j"
  shows "dnj_job user login d' = Inr (Some (copied_job user login d j))"
proof -
  have jl: "kind_of (koji j) = koj j" "short_texts (koji j)" "j_name j \<noteq> []" "length (j_name j) < MAXNAMELEN" "length (j_email j) < MAXNAMELEN"
    "j_flags j = j_flags j AND (JF_MAILNOTIFY OR JF_MNDIFEMAIL OR JF_JOBDEPEND OR JF_JOBDELETE)"
    using j unfolding copyable_def by blast+
  have e: "ename d' = j_name j" "ecmd d' = ecmd d" "esf d' = print_i (frame_start j)" "eef d' = print_i (frame_end j)"
    "estf d' = print_i (frame_step j)" "ebs d' = ebs d" "efp d' = dec (unat (frame_pad j))" "scan_u (epri d') = Some (uint (j_priority j))"
    "enmaxcpus d' = print_short (jl_nmaxcpus (limits j))" "enmaxcpuscomputer d' = print_short (jl_nmaxcpuscomputer (limits j))"
    "ememory d' = ememory d" "epool d' = epool d" "dnj_os_flags d' = dnj_os_flags d" "denvvars d' = denvvars d" "dkoj d' = fst (shown_kind d j)" "ekoji d' = snd (shown_kind d j)"
    using s unfolding shows_job_def by blast+
  obtain bs mem where n: "scan_u (ebs d) = Some bs" "scan_u (ememory d) = Some mem" using r unfolding ready_def by blast
  have cmd: "strncpy (MAXCMDLEN - 1) (ecmd d) \<noteq> []" using r by (simp add: ready_def strncpy_def max_defs)
  have fl: "dnj_flags d' x = x\<lparr>j_flags := j_flags j, j_email := (if j_flags j AND JF_MNDIFEMAIL \<noteq> 0 then j_email j else j_owner x),
      dependid := (if j_flags j AND JF_JOBDEPEND \<noteq> 0 then dependid j else 0)\<rparr>" if "length (j_owner x) < MAXNAMELEN" "dependid x = 0" for x
    by (rule dnj_flags_copies [OF jl(6,5) _ _ _ _ _ _ that]) (use s in \<open>unfold shows_job_def, blast\<close>)+
  have owner: "length (strncpy (MAXNAMELEN - Suc 0) t) < MAXNAMELEN" for t by (simp add: strncpy_def max_defs)
  have sh: "short_texts (ekoji d)" using r by (simp add: ready_def)
  note kind = shown_kind_ok [OF ok sh jl(2), folded e(15,16)]
  have zero: "dependid (job_init user zero_job) = 0" "koji (job_init user zero_job) = KojiGeneral []" by (simp_all add: job_init_def zero_job_def Let_def job_shared_frame_info_init_def job_shared_blocked_hosts_init_def)
  have reads: "dnj_koji d' x = Inr (x\<lparr>koji := read_koji (snd (shown_kind d j)), autoRequeue := (if fst (shown_kind d j) = KOJ_XSI then 0 else autoRequeue x)\<rparr>)"
    if "koji x = KojiGeneral []" for x using dnj_koji_reads [OF kind that] unfolding e .
  show ?thesis
    unfolding dnj_job_def Let_def e n scan_u_print_i scan_u_print_short scan_u_pad option.case prod.case text_kept(2) [OF jl(4)]
    using jl(3) cmd
    by (simp add: reads fl owner zero copied_job_def logged_in_def n short_back)
qed

lemma submits_described:
  assumes u: "sh_env (sd_host S) ''USER'' = Some user" and J: "dnj_job user (sd_login S) d = Inr (Some J)"
    and r: "register_job (sd_junk S) J c (sd_world S) = Inr (Inr J', cc)" and s: "\<not> submitstopped d"
  shows "dnj_submit (S\<lparr>sd_conns := [c]\<rparr>) d = Inr (True, Some (Inr J', cc), None, S\<lparr>sd_conns := []\<rparr>)"
  using assms by (simp add: dnj_submit_def getenv_def connect_def Let_def)

text \<open>C32. Copying a job and submitting the copy registers it again: whatever the user did to the dialog before - short of the buttons for
  mail, for waiting and for deletion, and of submitting stopped -, the dialog shows the job that was selected, the
  master stores it in its first free record with the frames, the priority, the limits on processors and the flags as they were, and the
  manager is given its new index.  The kind stays, with every field, for jobs of Maya, Mental Ray, Blender, Pixie, 3delight, Lightwave, Nuke,
  Terragen, Aqsis, Shake and XSI, and for those of Turtle without camera and size and of Luxrender without script (\<open>held\<close>).  Other jobs
  change: the camera and size of Turtle and the script of Luxrender are lost, a job of Mantra becomes one of Aqsis that is viewed with the
  render directory, a job of After Effects loses its fields, and a general job, or one of V-Ray or 3ds Max, takes the kind that the
  dialog had before, with what its entries hold.\<close>

theorem copied_job_is_registered:
  fixes j :: job and S :: sender and d :: dnj and user :: cstring
  defines "J \<equiv> copied_job user (sd_login S) d j"
  assumes d: "dialog_step\<^sup>*\<^sup>* (NewJobDialog login) d" "ready d" "\<not> submitstopped d" and j: "copyable j"
    and u: "sh_env (sd_host S) ''USER'' = Some user"
    and m: "length (jobs m) = MAXJOBS" "semid m = sem_free" "roomy m" "shm_ok (frame_shm m)" "generous (frame_shm m)"
    and i: "i < MAXJOBS" "j_used (jobs m ! i) = 0" "\<forall>k < i. j_used (jobs m ! k) \<noteq> 0"
    and e: "env_fits J (env_shm (sd_world S))"
    and n: "0 < unat (job_nframes (step_not_zero J))" "unat (job_nframes (step_not_zero J)) < 2147483648"
    and c: "rx c = wire_job J (env_shm (sd_world S))" "tx c = []" "2 \<le> tx_left c"
    and k: "length (wire_job J (env_shm (sd_world S))) < k"
  shows "\<exists>d' c' m' cc ev h. CopyJob_CloneInfo j d = Inr d' \<and> handle_r_r_regisjob c m = Inr (c', m') \<and>
    dnj_submit (S\<lparr>sd_conns := [Some (peer c' k)]\<rparr>) d' =
      Inr (True, Some (Inr (J\<lparr>j_id := of_nat i\<rparr>), Some cc), None, S\<lparr>sd_conns := []\<rparr>) \<and>
    tx cc = job_request (sd_junk S) # rx c \<and> jobs m' = (jobs m)[i := registered (of_nat i) J ev h (time32 m)] \<and>
    (held (koji j) \<longrightarrow> koj J = koj j \<and> koji J = koji j) \<and>
    (\<forall>s r p c x y q v. koji j = KojiTurtle s r p c x y q v \<longrightarrow> koj J = KOJ_TURTLE \<and> koji J = KojiTurtle s r p [] 0 0 q v) \<and>
    (\<forall>s f v. koji j = KojiLuxrender s f v \<longrightarrow> koj J = KOJ_LUXRENDER \<and> koji J = KojiLuxrender s [] v) \<and>
    (\<forall>s r v. koji j = KojiMantra s r v \<longrightarrow> koj J = KOJ_AQSIS \<and> koji J = KojiAqsis s r) \<and>
    (\<forall>p c v. koji j = KojiAftereffects p c v \<longrightarrow> koj J = KOJ_AFTEREFFECTS \<and> koji J = KojiGeneral []) \<and>
    (koj j \<in> {KOJ_GENERAL, 17, 18} \<longrightarrow> koj J = dkoj d \<and> koji J = read_koji (ekoji d))"
proof -
  have ok: "dialog_ok d" by (rule dialog_reached_ok [OF d(1) new_dialog_ok])
  have kinds: "koj J = fst (shown_kind d j)" "koji J = read_koji (snd (shown_kind d j))" by (simp_all add: J_def copied_job_def)
  have kept: "held (koji j) \<longrightarrow> koj J = koj j \<and> koji J = koji j"
    using held_kept [of "koji j"] j by (auto simp: kinds shown_kind_def copyable_def)
  have general: "koj j \<in> {KOJ_GENERAL, 17, 18} \<longrightarrow> koj J = dkoj d \<and> koji J = read_koji (ekoji d)"
    using j by (cases "koji j") (auto simp: kinds shown_kind_def copyable_def)
  obtain d' where d': "CopyJob_CloneInfo j d = Inr d'" "shows_job j d d'" using copy_shows [OF ok d(2) j] by blast
  have st: "\<not> submitstopped d'" using d' (2) d(3) by (simp add: shows_job_def)
  note job = shown_is_described [OF ok d'(2) d(2) j, of user "sd_login S"]
  obtain c' m' cc ev h where r: "handle_r_r_regisjob c m = Inr (c', m')"
    "register_job (sd_junk S) J (Some (peer c' k)) (sd_world S) = Inr (Inr (J\<lparr>j_id := of_nat i\<rparr>), Some cc)"
    "tx cc = job_request (sd_junk S) # rx c" "jobs m' = (jobs m)[i := registered (of_nat i) J ev h (time32 m)]"
    using register_roundtrip [OF m i e n c k] by blast
  show ?thesis
    by (intro exI [of _ d'] exI [of _ c'] exI [of _ m'] exI [of _ cc] exI [of _ ev] exI [of _ h] conjI)
      (use d'(1) r submits_described [OF u job [folded J_def] r(2) st] kept general in \<open>auto simp: kinds shown_kind_def\<close>)
qed

definition ball_job :: job where
  "ball_job = render_job\<lparr>koj := KOJ_BLENDER, koji := KojiBlender ''ball.blend'' ''display ball.jpg'', j_priority := 333, frame_pad := 4\<rparr>"

definition ada_dialog :: dnj where
  "ada_dialog = (NewJobDialog (Some ''ada''))\<lparr>ename := entry_text (MAXNAMELEN - 1) ''new'', ecmd := entry_text (MAXCMDLEN - 1) ''render.sh'',
     esf := ''1'', eef := ''100'', estf := ''1'', ebs := ''2'', efp := ''4'', edifemail := entry_text (MAXNAMELEN - 1) ''ada'', ejobdepend := []\<rparr>"

lemma ada_dialog_reached: "dialog_step\<^sup>*\<^sup>* (NewJobDialog (Some ''ada'')) ada_dialog"
  unfolding ada_dialog_def by (rule r_into_rtranclp) (rule type_texts)

lemma small_entries: "scan_u ''2'' = Some 2" "scan_u ''0'' = Some 0"
  by code_simp+

lemma ada_dialog_ready: "ready ada_dialog" "\<not> submitstopped ada_dialog" "ebs ada_dialog = ''2''" "denvvars ada_dialog = envvars_init"
  by (simp_all add: ready_def ada_dialog_def NewJobDialog_def short_texts_def small_entries entry_text_def max_defs)

lemma ball_job_copyable: "copyable ball_job"
  by (simp add: copyable_def short_texts_def ball_job_def render_job_def zero_job_def max_defs)

lemma copied_env: "j_envvars (copied_job user login d j) = denvvars d"
  by (simp add: copied_job_def)

lemma copied_nframes: "job_nframes (step_not_zero (copied_job user login ada_dialog ball_job)) = 2"
  by (simp add: job_nframes_def step_not_zero_def copied_job_def ada_dialog_ready small_entries)
    (simp add: ball_job_def render_job_def zero_job_def)

theorem copied_job_is_registered_witness:
  "\<exists>d' c' m' cc ev h. CopyJob_CloneInfo ball_job ada_dialog = Inr d' \<and>
    handle_r_r_regisjob \<lparr>rx = wire_job (copied_job ''ada'' None ada_dialog ball_job) shm_empty, tx = [], tx_left = 2\<rparr> example_master = Inr (c', m') \<and>
    dnj_submit (ada\<lparr>sd_conns := [Some (peer c' 5)]\<rparr>) d' =
      Inr (True, Some (Inr ((copied_job ''ada'' None ada_dialog ball_job)\<lparr>j_id := 1\<rparr>), Some cc), None, ada\<lparr>sd_conns := []\<rparr>) \<and>
    jobs m' ! 1 = registered 1 (copied_job ''ada'' None ada_dialog ball_job) ev h (time32 example_master)"
proof -
  let ?J = "copied_job ''ada'' None ada_dialog ball_job"
  have a: "sd_login ada = None" "sd_world ada = example_master" "sh_env (sd_host ada) ''USER'' = Some ''ada''" "env_shm example_master = shm_empty"
    by (simp_all add: ada_def ada_env_def example_master_def)
  have m: "length (jobs example_master) = MAXJOBS" "semid example_master = sem_free" "roomy example_master"
    "shm_ok (frame_shm example_master)" "generous (frame_shm example_master)" "1 < MAXJOBS" "j_used (jobs example_master ! 1) = 0"
    "\<forall>k < 1. j_used (jobs example_master ! k) \<noteq> 0"
    by (simp_all add: example_master_def roomy_def generous_def shm_empty_def shm_ok_def max_defs zero_job_def render_job_def)
  have ev: "j_envvars ?J = envvars_init" by (simp add: copied_env ada_dialog_ready)
  have e: "env_fits ?J shm_empty" using m(3) by (simp add: env_fits_def env_ok_def env_list_def ev envvars_init_def roomy_def a(4))
  have w: "length (wire_job ?J shm_empty) = 2" by (simp add: wire_described ev)
  let ?c = "\<lparr>rx = wire_job ?J shm_empty, tx = [], tx_left = 2\<rparr>"
  obtain d' c' m' cc ev h where r: "CopyJob_CloneInfo ball_job ada_dialog = Inr d'" "handle_r_r_regisjob ?c example_master = Inr (c', m')"
    "dnj_submit (ada\<lparr>sd_conns := [Some (peer c' 5)]\<rparr>) d' = Inr (True, Some (Inr (?J\<lparr>j_id := of_nat 1\<rparr>), Some cc), None, ada\<lparr>sd_conns := []\<rparr>)"
    "jobs m' = (jobs example_master)[1 := registered (of_nat 1) ?J ev h (time32 example_master)]"
    using copied_job_is_registered [OF ada_dialog_reached ada_dialog_ready(1,2) ball_job_copyable a(3) m, of ?c 5] e w
    unfolding a copied_nframes by auto
  show ?thesis
    by (intro exI [of _ d'] exI [of _ c'] exI [of _ m'] exI [of _ cc] exI [of _ ev] exI [of _ h]) (use r m(1,6) in simp)
qed

lemma ada_submits_stopped:
  "\<exists>d' j c stop S'. dialog_step\<^sup>*\<^sup>* (dnj_bsubmitstopped_pressed ada_dialog) d' \<and> dnj_submit ada d' = Inr (True, Some (Inr j, c), stop, S')"
proof -
  let ?d = "dnj_bsubmitstopped_pressed ada_dialog"
  let ?J = "copied_job ''ada'' None ?d ball_job"
  have "dialog_ok ada_dialog" by (rule dialog_reached_ok [OF ada_dialog_reached new_dialog_ok])
  then have ok: "dialog_ok ?d" by (rule dialog_step_ok [OF submit_stopped])
  have r: "ready ?d" using ada_dialog_ready(1) by (simp add: ready_def dnj_bsubmitstopped_pressed_def)
  obtain d' where d': "CopyJob_CloneInfo ball_job ?d = Inr d'" "shows_job ball_job ?d d'" using copy_shows [OF ok r ball_job_copyable] by blast
  have J: "dnj_job ''ada'' None d' = Inr (Some ?J)" by (rule shown_is_described [OF ok d'(2) r ball_job_copyable])
  have ev: "j_envvars ?J = envvars_init" by (simp add: copied_env ada_dialog_ready dnj_bsubmitstopped_pressed_def)
  have e: "env_fits ?J (env_shm example_master)" "length (wire_job ?J (env_shm example_master)) < 9"
    by (simp_all add: wire_described ev env_fits_def env_ok_def env_list_def envvars_init_def example_master_def)
  have "\<exists>j c stop S'. dnj_submit ada d' = Inr (True, Some (Inr j, c), stop, S')"
    using register_job_ok [OF e, of 7 1] J by (simp add: dnj_submit_def connect_def ada_def Let_def getenv_def ada_env_def)
  with copy_job [OF d'(1)] show ?thesis by blast
qed

theorem submit_stopped_sticks_witness:
  "\<exists>d' j c sfd S'. dialog_step\<^sup>*\<^sup>* (dnj_bsubmitstopped_pressed ada_dialog) d' \<and>
     dnj_submit ada d' = Inr (True, Some (Inr j, c), Some (request_job_hstop (j_id j) CLIENT sfd), S')"
  using ada_submits_stopped submit_stopped_sticks by (elim exE conjE) blast

section \<open>Mantra\<close>

text \<open>A copy of a Mantra job is a job for Aqsis, and what it is viewed with is the render directory.\<close>

lemma mantra_copy:
  assumes "koj j = KOJ_MANTRA" "koji j = KojiMantra s r v" "koj_of_name (ckoj d) = Some (dkoj d)" "clone_koji j d = Inr d'"
  shows "dkoj d' = KOJ_AQSIS" "ekoji d' = KojiAqsis (koji_text s) (koji_text r)"
proof -
  have "koj_of_name (ckoj (set_koj ''Mantra'' d)) = Some (dkoj (set_koj ''Mantra'' d))"
    using set_koj_known(2,3) [OF assms(3) koj_names(5)] by (simp add: koj_names)
  then have "dkoj (set_koj ''Aqsis'' (set_koj ''Mantra'' d)) = KOJ_AQSIS" by (rule set_koj_known(3)) (rule koj_names(6))
  then show "dkoj d' = KOJ_AQSIS" "ekoji d' = KojiAqsis (koji_text s) (koji_text r)"
    using assms(1,2,4) by (auto simp: clone_koji_def Let_def)
qed

end
