(* ===== verification/Logs.thy ===== *)
theory Logs
  imports Commands
begin

text \<open>
  The log files (\<open>logger.c\<close>): the log of the master and of each slave with their messages, and the log of each frame, which
  takes what the command of the task prints and which the manager shows.  The files are on a disk that all
  machines share.
\<close>

unbundle bit_operations_syntax

section \<open>The machine\<close>

text \<open>
  A descriptor is the path it was opened with.  The answers to the requests that a function sends come over the
  connections that \<open>connect_to_master\<close> makes, in their order.  \<open>lh_stderr\<close> has the lines that were written to the standard error.
\<close>

record log_host =
  lh_env :: environ
  lh_files :: "cstring \<rightharpoonup> cstring"
  lh_dirs :: "cstring \<Rightarrow> bool"
  lh_allows :: "cstring \<Rightarrow> bool"
  lh_conns :: "conn option list"
  lh_name :: "cstring option"
  lh_ctime :: cstring
  lh_pid :: nat
  lh_stderr :: "cstring list"

definition lh_connect :: "log_host \<Rightarrow> conn option \<times> log_host" where
  "lh_connect w = (case lh_conns w of [] \<Rightarrow> (None, w) | c # cs \<Rightarrow> (c, w\<lparr>lh_conns := cs\<rparr>))"

text \<open>A path without its last part; a file can be made in a directory that exists.\<close>

definition dirname :: "cstring \<Rightarrow> cstring" where
  "dirname p = rev (tl (dropWhile (\<lambda>c. c \<noteq> CHR ''/'') (rev p)))"

definition appendable :: "log_host \<Rightarrow> cstring \<Rightarrow> bool" where
  "appendable w p \<longleftrightarrow> lh_allows w p \<and> \<not> lh_dirs w p \<and> (lh_files w p \<noteq> None \<or> lh_dirs w (dirname p))"

definition append_file :: "cstring \<Rightarrow> cstring \<Rightarrow> log_host \<Rightarrow> log_host" where
  "append_file p s w = w\<lparr>lh_files := (lh_files w)(p \<mapsto> (case lh_files w p of None \<Rightarrow> [] | Some t \<Rightarrow> t) @ s)\<rparr>"

text \<open>\<open>%0nu\<close>\<close>

definition print_0u :: "nat \<Rightarrow> u32 \<Rightarrow> cstring" where
  "print_0u n x = (let s = dec (unat x) in replicate (n - length s) (CHR ''0'') @ s)"

section \<open>The log of a frame\<close>

definition log_job_path_get :: "u32 \<Rightarrow> nat \<Rightarrow> log_host \<Rightarrow> cstring option \<times> log_host" where
  "log_job_path_get jobid pathlen w =
     (case lh_env w ''DRQUEUE_LOGS'' of None \<Rightarrow> (None, w)
      | Some log_basedir \<Rightarrow>
          let (sfd, w) = lh_connect w
          in case fst (request_job_name jobid CLIENT sfd) of
              Inl _ \<Rightarrow> (None, w)
            | Inr jobname \<Rightarrow>
                let path = log_basedir @ ''/'' @ print_0u 3 jobid @ ''.'' @ jobname
                in (if length path \<ge> pathlen then None else Some path, w))"

definition log_task_filename_get :: "task \<Rightarrow> nat \<Rightarrow> log_host \<Rightarrow> cstring option \<times> log_host" where
  "log_task_filename_get t pathlen w =
     (case log_job_path_get (t_ijob t) PATH_MAX w of
        (None, w) \<Rightarrow> (None, w)
      | (Some job_path, w) \<Rightarrow>
          let path = job_path @ ''/'' @ t_jobname t @ ''.'' @ print_0u 4 (t_frame t)
          in (if length path \<ge> pathlen then None else Some path, w))"

definition log_path_exists :: "cstring \<Rightarrow> log_host \<Rightarrow> bool" where
  "log_path_exists path w \<longleftrightarrow> lh_dirs w path \<or> lh_files w path \<noteq> None"

definition log_path_create :: "cstring \<Rightarrow> log_host \<Rightarrow> bool \<times> log_host" where
  "log_path_create path w =
     (if lh_allows w path \<and> \<not> log_path_exists path w \<and> lh_dirs w (dirname path) then (True, w\<lparr>lh_dirs := (lh_dirs w)(path := True)\<rparr>)
      else (False, w))"

text \<open>The names that are used when the real ones are not to be had.\<close>

definition default_job_path :: "cstring \<Rightarrow> task \<Rightarrow> cstring" where
  "default_job_path basedir t = snprintf PATH_MAX (basedir @ ''/'' @ print_0u 3 (t_ijob t) @ ''.'' @ t_jobname t @ ''.DEFAULT'')"

definition default_task_path :: "cstring \<Rightarrow> task \<Rightarrow> cstring" where
  "default_task_path job_path t = snprintf PATH_MAX (job_path @ ''/'' @ t_jobname t @ ''.'' @ print_0i 4 (t_frame t) @ ''.DEFAULT'')"

definition log_heading :: "log_host \<Rightarrow> cstring \<Rightarrow> cstring \<Rightarrow> cstring" where
  "log_heading w hostname task_filename = snprintf BUFFERLEN (''Log started at '' @ lh_ctime w @ ''Computer: '' @ hostname @ nl @
     ''Log filename: '' @ task_filename @ nl @ nl)"

text \<open>The name of a machine that cannot be found out is what was in the memory of the buffer.\<close>

definition log_dumptask_open :: "task \<Rightarrow> log_host \<Rightarrow> fault + cstring option \<times> log_host" where
  "log_dumptask_open t w =
     (let (job_path, w) = log_job_path_get (t_ijob t) PATH_MAX w
      in case (case job_path of Some p \<Rightarrow> Some p | None \<Rightarrow> map_option (\<lambda>basedir. default_job_path basedir t) (lh_env w ''DRQUEUE_LOGS'')) of
          None \<Rightarrow> Inr (None, w)
        | Some job_path \<Rightarrow>
            let (found, w) = (if log_path_exists job_path w then (True, w) else log_path_create job_path w)
            in if \<not> found then Inr (None, w)
               else
                 let (filename, w) = log_task_filename_get t PATH_MAX w;
                     task_filename = (case filename of Some f \<Rightarrow> f | None \<Rightarrow> default_task_path job_path t)
                 in if \<not> appendable w task_filename then Inr (None, w)
                    else (case lh_name w of None \<Rightarrow> Inl WildPointer
                      | Some hostname \<Rightarrow> Inr (Some task_filename, append_file task_filename (log_heading w hostname task_filename) w)))"

definition log_dumptask_open_ro :: "task \<Rightarrow> log_host \<Rightarrow> cstring option \<times> log_host" where
  "log_dumptask_open_ro t w =
     (let (filename, w) = log_task_filename_get t PATH_MAX w
      in case filename of
          Some f \<Rightarrow> (if lh_files w f = None then None else Some f, w)
        | None \<Rightarrow>
            let (job_path, w) = log_job_path_get (t_ijob t) PATH_MAX w
            in case (case job_path of Some p \<Rightarrow> Some p | None \<Rightarrow> map_option (\<lambda>basedir. default_job_path basedir t) (lh_env w ''DRQUEUE_LOGS'')) of
                None \<Rightarrow> (None, w)
              | Some job_path \<Rightarrow>
                  let f = default_task_path job_path t in (if lh_files w f = None then None else Some f, w))"


section \<open>Which file is whose\<close>

text \<open>What the master says to a question for the name of a job.\<close>

definition told :: "u32 \<Rightarrow> conn option \<Rightarrow> cstring option" where
  "told i c = (case fst (request_job_name i CLIENT c) of Inl _ \<Rightarrow> None | Inr n \<Rightarrow> Some n)"

definition job_path_of :: "cstring \<Rightarrow> cstring option \<Rightarrow> u32 \<Rightarrow> cstring option" where
  "job_path_of basedir r i = (case r of None \<Rightarrow> None
     | Some name \<Rightarrow> let p = basedir @ ''/'' @ print_0u 3 i @ ''.'' @ name in if length p \<ge> PATH_MAX then None else Some p)"

definition task_path_of :: "cstring option \<Rightarrow> task \<Rightarrow> cstring option" where
  "task_path_of j t = (case j of None \<Rightarrow> None
     | Some job_path \<Rightarrow> let p = job_path @ ''/'' @ t_jobname t @ ''.'' @ print_0u 4 (t_frame t) in if length p \<ge> PATH_MAX then None else Some p)"

text \<open>The file for a frame, when every question for the name of the job has the answer \<open>r\<close>.\<close>

definition frame_log :: "cstring \<Rightarrow> cstring option \<Rightarrow> task \<Rightarrow> cstring" where
  "frame_log basedir r t = (let j = job_path_of basedir r (t_ijob t) in
     case task_path_of j t of Some f \<Rightarrow> f
     | None \<Rightarrow> default_task_path (case j of Some p \<Rightarrow> p | None \<Rightarrow> default_job_path basedir t) t)"

lemma job_path_told:
  assumes "lh_env w ''DRQUEUE_LOGS'' = Some b" "lh_conns w = c # cs"
  shows "log_job_path_get i PATH_MAX w = (job_path_of b (told i c) i, w\<lparr>lh_conns := cs\<rparr>)"
  using assms by (simp add: log_job_path_get_def lh_connect_def told_def job_path_of_def Let_def split: sum.splits)

lemma task_path_told:
  assumes "lh_env w ''DRQUEUE_LOGS'' = Some b" "lh_conns w = c # cs"
  shows "log_task_filename_get t PATH_MAX w = (task_path_of (job_path_of b (told (t_ijob t) c) (t_ijob t)) t, w\<lparr>lh_conns := cs\<rparr>)"
  using job_path_told [OF assms, of "t_ijob t"]
  by (simp add: log_task_filename_get_def task_path_of_def Let_def split: option.splits)

text \<open>The next two questions for the name of a job.\<close>

definition answered :: "u32 \<Rightarrow> cstring option \<Rightarrow> log_host \<Rightarrow> bool" where
  "answered i r w \<longleftrightarrow> (\<exists>c1 c2 cs. lh_conns w = c1 # c2 # cs \<and> told i c1 = r \<and> told i c2 = r)"

lemma path_create_keeps: "lh_env (snd (log_path_create p w)) = lh_env w" "lh_conns (snd (log_path_create p w)) = lh_conns w"
  "lh_files (snd (log_path_create p w)) = lh_files w" "lh_name (snd (log_path_create p w)) = lh_name w" "lh_ctime (snd (log_path_create p w)) = lh_ctime w"
  by (simp_all add: log_path_create_def)

lemma dumptask_writes:
  assumes "log_dumptask_open t w = Inr (Some p, w')" "answered (t_ijob t) r w" "lh_env w ''DRQUEUE_LOGS'' = Some b"
  shows "p = frame_log b r t \<and> (\<exists>host. lh_name w = Some host \<and>
    lh_files w' = (lh_files w)(p \<mapsto> (case lh_files w p of None \<Rightarrow> [] | Some s \<Rightarrow> s) @ log_heading w host p))"
proof -
  obtain c1 c2 cs where c: "lh_conns w = c1 # c2 # cs" "told (t_ijob t) c1 = r" "told (t_ijob t) c2 = r"
    using assms(2) by (auto simp: answered_def)
  define jo where "jo = job_path_of b r (t_ijob t)"
  define jp where "jp = (case jo of Some p \<Rightarrow> p | None \<Rightarrow> default_job_path b t)"
  define w1 where "w1 = w\<lparr>lh_conns := c2 # cs\<rparr>"
  have j: "log_job_path_get (t_ijob t) PATH_MAX w = (jo, w1)" using job_path_told [OF assms(3) c(1)] c(2) by (simp add: jo_def w1_def)
  have jp: "(case jo of Some p \<Rightarrow> Some p | None \<Rightarrow> map_option (\<lambda>basedir. default_job_path basedir t) (lh_env w1 ''DRQUEUE_LOGS'')) = Some jp"
    using assms(3) by (simp add: jp_def w1_def split: option.splits)
  define w2 where "w2 = snd (if log_path_exists jp w1 then (True, w1) else log_path_create jp w1)"
  have w2: "lh_env w2 ''DRQUEUE_LOGS'' = Some b" "lh_conns w2 = c2 # cs" "lh_files w2 = lh_files w" "lh_name w2 = lh_name w" "lh_ctime w2 = lh_ctime w"
    using assms(3) by (simp_all add: w2_def w1_def path_create_keeps)
  have f: "log_task_filename_get t PATH_MAX w2 = (task_path_of jo t, w2\<lparr>lh_conns := cs\<rparr>)" using task_path_told [OF w2(1,2)] c(3) by (simp add: jo_def)
  have fl: "(case task_path_of jo t of Some f \<Rightarrow> f | None \<Rightarrow> default_task_path jp t) = frame_log b r t" unfolding frame_log_def jp_def jo_def Let_def ..
  define found where "found = fst (if log_path_exists jp w1 then (True, w1) else log_path_create jp w1)"
  have ex: "(if log_path_exists jp w1 then (True, w1) else log_path_create jp w1) = (found, w2)"
    unfolding found_def w2_def by (rule prod.collapse [symmetric])
  define fr where "fr = frame_log b r t"
  have "(if \<not> found then Inr (None, w2) else if \<not> appendable (w2\<lparr>lh_conns := cs\<rparr>) fr then Inr (None, w2\<lparr>lh_conns := cs\<rparr>)
      else case lh_name (w2\<lparr>lh_conns := cs\<rparr>) of None \<Rightarrow> Inl WildPointer
        | Some hostname \<Rightarrow> Inr (Some fr, append_file fr (log_heading (w2\<lparr>lh_conns := cs\<rparr>) hostname fr) (w2\<lparr>lh_conns := cs\<rparr>))) = Inr (Some p, w')"
    using assms(1) unfolding log_dumptask_open_def j Let_def prod.case jp option.case ex f fl fr_def .
  note opened = this
  have fo: "found" using opened by (cases found) auto
  have ap: "appendable (w2\<lparr>lh_conns := cs\<rparr>) fr" using opened fo by (cases "appendable (w2\<lparr>lh_conns := cs\<rparr>) fr") auto
  obtain host where h: "lh_name (w2\<lparr>lh_conns := cs\<rparr>) = Some host" using opened fo ap by (cases "lh_name (w2\<lparr>lh_conns := cs\<rparr>)") auto
  have r: "p = fr \<and> w' = append_file fr (log_heading (w2\<lparr>lh_conns := cs\<rparr>) host fr) (w2\<lparr>lh_conns := cs\<rparr>)"
    using opened unfolding h option.case by (simp only: fo ap not_True_eq_False if_False if_True simp_thms sum.inject prod.inject option.inject) (elim conjE, simp)
  then show ?thesis unfolding fr_def [symmetric] using h by (simp add: append_file_def w2 log_heading_def)
qed

lemma dumptask_reads:
  assumes "answered (t_ijob t) r v" "lh_env v ''DRQUEUE_LOGS'' = Some b" "lh_files v (frame_log b r t) \<noteq> None"
  shows "fst (log_dumptask_open_ro t v) = Some (frame_log b r t)"
proof -
  obtain c1 c2 cs where c: "lh_conns v = c1 # c2 # cs" "told (t_ijob t) c1 = r" "told (t_ijob t) c2 = r"
    using assms(1) by (auto simp: answered_def)
  define jo where "jo = job_path_of b r (t_ijob t)"
  define w1 where "w1 = v\<lparr>lh_conns := c2 # cs\<rparr>"
  have f: "log_task_filename_get t PATH_MAX v = (task_path_of jo t, w1)" using task_path_told [OF assms(2) c(1)] c(2) by (simp add: jo_def w1_def)
  have j: "log_job_path_get (t_ijob t) PATH_MAX w1 = (jo, w1\<lparr>lh_conns := cs\<rparr>)" using job_path_told [of w1 b c2 cs] assms(2) c(3) by (simp add: jo_def w1_def)
  define jp where "jp = (case jo of Some p \<Rightarrow> p | None \<Rightarrow> default_job_path b t)"
  have jp: "(case jo of Some p \<Rightarrow> Some p | None \<Rightarrow> map_option (\<lambda>basedir. default_job_path basedir t) (lh_env (w1\<lparr>lh_conns := cs\<rparr>) ''DRQUEUE_LOGS'')) = Some jp"
    using assms(2) by (simp add: jp_def w1_def split: option.splits)
  have fl: "(case task_path_of jo t of Some f \<Rightarrow> f | None \<Rightarrow> default_task_path jp t) = frame_log b r t" unfolding frame_log_def jp_def jo_def Let_def ..
  have v: "lh_files w1 = lh_files v" by (simp add: w1_def)
  show ?thesis
  proof (cases "task_path_of jo t")
    case None
    then have "default_task_path jp t = frame_log b r t" using fl by simp
    then show ?thesis using assms(3) unfolding log_dumptask_open_ro_def Let_def f prod.case None option.case j jp by (simp add: v)
  next
    case (Some q)
    then have "q = frame_log b r t" using fl by simp
    then show ?thesis using assms(3) unfolding log_dumptask_open_ro_def Let_def f prod.case Some option.case by (simp add: v)
  qed
qed

text \<open>C34. The manager shows what the slave wrote: when the questions for the name of the job have the same answer - or none - on
  both sides, the file in which a slave collects the output of a task starts, or goes on, with a heading that names the machine and
  the file, no other file changes, and it is the file that the manager opens for that frame.\<close>

theorem frame_log_found:
  assumes w: "log_dumptask_open t w = Inr (Some p, w')" "answered (t_ijob t) r w" "lh_env w ''DRQUEUE_LOGS'' = Some b"
    and v: "answered (t_ijob t) r v" "lh_env v ''DRQUEUE_LOGS'' = Some b" "lh_files v = (lh_files w')(p \<mapsto> s)"
  shows "fst (log_dumptask_open_ro t v) = Some p \<and> (\<forall>q. q \<noteq> p \<longrightarrow> lh_files w' q = lh_files w q) \<and>
    (\<exists>host. lh_name w = Some host \<and> lh_files w' p = Some ((case lh_files w p of None \<Rightarrow> [] | Some s \<Rightarrow> s) @ log_heading w host p))"
proof -
  have p: "p = frame_log b r t" using dumptask_writes [OF w] by blast
  have "fst (log_dumptask_open_ro t v) = Some p" unfolding p by (rule dumptask_reads [OF v(1,2)]) (simp add: v(3) p)
  with dumptask_writes [OF w] show ?thesis by auto
qed


section \<open>Whose log a file is\<close>

text \<open>The path of the log of a frame fits its buffers, whatever the numbers are.\<close>

definition job_dir :: "cstring option \<Rightarrow> task \<Rightarrow> cstring" where
  "job_dir r t = (case r of None \<Rightarrow> t_jobname t @ ''.DEFAULT'' | Some name \<Rightarrow> name)"

definition log_ext :: "cstring option \<Rightarrow> cstring" where
  "log_ext r = (case r of None \<Rightarrow> ''.DEFAULT'' | Some _ \<Rightarrow> [])"

definition log_fits :: "cstring \<Rightarrow> cstring option \<Rightarrow> task \<Rightarrow> bool" where
  "log_fits b r t \<longleftrightarrow> length b + length (job_dir r t) + length (t_jobname t) + 40 < PATH_MAX"

lemma length_print_0u: "n \<le> 10 \<Longrightarrow> length (print_0u n w) \<le> 10"
  using length_print_u [of w] by (simp add: print_0u_def print_u_def Let_def)

lemma print_0u_read: "read_dec (print_0u n w) = unat w"
  by (simp add: print_0u_def Let_def)

lemma print_0u_digit: "c \<in> set (print_0u n w) \<Longrightarrow> is_digit c"
proof -
  have "is_digit (CHR ''0'')" by (simp add: is_digit_def)
  moreover assume "c \<in> set (print_0u n w)"
  ultimately show ?thesis using dec_char [of c "unat w"] unfolding print_0u_def Let_def set_append set_replicate_conv_if by (auto split: if_splits)
qed

lemma print_0u_not_Nil [simp]: "print_0u n w \<noteq> []"
  by (simp add: print_0u_def Let_def)

lemma print_0i_0u: "unat f < 2147483648 \<Longrightarrow> print_0i 4 f = print_0u 4 f"
  by (simp add: print_0i_def print_0u_def sint_small Let_def)

lemma frame_log_path:
  assumes "log_fits b r t" "unat (t_frame t) < 2147483648"
  shows "frame_log b r t = b @ ''/'' @ print_0u 3 (t_ijob t) @ ''.'' @ job_dir r t @ ''/'' @ t_jobname t @ ''.'' @ print_0u 4 (t_frame t) @ log_ext r"
proof -
  have n: "length (print_0u 3 (t_ijob t)) \<le> 10" "length (print_0u 4 (t_frame t)) \<le> 10" by (rule length_print_0u, simp)+
  show ?thesis
  proof (cases r)
    case None
    have d: "default_job_path b t = b @ ''/'' @ print_0u 3 (t_ijob t) @ ''.'' @ t_jobname t @ ''.DEFAULT''"
      unfolding default_job_path_def by (rule snprintf_short) (use assms(1) n None in \<open>simp add: log_fits_def job_dir_def\<close>)
    have "default_task_path (default_job_path b t) t = default_job_path b t @ ''/'' @ t_jobname t @ ''.'' @ print_0i 4 (t_frame t) @ ''.DEFAULT''"
      unfolding default_task_path_def
      by (rule snprintf_short) (use assms n None in \<open>simp add: log_fits_def job_dir_def d print_0i_0u\<close>)
    then show ?thesis using assms(2) unfolding frame_log_def job_path_of_def task_path_of_def None Let_def option.case
      by (simp add: d print_0i_0u log_ext_def job_dir_def)
  next
    case (Some name)
    have f: "\<not> length (b @ ''/'' @ print_0u 3 (t_ijob t) @ ''.'' @ name) \<ge> PATH_MAX"
        "\<not> length ((b @ ''/'' @ print_0u 3 (t_ijob t) @ ''.'' @ name) @ ''/'' @ t_jobname t @ ''.'' @ print_0u 4 (t_frame t)) \<ge> PATH_MAX"
      using assms(1) n Some by (simp_all add: log_fits_def job_dir_def)
    show ?thesis unfolding frame_log_def job_path_of_def task_path_of_def Some Let_def option.case if_not_P [OF f(1)] if_not_P [OF f(2)]
      by (simp add: log_ext_def job_dir_def)
  qed
qed

lemma first_part: "a @ CHR ''.'' # x = a' @ CHR ''.'' # x' \<Longrightarrow> CHR ''.'' \<notin> set a \<Longrightarrow> CHR ''.'' \<notin> set a' \<Longrightarrow> a = a' \<and> x = x'"
  by (metis split_at_found option.inject prod.inject)

lemma last_part:
  assumes "y @ CHR ''.'' # f = y' @ CHR ''.'' # f'" "CHR ''.'' \<notin> set f" "CHR ''.'' \<notin> set f'"
  shows "f = f'"
proof -
  have "rev f @ CHR ''.'' # rev y = rev f' @ CHR ''.'' # rev y'" using arg_cong [OF assms(1), of rev] by simp
  from first_part [OF this] assms(2,3) have "rev f = rev f'" by simp
  then show ?thesis by simp
qed

lemma dot_not_digit: "CHR ''.'' \<notin> set (print_0u n w)"
  using print_0u_digit [of "CHR ''.''"] by (auto simp: is_digit_def)

lemma log_ext_same:
  assumes "x @ print_0u n w @ log_ext r = x' @ print_0u n' w' @ log_ext r'"
  shows "log_ext r = log_ext r'"
proof -
  have l: "last (x @ print_0u n w @ log_ext r) = (if r = None then CHR ''T'' else last (print_0u n w))" for x n w r
    by (cases r) (simp_all add: log_ext_def)
  have t: "\<not> is_digit (CHR ''T'')" by (simp add: is_digit_def)
  have "is_digit (last (print_0u n w))" for n and w :: u32 by (rule print_0u_digit, rule last_in_set) simp
  with t have "last (print_0u n w) \<noteq> CHR ''T''" for n and w :: u32 by metis
  then have "r = None \<longleftrightarrow> r' = None" using arg_cong [OF assms, of last] unfolding l by (auto split: if_splits)
  then show ?thesis by (cases r; cases r') (simp_all add: log_ext_def)
qed

lemma frame_log_apart:
  assumes "log_fits b r t" "log_fits b r' t'" "unat (t_frame t) < 2147483648" "unat (t_frame t') < 2147483648"
    and "frame_log b r t = frame_log b r' t'"
  shows "t_ijob t = t_ijob t' \<and> t_frame t = t_frame t'"
proof -
  have e: "b @ ''/'' @ print_0u 3 (t_ijob t) @ ''.'' @ job_dir r t @ ''/'' @ t_jobname t @ ''.'' @ print_0u 4 (t_frame t) @ log_ext r =
      b @ ''/'' @ print_0u 3 (t_ijob t') @ ''.'' @ job_dir r' t' @ ''/'' @ t_jobname t' @ ''.'' @ print_0u 4 (t_frame t') @ log_ext r'"
    using assms(5) unfolding frame_log_path [OF assms(1,3)] frame_log_path [OF assms(2,4)] .
  then have "print_0u 3 (t_ijob t) = print_0u 3 (t_ijob t')"
    using first_part [OF _ dot_not_digit dot_not_digit] by simp
  moreover have x: "log_ext r = log_ext r'"
    by (rule log_ext_same [of "b @ ''/'' @ print_0u 3 (t_ijob t) @ ''.'' @ job_dir r t @ ''/'' @ t_jobname t @ ''.''" 4 "t_frame t" _
          "b @ ''/'' @ print_0u 3 (t_ijob t') @ ''.'' @ job_dir r' t' @ ''/'' @ t_jobname t' @ ''.''" 4 "t_frame t'"]) (use e in simp)
  have "print_0u 4 (t_frame t) = print_0u 4 (t_frame t')"
    by (rule last_part [of "b @ ''/'' @ print_0u 3 (t_ijob t) @ ''.'' @ job_dir r t @ ''/'' @ t_jobname t" _
          "b @ ''/'' @ print_0u 3 (t_ijob t') @ ''.'' @ job_dir r' t' @ ''/'' @ t_jobname t'", OF _ dot_not_digit dot_not_digit])
      (use e x in simp)
  ultimately show ?thesis by (metis print_0u_read word_unat_eq_iff)
qed

text \<open>No two frames share a log: whatever names the jobs have, and whether the master told them or not, the files that slaves open
  for two tasks are the same only if the tasks are of the same frame of a job of the same number - as long as the paths fit, the logs are in one
  directory, and the frames are numbers that \<open>%i\<close> prints without a sign.\<close>

theorem frame_logs_apart:
  assumes "log_dumptask_open t w = Inr (Some p, w')" "answered (t_ijob t) r w" "lh_env w ''DRQUEUE_LOGS'' = Some b"
    and "log_dumptask_open t2 v = Inr (Some p, v')" "answered (t_ijob t2) r2 v" "lh_env v ''DRQUEUE_LOGS'' = Some b"
    and "log_fits b r t" "log_fits b r2 t2" "unat (t_frame t) < 2147483648" "unat (t_frame t2) < 2147483648"
  shows "t_ijob t = t_ijob t2 \<and> t_frame t = t_frame t2"
  using dumptask_writes [OF assms(1-3)] dumptask_writes [OF assms(4-6)] by (intro frame_log_apart [OF assms(7-10)]) simp

section \<open>Levels\<close>

definition L_ERROR :: u32 where "L_ERROR = 0"
definition L_WARNING :: u32 where "L_WARNING = 1"
definition L_INFO :: u32 where "L_INFO = 2"
definition L_DEBUG :: u32 where "L_DEBUG = 3"
definition L_DEBUG2 :: u32 where "L_DEBUG2 = 4"
definition L_DEBUG3 :: u32 where "L_DEBUG3 = 5"
definition L_LEVELMASK :: u32 where "L_LEVELMASK = 0x00ff"
definition L_OUTMASK :: u32 where "L_OUTMASK = 0xff00"
definition L_ONSCREEN :: u32 where "L_ONSCREEN = push_bit 8 1"

abbreviation MAXLOGLINELEN :: nat where "MAXLOGLINELEN \<equiv> 16384"
abbreviation MAX_MASTER_LOG_SIZE :: nat where "MAX_MASTER_LOG_SIZE \<equiv> 10 * 1024 * 1024"
abbreviation MAX_SLAVE_LOG_SIZE :: nat where "MAX_SLAVE_LOG_SIZE \<equiv> 10 * 1024 * 1024"

datatype logtooltype = DRQ_LOG_TOOL_UNKNOWN | DRQ_LOG_TOOL_MASTER | DRQ_LOG_TOOL_SLAVE | DRQ_LOG_TOOL_SLAVE_TASK

text \<open>The variables of the logger.  What the three pointers lead to is taken with them; nothing changes it while a message is logged.\<close>

record logger =
  loglevel :: u32
  logtool :: logtooltype
  logger_job :: "job option"
  logger_computer :: "computer option"
  logger_task :: "task option"

definition log_on_screen :: "logger \<Rightarrow> bool" where
  "log_on_screen g \<longleftrightarrow> (L_OUTMASK AND loglevel g) AND L_ONSCREEN \<noteq> 0"

definition log_level_dest :: "u32 \<Rightarrow> logger \<Rightarrow> bool" where
  "log_level_dest level g \<longleftrightarrow> \<not> loglevel g AND L_LEVELMASK <s level AND L_LEVELMASK"

definition log_level_severity_set :: "u32 \<Rightarrow> logger \<Rightarrow> logger" where
  "log_level_severity_set severity g = g\<lparr>loglevel := (loglevel g AND L_OUTMASK) OR (severity AND L_LEVELMASK)\<rparr>"

definition log_level_out_set :: "u32 \<Rightarrow> logger \<Rightarrow> logger" where
  "log_level_out_set outlevel g = g\<lparr>loglevel := (loglevel g AND L_LEVELMASK) OR (outlevel AND L_OUTMASK)\<rparr>"

definition log_level_str :: "u32 \<Rightarrow> cstring" where
  "log_level_str level = (let l = level AND L_LEVELMASK in
     if l = L_ERROR then ''ERROR'' else if l = L_WARNING then ''Warning'' else if l = L_INFO then ''Info''
     else if l = L_DEBUG then ''Debug'' else if l = L_DEBUG2 then ''Debug2'' else if l = L_DEBUG3 then ''Debug3'' else ''UNKNOWN'')"

section \<open>The file of a message\<close>

datatype stream = Stderr | LogFile cstring

definition unlink_log :: "cstring \<Rightarrow> log_host \<Rightarrow> log_host" where
  "unlink_log p w = (if lh_allows w p \<and> lh_files w p \<noteq> None then w\<lparr>lh_files := (lh_files w)(p := None)\<rparr> else w)"

definition rename_log :: "cstring \<Rightarrow> cstring \<Rightarrow> log_host \<Rightarrow> log_host" where
  "rename_log p q w = (if lh_files w p \<noteq> None \<and> lh_allows w p \<and> lh_allows w q \<and> \<not> lh_dirs w q \<and> p \<noteq> q
     then w\<lparr>lh_files := (lh_files w)(q := lh_files w p, p := None)\<rparr> else w)"

definition rotate_log :: "nat \<Rightarrow> cstring \<Rightarrow> cstring \<Rightarrow> log_host \<Rightarrow> log_host" where
  "rotate_log most filename oldfilename w = (case lh_files w filename of None \<Rightarrow> w
     | Some s \<Rightarrow> if length s > most then rename_log filename oldfilename (unlink_log oldfilename w) else w)"

definition log_master_open :: "logger \<Rightarrow> log_host \<Rightarrow> stream \<times> logger \<times> log_host" where
  "log_master_open g w =
     (if log_on_screen g then (Stderr, g, w)
      else case lh_env w ''DRQUEUE_LOGS'' of None \<Rightarrow> (Stderr, log_level_out_set L_ONSCREEN g, w)
      | Some basedir \<Rightarrow>
          let filename = snprintf (BUFFERLEN - 1) (basedir @ ''/master.log'');
              oldfilename = snprintf (BUFFERLEN - 1) (basedir @ ''/master.1.log'');
              w = rotate_log MAX_MASTER_LOG_SIZE filename oldfilename w
          in if appendable w filename then (LogFile filename, g, w) else (Stderr, log_level_out_set L_ONSCREEN g, w))"

definition log_slave_open_computer :: "cstring \<Rightarrow> logger \<Rightarrow> log_host \<Rightarrow> stream \<times> logger \<times> log_host" where
  "log_slave_open_computer name g w =
     (if log_on_screen g then (Stderr, g, w)
      else case lh_env w ''DRQUEUE_LOGS'' of None \<Rightarrow> (Stderr, log_level_out_set L_ONSCREEN g, w)
      | Some basedir \<Rightarrow>
          let filename = snprintf (BUFFERLEN - 1) (basedir @ ''/'' @ name @ ''.log'');
              oldfilename = snprintf (BUFFERLEN - 1) (basedir @ ''/'' @ name @ ''.1.log'');
              w = rotate_log MAX_SLAVE_LOG_SIZE filename oldfilename w
          in if appendable w filename then (LogFile filename, g, w) else (Stderr, log_level_out_set L_ONSCREEN g, w))"

text \<open>
  The function that finds the name of the file returns \<open>-1\<close> when it fails, and the test is for \<open>0\<close>: then the name is
  whatever was in the memory of the buffer.  The messages that the question for the name of the job logs on its way are left out.
\<close>

definition log_slave_open_task :: "task \<Rightarrow> logger \<Rightarrow> log_host \<Rightarrow> fault + stream \<times> logger \<times> log_host" where
  "log_slave_open_task t g w =
     (if log_on_screen g then Inr (Stderr, g, w)
      else case log_task_filename_get t PATH_MAX w of
          (None, _) \<Rightarrow> Inl WildPointer
        | (Some filename, w) \<Rightarrow> Inr (if appendable w filename then LogFile filename else Stderr, g, w))"

definition log_stream :: "logger \<Rightarrow> log_host \<Rightarrow> fault + stream \<times> logger \<times> log_host" where
  "log_stream g w =
     (let of_computer = (case lh_name w of Some name \<Rightarrow> log_slave_open_computer name g w | None \<Rightarrow> (Stderr, log_level_out_set L_ONSCREEN g, w))
      in if log_on_screen g then Inr (Stderr, g, w)
         else case logtool g of
           DRQ_LOG_TOOL_MASTER \<Rightarrow> Inr (log_master_open g w)
         | DRQ_LOG_TOOL_SLAVE_TASK \<Rightarrow> (case logger_task g of Some t \<Rightarrow> log_slave_open_task t g w | None \<Rightarrow> Inr of_computer)
         | _ \<Rightarrow> Inr of_computer)"

section \<open>A message\<close>

text \<open>\<open>ctime\<close> ends its text with a newline, which is cut off.\<close>

definition log_get_time_str :: "nat \<Rightarrow> log_host \<Rightarrow> cstring" where
  "log_get_time_str buflen w = snprintf buflen (butlast (snprintf buflen (lh_ctime w)) @ '' (PID:'' @ dec (lh_pid w) @ '')'')"

text \<open>A record that is no longer used leaves the buffer as it was, and nothing had been written to it.\<close>

definition sq :: cstring where "sq = [CHR 0x27]"

definition log_get_job_str :: "nat \<Rightarrow> job \<Rightarrow> fault + cstring" where
  "log_get_job_str buflen j = (if j_used j = 0 then Inl WildPointer
     else Inr (snprintf buflen (''Job: name:'' @ sq @ j_name j @ sq @ '' owner:'' @ sq @ j_owner j @ sq @ '' id:'' @ sq @ print_u (j_id j) @ sq)))"

definition log_get_computer_str :: "nat \<Rightarrow> computer \<Rightarrow> fault + cstring" where
  "log_get_computer_str buflen c = (if c_used c = 0 then Inl WildPointer
     else Inr (snprintf buflen (''Computer: name:'' @ sq @ hw_name (hwinfo c) @ sq @ '' id:'' @ sq @ print_u (hw_id (hwinfo c)) @ sq)))"

definition log_get_task_str :: "nat \<Rightarrow> task \<Rightarrow> cstring" where
  "log_get_task_str buflen t = snprintf buflen (''Task: Jobid:'' @ sq @ print_i (t_ijob t) @ sq @ '' Jobname:'' @ sq @ t_jobname t @ sq @
     '' Frame:'' @ sq @ print_i (t_frame t) @ sq @ '' Taskid:'' @ sq @ print_i (ucast (t_itask t)) @ sq @
     '' Compid:'' @ sq @ print_i (t_icomp t) @ sq)"

definition log_part :: "('a \<Rightarrow> fault + cstring) \<Rightarrow> 'a option \<Rightarrow> cstring \<Rightarrow> fault + cstring" where
  "log_part str x msg = (case x of None \<Rightarrow> Inr msg | Some v \<Rightarrow> andThen (str v) (\<lambda>buf. Inr (snprintf MAXLOGLINELEN (msg @ '' '' @ buf @ '' :''))))"

definition log_line :: "u32 \<Rightarrow> cstring \<Rightarrow> logger \<Rightarrow> log_host \<Rightarrow> fault + cstring" where
  "log_line level message g w =
     (let origmsg = snprintf MAXLOGLINELEN message;
          msg = snprintf MAXLOGLINELEN (log_get_time_str BUFFERLEN w @ '' :'');
          msg = snprintf MAXLOGLINELEN (msg @ '' | '' @ replicate (6 - length (log_level_str level)) (CHR '' '') @ log_level_str level @ '' |'')
      in andThen (log_part (log_get_job_str BUFFERLEN) (logger_job g) msg) (\<lambda>msg.
         andThen (log_part (log_get_computer_str BUFFERLEN) (logger_computer g) msg) (\<lambda>msg.
         andThen (log_part (\<lambda>t. Inr (log_get_task_str BUFFERLEN t)) (logger_task g) msg) (\<lambda>msg.
         Inr (msg @ '' -> MSG: '' @ origmsg @ nl)))))"

definition log_auto :: "u32 \<Rightarrow> cstring \<Rightarrow> logger \<Rightarrow> log_host \<Rightarrow> fault + logger \<times> log_host" where
  "log_auto level message g w =
     (if \<not> log_level_dest level g then Inr (g, w)
      else andThen (log_stream g w) (\<lambda>(f_log, g, w). andThen (log_line level message g w) (\<lambda>line.
        Inr (g, case f_log of Stderr \<Rightarrow> w\<lparr>lh_stderr := lh_stderr w @ [line]\<rparr> | LogFile f \<Rightarrow> append_file f line w))))"


section \<open>The size of a log\<close>

text \<open>The log of the master or of a slave and the one before it; what it takes to put the first in the place of the second.\<close>

definition own_log :: "cstring \<Rightarrow> logger \<Rightarrow> log_host \<Rightarrow> cstring option" where
  "own_log ext g w = (case lh_env w ''DRQUEUE_LOGS'' of None \<Rightarrow> None
     | Some b \<Rightarrow> map_option (\<lambda>n. snprintf (BUFFERLEN - 1) (b @ ''/'' @ n @ ext)) (if logtool g = DRQ_LOG_TOOL_MASTER then Some ''master'' else lh_name w))"

definition rotates :: "cstring \<Rightarrow> cstring \<Rightarrow> log_host \<Rightarrow> bool" where
  "rotates p q w \<longleftrightarrow> p \<noteq> q \<and> lh_allows w p \<and> lh_allows w q \<and> \<not> lh_dirs w q"

definition bounded :: "nat \<Rightarrow> cstring \<Rightarrow> log_host \<Rightarrow> bool" where
  "bounded n p w \<longleftrightarrow> (case lh_files w p of None \<Rightarrow> True | Some s \<Rightarrow> length s \<le> n)"

lemma rotate_files:
  assumes "rotates p q w"
  shows "lh_files (rotate_log n p q w) = (if bounded n p w then lh_files w else (lh_files w)(q := lh_files w p, p := None))"
  using assms
  by (cases "lh_files w p") (auto simp: rotate_log_def rotates_def bounded_def rename_log_def unlink_log_def)

lemma rotate_keeps: "lh_env (rotate_log n p q w) = lh_env w" "lh_name (rotate_log n p q w) = lh_name w" "lh_ctime (rotate_log n p q w) = lh_ctime w"
  "lh_pid (rotate_log n p q w) = lh_pid w" "lh_stderr (rotate_log n p q w) = lh_stderr w"
  by (simp_all add: rotate_log_def rename_log_def unlink_log_def split: option.splits)

lemma rotate_bounded: "rotates p q w \<Longrightarrow> bounded n p (rotate_log n p q w)"
  unfolding bounded_def [of n p "rotate_log n p q w"] rotate_files by (simp add: bounded_def)

lemma part_length: "log_part f x msg = Inr msg' \<Longrightarrow> length msg < MAXLOGLINELEN \<Longrightarrow> length msg' < MAXLOGLINELEN"
  by (auto simp: log_part_def andThen_def snprintf_length split: option.splits sum.splits)

lemma line_length:
  assumes "log_line level message g w = Inr line"
  shows "length line \<le> 32776"
proof -
  define msg where "msg = snprintf MAXLOGLINELEN (snprintf MAXLOGLINELEN (log_get_time_str BUFFERLEN w @ '' :'') @ '' | '' @
    replicate (6 - length (log_level_str level)) (CHR '' '') @ log_level_str level @ '' |'')"
  obtain m1 m2 m3 where m: "log_part (log_get_job_str BUFFERLEN) (logger_job g) msg = Inr m1" "log_part (log_get_computer_str BUFFERLEN) (logger_computer g) m1 = Inr m2"
      "log_part (\<lambda>t. Inr (log_get_task_str BUFFERLEN t)) (logger_task g) m2 = Inr m3" "line = m3 @ '' -> MSG: '' @ snprintf MAXLOGLINELEN message @ nl"
    using assms unfolding log_line_def Let_def msg_def [symmetric] andThen_def by (simp split: sum.splits)
  have "length msg < MAXLOGLINELEN" unfolding msg_def by (rule snprintf_length) simp
  then have "length m3 < MAXLOGLINELEN" using part_length [OF m(3) part_length [OF m(2) part_length [OF m(1)]]] by blast
  moreover have "length (snprintf MAXLOGLINELEN message) < MAXLOGLINELEN" by (rule snprintf_length) simp
  ultimately show ?thesis unfolding m(4) by (simp add: nl_def)
qed

lemma stream_own:
  assumes "logtool g \<in> {DRQ_LOG_TOOL_MASTER, DRQ_LOG_TOOL_SLAVE}" "own_log ''.log'' g w = Some p" "own_log ''.1.log'' g w = Some q" "\<not> log_on_screen g"
  shows "log_stream g w = Inr (let w1 = rotate_log MAX_SLAVE_LOG_SIZE p q w
     in if appendable w1 p then (LogFile p, g, w1) else (Stderr, log_level_out_set L_ONSCREEN g, w1))"
proof -
  obtain b where b: "lh_env w ''DRQUEUE_LOGS'' = Some b" using assms(2) by (auto simp: own_log_def split: option.splits)
  show ?thesis
  proof (cases "logtool g = DRQ_LOG_TOOL_MASTER")
    case True
    then have pq: "p = snprintf (BUFFERLEN - 1) (b @ ''/master.log'')" "q = snprintf (BUFFERLEN - 1) (b @ ''/master.1.log'')"
      using assms(2,3) b by (simp_all add: own_log_def)
    show ?thesis unfolding log_stream_def log_master_open_def b option.case pq [symmetric] Let_def using assms(4) True by simp
  next
    case False
    then have t: "logtool g = DRQ_LOG_TOOL_SLAVE" using assms(1) by simp
    obtain n where n: "lh_name w = Some n" "p = snprintf (BUFFERLEN - 1) (b @ ''/'' @ n @ ''.log'')" "q = snprintf (BUFFERLEN - 1) (b @ ''/'' @ n @ ''.1.log'')"
      using assms(2,3) b False by (auto simp: own_log_def)
    show ?thesis unfolding log_stream_def log_slave_open_computer_def b n(1) option.case n(2,3) [symmetric] Let_def using assms(4) t by simp
  qed
qed

text \<open>
  The line that a message makes: the time and the process, the name of its level to the right of six places, what it is about,
  and the message.  A text about a record is cut at the size of its buffer, and so is the message; the whole always has room.
\<close>

definition level_names :: "(nat \<times> cstring) list" where
  "level_names = [(0, ''ERROR''), (1, ''Warning''), (2, ''Info''), (3, ''Debug''), (4, ''Debug2''), (5, ''Debug3'')]"

definition level_name :: "u32 \<Rightarrow> cstring" where
  "level_name level = (case map_of level_names (unat level mod 256) of None \<Rightarrow> ''UNKNOWN'' | Some n \<Rightarrow> n)"

definition quoted :: "cstring \<Rightarrow> cstring" where
  "quoted s = CHR 0x27 # s @ [CHR 0x27]"

definition about_job :: "job \<Rightarrow> cstring" where
  "about_job j = ''Job: name:'' @ quoted (j_name j) @ '' owner:'' @ quoted (j_owner j) @ '' id:'' @ quoted (print_u (j_id j))"

definition about_computer :: "computer \<Rightarrow> cstring" where
  "about_computer c = ''Computer: name:'' @ quoted (hw_name (hwinfo c)) @ '' id:'' @ quoted (print_u (hw_id (hwinfo c)))"

definition about_task :: "task \<Rightarrow> cstring" where
  "about_task t = ''Task: Jobid:'' @ quoted (print_i (t_ijob t)) @ '' Jobname:'' @ quoted (t_jobname t) @
     '' Frame:'' @ quoted (print_i (t_frame t)) @ '' Taskid:'' @ quoted (print_i (ucast (t_itask t))) @
     '' Compid:'' @ quoted (print_i (t_icomp t))"

definition subject :: "('a \<Rightarrow> cstring) \<Rightarrow> 'a option \<Rightarrow> cstring" where
  "subject f x = (case x of None \<Rightarrow> [] | Some v \<Rightarrow> '' '' @ take (BUFFERLEN - 1) (f v) @ '' :'')"

definition line_head :: "cstring \<Rightarrow> u32 \<Rightarrow> nat \<Rightarrow> cstring" where
  "line_head now level pid =
     now @ '' (PID:'' @ dec pid @ '') : | '' @ replicate (6 - length (level_name level)) (CHR '' '') @ level_name level @ '' |''"

definition logged_line :: "cstring \<Rightarrow> u32 \<Rightarrow> cstring \<Rightarrow> logger \<Rightarrow> nat \<Rightarrow> cstring" where
  "logged_line now level message g pid =
     line_head now level pid @ subject about_job (logger_job g) @ subject about_computer (logger_computer g) @
     subject about_task (logger_task g) @ '' -> MSG: '' @ take (MAXLOGLINELEN - 1) message @ nl"

text \<open>The records that a message is about are in use, and the time has the length that \<open>ctime\<close> gives it.\<close>

definition subjects_used :: "logger \<Rightarrow> bool" where
  "subjects_used g \<longleftrightarrow> (case logger_job g of None \<Rightarrow> True | Some j \<Rightarrow> j_used j \<noteq> 0) \<and>
     (case logger_computer g of None \<Rightarrow> True | Some c \<Rightarrow> c_used c \<noteq> 0)"

definition clock_says :: "cstring \<Rightarrow> log_host \<Rightarrow> bool" where
  "clock_says now w \<longleftrightarrow> lh_ctime w = now @ nl \<and> length now \<le> 64 \<and> lh_pid w < 2147483648"

lemma level_mask: "unat (level AND L_LEVELMASK) = unat level mod 256" for level :: u32
proof -
  have "level AND L_LEVELMASK = take_bit 8 level" by (simp add: L_LEVELMASK_def take_bit_eq_mask mask_numeral flip: mask_eq_exp_minus_1)
  show ?thesis unfolding \<open>level AND L_LEVELMASK = take_bit 8 level\<close> unsigned_take_bit_eq by (simp add: take_bit_eq_mod)
qed

lemma log_level_name: "log_level_str level = level_name level"
  unfolding log_level_str_def level_name_def level_names_def Let_def word_unat_eq_iff level_mask L_ERROR_def L_WARNING_def L_INFO_def
    L_DEBUG_def L_DEBUG2_def L_DEBUG3_def by simp

lemma level_name_length: "length (level_name level) \<le> 7"
proof -
  have "list_all (\<lambda>(_, n). length n \<le> 7) level_names" by (simp add: level_names_def)
  then show ?thesis by (auto simp: level_name_def list_all_iff split: option.splits dest!: map_of_SomeD)
qed

lemma subject_length: "length (subject f x) \<le> 4099"
  by (simp add: subject_def BUFFERLEN_def min_def split: option.splits)

lemma log_part_subject:
  assumes "case x of None \<Rightarrow> True | Some v \<Rightarrow> str v = Inr (take (BUFFERLEN - 1) (f v))" "length msg + 4099 < MAXLOGLINELEN"
  shows "log_part str x msg = Inr (msg @ subject f x)"
proof (cases x)
  case (Some v)
  then have l: "length (msg @ '' '' @ take (BUFFERLEN - 1) (f v) @ '' :'') < MAXLOGLINELEN"
    using assms(2) subject_length [of f x] by (simp add: subject_def)
  show ?thesis using assms(1) Some unfolding log_part_def subject_def Some option.case snprintf_short [OF l] by (simp add: snprintf_short [OF l, simplified])
qed (simp add: log_part_def subject_def)

lemma line_head_length: "length now \<le> 64 \<Longrightarrow> pid < 2147483648 \<Longrightarrow> length (line_head now level pid) \<le> 100"
  using length_dec [of pid 10] level_name_length [of level] by (simp add: line_head_def)

lemma log_line_eq:
  assumes c: "clock_says now w" and u: "subjects_used g"
  shows "log_line level message g w = Inr (logged_line now level message g (lh_pid w))"
proof -
  have now: "length now \<le> 64" "lh_pid w < 2147483648" "lh_ctime w = now @ nl" using c by (simp_all add: clock_says_def)
  have d: "length (dec (lh_pid w)) \<le> 10" using now(2) length_dec [of "lh_pid w" 10] by simp
  have t: "log_get_time_str BUFFERLEN w = now @ '' (PID:'' @ dec (lh_pid w) @ '')''"
    using now d by (simp add: log_get_time_str_def BUFFERLEN_def nl_def)
  define h where "h = line_head now level (lh_pid w)"
  have hl: "length h \<le> 100" unfolding h_def by (rule line_head_length [OF now(1,2)])
  have s: "snprintf MAXLOGLINELEN (snprintf MAXLOGLINELEN (log_get_time_str BUFFERLEN w @ '' :'') @ '' | '' @
      replicate (6 - length (log_level_str level)) (CHR '' '') @ log_level_str level @ '' |'') = h"
    using now d level_name_length [of level] by (simp add: t log_level_name h_def line_head_def)
  have j: "case logger_job g of None \<Rightarrow> True | Some v \<Rightarrow> log_get_job_str BUFFERLEN v = Inr (take (BUFFERLEN - 1) (about_job v))"
    using u by (auto simp: subjects_used_def log_get_job_str_def about_job_def quoted_def sq_def snprintf_def split: option.splits)
  have k: "case logger_computer g of None \<Rightarrow> True | Some v \<Rightarrow> log_get_computer_str BUFFERLEN v = Inr (take (BUFFERLEN - 1) (about_computer v))"
    using u by (auto simp: subjects_used_def log_get_computer_str_def about_computer_def quoted_def sq_def snprintf_def split: option.splits)
  have l: "case logger_task g of None \<Rightarrow> True | Some v \<Rightarrow> Inr (log_get_task_str BUFFERLEN v) = (Inr (take (BUFFERLEN - 1) (about_task v)) :: fault + cstring)"
    by (auto simp: log_get_task_str_def about_task_def quoted_def sq_def snprintf_def split: option.splits)
  have "log_part (log_get_job_str BUFFERLEN) (logger_job g) h = Inr (h @ subject about_job (logger_job g))"
    by (rule log_part_subject [OF j]) (use hl in simp)
  moreover have "log_part (log_get_computer_str BUFFERLEN) (logger_computer g) (h @ subject about_job (logger_job g)) =
      Inr (h @ subject about_job (logger_job g) @ subject about_computer (logger_computer g))"
    using log_part_subject [OF k, of "h @ subject about_job (logger_job g)"] hl subject_length [of about_job "logger_job g"] by simp
  moreover have "log_part (\<lambda>t. Inr (log_get_task_str BUFFERLEN t)) (logger_task g)
        (h @ subject about_job (logger_job g) @ subject about_computer (logger_computer g)) =
      Inr (h @ subject about_job (logger_job g) @ subject about_computer (logger_computer g) @ subject about_task (logger_task g))"
    using log_part_subject [OF l, of "h @ subject about_job (logger_job g) @ subject about_computer (logger_computer g)"] hl
      subject_length [of about_job "logger_job g"] subject_length [of about_computer "logger_computer g"] by simp
  ultimately show ?thesis
    unfolding log_line_def Let_def s andThen_simps logged_line_def h_def [symmetric] by (simp add: snprintf_def)
qed

definition log_limit :: nat where "log_limit = MAX_SLAVE_LOG_SIZE + 32776"

text \<open>What was in a file, and that a file can be written: it is no directory, and its own directory is there, as that of every file.\<close>

definition in_file :: "cstring \<Rightarrow> log_host \<Rightarrow> cstring" where
  "in_file p w = (case lh_files w p of None \<Rightarrow> [] | Some s \<Rightarrow> s)"

definition files_in_dirs :: "log_host \<Rightarrow> bool" where
  "files_in_dirs w \<longleftrightarrow> (\<forall>p. lh_files w p \<noteq> None \<longrightarrow> lh_dirs w (dirname p) \<and> \<not> lh_dirs w p)"

lemma rotate_appendable:
  assumes "files_in_dirs w" "rotates p q w"
  shows "appendable (rotate_log n p q w) p \<longleftrightarrow> appendable w p"
  using assms rotate_files [OF assms(2), of n]
  by (auto simp: files_in_dirs_def appendable_def rotate_log_def rename_log_def unlink_log_def split: option.splits if_splits)


section \<open>Logs of an example\<close>

definition ball_task :: task where
  "ball_task = free_task\<lparr>t_used := 1, t_jobname := ''ball'', t_ijob := 3, t_frame := 7\<rparr>"

definition log_box :: log_host where
  "log_box = \<lparr>lh_env = [''DRQUEUE_LOGS'' \<mapsto> ''/l''], lh_files = Map.empty, lh_dirs = (\<lambda>p. p = ''/l''), lh_allows = (\<lambda>_. True),
     lh_conns = replicate 2 (Some \<lparr>rx = [MString ''ball''], tx = [], tx_left = 5\<rparr>), lh_name = Some ''node7'',
     lh_ctime = ''Thu Nov 19 17:40:40 2026'' @ nl, lh_pid = 42, lh_stderr = []\<rparr>"

lemma example_opens: "case log_dumptask_open ball_task log_box of Inr (Some q, _) \<Rightarrow> q = ''/l/003.ball/ball.0007'' | _ \<Rightarrow> False"
  by code_simp

lemma example_answered: "answered (t_ijob ball_task) (Some ''ball'') log_box" "lh_env log_box ''DRQUEUE_LOGS'' = Some ''/l''"
proof -
  have "told (t_ijob ball_task) (Some \<lparr>rx = [MString ''ball''], tx = [], tx_left = 5\<rparr>) = Some ''ball''" by code_simp
  then show "answered (t_ijob ball_task) (Some ''ball'') log_box" by (simp add: answered_def log_box_def numeral_2_eq_2)
  show "lh_env log_box ''DRQUEUE_LOGS'' = Some ''/l''" by (simp add: log_box_def)
qed

theorem frame_log_found_witness:
  "\<exists>p w'. log_dumptask_open ball_task log_box = Inr (Some p, w') \<and>
     fst (log_dumptask_open_ro ball_task (log_box\<lparr>lh_files := (lh_files w')(p \<mapsto> ''Frame 7 done'')\<rparr>)) = Some p"
proof -
  obtain p w' where o: "log_dumptask_open ball_task log_box = Inr (Some p, w')"
    using example_opens by (simp split: sum.splits prod.splits option.splits)
  have "answered (t_ijob ball_task) (Some ''ball'') (log_box\<lparr>lh_files := (lh_files w')(p \<mapsto> ''Frame 7 done'')\<rparr>)"
    using example_answered(1) by (simp add: answered_def)
  from frame_log_found [OF o example_answered this] o example_answered(2) show ?thesis by auto
qed

lemma example_opens_next:
  "case log_dumptask_open (ball_task\<lparr>t_frame := 8\<rparr>) log_box of Inr (Some q, _) \<Rightarrow> q = ''/l/003.ball/ball.0008'' | _ \<Rightarrow> False"
  by code_simp

theorem frame_logs_apart_witness:
  "\<exists>p q w1 w2. log_dumptask_open ball_task log_box = Inr (Some p, w1) \<and>
     log_dumptask_open (ball_task\<lparr>t_frame := 8\<rparr>) log_box = Inr (Some q, w2) \<and> p \<noteq> q"
proof -
  obtain p w1 where p: "log_dumptask_open ball_task log_box = Inr (Some p, w1)"
    using example_opens by (simp split: sum.splits prod.splits option.splits)
  obtain q w2 where q: "log_dumptask_open (ball_task\<lparr>t_frame := 8\<rparr>) log_box = Inr (Some q, w2)"
    using example_opens_next by (simp split: sum.splits prod.splits option.splits)
  have a: "answered (t_ijob (ball_task\<lparr>t_frame := 8\<rparr>)) (Some ''ball'') log_box" using example_answered(1) by simp
  have f: "log_fits ''/l'' (Some ''ball'') ball_task" "log_fits ''/l'' (Some ''ball'') (ball_task\<lparr>t_frame := 8\<rparr>)"
      "unat (t_frame ball_task) < 2147483648" "unat (t_frame (ball_task\<lparr>t_frame := 8\<rparr>)) < 2147483648"
    by (simp_all add: log_fits_def job_dir_def ball_task_def PATH_MAX_def)
  have "p \<noteq> q"
  proof
    assume "p = q"
    from frame_logs_apart [OF p example_answered q [folded this] a example_answered(2) f] show False by (simp add: ball_task_def)
  qed
  with p q show ?thesis by blast
qed

definition box_logger :: logger where
  "box_logger = \<lparr>loglevel = L_INFO, logtool = DRQ_LOG_TOOL_SLAVE, logger_job = None, logger_computer = None, logger_task = None\<rparr>"


end
