(* ===== verification/Rows.thy ===== *)
theory Rows
  imports Hardware "HOL-Library.List_Lexorder"
begin

text \<open>
  The lists of the manager and their order (\<open>drqman/drqm_jobs.c\<close>, \<open>drqm_computers.c\<close>, \<open>drqm_jobs_jdd.c\<close>): what each column is sorted
  by, and what a click on its heading does.  The sorting is done by the toolkit, and is a parameter.
\<close>

section \<open>Comparisons\<close>

text \<open>Bytes are compared as unsigned.\<close>

fun strcmp :: "cstring \<Rightarrow> cstring \<Rightarrow> int" where
  "strcmp [] [] = 0"
| "strcmp [] (_ # _) = -1"
| "strcmp (_ # _) [] = 1"
| "strcmp (a # as) (b # bs) = (if a = b then strcmp as bs else if (of_char a :: nat) < of_char b then -1 else 1)"

text \<open>The lists of jobs and computers have the smaller of two values after the greater one, the list of frames before it.\<close>

definition cmp_falling :: "'a::linorder \<Rightarrow> 'a \<Rightarrow> int" where
  "cmp_falling a b = (if a < b then 1 else if a = b then 0 else -1)"

definition cmp_rising :: "'a::linorder \<Rightarrow> 'a \<Rightarrow> int" where
  "cmp_rising a b = (if a > b then 1 else if a = b then 0 else -1)"

section \<open>Jobs\<close>

definition jobs_cmp_id :: "job \<Rightarrow> job \<Rightarrow> int" where
  "jobs_cmp_id ja jb = cmp_falling (j_id ja) (j_id jb)"

definition jobs_cmp_name :: "job \<Rightarrow> job \<Rightarrow> int" where
  "jobs_cmp_name ja jb = (let diff = strcmp (j_name ja) (j_name jb) in if diff < 0 then 1 else if diff = 0 then 0 else -1)"

definition jobs_cmp_owner :: "job \<Rightarrow> job \<Rightarrow> int" where
  "jobs_cmp_owner ja jb = (let diff = strcmp (j_owner ja) (j_owner jb) in if diff < 0 then 1 else if diff = 0 then 0 else -1)"

definition jobs_cmp_status :: "job \<Rightarrow> job \<Rightarrow> int" where
  "jobs_cmp_status ja jb =
     (let diff = strcmp (job_status_string (j_status ja)) (job_status_string (j_status jb)) in if diff < 0 then 1 else if diff = 0 then 0 else -1)"

definition jobs_cmp_processors :: "job \<Rightarrow> job \<Rightarrow> int" where
  "jobs_cmp_processors ja jb = cmp_falling (j_nprocs ja) (j_nprocs jb)"

definition jobs_cmp_left :: "job \<Rightarrow> job \<Rightarrow> int" where
  "jobs_cmp_left ja jb = cmp_falling (fleft ja) (fleft jb)"

definition jobs_cmp_done :: "job \<Rightarrow> job \<Rightarrow> int" where
  "jobs_cmp_done ja jb = cmp_falling (fdone ja) (fdone jb)"

definition jobs_cmp_failed :: "job \<Rightarrow> job \<Rightarrow> int" where
  "jobs_cmp_failed ja jb = cmp_falling (ffailed ja) (ffailed jb)"

text \<open>The numbers of frames are taken as signed.\<close>

definition jobs_cmp_total :: "job \<Rightarrow> job \<Rightarrow> int" where
  "jobs_cmp_total ja jb = cmp_falling (sint (job_nframes ja)) (sint (job_nframes jb))"

definition jobs_cmp_pri :: "job \<Rightarrow> job \<Rightarrow> int" where
  "jobs_cmp_pri ja jb = cmp_falling (j_priority ja) (j_priority jb)"

definition jobs_cmp_pool :: "job \<Rightarrow> job \<Rightarrow> int" where
  "jobs_cmp_pool ja jb = (let diff = strcmp (jl_pool (limits ja)) (jl_pool (limits jb)) in if diff < 0 then 1 else if diff = 0 then 0 else -1)"

section \<open>Computers\<close>

definition computers_cmp_id :: "computer \<Rightarrow> computer \<Rightarrow> int" where
  "computers_cmp_id ca cb = cmp_falling (hw_id (hwinfo ca)) (hw_id (hwinfo cb))"

definition computers_cmp_enabled :: "computer \<Rightarrow> computer \<Rightarrow> int" where
  "computers_cmp_enabled ca cb = cmp_falling (cl_enabled (c_limits ca)) (cl_enabled (c_limits cb))"

definition computers_cmp_running :: "computer \<Rightarrow> computer \<Rightarrow> int" where
  "computers_cmp_running ca cb = cmp_falling (ntasks (c_status ca)) (ntasks (c_status cb))"

definition computers_cmp_name :: "computer \<Rightarrow> computer \<Rightarrow> int" where
  "computers_cmp_name ca cb = (let diff = strcmp (hw_name (hwinfo ca)) (hw_name (hwinfo cb)) in if diff < 0 then 1 else if diff = 0 then 0 else -1)"

definition computers_cmp_os :: "computer \<Rightarrow> computer \<Rightarrow> int" where
  "computers_cmp_os ca cb =
     (let diff = strcmp (osstring (hw_os (hwinfo ca))) (osstring (hw_os (hwinfo cb))) in if diff < 0 then 1 else if diff = 0 then 0 else -1)"

definition computers_cmp_cpus :: "computer \<Rightarrow> computer \<Rightarrow> int" where
  "computers_cmp_cpus ca cb = cmp_falling (hw_ncpus (hwinfo ca)) (hw_ncpus (hwinfo cb))"

text \<open>The array of the three load averages is a list of three.\<close>

definition computers_cmp_loadavg :: "computer \<Rightarrow> computer \<Rightarrow> int" where
  "computers_cmp_loadavg ca cb =
     (let a = loadavg (c_status ca); b = loadavg (c_status cb)
      in if a ! 0 < b ! 0 then 1
         else if a ! 0 = b ! 0 then
           (if a ! 1 < b ! 1 then 1 else if a ! 1 = b ! 1 then (if a ! 2 < b ! 2 then 1 else if a ! 2 = b ! 2 then 0 else -1) else -1)
         else -1)"

text \<open>The names of the pools with commas between them, in a buffer; the computers' segments are those of the manager, \<open>s\<close>.\<close>

fun pools_joined :: "nat \<Rightarrow> nat \<Rightarrow> cstring list \<Rightarrow> cstring \<Rightarrow> fault + cstring" where
  "pools_joined i 0 pool pa = Inr pa"
| "pools_joined i (Suc n) pool pa = andThen (rd pool i) (\<lambda>p.
     pools_joined (Suc i) n pool (strncpy (BUFFERLEN - 1) (snprintf BUFFERLEN (pa @ '','' @ p))))"

definition pools_text :: "computer_limits \<Rightarrow> cstring shm \<Rightarrow> fault + cstring" where
  "pools_text cl s =
     (if npools cl \<noteq> 0 then
        (case fst (computer_pool_attach_shared_memory (cl, s)) of
           None \<Rightarrow> Inr (snprintf BUFFERLEN ''WARNING: Could not attach pool shared memory'')
         | Some pool \<Rightarrow> andThen (rd pool 0) (\<lambda>p. pools_joined 1 (unat (npools cl) - 1) pool (snprintf BUFFERLEN p)))
      else Inr (snprintf BUFFERLEN (''WARNING: This computer doesn'' @ [CHR 0x27] @ ''t belong to any pool'')))"

definition computers_cmp_pools :: "cstring shm \<Rightarrow> computer \<Rightarrow> computer \<Rightarrow> fault + int" where
  "computers_cmp_pools s ca cb =
     andThen (pools_text (c_limits ca) s) (\<lambda>pa. andThen (pools_text (c_limits cb) s) (\<lambda>pb.
       let diff = strcmp pa pb in Inr (if diff < 0 then 1 else if diff = 0 then 0 else -1)))"

section \<open>Frames of a job\<close>

text \<open>A row has the number of its frame.  The job \<open>j\<close> has the frames \<open>fi\<close>.  Some numbers are cut to a signed byte, and some
  indices to 16 bits.\<close>

definition schar :: "'a::len word \<Rightarrow> int" where
  "schar w = sint (ucast w :: 8 word)"

definition frame_at :: "(u32 \<Rightarrow> nat) \<Rightarrow> job \<Rightarrow> frame_info list \<Rightarrow> u32 \<Rightarrow> fault + frame_info" where
  "frame_at narrow j fi frame = andThen (job_frame_number_to_index j frame) (\<lambda>i. rd fi (narrow i))"

definition index16 :: "u32 \<Rightarrow> nat" where
  "index16 i = unat (ucast i :: u16)"

definition jdd_framelist_cmp_requeued :: "job \<Rightarrow> frame_info list \<Rightarrow> u32 \<Rightarrow> u32 \<Rightarrow> fault + int" where
  "jdd_framelist_cmp_requeued j fi ra rb = andThen (frame_at unat j fi ra) (\<lambda>a. andThen (frame_at unat j fi rb) (\<lambda>b.
     Inr (cmp_rising (schar (fi_requeued a)) (schar (fi_requeued b)))))"

definition jdd_framelist_cmp_frame :: "u32 \<Rightarrow> u32 \<Rightarrow> int" where
  "jdd_framelist_cmp_frame ra rb = cmp_rising ra rb"

definition jdd_framelist_cmp_exitcode :: "job \<Rightarrow> frame_info list \<Rightarrow> u32 \<Rightarrow> u32 \<Rightarrow> fault + int" where
  "jdd_framelist_cmp_exitcode j fi ra rb = andThen (frame_at unat j fi ra) (\<lambda>a. andThen (frame_at unat j fi rb) (\<lambda>b.
     Inr (cmp_rising (schar (fi_exitcode a)) (schar (fi_exitcode b)))))"

definition jdd_framelist_cmp_status :: "job \<Rightarrow> frame_info list \<Rightarrow> u32 \<Rightarrow> u32 \<Rightarrow> fault + int" where
  "jdd_framelist_cmp_status j fi ra rb = andThen (frame_at index16 j fi ra) (\<lambda>a. andThen (frame_at index16 j fi rb) (\<lambda>b.
     Inr (cmp_rising (schar (fi_status a)) (schar (fi_status b)))))"

definition jdd_framelist_cmp_icomp :: "job \<Rightarrow> frame_info list \<Rightarrow> u32 \<Rightarrow> u32 \<Rightarrow> fault + int" where
  "jdd_framelist_cmp_icomp j fi ra rb = andThen (frame_at index16 j fi ra) (\<lambda>a. andThen (frame_at index16 j fi rb) (\<lambda>b.
     Inr (cmp_rising (fi_icomp a) (fi_icomp b))))"

definition jdd_framelist_cmp_start_time :: "job \<Rightarrow> frame_info list \<Rightarrow> u32 \<Rightarrow> u32 \<Rightarrow> fault + int" where
  "jdd_framelist_cmp_start_time j fi ra rb = andThen (frame_at index16 j fi ra) (\<lambda>a. andThen (frame_at index16 j fi rb) (\<lambda>b.
     Inr (cmp_rising (fi_start_time a) (fi_start_time b))))"

definition jdd_framelist_cmp_end_time :: "job \<Rightarrow> frame_info list \<Rightarrow> u32 \<Rightarrow> u32 \<Rightarrow> fault + int" where
  "jdd_framelist_cmp_end_time j fi ra rb = andThen (frame_at index16 j fi ra) (\<lambda>a. andThen (frame_at index16 j fi rb) (\<lambda>b.
     Inr (cmp_rising (fi_end_time a) (fi_end_time b))))"

section \<open>A click on a heading\<close>

datatype sort_type = Ascending | Descending

record 'r clist =
  cl_type :: sort_type
  cl_cmp :: "'r \<Rightarrow> 'r \<Rightarrow> int"
  cl_rows :: "'r list"

text \<open>\<open>gtk_clist_sort\<close>: the parameter \<open>srt\<close> is the sorting of the toolkit.\<close>

type_synonym 'r sorting = "sort_type \<Rightarrow> ('r \<Rightarrow> 'r \<Rightarrow> int) \<Rightarrow> 'r list \<Rightarrow> 'r list"

definition clist_sort :: "'r sorting \<Rightarrow> 'r clist \<Rightarrow> 'r clist" where
  "clist_sort srt l = l\<lparr>cl_rows := srt (cl_type l) (cl_cmp l) (cl_rows l)\<rparr>"

definition other :: "sort_type \<Rightarrow> sort_type" where
  "other d = (if d = Descending then Ascending else Descending)"

text \<open>The direction and the column of the last click are static variables of the handler.\<close>

definition turn :: "nat \<Rightarrow> sort_type \<times> nat \<Rightarrow> sort_type \<times> nat" where
  "turn column = (\<lambda>(dir, lastClick). (other (if lastClick \<noteq> column then Ascending else dir), column))"

definition sort_by :: "'r sorting \<Rightarrow> sort_type \<Rightarrow> ('r \<Rightarrow> 'r \<Rightarrow> int) \<Rightarrow> 'r clist \<Rightarrow> 'r clist" where
  "sort_by srt dir cmp l = clist_sort srt (l\<lparr>cl_type := dir, cl_cmp := cmp\<rparr>)"

definition jobs_column_clicked ::
    "job sorting \<Rightarrow> nat \<Rightarrow> (sort_type \<times> nat) \<times> job clist \<Rightarrow> (sort_type \<times> nat) \<times> job clist" where
  "jobs_column_clicked srt column = (\<lambda>(st, l). let st = turn column st; by = \<lambda>cmp. sort_by srt (fst st) cmp l in (st,
     if column = 0 then by jobs_cmp_id
     else if column = 1 then by jobs_cmp_name
     else if column = 2 then by jobs_cmp_owner
     else if column = 3 then by jobs_cmp_status
     else if column = 4 then by jobs_cmp_processors
     else if column = 5 then by jobs_cmp_left
     else if column = 6 then by jobs_cmp_done
     else if column = 7 then by jobs_cmp_failed
     else if column = 8 then by jobs_cmp_total
     else if column = 9 then by jobs_cmp_pri
     else if column = 10 then by jobs_cmp_pool
     else l))"

text \<open>A comparison that can fault does so while the toolkit sorts; \<open>whole\<close> says that none of them does.\<close>

definition whole :: "('r \<Rightarrow> 'r \<Rightarrow> fault + int) \<Rightarrow> 'r list \<Rightarrow> bool" where
  "whole cmp rows \<longleftrightarrow> (\<forall>a \<in> set rows. \<forall>b \<in> set rows. \<not> isl (cmp a b))"

definition sort_whole :: "'r sorting \<Rightarrow> sort_type \<Rightarrow> ('r \<Rightarrow> 'r \<Rightarrow> fault + int) \<Rightarrow> 'r clist \<Rightarrow> fault + 'r clist" where
  "sort_whole srt dir cmp l = (if whole cmp (cl_rows l) then Inr (sort_by srt dir (\<lambda>a b. projr (cmp a b)) l) else Inl OutOfBounds)"

definition computers_column_clicked :: "cstring shm \<Rightarrow> computer sorting \<Rightarrow> nat \<Rightarrow>
    (sort_type \<times> nat) \<times> computer clist \<Rightarrow> (sort_type \<times> nat) \<times> (fault + computer clist)" where
  "computers_column_clicked s srt column = (\<lambda>(st, l). let st = turn column st; by = \<lambda>cmp. Inr (sort_by srt (fst st) cmp l) in (st,
     if column = 0 then by computers_cmp_id
     else if column = 1 then by computers_cmp_enabled
     else if column = 2 then by computers_cmp_running
     else if column = 3 then by computers_cmp_name
     else if column = 4 then by computers_cmp_os
     else if column = 5 then by computers_cmp_cpus
     else if column = 6 then by computers_cmp_loadavg
     else if column = 7 then
sort_whole srt (fst st) (computers_cmp_pools s) l
     else Inr l))"

definition jdd_framelist_column_clicked :: "job \<Rightarrow> frame_info list \<Rightarrow> u32 sorting \<Rightarrow> nat \<Rightarrow>
    sort_type \<times> u32 clist \<Rightarrow> sort_type \<times> (fault + u32 clist)" where
  "jdd_framelist_column_clicked j fi srt column = (\<lambda>(dir, l). let dir = other dir; by = \<lambda>cmp. sort_whole srt dir (cmp j fi) l in (dir,
     if column = 0 then Inr (sort_by srt dir jdd_framelist_cmp_frame l)
     else if column = 1 then by jdd_framelist_cmp_status
     else if column = 2 then by jdd_framelist_cmp_requeued
     else if column = 3 then by jdd_framelist_cmp_start_time
     else if column = 4 then by jdd_framelist_cmp_end_time
     else if column = 5 then by jdd_framelist_cmp_exitcode
     else if column = 6 then by jdd_framelist_cmp_icomp
     else Inr l))"

section \<open>Filling the list of jobs\<close>

definition joblist_row :: "job \<Rightarrow> cstring list" where
  "joblist_row j = [print_i (j_id j), strncpy BUFFERLEN (j_name j), strncpy BUFFERLEN (j_owner j), job_status_string (j_status j),
     print_i (ucast (j_nprocs j)), print_i (fleft j), print_i (fdone j), print_i (ffailed j), print_i (job_nframes j),
     print_i (j_priority j), jl_pool (limits j)]"

definition drqm_update_joblist :: "job sorting \<Rightarrow> job list \<Rightarrow> job clist \<Rightarrow> job clist" where
  "drqm_update_joblist srt js l = clist_sort srt (l\<lparr>cl_rows := js\<rparr>)"

text \<open>The list of a new page: by number, and falling.\<close>

definition jobs_clist :: "job clist" where
  "jobs_clist = \<lparr>cl_type = Descending, cl_cmp = jobs_cmp_id, cl_rows = []\<rparr>"

section \<open>Orders\<close>

text \<open>What the toolkit needs of a comparison to sort the rows \<open>A\<close>.\<close>

locale comparator =
  fixes cmp :: "'r \<Rightarrow> 'r \<Rightarrow> int" and A :: "'r set"
  assumes flip: "a \<in> A \<Longrightarrow> b \<in> A \<Longrightarrow> cmp b a = - cmp a b"
    and trans: "a \<in> A \<Longrightarrow> b \<in> A \<Longrightarrow> c \<in> A \<Longrightarrow> 0 \<le> cmp a b \<Longrightarrow> 0 \<le> cmp b c \<Longrightarrow> 0 \<le> cmp a c"
begin

lemma same: "a \<in> A \<Longrightarrow> cmp a a = 0"
  using flip [of a a] by simp

lemma linear: "a \<in> A \<Longrightarrow> b \<in> A \<Longrightarrow> 0 \<le> cmp a b \<or> 0 \<le> cmp b a"
  using flip [of a b] by linarith

lemma ascends: "a \<in> A \<Longrightarrow> b \<in> A \<Longrightarrow> cmp a b \<le> 0 \<longleftrightarrow> 0 \<le> cmp b a"
  using flip [of a b] by linarith

end

text \<open>\<open>gtk_clist_sort\<close> puts the same rows into the order of the comparison, or into the reverse of it.\<close>

definition sorts :: "'r sorting \<Rightarrow> bool" where
  "sorts srt \<longleftrightarrow> (\<forall>d cmp xs. comparator cmp (set xs) \<longrightarrow> mset (srt d cmp xs) = mset xs \<and>
     sorted_wrt (\<lambda>a b. if d = Ascending then cmp a b \<le> 0 else 0 \<le> cmp a b) (srt d cmp xs))"

lemma falling_le: "0 \<le> cmp_falling a b \<longleftrightarrow> a \<le> b"
  by (auto simp: cmp_falling_def)

lemma falling_comparator: "(\<And>a b. cmp a b = cmp_falling (key a) (key b)) \<Longrightarrow> comparator cmp A"
  by unfold_locales (auto simp: falling_le, auto simp: cmp_falling_def)

definition codes :: "cstring \<Rightarrow> nat list" where
  "codes s = map of_char s"

lemma strcmp_codes: "strcmp a b = - cmp_falling (codes a) (codes b)"
  by (induction a b rule: strcmp.induct) (auto simp: codes_def cmp_falling_def)

lemma strcmp_falling: "(let diff = strcmp a b in if diff < 0 then 1 else if diff = 0 then 0 else -1) = cmp_falling (codes a) (codes b)"
  unfolding strcmp_codes by (simp add: cmp_falling_def)


section \<open>The columns of jobs\<close>

definition jobs_cmp :: "nat \<Rightarrow> job \<Rightarrow> job \<Rightarrow> int" where
  "jobs_cmp k = [jobs_cmp_id, jobs_cmp_name, jobs_cmp_owner, jobs_cmp_status, jobs_cmp_processors, jobs_cmp_left, jobs_cmp_done,
     jobs_cmp_failed, jobs_cmp_total, jobs_cmp_pri, jobs_cmp_pool] ! k"

text \<open>What the rows of a column should ascend by.\<close>

definition jobs_le :: "nat \<Rightarrow> job \<Rightarrow> job \<Rightarrow> bool" where
  "jobs_le k a b = [j_id a \<le> j_id b, codes (j_name a) \<le> codes (j_name b), codes (j_owner a) \<le> codes (j_owner b),
     codes (job_status_string (j_status a)) \<le> codes (job_status_string (j_status b)), j_nprocs a \<le> j_nprocs b, fleft a \<le> fleft b,
     fdone a \<le> fdone b, ffailed a \<le> ffailed b, sint (job_nframes a) \<le> sint (job_nframes b), j_priority a \<le> j_priority b,
     codes (jl_pool (limits a)) \<le> codes (jl_pool (limits b))] ! k"

interpretation by_id: comparator jobs_cmp_id UNIV by (rule falling_comparator) (fact jobs_cmp_id_def)
interpretation by_name: comparator jobs_cmp_name UNIV by (rule falling_comparator [of _ "\<lambda>j. codes (j_name j)"]) (simp only: jobs_cmp_name_def strcmp_falling)
interpretation by_owner: comparator jobs_cmp_owner UNIV by (rule falling_comparator [of _ "\<lambda>j. codes (j_owner j)"]) (simp only: jobs_cmp_owner_def strcmp_falling)
interpretation by_status: comparator jobs_cmp_status UNIV
  by (rule falling_comparator [of _ "\<lambda>j. codes (job_status_string (j_status j))"]) (simp only: jobs_cmp_status_def strcmp_falling)
interpretation by_processors: comparator jobs_cmp_processors UNIV by (rule falling_comparator) (fact jobs_cmp_processors_def)
interpretation by_left: comparator jobs_cmp_left UNIV by (rule falling_comparator) (fact jobs_cmp_left_def)
interpretation by_done: comparator jobs_cmp_done UNIV by (rule falling_comparator) (fact jobs_cmp_done_def)
interpretation by_failed: comparator jobs_cmp_failed UNIV by (rule falling_comparator) (fact jobs_cmp_failed_def)
interpretation by_total: comparator jobs_cmp_total UNIV by (rule falling_comparator [of _ "\<lambda>j. sint (job_nframes j)"]) (simp only: jobs_cmp_total_def)
interpretation by_pri: comparator jobs_cmp_pri UNIV by (rule falling_comparator) (fact jobs_cmp_pri_def)
interpretation by_pool: comparator jobs_cmp_pool UNIV by (rule falling_comparator [of _ "\<lambda>j. codes (jl_pool (limits j))"]) (simp only: jobs_cmp_pool_def strcmp_falling)

lemma comparator_subset: "comparator cmp A \<Longrightarrow> B \<subseteq> A \<Longrightarrow> comparator cmp B"
  unfolding comparator_def by blast

lemmas job_comparators = by_id.comparator_axioms by_name.comparator_axioms by_owner.comparator_axioms by_status.comparator_axioms
  by_processors.comparator_axioms by_left.comparator_axioms by_done.comparator_axioms by_failed.comparator_axioms by_total.comparator_axioms
  by_pri.comparator_axioms by_pool.comparator_axioms

lemma upto_10: "P 0 \<Longrightarrow> P 1 \<Longrightarrow> P 2 \<Longrightarrow> P 3 \<Longrightarrow> P 4 \<Longrightarrow> P 5 \<Longrightarrow> P 6 \<Longrightarrow> P 7 \<Longrightarrow> P 8 \<Longrightarrow> P 9 \<Longrightarrow> P 10 \<Longrightarrow> k \<le> 10 \<Longrightarrow> P (k :: nat)"
  by (auto simp: numeral_eq_Suc le_Suc_eq)

lemma jobs_cmp_comparator: "k \<le> 10 \<Longrightarrow> comparator (jobs_cmp k) A"
  by (rule comparator_subset [of _ UNIV], erule upto_10 [rotated -1], simp_all add: jobs_cmp_def job_comparators)

lemma jobs_cmp_le: "k \<le> 10 \<Longrightarrow> 0 \<le> jobs_cmp k a b \<longleftrightarrow> jobs_le k a b"
  by (erule upto_10 [rotated -1])
    (simp_all add: jobs_cmp_def jobs_le_def jobs_cmp_id_def jobs_cmp_name_def jobs_cmp_owner_def jobs_cmp_status_def jobs_cmp_processors_def
      jobs_cmp_left_def jobs_cmp_done_def jobs_cmp_failed_def jobs_cmp_total_def jobs_cmp_pri_def jobs_cmp_pool_def strcmp_falling falling_le)

lemma jobs_click: "k \<le> 10 \<Longrightarrow> jobs_column_clicked srt k (st, l) = (turn k st, sort_by srt (fst (turn k st)) (jobs_cmp k) l)"
  by (erule upto_10 [rotated -1]) (simp_all add: jobs_column_clicked_def jobs_cmp_def Let_def)

lemma sorts_falling:
  assumes "sorts srt" "comparator cmp (set (cl_rows l))"
  shows "mset (cl_rows (sort_by srt d cmp l)) = mset (cl_rows l)"
    "sorted_wrt (\<lambda>a b. if d = Ascending then 0 \<le> cmp b a else 0 \<le> cmp a b) (cl_rows (sort_by srt d cmp l))"
proof -
  let ?r = "srt d cmp (cl_rows l)"
  have r: "cl_rows (sort_by srt d cmp l) = ?r" by (simp add: sort_by_def clist_sort_def)
  have m: "mset ?r = mset (cl_rows l)" and s: "sorted_wrt (\<lambda>a b. if d = Ascending then cmp a b \<le> 0 else 0 \<le> cmp a b) ?r"
    using assms unfolding sorts_def by blast+
  from m show "mset (cl_rows (sort_by srt d cmp l)) = mset (cl_rows l)" unfolding r .
  have e: "set ?r = set (cl_rows l)" using m by (rule mset_eq_setD)
  show "sorted_wrt (\<lambda>a b. if d = Ascending then 0 \<le> cmp b a else 0 \<le> cmp a b) (cl_rows (sort_by srt d cmp l))"
    unfolding r by (rule sorted_wrt_mono_rel [OF _ s]) (simp add: comparator.ascends [OF assms(2)] e split: if_splits)
qed


text \<open>C38. A click on the heading of a column orders the list of jobs by it, whatever was clicked before: the rows stay the same jobs; after the first
  click on the column they ascend - numbers by their value, names and texts byte by byte -, and after a second click
  they descend; the list is again in that order when it is filled with other jobs.\<close>

theorem jobs_click_orders:
  assumes "sorts srt" "k \<le> 10" "lastClick \<noteq> k" "jobs_column_clicked srt k ((dir, lastClick), l) = (st1, l1)"
    and "jobs_column_clicked srt k (st1, l1) = (st2, l2)"
  shows "mset (cl_rows l1) = mset (cl_rows l) \<and> sorted_wrt (jobs_le k) (cl_rows l1) \<and>
    mset (cl_rows l2) = mset (cl_rows l) \<and> sorted_wrt (\<lambda>a b. jobs_le k b a) (cl_rows l2) \<and>
    mset (cl_rows (drqm_update_joblist srt js l2)) = mset js \<and> sorted_wrt (\<lambda>a b. jobs_le k b a) (cl_rows (drqm_update_joblist srt js l2))"
proof -
  have 1: "st1 = (Descending, k)" "l1 = sort_by srt Descending (jobs_cmp k) l"
    using assms(3,4) unfolding jobs_click [OF assms(2)] by (simp_all add: turn_def other_def)
  have 2: "l2 = sort_by srt Ascending (jobs_cmp k) l1"
    using assms(5) unfolding jobs_click [OF assms(2)] 1(1) by (simp_all add: turn_def other_def)
  have u: "drqm_update_joblist srt js l2 = sort_by srt Ascending (jobs_cmp k) (l2\<lparr>cl_rows := js\<rparr>)"
    by (simp add: drqm_update_joblist_def 2 sort_by_def clist_sort_def)
  note r = sorts_falling [OF assms(1) jobs_cmp_comparator [OF assms(2)], unfolded jobs_cmp_le [OF assms(2)]]
  show ?thesis
    using r [where l = l and d = Descending, folded 1(2)] r [where l = l1 and d = Ascending, folded 2]
      r [where l = "l2\<lparr>cl_rows := js\<rparr>" and d = Ascending, folded u]
    by (simp cong: if_cong)
qed

section \<open>The columns of computers\<close>

definition computers_cmp :: "nat \<Rightarrow> computer \<Rightarrow> computer \<Rightarrow> int" where
  "computers_cmp k = [computers_cmp_id, computers_cmp_enabled, computers_cmp_running, computers_cmp_name, computers_cmp_os, computers_cmp_cpus,
     computers_cmp_loadavg] ! k"

definition loads :: "computer \<Rightarrow> u16 list" where
  "loads c = map ((!) (loadavg (c_status c))) [0, 1, 2]"

definition computers_le :: "nat \<Rightarrow> computer \<Rightarrow> computer \<Rightarrow> bool" where
  "computers_le k a b = [hw_id (hwinfo a) \<le> hw_id (hwinfo b), cl_enabled (c_limits a) \<le> cl_enabled (c_limits b),
     ntasks (c_status a) \<le> ntasks (c_status b), codes (hw_name (hwinfo a)) \<le> codes (hw_name (hwinfo b)),
     codes (osstring (hw_os (hwinfo a))) \<le> codes (osstring (hw_os (hwinfo b))), hw_ncpus (hwinfo a) \<le> hw_ncpus (hwinfo b),
     loads a \<le> loads b] ! k"

lemma loadavg_falling: "computers_cmp_loadavg a b = cmp_falling (loads a) (loads b)"
  by (auto simp: computers_cmp_loadavg_def cmp_falling_def Let_def loads_def)

interpretation by_number: comparator computers_cmp_id UNIV by (rule falling_comparator [of _ "\<lambda>c. hw_id (hwinfo c)"]) (simp only: computers_cmp_id_def)
interpretation by_enabled: comparator computers_cmp_enabled UNIV
  by (rule falling_comparator [of _ "\<lambda>c. cl_enabled (c_limits c)"]) (simp only: computers_cmp_enabled_def)
interpretation by_running: comparator computers_cmp_running UNIV by (rule falling_comparator [of _ "\<lambda>c. ntasks (c_status c)"]) (simp only: computers_cmp_running_def)
interpretation by_host: comparator computers_cmp_name UNIV
  by (rule falling_comparator [of _ "\<lambda>c. codes (hw_name (hwinfo c))"]) (simp only: computers_cmp_name_def strcmp_falling)
interpretation by_os: comparator computers_cmp_os UNIV
  by (rule falling_comparator [of _ "\<lambda>c. codes (osstring (hw_os (hwinfo c)))"]) (simp only: computers_cmp_os_def strcmp_falling)
interpretation by_cpus: comparator computers_cmp_cpus UNIV by (rule falling_comparator [of _ "\<lambda>c. hw_ncpus (hwinfo c)"]) (simp only: computers_cmp_cpus_def)
interpretation by_loadavg: comparator computers_cmp_loadavg UNIV
  by (rule falling_comparator [of _ loads]) (fact loadavg_falling)

lemmas computer_comparators = by_number.comparator_axioms by_enabled.comparator_axioms by_running.comparator_axioms by_host.comparator_axioms
  by_os.comparator_axioms by_cpus.comparator_axioms by_loadavg.comparator_axioms

lemma upto_6: "P 0 \<Longrightarrow> P 1 \<Longrightarrow> P 2 \<Longrightarrow> P 3 \<Longrightarrow> P 4 \<Longrightarrow> P 5 \<Longrightarrow> P 6 \<Longrightarrow> k \<le> 6 \<Longrightarrow> P (k :: nat)"
  by (auto simp: numeral_eq_Suc le_Suc_eq)

lemma computers_cmp_comparator: "k \<le> 6 \<Longrightarrow> comparator (computers_cmp k) A"
  by (rule comparator_subset [of _ UNIV], erule upto_6 [rotated -1], simp_all add: computers_cmp_def computer_comparators)

lemma computers_cmp_le: "k \<le> 6 \<Longrightarrow> 0 \<le> computers_cmp k a b \<longleftrightarrow> computers_le k a b"
  by (erule upto_6 [rotated -1])
    (simp_all add: computers_cmp_def computers_le_def computers_cmp_id_def computers_cmp_enabled_def computers_cmp_running_def computers_cmp_name_def
      computers_cmp_os_def computers_cmp_cpus_def loadavg_falling strcmp_falling falling_le)

lemma computers_click:
  "k \<le> 6 \<Longrightarrow> computers_column_clicked s srt k (st, l) = (turn k st, Inr (sort_by srt (fst (turn k st)) (computers_cmp k) l))"
  by (erule upto_6 [rotated -1]) (simp_all add: computers_column_clicked_def computers_cmp_def Let_def)

text \<open>The pools: the lists whose names are in segments, joined within the buffers.\<close>

definition pools_shown :: "computer_limits \<Rightarrow> cstring shm \<Rightarrow> bool" where
  "pools_shown cl s \<longleftrightarrow> \<not> isl (pools_text cl s)"

lemma pools_falling:
  assumes "pools_shown (c_limits a) s" "pools_shown (c_limits b) s"
  shows "computers_cmp_pools s a b = Inr (cmp_falling (codes (projr (pools_text (c_limits a) s))) (codes (projr (pools_text (c_limits b) s))))"
proof -
  obtain pa pb where p: "pools_text (c_limits a) s = Inr pa" "pools_text (c_limits b) s = Inr pb"
    using assms by (auto simp: pools_shown_def isl_def) (metis sum.exhaust)
  show ?thesis unfolding computers_cmp_pools_def p andThen_simps sum.sel using strcmp_falling [of pa pb] by (simp add: Let_def)
qed


definition pools_key :: "cstring shm \<Rightarrow> computer \<Rightarrow> nat list" where
  "pools_key s c = codes (projr (pools_text (c_limits c) s))"

lemma comparator_eq:
  assumes "comparator f A" "\<And>a b. a \<in> A \<Longrightarrow> b \<in> A \<Longrightarrow> g a b = f a b"
  shows "comparator g A"
proof
  show "g b a = - g a b" if "a \<in> A" "b \<in> A" for a b using comparator.flip [OF assms(1) that] assms(2) that by simp
  show "0 \<le> g a c" if "a \<in> A" "b \<in> A" "c \<in> A" "0 \<le> g a b" "0 \<le> g b c" for a b c
    using comparator.trans [OF assms(1) that(1-3)] assms(2) that by simp
qed

lemma pools_compared:
  assumes "\<forall>c \<in> A. pools_shown (c_limits c) s" "a \<in> A" "b \<in> A"
  shows "computers_cmp_pools s a b = Inr (cmp_falling (pools_key s a) (pools_key s b))"
  unfolding pools_key_def by (rule pools_falling) (use assms in simp_all)

lemma pools_comparator:
  assumes "\<forall>c \<in> A. pools_shown (c_limits c) s"
  shows "comparator (\<lambda>a b. projr (computers_cmp_pools s a b)) A"
  by (rule comparator_eq [OF falling_comparator, of _ "pools_key s"], rule refl) (simp only: pools_compared [OF assms] sum.sel)

text \<open>The same for the computers; their pools must be legible.\<close>

theorem computers_click_orders:
  assumes "sorts srt" "k \<le> 7" "lastClick \<noteq> k" "\<forall>c \<in> set (cl_rows l). pools_shown (c_limits c) s"
  shows "\<exists>l1. computers_column_clicked s srt k ((dir, lastClick), l) = ((Descending, k), Inr l1) \<and> mset (cl_rows l1) = mset (cl_rows l) \<and>
    sorted_wrt (if k = 7 then (\<lambda>a b. pools_key s a \<le> pools_key s b) else computers_le k) (cl_rows l1)"
proof -
  have t: "turn k (dir, lastClick) = (Descending, k)" using assms(3) by (simp add: turn_def other_def)
  have d: "(Descending = Ascending) = False" by simp
  show ?thesis
  proof (cases "k = 7")
    case False
    then have k: "k \<le> 6" using assms(2) by simp
    note r = sorts_falling [OF assms(1) computers_cmp_comparator [OF k], where l = l and d = Descending, unfolded computers_cmp_le [OF k] d if_False]
    show ?thesis unfolding computers_click [OF k] t fst_conv if_not_P [OF False] by (intro exI conjI, rule refl, rule r(1), rule r(2))
  next
    case True
    let ?cmp = "\<lambda>a b. projr (computers_cmp_pools s a b)"
    have w: "whole (computers_cmp_pools s) (cl_rows l)"
      unfolding whole_def by (intro ballI) (simp only: pools_compared [OF assms(4)] sum.disc not_False_eq_True)
    have c: "computers_column_clicked s srt 7 ((dir, lastClick), l) = ((Descending, 7), Inr (sort_by srt Descending ?cmp l))"
      using t unfolding computers_column_clicked_def True sort_whole_def prod.case Let_def if_P [OF w] by simp
    note r = sorts_falling [OF assms(1) pools_comparator [OF assms(4)], where d = Descending, unfolded d if_False]
    have "sorted_wrt (\<lambda>a b. pools_key s a \<le> pools_key s b) (cl_rows (sort_by srt Descending ?cmp l))"
    proof (rule sorted_wrt_mono_rel [OF _ r(2)])
      fix a b
      assume "a \<in> set (cl_rows (sort_by srt Descending ?cmp l))" "b \<in> set (cl_rows (sort_by srt Descending ?cmp l))" "0 \<le> ?cmp a b"
      then show "pools_key s a \<le> pools_key s b"
        unfolding mset_eq_setD [OF r(1)] by (simp only: pools_compared [OF assms(4)] sum.sel falling_le)
    qed
    with c r(1) show ?thesis unfolding True by simp
  qed
qed


section \<open>The columns of frames\<close>

text \<open>The rows are frames of the job with their right indices, and the bytes and indices that are cut are small.\<close>

definition frame_row :: "job \<Rightarrow> frame_info list \<Rightarrow> u32 \<Rightarrow> frame_info option" where
  "frame_row j fi frame = (case job_frame_number_to_index j frame of Inl _ \<Rightarrow> None
     | Inr i \<Rightarrow> if unat i < length fi then Some (fi ! unat i) else None)"

definition rows_ok :: "job \<Rightarrow> frame_info list \<Rightarrow> u32 list \<Rightarrow> bool" where
  "rows_ok j fi rows \<longleftrightarrow> length fi \<le> 65536 \<and> (\<forall>r \<in> set rows. case frame_row j fi r of None \<Rightarrow> False
     | Some f \<Rightarrow> unat (fi_status f) < 128 \<and> unat (fi_exitcode f) < 128 \<and> unat (fi_requeued f) < 128)"

definition frame_value :: "nat \<Rightarrow> frame_info \<Rightarrow> nat" where
  "frame_value k f = [0, unat (fi_status f), unat (fi_requeued f), unat (fi_start_time f), unat (fi_end_time f), unat (fi_exitcode f), unat (fi_icomp f)] ! k"

definition row_value :: "job \<Rightarrow> frame_info list \<Rightarrow> nat \<Rightarrow> u32 \<Rightarrow> nat" where
  "row_value j fi k r = (if k = 0 then unat r else case frame_row j fi r of None \<Rightarrow> 0 | Some f \<Rightarrow> frame_value k f)"

lemma schar_small: "unat (w :: 'a::len word) < 128 \<Longrightarrow> schar w = int (unat w)"
proof -
  assume w: "unat w < 128"
  then have u: "unat (ucast w :: 8 word) = unat w" by (simp add: unsigned_ucast_eq take_bit_nat_eq_self)
  then have "uint (ucast w :: 8 word) = int (unat w)" by (simp flip: u)
  moreover have "uint w < 128" using w by (metis of_nat_less_iff of_nat_numeral of_nat_unat)
  moreover have "- 128 \<le> uint w" by (rule order_trans [OF _ unsigned_greater_eq]) simp
  ultimately show ?thesis unfolding schar_def by (simp add: sint_uint signed_take_bit_int_eq_self_iff)
qed


lemma rising_le: "0 \<le> cmp_rising a b \<longleftrightarrow> b \<le> a"
  by (auto simp: cmp_rising_def)

lemma rising_word: "cmp_rising (a :: 'a::len word) b = cmp_rising (unat a) (unat b)"
  by (simp add: cmp_rising_def word_less_nat_alt word_unat_eq_iff)

lemma rising_int: "cmp_rising (int a) (int b) = cmp_rising a b"
  by (simp add: cmp_rising_def)

lemma rising_uint: "cmp_rising (uint a) (uint b) = cmp_rising (unat a) (unat b)"
  using rising_int [of "unat a" "unat b"] by simp

lemma rising_comparator: "comparator (\<lambda>a b. cmp_rising (key a) (key b)) A"
  by unfold_locales (auto simp: rising_le, auto simp: cmp_rising_def)

lemma row_found:
  assumes "rows_ok j fi rows" "r \<in> set rows"
  obtains f where "frame_row j fi r = Some f" "frame_at unat j fi r = Inr f" "frame_at index16 j fi r = Inr f"
    "unat (fi_status f) < 128" "unat (fi_exitcode f) < 128" "unat (fi_requeued f) < 128"
proof -
  obtain f where f: "frame_row j fi r = Some f" "unat (fi_status f) < 128" "unat (fi_exitcode f) < 128" "unat (fi_requeued f) < 128"
    using assms by (auto simp: rows_ok_def split: option.splits)
  then obtain i where i: "job_frame_number_to_index j r = Inr i" "unat i < length fi" "f = fi ! unat i"
    by (auto simp: frame_row_def split: sum.splits if_splits)
  have l: "length fi \<le> 65536" using assms(1) by (simp add: rows_ok_def)
  have "unat (ucast i :: u16) = unat i" using i(2) l by (simp add: unsigned_ucast_eq take_bit_nat_eq_self)
  then have "frame_at unat j fi r = Inr f" "frame_at index16 j fi r = Inr f" using i by (simp_all add: frame_at_def index16_def rd_def)
  then show ?thesis using that f by blast
qed

definition frames_cmp :: "nat \<Rightarrow> job \<Rightarrow> frame_info list \<Rightarrow> u32 \<Rightarrow> u32 \<Rightarrow> fault + int" where
  "frames_cmp k = [(\<lambda>j fi ra rb. Inr (jdd_framelist_cmp_frame ra rb)), jdd_framelist_cmp_status, jdd_framelist_cmp_requeued, jdd_framelist_cmp_start_time,
     jdd_framelist_cmp_end_time, jdd_framelist_cmp_exitcode, jdd_framelist_cmp_icomp] ! k"

lemma frames_cmp_value:
  assumes "rows_ok j fi rows" "a \<in> set rows" "b \<in> set rows" "k \<le> 6"
  shows "frames_cmp k j fi a b = Inr (cmp_rising (row_value j fi k a) (row_value j fi k b))"
proof -
  obtain f where f: "frame_row j fi a = Some f" "frame_at unat j fi a = Inr f" "frame_at index16 j fi a = Inr f"
    "unat (fi_status f) < 128" "unat (fi_exitcode f) < 128" "unat (fi_requeued f) < 128" by (rule row_found [OF assms(1,2)])
  obtain g where g: "frame_row j fi b = Some g" "frame_at unat j fi b = Inr g" "frame_at index16 j fi b = Inr g"
    "unat (fi_status g) < 128" "unat (fi_exitcode g) < 128" "unat (fi_requeued g) < 128" by (rule row_found [OF assms(1,3)])
  show ?thesis
    using assms(4)
    by (rule upto_6 [rotated -1])
      (simp_all add: frames_cmp_def row_value_def frame_value_def f g schar_small rising_uint rising_word jdd_framelist_cmp_frame_def jdd_framelist_cmp_status_def
        jdd_framelist_cmp_requeued_def jdd_framelist_cmp_start_time_def jdd_framelist_cmp_end_time_def jdd_framelist_cmp_exitcode_def jdd_framelist_cmp_icomp_def)
qed

lemma frames_comparator:
  assumes "rows_ok j fi rows" "k \<le> 6"
  shows "comparator (\<lambda>a b. projr (frames_cmp k j fi a b)) (set rows)"
  by (rule comparator_eq [OF rising_comparator [of "row_value j fi k"]]) (simp only: frames_cmp_value [OF assms(1) _ _ assms(2)] sum.sel)


lemma frames_click_whole:
  "k \<le> 6 \<Longrightarrow> whole (frames_cmp k j fi) (cl_rows l) \<longrightarrow> jdd_framelist_column_clicked j fi srt k (dir, l) =
    (other dir, Inr (sort_by srt (other dir) (\<lambda>a b. projr (frames_cmp k j fi a b)) l))"
  by (erule upto_6 [rotated -1]) (simp_all add: jdd_framelist_column_clicked_def frames_cmp_def sort_whole_def Let_def)

lemma frames_click:
  assumes "rows_ok j fi (cl_rows l)" "k \<le> 6"
  shows "jdd_framelist_column_clicked j fi srt k (dir, l) =
    (other dir, Inr (sort_by srt (other dir) (\<lambda>a b. projr (frames_cmp k j fi a b)) l))"
proof -
  have "whole (frames_cmp k j fi) (cl_rows l)"
    unfolding whole_def by (intro ballI) (simp only: frames_cmp_value [OF assms(1) _ _ assms(2)] sum.disc not_False_eq_True)
  then show ?thesis using frames_click_whole [OF assms(2)] by blast
qed

lemma sorted_by_value:
  assumes "sorts srt" "rows_ok j fi (cl_rows l)" "k \<le> 6" "r = sort_by srt d (\<lambda>a b. projr (frames_cmp k j fi a b)) l"
  shows "mset (cl_rows r) = mset (cl_rows l)"
    "sorted_wrt (\<lambda>a b. if d = Ascending then row_value j fi k a \<le> row_value j fi k b else row_value j fi k b \<le> row_value j fi k a) (cl_rows r)"
proof -
  let ?cmp = "\<lambda>a b. projr (frames_cmp k j fi a b)"
  note s = sorts_falling [OF assms(1) frames_comparator [OF assms(2,3)], where d = d, folded assms(4)]
  show m: "mset (cl_rows r) = mset (cl_rows l)" by (rule s(1))
  show "sorted_wrt (\<lambda>a b. if d = Ascending then row_value j fi k a \<le> row_value j fi k b else row_value j fi k b \<le> row_value j fi k a) (cl_rows r)"
  proof (rule sorted_wrt_mono_rel [OF _ s(2)])
    fix a b
    assume ab: "a \<in> set (cl_rows r)" "b \<in> set (cl_rows r)" and le: "if d = Ascending then 0 \<le> ?cmp b a else 0 \<le> ?cmp a b"
    have "a \<in> set (cl_rows l)" "b \<in> set (cl_rows l)" using ab unfolding mset_eq_setD [OF m] .
    then show "if d = Ascending then row_value j fi k a \<le> row_value j fi k b else row_value j fi k b \<le> row_value j fi k a"
      using le by (cases d) (simp_all add: frames_cmp_value [OF assms(2) _ _ assms(3)] rising_le)
  qed
qed

text \<open>The list of the frames of a job: when no frame was requeued 128 times or more, no exit code is 128 or more and there are at most 65536
  frames, the first click on any heading puts the frames with the greatest values of that column first - numbers of frames, of times requeued and of
  computers, exit codes, states and times -, the next one those with the smallest, and no row is lost.\<close>

theorem frames_click_orders:
  assumes "sorts srt" "k \<le> 6" "rows_ok j fi (cl_rows l)"
  shows "\<exists>l1 l2. jdd_framelist_column_clicked j fi srt k (Ascending, l) = (Descending, Inr l1) \<and>
    jdd_framelist_column_clicked j fi srt k (Descending, l1) = (Ascending, Inr l2) \<and>
    mset (cl_rows l1) = mset (cl_rows l) \<and> sorted_wrt (\<lambda>a b. row_value j fi k b \<le> row_value j fi k a) (cl_rows l1) \<and>
    mset (cl_rows l2) = mset (cl_rows l) \<and> sorted_wrt (\<lambda>a b. row_value j fi k a \<le> row_value j fi k b) (cl_rows l2)"
proof -
  let ?cmp = "\<lambda>a b. projr (frames_cmp k j fi a b)"
  define l1 where "l1 = sort_by srt Descending ?cmp l"
  define l2 where "l2 = sort_by srt Ascending ?cmp l1"
  note 1 = sorted_by_value [OF assms(1,3,2) l1_def]
  have ok: "rows_ok j fi (cl_rows l1)" using assms(3) mset_eq_setD [OF 1(1)] by (simp add: rows_ok_def)
  note 2 = sorted_by_value [OF assms(1) ok assms(2) l2_def]
  have oth: "other Ascending = Descending" "other Descending = Ascending" by (simp_all add: other_def)
  have d: "(Descending = Ascending) = False" "(Ascending = Ascending) = True" by simp_all
  show ?thesis
    using 1 2 frames_click [OF assms(3,2), of srt Ascending] frames_click [OF ok assms(2), of srt Descending]
    unfolding oth d if_True if_False l1_def [symmetric] l2_def [symmetric]
    by (intro exI [of _ l1] exI [of _ l2] conjI) simp_all
qed

text \<open>Beyond these bounds the order is another: a frame that was requeued 200 times comes before one that never was.\<close>

lemma many_requeues_sort_first:
  assumes "frame_at unat j fi a = Inr f" "frame_at unat j fi b = Inr g" "fi_requeued f = 200" "fi_requeued g = 0"
  shows "jdd_framelist_cmp_requeued j fi a b = Inr (-1)"
  using assms by (simp add: jdd_framelist_cmp_requeued_def schar_def cmp_rising_def)

section \<open>Lists of an example\<close>

text \<open>Sorting by insertion is one way to do what the toolkit does.\<close>

fun insert_row :: "('r \<Rightarrow> 'r \<Rightarrow> bool) \<Rightarrow> 'r \<Rightarrow> 'r list \<Rightarrow> 'r list" where
  "insert_row le x [] = [x]"
| "insert_row le x (y # ys) = (if le x y then x # y # ys else y # insert_row le x ys)"

definition sort_with :: "'r sorting" where
  "sort_with d cmp xs = foldr (insert_row (\<lambda>a b. if d = Ascending then cmp a b \<le> 0 else 0 \<le> cmp a b)) xs []"

lemma mset_insert_row: "mset (insert_row le x xs) = add_mset x (mset xs)"
  by (induction xs) auto

lemma sorted_insert_row:
  assumes "\<And>a b. a \<in> A \<Longrightarrow> b \<in> A \<Longrightarrow> le a b \<or> le b a" "\<And>a b c. a \<in> A \<Longrightarrow> b \<in> A \<Longrightarrow> c \<in> A \<Longrightarrow> le a b \<Longrightarrow> le b c \<Longrightarrow> le a c"
    and "x \<in> A" "set xs \<subseteq> A" "sorted_wrt le xs"
  shows "sorted_wrt le (insert_row le x xs)"
  using assms(4,5)
proof (induction xs)
  case (Cons y ys)
  have set: "set (insert_row le x ys) = insert x (set ys)" using mset_insert_row [of le x ys] by (metis set_mset_add_mset_insert set_mset_mset)
  show ?case
  proof (cases "le x y")
    case True
    then have "\<forall>z \<in> set ys. le x z" using Cons.prems assms(2) [of x y] assms(3) by auto
    then show ?thesis using True Cons.prems by simp
  next
    case False
    then have "le y x" using assms(1) [of x y] assms(3) Cons.prems(1) by simp
    then show ?thesis using False Cons set by simp
  qed
qed simp

lemma sorted_insertion:
  assumes "\<And>a b. a \<in> A \<Longrightarrow> b \<in> A \<Longrightarrow> le a b \<or> le b a" "\<And>a b c. a \<in> A \<Longrightarrow> b \<in> A \<Longrightarrow> c \<in> A \<Longrightarrow> le a b \<Longrightarrow> le b c \<Longrightarrow> le a c"
    and "set xs \<subseteq> A"
  shows "mset (foldr (insert_row le) xs []) = mset xs \<and> sorted_wrt le (foldr (insert_row le) xs [])"
  using assms(3)
proof (induction xs)
  case (Cons x xs)
  then have m: "mset (foldr (insert_row le) xs []) = mset xs" and s: "sorted_wrt le (foldr (insert_row le) xs [])" by simp_all
  have A: "x \<in> A" "set (foldr (insert_row le) xs []) \<subseteq> A" using Cons.prems mset_eq_setD [OF m] by simp_all
  show ?case using sorted_insert_row [OF assms(1,2) A s] m by (simp add: mset_insert_row)
qed simp

lemma sort_with_sorts: "sorts sort_with"
proof -
  have "mset (sort_with d cmp xs) = mset xs \<and> sorted_wrt (\<lambda>a b. if d = Ascending then cmp a b \<le> 0 else 0 \<le> cmp a b) (sort_with d cmp xs)"
    if c: "comparator cmp (set xs)" for d and cmp :: "'a \<Rightarrow> 'a \<Rightarrow> int" and xs
    unfolding sort_with_def
  proof (rule sorted_insertion [OF _ _ subset_refl])
    show "(if d = Ascending then cmp a b \<le> 0 else 0 \<le> cmp a b) \<or> (if d = Ascending then cmp b a \<le> 0 else 0 \<le> cmp b a)"
      if "a \<in> set xs" "b \<in> set xs" for a b
      using comparator.linear [OF c that] comparator.flip [OF c that] by (cases d) auto
    show "if d = Ascending then cmp a e \<le> 0 else 0 \<le> cmp a e"
      if "a \<in> set xs" "b \<in> set xs" "e \<in> set xs" "if d = Ascending then cmp a b \<le> 0 else 0 \<le> cmp a b"
        "if d = Ascending then cmp b e \<le> 0 else 0 \<le> cmp b e" for a b e
      using that comparator.trans [OF c that(1-3)] comparator.trans [OF c that(3,2,1)] comparator.flip [OF c that(1,2)]
        comparator.flip [OF c that(2,3)] comparator.flip [OF c that(1,3)] by (cases d) auto
  qed
  then show ?thesis unfolding sorts_def by blast
qed


definition short_job :: job where
  "short_job = render_job\<lparr>j_name := ''b'', j_priority := 700\<rparr>"

theorem jobs_click_orders_witness:
  "\<exists>st1 l1 st2 l2. jobs_column_clicked sort_with 9 ((Ascending, 0), jobs_clist\<lparr>cl_rows := [short_job, render_job]\<rparr>) = (st1, l1) \<and>
     jobs_column_clicked sort_with 9 (st1, l1) = (st2, l2) \<and> sorted_wrt (jobs_le 9) (cl_rows l1) \<and> mset (cl_rows l1) = {#short_job, render_job#} \<and>
     cl_rows (drqm_update_joblist sort_with [render_job] l2) = [render_job]"
proof -
  obtain st1 l1 where 1: "jobs_column_clicked sort_with 9 ((Ascending, 0), jobs_clist\<lparr>cl_rows := [short_job, render_job]\<rparr>) = (st1, l1)" by fastforce
  obtain st2 l2 where 2: "jobs_column_clicked sort_with 9 (st1, l1) = (st2, l2)" by fastforce
  have "mset (cl_rows (drqm_update_joblist sort_with [render_job] l2)) = mset [render_job]"
    "mset (cl_rows l1) = mset [short_job, render_job]" "sorted_wrt (jobs_le 9) (cl_rows l1)"
    using jobs_click_orders [OF sort_with_sorts _ _ 1 2, of "[render_job]"] by simp_all
  then show ?thesis using 1 2 by (intro exI [of _ st1] exI [of _ l1] exI [of _ st2] exI [of _ l2]) simp
qed

theorem frames_click_orders_witness:
  "\<exists>l1. jdd_framelist_column_clicked example_job (replicate 4 zero_frame) sort_with 2 (Ascending, \<lparr>cl_type = Ascending,
      cl_cmp = jdd_framelist_cmp_frame, cl_rows = [1, 7]\<rparr>) = (Descending, Inr l1) \<and> mset (cl_rows l1) = {#1, 7#}"
proof -
  have ok: "rows_ok example_job (replicate 4 zero_frame) (cl_rows \<lparr>cl_type = Ascending, cl_cmp = jdd_framelist_cmp_frame, cl_rows = [1, 7 :: u32]\<rparr>)"
    by (simp add: rows_ok_def frame_row_def job_frame_number_to_index_def example_job_def zero_job_def zero_frame_def)
  show ?thesis using frames_click_orders [OF sort_with_sorts _ ok, of 2] by auto
qed

end
