(* ===== verification/Manager.thy ===== *)
theory Manager
  imports Rows Dialog
begin

text \<open>
  What the manager asks for (\<open>drqman/drqm_request.c\<close>, \<open>drqm_jobs.c\<close>, \<open>drqm_jobs_jdd.c\<close>, \<open>drqm_computers.c\<close>): the menus and the windows with the
  details of a job and of a computer, as far as they send requests, and the lists that are fetched from the master.
  Every request has a connection of its own.
\<close>

section \<open>Requests\<close>

definition drqm_request_job_delete :: "u32 \<Rightarrow> conn option \<Rightarrow> unit reply" where
  "drqm_request_job_delete jobid = request_job_delete jobid CLIENT"

definition drqm_request_job_stop :: "u32 \<Rightarrow> conn option \<Rightarrow> unit reply" where
  "drqm_request_job_stop jobid = request_job_stop jobid CLIENT"

definition drqm_request_job_hstop :: "u32 \<Rightarrow> conn option \<Rightarrow> unit reply" where
  "drqm_request_job_hstop jobid = request_job_hstop jobid CLIENT"

definition drqm_request_job_continue :: "u32 \<Rightarrow> conn option \<Rightarrow> unit reply" where
  "drqm_request_job_continue jobid = request_job_continue jobid CLIENT"

definition drqm_request_job_rerun :: "u32 \<Rightarrow> conn option \<Rightarrow> unit reply" where
  "drqm_request_job_rerun jobid = request_job_rerun jobid CLIENT"

definition drqm_request_job_frame_waiting :: "u32 \<Rightarrow> u32 \<Rightarrow> conn option \<Rightarrow> unit reply" where
  "drqm_request_job_frame_waiting jobid frame = request_job_frame_waiting jobid frame CLIENT"

definition drqm_request_job_frame_kill :: "u32 \<Rightarrow> u32 \<Rightarrow> conn option \<Rightarrow> unit reply" where
  "drqm_request_job_frame_kill jobid frame = request_job_frame_kill jobid frame CLIENT"

definition drqm_request_job_frame_finish :: "u32 \<Rightarrow> u32 \<Rightarrow> conn option \<Rightarrow> unit reply" where
  "drqm_request_job_frame_finish jobid frame = request_job_frame_finish jobid frame CLIENT"

definition drqm_request_job_frame_reset_requeued :: "u32 \<Rightarrow> u32 \<Rightarrow> conn option \<Rightarrow> unit reply" where
  "drqm_request_job_frame_reset_requeued jobid frame = request_job_frame_reset_requeued jobid frame CLIENT"

definition drqm_request_job_frame_kill_finish :: "u32 \<Rightarrow> u32 \<Rightarrow> conn option \<Rightarrow> unit reply" where
  "drqm_request_job_frame_kill_finish jobid frame = request_job_frame_kill_finish jobid frame CLIENT"

definition drqm_request_job_sesupdate :: "u32 \<Rightarrow> u32 \<Rightarrow> u32 \<Rightarrow> u32 \<Rightarrow> u32 \<Rightarrow> conn option \<Rightarrow> unit reply" where
  "drqm_request_job_sesupdate jobid fstart fend fstep bsize = request_job_sesupdate jobid fstart fend fstep bsize CLIENT"

definition drqm_request_job_limits_nmaxcpus_set :: "u32 \<Rightarrow> u16 \<Rightarrow> conn option \<Rightarrow> unit reply" where
  "drqm_request_job_limits_nmaxcpus_set jobid nmaxcpus = request_job_limits_nmaxcpus_set jobid nmaxcpus CLIENT"

definition drqm_request_job_limits_nmaxcpuscomputer_set :: "u32 \<Rightarrow> u16 \<Rightarrow> conn option \<Rightarrow> unit reply" where
  "drqm_request_job_limits_nmaxcpuscomputer_set jobid n = request_job_limits_nmaxcpuscomputer_set jobid n CLIENT"

definition drqm_request_job_priority_update :: "u32 \<Rightarrow> u32 \<Rightarrow> conn option \<Rightarrow> unit reply" where
  "drqm_request_job_priority_update jobid priority = request_job_priority_update jobid priority CLIENT"

text \<open>To a slave, by its address; the connection is the one to it.\<close>

definition drqm_request_slave_limits_nmaxcpus_set :: "u32 \<Rightarrow> conn option \<Rightarrow> unit reply" where
  "drqm_request_slave_limits_nmaxcpus_set nmaxcpus = request_slave_limits_nmaxcpus_set nmaxcpus CLIENT"

definition drqm_request_slave_limits_maxfreeloadcpu_set :: "u32 \<Rightarrow> conn option \<Rightarrow> unit reply" where
  "drqm_request_slave_limits_maxfreeloadcpu_set maxfreeloadcpu = request_slave_limits_maxfreeloadcpu_set maxfreeloadcpu CLIENT"

definition drqm_request_slave_limits_autoenable_set :: "u32 \<Rightarrow> u32 \<Rightarrow> u8 \<Rightarrow> conn option \<Rightarrow> unit reply" where
  "drqm_request_slave_limits_autoenable_set h m flags = request_slave_limits_autoenable_set h m flags CLIENT"

definition drqm_request_slave_limits_pool_add :: "u32 \<Rightarrow> cstring \<Rightarrow> conn option \<Rightarrow> unit reply" where
  "drqm_request_slave_limits_pool_add junk pool = request_slave_limits_pool_add junk pool CLIENT"

definition drqm_request_slave_limits_pool_remove :: "u32 \<Rightarrow> cstring \<Rightarrow> conn option \<Rightarrow> unit reply" where
  "drqm_request_slave_limits_pool_remove junk pool = request_slave_limits_pool_remove junk pool CLIENT"

definition drqm_request_slave_limits_enabled_set :: "u8 \<Rightarrow> conn option \<Rightarrow> unit reply" where
  "drqm_request_slave_limits_enabled_set enabled = request_slave_limits_enabled_set enabled CLIENT"

section \<open>The page of the jobs\<close>

text \<open>
  \<open>jp_jobs\<close> is what was fetched, \<open>None\<close> a record that never arrived; \<open>jp_conns\<close> are the connections that the next requests get, and
  \<open>jp_sent\<close> those that are over.  A window of details has a page of its own.
\<close>

record jobs_page =
  jp_jobs :: "job option list"
  jp_clist :: "job clist"
  jp_ijob :: u32
  jp_row :: int
  jp_selected :: bool
  jp_details :: "job option"
  jp_conns :: "conn option list"
  jp_sent :: "conn option list"
  jp_world :: master
  jp_junk :: u32

definition page_asks :: "(conn option \<Rightarrow> 'a reply) \<Rightarrow> jobs_page \<Rightarrow> jobs_page" where
  "page_asks f p = (case jp_conns p of [] \<Rightarrow> p\<lparr>jp_sent := jp_sent p @ [None]\<rparr>
     | c # cs \<Rightarrow> p\<lparr>jp_conns := cs, jp_sent := jp_sent p @ [snd (f c)]\<rparr>)"

fun free_job_list :: "job option list \<Rightarrow> master \<Rightarrow> fault + master" where
  "free_job_list [] w = Inr w"
| "free_job_list (None # js) w = Inl WildPointer"
| "free_job_list (Some j # js) w = free_job_list js (snd (job_delete j w))"

definition drqm_clean_joblist :: "jobs_page \<Rightarrow> fault + jobs_page" where
  "drqm_clean_joblist p = andThen (free_job_list (jp_jobs p) (jp_world p)) (\<lambda>w. Inr (p\<lparr>jp_jobs := [], jp_world := w\<rparr>))"

definition drqm_request_joblist :: "jobs_page \<Rightarrow> fault + jobs_page" where
  "drqm_request_joblist p =
     (let (sfd, cs) = (case jp_conns p of [] \<Rightarrow> (None, []) | c # cs \<Rightarrow> (c, cs))
      in andThen (request_job_list (jp_junk p) CLIENT sfd (jp_world p)) (\<lambda>r.
           let p = p\<lparr>jp_conns := cs, jp_sent := jp_sent p @ [snd r]\<rparr>
           in case fst r of
               Inl _ \<Rightarrow> andThen (drqm_clean_joblist p) (\<lambda>p. Inr (p\<lparr>jp_jobs := []\<rparr>))
             | Inr (njobs, js, w) \<Rightarrow> andThen (drqm_clean_joblist (p\<lparr>jp_world := w\<rparr>)) (\<lambda>p. Inr (p\<lparr>jp_jobs := js\<rparr>))))"

text \<open>The rows point to the records.\<close>

definition show_joblist :: "job sorting \<Rightarrow> jobs_page \<Rightarrow> fault + jobs_page" where
  "show_joblist srt p =
     (if None \<in> set (jp_jobs p) then Inl WildPointer
      else Inr (p\<lparr>jp_clist := drqm_update_joblist srt (map the (jp_jobs p)) (jp_clist p)\<rparr>))"

definition update_joblist :: "job sorting \<Rightarrow> jobs_page \<Rightarrow> fault + jobs_page" where
  "update_joblist srt p = andThen (drqm_request_joblist p) (show_joblist srt)"

text \<open>The button, and the timer that refreshes the list.\<close>

definition AutoRefreshUpdate :: "job sorting \<Rightarrow> jobs_page \<Rightarrow> fault + jobs_page" where
  "AutoRefreshUpdate srt p = andThen (drqm_request_joblist p) (show_joblist srt)"

text \<open>The right button of the mouse on row \<open>r\<close>, or beside the rows: the number in the first column is looked for in the records.\<close>

definition last_with_id :: "u32 \<Rightarrow> job option list \<Rightarrow> fault + int" where
  "last_with_id i js = (if None \<in> set js then Inl WildPointer
     else Inr (foldl (\<lambda>row k. if j_id (the (js ! k)) = i then int k else row) (-1) [0..<length js]))"

definition PopupMenu :: "nat option \<Rightarrow> jobs_page \<Rightarrow> fault + bool \<times> jobs_page" where
  "PopupMenu hit p =
     (case hit of None \<Rightarrow> Inr (True, p\<lparr>jp_selected := False\<rparr>)
      | Some r \<Rightarrow> andThen (rd (cl_rows (jp_clist p)) r) (\<lambda>j.
          let ijob = atoi (print_i (j_id j))
          in andThen (last_with_id ijob (jp_jobs p)) (\<lambda>row.
               Inr (row \<noteq> -1, p\<lparr>jp_selected := True, jp_ijob := ijob, jp_row := row\<rparr>))))"

definition record_at :: "int \<Rightarrow> jobs_page \<Rightarrow> fault + job" where
  "record_at row p = (if row < 0 then Inl OutOfBounds else andThen (rd (jp_jobs p) (nat row)) (\<lambda>j. case j of None \<Rightarrow> Inl WildPointer | Some j \<Rightarrow> Inr j))"

definition job_of_menu :: "jobs_page \<Rightarrow> fault + job" where
  "job_of_menu p = (case jp_details p of Some j \<Rightarrow> Inr j | None \<Rightarrow> record_at (jp_row p) p)"

definition StopJob :: "job sorting \<Rightarrow> jobs_page \<Rightarrow> fault + jobs_page" where
  "StopJob srt p = (if \<not> jp_selected p then Inr p
     else andThen (job_of_menu p) (\<lambda>j. update_joblist srt (page_asks (drqm_request_job_stop (j_id j)) p)))"

definition ContinueJob :: "job sorting \<Rightarrow> jobs_page \<Rightarrow> fault + jobs_page" where
  "ContinueJob srt p = (if \<not> jp_selected p then Inr p
     else andThen (job_of_menu p) (\<lambda>j. update_joblist srt (page_asks (drqm_request_job_continue (j_id j)) p)))"

text \<open>The other three ask first; these are the answers \<open>Yes\<close>.\<close>

definition job_rerun_cb :: "jobs_page \<Rightarrow> fault + jobs_page" where
  "job_rerun_cb p = andThen (job_of_menu p) (\<lambda>j. Inr (page_asks (drqm_request_job_rerun (j_id j)) p))"

definition job_hstop_cb :: "jobs_page \<Rightarrow> fault + jobs_page" where
  "job_hstop_cb p = andThen (job_of_menu p) (\<lambda>j. Inr (page_asks (drqm_request_job_hstop (j_id j)) p))"

text \<open>All the selected rows are deleted, or the one under the menu when none is.\<close>

fun delete_rows :: "nat list \<Rightarrow> jobs_page \<Rightarrow> fault + jobs_page" where
  "delete_rows [] p = Inr p"
| "delete_rows (r # sel) p = andThen (rd (cl_rows (jp_clist p)) r) (\<lambda>j.
     delete_rows sel (page_asks (drqm_request_job_delete (j_id j)) p))"

definition djd_bok_pressed :: "job sorting \<Rightarrow> nat list \<Rightarrow> jobs_page \<Rightarrow> fault + jobs_page" where
  "djd_bok_pressed srt sel p =
     (case jp_details p of
        Some j \<Rightarrow> Inr (page_asks (drqm_request_job_delete (j_id j)) p\<lparr>jp_details := None\<rparr>)
      | None \<Rightarrow>
          andThen (if sel = [] then andThen (record_at (jp_row p) p) (\<lambda>j. Inr (page_asks (drqm_request_job_delete (j_id j)) p))
                   else delete_rows sel p) (update_joblist srt))"

section \<open>The frames of a job\<close>

text \<open>The window of one job: the frames that its rows stand for, the selected rows, and the positions of the selected blocked hosts.\<close>

fun each :: "('x \<Rightarrow> conn option \<Rightarrow> unit reply) \<Rightarrow> 'x list \<Rightarrow> conn option list \<Rightarrow> conn option list \<times> conn option list" where
  "each f [] cs = ([], cs)"
| "each f (x # xs) [] = (case each f xs [] of (sent, cs) \<Rightarrow> (snd (f x None) # sent, cs))"
| "each f (x # xs) (c # cs) = (case each f xs cs of (sent, cs) \<Rightarrow> (snd (f x c) # sent, cs))"

definition jdd_requeue_frames :: "job \<Rightarrow> u32 list \<Rightarrow> conn option list \<Rightarrow> conn option list \<times> conn option list" where
  "jdd_requeue_frames j sel = each (\<lambda>frame. drqm_request_job_frame_waiting (j_id j) frame) sel"

definition jdd_kill_frames :: "job \<Rightarrow> u32 list \<Rightarrow> conn option list \<Rightarrow> conn option list \<times> conn option list" where
  "jdd_kill_frames j sel = each (\<lambda>frame. drqm_request_job_frame_kill (j_id j) frame) sel"

definition jdd_finish_frames :: "job \<Rightarrow> u32 list \<Rightarrow> conn option list \<Rightarrow> conn option list \<times> conn option list" where
  "jdd_finish_frames j sel = each (\<lambda>frame. drqm_request_job_frame_finish (j_id j) frame) sel"

definition jdd_frames_reset_requeued :: "job \<Rightarrow> u32 list \<Rightarrow> conn option list \<Rightarrow> conn option list \<times> conn option list" where
  "jdd_frames_reset_requeued j sel = each (\<lambda>frame. drqm_request_job_frame_reset_requeued (j_id j) frame) sel"

definition jdd_kill_finish_frames :: "job \<Rightarrow> u32 list \<Rightarrow> conn option list \<Rightarrow> conn option list \<times> conn option list" where
  "jdd_kill_finish_frames j sel = each (\<lambda>frame. drqm_request_job_frame_kill_finish (j_id j) frame) sel"

definition jdd_delete_blocked_host :: "job \<Rightarrow> u32 list \<Rightarrow> conn option list \<Rightarrow> conn option list \<times> conn option list" where
  "jdd_delete_blocked_host j sel = each (\<lambda>ipos. request_job_delete_blocked_host (j_id j) ipos CLIENT) sel"

text \<open>The names of the computers whose rows are selected, the last of the selection first.\<close>

definition jdd_add_blocked_host :: "job \<Rightarrow> cstring list \<Rightarrow> conn option list \<Rightarrow> conn option list \<times> conn option list" where
  "jdd_add_blocked_host j sel = each (\<lambda>name. request_job_block_host_by_name (j_id j) name CLIENT) (rev sel)"

text \<open>The little windows for one or four numbers; \<open>None\<close> when an entry is not a number.\<close>

definition jdd_sesframes_cd_bsumbit_pressed :: "job \<Rightarrow> cstring \<times> cstring \<times> cstring \<times> cstring \<Rightarrow> conn option \<Rightarrow> unit reply option" where
  "jdd_sesframes_cd_bsumbit_pressed j = (\<lambda>(s, e, st, b) sfd. case (scan_u s, scan_u e, scan_u st, scan_u b) of
       (Some s, Some e, Some st, Some b) \<Rightarrow>
         Some (drqm_request_job_sesupdate (j_id j) (of_int s) (of_int e) (of_int st) (of_int b) sfd)
     | _ \<Rightarrow> None)"

definition jdd_nmcd_bsumbit_pressed :: "cstring \<Rightarrow> job \<Rightarrow> conn option \<Rightarrow> (job \<times> unit reply) option" where
  "jdd_nmcd_bsumbit_pressed entry j sfd = (case scan_u entry of None \<Rightarrow> None
     | Some n \<Rightarrow> Some (j\<lparr>limits := (limits j)\<lparr>jl_nmaxcpus := of_int n\<rparr>\<rparr>, drqm_request_job_limits_nmaxcpus_set (j_id j) (of_int n) sfd))"

definition jdd_nmccd_bsumbit_pressed :: "cstring \<Rightarrow> job \<Rightarrow> conn option \<Rightarrow> (job \<times> unit reply) option" where
  "jdd_nmccd_bsumbit_pressed entry j sfd = (case scan_u entry of None \<Rightarrow> None
     | Some n \<Rightarrow> Some (j\<lparr>limits := (limits j)\<lparr>jl_nmaxcpuscomputer := of_int n\<rparr>\<rparr>, drqm_request_job_limits_nmaxcpuscomputer_set (j_id j) (of_int n) sfd))"

definition jdd_pcd_bsumbit_pressed :: "cstring \<Rightarrow> job \<Rightarrow> conn option \<Rightarrow> (job \<times> unit reply) option" where
  "jdd_pcd_bsumbit_pressed entry j sfd = (case scan_u entry of None \<Rightarrow> None
     | Some n \<Rightarrow> Some (j\<lparr>j_priority := of_int n\<rparr>, drqm_request_job_priority_update (j_id j) (of_int n) sfd))"

definition jdd_limits_lmemory_bcp_bokp :: "cstring \<Rightarrow> job \<Rightarrow> conn option \<Rightarrow> unit reply option" where
  "jdd_limits_lmemory_bcp_bokp entry j sfd = (case scan_u entry of None \<Rightarrow> None
     | Some n \<Rightarrow> Some (request_job_limits_memory_set (j_id j) (of_int n) CLIENT sfd))"

definition jdd_limits_lpool_bcp_bokp :: "cstring \<Rightarrow> job \<Rightarrow> conn option \<Rightarrow> unit reply" where
  "jdd_limits_lpool_bcp_bokp entry j sfd = request_job_limits_pool_set (j_id j) entry CLIENT sfd"

text \<open>The list of priorities sets the entry; another text leaves it.\<close>

definition jdd_pcd_cpri_changed :: "cstring \<Rightarrow> cstring \<Rightarrow> cstring" where
  "jdd_pcd_cpri_changed chosen entry =
     (if chosen = ''Highest'' then ''1000'' else if chosen = ''High'' then ''750'' else if chosen = ''Normal'' then ''500''
      else if chosen = ''Low'' then ''250'' else if chosen = ''Lowest'' then ''100'' else if chosen = ''Custom'' then ''500'' else entry)"

section \<open>The page of the computers\<close>

text \<open>
  The text of the last column; \<open>room\<close> is the size of its buffer.  A computer without pools, or one whose pools cannot be attached, leaves a
  smaller buffer to the computers after it, and \<open>strncpy\<close> fills the buffer to the length it is given.
\<close>

definition computerlist_pools :: "nat \<Rightarrow> computer_limits \<Rightarrow> cstring shm \<Rightarrow> fault + nat \<times> cstring" where
  "computerlist_pools room cl s =
     (if npools cl \<noteq> 0 then
        (case fst (computer_pool_attach_shared_memory (cl, s)) of
           None \<Rightarrow> Inr (28, ''Cannot attach shared memory'')
         | Some pool \<Rightarrow> andThen (rd pool 0) (\<lambda>p.
             if room \<le> length (snprintf BUFFERLEN p) \<or> 1 < npools cl \<and> room < BUFFERLEN - 1 then Inl OutOfBounds
             else andThen (pools_joined 1 (unat (npools cl) - 1) pool (snprintf BUFFERLEN p)) (\<lambda>t. Inr (room, t))))
      else Inr (12, ''NO POOLS !!''))"

definition computerlist_row :: "computer \<Rightarrow> cstring \<Rightarrow> cstring list" where
  "computerlist_row k pools = [print_u (hw_id (hwinfo k)), if cl_enabled (c_limits k) \<noteq> 0 then ''Yes'' else ''No'', print_i (ucast (ntasks (c_status k))),
     strncpy BUFFERLEN (hw_name (hwinfo k)), osstring (hw_os (hwinfo k)), print_i (ucast (hw_ncpus (hwinfo k))),
     print_i (ucast (loadavg (c_status k) ! 0)) @ '','' @ print_i (ucast (loadavg (c_status k) ! 1)) @ '','' @ print_i (ucast (loadavg (c_status k) ! 2)), pools]"

text \<open>After its row was made, the segment of the pools of a computer is removed.\<close>

fun fill_computers :: "nat \<Rightarrow> computer list \<Rightarrow> cstring shm \<Rightarrow> fault + (computer \<times> cstring list) list \<times> cstring shm" where
  "fill_computers room [] s = Inr ([], s)"
| "fill_computers room (k # ks) s = andThen (computerlist_pools room (c_limits k) s) (\<lambda>(room, pools).
     case computer_pool_free (c_limits k, s) of (_, cl, s) \<Rightarrow>
       andThen (fill_computers room ks s) (\<lambda>(rows, s). Inr ((k\<lparr>c_limits := cl\<rparr>, computerlist_row k pools) # rows, s)))"

text \<open>The records, their rows, and the memory; the rows are sorted and the records are not.\<close>

definition drqm_update_computerlist ::
    "computer sorting \<Rightarrow> computer list \<Rightarrow> computer clist \<Rightarrow> cstring shm \<Rightarrow> fault + computer list \<times> computer clist \<times> cstring shm" where
  "drqm_update_computerlist srt ks l s = andThen (fill_computers BUFFERLEN ks s) (\<lambda>(rows, s).
     Inr (map fst rows, clist_sort srt (l\<lparr>cl_rows := map fst rows\<rparr>), s))"

text \<open>The list of a new page is by name.\<close>

definition computers_clist :: "computer clist" where
  "computers_clist = \<lparr>cl_type = Descending, cl_cmp = computers_cmp_name, cl_rows = []\<rparr>"

text \<open>The page; \<open>cp_blank\<close> is what the memory of a new record holds.\<close>

record computers_page =
  cp_computers :: "computer option list"
  cp_clist :: "computer clist"
  cp_conns :: "conn option list"
  cp_sent :: "conn option list"
  cp_world :: master
  cp_junk :: u32
  cp_blank :: computer

fun free_computers :: "computer option list \<Rightarrow> cstring shm \<Rightarrow> fault + cstring shm" where
  "free_computers [] s = Inr s"
| "free_computers (None # ks) s = Inl WildPointer"
| "free_computers (Some k # ks) s = free_computers ks (snd (snd (computer_pool_free (c_limits k, s))))"

definition drqm_clean_computerlist :: "computers_page \<Rightarrow> fault + computers_page" where
  "drqm_clean_computerlist p = andThen (free_computers (cp_computers p) (pool_shm (cp_world p))) (\<lambda>s.
     Inr (p\<lparr>cp_computers := [], cp_world := (cp_world p)\<lparr>pool_shm := s\<rparr>\<rparr>))"

definition drqm_request_computerlist :: "computers_page \<Rightarrow> fault + computers_page" where
  "drqm_request_computerlist p = andThen (drqm_clean_computerlist p) (\<lambda>p.
     let (sfd, cs) = (case cp_conns p of [] \<Rightarrow> (None, []) | c # cs \<Rightarrow> (c, cs))
     in andThen (request_computer_list (cp_junk p) (cp_blank p) CLIENT sfd (cp_world p)) (\<lambda>r.
          let p = p\<lparr>cp_conns := cs, cp_sent := cp_sent p @ [snd r]\<rparr>
          in Inr (case fst r of Inl _ \<Rightarrow> p | Inr (n, ks, w) \<Rightarrow> p\<lparr>cp_computers := ks, cp_world := w\<rparr>)))"

definition show_computerlist :: "computer sorting \<Rightarrow> computers_page \<Rightarrow> fault + computers_page" where
  "show_computerlist srt p =
     (if None \<in> set (cp_computers p) then Inl WildPointer
      else andThen (drqm_update_computerlist srt (map the (cp_computers p)) (cp_clist p) (pool_shm (cp_world p))) (\<lambda>(ks, l, s).
        Inr (p\<lparr>cp_computers := map Some ks, cp_clist := l, cp_world := (cp_world p)\<lparr>pool_shm := s\<rparr>\<rparr>)))"

definition refresh_computers :: "computer sorting \<Rightarrow> computers_page \<Rightarrow> fault + computers_page" where
  "refresh_computers srt p = andThen (drqm_request_computerlist p) (show_computerlist srt)"

text \<open>The positions of the selected rows are taken as those of the records; the requests go to the addresses, which \<open>reach\<close> connects to.\<close>

fun switch_computers :: "u8 \<Rightarrow> (cstring \<Rightarrow> conn option) \<Rightarrow> computer option list \<Rightarrow> nat list \<Rightarrow> fault + (cstring \<times> unit reply) list" where
  "switch_computers enabled reach ks [] = Inr []"
| "switch_computers enabled reach ks (r # sel) = andThen (rd ks r) (\<lambda>k. case k of None \<Rightarrow> Inl WildPointer | Some k \<Rightarrow>
     let address = hw_address (hwinfo k)
     in andThen (switch_computers enabled reach ks sel) (\<lambda>rs.
          Inr ((address, drqm_request_slave_limits_enabled_set enabled (reach address)) # rs)))"

definition EnableComputers :: "computer sorting \<Rightarrow> (cstring \<Rightarrow> conn option) \<Rightarrow> nat list \<Rightarrow> computers_page \<Rightarrow>
    fault + (cstring \<times> unit reply) list \<times> computers_page" where
  "EnableComputers srt reach sel p = (if sel = [] then Inr ([], p) else
     andThen (switch_computers 1 reach (cp_computers p) sel) (\<lambda>rs. andThen (refresh_computers srt p) (\<lambda>p. Inr (rs, p))))"

definition DisableComputers :: "computer sorting \<Rightarrow> (cstring \<Rightarrow> conn option) \<Rightarrow> nat list \<Rightarrow> computers_page \<Rightarrow>
    fault + (cstring \<times> unit reply) list \<times> computers_page" where
  "DisableComputers srt reach sel p = (if sel = [] then Inr ([], p) else
     andThen (switch_computers 0 reach (cp_computers p) sel) (\<lambda>rs. andThen (refresh_computers srt p) (\<lambda>p. Inr (rs, p))))"

text \<open>The window of one computer.\<close>

definition cdd_limits_enabled_bcp :: "computer \<Rightarrow> conn option \<Rightarrow> computer \<times> unit reply" where
  "cdd_limits_enabled_bcp k sfd =
     (if cl_enabled (c_limits k) \<noteq> 0
      then (k\<lparr>c_limits := (c_limits k)\<lparr>cl_enabled := 0\<rparr>\<rparr>, drqm_request_slave_limits_enabled_set 0 sfd)
      else (k\<lparr>c_limits := (c_limits k)\<lparr>cl_enabled := 1\<rparr>\<rparr>, drqm_request_slave_limits_enabled_set 1 sfd))"

definition nmcd_bsumbit_pressed :: "cstring \<Rightarrow> computer \<Rightarrow> conn option \<Rightarrow> (computer \<times> unit reply) option" where
  "nmcd_bsumbit_pressed entry k sfd = (case scan_u entry of None \<Rightarrow> None
     | Some n \<Rightarrow> Some (k\<lparr>c_limits := (c_limits k)\<lparr>cl_nmaxcpus := of_int n\<rparr>\<rparr>, drqm_request_slave_limits_nmaxcpus_set (of_int n) sfd))"

definition mflcd_bsumbit_pressed :: "cstring \<Rightarrow> computer \<Rightarrow> conn option \<Rightarrow> (computer \<times> unit reply) option" where
  "mflcd_bsumbit_pressed entry k sfd = (case scan_u entry of None \<Rightarrow> None
     | Some n \<Rightarrow> Some (k\<lparr>c_limits := (c_limits k)\<lparr>cl_maxfreeloadcpu := of_int n\<rparr>\<rparr>, drqm_request_slave_limits_maxfreeloadcpu_set (of_int n) sfd))"

text \<open>\<open>!AEF_ACTIVE\<close> is 0: a button that is not pressed clears all flags, not one.  The flags of the record stay as they are.\<close>

definition aecd_bsumbit_pressed :: "cstring \<Rightarrow> cstring \<Rightarrow> bool \<Rightarrow> computer \<Rightarrow> conn option \<Rightarrow> (computer \<times> unit reply) option" where
  "aecd_bsumbit_pressed eh em active k sfd = (case (scan_u eh, scan_u em) of
       (Some h, Some m) \<Rightarrow>
         let flags = (if active then ae_flags (cl_autoenable (c_limits k)) OR AEF_ACTIVE else ae_flags (cl_autoenable (c_limits k)) AND 0);
             h = (of_int h :: u32) mod 24; m = (of_int m :: u32) mod 60
         in Some (k\<lparr>c_limits := (c_limits k)\<lparr>cl_autoenable := (cl_autoenable (c_limits k))\<lparr>ae_h := ucast h, ae_m := ucast m\<rparr>\<rparr>\<rparr>,
                  drqm_request_slave_limits_autoenable_set h m flags sfd)
     | _ \<Rightarrow> None)"

definition cdd_limits_pool_add_clicked :: "u32 \<Rightarrow> cstring \<Rightarrow> conn option \<Rightarrow> unit reply" where
  "cdd_limits_pool_add_clicked junk entry = drqm_request_slave_limits_pool_add junk entry"

definition cdd_limits_pool_remove_clicked :: "u32 \<Rightarrow> cstring option \<Rightarrow> conn option \<Rightarrow> unit reply option" where
  "cdd_limits_pool_remove_clicked junk sel sfd = map_option (\<lambda>pool. drqm_request_slave_limits_pool_remove junk pool sfd) sel"

definition drqm_request_slave_task_kill :: "cstring \<Rightarrow> u16 \<Rightarrow> master \<Rightarrow> master" where
  "drqm_request_slave_task_kill slave itask w = request_slave_killtask slave itask w"

definition dtk_bok_pressed :: "computer \<Rightarrow> u16 option list \<Rightarrow> master \<Rightarrow> master" where
  "dtk_bok_pressed k sel w = foldl (\<lambda>w itaskp. case itaskp of None \<Rightarrow> w
     | Some itask \<Rightarrow> drqm_request_slave_task_kill (hw_address (hwinfo k)) itask w) w sel"

end
