(* ===== verification/Actions.thy ===== *)
theory Actions
  imports Manager Copying
begin

text \<open>
  What comes of the menus of the manager: the requests that they send, served by the master one after the other.
\<close>

unbundle bit_operations_syntax

section \<open>Several requests\<close>

text \<open>The master serves what was written to the connections, in their order; each was made by a machine of its own number and address.\<close>

fun serve_each :: "(nat \<Rightarrow> u64) \<Rightarrow> cstring \<Rightarrow> cstring option \<Rightarrow> int \<Rightarrow> conn option list \<Rightarrow> master \<Rightarrow> fault + master" where
  "serve_each stale addr host icomp [] m = Inr m"
| "serve_each stale addr host icomp (None # cs) m = serve_each stale addr host icomp cs m"
| "serve_each stale addr host icomp (Some c # cs) m =
     andThen (handle_request_master stale addr host icomp (peer c 0) m) (\<lambda>(_, m). serve_each stale addr host icomp cs m)"

definition asked_twice :: "conn \<Rightarrow> u8 \<Rightarrow> u32 \<Rightarrow> u32 \<Rightarrow> bool" where
  "asked_twice cc ty i n \<longleftrightarrow>
     tx cc = [MRequest \<lparr>rq_type = ty, rq_who = CLIENT, rq_data = i\<rparr>, MRequest \<lparr>rq_type = ty, rq_who = CLIENT, rq_data = n\<rparr>]"

text \<open>A new connection to the master with room for two requests.\<close>

definition open_conn :: "conn option \<Rightarrow> bool" where
  "open_conn c \<longleftrightarrow> (case c of None \<Rightarrow> False | Some c \<Rightarrow> tx c = [] \<and> 1 < tx_left c)"

lemma ask_twice_sends: "open_conn sfd \<Longrightarrow> \<exists>cc. ask_twice ty i n CLIENT sfd = (Inr (), Some cc) \<and> asked_twice cc ty i n"
  by (cases sfd) (simp_all add: open_conn_def ask_twice_def connected_def ask_def send_request_def send_msg_def succeed_def asked_twice_def)

lemma each_sends:
  assumes "\<And>x sfd. x \<in> set xs \<Longrightarrow> open_conn sfd \<Longrightarrow> \<exists>cc. f x sfd = (Inr (), Some cc) \<and> asked_twice cc ty i x"
    and "length xs \<le> length cs" "list_all open_conn (take (length xs) cs)"
  shows "\<exists>ccs. each f xs cs = (map Some ccs, drop (length xs) cs) \<and> list_all2 (\<lambda>cc x. asked_twice cc ty i x) ccs xs"
  using assms
proof (induction xs arbitrary: cs)
  case (Cons x xs)
  then obtain c cs' where cs: "cs = c # cs'" by (cases cs) auto
  obtain cc where cc: "f x c = (Inr (), Some cc)" "asked_twice cc ty i x" using Cons.prems cs by auto
  obtain ccs where "each f xs cs' = (map Some ccs, drop (length xs) cs')" "list_all2 (\<lambda>cc x. asked_twice cc ty i x) ccs xs"
    using Cons.IH [of cs'] Cons.prems cs by auto
  then show ?case using cc by (intro exI [of _ "cc # ccs"]) (simp add: cs)
qed simp

lemma serves_two:
  assumes "asked_twice cc ty i n"
  shows "handle_request_master stale addr host icomp (peer cc k) m =
    andThen (serve stale addr host icomp ty i \<lparr>rx = [MRequest \<lparr>rq_type = ty, rq_who = CLIENT, rq_data = n\<rparr>], tx = [], tx_left = k\<rparr> m)
      (\<lambda>(c, m). Inr (c, process_exit m))"
  using assms by (simp add: handle_request_master_def peer_def asked_twice_def recv_request_def recv_as_def touch_computer_def max_defs)

section \<open>Putting frames back\<close>

text \<open>The index of a frame of a job, where its number is one of the job's.\<close>

definition frame_index :: "job \<Rightarrow> u32 \<Rightarrow> nat" where
  "frame_index j n = (case job_frame_number_to_index j n of Inl _ \<Rightarrow> 0 | Inr i \<Rightarrow> unat i)"

definition own_frame :: "master \<Rightarrow> u32 \<Rightarrow> u32 \<Rightarrow> bool" where
  "own_frame m i n \<longleftrightarrow> unat i < MAXJOBS \<and> has_frames m (unat i) \<and> attachable (frame_shm m) (fishmid (jobs m ! unat i)) \<and>
     job_frame_number_correct (jobs m ! unat i) n = Inr True \<and>
     unat (block_size (jobs m ! unat i)) * unat (frame_step (jobs m ! unat i)) < 2 ^ 32"

lemma own_frame_index:
  assumes "world_ok m" "own_frame m i n"
  obtains k where "job_frame_number_to_index (jobs m ! unat i) n = Inr k" "frame_index (jobs m ! unat i) n = unat k"
    "unat k < length (frames_of m (unat i))"
proof -
  have h: "has_frames m (unat i)" "unat i < MAXJOBS" using assms(2) by (simp_all add: own_frame_def)
  obtain k where k: "job_frame_number_to_index (jobs m ! unat i) n = Inr k" "k < job_nframes (jobs m ! unat i)"
    using frame_index_in_bounds [of "jobs m ! unat i" n] assms(2) by (auto simp: own_frame_def has_frames_def)
  have "length (frames_of m (unat i)) = unat (job_nframes (jobs m ! unat i))"
    using frames_okD(2) [OF world_okD(3) [OF assms(1)] h] by (simp add: frame_count_def)
  with k that show ?thesis by (simp add: frame_index_def word_less_nat_alt)
qed

lemma wait_served:
  assumes ok: "world_ok m" and f: "own_frame m i n"
  shows "handle_r_r_jobfwait i \<lparr>rx = [MRequest \<lparr>rq_type = ty, rq_who = who, rq_data = n\<rparr>], tx = [], tx_left = r\<rparr> m =
    Inr (\<lparr>rx = [], tx = [], tx_left = r\<rparr>,
      put_frame (unat i) (frame_index (jobs m ! unat i) n) (wait_frame (frames_of m (unat i) ! frame_index (jobs m ! unat i) n)) m)"
proof -
  have h: "has_frames m (unat i)" "unat i < MAXJOBS" and nc: "job_frame_number_correct (jobs m ! unat i) n = Inr True"
    and at: "attachable (frame_shm m) (fishmid (jobs m ! unat i))"
    using f by (simp_all add: own_frame_def)
  obtain k where k: "job_frame_number_to_index (jobs m ! unat i) n = Inr k" "frame_index (jobs m ! unat i) n = unat k"
    "unat k < length (frames_of m (unat i))" by (rule own_frame_index [OF ok f])
  note w = world_okD [OF ok]
  have s: "segs (frame_shm m) (fishmid (jobs m ! unat i)) = Some (frames_of m (unat i))" by (rule frames_okD(1) [OF w(3) h])
  have "fishmid (jobs m ! unat i) \<noteq> -1" using s w(3) by (auto simp: frames_ok_def shm_ok_def)
  then have a: "attach_frame_shared_memory (fishmid (jobs m ! unat i)) (frame_shm m) = Some (frames_of m (unat i))"
    using s at by (simp add: attach_frame_shared_memory_def shmat_def)
  have u: "j_used (jobs m ! unat i) \<noteq> 0" using h(1) by (simp add: has_frames_def)
  have idx: "job_index_correct_master (m\<lparr>semid := sem_held\<rparr>) i = Inr True" using index_correct [of "m\<lparr>semid := sem_held\<rparr>" i] w(1) h(2) u by simp
  have r: "release_db (m\<lparr>semid := sem_held, frame_shm := x\<rparr>) = m\<lparr>frame_shm := x\<rparr>" for x
    using w(4) by (cases m) (simp add: release_db_def sem_held_def sem_free_def sem_release_def)
  have "andThen (lock_db m) f = f (m\<lparr>semid := sem_held\<rparr>)" for f :: "master \<Rightarrow> handler_result" using w(4) by simp
  with idx nc k a r show ?thesis
    unfolding handle_r_r_jobfwait_def with_frame_def
    by (simp add: recv_request_def recv_as_def Let_def rd_def put_frame_def)
qed

lemma put_frame_ok:
  assumes "world_ok m" "has_frames m i" "i < MAXJOBS"
  shows "world_ok (put_frame i k f m)"
  using assms frames_put_frame(3) [OF world_okD(3) [OF assms(1)] assms(2,3)] by (simp add: world_ok_def shape_ok_def)

lemma exit_without_lock: "semid m = sem_free \<Longrightarrow> process_exit m = m"
  by (cases m) (simp add: process_exit_def sem_exit_def sem_free_def)

definition requeued :: "u32 \<Rightarrow> u32 \<Rightarrow> master \<Rightarrow> master" where
  "requeued i n m = put_frame (unat i) (frame_index (jobs m ! unat i) n) (wait_frame (frames_of m (unat i) ! frame_index (jobs m ! unat i) n)) m"

lemma requeue_served:
  assumes "world_ok m" "own_frame m i n" "asked_twice cc R_R_JOBFWAIT i n"
  shows "handle_request_master stale addr host icomp (peer cc 0) m = Inr (\<lparr>rx = [], tx = [], tx_left = 0\<rparr>, requeued i n m)"
  using assms(1) world_okD(4) [OF assms(1)]
  by (simp add: serves_two [OF assms(3)] serve_def wait_served [OF assms(1,2)] requeued_def exit_without_lock)

lemma requeued_simps [simp]: "jobs (requeued i n m) = jobs m" "own_frame (requeued i n m) i n' = own_frame m i n'"
  by (simp_all add: requeued_def own_frame_def)

lemma requeued_frames:
  assumes ok: "world_ok m" and f: "own_frame m i n"
  shows "world_ok (requeued i n m)"
    "frames_of (requeued i n m) (unat i) =
       (frames_of m (unat i))[frame_index (jobs m ! unat i) n := wait_frame (frames_of m (unat i) ! frame_index (jobs m ! unat i) n)]"
    "l < MAXJOBS \<Longrightarrow> l \<noteq> unat i \<Longrightarrow> has_frames m l \<Longrightarrow> frames_of (requeued i n m) l = frames_of m l"
    "has_frames (requeued i n m) = has_frames m"
proof -
  have h: "has_frames m (unat i)" "unat i < MAXJOBS" using f by (simp_all add: own_frame_def)
  note put = frames_put_frame [OF world_okD(3) [OF ok] h]
  show "world_ok (requeued i n m)" unfolding requeued_def by (rule put_frame_ok [OF ok h])
  show "frames_of (requeued i n m) (unat i) =
      (frames_of m (unat i))[frame_index (jobs m ! unat i) n := wait_frame (frames_of m (unat i) ! frame_index (jobs m ! unat i) n)]"
    unfolding requeued_def by (rule put(1))
  show "l < MAXJOBS \<Longrightarrow> l \<noteq> unat i \<Longrightarrow> has_frames m l \<Longrightarrow> frames_of (requeued i n m) l = frames_of m l"
    unfolding requeued_def by (rule put(2))
  show "has_frames (requeued i n m) = has_frames m" by (simp add: requeued_def)
qed

text \<open>
  What it is to put a frame back: a failed or finished one waits again, with no time of its start and one requeue more; one that
  runs is only marked, so that it waits again when its task ends; one that waits stays as it is.
\<close>

definition put_back_frame :: "frame_info \<Rightarrow> frame_info" where
  "put_back_frame f =
     (let over = fi_status f \<in> {FS_ERROR, FS_FINISHED}
      in f\<lparr>fi_status := (if over then FS_WAITING else fi_status f), fi_start_time := (if over then 0 else fi_start_time f),
           fi_requeued := (if over then fi_requeued f + 1 else fi_requeued f),
           fi_flags := (if fi_status f = FS_ASSIGNED then fi_flags f OR FF_REQUEUE else fi_flags f)\<rparr>)"

lemma wait_frame_puts_back: "wait_frame f = put_back_frame f"
  by (auto simp: wait_frame_def put_back_frame_def Let_def)

lemma put_back_frame_twice [simp]: "put_back_frame (put_back_frame f) = put_back_frame f"
  by (simp add: put_back_frame_def Let_def word_bw_assocs)

text \<open>The frames of a list of positions, each put back.\<close>

definition put_back :: "nat set \<Rightarrow> frame_info list \<Rightarrow> frame_info list" where
  "put_back ks fs = map (\<lambda>k. if k \<in> ks then put_back_frame (fs ! k) else fs ! k) [0..<length fs]"

lemma put_back_none [simp]: "put_back {} fs = fs"
  by (simp add: put_back_def map_nth)

lemma put_back_step: "put_back ks (fs[k := put_back_frame (fs ! k)]) = put_back (insert k ks) fs"
  by (cases "k < length fs") (auto simp: put_back_def nth_list_update intro!: nth_equalityI)

lemma put_back_one: "fs[k := put_back_frame (fs ! k)] = put_back {k} fs"
  using put_back_step [of "{}" fs k] by simp

text \<open>The master after the frames of one job were put back: only the segment of these frames is another.\<close>

definition frames_put_back :: "nat \<Rightarrow> nat set \<Rightarrow> master \<Rightarrow> master" where
  "frames_put_back i ks m =
     (if ks = {} then m else m\<lparr>frame_shm := shmput (fishmid (jobs m ! i)) (put_back ks (frames_of m i)) (frame_shm m)\<rparr>)"

lemma requeued_one: "requeued i n m = frames_put_back (unat i) {frame_index (jobs m ! unat i) n} m"
  by (simp add: requeued_def put_frame_def frames_put_back_def wait_frame_puts_back put_back_one)

lemma frames_put_back_again:
  assumes "frames_of (requeued i n m) (unat i) = put_back {frame_index (jobs m ! unat i) n} (frames_of m (unat i))"
  shows "frames_put_back (unat i) ks (requeued i n m) = frames_put_back (unat i) (insert (frame_index (jobs m ! unat i) n) ks) m"
proof -
  have "put_back ks (put_back {k} fs) = put_back (insert k ks) fs" for k fs by (simp add: put_back_one [symmetric] put_back_step)
  then show ?thesis
    by (simp add: frames_put_back_def [of _ ks] assms) (simp add: requeued_one frames_put_back_def shmput_def)
qed

lemma serves_all:
  assumes "list_all2 (\<lambda>cc n. asked_twice cc R_R_JOBFWAIT i n) ccs sel" "world_ok m" "\<forall>n \<in> set sel. own_frame m i n"
  shows "\<exists>m'. serve_each stale addr host icomp (map Some ccs) m = Inr m' \<and> world_ok m' \<and> jobs m' = jobs m \<and>
    frames_of m' (unat i) = put_back (frame_index (jobs m ! unat i) ` set sel) (frames_of m (unat i)) \<and>
    (\<forall>l < MAXJOBS. l \<noteq> unat i \<longrightarrow> has_frames m l \<longrightarrow> frames_of m' l = frames_of m l) \<and>
    m' = frames_put_back (unat i) (frame_index (jobs m ! unat i) ` set sel) m"
  using assms
proof (induction ccs sel arbitrary: m rule: list_all2_induct)
  case Nil
  then show ?case by (simp add: frames_put_back_def)
next
  case (Cons cc ccs n sel)
  have f: "own_frame m i n" using Cons.prems by simp
  note r = requeued_frames [OF Cons.prems(1) f, unfolded wait_frame_puts_back]
  obtain m' where m': "serve_each stale addr host icomp (map Some ccs) (requeued i n m) = Inr m'" "world_ok m'" "jobs m' = jobs m"
    "frames_of m' (unat i) = put_back (frame_index (jobs m ! unat i) ` set sel) (frames_of (requeued i n m) (unat i))"
    "\<forall>l < MAXJOBS. l \<noteq> unat i \<longrightarrow> has_frames m l \<longrightarrow> frames_of m' l = frames_of (requeued i n m) l"
    "m' = frames_put_back (unat i) (frame_index (jobs m ! unat i) ` set sel) (requeued i n m)"
    using Cons.IH [OF r(1)] Cons.prems by (auto simp: r(4))
  have e: "m' = frames_put_back (unat i) (frame_index (jobs m ! unat i) ` set (n # sel)) m"
    using m'(6) frames_put_back_again [OF r(2) [unfolded put_back_one]] by simp
  show ?case
    using m'(1-5) r(3) Cons.hyps(1) e
    by (intro exI [of _ m']) (simp add: requeue_served [OF Cons.prems(1) f] r(2) put_back_step)
qed

text \<open>C36. Putting frames back from the window of a job: with a connection for each selected frame, the requests leave in the order of the
  selection, and once the master has served them all, exactly the selected frames of the job are treated: a failed or finished one waits again
  and counts one requeue more, one that runs is only marked to wait again when its task ends, one that waits stays (\<open>put_back_frame\<close>).
  Everything else in the master is what it was: the other frames and jobs, the records of the jobs, the computers, and every other segment.\<close>

theorem requeue_from_window:
  assumes "world_ok m" "\<forall>n \<in> set sel. own_frame m (j_id j) n"
    and "length sel \<le> length conns" "list_all open_conn (take (length sel) conns)"
  shows "\<exists>sent m'. jdd_requeue_frames j sel conns = (sent, drop (length sel) conns) \<and>
    list_all2 (\<lambda>c n. \<exists>cc. c = Some cc \<and> asked_twice cc R_R_JOBFWAIT (j_id j) n) sent sel \<and>
    serve_each stale addr host icomp sent m = Inr m' \<and> world_ok m' \<and> jobs m' = jobs m \<and>
    frames_of m' (unat (j_id j)) = put_back (frame_index (jobs m ! unat (j_id j)) ` set sel) (frames_of m (unat (j_id j))) \<and>
    (\<forall>l < MAXJOBS. l \<noteq> unat (j_id j) \<longrightarrow> has_frames m l \<longrightarrow> frames_of m' l = frames_of m l) \<and>
    (sel = [] \<longrightarrow> m' = m) \<and>
    (sel \<noteq> [] \<longrightarrow> m' = m\<lparr>frame_shm := shmput (fishmid (jobs m ! unat (j_id j)))
       (put_back (frame_index (jobs m ! unat (j_id j)) ` set sel) (frames_of m (unat (j_id j)))) (frame_shm m)\<rparr>)"
proof -
  have "\<exists>cc. drqm_request_job_frame_waiting (j_id j) n sfd = (Inr (), Some cc) \<and> asked_twice cc R_R_JOBFWAIT (j_id j) n"
    if "open_conn sfd" for n sfd
    using ask_twice_sends [OF that] by (simp add: drqm_request_job_frame_waiting_def request_job_frame_waiting_def)
  then obtain ccs where ccs: "jdd_requeue_frames j sel conns = (map Some ccs, drop (length sel) conns)"
    "list_all2 (\<lambda>cc n. asked_twice cc R_R_JOBFWAIT (j_id j) n) ccs sel"
    using each_sends [OF _ assms(3,4)] unfolding jdd_requeue_frames_def by blast
  have "list_all2 (\<lambda>c n. \<exists>cc. c = Some cc \<and> asked_twice cc R_R_JOBFWAIT (j_id j) n) (map Some ccs) sel"
    using ccs(2) by (simp add: list_all2_map1)
  with ccs(1) serves_all [OF ccs(2) assms(1,2)] show ?thesis unfolding frames_put_back_def by fastforce
qed

section \<open>The menu of a job\<close>

lemma last_match:
  "foldl (\<lambda>row k. if P k then int k else row) (-1) [0..<n] = int r" if "P r" "r < n" "\<And>k. k < n \<Longrightarrow> P k \<Longrightarrow> k = r" for n :: nat
  using that
proof (induction n)
  case (Suc n)
  show ?case
  proof (cases "r = n")
    case True
    then show ?thesis using Suc.prems(1) by simp
  next
    case False
    then have n: "\<not> P n" using Suc.prems(3) [of n] by auto
    have "foldl (\<lambda>row k. if P k then int k else row) (-1) [0..<n] = int r"
      using False Suc.prems by (intro Suc.IH) (auto simp: less_Suc_eq)
    with n show ?thesis by simp
  qed
qed simp

lemma last_with_id_nth:
  assumes "distinct (map j_id js)" "r < length js"
  shows "last_with_id (j_id (js ! r)) (map Some js) = Inr (int r)"
proof -
  have u: "k = r" if "k < length js" "j_id (js ! k) = j_id (js ! r)" for k
    using assms that by (simp add: distinct_conv_nth) metis
  have e: "foldl (\<lambda>row k. if j_id (the (map Some js ! k)) = i then int k else row) (-1) [0..<length js] =
      foldl (\<lambda>row k. if j_id (js ! k) = i then int k else row) (-1) [0..<length js]" for i
    by (rule foldl_cong) simp_all
  have "None \<notin> set (map Some js)" by auto
  then show ?thesis
    unfolding last_with_id_def length_map e using last_match [of "\<lambda>k. j_id (js ! k) = j_id (js ! r)" r "length js"] assms(2) u by simp
qed

lemma shown:
  assumes "show_joblist srt p = Inr p'"
  shows "jp_jobs p' = jp_jobs p" "jp_details p' = jp_details p" "jp_selected p' = jp_selected p" "jp_row p' = jp_row p"
    "jp_conns p' = jp_conns p"
    "jp_clist p' = drqm_update_joblist srt (map the (jp_jobs p)) (jp_clist p)"
  using assms by (auto simp: show_joblist_def split: if_splits)

lemma shown_rows:
  assumes "sorts srt" "show_joblist srt p = Inr p'" "comparator (cl_cmp (jp_clist p)) (set (map the (jp_jobs p)))"
  shows "mset (cl_rows (jp_clist p')) = mset (map the (jp_jobs p))"
proof -
  have "mset (srt d (cl_cmp (jp_clist p)) (map the (jp_jobs p))) = mset (map the (jp_jobs p))" for d
    using assms(1,3) unfolding sorts_def by blast
  then show ?thesis by (simp add: shown(6) [OF assms(2)] drqm_update_joblist_def clist_sort_def)
qed

text \<open>One message of a type with the number of a job, over the next connection.\<close>

definition sends :: "u8 \<Rightarrow> u32 \<Rightarrow> jobs_page \<Rightarrow> jobs_page" where
  "sends ty i p = (case jp_conns p of Some c # cs \<Rightarrow>
       p\<lparr>jp_conns := cs, jp_sent := jp_sent p @
         [Some (c\<lparr>tx := tx c @ [MRequest \<lparr>rq_type = ty, rq_who = CLIENT, rq_data = i\<rparr>], tx_left := tx_left c - 1\<rparr>)]\<rparr>
     | _ \<Rightarrow> p)"

definition can_send :: "conn option \<Rightarrow> bool" where
  "can_send c \<longleftrightarrow> (case c of None \<Rightarrow> False | Some c \<Rightarrow> 0 < tx_left c)"

lemma page_sends:
  assumes "jp_conns p = c # cs" "can_send c"
  shows "page_asks (drqm_request_job_stop i) p = sends R_R_STOPJOB i p" "page_asks (drqm_request_job_continue i) p = sends R_R_CONTJOB i p"
    "page_asks (drqm_request_job_hstop i) p = sends R_R_HSTOPJOB i p" "page_asks (drqm_request_job_rerun i) p = sends R_R_RERUNJOB i p"
    "page_asks (drqm_request_job_delete i) p = sends R_R_DELETJOB i p"
  using assms
  by (cases c; simp add: can_send_def sends_def page_asks_def connected_def ask_def send_request_def send_msg_def succeed_def
      drqm_request_job_stop_def request_job_stop_def drqm_request_job_continue_def request_job_continue_def drqm_request_job_hstop_def
      request_job_hstop_def drqm_request_job_rerun_def request_job_rerun_def drqm_request_job_delete_def request_job_delete_def)+

lemma sends_conns: "jp_conns p = c # cs \<Longrightarrow> can_send c \<Longrightarrow> jp_conns (sends ty i p) = cs" "jp_clist (sends ty i p) = jp_clist p"
  by (auto simp: sends_def can_send_def split: list.splits option.splits)

text \<open>The rows of a selection, deleted one after the other.\<close>

lemma delete_rows_sends:
  assumes "length sel \<le> length (jp_conns p)" "\<forall>c \<in> set (jp_conns p). can_send c" "\<forall>q \<in> set sel. q < length (cl_rows (jp_clist p))"
  shows "delete_rows sel p = Inr (fold (\<lambda>q. sends R_R_DELETJOB (j_id (cl_rows (jp_clist p) ! q))) sel p)"
  using assms
proof (induction sel arbitrary: p)
  case (Cons q sel)
  obtain c cs where c: "jp_conns p = c # cs" "can_send c" using Cons.prems by (cases "jp_conns p") auto
  note s = sends_conns(1) [OF c, of R_R_DELETJOB "j_id (cl_rows (jp_clist p) ! q)"]
  show ?case
    using Cons.IH [of "sends R_R_DELETJOB (j_id (cl_rows (jp_clist p) ! q)) p"] Cons.prems c(1)
    by (simp add: rd_def page_sends(5) [OF c] s sends_conns(2))
qed simp

text \<open>C37. The menu acts on the job that is shown, Delete apart: after the list is filled with jobs of different numbers, whatever the order of its
  rows, the menu on a row finds the record of that very job, and the requests to stop it, to stop it at once, to continue it and to run it
  again name the number of that job to the master.  Delete names that job when no row is selected.  When rows are selected it names the jobs of these
  rows instead, whichever row the menu was opened on, and every other row is another job.\<close>

theorem menu_acts_on_shown_job:
  assumes "sorts srt" "k \<le> 10" "cl_cmp (jp_clist p) = jobs_cmp k" "jp_jobs p = map Some js" "distinct (map j_id js)"
    and "show_joblist srt p = Inr p'" "jp_details p = None" "r < length js"
    and "\<forall>c \<in> set (jp_conns p). can_send c" "jp_conns p \<noteq> []" "length sel \<le> length (jp_conns p)" "\<forall>q \<in> set sel. q < length js"
  shows "\<exists>p''. PopupMenu (Some r) p' = Inr (True, p'') \<and> job_of_menu p'' = Inr (cl_rows (jp_clist p') ! r) \<and>
    cl_rows (jp_clist p') ! r \<in> set js \<and>
    job_hstop_cb p'' = Inr (sends R_R_HSTOPJOB (j_id (cl_rows (jp_clist p') ! r)) p'') \<and>
    job_rerun_cb p'' = Inr (sends R_R_RERUNJOB (j_id (cl_rows (jp_clist p') ! r)) p'') \<and>
    StopJob srt p'' = update_joblist srt (sends R_R_STOPJOB (j_id (cl_rows (jp_clist p') ! r)) p'') \<and>
    ContinueJob srt p'' = update_joblist srt (sends R_R_CONTJOB (j_id (cl_rows (jp_clist p') ! r)) p'') \<and>
    djd_bok_pressed srt [] p'' = update_joblist srt (sends R_R_DELETJOB (j_id (cl_rows (jp_clist p') ! r)) p'') \<and>
    (sel \<noteq> [] \<longrightarrow> djd_bok_pressed srt sel p'' =
       update_joblist srt (fold (\<lambda>q. sends R_R_DELETJOB (j_id (cl_rows (jp_clist p') ! q))) sel p'')) \<and>
    (\<forall>q < length js. q \<noteq> r \<longrightarrow> j_id (cl_rows (jp_clist p') ! q) \<noteq> j_id (cl_rows (jp_clist p') ! r))"
proof -
  let ?rows = "cl_rows (jp_clist p')"
  let ?j = "?rows ! r"
  have m: "map the (jp_jobs p) = js" using assms(4) by (simp add: o_def)
  have c: "comparator (cl_cmp (jp_clist p)) (set (map the (jp_jobs p)))" unfolding assms(3) by (rule jobs_cmp_comparator [OF assms(2)])
  note s = shown_rows [OF assms(1,6) c, unfolded m]
  have n: "length ?rows = length js" using mset_eq_length [OF s] .
  have j: "?j \<in> set js" using nth_mem [of r ?rows] mset_eq_setD [OF s] n assms(8) by simp
  then obtain q where q: "q < length js" "?j = js ! q" unfolding in_set_conv_nth by metis
  have "distinct (map j_id ?rows)" using assms(5) s by (metis mset_map mset_eq_imp_distinct_iff)
  then have other: "\<forall>q < length js. q \<noteq> r \<longrightarrow> j_id (?rows ! q) \<noteq> j_id ?j"
    using n assms(8) by (auto simp: distinct_conv_nth)
  have pj: "jp_jobs p' = map Some js" "jp_details p' = None" "jp_conns p' = jp_conns p" using shown(1,2,5) [OF assms(6)] assms(4,7) by simp_all
  define p'' where "p'' = p'\<lparr>jp_selected := True, jp_ijob := j_id ?j, jp_row := int q\<rparr>"
  have "last_with_id (j_id ?j) (jp_jobs p') = Inr (int q)" unfolding q(2) pj(1) by (rule last_with_id_nth [OF assms(5) q(1)])
  then have pop: "PopupMenu (Some r) p' = Inr (True, p'')" using n assms(8) by (simp add: PopupMenu_def rd_def atoi_print_i p''_def)
  have pp: "jp_details p'' = None" "jp_row p'' = int q" "jp_jobs p'' = map Some js" "jp_selected p''" "jp_conns p'' = jp_conns p"
    "jp_clist p'' = jp_clist p'" by (simp_all add: p''_def pj)
  have at: "record_at (jp_row p'') p'' = Inr ?j" unfolding q(2) using q(1) by (simp add: pp record_at_def rd_def)
  have job: "job_of_menu p'' = Inr ?j" by (simp add: job_of_menu_def pp(1) at)
  obtain c cs where cs: "jp_conns p'' = c # cs" "can_send c" using assms(9,10) by (cases "jp_conns p") (auto simp: pp(5))
  note page = page_sends [OF cs]
  have acts: "job_hstop_cb p'' = Inr (sends R_R_HSTOPJOB (j_id ?j) p'')" "job_rerun_cb p'' = Inr (sends R_R_RERUNJOB (j_id ?j) p'')"
    "StopJob srt p'' = update_joblist srt (sends R_R_STOPJOB (j_id ?j) p'')"
    "ContinueJob srt p'' = update_joblist srt (sends R_R_CONTJOB (j_id ?j) p'')"
    "djd_bok_pressed srt [] p'' = update_joblist srt (sends R_R_DELETJOB (j_id ?j) p'')"
    unfolding job_hstop_cb_def job_rerun_cb_def StopJob_def ContinueJob_def djd_bok_pressed_def job at by (simp_all add: pp(1,4) page)
  have "delete_rows sel p'' = Inr (fold (\<lambda>q. sends R_R_DELETJOB (j_id (?rows ! q))) sel p'')"
    using delete_rows_sends [of sel p''] assms(9,11,12) n by (simp add: pp(5,6))
  then have "sel \<noteq> [] \<longrightarrow> djd_bok_pressed srt sel p'' = update_joblist srt (fold (\<lambda>q. sends R_R_DELETJOB (j_id (?rows ! q))) sel p'')"
    by (simp add: djd_bok_pressed_def pp(1))
  with pop job j acts other show ?thesis by (intro exI [of _ p'']) blast
qed

text \<open>The menu stays bound to a position: when the list is fetched anew and the master cannot be reached, the records are gone, the menu keeps
  its row, and the next stop of a job is a read outside of the array; and when the records do come, the stop is asked for the one that is now at that
  position, whatever job it is.\<close>

theorem menu_keeps_position:
  assumes "AutoRefreshUpdate srt p = Inr p'" "jp_selected p" "jp_details p = None" "jp_row p = int r"
  shows "jp_selected p' \<and> jp_row p' = int r \<and>
    (if jp_jobs p' = [] then StopJob srt p' = Inl OutOfBounds
     else \<forall>j. r < length (jp_jobs p') \<longrightarrow> jp_jobs p' ! r = Some j \<longrightarrow>
       StopJob srt p' = update_joblist srt (page_asks (drqm_request_job_stop (j_id j)) p'))"
proof -
  have clean: "jp_selected p2 = jp_selected p1 \<and> jp_row p2 = jp_row p1 \<and> jp_details p2 = jp_details p1"
    if "drqm_clean_joblist p1 = Inr p2" for p1 p2
    using that by (auto simp: drqm_clean_joblist_def andThen_def split: sum.splits)
  obtain p1 where p1: "drqm_request_joblist p = Inr p1" "show_joblist srt p1 = Inr p'"
    using assms(1) by (auto simp: AutoRefreshUpdate_def andThen_def split: sum.splits)
  have "jp_selected p1 = jp_selected p \<and> jp_row p1 = jp_row p \<and> jp_details p1 = jp_details p"
    using p1(1) unfolding drqm_request_joblist_def
    by (auto simp: andThen_def Let_def dest!: clean split: sum.splits prod.splits)
  then have k: "jp_selected p'" "jp_row p' = int r" "jp_details p' = None" using assms(2-4) shown [OF p1(2)] by simp_all
  then show ?thesis by (auto simp: StopJob_def job_of_menu_def record_at_def rd_def)
qed

section \<open>Computers\<close>

lemma freed_pools: "computer_pool_free (cl, s) = (b, cl', s') \<Longrightarrow> npools cl' = 0"
  by (auto simp: computer_pool_free_def computer_pool_init_def Let_def split: if_splits prod.splits)

lemma filled:
  "fill_computers room ks s = Inr (rows, s') \<Longrightarrow> length rows = length ks \<and>
     (\<forall>i < length ks. hwinfo (fst (rows ! i)) = hwinfo (ks ! i) \<and> npools (c_limits (fst (rows ! i))) = 0)"
proof (induction ks arbitrary: room s rows)
  case (Cons k ks)
  then obtain room' pools b cl s1 rest where r: "computer_pool_free (c_limits k, s) = (b, cl, s1)" "fill_computers room' ks s1 = Inr (rest, s')"
    "rows = (k\<lparr>c_limits := cl\<rparr>, computerlist_row k pools) # rest"
    by (auto simp: andThen_def split: sum.splits prod.splits)
  show ?case using Cons.IH [OF r(2)] freed_pools [OF r(1)] by (auto simp: r(3) less_Suc_eq_0_disj)
qed simp

lemma updated:
  assumes "drqm_update_computerlist srt ks l s = Inr (ks', l', s')"
  shows "l' = clist_sort srt (l\<lparr>cl_rows := ks'\<rparr>)" "length ks' = length ks"
    "i < length ks \<Longrightarrow> hwinfo (ks' ! i) = hwinfo (ks ! i) \<and> npools (c_limits (ks' ! i)) = 0"
proof -
  obtain rows where r: "fill_computers BUFFERLEN ks s = Inr (rows, s')" "ks' = map fst rows" "l' = clist_sort srt (l\<lparr>cl_rows := map fst rows\<rparr>)"
    using assms by (auto simp: drqm_update_computerlist_def andThen_def split: sum.splits prod.splits)
  show "l' = clist_sort srt (l\<lparr>cl_rows := ks'\<rparr>)" "length ks' = length ks" using filled [OF r(1)] r by simp_all
  show "i < length ks \<Longrightarrow> hwinfo (ks' ! i) = hwinfo (ks ! i) \<and> npools (c_limits (ks' ! i)) = 0" using filled [OF r(1)] by (simp add: r(2))
qed

text \<open>The column of the pools orders nothing: filling the list removes the pools of every record, so that any two of them compare as equal.\<close>

theorem pools_column_orders_nothing:
  assumes "drqm_update_computerlist srt ks l s = Inr (ks', l', s')" "a \<in> set ks'" "b \<in> set ks'"
  shows "computers_cmp_pools s' a b = Inr 0"
proof -
  have "npools (c_limits c) = 0" if c: "c \<in> set ks'" for c
  proof -
    obtain i where "i < length ks'" "ks' ! i = c" using c unfolding in_set_conv_nth by (elim exE conjE)
    then show ?thesis using updated(2,3) [OF assms(1)] by metis
  qed
  then have "npools (c_limits a) = 0" "npools (c_limits b) = 0" using assms(2,3) by blast+
  moreover have "strcmp x x = 0" for x by (induction x) simp_all
  ultimately show ?thesis by (simp add: computers_cmp_pools_def pools_text_def)
qed

lemma two_sorted:
  assumes "sorts srt" "comparator cmp {x, y}" "\<not> 0 \<le> cmp y x"
  shows "srt Descending cmp [y, x] = [x, y]"
proof -
  have m: "mset (srt Descending cmp [y, x]) = mset [y, x]" and o: "sorted_wrt (\<lambda>a b. 0 \<le> cmp a b) (srt Descending cmp [y, x])"
    using assms(1) [unfolded sorts_def, rule_format, of cmp "[y, x]" Descending] assms(2) by (simp_all add: insert_commute)
  obtain u v where uv: "srt Descending cmp [y, x] = [u, v]"
    using mset_eq_length [OF m] by (auto simp: length_Suc_conv)
  have "{#u, v#} = {#y, x#}" "0 \<le> cmp u v" using m o by (simp_all add: uv)
  then have "u = x \<and> v = y" using assms(3) by (auto simp: add_eq_conv_ex)
  then show ?thesis by (simp add: uv)
qed

text \<open>C40. The rows of a fresh list are sorted by name, the records are in the order of the master: of two computers whose names are the other way
  round, the first row shows one and enabling the first row reaches the other.\<close>

theorem enable_reaches_other_computer:
  assumes "sorts srt" "codes (hw_name (hwinfo a)) < codes (hw_name (hwinfo b))"
    and "cp_computers p = [Some b, Some a]" "cp_clist p = computers_clist\<lparr>cl_rows := rows\<rparr>" "show_computerlist srt p = Inr p'"
  shows "hwinfo (cl_rows (cp_clist p') ! 0) = hwinfo a \<and>
    EnableComputers srt reach [0] p' = andThen (refresh_computers srt p') (\<lambda>p''.
      Inr ([(hw_address (hwinfo b), drqm_request_slave_limits_enabled_set 1 (reach (hw_address (hwinfo b))))], p''))"
proof -
  obtain ks l s where u: "drqm_update_computerlist srt [b, a] (computers_clist\<lparr>cl_rows := rows\<rparr>) (pool_shm (cp_world p)) = Inr (ks, l, s)"
    and p': "cp_clist p' = l" "cp_computers p' = map Some ks"
    using assms(3-5) by (auto simp: show_computerlist_def andThen_def split: sum.splits prod.splits)
  have "length ks = 2" using updated(2) [OF u] by simp
  then obtain b' a' where ks: "ks = [b', a']" by (auto simp: length_Suc_conv numeral_eq_Suc)
  have h: "hwinfo b' = hwinfo b" "hwinfo a' = hwinfo a" using updated(3) [OF u, of 0] updated(3) [OF u, of 1] by (simp_all add: ks)
  have "computers_cmp_name b' a' < 0"
    using assms(2) unfolding computers_cmp_name_def strcmp_falling h by (auto simp: cmp_falling_def)
  then have "srt Descending computers_cmp_name [b', a'] = [a', b']"
    by (intro two_sorted [OF assms(1)] comparator_subset [OF by_host.comparator_axioms]) simp_all
  then have "cl_rows l ! 0 = a'" by (simp add: updated(1) [OF u] clist_sort_def computers_clist_def ks)
  moreover have "switch_computers 1 reach (cp_computers p') [0] =
      Inr [(hw_address (hwinfo b), drqm_request_slave_limits_enabled_set 1 (reach (hw_address (hwinfo b))))]"
    by (simp add: p' ks rd_def Let_def h)
  ultimately show ?thesis using h(2) by (simp add: p'(1) EnableComputers_def)
qed

text \<open>C39. A computer that belongs to no pool leaves a buffer of twelve bytes behind: when the next one in the list belongs to two pools, whatever their
  names are, filling the list writes beyond the buffer.\<close>

theorem list_of_pools_overflows:
  assumes "npools (c_limits a) = 0" "poolshmid (c_limits a) = -1" "1 < npools (c_limits b)" "shmat (poolshmid (c_limits b)) s = Some pool" "pool \<noteq> []"
  shows "drqm_update_computerlist srt (a # b # ks) l s = Inl OutOfBounds"
proof -
  obtain u cl where f: "computer_pool_free (c_limits a, s) = (u, cl, s)"
    using assms(2) by (simp add: computer_pool_free_def computer_pool_detach_shared_memory_def Let_def)
  have 1: "computerlist_pools BUFFERLEN (c_limits a) s = Inr (12, ''NO POOLS !!'')" using assms(1) by (simp add: computerlist_pools_def)
  have at: "fst (computer_pool_attach_shared_memory (c_limits b, s)) = Some pool" using assms(4) by (simp add: computer_pool_attach_shared_memory_def)
  have "npools (c_limits b) \<noteq> 0" using assms(3) by auto
  moreover have "rd pool 0 = Inr (pool ! 0)" using assms(5) by (simp add: rd_def)
  moreover have "(12 :: nat) < BUFFERLEN - 1" by (simp add: max_defs)
  ultimately have 2: "computerlist_pools 12 (c_limits b) s = Inl OutOfBounds"
    using assms(3) unfolding computerlist_pools_def at by simp
  show ?thesis unfolding drqm_update_computerlist_def fill_computers.simps 1 andThen_simps prod.case f 2 ..
qed

section \<open>Witnesses\<close>

definition finished_frame :: frame_info where
  "finished_frame = zero_frame\<lparr>fi_status := FS_FINISHED, fi_requeued := 1\<rparr>"

lemma render_frame_2: "job_frame_number_correct render_job 2 = Inr True" "job_frame_number_to_index render_job 2 = Inr 1" "j_id render_job = 0"
  by (simp_all add: job_frame_number_correct_def job_frame_number_to_index_def render_job_def zero_job_def)

theorem requeue_from_window_witness:
  "\<exists>sent m'. jdd_requeue_frames render_job [2, 2] [Some \<lparr>rx = [], tx = [], tx_left = 2\<rparr>, Some \<lparr>rx = [], tx = [], tx_left = 9\<rparr>] = (sent, []) \<and>
    serve_each (\<lambda>_. 0) [] None (-1) sent (put_frame 0 1 finished_frame example_master) = Inr m' \<and>
    frames_of m' 0 = [zero_frame, zero_frame\<lparr>fi_status := FS_WAITING, fi_requeued := 2\<rparr>, zero_frame]"
proof -
  let ?m = "put_frame 0 1 finished_frame example_master"
  let ?conns = "[Some \<lparr>rx = [], tx = [], tx_left = 2\<rparr>, Some \<lparr>rx = [], tx = [], tx_left = 9\<rparr>]"
  have j: "jobs ?m ! 0 = render_job" by (simp add: example_master_def)
  have h: "has_frames example_master 0" by (simp add: has_frames_def example_master_def render_job_nframes) (simp add: render_job_def)
  have ok: "world_ok ?m" by (rule put_frame_ok [OF example_world_ok h]) (simp add: max_defs)
  have at: "attachable (frame_shm ?m) x" for x by (simp add: example_master_def shm_empty_def)
  have own: "own_frame ?m (j_id render_job) 2"
    using h at j unfolding own_frame_def render_frame_2(3) by (simp add: render_frame_2(1)) (simp add: render_job_def zero_job_def max_defs)
  have fs: "frames_of ?m 0 = [zero_frame, finished_frame, zero_frame]"
    using frames_put_frame(1) [OF world_okD(3) [OF example_world_ok] h] by (simp add: max_defs example_frames)
  have k: "frame_index render_job 2 = 1" by (simp add: frame_index_def render_frame_2)
  have pb: "put_back {1} [zero_frame, finished_frame, zero_frame] = [zero_frame, zero_frame\<lparr>fi_status := FS_WAITING, fi_requeued := 2\<rparr>, zero_frame]"
    by (simp add: put_back_def put_back_frame_def Let_def finished_frame_def zero_frame_def)
  have u: "unat (j_id render_job) = 0" "set [2, 2 :: u32] = {2}" "(\<lambda>n. frame_index render_job n) ` {2 :: u32} = {1}"
    using k by (simp_all add: render_frame_2)
  have sel: "\<forall>n \<in> set [2, 2]. own_frame ?m (j_id render_job) n" using own by simp
  have o: "list_all open_conn (take (length [2, 2 :: u32]) ?conns)" "length [2, 2 :: u32] \<le> length ?conns" "drop (length [2, 2 :: u32]) ?conns = []"
    by (simp_all add: open_conn_def)
  show ?thesis
    using requeue_from_window [OF ok sel o(2,1), of "\<lambda>_. 0" "[]" None "-1", unfolded u j fs o(3) image_insert image_empty k pb] by blast
qed

definition one_page :: jobs_page where
  "one_page = \<lparr>jp_jobs = [Some short_job], jp_clist = jobs_clist, jp_ijob = 0, jp_row = 0, jp_selected = True, jp_details = None, jp_conns = [],
     jp_sent = [], jp_world = example_master, jp_junk = 0\<rparr>"

text \<open>Two jobs on a page, and one connection: the menu on the first row with the second one selected.\<close>

definition next_job :: job where "next_job = short_job\<lparr>j_id := j_id short_job + 1\<rparr>"

definition two_rows :: jobs_page where
  "two_rows = one_page\<lparr>jp_jobs := [Some short_job, Some next_job], jp_conns := [Some \<lparr>rx = [], tx = [], tx_left = 1\<rparr>]\<rparr>"

theorem menu_acts_on_shown_job_witness:
  "\<exists>p' p''. show_joblist sort_with two_rows = Inr p' \<and> PopupMenu (Some 0) p' = Inr (True, p'') \<and>
     job_hstop_cb p'' = Inr (sends R_R_HSTOPJOB (j_id (cl_rows (jp_clist p') ! 0)) p'') \<and>
     djd_bok_pressed sort_with [1] p'' = update_joblist sort_with (sends R_R_DELETJOB (j_id (cl_rows (jp_clist p') ! 1)) p'') \<and>
     j_id (cl_rows (jp_clist p') ! 1) \<noteq> j_id (cl_rows (jp_clist p') ! 0)"
proof -
  obtain p' where p': "show_joblist sort_with two_rows = Inr p'" by (simp add: show_joblist_def two_rows_def)
  have a: "cl_cmp (jp_clist two_rows) = jobs_cmp 0" "jp_jobs two_rows = map Some [short_job, next_job]" "distinct (map j_id [short_job, next_job])"
    "jp_details two_rows = None" "0 < length [short_job, next_job]" "\<forall>c \<in> set (jp_conns two_rows). can_send c" "jp_conns two_rows \<noteq> []"
    "length [1 :: nat] \<le> length (jp_conns two_rows)" "\<forall>q \<in> set [1]. q < length [short_job, next_job]"
    by (simp_all add: two_rows_def one_page_def jobs_clist_def jobs_cmp_def next_job_def can_send_def)
  from menu_acts_on_shown_job [OF sort_with_sorts _ a(1-3) p' a(4-9)] p' show ?thesis by auto
qed

theorem menu_keeps_position_witness:
  "\<exists>p'. AutoRefreshUpdate sort_with one_page = Inr p' \<and> jp_jobs p' = [] \<and> StopJob sort_with p' = Inl OutOfBounds"
proof -
  obtain p' where p': "AutoRefreshUpdate sort_with one_page = Inr p'" "jp_jobs p' = []"
    by (simp add: AutoRefreshUpdate_def drqm_request_joblist_def show_joblist_def one_page_def request_job_list_def connected_to_def
        drqm_clean_joblist_def Let_def)
  have a: "jp_selected one_page" "jp_details one_page = None" "jp_row one_page = int 0" by (simp_all add: one_page_def)
  show ?thesis using p' menu_keeps_position [OF p'(1) a] by auto
qed

definition two_computers :: "computer list" where
  "two_computers = [example_computer\<lparr>hwinfo := (hwinfo example_computer)\<lparr>hw_name := ''zebra''\<rparr>\<rparr>, pool_computer]"

definition two_page :: computers_page where
  "two_page = \<lparr>cp_computers = map Some two_computers, cp_clist = computers_clist, cp_conns = [], cp_sent = [], cp_world = example_master, cp_junk = 0,
     cp_blank = example_computer\<rparr>"

lemma two_filled:
  obtains ks l s' where "drqm_update_computerlist sort_with two_computers computers_clist (pool_shm example_master) = Inr (ks, l, s')"
    "length ks = 2"
proof -
  let ?a = "example_computer\<lparr>hwinfo := (hwinfo example_computer)\<lparr>hw_name := ''zebra''\<rparr>\<rparr>"
  have c: "npools (c_limits ?a) = 0" "poolshmid (c_limits ?a) = -1" "npools (c_limits pool_computer) = 1" "poolshmid (c_limits pool_computer) = 0"
    by (simp_all add: example_computer_def pool_computer_def)
  have a: "computerlist_pools BUFFERLEN (c_limits ?a) (pool_shm example_master) = Inr (12, ''NO POOLS !!'')"
    "snd (snd (computer_pool_free (c_limits ?a, pool_shm example_master))) = pool_shm example_master"
    using c by (simp_all add: computerlist_pools_def computer_pool_free_def computer_pool_detach_shared_memory_def Let_def)
  have "shmat 0 (pool_shm example_master) = Some [''Default'']" by (simp add: shmat_def example_master_def shm_empty_def)
  moreover have "snprintf BUFFERLEN ''Default'' = ''Default''" by (simp add: snprintf_def max_defs)
  ultimately have b: "computerlist_pools 12 (c_limits pool_computer) (pool_shm example_master) = Inr (12, ''Default'')"
    using c by (simp add: computerlist_pools_def computer_pool_attach_shared_memory_def rd_def)
  obtain u cl where f: "computer_pool_free (c_limits ?a, pool_shm example_master) = (u, cl, pool_shm example_master)"
    using a(2) by (metis prod.collapse)
  obtain v cl' t where g: "computer_pool_free (c_limits pool_computer, pool_shm example_master) = (v, cl', t)" by (rule prod_cases3)
  obtain rows s' where r: "fill_computers BUFFERLEN two_computers (pool_shm example_master) = Inr (rows, s')"
    unfolding two_computers_def fill_computers.simps a(1) b f g andThen_simps prod.case by blast
  have n: "length rows = 2" using filled [OF r] by (simp add: two_computers_def)
  show thesis
  proof (rule that)
    show "length (map fst rows) = 2" unfolding length_map by (fact n)
  qed (simp only: drqm_update_computerlist_def r andThen_simps prod.case)
qed

lemma freed: "\<exists>t. free_computers (map Some ks) s = Inr t"
  by (induction ks arbitrary: s) auto

lemma refresh_unreached: "cp_conns p = [] \<Longrightarrow> cp_computers p = map Some ks \<Longrightarrow> \<exists>p'. refresh_computers srt p = Inr p'"
  using freed [of ks "pool_shm (cp_world p)"]
  by (auto simp: refresh_computers_def drqm_request_computerlist_def drqm_clean_computerlist_def request_computer_list_def connected_to_def Let_def
      show_computerlist_def drqm_update_computerlist_def)

theorem enable_reaches_other_computer_witness:
  "\<exists>p' rs p''. show_computerlist sort_with two_page = Inr p' \<and> hw_name (hwinfo (cl_rows (cp_clist p') ! 0)) = ''render1'' \<and>
    EnableComputers sort_with (\<lambda>_. None) [0] p' = Inr (rs, p'') \<and> map fst rs = [''10.0.0.1'']"
proof -
  let ?b = "hd two_computers"
  obtain ks l s' where r: "drqm_update_computerlist sort_with two_computers computers_clist (pool_shm example_master) = Inr (ks, l, s')"
    by (rule two_filled)
  have "None \<notin> set (map Some two_computers)" by auto
  then obtain p' where p': "show_computerlist sort_with two_page = Inr p'" "cp_conns p' = []" "cp_computers p' = map Some ks"
    using r by (simp add: show_computerlist_def two_page_def o_def)
  obtain p'' where p'': "refresh_computers sort_with p' = Inr p''" using refresh_unreached [OF p'(2,3)] by blast
  have n: "codes (hw_name (hwinfo pool_computer)) < codes (hw_name (hwinfo ?b))"
    by (simp add: two_computers_def pool_computer_def example_computer_def codes_def)
  have c: "cp_computers two_page = [Some ?b, Some pool_computer]" "cp_clist two_page = computers_clist\<lparr>cl_rows := []\<rparr>"
    by (simp_all add: two_page_def two_computers_def computers_clist_def)
  have h: "hw_name (hwinfo pool_computer) = ''render1''" "hw_address (hwinfo ?b) = ''10.0.0.1''"
    by (simp_all add: two_computers_def pool_computer_def example_computer_def)
  note e = enable_reaches_other_computer [OF sort_with_sorts n c p'(1), of "\<lambda>_. None", unfolded p'' andThen_simps h]
  show ?thesis using e p'(1) h(1) by (intro exI [of _ p'] exI [of _ p''] exI) auto
qed

theorem list_of_pools_overflows_witness:
  "drqm_update_computerlist sort_with [example_computer, pool_computer\<lparr>c_limits := (c_limits pool_computer)\<lparr>npools := 2\<rparr>\<rparr>] computers_clist
     (shm_empty\<lparr>segs := [0 \<mapsto> [''a'', ''b'']], next_id := 1\<rparr>) = Inl OutOfBounds"
  by (rule list_of_pools_overflows [where pool = "[''a'', ''b'']"])
    (simp_all add: example_computer_def pool_computer_def shmat_def shm_empty_def)

end
