(* ===== verification/Spec2Isabelle.thy ===== *)
theory Spec2Isabelle
  imports Envvars Outcomes Agreement Together Restore Machines Completion Taskenv Configfile Commands Hardware Copying Logs Actions
begin

text \<open>
  DrQueue is a distributed render queue.  One master (\<open>src/master.c\<close>) keeps a database of jobs and
  computers in shared memory; each computer runs a slave (\<open>src/slave.c\<close>), which asks the master for
  frames, runs the command of the job for each and reports how it ended.  The tools and the
  slaves talk to the master in requests over one connection each, and the master talks to the slaves
  the same way.  Nearly all of the logic is in \<open>src/libdrqueue\<close>.

  \<^bold>\<open>How the parts interact.\<close>  The master forks a process for each connection, which looks up
  the computer that calls, reads one request, runs its handler and exits.  A further process
  looks after the database every few seconds.  All of them share the database under one
  semaphore with \<open>SEM_UNDO\<close>.  Lists of variable length - the frames and blocked hosts of a job, its
  environment, the pools of a computer - are in System V segments of their own, which a record
  names by identifier and count.  A slave has a main process that takes tasks, a waiter for each
  task, a process that serves requests and one that looks for dead tasks; they share one record of a
  computer under a semaphore of its own.

  \<^bold>\<open>Foundations.\<close>  \<open>Prelude\<close>: machine integers, faults, checked array access, C strings, searches.
  \<open>Shm\<close>: the segments (\<open>locale segment_store\<close>) and the semaphore with undo (\<open>locale undo_lock\<close>,
  \<open>semaphores.c\<close>), both interpreted on the model's store and counter.  \<open>Types\<close>: the structures of
  the headers as records at their widths, and their constants; \<open>master\<close> is \<open>struct database\<close>
  with the segments, the clock and the process environment.  \<open>Conn\<close>: a connection, as what has still to be read, what was
  written, and how much more may be written before the peer is gone.

  \<^bold>\<open>Data of a job and of a computer.\<close>  \<open>Frames\<close>: the numbering of the frames (\<open>job.c\<close>).  \<open>Names\<close>: the contract
  \<open>name_set\<close> of a list of names in a segment; \<open>Hosts\<close> (\<open>job.c\<close>) and \<open>Pools\<close> (\<open>computer_pool.c\<close>) model the
  two lists and interpret it.  \<open>Envvars\<close> (\<open>envvars.c\<close>): the environment, a refinement of a map.
  \<open>Jobs\<close> (\<open>job.c\<close>): life of a job record.  \<open>Tasks\<close> (\<open>task.c\<close>, \<open>computer.c\<close>, \<open>computer_status.c\<close>): the slots of a
  computer.

  \<^bold>\<open>Giving out frames.\<close>  \<open>Dispatch\<close> (\<open>job.c\<close>): \<open>job_available\<close> and \<open>job_update_info\<close>.  \<open>Order\<close>: the order of the jobs
  (\<open>locale comparator\<close>).  \<open>Scheduler\<close> (\<open>request.c\<close>): \<open>handle_r_r_availjob\<close> with its rotation over jobs of one priority.  \<open>World\<close>
  says what a well-formed database is; \<open>Available\<close>, \<open>Fairness\<close> and \<open>Progress\<close> prove what the three promise against it.

  \<^bold>\<open>Requests to the master.\<close>  \<open>Exchange\<close> (\<open>communications.c\<close>): transfers of records.  \<open>Handlers\<close>,
  \<open>Requests\<close>, \<open>Resize\<close>, \<open>Blocking\<close>: the handlers, \<open>Service\<close>: \<open>handle_request_master\<close>.  \<open>Yields\<close> sets up a rule calculus - what holds
  of the result of a computation, if it has one - on which \<open>Calls\<close>, \<open>Invariant\<close>, \<open>Keeping\<close>, \<open>Preserved\<close> and \<open>Requested\<close> prove that every
  request keeps the invariant of the database, and \<open>Locking\<close> that every handler process leaves the semaphore free.
  \<open>Master\<close> (\<open>master.c\<close>): start, checks, clean-up, and the step relation of the whole master with its
  invariant.  \<open>Outcomes\<close>: what single requests achieve.  \<open>Completion\<close>: that a job comes to its end.

  \<^bold>\<open>The database file.\<close>  \<open>Database\<close> (\<open>database.c\<close>): saving and loading, and that whatever the file
  holds the master starts in a good state.  \<open>Restore\<close>: what was saved comes back.

  \<^bold>\<open>Clients and slaves.\<close>  \<open>Client\<close> (\<open>request.c\<close>): the functions that send a request.  \<open>Agreement\<close>: a job
  that is sent arrives.  \<open>Slave\<close> (\<open>slave.c\<close>, \<open>request.c\<close>): the processes of a slave.  \<open>Running\<close>: asking for a task; \<open>Upkeep\<close>: the
  consistency process, the invariant of a slave as a state machine, and the end of its loop over tasks.  \<open>Together\<close>: master,
  slave and client across a connection.

  \<^bold>\<open>Under the connection.\<close>  \<open>Bytes\<close> (\<open>communications.c\<close>, \<open>common.c\<close>): the loops around \<open>read\<close> and \<open>write\<close>, the bytes of a number
  and the comparison of sizes.  \<open>Machines\<close> (\<open>communications.c\<close>, \<open>job.c\<close>): the conversion of every structure between the orders of two
  machines.  They justify the items of \<open>Conn\<close>, on which everything else is built, between machines of one
  byte order, and say which five fields are wrong between others.

  \<^bold>\<open>Text.\<close>  \<open>Text\<close>: \<open>printf\<close> directives, \<open>snprintf\<close> and the environment as a map.  \<open>Taskenv\<close> (\<open>task.c\<close>): the environment
  of a task, and when the frames it lists are those of the block.  \<open>Configfile\<close> (\<open>config.c\<close>): reading a configuration file sets exactly its
  settings.  \<open>Jobscript\<close> (\<open>jobscript.c\<close>) and \<open>Scripts\<close> (\<open>*sg.c\<close>): the writer of scripts and the nineteen generators, whose
  scripts are read back.

  \<^bold>\<open>From a file to the master.\<close>  \<open>Common\<close> (\<open>common.c\<close>): the environment a program starts from.  \<open>Sendjob\<close> (\<open>sendjob.cpp\<close>): reading
  the description of a job, one function per kind.  \<open>Registration\<close>: \<open>register_job\<close> and its handler, with both ends of the connection.
  \<open>Submission\<close>: what a file describes is what the master keeps.  \<open>Tools\<close> (\<open>cjob.c\<close>, \<open>ctask.c\<close>, \<open>requeue.c\<close>, \<open>blockhost.c\<close>, \<open>jobinfo.c\<close>,
  \<open>jobfinfo.c\<close>, \<open>compinfo.c\<close>): the command line tools; \<open>Commands\<close>: what they do to a job at the master and show of it.

  \<^bold>\<open>The manager.\<close>  \<open>Dialog\<close> (\<open>drqman/drqm_jobs.c\<close>): the dialog in which a job is described, copied and submitted, as what its
  entries and buttons hold.  \<open>Copying\<close>: what a user can do to the dialog as a step relation with its invariant, and what becomes of a
  job that is copied and submitted again.  \<open>Rows\<close> (also \<open>drqm_computers.c\<close>, \<open>drqm_jobs_jdd.c\<close>): the lists of jobs, computers and frames and
  what each column orders them by, with a locale for what the toolkit needs of a comparison.  \<open>Manager\<close> (also \<open>drqm_request.c\<close>): the pages of
  jobs and computers, the menu of a job, and the windows with the details, as far as they send requests.  \<open>Actions\<close>: what these requests do
  at the master, and which job or computer they reach.

  \<^bold>\<open>The machine of a slave.\<close>  \<open>Hardware\<close> (\<open>computer_info.linux.h\<close>, \<open>computer_info.c\<close>): what a slave reads of its machine from
  \<^verbatim>\<open>/proc\<close>, against tables of what a line tells, and what the report says.

  \<^bold>\<open>Logs.\<close>  \<open>Logs\<close> (\<open>logger.c\<close>): which file the output of a frame goes to and where the manager looks for it, the levels of
  messages, and the logs of the master and the slaves with their bound.

  \<^bold>\<open>What a run of the model is.\<close>  Handlers are functions from the state and the connection to
  either a fault (\<open>Inl\<close>: an access out of bounds, a division by zero, a pointer that was never
  set, a semaphore that is never freed) or a new state and connection.  Statements about
  results are about \<open>Inr\<close>; where the point is that there is one, it says so.  Processes are interleaved at
  whole requests, and for the checks and the slave at whole sections under the lock; what the
  handlers do between two of their own sections is not interleaved with others.  The clock stands still during one of these steps.
  The answers of \<open>shmget\<close> and \<open>shmat\<close> are arbitrary and may change between steps; \<open>malloc\<close> does not
  fail, except for a negative size.  Memory the program reads without having set it is a parameter
  (\<open>junk\<close>, \<open>stale\<close>, \<open>blank\<close>).  A connection may break off between two structures on either side.

  \<^bold>\<open>Bounds.\<close>  The sizes of the arrays are those of \<open>constants.h\<close>: 100 jobs, 100 computers, 32 tasks.  The only
  loop of the program that need not end by its form is that of a slave over the tasks it is
  offered; \<open>take_tasks\<close> is given the rounds the environment plays, and \<open>MAXTASKS + 1\<close> of them are always
  enough (\<open>task_loop_ends\<close>), because each round that goes on takes one more slot.

  \<^bold>\<open>Not modelled.\<close>  Sockets, signals and their handlers, process creation, and the names of files, which are system
  calls; the database file is a connection like the others, and \<^verbatim>\<open>DRQUEUE_DB\<close> is taken to be set.  That the other parts log messages
  on their way (calls of \<open>log_auto\<close>), and error texts (\<open>drerrno.c\<close>).  The second reader of configuration files (\<open>config_read\<close> in \<open>config.c\<close> and \<open>list.c\<close>), which is unfinished and
  only called by \<open>cfgreader\<close>.  The load average and the hardware information of other systems than Linux, which are
  parameters.  Removing the log files
  of a task.  \<open>job_environment_set\<close>, which only the viewer of \<open>drqman\<close> calls.  Of the graphical manager \<open>src/drqman\<close> the layout of the windows,
  the selection of files, the viewers of frames, and the labels that only show what a record holds; the toolkit is a parameter where it sorts.
  The bindings, which are generated.
\<close>

end
